(* ===== verification/Prelude.thy ===== *)
theory Prelude
  imports Main "HOL-Library.Word"
begin

text \<open>
  Shared vocabulary of the development: the machine integers of the C programs
  (\<open>__u8\<close> to \<open>__u64\<close>), their little-endian byte images, the network byte order
  conversion, rounding to an alignment, and the rule collections the component
  theories extend.
\<close>

unbundle bit_operations_syntax

section \<open>Rule collections\<close>

named_theorems event_simps \<open>unfolding rules of the event structs and their byte images\<close>
named_theorems handler_defs \<open>definitions of the BPF programs\<close>
named_theorems layout_defs \<open>transcribed C type declarations\<close>
named_theorems layout_simps \<open>sizes and alignments of transcribed C types\<close>

section \<open>Machine integers\<close>

type_synonym u8 = "8 word"
type_synonym u16 = "16 word"
type_synonym u32 = "32 word"
type_synonym u64 = "64 word"
type_synonym i32 = "32 word" \<comment> \<open>a C \<open>int\<close>; its value is \<open>sint\<close>\<close>
type_synonym byte = u8
type_synonym bytes = "byte list"

section \<open>Rounding up to a multiple\<close>

definition round_up :: "nat \<Rightarrow> nat \<Rightarrow> nat" where
  "round_up b a = (b + a - 1) div a * a"

lemma round_up_ge: "0 < a \<Longrightarrow> b \<le> round_up b a"
proof -
  assume a: "0 < a"
  have "(b + a - 1) div a * a + (b + a - 1) mod a = b + a - 1"
    by (rule div_mult_mod_eq)
  moreover have "(b + a - 1) mod a < a" using a by simp
  ultimately show ?thesis unfolding round_up_def by linarith
qed

lemma round_up_dvd: "a dvd round_up b a"
  by (simp add: round_up_def)

lemma round_up_less: "0 < a \<Longrightarrow> round_up b a < b + a"
proof -
  assume a: "0 < a"
  have "(b + a - 1) div a * a \<le> b + a - 1"
    by (rule div_times_less_eq_dividend)
  with a show ?thesis unfolding round_up_def by linarith
qed

lemma round_up_id: "0 < a \<Longrightarrow> a dvd b \<Longrightarrow> round_up b a = b"
proof -
  assume a: "0 < a" and d: "a dvd b"
  then obtain k where k: "b = a * k" by blast
  have "(a * k + a - 1) div a = k"
    by (rule div_nat_eqI) (use a in \<open>auto simp: algebra_simps\<close>)
  then show ?thesis by (simp add: round_up_def k mult.commute)
qed

section \<open>Little-endian byte images\<close>

fun le_bytes :: "nat \<Rightarrow> nat \<Rightarrow> bytes" where
  "le_bytes 0 v = []"
| "le_bytes (Suc n) v = word_of_nat (v mod 256) # le_bytes n (v div 256)"

fun le_value :: "bytes \<Rightarrow> nat" where
  "le_value [] = 0"
| "le_value (b # bs) = unat b + 256 * le_value bs"

lemma unat_bound: "unat w < 2 ^ LENGTH('a)" for w :: "'a::len word"
  by (rule unsigned_less)

lemma length_le_bytes [simp]: "length (le_bytes n v) = n"
  by (induction n arbitrary: v) auto

lemma unat_byte_mod: "unat (word_of_nat (v mod 256) :: byte) = v mod 256"
  by (simp add: unat_of_nat)

lemma le_value_le_bytes: "le_value (le_bytes n v) = v mod 256 ^ n"
proof (induction n arbitrary: v)
  case 0
  then show ?case by simp
next
  case (Suc n)
  have "v mod (256 * 256 ^ n) = 256 * (v div 256 mod 256 ^ n) + v mod 256"
    by (rule mod_mult2_eq)
  with Suc show ?case by (simp add: unat_byte_mod)
qed

lemma le_value_bound: "le_value bs < 256 ^ length bs"
proof (induction bs)
  case Nil
  then show ?case by simp
next
  case (Cons b bs)
  have b: "unat b < 256" using unat_bound [of b] by simp
  from Cons have "Suc (le_value bs) \<le> 256 ^ length bs" by simp
  then have "256 * Suc (le_value bs) \<le> 256 * 256 ^ length bs" by (rule mult_le_mono2)
  with b show ?case by simp
qed

lemma le_bytes_le_value: "length bs = n \<Longrightarrow> le_bytes n (le_value bs) = bs"
proof (induction bs arbitrary: n)
  case Nil
  then show ?case by simp
next
  case (Cons b bs)
  have b: "unat b < 256" using unat_bound [of b] by simp
  have "(unat b + 256 * le_value bs) mod 256 = unat b" and
    "(unat b + 256 * le_value bs) div 256 = le_value bs"
    using b by simp_all
  with Cons show ?case by auto
qed

definition le16 :: "u16 \<Rightarrow> bytes" where "le16 w = le_bytes 2 (unat w)"
definition le32 :: "u32 \<Rightarrow> bytes" where "le32 w = le_bytes 4 (unat w)"
definition le64 :: "u64 \<Rightarrow> bytes" where "le64 w = le_bytes 8 (unat w)"
definition un_le16 :: "bytes \<Rightarrow> u16" where "un_le16 bs = word_of_nat (le_value bs)"
definition un_le32 :: "bytes \<Rightarrow> u32" where "un_le32 bs = word_of_nat (le_value bs)"
definition un_le64 :: "bytes \<Rightarrow> u64" where "un_le64 bs = word_of_nat (le_value bs)"

lemma length_le16 [simp]: "length (le16 w) = 2" by (simp add: le16_def)
lemma length_le32 [simp]: "length (le32 w) = 4" by (simp add: le32_def)
lemma length_le64 [simp]: "length (le64 w) = 8" by (simp add: le64_def)

lemma un_le16_le16 [simp]: "un_le16 (le16 w) = w"
  using unat_bound [of w] by (simp add: un_le16_def le16_def le_value_le_bytes)

lemma un_le32_le32 [simp]: "un_le32 (le32 w) = w"
  using unat_bound [of w] by (simp add: un_le32_def le32_def le_value_le_bytes)

lemma un_le64_le64 [simp]: "un_le64 (le64 w) = w"
  using unat_bound [of w] by (simp add: un_le64_def le64_def le_value_le_bytes)

lemma le16_un_le16 [simp]: "length bs = 2 \<Longrightarrow> le16 (un_le16 bs) = bs"
  using le_value_bound [of bs]
  by (simp add: un_le16_def le16_def unat_of_nat le_bytes_le_value)

lemma le32_un_le32 [simp]: "length bs = 4 \<Longrightarrow> le32 (un_le32 bs) = bs"
  using le_value_bound [of bs]
  by (simp add: un_le32_def le32_def unat_of_nat le_bytes_le_value)

lemma le64_un_le64 [simp]: "length bs = 8 \<Longrightarrow> le64 (un_le64 bs) = bs"
  using le_value_bound [of bs]
  by (simp add: un_le64_def le64_def unat_of_nat le_bytes_le_value)

section \<open>Network byte order\<close>

text \<open>
  \<open>bpf_ntohs\<close> on the little-endian targets the programs are compiled for swaps
  the two bytes; a big-endian 16-bit field holds its high byte first.
\<close>

definition bpf_ntohs :: "u16 \<Rightarrow> u16" where
  "bpf_ntohs w = un_le16 (rev (le16 w))"

definition be16 :: "u16 \<Rightarrow> bytes" where "be16 w = rev (le16 w)"

lemma length_be16 [simp]: "length (be16 w) = 2" by (simp add: be16_def)

lemma bpf_ntohs_be16 [simp]: "bpf_ntohs (un_le16 (be16 p)) = p"
  by (simp add: bpf_ntohs_def be16_def)

lemma bpf_ntohs_involution [simp]: "bpf_ntohs (bpf_ntohs w) = w"
  by (simp add: bpf_ntohs_def)

section \<open>The two halves of a pid\_tgid\<close>

definition hi32 :: "u64 \<Rightarrow> u32" where "hi32 w = ucast (drop_bit 32 w)"
definition lo32 :: "u64 \<Rightarrow> u32" where "lo32 w = ucast w"
definition mk_pid_tgid :: "u32 \<Rightarrow> u32 \<Rightarrow> u64" where
  "mk_pid_tgid p t = push_bit 32 (ucast p) OR ucast t"

lemma hi32_mk [simp]: "hi32 (mk_pid_tgid p t) = p"
  by (rule bit_word_eqI)
    (auto simp: hi32_def mk_pid_tgid_def bit_simps dest: bit_imp_le_length)

lemma lo32_mk [simp]: "lo32 (mk_pid_tgid p t) = t"
  by (rule bit_word_eqI)
    (auto simp: lo32_def mk_pid_tgid_def bit_simps)

lemma mk_hi_lo [simp]: "mk_pid_tgid (hi32 w) (lo32 w) = w"
  by (rule bit_word_eqI)
    (auto simp: hi32_def lo32_def mk_pid_tgid_def bit_simps)

end
