(* ===== verification/CTypes.thy ===== *)
theory CTypes
  imports Prelude
begin

text \<open>
  The layout of C types on the 64-bit little-endian target the programs are compiled
  for: size, alignment, bit-field placement and member offsets. The declarations of
  \<open>vmlinux.h\<close> and \<open>common.h\<close> are values of \<open>ctype\<close>; the member accesses of
  the programs (\<open>BPF_CORE_READ(sk, __sk_common.skc_dport)\<close>) are paths resolved by
  \<open>offset_path\<close>. The lemmas show that every resolved member lies inside its
  aggregate, at an aligned offset where the aggregate is not packed, and that the
  members of a struct do not overlap.
\<close>

section \<open>Types\<close>

datatype ctype =
    CInt nat \<comment> \<open>an integer, boolean or enum of that many bytes\<close>
  | CPtr string \<comment> \<open>a data or function pointer, with the pointee as declared\<close>
  | CArr ctype nat
  | CStruct "cfield list"
  | CPacked "cfield list" \<comment> \<open>a struct with \<open>__attribute__((packed))\<close>\<close>
  | CUnion "cfield list"
and cfield =
    F string ctype \<comment> \<open>a member; the empty name is an anonymous one\<close>
  | BF string ctype nat \<comment> \<open>a bit-field; the empty name is padding\<close>

abbreviation c_char :: ctype where "c_char \<equiv> CInt 1"
abbreviation c_schar :: ctype where "c_schar \<equiv> CInt 1"
abbreviation c_uchar :: ctype where "c_uchar \<equiv> CInt 1"
abbreviation c_bool :: ctype where "c_bool \<equiv> CInt 1"
abbreviation c_short :: ctype where "c_short \<equiv> CInt 2"
abbreviation c_ushort :: ctype where "c_ushort \<equiv> CInt 2"
abbreviation c_int :: ctype where "c_int \<equiv> CInt 4"
abbreviation c_uint :: ctype where "c_uint \<equiv> CInt 4"
abbreviation c_enum :: ctype where "c_enum \<equiv> CInt 4"
abbreviation c_long :: ctype where "c_long \<equiv> CInt 8"
abbreviation c_ulong :: ctype where "c_ulong \<equiv> CInt 8"
abbreviation c_llong :: ctype where "c_llong \<equiv> CInt 8"
abbreviation c_ullong :: ctype where "c_ullong \<equiv> CInt 8"

section \<open>Alignment and size\<close>

fun calign :: "ctype \<Rightarrow> nat" and falign :: "cfield \<Rightarrow> nat" and max_align :: "cfield list \<Rightarrow> nat" where
  "calign (CInt n) = n"
| "calign (CPtr s) = 8"
| "calign (CArr t n) = calign t"
| "calign (CStruct fs) = max_align fs"
| "calign (CPacked fs) = 1"
| "calign (CUnion fs) = max_align fs"
| "falign (F nm t) = calign t"
| "falign (BF nm t w) = (if nm = [] then 1 else calign t)"
| "max_align [] = 1"
| "max_align (f # fs) = max (falign f) (max_align fs)"

text \<open>
  Positions inside a struct are counted in bits. A member starts at the next multiple
  of its alignment; a bit-field continues in the current storage unit of its type if
  it fits there and starts the next unit otherwise; a zero-width one closes the unit.
\<close>

fun csize :: "ctype \<Rightarrow> nat"
and fwidth :: "cfield \<Rightarrow> nat" \<comment> \<open>in bits\<close>
and fstart :: "bool \<Rightarrow> nat \<Rightarrow> cfield \<Rightarrow> nat"
and struct_end :: "bool \<Rightarrow> nat \<Rightarrow> cfield list \<Rightarrow> nat"
and union_end :: "cfield list \<Rightarrow> nat"
where
  "csize (CInt n) = n"
| "csize (CPtr s) = 8"
| "csize (CArr t n) = csize t * n"
| "csize (CStruct fs) = round_up (round_up (struct_end False 0 fs) 8 div 8) (max_align fs)"
| "csize (CPacked fs) = round_up (struct_end True 0 fs) 8 div 8"
| "csize (CUnion fs) = round_up (round_up (union_end fs) 8 div 8) (max_align fs)"
| "fwidth (F nm t) = 8 * csize t"
| "fwidth (BF nm t w) = w"
| "fstart pk b (F nm t) = round_up b (if pk then 8 else 8 * calign t)"
| "fstart pk b (BF nm t w) =
     (let u = 8 * csize t in
      if w = 0 then round_up b u
      else if pk \<or> b mod u + w \<le> u then b
      else round_up b u)"
| "struct_end pk b [] = b"
| "struct_end pk b (f # fs) = struct_end pk (fstart pk b f + fwidth f) fs"
| "union_end [] = 0"
| "union_end (f # fs) = max (fwidth f) (union_end fs)"

section \<open>Members and paths\<close>

text \<open>
  \<open>find_field t nm\<close> is the byte offset and type of the member named \<open>nm\<close>;
  members of anonymous structs and unions are members of the enclosing type.
\<close>

fun find_field :: "ctype \<Rightarrow> string \<Rightarrow> (nat \<times> ctype) option"
and find_struct :: "bool \<Rightarrow> nat \<Rightarrow> cfield list \<Rightarrow> string \<Rightarrow> (nat \<times> ctype) option"
and find_union :: "cfield list \<Rightarrow> string \<Rightarrow> (nat \<times> ctype) option"
and find_member :: "cfield \<Rightarrow> string \<Rightarrow> (nat \<times> ctype) option"
where
  "find_field (CStruct fs) nm = find_struct False 0 fs nm"
| "find_field (CPacked fs) nm = find_struct True 0 fs nm"
| "find_field (CUnion fs) nm = find_union fs nm"
| "find_field (CInt n) nm = None"
| "find_field (CPtr s) nm = None"
| "find_field (CArr t n) nm = None"
| "find_struct pk b [] nm = None"
| "find_struct pk b (f # fs) nm =
     (case find_member f nm of
        Some (off, t) \<Rightarrow> Some (fstart pk b f div 8 + off, t)
      | None \<Rightarrow> find_struct pk (fstart pk b f + fwidth f) fs nm)"
| "find_union [] nm = None"
| "find_union (f # fs) nm =
     (case find_member f nm of Some r \<Rightarrow> Some r | None \<Rightarrow> find_union fs nm)"
| "find_member (F nm' t) nm =
     (if nm' = nm then Some (0, t) else if nm' = [] then find_field t nm else None)"
| "find_member (BF nm' t w) nm = None"

fun offset_path :: "ctype \<Rightarrow> string list \<Rightarrow> (nat \<times> ctype) option" where
  "offset_path t [] = Some (0, t)"
| "offset_path t (nm # nms) =
     (case find_field t nm of
        None \<Rightarrow> None
      | Some (off, t') \<Rightarrow>
          (case offset_path t' nms of
             None \<Rightarrow> None
           | Some (off', t'') \<Rightarrow> Some (off + off', t'')))"

text \<open>A well-formed type has no zero-sized scalar, and integers of power-of-two sizes.\<close>

fun wf_ctype :: "ctype \<Rightarrow> bool" and wf_fields :: "cfield list \<Rightarrow> bool" and wf_field :: "cfield \<Rightarrow> bool" where
  "wf_ctype (CInt n) = (n \<in> {1, 2, 4, 8, 16})"
| "wf_ctype (CPtr s) = True"
| "wf_ctype (CArr t n) = wf_ctype t"
| "wf_ctype (CStruct fs) = wf_fields fs"
| "wf_ctype (CPacked fs) = wf_fields fs"
| "wf_ctype (CUnion fs) = wf_fields fs"
| "wf_fields [] = True"
| "wf_fields (f # fs) = (wf_field f \<and> wf_fields fs)"
| "wf_field (F nm t) = wf_ctype t"
| "wf_field (BF nm t w) = (wf_ctype t \<and> 0 < csize t)"


text \<open>Types without a packed struct inside.\<close>

fun unpacked :: "ctype \<Rightarrow> bool" and unpacked_fields :: "cfield list \<Rightarrow> bool" and unpacked_field :: "cfield \<Rightarrow> bool" where
  "unpacked (CInt n) = True"
| "unpacked (CPtr s) = True"
| "unpacked (CArr t n) = unpacked t"
| "unpacked (CStruct fs) = unpacked_fields fs"
| "unpacked (CPacked fs) = False"
| "unpacked (CUnion fs) = unpacked_fields fs"
| "unpacked_fields [] = True"
| "unpacked_fields (f # fs) = (unpacked_field f \<and> unpacked_fields fs)"
| "unpacked_field (F nm t) = unpacked t"
| "unpacked_field (BF nm t w) = unpacked t"

text \<open>The members of a struct with the bit interval each one occupies.\<close>

fun placed :: "bool \<Rightarrow> nat \<Rightarrow> cfield list \<Rightarrow> (nat \<times> nat \<times> cfield) list" where
  "placed pk b [] = []"
| "placed pk b (f # fs) =
     (fstart pk b f, fstart pk b f + fwidth f, f) # placed pk (fstart pk b f + fwidth f) fs"

section \<open>Alignment facts\<close>

lemma pow2_sizes_dvd:
  assumes "a \<in> {1, 2, 4, 8, 16 :: nat}" "b \<in> {1, 2, 4, 8, 16}"
  shows "a dvd max a b" "b dvd max a b" "max a b \<in> {1, 2, 4, 8, 16}"
  using assms by (auto simp: max_def)

lemma calign_sizes:
  "wf_ctype t \<Longrightarrow> calign t \<in> {1, 2, 4, 8, 16}"
  "wf_fields fs \<Longrightarrow> max_align fs \<in> {1, 2, 4, 8, 16}"
  "wf_field f \<Longrightarrow> falign f \<in> {1, 2, 4, 8, 16}"
proof (induction t and fs and f rule: wf_ctype_wf_fields_wf_field.induct)
  case (8 f fs)
  then show ?case using pow2_sizes_dvd(3) by simp
qed auto

lemma calign_pos: "wf_ctype t \<Longrightarrow> 0 < calign t"
  using calign_sizes(1) by fastforce

lemma max_align_pos: "wf_fields fs \<Longrightarrow> 0 < max_align fs"
  using calign_sizes(2) by fastforce

lemma falign_dvd_max_align:
  "wf_fields (f # fs) \<Longrightarrow> falign f dvd max_align (f # fs)"
  "wf_fields (f # fs) \<Longrightarrow> max_align fs dvd max_align (f # fs)"
  using pow2_sizes_dvd [of "falign f" "max_align fs"] calign_sizes(2,3) by auto

text \<open>Arrays of a type keep every element aligned: the size is a multiple of the alignment.\<close>

lemma calign_dvd_csize: "wf_ctype t \<Longrightarrow> calign t dvd csize t"
proof (induction t)
  case (CArr t n)
  then show ?case by (simp add: dvd_mult2)
qed (auto simp: round_up_dvd)

section \<open>Bounds\<close>

lemma fstart_ge: "wf_field f \<Longrightarrow> b \<le> fstart pk b f"
proof (cases f)
  case (F nm t)
  assume "wf_field f"
  with F have "0 < calign t" using calign_pos by simp
  with F show ?thesis by (auto intro: round_up_ge)
next
  case (BF nm t w)
  assume "wf_field f"
  with BF have "0 < csize t" by simp
  with BF show ?thesis by (auto simp: Let_def intro: round_up_ge)
qed

lemma struct_end_ge: "wf_fields fs \<Longrightarrow> b \<le> struct_end pk b fs"
proof (induction fs arbitrary: b)
  case (Cons f fs)
  then have "b \<le> fstart pk b f + fwidth f" using fstart_ge [of f b pk] by simp
  also have "\<dots> \<le> struct_end pk (fstart pk b f + fwidth f) fs" using Cons by simp
  finally show ?case by simp
qed simp

lemma fstart_F_bytes: "8 dvd fstart pk b (F nm t)"
  using round_up_dvd [of "8 * calign t" b] round_up_dvd [of 8 b]
  by (auto intro: dvd_trans [of _ "8 * calign t"])

lemma bytes_le_csize:
  assumes "8 * n \<le> e" and "0 < a"
  shows "n \<le> round_up (round_up e 8 div 8) a"
proof -
  have "8 * n \<le> round_up e 8" using assms(1) round_up_ge [of 8 e] by linarith
  then have "n \<le> round_up e 8 div 8" by linarith
  also have "\<dots> \<le> round_up (round_up e 8 div 8) a" using assms(2) by (rule round_up_ge)
  finally show ?thesis .
qed

lemma bytes_le_packed:
  assumes "8 * n \<le> e"
  shows "n \<le> round_up e 8 div 8"
  using assms round_up_ge [of 8 e] by linarith

text \<open>
  A member found in an aggregate lies inside it. The struct case counts from the bit
  position reached so far.
\<close>

lemma find_field_bounds:
  "wf_ctype t \<Longrightarrow> find_field t nm = Some (off, t') \<Longrightarrow> off + csize t' \<le> csize t"
  "wf_fields fs \<Longrightarrow> find_struct pk b fs nm = Some (off, t') \<Longrightarrow>
     b \<le> 8 * off \<and> 8 * (off + csize t') \<le> struct_end pk b fs"
  "wf_fields fs \<Longrightarrow> find_union fs nm = Some (off, t') \<Longrightarrow> 8 * (off + csize t') \<le> union_end fs"
  "wf_field f \<Longrightarrow> find_member f nm = Some (off, t') \<Longrightarrow>
     8 * (off + csize t') \<le> fwidth f \<and> (\<exists>nm' u. f = F nm' u)"
proof (induction t nm and pk b fs nm and fs nm and f nm arbitrary: off t' and off t' and off t' and off t'
    rule: find_field_find_struct_find_union_find_member.induct)
  case (1 fs nm)
  then have "8 * (off + csize t') \<le> struct_end False 0 fs" by simp
  with 1 show ?case using bytes_le_csize max_align_pos by simp
next
  case (2 fs nm)
  then have "8 * (off + csize t') \<le> struct_end True 0 fs" by simp
  then show ?case using bytes_le_packed by simp
next
  case (3 fs nm)
  then have "8 * (off + csize t') \<le> union_end fs" by simp
  with 3 show ?case using bytes_le_csize max_align_pos by simp
next
  case (8 pk b f fs nm)
  have ge: "b \<le> fstart pk b f" using 8 fstart_ge by simp
  show ?case
  proof (cases "find_member f nm")
    case None
    with 8 ge show ?thesis by fastforce
  next
    case (Some r)
    obtain off' where off': "r = (off', t')" "off = fstart pk b f div 8 + off'"
      using 8 Some by (auto split: prod.splits)
    have m: "8 * (off' + csize t') \<le> fwidth f" "\<exists>nm' u. f = F nm' u"
      using 8 Some off' by auto
    then have "8 * (fstart pk b f div 8) = fstart pk b f"
      using fstart_F_bytes by auto
    moreover have "fstart pk b f + fwidth f \<le> struct_end pk b (f # fs)"
      using 8 struct_end_ge by simp
    ultimately show ?thesis using ge m off' by (simp add: algebra_simps)
  qed
next
  case (10 f fs nm)
  then show ?case by (fastforce split: option.splits)
next
  case (11 nm' t nm)
  then show ?case by (auto split: if_splits)
qed auto

lemma find_field_wf:
  "wf_ctype t \<Longrightarrow> find_field t nm = Some (off, t') \<Longrightarrow> wf_ctype t'"
  "wf_fields fs \<Longrightarrow> find_struct pk b fs nm = Some (off, t') \<Longrightarrow> wf_ctype t'"
  "wf_fields fs \<Longrightarrow> find_union fs nm = Some (off, t') \<Longrightarrow> wf_ctype t'"
  "wf_field f \<Longrightarrow> find_member f nm = Some (off, t') \<Longrightarrow> wf_ctype t'"
proof (induction t nm and pk b fs nm and fs nm and f nm arbitrary: off t' and off t' and off t' and off t'
    rule: find_field_find_struct_find_union_find_member.induct)
  case (8 pk b f fs nm)
  then show ?case by (fastforce split: option.splits)
next
  case (10 f fs nm)
  then show ?case by (fastforce split: option.splits)
next
  case (11 nm' t nm)
  then show ?case by (auto split: if_splits)
qed auto

lemma offset_path_bounds:
  "wf_ctype t \<Longrightarrow> offset_path t nms = Some (off, t') \<Longrightarrow> off + csize t' \<le> csize t"
proof (induction nms arbitrary: t off)
  case (Cons nm nms)
  then obtain o1 t1 o2 where f: "find_field t nm = Some (o1, t1)"
    and p: "offset_path t1 nms = Some (o2, t')" and off: "off = o1 + o2"
    by (auto split: option.splits)
  have "o2 + csize t' \<le> csize t1" using Cons.IH [OF _ p] find_field_wf(1) [OF Cons.prems(1) f] .
  moreover have "o1 + csize t1 \<le> csize t" using find_field_bounds(1) [OF Cons.prems(1) f] .
  ultimately show ?case using off by simp
qed simp


section \<open>Members of unpacked types are aligned\<close>

lemma find_field_aligned:
  "wf_ctype t \<Longrightarrow> unpacked t \<Longrightarrow> find_field t nm = Some (off, t') \<Longrightarrow>
     calign t' dvd off \<and> calign t' dvd calign t \<and> unpacked t'"
  "wf_fields fs \<Longrightarrow> unpacked_fields fs \<Longrightarrow> \<not> pk \<Longrightarrow> find_struct pk b fs nm = Some (off, t') \<Longrightarrow>
     calign t' dvd off \<and> calign t' dvd max_align fs \<and> unpacked t'"
  "wf_fields fs \<Longrightarrow> unpacked_fields fs \<Longrightarrow> find_union fs nm = Some (off, t') \<Longrightarrow>
     calign t' dvd off \<and> calign t' dvd max_align fs \<and> unpacked t'"
  "wf_field f \<Longrightarrow> unpacked_field f \<Longrightarrow> find_member f nm = Some (off, t') \<Longrightarrow>
     calign t' dvd off \<and> calign t' dvd falign f \<and> unpacked t' \<and> (\<exists>nm' u. f = F nm' u)"
proof (induction t nm and pk b fs nm and fs nm and f nm arbitrary: off t' and off t' and off t' and off t'
    rule: find_field_find_struct_find_union_find_member.induct)
  case (8 pk b f fs nm)
  note dvds = falign_dvd_max_align [OF 8(3)]
  show ?case
  proof (cases "find_member f nm")
    case None
    with 8 have "calign t' dvd off \<and> calign t' dvd max_align fs \<and> unpacked t'" by simp
    with dvds show ?thesis by (auto intro: dvd_trans)
  next
    case (Some r)
    obtain off' where off': "r = (off', t')" "off = fstart pk b f div 8 + off'"
      using 8 Some by (auto split: prod.splits)
    have m: "calign t' dvd off'" "calign t' dvd falign f" "unpacked t'" "\<exists>nm' u. f = F nm' u"
      using 8 Some off' by auto
    then have "falign f dvd fstart pk b f div 8"
      using round_up_dvd [of "8 * falign f" b] 8(5) by (auto simp: dvd_div_iff_mult mult.commute
          dest: dvd_mult_left)
    with m have "calign t' dvd fstart pk b f div 8" by (auto intro: dvd_trans)
    with m off' dvds show ?thesis by (auto intro: dvd_trans dvd_add)
  qed
next
  case (10 f fs nm)
  note dvds = falign_dvd_max_align [OF 10(3)]
  with 10 show ?case by (fastforce split: option.splits intro: dvd_trans)
next
  case (11 nm' t nm)
  then show ?case by (auto split: if_splits)
qed auto

lemma offset_path_aligned:
  "wf_ctype t \<Longrightarrow> unpacked t \<Longrightarrow> offset_path t nms = Some (off, t') \<Longrightarrow>
     calign t' dvd off \<and> calign t' dvd calign t"
proof (induction nms arbitrary: t off)
  case (Cons nm nms)
  then obtain o1 t1 o2 where f: "find_field t nm = Some (o1, t1)"
    and p: "offset_path t1 nms = Some (o2, t')" and off: "off = o1 + o2"
    by (auto split: option.splits)
  note fa = find_field_aligned(1) [OF Cons.prems(1,2) f]
  have "calign t' dvd o2 \<and> calign t' dvd calign t1"
    using Cons.IH [OF _ _ p] find_field_wf(1) [OF Cons.prems(1) f] fa by blast
  with fa off show ?case by (auto intro: dvd_trans dvd_add)
qed simp

section \<open>Members of a struct do not overlap\<close>

lemma placed_from: "wf_fields fs \<Longrightarrow> (s, e, f) \<in> set (placed pk b fs) \<Longrightarrow> b \<le> s \<and> s \<le> e"
proof (induction fs arbitrary: b)
  case (Cons g fs)
  then show ?case using fstart_ge [of g b pk] by fastforce
qed simp

lemma placed_disjoint:
  "wf_fields fs \<Longrightarrow> sorted_wrt (\<lambda>p q. fst (snd p) \<le> fst q) (placed pk b fs)"
proof (induction fs arbitrary: b)
  case (Cons g fs)
  have "\<forall>q \<in> set (placed pk (fstart pk b g + fwidth g) fs). fstart pk b g + fwidth g \<le> fst q"
    using Cons.prems placed_from [of fs] by force
  with Cons show ?case by simp
qed simp

lemma placed_within: "wf_fields fs \<Longrightarrow> (s, e, f) \<in> set (placed pk b fs) \<Longrightarrow> e \<le> struct_end pk b fs"
proof (induction fs arbitrary: b)
  case (Cons g fs)
  then show ?case using struct_end_ge [of fs] by auto
qed simp

section \<open>Paths through a leading member\<close>

text \<open>
  The kernel derives its socket types by embedding the base type first. A path into
  the base type has the same offset in the derived one.
\<close>

lemma offset_path_append:
  "offset_path t ps = Some (off, u) \<Longrightarrow> offset_path u qs = Some (off', v) \<Longrightarrow>
     offset_path t (ps @ qs) = Some (off + off', v)"
proof (induction ps arbitrary: t off)
  case (Cons p ps)
  then show ?case by (auto split: option.splits)
qed simp

lemma round_up_0 [simp]: "round_up 0 a = 0"
  by (cases a) (simp_all add: round_up_def)

lemma offset_path_first:
  "offset_path (CStruct (F nm t # fs)) (nm # ps) = offset_path t ps"
  by (simp split: option.splits)


section \<open>Runs of padding\<close>

text \<open>
  The kernel pads cache lines and pages with runs of unnamed \<open>long: 64\<close> members. A
  run moves the position to a word boundary and past the run, and adds no member.
\<close>

abbreviation pad64 :: cfield where "pad64 \<equiv> BF [] (CInt 8) 64"

lemma fstart_pad64: "fstart False b pad64 = round_up b 64"
proof (cases "b mod 64 = 0")
  case True
  then have "round_up b 64 = b" by (intro round_up_id) auto
  with True show ?thesis by simp
qed simp

lemma struct_end_pads [layout_simps]:
  "struct_end False b (replicate n pad64 @ fs) =
     struct_end False (if n = 0 then b else round_up b 64 + 64 * n) fs"
proof (induction n arbitrary: b)
  case (Suc n)
  have "round_up (round_up b 64 + 64) 64 = round_up b 64 + 64"
    by (intro round_up_id) (auto simp: round_up_dvd)
  with Suc show ?case by (simp del: fstart.simps add: fstart_pad64 add.assoc)
qed simp

lemma find_struct_pads [layout_simps]:
  "find_struct False b (replicate n pad64 @ fs) nm =
     find_struct False (if n = 0 then b else round_up b 64 + 64 * n) fs nm"
proof (induction n arbitrary: b)
  case (Suc n)
  have "round_up (round_up b 64 + 64) 64 = round_up b 64 + 64"
    by (intro round_up_id) (auto simp: round_up_dvd)
  with Suc show ?case by (simp del: fstart.simps add: fstart_pad64 add.assoc)
qed simp

lemma max_align_ge1: "1 \<le> max_align fs"
  by (induction fs) auto

lemma max_align_pads [layout_simps]: "max_align (replicate n pad64 @ fs) = max_align fs"
  using max_align_ge1 [of fs] by (induction n) auto

lemma wf_fields_append [layout_simps]: "wf_fields (fs @ gs) = (wf_fields fs \<and> wf_fields gs)"
  by (induction fs) auto

lemma unpacked_fields_append [layout_simps]:
  "unpacked_fields (fs @ gs) = (unpacked_fields fs \<and> unpacked_fields gs)"
  by (induction fs) auto

lemma wf_fields_replicate [layout_simps]: "wf_fields (replicate n f) = (n = 0 \<or> wf_field f)"
  by (induction n) auto

lemma unpacked_fields_replicate [layout_simps]:
  "unpacked_fields (replicate n f) = (n = 0 \<or> unpacked_field f)"
  by (induction n) auto

section \<open>Evaluating layouts\<close>

text \<open>
  Layouts of concrete types evaluate by unfolding \<open>round_up\<close> and \<open>max\<close> on numerals; the
  rules that would turn numerals into successors are taken out.
\<close>

declare max_Suc_numeral [simp del] max_numeral_Suc [simp del]
lemmas [layout_simps] = round_up_def max_def

end
