(* ===== verification/Vmlinux_Base.thy ===== *)
theory Vmlinux_Base
  imports CTypes
begin

text \<open>
  Scalar typedefs and small aggregates of \<open>vmlinux.h\<close> used by more than one
  of the groups below. Each definition transcribes one declaration, member by member; the
  layout lemma after it gives its size and alignment.
\<close>

definition t___u64 :: ctype where
  "t___u64 = c_ullong"

lemma t___u64_layout [layout_simps]:
  "csize t___u64 = 8" "calign t___u64 = 8" "wf_ctype t___u64" "unpacked t___u64"
  by (simp_all add: t___u64_def layout_simps)

definition t___u32 :: ctype where
  "t___u32 = c_uint"

lemma t___u32_layout [layout_simps]:
  "csize t___u32 = 4" "calign t___u32 = 4" "wf_ctype t___u32" "unpacked t___u32"
  by (simp_all add: t___u32_def layout_simps)

definition t___u16 :: ctype where
  "t___u16 = c_ushort"

lemma t___u16_layout [layout_simps]:
  "csize t___u16 = 2" "calign t___u16 = 2" "wf_ctype t___u16" "unpacked t___u16"
  by (simp_all add: t___u16_def layout_simps)

definition struct_hlist_node :: ctype where
  "struct_hlist_node = CStruct
    [F ''next'' (CPtr ''struct hlist_node''),
     F ''pprev'' (CPtr ''struct hlist_node *'')]"

lemma struct_hlist_node_layout [layout_simps]:
  "csize struct_hlist_node = 16" "calign struct_hlist_node = 8" "wf_ctype struct_hlist_node" "unpacked struct_hlist_node"
  by (simp_all add: struct_hlist_node_def layout_simps)

definition t___u8 :: ctype where
  "t___u8 = c_uchar"

lemma t___u8_layout [layout_simps]:
  "csize t___u8 = 1" "calign t___u8 = 1" "wf_ctype t___u8" "unpacked t___u8"
  by (simp_all add: t___u8_def layout_simps)

definition t___s64 :: ctype where
  "t___s64 = c_llong"

lemma t___s64_layout [layout_simps]:
  "csize t___s64 = 8" "calign t___s64 = 8" "wf_ctype t___s64" "unpacked t___s64"
  by (simp_all add: t___s64_def layout_simps)

definition t_s64 :: ctype where
  "t_s64 = t___s64"

lemma t_s64_layout [layout_simps]:
  "csize t_s64 = 8" "calign t_s64 = 8" "wf_ctype t_s64" "unpacked t_s64"
  by (simp_all add: t_s64_def layout_simps)

definition t_atomic64_t :: ctype where
  "t_atomic64_t = CStruct
    [F ''counter'' t_s64]"

lemma t_atomic64_t_layout [layout_simps]:
  "csize t_atomic64_t = 8" "calign t_atomic64_t = 8" "wf_ctype t_atomic64_t" "unpacked t_atomic64_t"
  by (simp_all add: t_atomic64_t_def layout_simps)

definition struct_hlist_nulls_node :: ctype where
  "struct_hlist_nulls_node = CStruct
    [F ''next'' (CPtr ''struct hlist_nulls_node''),
     F ''pprev'' (CPtr ''struct hlist_nulls_node *'')]"

lemma struct_hlist_nulls_node_layout [layout_simps]:
  "csize struct_hlist_nulls_node = 16" "calign struct_hlist_nulls_node = 8" "wf_ctype struct_hlist_nulls_node" "unpacked struct_hlist_nulls_node"
  by (simp_all add: struct_hlist_nulls_node_def layout_simps)

definition t_u32 :: ctype where
  "t_u32 = t___u32"

lemma t_u32_layout [layout_simps]:
  "csize t_u32 = 4" "calign t_u32 = 4" "wf_ctype t_u32" "unpacked t_u32"
  by (simp_all add: t_u32_def layout_simps)

definition t_atomic_t :: ctype where
  "t_atomic_t = CStruct
    [F ''counter'' c_int]"

lemma t_atomic_t_layout [layout_simps]:
  "csize t_atomic_t = 4" "calign t_atomic_t = 4" "wf_ctype t_atomic_t" "unpacked t_atomic_t"
  by (simp_all add: t_atomic_t_def layout_simps)

definition struct_refcount_struct :: ctype where
  "struct_refcount_struct = CStruct
    [F ''refs'' t_atomic_t]"

lemma struct_refcount_struct_layout [layout_simps]:
  "csize struct_refcount_struct = 4" "calign struct_refcount_struct = 4" "wf_ctype struct_refcount_struct" "unpacked struct_refcount_struct"
  by (simp_all add: struct_refcount_struct_def layout_simps)

definition t_refcount_t :: ctype where
  "t_refcount_t = struct_refcount_struct"

lemma t_refcount_t_layout [layout_simps]:
  "csize t_refcount_t = 4" "calign t_refcount_t = 4" "wf_ctype t_refcount_t" "unpacked t_refcount_t"
  by (simp_all add: t_refcount_t_def layout_simps)

definition t_u8 :: ctype where
  "t_u8 = t___u8"

lemma t_u8_layout [layout_simps]:
  "csize t_u8 = 1" "calign t_u8 = 1" "wf_ctype t_u8" "unpacked t_u8"
  by (simp_all add: t_u8_def layout_simps)

definition t_u16 :: ctype where
  "t_u16 = t___u16"

lemma t_u16_layout [layout_simps]:
  "csize t_u16 = 2" "calign t_u16 = 2" "wf_ctype t_u16" "unpacked t_u16"
  by (simp_all add: t_u16_def layout_simps)

definition struct_qspinlock :: ctype where
  "struct_qspinlock = CStruct
    [F '''' (CUnion
        [F ''val'' t_atomic_t,
         F '''' (CStruct
            [F ''locked'' t_u8,
             F ''pending'' t_u8]),
         F '''' (CStruct
            [F ''locked_pending'' t_u16,
             F ''tail'' t_u16])])]"

lemma struct_qspinlock_layout [layout_simps]:
  "csize struct_qspinlock = 4" "calign struct_qspinlock = 4" "wf_ctype struct_qspinlock" "unpacked struct_qspinlock"
  by (simp_all add: struct_qspinlock_def layout_simps)

definition t_arch_spinlock_t :: ctype where
  "t_arch_spinlock_t = struct_qspinlock"

lemma t_arch_spinlock_t_layout [layout_simps]:
  "csize t_arch_spinlock_t = 4" "calign t_arch_spinlock_t = 4" "wf_ctype t_arch_spinlock_t" "unpacked t_arch_spinlock_t"
  by (simp_all add: t_arch_spinlock_t_def layout_simps)

definition struct_raw_spinlock :: ctype where
  "struct_raw_spinlock = CStruct
    [F ''raw_lock'' t_arch_spinlock_t]"

lemma struct_raw_spinlock_layout [layout_simps]:
  "csize struct_raw_spinlock = 4" "calign struct_raw_spinlock = 4" "wf_ctype struct_raw_spinlock" "unpacked struct_raw_spinlock"
  by (simp_all add: struct_raw_spinlock_def layout_simps)

definition struct_spinlock :: ctype where
  "struct_spinlock = CStruct
    [F '''' (CUnion
        [F ''rlock'' struct_raw_spinlock])]"

lemma struct_spinlock_layout [layout_simps]:
  "csize struct_spinlock = 4" "calign struct_spinlock = 4" "wf_ctype struct_spinlock" "unpacked struct_spinlock"
  by (simp_all add: struct_spinlock_def layout_simps)

definition t_spinlock_t :: ctype where
  "t_spinlock_t = struct_spinlock"

lemma t_spinlock_t_layout [layout_simps]:
  "csize t_spinlock_t = 4" "calign t_spinlock_t = 4" "wf_ctype t_spinlock_t" "unpacked t_spinlock_t"
  by (simp_all add: t_spinlock_t_def layout_simps)

definition struct_list_head :: ctype where
  "struct_list_head = CStruct
    [F ''next'' (CPtr ''struct list_head''),
     F ''prev'' (CPtr ''struct list_head'')]"

lemma struct_list_head_layout [layout_simps]:
  "csize struct_list_head = 16" "calign struct_list_head = 8" "wf_ctype struct_list_head" "unpacked struct_list_head"
  by (simp_all add: struct_list_head_def layout_simps)

definition struct_wait_queue_head :: ctype where
  "struct_wait_queue_head = CStruct
    [F ''lock'' t_spinlock_t,
     F ''head'' struct_list_head]"

lemma struct_wait_queue_head_layout [layout_simps]:
  "csize struct_wait_queue_head = 24" "calign struct_wait_queue_head = 8" "wf_ctype struct_wait_queue_head" "unpacked struct_wait_queue_head"
  by (simp_all add: struct_wait_queue_head_def layout_simps)

definition t_wait_queue_head_t :: ctype where
  "t_wait_queue_head_t = struct_wait_queue_head"

lemma t_wait_queue_head_t_layout [layout_simps]:
  "csize t_wait_queue_head_t = 24" "calign t_wait_queue_head_t = 8" "wf_ctype t_wait_queue_head_t" "unpacked t_wait_queue_head_t"
  by (simp_all add: t_wait_queue_head_t_def layout_simps)

definition struct_rb_root :: ctype where
  "struct_rb_root = CStruct
    [F ''rb_node'' (CPtr ''struct rb_node'')]"

lemma struct_rb_root_layout [layout_simps]:
  "csize struct_rb_root = 8" "calign struct_rb_root = 8" "wf_ctype struct_rb_root" "unpacked struct_rb_root"
  by (simp_all add: struct_rb_root_def layout_simps)

definition t___s32 :: ctype where
  "t___s32 = c_int"

lemma t___s32_layout [layout_simps]:
  "csize t___s32 = 4" "calign t___s32 = 4" "wf_ctype t___s32" "unpacked t___s32"
  by (simp_all add: t___s32_def layout_simps)

definition struct_timer_list :: ctype where
  "struct_timer_list = CStruct
    [F ''entry'' struct_hlist_node,
     F ''expires'' c_ulong,
     F ''function'' (CPtr ''void (*)(struct timer_list *)''),
     F ''flags'' t_u32]"

lemma struct_timer_list_layout [layout_simps]:
  "csize struct_timer_list = 40" "calign struct_timer_list = 8" "wf_ctype struct_timer_list" "unpacked struct_timer_list"
  by (simp_all add: struct_timer_list_def layout_simps)

definition struct_page_frag :: ctype where
  "struct_page_frag = CStruct
    [F ''page'' (CPtr ''struct page''),
     F ''offset'' t___u32,
     F ''size'' t___u32]"

lemma struct_page_frag_layout [layout_simps]:
  "csize struct_page_frag = 16" "calign struct_page_frag = 8" "wf_ctype struct_page_frag" "unpacked struct_page_frag"
  by (simp_all add: struct_page_frag_def layout_simps)

definition t_u64 :: ctype where
  "t_u64 = t___u64"

lemma t_u64_layout [layout_simps]:
  "csize t_u64 = 8" "calign t_u64 = 8" "wf_ctype t_u64" "unpacked t_u64"
  by (simp_all add: t_u64_def layout_simps)

definition t_gfp_t :: ctype where
  "t_gfp_t = c_uint"

lemma t_gfp_t_layout [layout_simps]:
  "csize t_gfp_t = 4" "calign t_gfp_t = 4" "wf_ctype t_gfp_t" "unpacked t_gfp_t"
  by (simp_all add: t_gfp_t_def layout_simps)

definition t___kernel_uid32_t :: ctype where
  "t___kernel_uid32_t = c_uint"

lemma t___kernel_uid32_t_layout [layout_simps]:
  "csize t___kernel_uid32_t = 4" "calign t___kernel_uid32_t = 4" "wf_ctype t___kernel_uid32_t" "unpacked t___kernel_uid32_t"
  by (simp_all add: t___kernel_uid32_t_def layout_simps)

definition t_uid_t :: ctype where
  "t_uid_t = t___kernel_uid32_t"

lemma t_uid_t_layout [layout_simps]:
  "csize t_uid_t = 4" "calign t_uid_t = 4" "wf_ctype t_uid_t" "unpacked t_uid_t"
  by (simp_all add: t_uid_t_def layout_simps)

definition t_kuid_t :: ctype where
  "t_kuid_t = CStruct
    [F ''val'' t_uid_t]"

lemma t_kuid_t_layout [layout_simps]:
  "csize t_kuid_t = 4" "calign t_kuid_t = 4" "wf_ctype t_kuid_t" "unpacked t_kuid_t"
  by (simp_all add: t_kuid_t_def layout_simps)

definition t_ktime_t :: ctype where
  "t_ktime_t = t_s64"

lemma t_ktime_t_layout [layout_simps]:
  "csize t_ktime_t = 8" "calign t_ktime_t = 8" "wf_ctype t_ktime_t" "unpacked t_ktime_t"
  by (simp_all add: t_ktime_t_def layout_simps)

definition t_bool :: ctype where
  "t_bool = c_bool"

lemma t_bool_layout [layout_simps]:
  "csize t_bool = 1" "calign t_bool = 1" "wf_ctype t_bool" "unpacked t_bool"
  by (simp_all add: t_bool_def layout_simps)

definition struct_callback_head :: ctype where
  "struct_callback_head = CStruct
    [F ''next'' (CPtr ''struct callback_head''),
     F ''func'' (CPtr ''void (*)(struct callback_head *)'')]"

lemma struct_callback_head_layout [layout_simps]:
  "csize struct_callback_head = 16" "calign struct_callback_head = 8" "wf_ctype struct_callback_head" "unpacked struct_callback_head"
  by (simp_all add: struct_callback_head_def layout_simps)

definition struct_rb_node :: ctype where
  "struct_rb_node = CStruct
    [F ''__rb_parent_color'' c_ulong,
     F ''rb_right'' (CPtr ''struct rb_node''),
     F ''rb_left'' (CPtr ''struct rb_node'')]"

lemma struct_rb_node_layout [layout_simps]:
  "csize struct_rb_node = 24" "calign struct_rb_node = 8" "wf_ctype struct_rb_node" "unpacked struct_rb_node"
  by (simp_all add: struct_rb_node_def layout_simps)

definition struct_timerqueue_node :: ctype where
  "struct_timerqueue_node = CStruct
    [F ''node'' struct_rb_node,
     F ''expires'' t_ktime_t]"

lemma struct_timerqueue_node_layout [layout_simps]:
  "csize struct_timerqueue_node = 32" "calign struct_timerqueue_node = 8" "wf_ctype struct_timerqueue_node" "unpacked struct_timerqueue_node"
  by (simp_all add: struct_timerqueue_node_def layout_simps)

definition struct_hrtimer :: ctype where
  "struct_hrtimer = CStruct
    [F ''node'' struct_timerqueue_node,
     F ''_softexpires'' t_ktime_t,
     F ''function'' (CPtr ''enum hrtimer_restart (*)(struct hrtimer *)''),
     F ''base'' (CPtr ''struct hrtimer_clock_base''),
     F ''state'' t_u8,
     F ''is_rel'' t_u8,
     F ''is_soft'' t_u8,
     F ''is_hard'' t_u8]"

lemma struct_hrtimer_layout [layout_simps]:
  "csize struct_hrtimer = 64" "calign struct_hrtimer = 8" "wf_ctype struct_hrtimer" "unpacked struct_hrtimer"
  by (simp_all add: struct_hrtimer_def layout_simps)

definition t___kernel_ulong_t :: ctype where
  "t___kernel_ulong_t = c_ulong"

lemma t___kernel_ulong_t_layout [layout_simps]:
  "csize t___kernel_ulong_t = 8" "calign t___kernel_ulong_t = 8" "wf_ctype t___kernel_ulong_t" "unpacked t___kernel_ulong_t"
  by (simp_all add: t___kernel_ulong_t_def layout_simps)

definition t___kernel_size_t :: ctype where
  "t___kernel_size_t = t___kernel_ulong_t"

lemma t___kernel_size_t_layout [layout_simps]:
  "csize t___kernel_size_t = 8" "calign t___kernel_size_t = 8" "wf_ctype t___kernel_size_t" "unpacked t___kernel_size_t"
  by (simp_all add: t___kernel_size_t_def layout_simps)

definition t_size_t :: ctype where
  "t_size_t = t___kernel_size_t"

lemma t_size_t_layout [layout_simps]:
  "csize t_size_t = 8" "calign t_size_t = 8" "wf_ctype t_size_t" "unpacked t_size_t"
  by (simp_all add: t_size_t_def layout_simps)

definition struct_llist_node :: ctype where
  "struct_llist_node = CStruct
    [F ''next'' (CPtr ''struct llist_node'')]"

lemma struct_llist_node_layout [layout_simps]:
  "csize struct_llist_node = 8" "calign struct_llist_node = 8" "wf_ctype struct_llist_node" "unpacked struct_llist_node"
  by (simp_all add: struct_llist_node_def layout_simps)

definition struct___call_single_node :: ctype where
  "struct___call_single_node = CStruct
    [F ''llist'' struct_llist_node,
     F '''' (CUnion
        [F ''u_flags'' c_uint,
         F ''a_flags'' t_atomic_t]),
     F ''src'' t_u16,
     F ''dst'' t_u16]"

lemma struct___call_single_node_layout [layout_simps]:
  "csize struct___call_single_node = 16" "calign struct___call_single_node = 8" "wf_ctype struct___call_single_node" "unpacked struct___call_single_node"
  by (simp_all add: struct___call_single_node_def layout_simps)

definition t_raw_spinlock_t :: ctype where
  "t_raw_spinlock_t = struct_raw_spinlock"

lemma t_raw_spinlock_t_layout [layout_simps]:
  "csize t_raw_spinlock_t = 4" "calign t_raw_spinlock_t = 4" "wf_ctype t_raw_spinlock_t" "unpacked t_raw_spinlock_t"
  by (simp_all add: t_raw_spinlock_t_def layout_simps)

definition t_atomic_long_t :: ctype where
  "t_atomic_long_t = t_atomic64_t"

lemma t_atomic_long_t_layout [layout_simps]:
  "csize t_atomic_long_t = 8" "calign t_atomic_long_t = 8" "wf_ctype t_atomic_long_t" "unpacked t_atomic_long_t"
  by (simp_all add: t_atomic_long_t_def layout_simps)

definition struct_optimistic_spin_queue :: ctype where
  "struct_optimistic_spin_queue = CStruct
    [F ''tail'' t_atomic_t]"

lemma struct_optimistic_spin_queue_layout [layout_simps]:
  "csize struct_optimistic_spin_queue = 4" "calign struct_optimistic_spin_queue = 4" "wf_ctype struct_optimistic_spin_queue" "unpacked struct_optimistic_spin_queue"
  by (simp_all add: struct_optimistic_spin_queue_def layout_simps)

definition struct_mutex :: ctype where
  "struct_mutex = CStruct
    [F ''owner'' t_atomic_long_t,
     F ''wait_lock'' t_raw_spinlock_t,
     F ''osq'' struct_optimistic_spin_queue,
     F ''wait_list'' struct_list_head]"

lemma struct_mutex_layout [layout_simps]:
  "csize struct_mutex = 32" "calign struct_mutex = 8" "wf_ctype struct_mutex" "unpacked struct_mutex"
  by (simp_all add: struct_mutex_def layout_simps)

end
