(* ===== verification/Vmlinux_Net.thy ===== *)
theory Vmlinux_Net
  imports Vmlinux_Base
begin

text \<open>
  The socket side of \<open>vmlinux.h\<close>: \<open>struct sock_common\<close> and
  \<open>struct sock\<close>, the socket types derived from them that the probed functions receive,
  the message header, the protocol operation tables that hold the probed functions, and
  the socket buffer.
\<close>

definition t___addrpair :: ctype where
  "t___addrpair = t___u64"

lemma t___addrpair_layout [layout_simps]:
  "csize t___addrpair = 8" "calign t___addrpair = 8" "wf_ctype t___addrpair" "unpacked t___addrpair"
  by (simp_all add: t___addrpair_def layout_simps)

definition t___be32 :: ctype where
  "t___be32 = t___u32"

lemma t___be32_layout [layout_simps]:
  "csize t___be32 = 4" "calign t___be32 = 4" "wf_ctype t___be32" "unpacked t___be32"
  by (simp_all add: t___be32_def layout_simps)

definition t___portpair :: ctype where
  "t___portpair = t___u32"

lemma t___portpair_layout [layout_simps]:
  "csize t___portpair = 4" "calign t___portpair = 4" "wf_ctype t___portpair" "unpacked t___portpair"
  by (simp_all add: t___portpair_def layout_simps)

definition t___be16 :: ctype where
  "t___be16 = t___u16"

lemma t___be16_layout [layout_simps]:
  "csize t___be16 = 2" "calign t___be16 = 2" "wf_ctype t___be16" "unpacked t___be16"
  by (simp_all add: t___be16_def layout_simps)

definition t_possible_net_t :: ctype where
  "t_possible_net_t = CStruct
    [F ''net'' (CPtr ''struct net'')]"

lemma t_possible_net_t_layout [layout_simps]:
  "csize t_possible_net_t = 8" "calign t_possible_net_t = 8" "wf_ctype t_possible_net_t" "unpacked t_possible_net_t"
  by (simp_all add: t_possible_net_t_def layout_simps)

definition struct_in6_addr :: ctype where
  "struct_in6_addr = CStruct
    [F ''in6_u'' (CUnion
        [F ''u6_addr8'' (CArr t___u8 16),
         F ''u6_addr16'' (CArr t___be16 8),
         F ''u6_addr32'' (CArr t___be32 4)])]"

lemma struct_in6_addr_layout [layout_simps]:
  "csize struct_in6_addr = 16" "calign struct_in6_addr = 4" "wf_ctype struct_in6_addr" "unpacked struct_in6_addr"
  by (simp_all add: struct_in6_addr_def layout_simps)

definition struct_sock_common :: ctype where
  "struct_sock_common = CStruct
    [F '''' (CUnion
        [F ''skc_addrpair'' t___addrpair,
         F '''' (CStruct
            [F ''skc_daddr'' t___be32,
             F ''skc_rcv_saddr'' t___be32])]),
     F '''' (CUnion
        [F ''skc_hash'' c_uint,
         F ''skc_u16hashes'' (CArr t___u16 2)]),
     F '''' (CUnion
        [F ''skc_portpair'' t___portpair,
         F '''' (CStruct
            [F ''skc_dport'' t___be16,
             F ''skc_num'' t___u16])]),
     F ''skc_family'' c_ushort,
     F ''skc_state'' c_uchar,
     BF ''skc_reuse'' c_uchar 4,
     BF ''skc_reuseport'' c_uchar 1,
     BF ''skc_ipv6only'' c_uchar 1,
     BF ''skc_net_refcnt'' c_uchar 1,
     F ''skc_bound_dev_if'' c_int,
     F '''' (CUnion
        [F ''skc_bind_node'' struct_hlist_node,
         F ''skc_portaddr_node'' struct_hlist_node]),
     F ''skc_prot'' (CPtr ''struct proto''),
     F ''skc_net'' t_possible_net_t,
     F ''skc_v6_daddr'' struct_in6_addr,
     F ''skc_v6_rcv_saddr'' struct_in6_addr,
     F ''skc_cookie'' t_atomic64_t,
     F '''' (CUnion
        [F ''skc_flags'' c_ulong,
         F ''skc_listener'' (CPtr ''struct sock''),
         F ''skc_tw_dr'' (CPtr ''struct inet_timewait_death_row'')]),
     F ''skc_dontcopy_begin'' (CArr c_int 0),
     F '''' (CUnion
        [F ''skc_node'' struct_hlist_node,
         F ''skc_nulls_node'' struct_hlist_nulls_node]),
     F ''skc_tx_queue_mapping'' c_ushort,
     F ''skc_rx_queue_mapping'' c_ushort,
     F '''' (CUnion
        [F ''skc_incoming_cpu'' c_int,
         F ''skc_rcv_wnd'' t_u32,
         F ''skc_tw_rcv_nxt'' t_u32]),
     F ''skc_refcnt'' t_refcount_t,
     F ''skc_dontcopy_end'' (CArr c_int 0),
     F '''' (CUnion
        [F ''skc_rxhash'' t_u32,
         F ''skc_window_clamp'' t_u32,
         F ''skc_tw_snd_nxt'' t_u32])]"

lemma struct_sock_common_layout [layout_simps]:
  "csize struct_sock_common = 136" "calign struct_sock_common = 8" "wf_ctype struct_sock_common" "unpacked struct_sock_common"
  by (simp_all add: struct_sock_common_def layout_simps)

definition t_socket_lock_t :: ctype where
  "t_socket_lock_t = CStruct
    [F ''slock'' t_spinlock_t,
     F ''owned'' c_int,
     F ''wq'' t_wait_queue_head_t]"

lemma t_socket_lock_t_layout [layout_simps]:
  "csize t_socket_lock_t = 32" "calign t_socket_lock_t = 8" "wf_ctype t_socket_lock_t" "unpacked t_socket_lock_t"
  by (simp_all add: t_socket_lock_t_def layout_simps)

definition struct_sk_buff_list :: ctype where
  "struct_sk_buff_list = CStruct
    [F ''next'' (CPtr ''struct sk_buff''),
     F ''prev'' (CPtr ''struct sk_buff'')]"

lemma struct_sk_buff_list_layout [layout_simps]:
  "csize struct_sk_buff_list = 16" "calign struct_sk_buff_list = 8" "wf_ctype struct_sk_buff_list" "unpacked struct_sk_buff_list"
  by (simp_all add: struct_sk_buff_list_def layout_simps)

definition struct_sk_buff_head :: ctype where
  "struct_sk_buff_head = CStruct
    [F '''' (CUnion
        [F '''' (CStruct
            [F ''next'' (CPtr ''struct sk_buff''),
             F ''prev'' (CPtr ''struct sk_buff'')]),
         F ''list'' struct_sk_buff_list]),
     F ''qlen'' t___u32,
     F ''lock'' t_spinlock_t]"

lemma struct_sk_buff_head_layout [layout_simps]:
  "csize struct_sk_buff_head = 24" "calign struct_sk_buff_head = 8" "wf_ctype struct_sk_buff_head" "unpacked struct_sk_buff_head"
  by (simp_all add: struct_sk_buff_head_def layout_simps)

definition t_netdev_features_t :: ctype where
  "t_netdev_features_t = t_u64"

lemma t_netdev_features_t_layout [layout_simps]:
  "csize t_netdev_features_t = 8" "calign t_netdev_features_t = 8" "wf_ctype t_netdev_features_t" "unpacked t_netdev_features_t"
  by (simp_all add: t_netdev_features_t_def layout_simps)

definition struct_qrwlock :: ctype where
  "struct_qrwlock = CStruct
    [F '''' (CUnion
        [F ''cnts'' t_atomic_t,
         F '''' (CStruct
            [F ''wlocked'' t_u8,
             F ''__lstate'' (CArr t_u8 3)])]),
     F ''wait_lock'' t_arch_spinlock_t]"

lemma struct_qrwlock_layout [layout_simps]:
  "csize struct_qrwlock = 8" "calign struct_qrwlock = 4" "wf_ctype struct_qrwlock" "unpacked struct_qrwlock"
  by (simp_all add: struct_qrwlock_def layout_simps)

definition t_arch_rwlock_t :: ctype where
  "t_arch_rwlock_t = struct_qrwlock"

lemma t_arch_rwlock_t_layout [layout_simps]:
  "csize t_arch_rwlock_t = 8" "calign t_arch_rwlock_t = 4" "wf_ctype t_arch_rwlock_t" "unpacked t_arch_rwlock_t"
  by (simp_all add: t_arch_rwlock_t_def layout_simps)

definition t_rwlock_t :: ctype where
  "t_rwlock_t = CStruct
    [F ''raw_lock'' t_arch_rwlock_t]"

lemma t_rwlock_t_layout [layout_simps]:
  "csize t_rwlock_t = 8" "calign t_rwlock_t = 4" "wf_ctype t_rwlock_t" "unpacked t_rwlock_t"
  by (simp_all add: t_rwlock_t_def layout_simps)

definition struct_sock_cgroup_data :: ctype where
  "struct_sock_cgroup_data = CStruct
    [F ''cgroup'' (CPtr ''struct cgroup''),
     F ''classid'' t_u32,
     F ''prioidx'' t_u16]"

lemma struct_sock_cgroup_data_layout [layout_simps]:
  "csize struct_sock_cgroup_data = 16" "calign struct_sock_cgroup_data = 8" "wf_ctype struct_sock_cgroup_data" "unpacked struct_sock_cgroup_data"
  by (simp_all add: struct_sock_cgroup_data_def layout_simps)

definition t_netns_tracker :: ctype where
  "t_netns_tracker = CStruct
    []"

lemma t_netns_tracker_layout [layout_simps]:
  "csize t_netns_tracker = 0" "calign t_netns_tracker = 1" "wf_ctype t_netns_tracker" "unpacked t_netns_tracker"
  by (simp_all add: t_netns_tracker_def layout_simps)

definition struct_sock :: ctype where
  "struct_sock = CStruct
    [F ''__sk_common'' struct_sock_common,
     F ''sk_rx_dst'' (CPtr ''struct dst_entry''),
     F ''sk_rx_dst_ifindex'' c_int,
     F ''sk_rx_dst_cookie'' t_u32,
     F ''sk_lock'' t_socket_lock_t,
     F ''sk_drops'' t_atomic_t,
     F ''sk_rcvlowat'' c_int,
     F ''sk_error_queue'' struct_sk_buff_head,
     F ''sk_receive_queue'' struct_sk_buff_head,
     F ''sk_backlog'' (CStruct
        [F ''rmem_alloc'' t_atomic_t,
         F ''len'' c_int,
         F ''head'' (CPtr ''struct sk_buff''),
         F ''tail'' (CPtr ''struct sk_buff'')]),
     F ''sk_forward_alloc'' c_int,
     F ''sk_reserved_mem'' t_u32,
     F ''sk_ll_usec'' c_uint,
     F ''sk_napi_id'' c_uint,
     F ''sk_rcvbuf'' c_int,
     F ''sk_disconnects'' c_int,
     F ''sk_filter'' (CPtr ''struct sk_filter''),
     F '''' (CUnion
        [F ''sk_wq'' (CPtr ''struct socket_wq''),
         F ''sk_wq_raw'' (CPtr ''struct socket_wq'')]),
     F ''sk_policy'' (CArr (CPtr ''struct xfrm_policy'') 2),
     F ''sk_dst_cache'' (CPtr ''struct dst_entry''),
     F ''sk_omem_alloc'' t_atomic_t,
     F ''sk_sndbuf'' c_int,
     F ''sk_wmem_queued'' c_int,
     F ''sk_wmem_alloc'' t_refcount_t,
     F ''sk_tsq_flags'' c_ulong,
     F '''' (CUnion
        [F ''sk_send_head'' (CPtr ''struct sk_buff''),
         F ''tcp_rtx_queue'' struct_rb_root]),
     F ''sk_write_queue'' struct_sk_buff_head,
     F ''sk_peek_off'' t___s32,
     F ''sk_write_pending'' c_int,
     F ''sk_dst_pending_confirm'' t___u32,
     F ''sk_pacing_status'' t_u32,
     F ''sk_sndtimeo'' c_long,
     F ''sk_timer'' struct_timer_list,
     F ''sk_priority'' t___u32,
     F ''sk_mark'' t___u32,
     F ''sk_pacing_rate'' c_ulong,
     F ''sk_max_pacing_rate'' c_ulong,
     F ''sk_frag'' struct_page_frag,
     F ''sk_route_caps'' t_netdev_features_t,
     F ''sk_gso_type'' c_int,
     F ''sk_gso_max_size'' c_uint,
     F ''sk_allocation'' t_gfp_t,
     F ''sk_txhash'' t___u32,
     BF ''sk_gso_disabled'' t_u8 1,
     BF ''sk_kern_sock'' t_u8 1,
     BF ''sk_no_check_tx'' t_u8 1,
     BF ''sk_no_check_rx'' t_u8 1,
     BF ''sk_userlocks'' t_u8 4,
     F ''sk_pacing_shift'' t_u8,
     F ''sk_type'' t_u16,
     F ''sk_protocol'' t_u16,
     F ''sk_gso_max_segs'' t_u16,
     F ''sk_lingertime'' c_ulong,
     F ''sk_prot_creator'' (CPtr ''struct proto''),
     F ''sk_callback_lock'' t_rwlock_t,
     F ''sk_err'' c_int,
     F ''sk_err_soft'' c_int,
     F ''sk_ack_backlog'' t_u32,
     F ''sk_max_ack_backlog'' t_u32,
     F ''sk_uid'' t_kuid_t,
     F ''sk_txrehash'' t_u8,
     F ''sk_prefer_busy_poll'' t_u8,
     F ''sk_busy_poll_budget'' t_u16,
     F ''sk_peer_lock'' t_spinlock_t,
     F ''sk_bind_phc'' c_int,
     F ''sk_peer_pid'' (CPtr ''struct pid''),
     F ''sk_peer_cred'' (CPtr ''const struct cred''),
     F ''sk_rcvtimeo'' c_long,
     F ''sk_stamp'' t_ktime_t,
     F ''sk_tskey'' t_atomic_t,
     F ''sk_zckey'' t_atomic_t,
     F ''sk_tsflags'' t_u32,
     F ''sk_shutdown'' t_u8,
     F ''sk_clockid'' t_u8,
     BF ''sk_txtime_deadline_mode'' t_u8 1,
     BF ''sk_txtime_report_errors'' t_u8 1,
     BF ''sk_txtime_unused'' t_u8 6,
     F ''sk_use_task_frag'' t_bool,
     F ''sk_socket'' (CPtr ''struct socket''),
     F ''sk_user_data'' (CPtr ''void''),
     F ''sk_security'' (CPtr ''void''),
     F ''sk_cgrp_data'' struct_sock_cgroup_data,
     F ''sk_memcg'' (CPtr ''struct mem_cgroup''),
     F ''sk_state_change'' (CPtr ''void (*)(struct sock *)''),
     F ''sk_data_ready'' (CPtr ''void (*)(struct sock *)''),
     F ''sk_write_space'' (CPtr ''void (*)(struct sock *)''),
     F ''sk_error_report'' (CPtr ''void (*)(struct sock *)''),
     F ''sk_backlog_rcv'' (CPtr ''int (*)(struct sock *, struct sk_buff *)''),
     F ''sk_destruct'' (CPtr ''void (*)(struct sock *)''),
     F ''sk_reuseport_cb'' (CPtr ''struct sock_reuseport''),
     F ''sk_bpf_storage'' (CPtr ''struct bpf_local_storage''),
     F ''sk_rcu'' struct_callback_head,
     F ''ns_tracker'' t_netns_tracker,
     F ''sk_bind2_node'' struct_hlist_node]"

lemma struct_sock_layout [layout_simps]:
  "csize struct_sock = 768" "calign struct_sock = 8" "wf_ctype struct_sock" "unpacked struct_sock"
  by (simp_all add: struct_sock_def layout_simps)

definition t___s16 :: ctype where
  "t___s16 = c_short"

lemma t___s16_layout [layout_simps]:
  "csize t___s16 = 2" "calign t___s16 = 2" "wf_ctype t___s16" "unpacked t___s16"
  by (simp_all add: t___s16_def layout_simps)

definition struct_inet_cork :: ctype where
  "struct_inet_cork = CStruct
    [F ''flags'' c_uint,
     F ''addr'' t___be32,
     F ''opt'' (CPtr ''struct ip_options''),
     F ''fragsize'' c_uint,
     F ''length'' c_int,
     F ''dst'' (CPtr ''struct dst_entry''),
     F ''tx_flags'' t_u8,
     F ''ttl'' t___u8,
     F ''tos'' t___s16,
     F ''priority'' c_char,
     F ''gso_size'' t___u16,
     F ''transmit_time'' t_u64,
     F ''mark'' t_u32]"

lemma struct_inet_cork_layout [layout_simps]:
  "csize struct_inet_cork = 56" "calign struct_inet_cork = 8" "wf_ctype struct_inet_cork" "unpacked struct_inet_cork"
  by (simp_all add: struct_inet_cork_def layout_simps)

definition t___be64 :: ctype where
  "t___be64 = t___u64"

lemma t___be64_layout [layout_simps]:
  "csize t___be64 = 8" "calign t___be64 = 8" "wf_ctype t___be64" "unpacked t___be64"
  by (simp_all add: t___be64_def layout_simps)

definition struct_flowi_tunnel :: ctype where
  "struct_flowi_tunnel = CStruct
    [F ''tun_id'' t___be64]"

lemma struct_flowi_tunnel_layout [layout_simps]:
  "csize struct_flowi_tunnel = 8" "calign struct_flowi_tunnel = 8" "wf_ctype struct_flowi_tunnel" "unpacked struct_flowi_tunnel"
  by (simp_all add: struct_flowi_tunnel_def layout_simps)

definition struct_flowi_common :: ctype where
  "struct_flowi_common = CStruct
    [F ''flowic_oif'' c_int,
     F ''flowic_iif'' c_int,
     F ''flowic_l3mdev'' c_int,
     F ''flowic_mark'' t___u32,
     F ''flowic_tos'' t___u8,
     F ''flowic_scope'' t___u8,
     F ''flowic_proto'' t___u8,
     F ''flowic_flags'' t___u8,
     F ''flowic_secid'' t___u32,
     F ''flowic_uid'' t_kuid_t,
     F ''flowic_multipath_hash'' t___u32,
     F ''flowic_tun_key'' struct_flowi_tunnel]"

lemma struct_flowi_common_layout [layout_simps]:
  "csize struct_flowi_common = 40" "calign struct_flowi_common = 8" "wf_ctype struct_flowi_common" "unpacked struct_flowi_common"
  by (simp_all add: struct_flowi_common_def layout_simps)

definition union_flowi_uli :: ctype where
  "union_flowi_uli = CUnion
    [F ''ports'' (CStruct
        [F ''dport'' t___be16,
         F ''sport'' t___be16]),
     F ''icmpt'' (CStruct
        [F ''type'' t___u8,
         F ''code'' t___u8]),
     F ''gre_key'' t___be32,
     F ''mht'' (CStruct
        [F ''type'' t___u8])]"

lemma union_flowi_uli_layout [layout_simps]:
  "csize union_flowi_uli = 4" "calign union_flowi_uli = 4" "wf_ctype union_flowi_uli" "unpacked union_flowi_uli"
  by (simp_all add: union_flowi_uli_def layout_simps)

definition struct_flowi4 :: ctype where
  "struct_flowi4 = CStruct
    [F ''__fl_common'' struct_flowi_common,
     F ''saddr'' t___be32,
     F ''daddr'' t___be32,
     F ''uli'' union_flowi_uli]"

lemma struct_flowi4_layout [layout_simps]:
  "csize struct_flowi4 = 56" "calign struct_flowi4 = 8" "wf_ctype struct_flowi4" "unpacked struct_flowi4"
  by (simp_all add: struct_flowi4_def layout_simps)

definition struct_flowi6 :: ctype where
  "struct_flowi6 = CStruct
    [F ''__fl_common'' struct_flowi_common,
     F ''daddr'' struct_in6_addr,
     F ''saddr'' struct_in6_addr,
     F ''flowlabel'' t___be32,
     F ''uli'' union_flowi_uli,
     F ''mp_hash'' t___u32]"

lemma struct_flowi6_layout [layout_simps]:
  "csize struct_flowi6 = 88" "calign struct_flowi6 = 8" "wf_ctype struct_flowi6" "unpacked struct_flowi6"
  by (simp_all add: struct_flowi6_def layout_simps)

definition struct_flowi :: ctype where
  "struct_flowi = CStruct
    [F ''u'' (CUnion
        [F ''__fl_common'' struct_flowi_common,
         F ''ip4'' struct_flowi4,
         F ''ip6'' struct_flowi6])]"

lemma struct_flowi_layout [layout_simps]:
  "csize struct_flowi = 88" "calign struct_flowi = 8" "wf_ctype struct_flowi" "unpacked struct_flowi"
  by (simp_all add: struct_flowi_def layout_simps)

definition struct_inet_cork_full :: ctype where
  "struct_inet_cork_full = CStruct
    [F ''base'' struct_inet_cork,
     F ''fl'' struct_flowi]"

lemma struct_inet_cork_full_layout [layout_simps]:
  "csize struct_inet_cork_full = 144" "calign struct_inet_cork_full = 8" "wf_ctype struct_inet_cork_full" "unpacked struct_inet_cork_full"
  by (simp_all add: struct_inet_cork_full_def layout_simps)

definition struct_inet_sock :: ctype where
  "struct_inet_sock = CStruct
    [F ''sk'' struct_sock,
     F ''pinet6'' (CPtr ''struct ipv6_pinfo''),
     F ''inet_flags'' c_ulong,
     F ''inet_saddr'' t___be32,
     F ''uc_ttl'' t___s16,
     F ''inet_sport'' t___be16,
     F ''inet_opt'' (CPtr ''struct ip_options_rcu''),
     F ''inet_id'' t_atomic_t,
     F ''tos'' t___u8,
     F ''min_ttl'' t___u8,
     F ''mc_ttl'' t___u8,
     F ''pmtudisc'' t___u8,
     F ''rcv_tos'' t___u8,
     F ''convert_csum'' t___u8,
     F ''uc_index'' c_int,
     F ''mc_index'' c_int,
     F ''mc_addr'' t___be32,
     F ''local_port_range'' (CStruct
        [F ''lo'' t___u16,
         F ''hi'' t___u16]),
     F ''mc_list'' (CPtr ''struct ip_mc_socklist''),
     F ''cork'' struct_inet_cork_full]"

lemma struct_inet_sock_layout [layout_simps]:
  "csize struct_inet_sock = 984" "calign struct_inet_sock = 8" "wf_ctype struct_inet_sock" "unpacked struct_inet_sock"
  by (simp_all add: struct_inet_sock_def layout_simps)

definition struct_fastopen_queue :: ctype where
  "struct_fastopen_queue = CStruct
    [F ''rskq_rst_head'' (CPtr ''struct request_sock''),
     F ''rskq_rst_tail'' (CPtr ''struct request_sock''),
     F ''lock'' t_spinlock_t,
     F ''qlen'' c_int,
     F ''max_qlen'' c_int,
     F ''ctx'' (CPtr ''struct tcp_fastopen_context'')]"

lemma struct_fastopen_queue_layout [layout_simps]:
  "csize struct_fastopen_queue = 40" "calign struct_fastopen_queue = 8" "wf_ctype struct_fastopen_queue" "unpacked struct_fastopen_queue"
  by (simp_all add: struct_fastopen_queue_def layout_simps)

definition struct_request_sock_queue :: ctype where
  "struct_request_sock_queue = CStruct
    [F ''rskq_lock'' t_spinlock_t,
     F ''rskq_defer_accept'' t_u8,
     F ''synflood_warned'' t_u32,
     F ''qlen'' t_atomic_t,
     F ''young'' t_atomic_t,
     F ''rskq_accept_head'' (CPtr ''struct request_sock''),
     F ''rskq_accept_tail'' (CPtr ''struct request_sock''),
     F ''fastopenq'' struct_fastopen_queue]"

lemma struct_request_sock_queue_layout [layout_simps]:
  "csize struct_request_sock_queue = 80" "calign struct_request_sock_queue = 8" "wf_ctype struct_request_sock_queue" "unpacked struct_request_sock_queue"
  by (simp_all add: struct_request_sock_queue_def layout_simps)

definition struct_inet_connection_sock :: ctype where
  "struct_inet_connection_sock = CStruct
    [F ''icsk_inet'' struct_inet_sock,
     F ''icsk_accept_queue'' struct_request_sock_queue,
     F ''icsk_bind_hash'' (CPtr ''struct inet_bind_bucket''),
     F ''icsk_bind2_hash'' (CPtr ''struct inet_bind2_bucket''),
     F ''icsk_timeout'' c_ulong,
     F ''icsk_retransmit_timer'' struct_timer_list,
     F ''icsk_delack_timer'' struct_timer_list,
     F ''icsk_rto'' t___u32,
     F ''icsk_rto_min'' t___u32,
     F ''icsk_delack_max'' t___u32,
     F ''icsk_pmtu_cookie'' t___u32,
     F ''icsk_ca_ops'' (CPtr ''const struct tcp_congestion_ops''),
     F ''icsk_af_ops'' (CPtr ''const struct inet_connection_sock_af_ops''),
     F ''icsk_ulp_ops'' (CPtr ''const struct tcp_ulp_ops''),
     F ''icsk_ulp_data'' (CPtr ''void''),
     F ''icsk_clean_acked'' (CPtr ''void (*)(struct sock *, u32)''),
     F ''icsk_sync_mss'' (CPtr ''unsigned int (*)(struct sock *, u32)''),
     BF ''icsk_ca_state'' t___u8 5,
     BF ''icsk_ca_initialized'' t___u8 1,
     BF ''icsk_ca_setsockopt'' t___u8 1,
     BF ''icsk_ca_dst_locked'' t___u8 1,
     F ''icsk_retransmits'' t___u8,
     F ''icsk_pending'' t___u8,
     F ''icsk_backoff'' t___u8,
     F ''icsk_syn_retries'' t___u8,
     F ''icsk_probes_out'' t___u8,
     F ''icsk_ext_hdr_len'' t___u16,
     F ''icsk_ack'' (CStruct
        [F ''pending'' t___u8,
         F ''quick'' t___u8,
         F ''pingpong'' t___u8,
         F ''retry'' t___u8,
         F ''ato'' t___u32,
         F ''timeout'' c_ulong,
         F ''lrcvtime'' t___u32,
         F ''last_seg_size'' t___u16,
         F ''rcv_mss'' t___u16]),
     F ''icsk_mtup'' (CStruct
        [F ''search_high'' c_int,
         F ''search_low'' c_int,
         BF ''probe_size'' t_u32 31,
         BF ''enabled'' t_u32 1,
         F ''probe_timestamp'' t_u32]),
     F ''icsk_probes_tstamp'' t_u32,
     F ''icsk_user_timeout'' t_u32,
     F ''icsk_ca_priv'' (CArr t_u64 13)]"

lemma struct_inet_connection_sock_layout [layout_simps]:
  "csize struct_inet_connection_sock = 1392" "calign struct_inet_connection_sock = 8" "wf_ctype struct_inet_connection_sock" "unpacked struct_inet_connection_sock"
  by (simp_all add: struct_inet_connection_sock_def layout_simps)

definition struct_tcp_rack :: ctype where
  "struct_tcp_rack = CStruct
    [F ''mstamp'' t_u64,
     F ''rtt_us'' t_u32,
     F ''end_seq'' t_u32,
     F ''last_delivered'' t_u32,
     F ''reo_wnd_steps'' t_u8,
     BF ''reo_wnd_persist'' t_u8 5,
     BF ''dsack_seen'' t_u8 1,
     BF ''advanced'' t_u8 1]"

lemma struct_tcp_rack_layout [layout_simps]:
  "csize struct_tcp_rack = 24" "calign struct_tcp_rack = 8" "wf_ctype struct_tcp_rack" "unpacked struct_tcp_rack"
  by (simp_all add: struct_tcp_rack_def layout_simps)

definition struct_minmax_sample :: ctype where
  "struct_minmax_sample = CStruct
    [F ''t'' t_u32,
     F ''v'' t_u32]"

lemma struct_minmax_sample_layout [layout_simps]:
  "csize struct_minmax_sample = 8" "calign struct_minmax_sample = 4" "wf_ctype struct_minmax_sample" "unpacked struct_minmax_sample"
  by (simp_all add: struct_minmax_sample_def layout_simps)

definition struct_minmax :: ctype where
  "struct_minmax = CStruct
    [F ''s'' (CArr struct_minmax_sample 3)]"

lemma struct_minmax_layout [layout_simps]:
  "csize struct_minmax = 24" "calign struct_minmax = 4" "wf_ctype struct_minmax" "unpacked struct_minmax"
  by (simp_all add: struct_minmax_def layout_simps)

definition struct_tcp_options_received :: ctype where
  "struct_tcp_options_received = CStruct
    [F ''ts_recent_stamp'' c_int,
     F ''ts_recent'' t_u32,
     F ''rcv_tsval'' t_u32,
     F ''rcv_tsecr'' t_u32,
     BF ''saw_tstamp'' t_u16 1,
     BF ''tstamp_ok'' t_u16 1,
     BF ''dsack'' t_u16 1,
     BF ''wscale_ok'' t_u16 1,
     BF ''sack_ok'' t_u16 3,
     BF ''smc_ok'' t_u16 1,
     BF ''snd_wscale'' t_u16 4,
     BF ''rcv_wscale'' t_u16 4,
     BF ''saw_unknown'' t_u8 1,
     BF ''unused'' t_u8 7,
     F ''num_sacks'' t_u8,
     F ''user_mss'' t_u16,
     F ''mss_clamp'' t_u16]"

lemma struct_tcp_options_received_layout [layout_simps]:
  "csize struct_tcp_options_received = 24" "calign struct_tcp_options_received = 4" "wf_ctype struct_tcp_options_received" "unpacked struct_tcp_options_received"
  by (simp_all add: struct_tcp_options_received_def layout_simps)

definition struct_tcp_sack_block :: ctype where
  "struct_tcp_sack_block = CStruct
    [F ''start_seq'' t_u32,
     F ''end_seq'' t_u32]"

lemma struct_tcp_sack_block_layout [layout_simps]:
  "csize struct_tcp_sack_block = 8" "calign struct_tcp_sack_block = 4" "wf_ctype struct_tcp_sack_block" "unpacked struct_tcp_sack_block"
  by (simp_all add: struct_tcp_sack_block_def layout_simps)

definition struct_tcp_sock :: ctype where
  "struct_tcp_sock = CStruct
    [F ''inet_conn'' struct_inet_connection_sock,
     F ''tcp_header_len'' t_u16,
     F ''gso_segs'' t_u16,
     F ''pred_flags'' t___be32,
     F ''bytes_received'' t_u64,
     F ''segs_in'' t_u32,
     F ''data_segs_in'' t_u32,
     F ''rcv_nxt'' t_u32,
     F ''copied_seq'' t_u32,
     F ''rcv_wup'' t_u32,
     F ''snd_nxt'' t_u32,
     F ''segs_out'' t_u32,
     F ''data_segs_out'' t_u32,
     F ''bytes_sent'' t_u64,
     F ''bytes_acked'' t_u64,
     F ''dsack_dups'' t_u32,
     F ''snd_una'' t_u32,
     F ''snd_sml'' t_u32,
     F ''rcv_tstamp'' t_u32,
     F ''lsndtime'' t_u32,
     F ''last_oow_ack_time'' t_u32,
     F ''compressed_ack_rcv_nxt'' t_u32,
     F ''tsoffset'' t_u32,
     F ''tsq_node'' struct_list_head,
     F ''tsorted_sent_queue'' struct_list_head,
     F ''snd_wl1'' t_u32,
     F ''snd_wnd'' t_u32,
     F ''max_window'' t_u32,
     F ''mss_cache'' t_u32,
     F ''window_clamp'' t_u32,
     F ''rcv_ssthresh'' t_u32,
     F ''scaling_ratio'' t_u8,
     F ''rack'' struct_tcp_rack,
     F ''advmss'' t_u16,
     F ''compressed_ack'' t_u8,
     BF ''dup_ack_counter'' t_u8 2,
     BF ''tlp_retrans'' t_u8 1,
     BF ''unused'' t_u8 5,
     F ''chrono_start'' t_u32,
     F ''chrono_stat'' (CArr t_u32 3),
     BF ''chrono_type'' t_u8 2,
     BF ''rate_app_limited'' t_u8 1,
     BF ''fastopen_connect'' t_u8 1,
     BF ''fastopen_no_cookie'' t_u8 1,
     BF ''is_sack_reneg'' t_u8 1,
     BF ''fastopen_client_fail'' t_u8 2,
     BF ''nonagle'' t_u8 4,
     BF ''thin_lto'' t_u8 1,
     BF ''recvmsg_inq'' t_u8 1,
     BF ''repair'' t_u8 1,
     BF ''frto'' t_u8 1,
     F ''repair_queue'' t_u8,
     BF ''save_syn'' t_u8 2,
     BF ''syn_data'' t_u8 1,
     BF ''syn_fastopen'' t_u8 1,
     BF ''syn_fastopen_exp'' t_u8 1,
     BF ''syn_fastopen_ch'' t_u8 1,
     BF ''syn_data_acked'' t_u8 1,
     BF ''is_cwnd_limited'' t_u8 1,
     F ''tlp_high_seq'' t_u32,
     F ''tcp_tx_delay'' t_u32,
     F ''tcp_wstamp_ns'' t_u64,
     F ''tcp_clock_cache'' t_u64,
     F ''tcp_mstamp'' t_u64,
     F ''srtt_us'' t_u32,
     F ''mdev_us'' t_u32,
     F ''mdev_max_us'' t_u32,
     F ''rttvar_us'' t_u32,
     F ''rtt_seq'' t_u32,
     F ''rtt_min'' struct_minmax,
     F ''packets_out'' t_u32,
     F ''retrans_out'' t_u32,
     F ''max_packets_out'' t_u32,
     F ''cwnd_usage_seq'' t_u32,
     F ''urg_data'' t_u16,
     F ''ecn_flags'' t_u8,
     F ''keepalive_probes'' t_u8,
     F ''reordering'' t_u32,
     F ''reord_seen'' t_u32,
     F ''snd_up'' t_u32,
     F ''rx_opt'' struct_tcp_options_received,
     F ''snd_ssthresh'' t_u32,
     F ''snd_cwnd'' t_u32,
     F ''snd_cwnd_cnt'' t_u32,
     F ''snd_cwnd_clamp'' t_u32,
     F ''snd_cwnd_used'' t_u32,
     F ''snd_cwnd_stamp'' t_u32,
     F ''prior_cwnd'' t_u32,
     F ''prr_delivered'' t_u32,
     F ''prr_out'' t_u32,
     F ''delivered'' t_u32,
     F ''delivered_ce'' t_u32,
     F ''lost'' t_u32,
     F ''app_limited'' t_u32,
     F ''first_tx_mstamp'' t_u64,
     F ''delivered_mstamp'' t_u64,
     F ''rate_delivered'' t_u32,
     F ''rate_interval_us'' t_u32,
     F ''rcv_wnd'' t_u32,
     F ''write_seq'' t_u32,
     F ''notsent_lowat'' t_u32,
     F ''pushed_seq'' t_u32,
     F ''lost_out'' t_u32,
     F ''sacked_out'' t_u32,
     F ''pacing_timer'' struct_hrtimer,
     F ''compressed_ack_timer'' struct_hrtimer,
     F ''lost_skb_hint'' (CPtr ''struct sk_buff''),
     F ''retransmit_skb_hint'' (CPtr ''struct sk_buff''),
     F ''out_of_order_queue'' struct_rb_root,
     F ''ooo_last_skb'' (CPtr ''struct sk_buff''),
     F ''duplicate_sack'' (CArr struct_tcp_sack_block 1),
     F ''selective_acks'' (CArr struct_tcp_sack_block 4),
     F ''recv_sack_cache'' (CArr struct_tcp_sack_block 4),
     F ''highest_sack'' (CPtr ''struct sk_buff''),
     F ''lost_cnt_hint'' c_int,
     F ''prior_ssthresh'' t_u32,
     F ''high_seq'' t_u32,
     F ''retrans_stamp'' t_u32,
     F ''undo_marker'' t_u32,
     F ''undo_retrans'' c_int,
     F ''bytes_retrans'' t_u64,
     F ''total_retrans'' t_u32,
     F ''rto_stamp'' t_u32,
     F ''total_rto'' t_u16,
     F ''total_rto_recoveries'' t_u16,
     F ''total_rto_time'' t_u32,
     F ''urg_seq'' t_u32,
     F ''keepalive_time'' c_uint,
     F ''keepalive_intvl'' c_uint,
     F ''linger2'' c_int,
     F ''bpf_sock_ops_cb_flags'' t_u8,
     BF ''bpf_chg_cc_inprogress'' t_u8 1,
     F ''timeout_rehash'' t_u16,
     F ''rcv_ooopack'' t_u32,
     F ''rcv_rtt_last_tsecr'' t_u32,
     F ''rcv_rtt_est'' (CStruct
        [F ''rtt_us'' t_u32,
         F ''seq'' t_u32,
         F ''time'' t_u64]),
     F ''rcvq_space'' (CStruct
        [F ''space'' t_u32,
         F ''seq'' t_u32,
         F ''time'' t_u64]),
     F ''mtu_probe'' (CStruct
        [F ''probe_seq_start'' t_u32,
         F ''probe_seq_end'' t_u32]),
     F ''plb_rehash'' t_u32,
     F ''mtu_info'' t_u32,
     F ''smc_hs_congested'' (CPtr ''bool (*)(const struct sock *)''),
     F ''syn_smc'' t_bool,
     F ''af_specific'' (CPtr ''const struct tcp_sock_af_ops''),
     F ''md5sig_info'' (CPtr ''struct tcp_md5sig_info''),
     F ''fastopen_req'' (CPtr ''struct tcp_fastopen_request''),
     F ''fastopen_rsk'' (CPtr ''struct request_sock''),
     F ''saved_syn'' (CPtr ''struct saved_syn'')]"

lemma struct_tcp_sock_layout [layout_simps]:
  "csize struct_tcp_sock = 2256" "calign struct_tcp_sock = 8" "wf_ctype struct_tcp_sock" "unpacked struct_tcp_sock"
  by (simp_all add: struct_tcp_sock_def layout_simps)

definition struct_udp_sock :: ctype where
  "struct_udp_sock = CStruct
    [F ''inet'' struct_inet_sock,
     F ''udp_flags'' c_ulong,
     F ''pending'' c_int,
     F ''encap_type'' t___u8,
     F ''len'' t___u16,
     F ''gso_size'' t___u16,
     F ''pcslen'' t___u16,
     F ''pcrlen'' t___u16,
     F ''encap_rcv'' (CPtr ''int (*)(struct sock *, struct sk_buff *)''),
     F ''encap_err_rcv'' (CPtr ''void (*)(struct sock *, struct sk_buff *, int, __be16, u32, u8 *)''),
     F ''encap_err_lookup'' (CPtr ''int (*)(struct sock *, struct sk_buff *)''),
     F ''encap_destroy'' (CPtr ''void (*)(struct sock *)''),
     F ''gro_receive'' (CPtr ''struct sk_buff * (*)(struct sock *, struct list_head *, struct sk_buff *)''),
     F ''gro_complete'' (CPtr ''int (*)(struct sock *, struct sk_buff *, int)''),
     BF '''' c_long 64,
     BF '''' c_long 64,
     BF '''' c_long 64,
     BF '''' c_long 64,
     F ''reader_queue'' struct_sk_buff_head,
     F ''forward_deficit'' c_int,
     F ''forward_threshold'' c_int,
     BF '''' c_long 64,
     BF '''' c_long 64,
     BF '''' c_long 64,
     BF '''' c_long 64]"

lemma struct_udp_sock_layout [layout_simps]:
  "csize struct_udp_sock = 1152" "calign struct_udp_sock = 8" "wf_ctype struct_udp_sock" "unpacked struct_udp_sock"
  by (simp_all add: struct_udp_sock_def layout_simps)

definition struct_in6_pktinfo :: ctype where
  "struct_in6_pktinfo = CStruct
    [F ''ipi6_addr'' struct_in6_addr,
     F ''ipi6_ifindex'' c_int]"

lemma struct_in6_pktinfo_layout [layout_simps]:
  "csize struct_in6_pktinfo = 20" "calign struct_in6_pktinfo = 4" "wf_ctype struct_in6_pktinfo" "unpacked struct_in6_pktinfo"
  by (simp_all add: struct_in6_pktinfo_def layout_simps)

definition struct_inet6_cork :: ctype where
  "struct_inet6_cork = CStruct
    [F ''opt'' (CPtr ''struct ipv6_txoptions''),
     F ''hop_limit'' t_u8,
     F ''tclass'' t_u8]"

lemma struct_inet6_cork_layout [layout_simps]:
  "csize struct_inet6_cork = 16" "calign struct_inet6_cork = 8" "wf_ctype struct_inet6_cork" "unpacked struct_inet6_cork"
  by (simp_all add: struct_inet6_cork_def layout_simps)

definition struct_ipv6_pinfo :: ctype where
  "struct_ipv6_pinfo = CStruct
    [F ''saddr'' struct_in6_addr,
     F ''sticky_pktinfo'' struct_in6_pktinfo,
     F ''daddr_cache'' (CPtr ''const struct in6_addr''),
     F ''saddr_cache'' (CPtr ''const struct in6_addr''),
     F ''flow_label'' t___be32,
     F ''frag_size'' t___u32,
     BF ''__unused_1'' t___u16 7,
     BF ''hop_limit'' t___s16 9,
     BF ''mc_loop'' t___u16 1,
     BF ''__unused_2'' t___u16 6,
     BF ''mcast_hops'' t___s16 9,
     F ''ucast_oif'' c_int,
     F ''mcast_oif'' c_int,
     F ''rxopt'' (CUnion
        [F ''bits'' (CStruct
            [BF ''srcrt'' t___u16 1,
             BF ''osrcrt'' t___u16 1,
             BF ''rxinfo'' t___u16 1,
             BF ''rxoinfo'' t___u16 1,
             BF ''rxhlim'' t___u16 1,
             BF ''rxohlim'' t___u16 1,
             BF ''hopopts'' t___u16 1,
             BF ''ohopopts'' t___u16 1,
             BF ''dstopts'' t___u16 1,
             BF ''odstopts'' t___u16 1,
             BF ''rxflow'' t___u16 1,
             BF ''rxtclass'' t___u16 1,
             BF ''rxpmtu'' t___u16 1,
             BF ''rxorigdstaddr'' t___u16 1,
             BF ''recvfragsize'' t___u16 1]),
         F ''all'' t___u16]),
     BF ''recverr'' t___u16 1,
     BF ''sndflow'' t___u16 1,
     BF ''repflow'' t___u16 1,
     BF ''pmtudisc'' t___u16 3,
     BF ''padding'' t___u16 1,
     BF ''srcprefs'' t___u16 3,
     BF ''dontfrag'' t___u16 1,
     BF ''autoflowlabel'' t___u16 1,
     BF ''autoflowlabel_set'' t___u16 1,
     BF ''mc_all'' t___u16 1,
     BF ''recverr_rfc4884'' t___u16 1,
     BF ''rtalert_isolate'' t___u16 1,
     F ''min_hopcount'' t___u8,
     F ''tclass'' t___u8,
     F ''rcv_flowinfo'' t___be32,
     F ''dst_cookie'' t___u32,
     F ''ipv6_mc_list'' (CPtr ''struct ipv6_mc_socklist''),
     F ''ipv6_ac_list'' (CPtr ''struct ipv6_ac_socklist''),
     F ''ipv6_fl_list'' (CPtr ''struct ipv6_fl_socklist''),
     F ''opt'' (CPtr ''struct ipv6_txoptions''),
     F ''pktoptions'' (CPtr ''struct sk_buff''),
     F ''rxpmtu'' (CPtr ''struct sk_buff''),
     F ''cork'' struct_inet6_cork]"

lemma struct_ipv6_pinfo_layout [layout_simps]:
  "csize struct_ipv6_pinfo = 160" "calign struct_ipv6_pinfo = 8" "wf_ctype struct_ipv6_pinfo" "unpacked struct_ipv6_pinfo"
  by (simp_all add: struct_ipv6_pinfo_def layout_simps)

definition struct_tcp6_sock :: ctype where
  "struct_tcp6_sock = CStruct
    [F ''tcp'' struct_tcp_sock,
     F ''inet6'' struct_ipv6_pinfo]"

lemma struct_tcp6_sock_layout [layout_simps]:
  "csize struct_tcp6_sock = 2416" "calign struct_tcp6_sock = 8" "wf_ctype struct_tcp6_sock" "unpacked struct_tcp6_sock"
  by (simp_all add: struct_tcp6_sock_def layout_simps)

definition struct_udp6_sock :: ctype where
  "struct_udp6_sock = CStruct
    [F ''udp'' struct_udp_sock,
     F ''inet6'' struct_ipv6_pinfo,
     BF '''' c_long 64,
     BF '''' c_long 64,
     BF '''' c_long 64,
     BF '''' c_long 64]"

lemma struct_udp6_sock_layout [layout_simps]:
  "csize struct_udp6_sock = 1344" "calign struct_udp6_sock = 8" "wf_ctype struct_udp6_sock" "unpacked struct_udp6_sock"
  by (simp_all add: struct_udp6_sock_def layout_simps)

definition struct_inet_timewait_sock :: ctype where
  "struct_inet_timewait_sock = CStruct
    [F ''__tw_common'' struct_sock_common,
     F ''tw_mark'' t___u32,
     F ''tw_substate'' c_uchar,
     F ''tw_rcv_wscale'' c_uchar,
     F ''tw_sport'' t___be16,
     BF ''tw_transparent'' c_uint 1,
     BF ''tw_flowlabel'' c_uint 20,
     BF ''tw_pad'' c_uint 3,
     BF ''tw_tos'' c_uint 8,
     F ''tw_txhash'' t_u32,
     F ''tw_priority'' t_u32,
     F ''tw_timer'' struct_timer_list,
     F ''tw_tb'' (CPtr ''struct inet_bind_bucket''),
     F ''tw_tb2'' (CPtr ''struct inet_bind2_bucket''),
     F ''tw_bind2_node'' struct_hlist_node]"

lemma struct_inet_timewait_sock_layout [layout_simps]:
  "csize struct_inet_timewait_sock = 232" "calign struct_inet_timewait_sock = 8" "wf_ctype struct_inet_timewait_sock" "unpacked struct_inet_timewait_sock"
  by (simp_all add: struct_inet_timewait_sock_def layout_simps)

definition struct_tcp_timewait_sock :: ctype where
  "struct_tcp_timewait_sock = CStruct
    [F ''tw_sk'' struct_inet_timewait_sock,
     F ''tw_rcv_wnd'' t_u32,
     F ''tw_ts_offset'' t_u32,
     F ''tw_ts_recent'' t_u32,
     F ''tw_last_oow_ack_time'' t_u32,
     F ''tw_ts_recent_stamp'' c_int,
     F ''tw_tx_delay'' t_u32,
     F ''tw_md5_key'' (CPtr ''struct tcp_md5sig_key'')]"

lemma struct_tcp_timewait_sock_layout [layout_simps]:
  "csize struct_tcp_timewait_sock = 264" "calign struct_tcp_timewait_sock = 8" "wf_ctype struct_tcp_timewait_sock" "unpacked struct_tcp_timewait_sock"
  by (simp_all add: struct_tcp_timewait_sock_def layout_simps)

definition struct_request_sock :: ctype where
  "struct_request_sock = CStruct
    [F ''__req_common'' struct_sock_common,
     F ''dl_next'' (CPtr ''struct request_sock''),
     F ''mss'' t_u16,
     F ''num_retrans'' t_u8,
     BF ''syncookie'' t_u8 1,
     BF ''num_timeout'' t_u8 7,
     F ''ts_recent'' t_u32,
     F ''rsk_timer'' struct_timer_list,
     F ''rsk_ops'' (CPtr ''const struct request_sock_ops''),
     F ''sk'' (CPtr ''struct sock''),
     F ''saved_syn'' (CPtr ''struct saved_syn''),
     F ''secid'' t_u32,
     F ''peer_secid'' t_u32,
     F ''timeout'' t_u32]"

lemma struct_request_sock_layout [layout_simps]:
  "csize struct_request_sock = 232" "calign struct_request_sock = 8" "wf_ctype struct_request_sock" "unpacked struct_request_sock"
  by (simp_all add: struct_request_sock_def layout_simps)

definition struct_inet_request_sock :: ctype where
  "struct_inet_request_sock = CStruct
    [F ''req'' struct_request_sock,
     BF ''snd_wscale'' t_u16 4,
     BF ''rcv_wscale'' t_u16 4,
     BF ''tstamp_ok'' t_u16 1,
     BF ''sack_ok'' t_u16 1,
     BF ''wscale_ok'' t_u16 1,
     BF ''ecn_ok'' t_u16 1,
     BF ''acked'' t_u16 1,
     BF ''no_srccheck'' t_u16 1,
     BF ''smc_ok'' t_u16 1,
     F ''ir_mark'' t_u32,
     F '''' (CUnion
        [F ''ireq_opt'' (CPtr ''struct ip_options_rcu''),
         F '''' (CStruct
            [F ''ipv6_opt'' (CPtr ''struct ipv6_txoptions''),
             F ''pktopts'' (CPtr ''struct sk_buff'')])])]"

lemma struct_inet_request_sock_layout [layout_simps]:
  "csize struct_inet_request_sock = 256" "calign struct_inet_request_sock = 8" "wf_ctype struct_inet_request_sock" "unpacked struct_inet_request_sock"
  by (simp_all add: struct_inet_request_sock_def layout_simps)

definition struct_tcp_request_sock :: ctype where
  "struct_tcp_request_sock = CStruct
    [F ''req'' struct_inet_request_sock,
     F ''af_specific'' (CPtr ''const struct tcp_request_sock_ops''),
     F ''snt_synack'' t_u64,
     F ''tfo_listener'' t_bool,
     F ''is_mptcp'' t_bool,
     F ''txhash'' t_u32,
     F ''rcv_isn'' t_u32,
     F ''snt_isn'' t_u32,
     F ''ts_off'' t_u32,
     F ''last_oow_ack_time'' t_u32,
     F ''rcv_nxt'' t_u32,
     F ''syn_tos'' t_u8]"

lemma struct_tcp_request_sock_layout [layout_simps]:
  "csize struct_tcp_request_sock = 304" "calign struct_tcp_request_sock = 8" "wf_ctype struct_tcp_request_sock" "unpacked struct_tcp_request_sock"
  by (simp_all add: struct_tcp_request_sock_def layout_simps)

definition struct_iovec :: ctype where
  "struct_iovec = CStruct
    [F ''iov_base'' (CPtr ''void''),
     F ''iov_len'' t___kernel_size_t]"

lemma struct_iovec_layout [layout_simps]:
  "csize struct_iovec = 16" "calign struct_iovec = 8" "wf_ctype struct_iovec" "unpacked struct_iovec"
  by (simp_all add: struct_iovec_def layout_simps)

definition t___kernel_loff_t :: ctype where
  "t___kernel_loff_t = c_llong"

lemma t___kernel_loff_t_layout [layout_simps]:
  "csize t___kernel_loff_t = 8" "calign t___kernel_loff_t = 8" "wf_ctype t___kernel_loff_t" "unpacked t___kernel_loff_t"
  by (simp_all add: t___kernel_loff_t_def layout_simps)

definition t_loff_t :: ctype where
  "t_loff_t = t___kernel_loff_t"

lemma t_loff_t_layout [layout_simps]:
  "csize t_loff_t = 8" "calign t_loff_t = 8" "wf_ctype t_loff_t" "unpacked t_loff_t"
  by (simp_all add: t_loff_t_def layout_simps)

definition struct_iov_iter :: ctype where
  "struct_iov_iter = CStruct
    [F ''iter_type'' t_u8,
     F ''copy_mc'' t_bool,
     F ''nofault'' t_bool,
     F ''data_source'' t_bool,
     F ''user_backed'' t_bool,
     F '''' (CUnion
        [F ''iov_offset'' t_size_t,
         F ''last_offset'' c_int]),
     F '''' (CUnion
        [F ''__ubuf_iovec'' struct_iovec,
         F '''' (CStruct
            [F '''' (CUnion
                [F ''__iov'' (CPtr ''const struct iovec''),
                 F ''kvec'' (CPtr ''const struct kvec''),
                 F ''bvec'' (CPtr ''const struct bio_vec''),
                 F ''xarray'' (CPtr ''struct xarray''),
                 F ''ubuf'' (CPtr ''void'')]),
             F ''count'' t_size_t])]),
     F '''' (CUnion
        [F ''nr_segs'' c_ulong,
         F ''xarray_start'' t_loff_t])]"

lemma struct_iov_iter_layout [layout_simps]:
  "csize struct_iov_iter = 40" "calign struct_iov_iter = 8" "wf_ctype struct_iov_iter" "unpacked struct_iov_iter"
  by (simp_all add: struct_iov_iter_def layout_simps)

definition struct_msghdr :: ctype where
  "struct_msghdr = CStruct
    [F ''msg_name'' (CPtr ''void''),
     F ''msg_namelen'' c_int,
     F ''msg_inq'' c_int,
     F ''msg_iter'' struct_iov_iter,
     F '''' (CUnion
        [F ''msg_control'' (CPtr ''void''),
         F ''msg_control_user'' (CPtr ''void'')]),
     BF ''msg_control_is_user'' t_bool 1,
     BF ''msg_get_inq'' t_bool 1,
     F ''msg_flags'' c_uint,
     F ''msg_controllen'' t___kernel_size_t,
     F ''msg_iocb'' (CPtr ''struct kiocb''),
     F ''msg_ubuf'' (CPtr ''struct ubuf_info''),
     F ''sg_from_iter'' (CPtr ''int (*)(struct sock *, struct sk_buff *, struct iov_iter *, size_t)'')]"

lemma struct_msghdr_layout [layout_simps]:
  "csize struct_msghdr = 104" "calign struct_msghdr = 8" "wf_ctype struct_msghdr" "unpacked struct_msghdr"
  by (simp_all add: struct_msghdr_def layout_simps)

definition t_slab_flags_t :: ctype where
  "t_slab_flags_t = c_uint"

lemma t_slab_flags_t_layout [layout_simps]:
  "csize t_slab_flags_t = 4" "calign t_slab_flags_t = 4" "wf_ctype t_slab_flags_t" "unpacked t_slab_flags_t"
  by (simp_all add: t_slab_flags_t_def layout_simps)

definition struct_proto :: ctype where
  "struct_proto = CStruct
    [F ''close'' (CPtr ''void (*)(struct sock *, long int)''),
     F ''pre_connect'' (CPtr ''int (*)(struct sock *, struct sockaddr *, int)''),
     F ''connect'' (CPtr ''int (*)(struct sock *, struct sockaddr *, int)''),
     F ''disconnect'' (CPtr ''int (*)(struct sock *, int)''),
     F ''accept'' (CPtr ''struct sock * (*)(struct sock *, int, int *, bool)''),
     F ''ioctl'' (CPtr ''int (*)(struct sock *, int, int *)''),
     F ''init'' (CPtr ''int (*)(struct sock *)''),
     F ''destroy'' (CPtr ''void (*)(struct sock *)''),
     F ''shutdown'' (CPtr ''void (*)(struct sock *, int)''),
     F ''setsockopt'' (CPtr ''int (*)(struct sock *, int, int, sockptr_t, unsigned int)''),
     F ''getsockopt'' (CPtr ''int (*)(struct sock *, int, int, char *, int *)''),
     F ''keepalive'' (CPtr ''void (*)(struct sock *, int)''),
     F ''compat_ioctl'' (CPtr ''int (*)(struct sock *, unsigned int, long unsigned int)''),
     F ''sendmsg'' (CPtr ''int (*)(struct sock *, struct msghdr *, size_t)''),
     F ''recvmsg'' (CPtr ''int (*)(struct sock *, struct msghdr *, size_t, int, int *)''),
     F ''splice_eof'' (CPtr ''void (*)(struct socket *)''),
     F ''bind'' (CPtr ''int (*)(struct sock *, struct sockaddr *, int)''),
     F ''bind_add'' (CPtr ''int (*)(struct sock *, struct sockaddr *, int)''),
     F ''backlog_rcv'' (CPtr ''int (*)(struct sock *, struct sk_buff *)''),
     F ''bpf_bypass_getsockopt'' (CPtr ''bool (*)(int, int)''),
     F ''release_cb'' (CPtr ''void (*)(struct sock *)''),
     F ''hash'' (CPtr ''int (*)(struct sock *)''),
     F ''unhash'' (CPtr ''void (*)(struct sock *)''),
     F ''rehash'' (CPtr ''void (*)(struct sock *)''),
     F ''get_port'' (CPtr ''int (*)(struct sock *, short unsigned int)''),
     F ''put_port'' (CPtr ''void (*)(struct sock *)''),
     F ''psock_update_sk_prot'' (CPtr ''int (*)(struct sock *, struct sk_psock *, bool)''),
     F ''inuse_idx'' c_uint,
     F ''stream_memory_free'' (CPtr ''bool (*)(const struct sock *, int)''),
     F ''sock_is_readable'' (CPtr ''bool (*)(struct sock *)''),
     F ''enter_memory_pressure'' (CPtr ''void (*)(struct sock *)''),
     F ''leave_memory_pressure'' (CPtr ''void (*)(struct sock *)''),
     F ''memory_allocated'' (CPtr ''atomic_long_t''),
     F ''per_cpu_fw_alloc'' (CPtr ''int''),
     F ''sockets_allocated'' (CPtr ''struct percpu_counter''),
     F ''memory_pressure'' (CPtr ''long unsigned int''),
     F ''sysctl_mem'' (CPtr ''long int''),
     F ''sysctl_wmem'' (CPtr ''int''),
     F ''sysctl_rmem'' (CPtr ''int''),
     F ''sysctl_wmem_offset'' t_u32,
     F ''sysctl_rmem_offset'' t_u32,
     F ''max_header'' c_int,
     F ''no_autobind'' t_bool,
     F ''slab'' (CPtr ''struct kmem_cache''),
     F ''obj_size'' c_uint,
     F ''ipv6_pinfo_offset'' c_uint,
     F ''slab_flags'' t_slab_flags_t,
     F ''useroffset'' c_uint,
     F ''usersize'' c_uint,
     F ''orphan_count'' (CPtr ''unsigned int''),
     F ''rsk_prot'' (CPtr ''struct request_sock_ops''),
     F ''twsk_prot'' (CPtr ''struct timewait_sock_ops''),
     F ''h'' (CUnion
        [F ''hashinfo'' (CPtr ''struct inet_hashinfo''),
         F ''udp_table'' (CPtr ''struct udp_table''),
         F ''raw_hash'' (CPtr ''struct raw_hashinfo''),
         F ''smc_hash'' (CPtr ''struct smc_hashinfo'')]),
     F ''owner'' (CPtr ''struct module''),
     F ''name'' (CArr c_char 32),
     F ''node'' struct_list_head,
     F ''diag_destroy'' (CPtr ''int (*)(struct sock *, int)'')]"

lemma struct_proto_layout [layout_simps]:
  "csize struct_proto = 456" "calign struct_proto = 8" "wf_ctype struct_proto" "unpacked struct_proto"
  by (simp_all add: struct_proto_def layout_simps)

definition struct_proto_ops :: ctype where
  "struct_proto_ops = CStruct
    [F ''family'' c_int,
     F ''owner'' (CPtr ''struct module''),
     F ''release'' (CPtr ''int (*)(struct socket *)''),
     F ''bind'' (CPtr ''int (*)(struct socket *, struct sockaddr *, int)''),
     F ''connect'' (CPtr ''int (*)(struct socket *, struct sockaddr *, int, int)''),
     F ''socketpair'' (CPtr ''int (*)(struct socket *, struct socket *)''),
     F ''accept'' (CPtr ''int (*)(struct socket *, struct socket *, int, bool)''),
     F ''getname'' (CPtr ''int (*)(struct socket *, struct sockaddr *, int)''),
     F ''poll'' (CPtr ''__poll_t (*)(struct file *, struct socket *, struct poll_table_struct *)''),
     F ''ioctl'' (CPtr ''int (*)(struct socket *, unsigned int, long unsigned int)''),
     F ''compat_ioctl'' (CPtr ''int (*)(struct socket *, unsigned int, long unsigned int)''),
     F ''gettstamp'' (CPtr ''int (*)(struct socket *, void *, bool, bool)''),
     F ''listen'' (CPtr ''int (*)(struct socket *, int)''),
     F ''shutdown'' (CPtr ''int (*)(struct socket *, int)''),
     F ''setsockopt'' (CPtr ''int (*)(struct socket *, int, int, sockptr_t, unsigned int)''),
     F ''getsockopt'' (CPtr ''int (*)(struct socket *, int, int, char *, int *)''),
     F ''show_fdinfo'' (CPtr ''void (*)(struct seq_file *, struct socket *)''),
     F ''sendmsg'' (CPtr ''int (*)(struct socket *, struct msghdr *, size_t)''),
     F ''recvmsg'' (CPtr ''int (*)(struct socket *, struct msghdr *, size_t, int)''),
     F ''mmap'' (CPtr ''int (*)(struct file *, struct socket *, struct vm_area_struct *)''),
     F ''splice_read'' (CPtr ''ssize_t (*)(struct socket *, loff_t *, struct pipe_inode_info *, size_t, unsigned int)''),
     F ''splice_eof'' (CPtr ''void (*)(struct socket *)''),
     F ''set_peek_off'' (CPtr ''int (*)(struct sock *, int)''),
     F ''peek_len'' (CPtr ''int (*)(struct socket *)''),
     F ''read_sock'' (CPtr ''int (*)(struct sock *, read_descriptor_t *, sk_read_actor_t)''),
     F ''read_skb'' (CPtr ''int (*)(struct sock *, skb_read_actor_t)''),
     F ''sendmsg_locked'' (CPtr ''int (*)(struct sock *, struct msghdr *, size_t)''),
     F ''set_rcvlowat'' (CPtr ''int (*)(struct sock *, int)'')]"

lemma struct_proto_ops_layout [layout_simps]:
  "csize struct_proto_ops = 224" "calign struct_proto_ops = 8" "wf_ctype struct_proto_ops" "unpacked struct_proto_ops"
  by (simp_all add: struct_proto_ops_def layout_simps)

definition t_socket_state :: "(string \<times> int) list" where
  "t_socket_state =
    [(''SS_FREE'', 0),
     (''SS_UNCONNECTED'', 1),
     (''SS_CONNECTING'', 2),
     (''SS_CONNECTED'', 3),
     (''SS_DISCONNECTING'', 4)]"

definition struct_socket_wq :: ctype where
  "struct_socket_wq = CStruct
    [F ''wait'' t_wait_queue_head_t,
     F ''fasync_list'' (CPtr ''struct fasync_struct''),
     F ''flags'' c_ulong,
     F ''rcu'' struct_callback_head,
     BF '''' c_long 64]"

lemma struct_socket_wq_layout [layout_simps]:
  "csize struct_socket_wq = 64" "calign struct_socket_wq = 8" "wf_ctype struct_socket_wq" "unpacked struct_socket_wq"
  by (simp_all add: struct_socket_wq_def layout_simps)

definition struct_socket :: ctype where
  "struct_socket = CStruct
    [F ''state'' c_enum,
     F ''type'' c_short,
     F ''flags'' c_ulong,
     F ''file'' (CPtr ''struct file''),
     F ''sk'' (CPtr ''struct sock''),
     F ''ops'' (CPtr ''const struct proto_ops''),
     BF '''' c_long 64,
     BF '''' c_long 64,
     BF '''' c_long 64,
     F ''wq'' struct_socket_wq]"

lemma struct_socket_layout [layout_simps]:
  "csize struct_socket = 128" "calign struct_socket = 8" "wf_ctype struct_socket" "unpacked struct_socket"
  by (simp_all add: struct_socket_def layout_simps)

definition t___wsum :: ctype where
  "t___wsum = t___u32"

lemma t___wsum_layout [layout_simps]:
  "csize t___wsum = 4" "calign t___wsum = 4" "wf_ctype t___wsum" "unpacked t___wsum"
  by (simp_all add: t___wsum_def layout_simps)

definition t_sk_buff_data_t :: ctype where
  "t_sk_buff_data_t = c_uint"

lemma t_sk_buff_data_t_layout [layout_simps]:
  "csize t_sk_buff_data_t = 4" "calign t_sk_buff_data_t = 4" "wf_ctype t_sk_buff_data_t" "unpacked t_sk_buff_data_t"
  by (simp_all add: t_sk_buff_data_t_def layout_simps)

definition struct_sk_buff :: ctype where
  "struct_sk_buff = CStruct
    [F '''' (CUnion
        [F '''' (CStruct
            [F ''next'' (CPtr ''struct sk_buff''),
             F ''prev'' (CPtr ''struct sk_buff''),
             F '''' (CUnion
                [F ''dev'' (CPtr ''struct net_device''),
                 F ''dev_scratch'' c_ulong])]),
         F ''rbnode'' struct_rb_node,
         F ''list'' struct_list_head,
         F ''ll_node'' struct_llist_node]),
     F ''sk'' (CPtr ''struct sock''),
     F '''' (CUnion
        [F ''tstamp'' t_ktime_t,
         F ''skb_mstamp_ns'' t_u64]),
     F ''cb'' (CArr c_char 48),
     F '''' (CUnion
        [F '''' (CStruct
            [F ''_skb_refdst'' c_ulong,
             F ''destructor'' (CPtr ''void (*)(struct sk_buff *)'')]),
         F ''tcp_tsorted_anchor'' struct_list_head,
         F ''_sk_redir'' c_ulong]),
     F ''_nfct'' c_ulong,
     F ''len'' c_uint,
     F ''data_len'' c_uint,
     F ''mac_len'' t___u16,
     F ''hdr_len'' t___u16,
     F ''queue_mapping'' t___u16,
     F ''__cloned_offset'' (CArr t___u8 0),
     BF ''cloned'' t___u8 1,
     BF ''nohdr'' t___u8 1,
     BF ''fclone'' t___u8 2,
     BF ''peeked'' t___u8 1,
     BF ''head_frag'' t___u8 1,
     BF ''pfmemalloc'' t___u8 1,
     BF ''pp_recycle'' t___u8 1,
     F ''active_extensions'' t___u8,
     F '''' (CUnion
        [F '''' (CStruct
            [F ''__pkt_type_offset'' (CArr t___u8 0),
             BF ''pkt_type'' t___u8 3,
             BF ''ignore_df'' t___u8 1,
             BF ''dst_pending_confirm'' t___u8 1,
             BF ''ip_summed'' t___u8 2,
             BF ''ooo_okay'' t___u8 1,
             F ''__mono_tc_offset'' (CArr t___u8 0),
             BF ''tstamp_type'' t___u8 1,
             BF ''tc_at_ingress'' t___u8 1,
             BF ''tc_skip_classify'' t___u8 1,
             BF ''remcsum_offload'' t___u8 1,
             BF ''csum_complete_sw'' t___u8 1,
             BF ''csum_level'' t___u8 2,
             BF ''inner_protocol_type'' t___u8 1,
             BF ''l4_hash'' t___u8 1,
             BF ''sw_hash'' t___u8 1,
             BF ''wifi_acked_valid'' t___u8 1,
             BF ''wifi_acked'' t___u8 1,
             BF ''no_fcs'' t___u8 1,
             BF ''encapsulation'' t___u8 1,
             BF ''encap_hdr_csum'' t___u8 1,
             BF ''csum_valid'' t___u8 1,
             BF ''ndisc_nodetype'' t___u8 2,
             BF ''ipvs_property'' t___u8 1,
             BF ''nf_trace'' t___u8 1,
             BF ''offload_fwd_mark'' t___u8 1,
             BF ''offload_l3_fwd_mark'' t___u8 1,
             BF ''redirected'' t___u8 1,
             BF ''from_ingress'' t___u8 1,
             BF ''nf_skip_egress'' t___u8 1,
             BF ''slow_gro'' t___u8 1,
             BF ''csum_not_inet'' t___u8 1,
             F ''tc_index'' t___u16,
             F ''alloc_cpu'' t_u16,
             F '''' (CUnion
                [F ''csum'' t___wsum,
                 F '''' (CStruct
                    [F ''csum_start'' t___u16,
                     F ''csum_offset'' t___u16])]),
             F ''priority'' t___u32,
             F ''skb_iif'' c_int,
             F ''hash'' t___u32,
             F '''' (CUnion
                [F ''vlan_all'' t_u32,
                 F '''' (CStruct
                    [F ''vlan_proto'' t___be16,
                     F ''vlan_tci'' t___u16])]),
             F '''' (CUnion
                [F ''napi_id'' c_uint,
                 F ''sender_cpu'' c_uint]),
             F ''secmark'' t___u32,
             F '''' (CUnion
                [F ''mark'' t___u32,
                 F ''reserved_tailroom'' t___u32]),
             F '''' (CUnion
                [F ''inner_protocol'' t___be16,
                 F ''inner_ipproto'' t___u8]),
             F ''inner_transport_header'' t___u16,
             F ''inner_network_header'' t___u16,
             F ''inner_mac_header'' t___u16,
             F ''protocol'' t___be16,
             F ''transport_header'' t___u16,
             F ''network_header'' t___u16,
             F ''mac_header'' t___u16]),
         F ''headers'' (CStruct
            [F ''__pkt_type_offset'' (CArr t___u8 0),
             BF ''pkt_type'' t___u8 3,
             BF ''ignore_df'' t___u8 1,
             BF ''dst_pending_confirm'' t___u8 1,
             BF ''ip_summed'' t___u8 2,
             BF ''ooo_okay'' t___u8 1,
             F ''__mono_tc_offset'' (CArr t___u8 0),
             BF ''tstamp_type'' t___u8 1,
             BF ''tc_at_ingress'' t___u8 1,
             BF ''tc_skip_classify'' t___u8 1,
             BF ''remcsum_offload'' t___u8 1,
             BF ''csum_complete_sw'' t___u8 1,
             BF ''csum_level'' t___u8 2,
             BF ''inner_protocol_type'' t___u8 1,
             BF ''l4_hash'' t___u8 1,
             BF ''sw_hash'' t___u8 1,
             BF ''wifi_acked_valid'' t___u8 1,
             BF ''wifi_acked'' t___u8 1,
             BF ''no_fcs'' t___u8 1,
             BF ''encapsulation'' t___u8 1,
             BF ''encap_hdr_csum'' t___u8 1,
             BF ''csum_valid'' t___u8 1,
             BF ''ndisc_nodetype'' t___u8 2,
             BF ''ipvs_property'' t___u8 1,
             BF ''nf_trace'' t___u8 1,
             BF ''offload_fwd_mark'' t___u8 1,
             BF ''offload_l3_fwd_mark'' t___u8 1,
             BF ''redirected'' t___u8 1,
             BF ''from_ingress'' t___u8 1,
             BF ''nf_skip_egress'' t___u8 1,
             BF ''slow_gro'' t___u8 1,
             BF ''csum_not_inet'' t___u8 1,
             F ''tc_index'' t___u16,
             F ''alloc_cpu'' t_u16,
             F '''' (CUnion
                [F ''csum'' t___wsum,
                 F '''' (CStruct
                    [F ''csum_start'' t___u16,
                     F ''csum_offset'' t___u16])]),
             F ''priority'' t___u32,
             F ''skb_iif'' c_int,
             F ''hash'' t___u32,
             F '''' (CUnion
                [F ''vlan_all'' t_u32,
                 F '''' (CStruct
                    [F ''vlan_proto'' t___be16,
                     F ''vlan_tci'' t___u16])]),
             F '''' (CUnion
                [F ''napi_id'' c_uint,
                 F ''sender_cpu'' c_uint]),
             F ''secmark'' t___u32,
             F '''' (CUnion
                [F ''mark'' t___u32,
                 F ''reserved_tailroom'' t___u32]),
             F '''' (CUnion
                [F ''inner_protocol'' t___be16,
                 F ''inner_ipproto'' t___u8]),
             F ''inner_transport_header'' t___u16,
             F ''inner_network_header'' t___u16,
             F ''inner_mac_header'' t___u16,
             F ''protocol'' t___be16,
             F ''transport_header'' t___u16,
             F ''network_header'' t___u16,
             F ''mac_header'' t___u16])]),
     F ''tail'' t_sk_buff_data_t,
     F ''end'' t_sk_buff_data_t,
     F ''head'' (CPtr ''unsigned char''),
     F ''data'' (CPtr ''unsigned char''),
     F ''truesize'' c_uint,
     F ''users'' t_refcount_t,
     F ''extensions'' (CPtr ''struct skb_ext'')]"

lemma struct_sk_buff_layout [layout_simps]:
  "csize struct_sk_buff = 232" "calign struct_sk_buff = 8" "wf_ctype struct_sk_buff" "unpacked struct_sk_buff"
  by (simp_all add: struct_sk_buff_def layout_simps)

definition enum_tcp_states :: "(string \<times> int) list" where
  "enum_tcp_states =
    [(''TCP_ESTABLISHED'', 1),
     (''TCP_SYN_SENT'', 2),
     (''TCP_SYN_RECV'', 3),
     (''TCP_FIN_WAIT1'', 4),
     (''TCP_FIN_WAIT2'', 5),
     (''TCP_TIME_WAIT'', 6),
     (''TCP_CLOSE'', 7),
     (''TCP_CLOSE_WAIT'', 8),
     (''TCP_LAST_ACK'', 9),
     (''TCP_LISTEN'', 10),
     (''TCP_CLOSING'', 11),
     (''TCP_NEW_SYN_RECV'', 12),
     (''TCP_MAX_STATES'', 13)]"

end
