(* ===== verification/Vmlinux_Task.thy ===== *)
theory Vmlinux_Task
  imports Vmlinux_Base
begin

text \<open>
  The task side of \<open>vmlinux.h\<close>: \<open>struct task_struct\<close>, from which the
  \<open>bpf_get_current_*\<close> helpers read, the saved registers \<open>struct pt_regs\<close> a kprobe
  context is, and the kprobe objects of the kernel.
\<close>

definition struct_thread_info :: ctype where
  "struct_thread_info = CStruct
    [F ''flags'' c_ulong,
     F ''syscall_work'' c_ulong,
     F ''status'' t_u32,
     F ''cpu'' t_u32]"

lemma struct_thread_info_layout [layout_simps]:
  "csize struct_thread_info = 24" "calign struct_thread_info = 8" "wf_ctype struct_thread_info" "unpacked struct_thread_info"
  by (simp_all add: struct_thread_info_def layout_simps)

definition struct_load_weight :: ctype where
  "struct_load_weight = CStruct
    [F ''weight'' c_ulong,
     F ''inv_weight'' t_u32]"

lemma struct_load_weight_layout [layout_simps]:
  "csize struct_load_weight = 16" "calign struct_load_weight = 8" "wf_ctype struct_load_weight" "unpacked struct_load_weight"
  by (simp_all add: struct_load_weight_def layout_simps)

definition struct_util_est :: ctype where
  "struct_util_est = CStruct
    [F ''enqueued'' c_uint,
     F ''ewma'' c_uint]"

lemma struct_util_est_layout [layout_simps]:
  "csize struct_util_est = 8" "calign struct_util_est = 4" "wf_ctype struct_util_est" "unpacked struct_util_est"
  by (simp_all add: struct_util_est_def layout_simps)

definition struct_sched_avg :: ctype where
  "struct_sched_avg = CStruct
    [F ''last_update_time'' t_u64,
     F ''load_sum'' t_u64,
     F ''runnable_sum'' t_u64,
     F ''util_sum'' t_u32,
     F ''period_contrib'' t_u32,
     F ''load_avg'' c_ulong,
     F ''runnable_avg'' c_ulong,
     F ''util_avg'' c_ulong,
     F ''util_est'' struct_util_est]"

lemma struct_sched_avg_layout [layout_simps]:
  "csize struct_sched_avg = 64" "calign struct_sched_avg = 8" "wf_ctype struct_sched_avg" "unpacked struct_sched_avg"
  by (simp_all add: struct_sched_avg_def layout_simps)

definition struct_sched_entity :: ctype where
  "struct_sched_entity = CStruct
    [F ''load'' struct_load_weight,
     F ''run_node'' struct_rb_node,
     F ''deadline'' t_u64,
     F ''min_deadline'' t_u64,
     F ''group_node'' struct_list_head,
     F ''on_rq'' c_uint,
     F ''exec_start'' t_u64,
     F ''sum_exec_runtime'' t_u64,
     F ''prev_sum_exec_runtime'' t_u64,
     F ''vruntime'' t_u64,
     F ''vlag'' t_s64,
     F ''slice'' t_u64,
     F ''nr_migrations'' t_u64,
     F ''depth'' c_int,
     F ''parent'' (CPtr ''struct sched_entity''),
     F ''cfs_rq'' (CPtr ''struct cfs_rq''),
     F ''my_q'' (CPtr ''struct cfs_rq''),
     F ''runnable_weight'' c_ulong,
     BF '''' c_long 64,
     BF '''' c_long 64,
     F ''avg'' struct_sched_avg]"

lemma struct_sched_entity_layout [layout_simps]:
  "csize struct_sched_entity = 256" "calign struct_sched_entity = 8" "wf_ctype struct_sched_entity" "unpacked struct_sched_entity"
  by (simp_all add: struct_sched_entity_def layout_simps)

definition struct_sched_rt_entity :: ctype where
  "struct_sched_rt_entity = CStruct
    [F ''run_list'' struct_list_head,
     F ''timeout'' c_ulong,
     F ''watchdog_stamp'' c_ulong,
     F ''time_slice'' c_uint,
     F ''on_rq'' c_ushort,
     F ''on_list'' c_ushort,
     F ''back'' (CPtr ''struct sched_rt_entity'')]"

lemma struct_sched_rt_entity_layout [layout_simps]:
  "csize struct_sched_rt_entity = 48" "calign struct_sched_rt_entity = 8" "wf_ctype struct_sched_rt_entity" "unpacked struct_sched_rt_entity"
  by (simp_all add: struct_sched_rt_entity_def layout_simps)

definition struct_sched_dl_entity :: ctype where
  "struct_sched_dl_entity = CStruct
    [F ''rb_node'' struct_rb_node,
     F ''dl_runtime'' t_u64,
     F ''dl_deadline'' t_u64,
     F ''dl_period'' t_u64,
     F ''dl_bw'' t_u64,
     F ''dl_density'' t_u64,
     F ''runtime'' t_s64,
     F ''deadline'' t_u64,
     F ''flags'' c_uint,
     BF ''dl_throttled'' c_uint 1,
     BF ''dl_yielded'' c_uint 1,
     BF ''dl_non_contending'' c_uint 1,
     BF ''dl_overrun'' c_uint 1,
     F ''dl_timer'' struct_hrtimer,
     F ''inactive_timer'' struct_hrtimer,
     F ''pi_se'' (CPtr ''struct sched_dl_entity'')]"

lemma struct_sched_dl_entity_layout [layout_simps]:
  "csize struct_sched_dl_entity = 224" "calign struct_sched_dl_entity = 8" "wf_ctype struct_sched_dl_entity" "unpacked struct_sched_dl_entity"
  by (simp_all add: struct_sched_dl_entity_def layout_simps)

definition struct_sched_statistics :: ctype where
  "struct_sched_statistics = CStruct
    [F ''wait_start'' t_u64,
     F ''wait_max'' t_u64,
     F ''wait_count'' t_u64,
     F ''wait_sum'' t_u64,
     F ''iowait_count'' t_u64,
     F ''iowait_sum'' t_u64,
     F ''sleep_start'' t_u64,
     F ''sleep_max'' t_u64,
     F ''sum_sleep_runtime'' t_s64,
     F ''block_start'' t_u64,
     F ''block_max'' t_u64,
     F ''sum_block_runtime'' t_s64,
     F ''exec_max'' t_s64,
     F ''slice_max'' t_u64,
     F ''nr_migrations_cold'' t_u64,
     F ''nr_failed_migrations_affine'' t_u64,
     F ''nr_failed_migrations_running'' t_u64,
     F ''nr_failed_migrations_hot'' t_u64,
     F ''nr_forced_migrations'' t_u64,
     F ''nr_wakeups'' t_u64,
     F ''nr_wakeups_sync'' t_u64,
     F ''nr_wakeups_migrate'' t_u64,
     F ''nr_wakeups_local'' t_u64,
     F ''nr_wakeups_remote'' t_u64,
     F ''nr_wakeups_affine'' t_u64,
     F ''nr_wakeups_affine_attempts'' t_u64,
     F ''nr_wakeups_passive'' t_u64,
     F ''nr_wakeups_idle'' t_u64,
     BF '''' c_long 64,
     BF '''' c_long 64,
     BF '''' c_long 64,
     BF '''' c_long 64]"

lemma struct_sched_statistics_layout [layout_simps]:
  "csize struct_sched_statistics = 256" "calign struct_sched_statistics = 8" "wf_ctype struct_sched_statistics" "unpacked struct_sched_statistics"
  by (simp_all add: struct_sched_statistics_def layout_simps)

definition struct_hlist_head :: ctype where
  "struct_hlist_head = CStruct
    [F ''first'' (CPtr ''struct hlist_node'')]"

lemma struct_hlist_head_layout [layout_simps]:
  "csize struct_hlist_head = 8" "calign struct_hlist_head = 8" "wf_ctype struct_hlist_head" "unpacked struct_hlist_head"
  by (simp_all add: struct_hlist_head_def layout_simps)

definition struct_cpumask :: ctype where
  "struct_cpumask = CStruct
    [F ''bits'' (CArr c_ulong 128)]"

lemma struct_cpumask_layout [layout_simps]:
  "csize struct_cpumask = 1024" "calign struct_cpumask = 8" "wf_ctype struct_cpumask" "unpacked struct_cpumask"
  by (simp_all add: struct_cpumask_def layout_simps)

definition t_cpumask_t :: ctype where
  "t_cpumask_t = struct_cpumask"

lemma t_cpumask_t_layout [layout_simps]:
  "csize t_cpumask_t = 1024" "calign t_cpumask_t = 8" "wf_ctype t_cpumask_t" "unpacked t_cpumask_t"
  by (simp_all add: t_cpumask_t_def layout_simps)

definition union_rcu_special :: ctype where
  "union_rcu_special = CUnion
    [F ''b'' (CStruct
        [F ''blocked'' t_u8,
         F ''need_qs'' t_u8,
         F ''exp_hint'' t_u8,
         F ''need_mb'' t_u8]),
     F ''s'' t_u32]"

lemma union_rcu_special_layout [layout_simps]:
  "csize union_rcu_special = 4" "calign union_rcu_special = 4" "wf_ctype union_rcu_special" "unpacked union_rcu_special"
  by (simp_all add: union_rcu_special_def layout_simps)

definition struct_sched_info :: ctype where
  "struct_sched_info = CStruct
    [F ''pcount'' c_ulong,
     F ''run_delay'' c_ullong,
     F ''last_arrival'' c_ullong,
     F ''last_queued'' c_ullong]"

lemma struct_sched_info_layout [layout_simps]:
  "csize struct_sched_info = 32" "calign struct_sched_info = 8" "wf_ctype struct_sched_info" "unpacked struct_sched_info"
  by (simp_all add: struct_sched_info_def layout_simps)

definition struct_plist_node :: ctype where
  "struct_plist_node = CStruct
    [F ''prio'' c_int,
     F ''prio_list'' struct_list_head,
     F ''node_list'' struct_list_head]"

lemma struct_plist_node_layout [layout_simps]:
  "csize struct_plist_node = 40" "calign struct_plist_node = 8" "wf_ctype struct_plist_node" "unpacked struct_plist_node"
  by (simp_all add: struct_plist_node_def layout_simps)

definition t___kernel_clockid_t :: ctype where
  "t___kernel_clockid_t = c_int"

lemma t___kernel_clockid_t_layout [layout_simps]:
  "csize t___kernel_clockid_t = 4" "calign t___kernel_clockid_t = 4" "wf_ctype t___kernel_clockid_t" "unpacked t___kernel_clockid_t"
  by (simp_all add: t___kernel_clockid_t_def layout_simps)

definition t_clockid_t :: ctype where
  "t_clockid_t = t___kernel_clockid_t"

lemma t_clockid_t_layout [layout_simps]:
  "csize t_clockid_t = 4" "calign t_clockid_t = 4" "wf_ctype t_clockid_t" "unpacked t_clockid_t"
  by (simp_all add: t_clockid_t_def layout_simps)

definition enum_timespec_type :: "(string \<times> int) list" where
  "enum_timespec_type =
    [(''TT_NONE'', 0),
     (''TT_NATIVE'', 1),
     (''TT_COMPAT'', 2)]"

definition struct_restart_block :: ctype where
  "struct_restart_block = CStruct
    [F ''arch_data'' c_ulong,
     F ''fn'' (CPtr ''long int (*)(struct restart_block *)''),
     F '''' (CUnion
        [F ''futex'' (CStruct
            [F ''uaddr'' (CPtr ''u32''),
             F ''val'' t_u32,
             F ''flags'' t_u32,
             F ''bitset'' t_u32,
             F ''time'' t_u64,
             F ''uaddr2'' (CPtr ''u32'')]),
         F ''nanosleep'' (CStruct
            [F ''clockid'' t_clockid_t,
             F ''type'' c_enum,
             F '''' (CUnion
                [F ''rmtp'' (CPtr ''struct __kernel_timespec''),
                 F ''compat_rmtp'' (CPtr ''struct old_timespec32'')]),
             F ''expires'' t_u64]),
         F ''poll'' (CStruct
            [F ''ufds'' (CPtr ''struct pollfd''),
             F ''nfds'' c_int,
             F ''has_timeout'' c_int,
             F ''tv_sec'' c_ulong,
             F ''tv_nsec'' c_ulong])])]"

lemma struct_restart_block_layout [layout_simps]:
  "csize struct_restart_block = 56" "calign struct_restart_block = 8" "wf_ctype struct_restart_block" "unpacked struct_restart_block"
  by (simp_all add: struct_restart_block_def layout_simps)

definition t___kernel_pid_t :: ctype where
  "t___kernel_pid_t = c_int"

lemma t___kernel_pid_t_layout [layout_simps]:
  "csize t___kernel_pid_t = 4" "calign t___kernel_pid_t = 4" "wf_ctype t___kernel_pid_t" "unpacked t___kernel_pid_t"
  by (simp_all add: t___kernel_pid_t_def layout_simps)

definition t_pid_t :: ctype where
  "t_pid_t = t___kernel_pid_t"

lemma t_pid_t_layout [layout_simps]:
  "csize t_pid_t = 4" "calign t_pid_t = 4" "wf_ctype t_pid_t" "unpacked t_pid_t"
  by (simp_all add: t_pid_t_def layout_simps)

definition struct_prev_cputime :: ctype where
  "struct_prev_cputime = CStruct
    [F ''utime'' t_u64,
     F ''stime'' t_u64,
     F ''lock'' t_raw_spinlock_t]"

lemma struct_prev_cputime_layout [layout_simps]:
  "csize struct_prev_cputime = 24" "calign struct_prev_cputime = 8" "wf_ctype struct_prev_cputime" "unpacked struct_prev_cputime"
  by (simp_all add: struct_prev_cputime_def layout_simps)

definition struct_rb_root_cached :: ctype where
  "struct_rb_root_cached = CStruct
    [F ''rb_root'' struct_rb_root,
     F ''rb_leftmost'' (CPtr ''struct rb_node'')]"

lemma struct_rb_root_cached_layout [layout_simps]:
  "csize struct_rb_root_cached = 16" "calign struct_rb_root_cached = 8" "wf_ctype struct_rb_root_cached" "unpacked struct_rb_root_cached"
  by (simp_all add: struct_rb_root_cached_def layout_simps)

definition struct_timerqueue_head :: ctype where
  "struct_timerqueue_head = CStruct
    [F ''rb_root'' struct_rb_root_cached]"

lemma struct_timerqueue_head_layout [layout_simps]:
  "csize struct_timerqueue_head = 16" "calign struct_timerqueue_head = 8" "wf_ctype struct_timerqueue_head" "unpacked struct_timerqueue_head"
  by (simp_all add: struct_timerqueue_head_def layout_simps)

definition struct_posix_cputimer_base :: ctype where
  "struct_posix_cputimer_base = CStruct
    [F ''nextevt'' t_u64,
     F ''tqhead'' struct_timerqueue_head]"

lemma struct_posix_cputimer_base_layout [layout_simps]:
  "csize struct_posix_cputimer_base = 24" "calign struct_posix_cputimer_base = 8" "wf_ctype struct_posix_cputimer_base" "unpacked struct_posix_cputimer_base"
  by (simp_all add: struct_posix_cputimer_base_def layout_simps)

definition struct_posix_cputimers :: ctype where
  "struct_posix_cputimers = CStruct
    [F ''bases'' (CArr struct_posix_cputimer_base 3),
     F ''timers_active'' c_uint,
     F ''expiry_active'' c_uint]"

lemma struct_posix_cputimers_layout [layout_simps]:
  "csize struct_posix_cputimers = 80" "calign struct_posix_cputimers = 8" "wf_ctype struct_posix_cputimers" "unpacked struct_posix_cputimers"
  by (simp_all add: struct_posix_cputimers_def layout_simps)

definition struct_posix_cputimers_work :: ctype where
  "struct_posix_cputimers_work = CStruct
    [F ''work'' struct_callback_head,
     F ''mutex'' struct_mutex,
     F ''scheduled'' c_uint]"

lemma struct_posix_cputimers_work_layout [layout_simps]:
  "csize struct_posix_cputimers_work = 56" "calign struct_posix_cputimers_work = 8" "wf_ctype struct_posix_cputimers_work" "unpacked struct_posix_cputimers_work"
  by (simp_all add: struct_posix_cputimers_work_def layout_simps)

definition struct_sysv_sem :: ctype where
  "struct_sysv_sem = CStruct
    [F ''undo_list'' (CPtr ''struct sem_undo_list'')]"

lemma struct_sysv_sem_layout [layout_simps]:
  "csize struct_sysv_sem = 8" "calign struct_sysv_sem = 8" "wf_ctype struct_sysv_sem" "unpacked struct_sysv_sem"
  by (simp_all add: struct_sysv_sem_def layout_simps)

definition struct_sysv_shm :: ctype where
  "struct_sysv_shm = CStruct
    [F ''shm_clist'' struct_list_head]"

lemma struct_sysv_shm_layout [layout_simps]:
  "csize struct_sysv_shm = 16" "calign struct_sysv_shm = 8" "wf_ctype struct_sysv_shm" "unpacked struct_sysv_shm"
  by (simp_all add: struct_sysv_shm_def layout_simps)

definition t_sigset_t :: ctype where
  "t_sigset_t = CStruct
    [F ''sig'' (CArr c_ulong 1)]"

lemma t_sigset_t_layout [layout_simps]:
  "csize t_sigset_t = 8" "calign t_sigset_t = 8" "wf_ctype t_sigset_t" "unpacked t_sigset_t"
  by (simp_all add: t_sigset_t_def layout_simps)

definition struct_sigpending :: ctype where
  "struct_sigpending = CStruct
    [F ''list'' struct_list_head,
     F ''signal'' t_sigset_t]"

lemma struct_sigpending_layout [layout_simps]:
  "csize struct_sigpending = 24" "calign struct_sigpending = 8" "wf_ctype struct_sigpending" "unpacked struct_sigpending"
  by (simp_all add: struct_sigpending_def layout_simps)

definition struct_seccomp :: ctype where
  "struct_seccomp = CStruct
    [F ''mode'' c_int,
     F ''filter_count'' t_atomic_t,
     F ''filter'' (CPtr ''struct seccomp_filter'')]"

lemma struct_seccomp_layout [layout_simps]:
  "csize struct_seccomp = 16" "calign struct_seccomp = 8" "wf_ctype struct_seccomp" "unpacked struct_seccomp"
  by (simp_all add: struct_seccomp_def layout_simps)

definition struct_syscall_user_dispatch :: ctype where
  "struct_syscall_user_dispatch = CStruct
    [F ''selector'' (CPtr ''char''),
     F ''offset'' c_ulong,
     F ''len'' c_ulong,
     F ''on_dispatch'' t_bool]"

lemma struct_syscall_user_dispatch_layout [layout_simps]:
  "csize struct_syscall_user_dispatch = 32" "calign struct_syscall_user_dispatch = 8" "wf_ctype struct_syscall_user_dispatch" "unpacked struct_syscall_user_dispatch"
  by (simp_all add: struct_syscall_user_dispatch_def layout_simps)

definition struct_wake_q_node :: ctype where
  "struct_wake_q_node = CStruct
    [F ''next'' (CPtr ''struct wake_q_node'')]"

lemma struct_wake_q_node_layout [layout_simps]:
  "csize struct_wake_q_node = 8" "calign struct_wake_q_node = 8" "wf_ctype struct_wake_q_node" "unpacked struct_wake_q_node"
  by (simp_all add: struct_wake_q_node_def layout_simps)

definition struct_task_io_accounting :: ctype where
  "struct_task_io_accounting = CStruct
    [F ''rchar'' t_u64,
     F ''wchar'' t_u64,
     F ''syscr'' t_u64,
     F ''syscw'' t_u64,
     F ''read_bytes'' t_u64,
     F ''write_bytes'' t_u64,
     F ''cancelled_write_bytes'' t_u64]"

lemma struct_task_io_accounting_layout [layout_simps]:
  "csize struct_task_io_accounting = 56" "calign struct_task_io_accounting = 8" "wf_ctype struct_task_io_accounting" "unpacked struct_task_io_accounting"
  by (simp_all add: struct_task_io_accounting_def layout_simps)

definition t_nodemask_t :: ctype where
  "t_nodemask_t = CStruct
    [F ''bits'' (CArr c_ulong 16)]"

lemma t_nodemask_t_layout [layout_simps]:
  "csize t_nodemask_t = 128" "calign t_nodemask_t = 8" "wf_ctype t_nodemask_t" "unpacked t_nodemask_t"
  by (simp_all add: t_nodemask_t_def layout_simps)

definition struct_seqcount :: ctype where
  "struct_seqcount = CStruct
    [F ''sequence'' c_uint]"

lemma struct_seqcount_layout [layout_simps]:
  "csize struct_seqcount = 4" "calign struct_seqcount = 4" "wf_ctype struct_seqcount" "unpacked struct_seqcount"
  by (simp_all add: struct_seqcount_def layout_simps)

definition t_seqcount_t :: ctype where
  "t_seqcount_t = struct_seqcount"

lemma t_seqcount_t_layout [layout_simps]:
  "csize t_seqcount_t = 4" "calign t_seqcount_t = 4" "wf_ctype t_seqcount_t" "unpacked t_seqcount_t"
  by (simp_all add: t_seqcount_t_def layout_simps)

definition struct_seqcount_spinlock :: ctype where
  "struct_seqcount_spinlock = CStruct
    [F ''seqcount'' t_seqcount_t]"

lemma struct_seqcount_spinlock_layout [layout_simps]:
  "csize struct_seqcount_spinlock = 4" "calign struct_seqcount_spinlock = 4" "wf_ctype struct_seqcount_spinlock" "unpacked struct_seqcount_spinlock"
  by (simp_all add: struct_seqcount_spinlock_def layout_simps)

definition t_seqcount_spinlock_t :: ctype where
  "t_seqcount_spinlock_t = struct_seqcount_spinlock"

lemma t_seqcount_spinlock_t_layout [layout_simps]:
  "csize t_seqcount_spinlock_t = 4" "calign t_seqcount_spinlock_t = 4" "wf_ctype t_seqcount_spinlock_t" "unpacked t_seqcount_spinlock_t"
  by (simp_all add: t_seqcount_spinlock_t_def layout_simps)

definition struct_arch_tlbflush_unmap_batch :: ctype where
  "struct_arch_tlbflush_unmap_batch = CStruct
    [F ''cpumask'' struct_cpumask]"

lemma struct_arch_tlbflush_unmap_batch_layout [layout_simps]:
  "csize struct_arch_tlbflush_unmap_batch = 1024" "calign struct_arch_tlbflush_unmap_batch = 8" "wf_ctype struct_arch_tlbflush_unmap_batch" "unpacked struct_arch_tlbflush_unmap_batch"
  by (simp_all add: struct_arch_tlbflush_unmap_batch_def layout_simps)

definition struct_tlbflush_unmap_batch :: ctype where
  "struct_tlbflush_unmap_batch = CStruct
    [F ''arch'' struct_arch_tlbflush_unmap_batch,
     F ''flush_required'' t_bool,
     F ''writable'' t_bool]"

lemma struct_tlbflush_unmap_batch_layout [layout_simps]:
  "csize struct_tlbflush_unmap_batch = 1032" "calign struct_tlbflush_unmap_batch = 8" "wf_ctype struct_tlbflush_unmap_batch" "unpacked struct_tlbflush_unmap_batch"
  by (simp_all add: struct_tlbflush_unmap_batch_def layout_simps)

definition struct_latency_record :: ctype where
  "struct_latency_record = CStruct
    [F ''backtrace'' (CArr c_ulong 12),
     F ''count'' c_uint,
     F ''time'' c_ulong,
     F ''max'' c_ulong]"

lemma struct_latency_record_layout [layout_simps]:
  "csize struct_latency_record = 120" "calign struct_latency_record = 8" "wf_ctype struct_latency_record" "unpacked struct_latency_record"
  by (simp_all add: struct_latency_record_def layout_simps)

definition struct_kmap_ctrl :: ctype where
  "struct_kmap_ctrl = CStruct
    []"

lemma struct_kmap_ctrl_layout [layout_simps]:
  "csize struct_kmap_ctrl = 0" "calign struct_kmap_ctrl = 1" "wf_ctype struct_kmap_ctrl" "unpacked struct_kmap_ctrl"
  by (simp_all add: struct_kmap_ctrl_def layout_simps)

definition struct_llist_head :: ctype where
  "struct_llist_head = CStruct
    [F ''first'' (CPtr ''struct llist_node'')]"

lemma struct_llist_head_layout [layout_simps]:
  "csize struct_llist_head = 8" "calign struct_llist_head = 8" "wf_ctype struct_llist_head" "unpacked struct_llist_head"
  by (simp_all add: struct_llist_head_def layout_simps)

definition struct_desc_struct :: ctype where
  "struct_desc_struct = CStruct
    [F ''limit0'' t_u16,
     F ''base0'' t_u16,
     BF ''base1'' t_u16 8,
     BF ''type'' t_u16 4,
     BF ''s'' t_u16 1,
     BF ''dpl'' t_u16 2,
     BF ''p'' t_u16 1,
     BF ''limit1'' t_u16 4,
     BF ''avl'' t_u16 1,
     BF ''l'' t_u16 1,
     BF ''d'' t_u16 1,
     BF ''g'' t_u16 1,
     BF ''base2'' t_u16 8]"

lemma struct_desc_struct_layout [layout_simps]:
  "csize struct_desc_struct = 8" "calign struct_desc_struct = 2" "wf_ctype struct_desc_struct" "unpacked struct_desc_struct"
  by (simp_all add: struct_desc_struct_def layout_simps)

definition struct_fpu_state_perm :: ctype where
  "struct_fpu_state_perm = CStruct
    [F ''__state_perm'' t_u64,
     F ''__state_size'' c_uint,
     F ''__user_state_size'' c_uint]"

lemma struct_fpu_state_perm_layout [layout_simps]:
  "csize struct_fpu_state_perm = 16" "calign struct_fpu_state_perm = 8" "wf_ctype struct_fpu_state_perm" "unpacked struct_fpu_state_perm"
  by (simp_all add: struct_fpu_state_perm_def layout_simps)

definition struct_fregs_state :: ctype where
  "struct_fregs_state = CStruct
    [F ''cwd'' t_u32,
     F ''swd'' t_u32,
     F ''twd'' t_u32,
     F ''fip'' t_u32,
     F ''fcs'' t_u32,
     F ''foo'' t_u32,
     F ''fos'' t_u32,
     F ''st_space'' (CArr t_u32 20),
     F ''status'' t_u32]"

lemma struct_fregs_state_layout [layout_simps]:
  "csize struct_fregs_state = 112" "calign struct_fregs_state = 4" "wf_ctype struct_fregs_state" "unpacked struct_fregs_state"
  by (simp_all add: struct_fregs_state_def layout_simps)

definition struct_fxregs_state :: ctype where
  "struct_fxregs_state = CStruct
    [F ''cwd'' t_u16,
     F ''swd'' t_u16,
     F ''twd'' t_u16,
     F ''fop'' t_u16,
     F '''' (CUnion
        [F '''' (CStruct
            [F ''rip'' t_u64,
             F ''rdp'' t_u64]),
         F '''' (CStruct
            [F ''fip'' t_u32,
             F ''fcs'' t_u32,
             F ''foo'' t_u32,
             F ''fos'' t_u32])]),
     F ''mxcsr'' t_u32,
     F ''mxcsr_mask'' t_u32,
     F ''st_space'' (CArr t_u32 32),
     F ''xmm_space'' (CArr t_u32 64),
     F ''padding'' (CArr t_u32 12),
     F '''' (CUnion
        [F ''padding1'' (CArr t_u32 12),
         F ''sw_reserved'' (CArr t_u32 12)])]"

lemma struct_fxregs_state_layout [layout_simps]:
  "csize struct_fxregs_state = 512" "calign struct_fxregs_state = 8" "wf_ctype struct_fxregs_state" "unpacked struct_fxregs_state"
  by (simp_all add: struct_fxregs_state_def layout_simps)

definition struct_swregs_state :: ctype where
  "struct_swregs_state = CStruct
    [F ''cwd'' t_u32,
     F ''swd'' t_u32,
     F ''twd'' t_u32,
     F ''fip'' t_u32,
     F ''fcs'' t_u32,
     F ''foo'' t_u32,
     F ''fos'' t_u32,
     F ''st_space'' (CArr t_u32 20),
     F ''ftop'' t_u8,
     F ''changed'' t_u8,
     F ''lookahead'' t_u8,
     F ''no_update'' t_u8,
     F ''rm'' t_u8,
     F ''alimit'' t_u8,
     F ''info'' (CPtr ''struct math_emu_info''),
     F ''entry_eip'' t_u32]"

lemma struct_swregs_state_layout [layout_simps]:
  "csize struct_swregs_state = 136" "calign struct_swregs_state = 8" "wf_ctype struct_swregs_state" "unpacked struct_swregs_state"
  by (simp_all add: struct_swregs_state_def layout_simps)

definition struct_xstate_header :: ctype where
  "struct_xstate_header = CStruct
    [F ''xfeatures'' t_u64,
     F ''xcomp_bv'' t_u64,
     F ''reserved'' (CArr t_u64 6)]"

lemma struct_xstate_header_layout [layout_simps]:
  "csize struct_xstate_header = 64" "calign struct_xstate_header = 8" "wf_ctype struct_xstate_header" "unpacked struct_xstate_header"
  by (simp_all add: struct_xstate_header_def layout_simps)

definition struct_xregs_state :: ctype where
  "struct_xregs_state = CStruct
    [F ''i387'' struct_fxregs_state,
     F ''header'' struct_xstate_header,
     F ''extended_state_area'' (CArr t_u8 0)]"

lemma struct_xregs_state_layout [layout_simps]:
  "csize struct_xregs_state = 576" "calign struct_xregs_state = 8" "wf_ctype struct_xregs_state" "unpacked struct_xregs_state"
  by (simp_all add: struct_xregs_state_def layout_simps)

definition union_fpregs_state :: ctype where
  "union_fpregs_state = CUnion
    [F ''fsave'' struct_fregs_state,
     F ''fxsave'' struct_fxregs_state,
     F ''soft'' struct_swregs_state,
     F ''xsave'' struct_xregs_state,
     F ''__padding'' (CArr t_u8 4096)]"

lemma union_fpregs_state_layout [layout_simps]:
  "csize union_fpregs_state = 4096" "calign union_fpregs_state = 8" "wf_ctype union_fpregs_state" "unpacked union_fpregs_state"
  by (simp_all add: union_fpregs_state_def layout_simps)

definition struct_fpstate :: ctype where
  "struct_fpstate = CStruct
    [F ''size'' c_uint,
     F ''user_size'' c_uint,
     F ''xfeatures'' t_u64,
     F ''user_xfeatures'' t_u64,
     F ''xfd'' t_u64,
     BF ''is_valloc'' c_uint 1,
     BF ''is_guest'' c_uint 1,
     BF ''is_confidential'' c_uint 1,
     BF ''in_use'' c_uint 1,
     BF '''' c_long 64,
     BF '''' c_long 64,
     BF '''' c_long 64,
     F ''regs'' union_fpregs_state]"

lemma struct_fpstate_layout [layout_simps]:
  "csize struct_fpstate = 4160" "calign struct_fpstate = 8" "wf_ctype struct_fpstate" "unpacked struct_fpstate"
  by (simp_all add: struct_fpstate_def layout_simps)

definition struct_fpu :: ctype where
  "struct_fpu = CStruct
    [F ''last_cpu'' c_uint,
     F ''avx512_timestamp'' c_ulong,
     F ''fpstate'' (CPtr ''struct fpstate''),
     F ''__task_fpstate'' (CPtr ''struct fpstate''),
     F ''perm'' struct_fpu_state_perm,
     F ''guest_perm'' struct_fpu_state_perm,
     F ''__fpstate'' struct_fpstate]"

lemma struct_fpu_layout [layout_simps]:
  "csize struct_fpu = 4224" "calign struct_fpu = 8" "wf_ctype struct_fpu" "unpacked struct_fpu"
  by (simp_all add: struct_fpu_def layout_simps)

definition struct_thread_struct :: ctype where
  "struct_thread_struct = CStruct
    [F ''tls_array'' (CArr struct_desc_struct 3),
     F ''sp'' c_ulong,
     F ''es'' c_ushort,
     F ''ds'' c_ushort,
     F ''fsindex'' c_ushort,
     F ''gsindex'' c_ushort,
     F ''fsbase'' c_ulong,
     F ''gsbase'' c_ulong,
     F ''ptrace_bps'' (CArr (CPtr ''struct perf_event'') 4),
     F ''virtual_dr6'' c_ulong,
     F ''ptrace_dr7'' c_ulong,
     F ''cr2'' c_ulong,
     F ''trap_nr'' c_ulong,
     F ''error_code'' c_ulong,
     F ''io_bitmap'' (CPtr ''struct io_bitmap''),
     F ''iopl_emul'' c_ulong,
     BF ''iopl_warn'' c_uint 1,
     F ''pkru'' t_u32,
     BF '''' c_long 64,
     BF '''' c_long 64,
     BF '''' c_long 64,
     BF '''' c_long 64,
     BF '''' c_long 64,
     F ''fpu'' struct_fpu]"

lemma struct_thread_struct_layout [layout_simps]:
  "csize struct_thread_struct = 4416" "calign struct_thread_struct = 8" "wf_ctype struct_thread_struct" "unpacked struct_thread_struct"
  by (simp_all add: struct_thread_struct_def layout_simps)

definition task_struct_fields1 :: "cfield list" where [layout_defs]:
  "task_struct_fields1 =
    [F ''thread_info'' struct_thread_info,
     F ''__state'' c_uint,
     F ''saved_state'' c_uint,
     F ''stack'' (CPtr ''void''),
     F ''usage'' t_refcount_t,
     F ''flags'' c_uint,
     F ''ptrace'' c_uint,
     F ''on_cpu'' c_int,
     F ''wake_entry'' struct___call_single_node,
     F ''wakee_flips'' c_uint,
     F ''wakee_flip_decay_ts'' c_ulong,
     F ''last_wakee'' (CPtr ''struct task_struct''),
     F ''recent_used_cpu'' c_int,
     F ''wake_cpu'' c_int,
     F ''on_rq'' c_int,
     F ''prio'' c_int,
     F ''static_prio'' c_int,
     F ''normal_prio'' c_int,
     F ''rt_priority'' c_uint,
     F ''se'' struct_sched_entity,
     F ''rt'' struct_sched_rt_entity,
     F ''dl'' struct_sched_dl_entity,
     F ''sched_class'' (CPtr ''const struct sched_class''),
     F ''sched_task_group'' (CPtr ''struct task_group''),
     BF '''' c_long 64,
     BF '''' c_long 64,
     BF '''' c_long 64,
     BF '''' c_long 64,
     F ''stats'' struct_sched_statistics,
     F ''preempt_notifiers'' struct_hlist_head,
     F ''btrace_seq'' c_uint,
     F ''policy'' c_uint,
     F ''nr_cpus_allowed'' c_int,
     F ''cpus_ptr'' (CPtr ''const cpumask_t''),
     F ''user_cpus_ptr'' (CPtr ''cpumask_t''),
     F ''cpus_mask'' t_cpumask_t,
     F ''migration_pending'' (CPtr ''void''),
     F ''migration_disabled'' c_ushort,
     F ''migration_flags'' c_ushort,
     F ''rcu_read_lock_nesting'' c_int,
     F ''rcu_read_unlock_special'' union_rcu_special,
     F ''rcu_node_entry'' struct_list_head,
     F ''rcu_blocked_node'' (CPtr ''struct rcu_node''),
     F ''rcu_tasks_nvcsw'' c_ulong,
     F ''rcu_tasks_holdout'' t_u8,
     F ''rcu_tasks_idx'' t_u8,
     F ''rcu_tasks_idle_cpu'' c_int,
     F ''rcu_tasks_holdout_list'' struct_list_head,
     F ''rcu_tasks_exit_cpu'' c_int,
     F ''rcu_tasks_exit_list'' struct_list_head,
     F ''trc_reader_nesting'' c_int,
     F ''trc_ipi_to_cpu'' c_int,
     F ''trc_reader_special'' union_rcu_special,
     F ''trc_holdout_list'' struct_list_head,
     F ''trc_blkd_node'' struct_list_head,
     F ''trc_blkd_cpu'' c_int,
     F ''sched_info'' struct_sched_info,
     F ''tasks'' struct_list_head,
     F ''pushable_tasks'' struct_plist_node,
     F ''pushable_dl_tasks'' struct_rb_node,
     F ''mm'' (CPtr ''struct mm_struct''),
     F ''active_mm'' (CPtr ''struct mm_struct''),
     F ''exit_state'' c_int,
     F ''exit_code'' c_int,
     F ''exit_signal'' c_int,
     F ''pdeath_signal'' c_int,
     F ''jobctl'' c_ulong,
     F ''personality'' c_uint,
     BF ''sched_reset_on_fork'' c_uint 1,
     BF ''sched_contributes_to_load'' c_uint 1,
     BF ''sched_migrated'' c_uint 1,
     BF ''sched_task_hot'' c_uint 1,
     BF '''' c_long 28,
     BF ''sched_remote_wakeup'' c_uint 1,
     BF ''in_execve'' c_uint 1,
     BF ''in_iowait'' c_uint 1,
     BF ''restore_sigmask'' c_uint 1,
     BF ''in_user_fault'' c_uint 1,
     BF ''no_cgroup_migration'' c_uint 1,
     BF ''frozen'' c_uint 1,
     BF ''use_memdelay'' c_uint 1,
     BF ''in_memstall'' c_uint 1,
     BF ''in_eventfd'' c_uint 1,
     BF ''pasid_activated'' c_uint 1,
     BF ''reported_split_lock'' c_uint 1,
     BF ''in_thrashing'' c_uint 1,
     F ''atomic_flags'' c_ulong,
     F ''restart_block'' struct_restart_block,
     F ''pid'' t_pid_t,
     F ''tgid'' t_pid_t,
     F ''stack_canary'' c_ulong,
     F ''real_parent'' (CPtr ''struct task_struct''),
     F ''parent'' (CPtr ''struct task_struct''),
     F ''children'' struct_list_head,
     F ''sibling'' struct_list_head,
     F ''group_leader'' (CPtr ''struct task_struct''),
     F ''ptraced'' struct_list_head,
     F ''ptrace_entry'' struct_list_head,
     F ''thread_pid'' (CPtr ''struct pid''),
     F ''pid_links'' (CArr struct_hlist_node 4),
     F ''thread_group'' struct_list_head,
     F ''thread_node'' struct_list_head]"

definition task_struct_fields2 :: "cfield list" where [layout_defs]:
  "task_struct_fields2 =
    [F ''vfork_done'' (CPtr ''struct completion''),
     F ''set_child_tid'' (CPtr ''int''),
     F ''clear_child_tid'' (CPtr ''int''),
     F ''worker_private'' (CPtr ''void''),
     F ''utime'' t_u64,
     F ''stime'' t_u64,
     F ''gtime'' t_u64,
     F ''prev_cputime'' struct_prev_cputime,
     F ''nvcsw'' c_ulong,
     F ''nivcsw'' c_ulong,
     F ''start_time'' t_u64,
     F ''start_boottime'' t_u64,
     F ''min_flt'' c_ulong,
     F ''maj_flt'' c_ulong,
     F ''posix_cputimers'' struct_posix_cputimers,
     F ''posix_cputimers_work'' struct_posix_cputimers_work,
     F ''ptracer_cred'' (CPtr ''const struct cred''),
     F ''real_cred'' (CPtr ''const struct cred''),
     F ''cred'' (CPtr ''const struct cred''),
     F ''cached_requested_key'' (CPtr ''struct key''),
     F ''comm'' (CArr c_char 16),
     F ''nameidata'' (CPtr ''struct nameidata''),
     F ''sysvsem'' struct_sysv_sem,
     F ''sysvshm'' struct_sysv_shm,
     F ''last_switch_count'' c_ulong,
     F ''last_switch_time'' c_ulong,
     F ''fs'' (CPtr ''struct fs_struct''),
     F ''files'' (CPtr ''struct files_struct''),
     F ''io_uring'' (CPtr ''struct io_uring_task''),
     F ''nsproxy'' (CPtr ''struct nsproxy''),
     F ''signal'' (CPtr ''struct signal_struct''),
     F ''sighand'' (CPtr ''struct sighand_struct''),
     F ''blocked'' t_sigset_t,
     F ''real_blocked'' t_sigset_t,
     F ''saved_sigmask'' t_sigset_t,
     F ''pending'' struct_sigpending,
     F ''sas_ss_sp'' c_ulong,
     F ''sas_ss_size'' t_size_t,
     F ''sas_ss_flags'' c_uint,
     F ''task_works'' (CPtr ''struct callback_head''),
     F ''audit_context'' (CPtr ''struct audit_context''),
     F ''loginuid'' t_kuid_t,
     F ''sessionid'' c_uint,
     F ''seccomp'' struct_seccomp,
     F ''syscall_dispatch'' struct_syscall_user_dispatch,
     F ''parent_exec_id'' t_u64,
     F ''self_exec_id'' t_u64,
     F ''alloc_lock'' t_spinlock_t,
     F ''pi_lock'' t_raw_spinlock_t,
     F ''wake_q'' struct_wake_q_node,
     F ''pi_waiters'' struct_rb_root_cached,
     F ''pi_top_task'' (CPtr ''struct task_struct''),
     F ''pi_blocked_on'' (CPtr ''struct rt_mutex_waiter''),
     F ''journal_info'' (CPtr ''void''),
     F ''bio_list'' (CPtr ''struct bio_list''),
     F ''plug'' (CPtr ''struct blk_plug''),
     F ''reclaim_state'' (CPtr ''struct reclaim_state''),
     F ''io_context'' (CPtr ''struct io_context''),
     F ''capture_control'' (CPtr ''struct capture_control''),
     F ''ptrace_message'' c_ulong,
     F ''last_siginfo'' (CPtr ''kernel_siginfo_t''),
     F ''ioac'' struct_task_io_accounting,
     F ''psi_flags'' c_uint,
     F ''acct_rss_mem1'' t_u64,
     F ''acct_vm_mem1'' t_u64,
     F ''acct_timexpd'' t_u64,
     F ''mems_allowed'' t_nodemask_t,
     F ''mems_allowed_seq'' t_seqcount_spinlock_t,
     F ''cpuset_mem_spread_rotor'' c_int,
     F ''cpuset_slab_spread_rotor'' c_int,
     F ''cgroups'' (CPtr ''struct css_set''),
     F ''cg_list'' struct_list_head,
     F ''robust_list'' (CPtr ''struct robust_list_head''),
     F ''compat_robust_list'' (CPtr ''struct compat_robust_list_head''),
     F ''pi_state_list'' struct_list_head,
     F ''pi_state_cache'' (CPtr ''struct futex_pi_state''),
     F ''futex_exit_mutex'' struct_mutex,
     F ''futex_state'' c_uint,
     F ''perf_event_ctxp'' (CPtr ''struct perf_event_context''),
     F ''perf_event_mutex'' struct_mutex,
     F ''perf_event_list'' struct_list_head,
     F ''mempolicy'' (CPtr ''struct mempolicy''),
     F ''il_prev'' c_short,
     F ''pref_node_fork'' c_short,
     F ''rseq'' (CPtr ''struct rseq''),
     F ''rseq_len'' t_u32,
     F ''rseq_sig'' t_u32,
     F ''rseq_event_mask'' c_ulong,
     F ''mm_cid'' c_int,
     F ''last_mm_cid'' c_int,
     F ''migrate_from_cpu'' c_int,
     F ''mm_cid_active'' c_int,
     F ''cid_work'' struct_callback_head,
     F ''tlb_ubc'' struct_tlbflush_unmap_batch,
     F ''splice_pipe'' (CPtr ''struct pipe_inode_info''),
     F ''task_frag'' struct_page_frag,
     F ''delays'' (CPtr ''struct task_delay_info''),
     F ''nr_dirtied'' c_int,
     F ''nr_dirtied_pause'' c_int,
     F ''dirty_paused_when'' c_ulong,
     F ''latency_record_count'' c_int,
     F ''latency_record'' (CArr struct_latency_record 32),
     F ''timer_slack_ns'' t_u64,
     F ''default_timer_slack_ns'' t_u64,
     F ''curr_ret_stack'' c_int,
     F ''curr_ret_depth'' c_int,
     F ''ret_stack'' (CPtr ''struct ftrace_ret_stack''),
     F ''ftrace_timestamp'' c_ullong,
     F ''trace_overrun'' t_atomic_t,
     F ''tracing_graph_pause'' t_atomic_t,
     F ''trace_recursion'' c_ulong,
     F ''memcg_in_oom'' (CPtr ''struct mem_cgroup''),
     F ''memcg_oom_gfp_mask'' t_gfp_t,
     F ''memcg_oom_order'' c_int,
     F ''memcg_nr_pages_over_high'' c_uint,
     F ''active_memcg'' (CPtr ''struct mem_cgroup''),
     F ''throttle_disk'' (CPtr ''struct gendisk''),
     F ''utask'' (CPtr ''struct uprobe_task''),
     F ''kmap_ctrl'' struct_kmap_ctrl,
     F ''rcu'' struct_callback_head,
     F ''rcu_users'' t_refcount_t,
     F ''pagefault_disabled'' c_int,
     F ''oom_reaper_list'' (CPtr ''struct task_struct''),
     F ''oom_reaper_timer'' struct_timer_list,
     F ''stack_vm_area'' (CPtr ''struct vm_struct''),
     F ''stack_refcount'' t_refcount_t,
     F ''patch_state'' c_int,
     F ''security'' (CPtr ''void''),
     F ''bpf_storage'' (CPtr ''struct bpf_local_storage''),
     F ''bpf_ctx'' (CPtr ''struct bpf_run_ctx''),
     F ''mce_vaddr'' (CPtr ''void''),
     F ''mce_kflags'' t___u64,
     F ''mce_addr'' t_u64,
     BF ''mce_ripv'' t___u64 1,
     BF ''mce_whole_page'' t___u64 1,
     BF ''__mce_reserved'' t___u64 62,
     F ''mce_kill_me'' struct_callback_head,
     F ''mce_count'' c_int,
     F ''kretprobe_instances'' struct_llist_head,
     F ''rethooks'' struct_llist_head,
     F ''l1d_flush_kill'' struct_callback_head,
     F ''user_event_mm'' (CPtr ''struct user_event_mm''),
     BF '''' c_long 64,
     BF '''' c_long 64,
     F ''thread'' struct_thread_struct]"

definition struct_task_struct :: ctype where
  "struct_task_struct = CStruct (task_struct_fields1 @ task_struct_fields2)"

lemma struct_task_struct_layout [layout_simps]:
  "csize struct_task_struct = 13440" "calign struct_task_struct = 8" "wf_ctype struct_task_struct" "unpacked struct_task_struct"
  by (simp_all add: struct_task_struct_def task_struct_fields1_def task_struct_fields2_def layout_simps)

definition struct_fred_cs :: ctype where
  "struct_fred_cs = CStruct
    [BF ''cs'' t_u64 16,
     BF ''sl'' t_u64 2,
     BF ''wfe'' t_u64 1]"

lemma struct_fred_cs_layout [layout_simps]:
  "csize struct_fred_cs = 8" "calign struct_fred_cs = 8" "wf_ctype struct_fred_cs" "unpacked struct_fred_cs"
  by (simp_all add: struct_fred_cs_def layout_simps)

definition struct_fred_ss :: ctype where
  "struct_fred_ss = CStruct
    [BF ''ss'' t_u64 16,
     BF ''sti'' t_u64 1,
     BF ''swevent'' t_u64 1,
     BF ''nmi'' t_u64 1,
     BF '''' c_int 13,
     BF ''vector'' t_u64 8,
     BF '''' c_short 8,
     BF ''type'' t_u64 4,
     BF '''' c_char 4,
     BF ''enclave'' t_u64 1,
     BF ''lm'' t_u64 1,
     BF ''nested'' t_u64 1,
     BF '''' c_char 1,
     BF ''insnlen'' t_u64 4]"

lemma struct_fred_ss_layout [layout_simps]:
  "csize struct_fred_ss = 8" "calign struct_fred_ss = 8" "wf_ctype struct_fred_ss" "unpacked struct_fred_ss"
  by (simp_all add: struct_fred_ss_def layout_simps)

definition struct_pt_regs :: ctype where
  "struct_pt_regs = CStruct
    [F ''r15'' c_ulong,
     F ''r14'' c_ulong,
     F ''r13'' c_ulong,
     F ''r12'' c_ulong,
     F ''bp'' c_ulong,
     F ''bx'' c_ulong,
     F ''r11'' c_ulong,
     F ''r10'' c_ulong,
     F ''r9'' c_ulong,
     F ''r8'' c_ulong,
     F ''ax'' c_ulong,
     F ''cx'' c_ulong,
     F ''dx'' c_ulong,
     F ''si'' c_ulong,
     F ''di'' c_ulong,
     F ''orig_ax'' c_ulong,
     F ''ip'' c_ulong,
     F '''' (CUnion
        [F ''cs'' t_u16,
         F ''csx'' t_u64,
         F ''fred_cs'' struct_fred_cs]),
     F ''flags'' c_ulong,
     F ''sp'' c_ulong,
     F '''' (CUnion
        [F ''ss'' t_u16,
         F ''ssx'' t_u64,
         F ''fred_ss'' struct_fred_ss])]"

lemma struct_pt_regs_layout [layout_simps]:
  "csize struct_pt_regs = 168" "calign struct_pt_regs = 8" "wf_ctype struct_pt_regs" "unpacked struct_pt_regs"
  by (simp_all add: struct_pt_regs_def layout_simps)

definition t_kprobe_pre_handler_t :: ctype where
  "t_kprobe_pre_handler_t = CPtr ''int (*)(struct kprobe *, struct pt_regs *)''"

lemma t_kprobe_pre_handler_t_layout [layout_simps]:
  "csize t_kprobe_pre_handler_t = 8" "calign t_kprobe_pre_handler_t = 8" "wf_ctype t_kprobe_pre_handler_t" "unpacked t_kprobe_pre_handler_t"
  by (simp_all add: t_kprobe_pre_handler_t_def layout_simps)

definition t_kprobe_post_handler_t :: ctype where
  "t_kprobe_post_handler_t = CPtr ''void (*)(struct kprobe *, struct pt_regs *, long unsigned int)''"

lemma t_kprobe_post_handler_t_layout [layout_simps]:
  "csize t_kprobe_post_handler_t = 8" "calign t_kprobe_post_handler_t = 8" "wf_ctype t_kprobe_post_handler_t" "unpacked t_kprobe_post_handler_t"
  by (simp_all add: t_kprobe_post_handler_t_def layout_simps)

definition t_kprobe_opcode_t :: ctype where
  "t_kprobe_opcode_t = t_u8"

lemma t_kprobe_opcode_t_layout [layout_simps]:
  "csize t_kprobe_opcode_t = 1" "calign t_kprobe_opcode_t = 1" "wf_ctype t_kprobe_opcode_t" "unpacked t_kprobe_opcode_t"
  by (simp_all add: t_kprobe_opcode_t_def layout_simps)

definition t_s32 :: ctype where
  "t_s32 = t___s32"

lemma t_s32_layout [layout_simps]:
  "csize t_s32 = 4" "calign t_s32 = 4" "wf_ctype t_s32" "unpacked t_s32"
  by (simp_all add: t_s32_def layout_simps)

definition struct_arch_specific_insn :: ctype where
  "struct_arch_specific_insn = CStruct
    [F ''insn'' (CPtr ''kprobe_opcode_t''),
     BF ''boostable'' c_uint 1,
     F ''size'' c_uchar,
     F '''' (CUnion
        [F ''opcode'' c_uchar,
         F ''jcc'' (CStruct
            [F ''type'' c_uchar]),
         F ''loop'' (CStruct
            [F ''type'' c_uchar,
             F ''asize'' c_uchar]),
         F ''indirect'' (CStruct
            [F ''reg'' c_uchar])]),
     F ''rel32'' t_s32,
     F ''emulate_op'' (CPtr ''void (*)(struct kprobe *, struct pt_regs *)''),
     F ''tp_len'' c_int]"

lemma struct_arch_specific_insn_layout [layout_simps]:
  "csize struct_arch_specific_insn = 32" "calign struct_arch_specific_insn = 8" "wf_ctype struct_arch_specific_insn" "unpacked struct_arch_specific_insn"
  by (simp_all add: struct_arch_specific_insn_def layout_simps)

definition struct_kprobe :: ctype where
  "struct_kprobe = CStruct
    [F ''hlist'' struct_hlist_node,
     F ''list'' struct_list_head,
     F ''nmissed'' c_ulong,
     F ''addr'' (CPtr ''kprobe_opcode_t''),
     F ''symbol_name'' (CPtr ''const char''),
     F ''offset'' c_uint,
     F ''pre_handler'' t_kprobe_pre_handler_t,
     F ''post_handler'' t_kprobe_post_handler_t,
     F ''opcode'' t_kprobe_opcode_t,
     F ''ainsn'' struct_arch_specific_insn,
     F ''flags'' t_u32]"

lemma struct_kprobe_layout [layout_simps]:
  "csize struct_kprobe = 128" "calign struct_kprobe = 8" "wf_ctype struct_kprobe" "unpacked struct_kprobe"
  by (simp_all add: struct_kprobe_def layout_simps)

definition t_kretprobe_handler_t :: ctype where
  "t_kretprobe_handler_t = CPtr ''int (*)(struct kretprobe_instance *, struct pt_regs *)''"

lemma t_kretprobe_handler_t_layout [layout_simps]:
  "csize t_kretprobe_handler_t = 8" "calign t_kretprobe_handler_t = 8" "wf_ctype t_kretprobe_handler_t" "unpacked t_kretprobe_handler_t"
  by (simp_all add: t_kretprobe_handler_t_def layout_simps)

definition struct_kretprobe :: ctype where
  "struct_kretprobe = CStruct
    [F ''kp'' struct_kprobe,
     F ''handler'' t_kretprobe_handler_t,
     F ''entry_handler'' t_kretprobe_handler_t,
     F ''maxactive'' c_int,
     F ''nmissed'' c_int,
     F ''data_size'' t_size_t,
     F ''rh'' (CPtr ''struct rethook'')]"

lemma struct_kretprobe_layout [layout_simps]:
  "csize struct_kretprobe = 168" "calign struct_kretprobe = 8" "wf_ctype struct_kretprobe" "unpacked struct_kretprobe"
  by (simp_all add: struct_kretprobe_def layout_simps)

definition struct_freelist_node :: ctype where
  "struct_freelist_node = CStruct
    [F ''refs'' t_atomic_t,
     F ''next'' (CPtr ''struct freelist_node'')]"

lemma struct_freelist_node_layout [layout_simps]:
  "csize struct_freelist_node = 16" "calign struct_freelist_node = 8" "wf_ctype struct_freelist_node" "unpacked struct_freelist_node"
  by (simp_all add: struct_freelist_node_def layout_simps)

definition struct_rethook_node :: ctype where
  "struct_rethook_node = CStruct
    [F '''' (CUnion
        [F ''freelist'' struct_freelist_node,
         F ''rcu'' struct_callback_head]),
     F ''llist'' struct_llist_node,
     F ''rethook'' (CPtr ''struct rethook''),
     F ''ret_addr'' c_ulong,
     F ''frame'' c_ulong]"

lemma struct_rethook_node_layout [layout_simps]:
  "csize struct_rethook_node = 48" "calign struct_rethook_node = 8" "wf_ctype struct_rethook_node" "unpacked struct_rethook_node"
  by (simp_all add: struct_rethook_node_def layout_simps)

definition struct_kretprobe_instance :: ctype where
  "struct_kretprobe_instance = CStruct
    [F ''node'' struct_rethook_node,
     F ''data'' (CArr c_char 0)]"

lemma struct_kretprobe_instance_layout [layout_simps]:
  "csize struct_kretprobe_instance = 48" "calign struct_kretprobe_instance = 8" "wf_ctype struct_kretprobe_instance" "unpacked struct_kretprobe_instance"
  by (simp_all add: struct_kretprobe_instance_def layout_simps)

end
