(* ===== verification/Vmlinux_Bpf.thy ===== *)
theory Vmlinux_Bpf
  imports Vmlinux_Base
begin

text \<open>
  The BPF side of \<open>vmlinux.h\<close>: map objects, hash table elements, the ring
  buffer, and the enumerations of map types, program types and helper numbers.
\<close>

definition enum_bpf_map_type :: "(string \<times> int) list" where
  "enum_bpf_map_type =
    [(''BPF_MAP_TYPE_UNSPEC'', 0),
     (''BPF_MAP_TYPE_HASH'', 1),
     (''BPF_MAP_TYPE_ARRAY'', 2),
     (''BPF_MAP_TYPE_PROG_ARRAY'', 3),
     (''BPF_MAP_TYPE_PERF_EVENT_ARRAY'', 4),
     (''BPF_MAP_TYPE_PERCPU_HASH'', 5),
     (''BPF_MAP_TYPE_PERCPU_ARRAY'', 6),
     (''BPF_MAP_TYPE_STACK_TRACE'', 7),
     (''BPF_MAP_TYPE_CGROUP_ARRAY'', 8),
     (''BPF_MAP_TYPE_LRU_HASH'', 9),
     (''BPF_MAP_TYPE_LRU_PERCPU_HASH'', 10),
     (''BPF_MAP_TYPE_LPM_TRIE'', 11),
     (''BPF_MAP_TYPE_ARRAY_OF_MAPS'', 12),
     (''BPF_MAP_TYPE_HASH_OF_MAPS'', 13),
     (''BPF_MAP_TYPE_DEVMAP'', 14),
     (''BPF_MAP_TYPE_SOCKMAP'', 15),
     (''BPF_MAP_TYPE_CPUMAP'', 16),
     (''BPF_MAP_TYPE_XSKMAP'', 17),
     (''BPF_MAP_TYPE_SOCKHASH'', 18),
     (''BPF_MAP_TYPE_CGROUP_STORAGE_DEPRECATED'', 19),
     (''BPF_MAP_TYPE_CGROUP_STORAGE'', 19),
     (''BPF_MAP_TYPE_REUSEPORT_SOCKARRAY'', 20),
     (''BPF_MAP_TYPE_PERCPU_CGROUP_STORAGE'', 21),
     (''BPF_MAP_TYPE_QUEUE'', 22),
     (''BPF_MAP_TYPE_STACK'', 23),
     (''BPF_MAP_TYPE_SK_STORAGE'', 24),
     (''BPF_MAP_TYPE_DEVMAP_HASH'', 25),
     (''BPF_MAP_TYPE_STRUCT_OPS'', 26),
     (''BPF_MAP_TYPE_RINGBUF'', 27),
     (''BPF_MAP_TYPE_INODE_STORAGE'', 28),
     (''BPF_MAP_TYPE_TASK_STORAGE'', 29),
     (''BPF_MAP_TYPE_BLOOM_FILTER'', 30),
     (''BPF_MAP_TYPE_USER_RINGBUF'', 31),
     (''BPF_MAP_TYPE_CGRP_STORAGE'', 32)]"

definition t_work_func_t :: ctype where
  "t_work_func_t = CPtr ''void (*)(struct work_struct *)''"

lemma t_work_func_t_layout [layout_simps]:
  "csize t_work_func_t = 8" "calign t_work_func_t = 8" "wf_ctype t_work_func_t" "unpacked t_work_func_t"
  by (simp_all add: t_work_func_t_def layout_simps)

definition struct_work_struct :: ctype where
  "struct_work_struct = CStruct
    [F ''data'' t_atomic_long_t,
     F ''entry'' struct_list_head,
     F ''func'' t_work_func_t]"

lemma struct_work_struct_layout [layout_simps]:
  "csize struct_work_struct = 32" "calign struct_work_struct = 8" "wf_ctype struct_work_struct" "unpacked struct_work_struct"
  by (simp_all add: struct_work_struct_def layout_simps)

definition struct_bpf_map :: ctype where
  "struct_bpf_map = CStruct
    [F ''ops'' (CPtr ''const struct bpf_map_ops''),
     F ''inner_map_meta'' (CPtr ''struct bpf_map''),
     F ''security'' (CPtr ''void''),
     F ''map_type'' c_enum,
     F ''key_size'' t_u32,
     F ''value_size'' t_u32,
     F ''max_entries'' t_u32,
     F ''map_extra'' t_u64,
     F ''map_flags'' t_u32,
     F ''id'' t_u32,
     F ''record'' (CPtr ''struct btf_record''),
     F ''numa_node'' c_int,
     F ''btf_key_type_id'' t_u32,
     F ''btf_value_type_id'' t_u32,
     F ''btf_vmlinux_value_type_id'' t_u32,
     F ''btf'' (CPtr ''struct btf''),
     F ''objcg'' (CPtr ''struct obj_cgroup''),
     F ''name'' (CArr c_char 16),
     BF '''' c_long 64,
     BF '''' c_long 64,
     F ''refcnt'' t_atomic64_t,
     F ''usercnt'' t_atomic64_t,
     F '''' (CUnion
        [F ''work'' struct_work_struct,
         F ''rcu'' struct_callback_head]),
     F ''freeze_mutex'' struct_mutex,
     F ''writecnt'' t_atomic64_t,
     F ''owner_lock'' t_spinlock_t,
     F ''owner'' (CPtr ''struct bpf_map_owner''),
     F ''bypass_spec_v1'' t_bool,
     F ''frozen'' t_bool,
     F ''free_after_mult_rcu_gp'' t_bool,
     F ''free_after_rcu_gp'' t_bool,
     F ''sleepable_refcnt'' t_atomic64_t,
     F ''elem_count'' (CPtr ''s64''),
     F ''cookie'' t_u64,
     BF '''' c_long 64,
     BF '''' c_long 64,
     BF '''' c_long 64,
     BF '''' c_long 64,
     BF '''' c_long 64,
     BF '''' c_long 64,
     BF '''' c_long 64]"

lemma struct_bpf_map_layout [layout_simps]:
  "csize struct_bpf_map = 320" "calign struct_bpf_map = 8" "wf_ctype struct_bpf_map" "unpacked struct_bpf_map"
  by (simp_all add: struct_bpf_map_def layout_simps)

definition struct_bpf_mem_alloc :: ctype where
  "struct_bpf_mem_alloc = CStruct
    [F ''caches'' (CPtr ''struct bpf_mem_caches''),
     F ''cache'' (CPtr ''struct bpf_mem_cache''),
     F ''percpu'' t_bool,
     F ''work'' struct_work_struct]"

lemma struct_bpf_mem_alloc_layout [layout_simps]:
  "csize struct_bpf_mem_alloc = 56" "calign struct_bpf_mem_alloc = 8" "wf_ctype struct_bpf_mem_alloc" "unpacked struct_bpf_mem_alloc"
  by (simp_all add: struct_bpf_mem_alloc_def layout_simps)

definition struct_pcpu_freelist_head :: ctype where
  "struct_pcpu_freelist_head = CStruct
    [F ''first'' (CPtr ''struct pcpu_freelist_node''),
     F ''lock'' t_raw_spinlock_t]"

lemma struct_pcpu_freelist_head_layout [layout_simps]:
  "csize struct_pcpu_freelist_head = 16" "calign struct_pcpu_freelist_head = 8" "wf_ctype struct_pcpu_freelist_head" "unpacked struct_pcpu_freelist_head"
  by (simp_all add: struct_pcpu_freelist_head_def layout_simps)

definition struct_pcpu_freelist :: ctype where
  "struct_pcpu_freelist = CStruct
    [F ''freelist'' (CPtr ''struct pcpu_freelist_head''),
     F ''extralist'' struct_pcpu_freelist_head]"

lemma struct_pcpu_freelist_layout [layout_simps]:
  "csize struct_pcpu_freelist = 24" "calign struct_pcpu_freelist = 8" "wf_ctype struct_pcpu_freelist" "unpacked struct_pcpu_freelist"
  by (simp_all add: struct_pcpu_freelist_def layout_simps)

definition struct_bpf_lru_list :: ctype where
  "struct_bpf_lru_list = CStruct
    [F ''lists'' (CArr struct_list_head 3),
     F ''counts'' (CArr c_uint 2),
     F ''next_inactive_rotation'' (CPtr ''struct list_head''),
     F ''lock'' t_raw_spinlock_t,
     BF '''' c_long 64,
     BF '''' c_long 64,
     BF '''' c_long 64,
     BF '''' c_long 64,
     BF '''' c_long 64,
     BF '''' c_long 64,
     BF '''' c_long 64]"

lemma struct_bpf_lru_list_layout [layout_simps]:
  "csize struct_bpf_lru_list = 128" "calign struct_bpf_lru_list = 8" "wf_ctype struct_bpf_lru_list" "unpacked struct_bpf_lru_list"
  by (simp_all add: struct_bpf_lru_list_def layout_simps)

definition struct_bpf_common_lru :: ctype where
  "struct_bpf_common_lru = CStruct
    [F ''lru_list'' struct_bpf_lru_list,
     F ''local_list'' (CPtr ''struct bpf_lru_locallist''),
     BF '''' c_long 64,
     BF '''' c_long 64,
     BF '''' c_long 64,
     BF '''' c_long 64,
     BF '''' c_long 64,
     BF '''' c_long 64,
     BF '''' c_long 64]"

lemma struct_bpf_common_lru_layout [layout_simps]:
  "csize struct_bpf_common_lru = 192" "calign struct_bpf_common_lru = 8" "wf_ctype struct_bpf_common_lru" "unpacked struct_bpf_common_lru"
  by (simp_all add: struct_bpf_common_lru_def layout_simps)

definition t_del_from_htab_func :: ctype where
  "t_del_from_htab_func = CPtr ''bool (*)(void *, struct bpf_lru_node *)''"

lemma t_del_from_htab_func_layout [layout_simps]:
  "csize t_del_from_htab_func = 8" "calign t_del_from_htab_func = 8" "wf_ctype t_del_from_htab_func" "unpacked t_del_from_htab_func"
  by (simp_all add: t_del_from_htab_func_def layout_simps)

definition struct_bpf_lru :: ctype where
  "struct_bpf_lru = CStruct
    [F '''' (CUnion
        [F ''common_lru'' struct_bpf_common_lru,
         F ''percpu_lru'' (CPtr ''struct bpf_lru_list'')]),
     F ''del_from_htab'' t_del_from_htab_func,
     F ''del_arg'' (CPtr ''void''),
     F ''hash_offset'' c_uint,
     F ''target_free'' c_uint,
     F ''nr_scans'' c_uint,
     F ''percpu'' t_bool,
     BF '''' c_long 64,
     BF '''' c_long 64,
     BF '''' c_long 64,
     BF '''' c_long 64]"

lemma struct_bpf_lru_layout [layout_simps]:
  "csize struct_bpf_lru = 256" "calign struct_bpf_lru = 8" "wf_ctype struct_bpf_lru" "unpacked struct_bpf_lru"
  by (simp_all add: struct_bpf_lru_def layout_simps)

definition struct_percpu_counter :: ctype where
  "struct_percpu_counter = CStruct
    [F ''lock'' t_raw_spinlock_t,
     F ''count'' t_s64,
     F ''list'' struct_list_head,
     F ''counters'' (CPtr ''s32'')]"

lemma struct_percpu_counter_layout [layout_simps]:
  "csize struct_percpu_counter = 40" "calign struct_percpu_counter = 8" "wf_ctype struct_percpu_counter" "unpacked struct_percpu_counter"
  by (simp_all add: struct_percpu_counter_def layout_simps)

definition struct_lock_class_key :: ctype where
  "struct_lock_class_key = CStruct
    []"

lemma struct_lock_class_key_layout [layout_simps]:
  "csize struct_lock_class_key = 0" "calign struct_lock_class_key = 1" "wf_ctype struct_lock_class_key" "unpacked struct_lock_class_key"
  by (simp_all add: struct_lock_class_key_def layout_simps)

definition struct_bpf_htab :: ctype where
  "struct_bpf_htab = CStruct
    [F ''map'' struct_bpf_map,
     F ''ma'' struct_bpf_mem_alloc,
     F ''pcpu_ma'' struct_bpf_mem_alloc,
     F ''buckets'' (CPtr ''struct bucket''),
     F ''elems'' (CPtr ''void''),
     F '''' (CUnion
        [F ''freelist'' struct_pcpu_freelist,
         F ''lru'' struct_bpf_lru]),
     F ''extra_elems'' (CPtr ''struct htab_elem *''),
     F ''pcount'' struct_percpu_counter,
     F ''count'' t_atomic_t,
     F ''use_percpu_counter'' t_bool,
     F ''n_buckets'' t_u32,
     F ''elem_size'' t_u32,
     F ''hashrnd'' t_u32,
     F ''lockdep_key'' struct_lock_class_key,
     F ''map_locked'' (CArr (CPtr ''int'') 8),
     BF '''' c_long 64,
     BF '''' c_long 64,
     BF '''' c_long 64,
     BF '''' c_long 64,
     BF '''' c_long 64,
     BF '''' c_long 64,
     BF '''' c_long 64]"

lemma struct_bpf_htab_layout [layout_simps]:
  "csize struct_bpf_htab = 896" "calign struct_bpf_htab = 8" "wf_ctype struct_bpf_htab" "unpacked struct_bpf_htab"
  by (simp_all add: struct_bpf_htab_def layout_simps)

definition struct_pcpu_freelist_node :: ctype where
  "struct_pcpu_freelist_node = CStruct
    [F ''next'' (CPtr ''struct pcpu_freelist_node'')]"

lemma struct_pcpu_freelist_node_layout [layout_simps]:
  "csize struct_pcpu_freelist_node = 8" "calign struct_pcpu_freelist_node = 8" "wf_ctype struct_pcpu_freelist_node" "unpacked struct_pcpu_freelist_node"
  by (simp_all add: struct_pcpu_freelist_node_def layout_simps)

definition struct_bpf_lru_node :: ctype where
  "struct_bpf_lru_node = CStruct
    [F ''list'' struct_list_head,
     F ''cpu'' t_u16,
     F ''type'' t_u8,
     F ''ref'' t_u8]"

lemma struct_bpf_lru_node_layout [layout_simps]:
  "csize struct_bpf_lru_node = 24" "calign struct_bpf_lru_node = 8" "wf_ctype struct_bpf_lru_node" "unpacked struct_bpf_lru_node"
  by (simp_all add: struct_bpf_lru_node_def layout_simps)

definition struct_htab_elem :: ctype where
  "struct_htab_elem = CStruct
    [F '''' (CUnion
        [F ''hash_node'' struct_hlist_nulls_node,
         F '''' (CStruct
            [F ''padding'' (CPtr ''void''),
             F '''' (CUnion
                [F ''fnode'' struct_pcpu_freelist_node,
                 F ''batch_flink'' (CPtr ''struct htab_elem'')])])]),
     F '''' (CUnion
        [F ''ptr_to_pptr'' (CPtr ''void''),
         F ''lru_node'' struct_bpf_lru_node]),
     F ''hash'' t_u32,
     BF '''' c_long 0,
     F ''key'' (CArr c_char 0)]"

lemma struct_htab_elem_layout [layout_simps]:
  "csize struct_htab_elem = 48" "calign struct_htab_elem = 8" "wf_ctype struct_htab_elem" "unpacked struct_htab_elem"
  by (simp_all add: struct_htab_elem_def layout_simps)

definition struct_rcuwait :: ctype where
  "struct_rcuwait = CStruct
    [F ''task'' (CPtr ''struct task_struct'')]"

lemma struct_rcuwait_layout [layout_simps]:
  "csize struct_rcuwait = 8" "calign struct_rcuwait = 8" "wf_ctype struct_rcuwait" "unpacked struct_rcuwait"
  by (simp_all add: struct_rcuwait_def layout_simps)

definition struct_irq_work :: ctype where
  "struct_irq_work = CStruct
    [F ''node'' struct___call_single_node,
     F ''func'' (CPtr ''void (*)(struct irq_work *)''),
     F ''irqwait'' struct_rcuwait]"

lemma struct_irq_work_layout [layout_simps]:
  "csize struct_irq_work = 32" "calign struct_irq_work = 8" "wf_ctype struct_irq_work" "unpacked struct_irq_work"
  by (simp_all add: struct_irq_work_def layout_simps)

definition ringbuf_head_page :: "cfield list" where [layout_defs]:
  "ringbuf_head_page =
    [F ''waitq'' t_wait_queue_head_t,
     F ''work'' struct_irq_work,
     F ''mask'' t_u64,
     F ''pages'' (CPtr ''struct page *''),
     F ''nr_pages'' c_int,
     BF '''' c_long 64,
     BF '''' c_long 64,
     BF '''' c_long 64,
     BF '''' c_long 64,
     BF '''' c_long 64,
     BF '''' c_long 64,
     F ''spinlock'' t_raw_spinlock_t,
     BF '''' c_long 64,
     BF '''' c_long 64,
     BF '''' c_long 64,
     BF '''' c_long 64,
     BF '''' c_long 64,
     BF '''' c_long 64,
     BF '''' c_long 64,
     F ''busy'' t_atomic_t] @
    replicate 487 (BF '''' c_long 64)"

definition ringbuf_consumer_page :: "cfield list" where [layout_defs]:
  "ringbuf_consumer_page =
    [F ''consumer_pos'' c_ulong] @
    replicate 511 (BF '''' c_long 64)"

definition ringbuf_producer_page :: "cfield list" where [layout_defs]:
  "ringbuf_producer_page =
    [F ''producer_pos'' c_ulong,
     F ''pending_pos'' c_ulong] @
    replicate 510 (BF '''' c_long 64)"

definition struct_bpf_ringbuf :: ctype where
  "struct_bpf_ringbuf = CStruct
    (ringbuf_head_page @ ringbuf_consumer_page @ ringbuf_producer_page @ [F ''data'' (CArr c_char 0)])"

lemma struct_bpf_ringbuf_layout [layout_simps]:
  "csize struct_bpf_ringbuf = 12288" "calign struct_bpf_ringbuf = 8" "wf_ctype struct_bpf_ringbuf" "unpacked struct_bpf_ringbuf"
  by (simp_all add: struct_bpf_ringbuf_def ringbuf_head_page_def ringbuf_consumer_page_def ringbuf_producer_page_def layout_simps)

definition struct_bpf_map_ops :: ctype where
  "struct_bpf_map_ops = CStruct
    [F ''map_alloc_check'' (CPtr ''int (*)(union bpf_attr *)''),
     F ''map_alloc'' (CPtr ''struct bpf_map * (*)(union bpf_attr *)''),
     F ''map_release'' (CPtr ''void (*)(struct bpf_map *, struct file *)''),
     F ''map_free'' (CPtr ''void (*)(struct bpf_map *)''),
     F ''map_get_next_key'' (CPtr ''int (*)(struct bpf_map *, void *, void *)''),
     F ''map_release_uref'' (CPtr ''void (*)(struct bpf_map *)''),
     F ''map_lookup_elem_sys_only'' (CPtr ''void * (*)(struct bpf_map *, void *)''),
     F ''map_lookup_batch'' (CPtr ''int (*)(struct bpf_map *, const union bpf_attr *, union bpf_attr *)''),
     F ''map_lookup_and_delete_elem'' (CPtr ''int (*)(struct bpf_map *, void *, void *, u64)''),
     F ''map_lookup_and_delete_batch'' (CPtr ''int (*)(struct bpf_map *, const union bpf_attr *, union bpf_attr *)''),
     F ''map_update_batch'' (CPtr ''int (*)(struct bpf_map *, struct file *, const union bpf_attr *, union bpf_attr *)''),
     F ''map_delete_batch'' (CPtr ''int (*)(struct bpf_map *, const union bpf_attr *, union bpf_attr *)''),
     F ''map_lookup_elem'' (CPtr ''void * (*)(struct bpf_map *, void *)''),
     F ''map_update_elem'' (CPtr ''long int (*)(struct bpf_map *, void *, void *, u64)''),
     F ''map_delete_elem'' (CPtr ''long int (*)(struct bpf_map *, void *)''),
     F ''map_push_elem'' (CPtr ''long int (*)(struct bpf_map *, void *, u64)''),
     F ''map_pop_elem'' (CPtr ''long int (*)(struct bpf_map *, void *)''),
     F ''map_peek_elem'' (CPtr ''long int (*)(struct bpf_map *, void *)''),
     F ''map_lookup_percpu_elem'' (CPtr ''void * (*)(struct bpf_map *, void *, u32)''),
     F ''map_fd_get_ptr'' (CPtr ''void * (*)(struct bpf_map *, struct file *, int)''),
     F ''map_fd_put_ptr'' (CPtr ''void (*)(struct bpf_map *, void *, bool)''),
     F ''map_gen_lookup'' (CPtr ''int (*)(struct bpf_map *, struct bpf_insn *)''),
     F ''map_fd_sys_lookup_elem'' (CPtr ''u32 (*)(void *)''),
     F ''map_seq_show_elem'' (CPtr ''void (*)(struct bpf_map *, void *, struct seq_file *)''),
     F ''map_check_btf'' (CPtr ''int (*)(const struct bpf_map *, const struct btf *, const struct btf_type *, const struct btf_type *)''),
     F ''map_poke_track'' (CPtr ''int (*)(struct bpf_map *, struct bpf_prog_aux *)''),
     F ''map_poke_untrack'' (CPtr ''void (*)(struct bpf_map *, struct bpf_prog_aux *)''),
     F ''map_poke_run'' (CPtr ''void (*)(struct bpf_map *, u32, struct bpf_prog *, struct bpf_prog *)''),
     F ''map_direct_value_addr'' (CPtr ''int (*)(const struct bpf_map *, u64 *, u32)''),
     F ''map_direct_value_meta'' (CPtr ''int (*)(const struct bpf_map *, u64, u32 *)''),
     F ''map_mmap'' (CPtr ''int (*)(struct bpf_map *, struct vm_area_struct *)''),
     F ''map_poll'' (CPtr ''__poll_t (*)(struct bpf_map *, struct file *, struct poll_table_struct *)''),
     F ''map_local_storage_charge'' (CPtr ''int (*)(struct bpf_local_storage_map *, void *, u32)''),
     F ''map_local_storage_uncharge'' (CPtr ''void (*)(struct bpf_local_storage_map *, void *, u32)''),
     F ''map_owner_storage_ptr'' (CPtr ''struct bpf_local_storage ** (*)(void *)''),
     F ''map_redirect'' (CPtr ''long int (*)(struct bpf_map *, u64, u64)''),
     F ''map_meta_equal'' (CPtr ''bool (*)(const struct bpf_map *, const struct bpf_map *)''),
     F ''map_set_for_each_callback_args'' (CPtr ''int (*)(struct bpf_verifier_env *, struct bpf_func_state *, struct bpf_func_state *)''),
     F ''map_for_each_callback'' (CPtr ''long int (*)(struct bpf_map *, bpf_callback_t, void *, u64)''),
     F ''map_mem_usage'' (CPtr ''u64 (*)(const struct bpf_map *)''),
     F ''map_btf_id'' (CPtr ''int''),
     F ''iter_seq_info'' (CPtr ''const struct bpf_iter_seq_info'')]"

lemma struct_bpf_map_ops_layout [layout_simps]:
  "csize struct_bpf_map_ops = 336" "calign struct_bpf_map_ops = 8" "wf_ctype struct_bpf_map_ops" "unpacked struct_bpf_map_ops"
  by (simp_all add: struct_bpf_map_ops_def layout_simps)

definition enum_bpf_func_id_1 :: "(string \<times> int) list" where
  "enum_bpf_func_id_1 =
    [(''BPF_FUNC_unspec'', 0),
     (''BPF_FUNC_map_lookup_elem'', 1),
     (''BPF_FUNC_map_update_elem'', 2),
     (''BPF_FUNC_map_delete_elem'', 3),
     (''BPF_FUNC_probe_read'', 4),
     (''BPF_FUNC_ktime_get_ns'', 5),
     (''BPF_FUNC_trace_printk'', 6),
     (''BPF_FUNC_get_prandom_u32'', 7),
     (''BPF_FUNC_get_smp_processor_id'', 8),
     (''BPF_FUNC_skb_store_bytes'', 9),
     (''BPF_FUNC_l3_csum_replace'', 10),
     (''BPF_FUNC_l4_csum_replace'', 11),
     (''BPF_FUNC_tail_call'', 12),
     (''BPF_FUNC_clone_redirect'', 13),
     (''BPF_FUNC_get_current_pid_tgid'', 14),
     (''BPF_FUNC_get_current_uid_gid'', 15),
     (''BPF_FUNC_get_current_comm'', 16),
     (''BPF_FUNC_get_cgroup_classid'', 17),
     (''BPF_FUNC_skb_vlan_push'', 18),
     (''BPF_FUNC_skb_vlan_pop'', 19),
     (''BPF_FUNC_skb_get_tunnel_key'', 20),
     (''BPF_FUNC_skb_set_tunnel_key'', 21),
     (''BPF_FUNC_perf_event_read'', 22),
     (''BPF_FUNC_redirect'', 23),
     (''BPF_FUNC_get_route_realm'', 24),
     (''BPF_FUNC_perf_event_output'', 25),
     (''BPF_FUNC_skb_load_bytes'', 26),
     (''BPF_FUNC_get_stackid'', 27),
     (''BPF_FUNC_csum_diff'', 28),
     (''BPF_FUNC_skb_get_tunnel_opt'', 29),
     (''BPF_FUNC_skb_set_tunnel_opt'', 30),
     (''BPF_FUNC_skb_change_proto'', 31),
     (''BPF_FUNC_skb_change_type'', 32),
     (''BPF_FUNC_skb_under_cgroup'', 33),
     (''BPF_FUNC_get_hash_recalc'', 34),
     (''BPF_FUNC_get_current_task'', 35),
     (''BPF_FUNC_probe_write_user'', 36),
     (''BPF_FUNC_current_task_under_cgroup'', 37),
     (''BPF_FUNC_skb_change_tail'', 38),
     (''BPF_FUNC_skb_pull_data'', 39),
     (''BPF_FUNC_csum_update'', 40),
     (''BPF_FUNC_set_hash_invalid'', 41),
     (''BPF_FUNC_get_numa_node_id'', 42),
     (''BPF_FUNC_skb_change_head'', 43),
     (''BPF_FUNC_xdp_adjust_head'', 44),
     (''BPF_FUNC_probe_read_str'', 45),
     (''BPF_FUNC_get_socket_cookie'', 46),
     (''BPF_FUNC_get_socket_uid'', 47),
     (''BPF_FUNC_set_hash'', 48),
     (''BPF_FUNC_setsockopt'', 49),
     (''BPF_FUNC_skb_adjust_room'', 50),
     (''BPF_FUNC_redirect_map'', 51),
     (''BPF_FUNC_sk_redirect_map'', 52),
     (''BPF_FUNC_sock_map_update'', 53),
     (''BPF_FUNC_xdp_adjust_meta'', 54),
     (''BPF_FUNC_perf_event_read_value'', 55),
     (''BPF_FUNC_perf_prog_read_value'', 56),
     (''BPF_FUNC_getsockopt'', 57),
     (''BPF_FUNC_override_return'', 58),
     (''BPF_FUNC_sock_ops_cb_flags_set'', 59),
     (''BPF_FUNC_msg_redirect_map'', 60),
     (''BPF_FUNC_msg_apply_bytes'', 61),
     (''BPF_FUNC_msg_cork_bytes'', 62),
     (''BPF_FUNC_msg_pull_data'', 63),
     (''BPF_FUNC_bind'', 64),
     (''BPF_FUNC_xdp_adjust_tail'', 65),
     (''BPF_FUNC_skb_get_xfrm_state'', 66),
     (''BPF_FUNC_get_stack'', 67),
     (''BPF_FUNC_skb_load_bytes_relative'', 68),
     (''BPF_FUNC_fib_lookup'', 69),
     (''BPF_FUNC_sock_hash_update'', 70),
     (''BPF_FUNC_msg_redirect_hash'', 71),
     (''BPF_FUNC_sk_redirect_hash'', 72),
     (''BPF_FUNC_lwt_push_encap'', 73),
     (''BPF_FUNC_lwt_seg6_store_bytes'', 74),
     (''BPF_FUNC_lwt_seg6_adjust_srh'', 75),
     (''BPF_FUNC_lwt_seg6_action'', 76),
     (''BPF_FUNC_rc_repeat'', 77),
     (''BPF_FUNC_rc_keydown'', 78),
     (''BPF_FUNC_skb_cgroup_id'', 79),
     (''BPF_FUNC_get_current_cgroup_id'', 80),
     (''BPF_FUNC_get_local_storage'', 81),
     (''BPF_FUNC_sk_select_reuseport'', 82),
     (''BPF_FUNC_skb_ancestor_cgroup_id'', 83),
     (''BPF_FUNC_sk_lookup_tcp'', 84),
     (''BPF_FUNC_sk_lookup_udp'', 85),
     (''BPF_FUNC_sk_release'', 86),
     (''BPF_FUNC_map_push_elem'', 87),
     (''BPF_FUNC_map_pop_elem'', 88),
     (''BPF_FUNC_map_peek_elem'', 89),
     (''BPF_FUNC_msg_push_data'', 90),
     (''BPF_FUNC_msg_pop_data'', 91),
     (''BPF_FUNC_rc_pointer_rel'', 92),
     (''BPF_FUNC_spin_lock'', 93),
     (''BPF_FUNC_spin_unlock'', 94),
     (''BPF_FUNC_sk_fullsock'', 95),
     (''BPF_FUNC_tcp_sock'', 96),
     (''BPF_FUNC_skb_ecn_set_ce'', 97),
     (''BPF_FUNC_get_listener_sock'', 98),
     (''BPF_FUNC_skc_lookup_tcp'', 99),
     (''BPF_FUNC_tcp_check_syncookie'', 100),
     (''BPF_FUNC_sysctl_get_name'', 101),
     (''BPF_FUNC_sysctl_get_current_value'', 102),
     (''BPF_FUNC_sysctl_get_new_value'', 103),
     (''BPF_FUNC_sysctl_set_new_value'', 104),
     (''BPF_FUNC_strtol'', 105),
     (''BPF_FUNC_strtoul'', 106),
     (''BPF_FUNC_sk_storage_get'', 107),
     (''BPF_FUNC_sk_storage_delete'', 108),
     (''BPF_FUNC_send_signal'', 109),
     (''BPF_FUNC_tcp_gen_syncookie'', 110),
     (''BPF_FUNC_skb_output'', 111),
     (''BPF_FUNC_probe_read_user'', 112),
     (''BPF_FUNC_probe_read_kernel'', 113),
     (''BPF_FUNC_probe_read_user_str'', 114),
     (''BPF_FUNC_probe_read_kernel_str'', 115),
     (''BPF_FUNC_tcp_send_ack'', 116),
     (''BPF_FUNC_send_signal_thread'', 117),
     (''BPF_FUNC_jiffies64'', 118),
     (''BPF_FUNC_read_branch_records'', 119),
     (''BPF_FUNC_get_ns_current_pid_tgid'', 120),
     (''BPF_FUNC_xdp_output'', 121),
     (''BPF_FUNC_get_netns_cookie'', 122),
     (''BPF_FUNC_get_current_ancestor_cgroup_id'', 123),
     (''BPF_FUNC_sk_assign'', 124),
     (''BPF_FUNC_ktime_get_boot_ns'', 125),
     (''BPF_FUNC_seq_printf'', 126),
     (''BPF_FUNC_seq_write'', 127),
     (''BPF_FUNC_sk_cgroup_id'', 128),
     (''BPF_FUNC_sk_ancestor_cgroup_id'', 129),
     (''BPF_FUNC_ringbuf_output'', 130),
     (''BPF_FUNC_ringbuf_reserve'', 131),
     (''BPF_FUNC_ringbuf_submit'', 132),
     (''BPF_FUNC_ringbuf_discard'', 133),
     (''BPF_FUNC_ringbuf_query'', 134),
     (''BPF_FUNC_csum_level'', 135),
     (''BPF_FUNC_skc_to_tcp6_sock'', 136),
     (''BPF_FUNC_skc_to_tcp_sock'', 137),
     (''BPF_FUNC_skc_to_tcp_timewait_sock'', 138),
     (''BPF_FUNC_skc_to_tcp_request_sock'', 139)]"

definition enum_bpf_func_id_2 :: "(string \<times> int) list" where
  "enum_bpf_func_id_2 =
    [(''BPF_FUNC_skc_to_udp6_sock'', 140),
     (''BPF_FUNC_get_task_stack'', 141),
     (''BPF_FUNC_load_hdr_opt'', 142),
     (''BPF_FUNC_store_hdr_opt'', 143),
     (''BPF_FUNC_reserve_hdr_opt'', 144),
     (''BPF_FUNC_inode_storage_get'', 145),
     (''BPF_FUNC_inode_storage_delete'', 146),
     (''BPF_FUNC_d_path'', 147),
     (''BPF_FUNC_copy_from_user'', 148),
     (''BPF_FUNC_snprintf_btf'', 149),
     (''BPF_FUNC_seq_printf_btf'', 150),
     (''BPF_FUNC_skb_cgroup_classid'', 151),
     (''BPF_FUNC_redirect_neigh'', 152),
     (''BPF_FUNC_per_cpu_ptr'', 153),
     (''BPF_FUNC_this_cpu_ptr'', 154),
     (''BPF_FUNC_redirect_peer'', 155),
     (''BPF_FUNC_task_storage_get'', 156),
     (''BPF_FUNC_task_storage_delete'', 157),
     (''BPF_FUNC_get_current_task_btf'', 158),
     (''BPF_FUNC_bprm_opts_set'', 159),
     (''BPF_FUNC_ktime_get_coarse_ns'', 160),
     (''BPF_FUNC_ima_inode_hash'', 161),
     (''BPF_FUNC_sock_from_file'', 162),
     (''BPF_FUNC_check_mtu'', 163),
     (''BPF_FUNC_for_each_map_elem'', 164),
     (''BPF_FUNC_snprintf'', 165),
     (''BPF_FUNC_sys_bpf'', 166),
     (''BPF_FUNC_btf_find_by_name_kind'', 167),
     (''BPF_FUNC_sys_close'', 168),
     (''BPF_FUNC_timer_init'', 169),
     (''BPF_FUNC_timer_set_callback'', 170),
     (''BPF_FUNC_timer_start'', 171),
     (''BPF_FUNC_timer_cancel'', 172),
     (''BPF_FUNC_get_func_ip'', 173),
     (''BPF_FUNC_get_attach_cookie'', 174),
     (''BPF_FUNC_task_pt_regs'', 175),
     (''BPF_FUNC_get_branch_snapshot'', 176),
     (''BPF_FUNC_trace_vprintk'', 177),
     (''BPF_FUNC_skc_to_unix_sock'', 178),
     (''BPF_FUNC_kallsyms_lookup_name'', 179),
     (''BPF_FUNC_find_vma'', 180),
     (''BPF_FUNC_loop'', 181),
     (''BPF_FUNC_strncmp'', 182),
     (''BPF_FUNC_get_func_arg'', 183),
     (''BPF_FUNC_get_func_ret'', 184),
     (''BPF_FUNC_get_func_arg_cnt'', 185),
     (''BPF_FUNC_get_retval'', 186),
     (''BPF_FUNC_set_retval'', 187),
     (''BPF_FUNC_xdp_get_buff_len'', 188),
     (''BPF_FUNC_xdp_load_bytes'', 189),
     (''BPF_FUNC_xdp_store_bytes'', 190),
     (''BPF_FUNC_copy_from_user_task'', 191),
     (''BPF_FUNC_skb_set_tstamp'', 192),
     (''BPF_FUNC_ima_file_hash'', 193),
     (''BPF_FUNC_kptr_xchg'', 194),
     (''BPF_FUNC_map_lookup_percpu_elem'', 195),
     (''BPF_FUNC_skc_to_mptcp_sock'', 196),
     (''BPF_FUNC_dynptr_from_mem'', 197),
     (''BPF_FUNC_ringbuf_reserve_dynptr'', 198),
     (''BPF_FUNC_ringbuf_submit_dynptr'', 199),
     (''BPF_FUNC_ringbuf_discard_dynptr'', 200),
     (''BPF_FUNC_dynptr_read'', 201),
     (''BPF_FUNC_dynptr_write'', 202),
     (''BPF_FUNC_dynptr_data'', 203),
     (''BPF_FUNC_tcp_raw_gen_syncookie_ipv4'', 204),
     (''BPF_FUNC_tcp_raw_gen_syncookie_ipv6'', 205),
     (''BPF_FUNC_tcp_raw_check_syncookie_ipv4'', 206),
     (''BPF_FUNC_tcp_raw_check_syncookie_ipv6'', 207),
     (''BPF_FUNC_ktime_get_tai_ns'', 208),
     (''BPF_FUNC_user_ringbuf_drain'', 209),
     (''BPF_FUNC_cgrp_storage_get'', 210),
     (''BPF_FUNC_cgrp_storage_delete'', 211),
     (''__BPF_FUNC_MAX_ID'', 212)]"

definition enum_bpf_func_id :: "(string \<times> int) list" where
  "enum_bpf_func_id = enum_bpf_func_id_1 @ enum_bpf_func_id_2"

definition enum_bpf_prog_type :: "(string \<times> int) list" where
  "enum_bpf_prog_type =
    [(''BPF_PROG_TYPE_UNSPEC'', 0),
     (''BPF_PROG_TYPE_SOCKET_FILTER'', 1),
     (''BPF_PROG_TYPE_KPROBE'', 2),
     (''BPF_PROG_TYPE_SCHED_CLS'', 3),
     (''BPF_PROG_TYPE_SCHED_ACT'', 4),
     (''BPF_PROG_TYPE_TRACEPOINT'', 5),
     (''BPF_PROG_TYPE_XDP'', 6),
     (''BPF_PROG_TYPE_PERF_EVENT'', 7),
     (''BPF_PROG_TYPE_CGROUP_SKB'', 8),
     (''BPF_PROG_TYPE_CGROUP_SOCK'', 9),
     (''BPF_PROG_TYPE_LWT_IN'', 10),
     (''BPF_PROG_TYPE_LWT_OUT'', 11),
     (''BPF_PROG_TYPE_LWT_XMIT'', 12),
     (''BPF_PROG_TYPE_SOCK_OPS'', 13),
     (''BPF_PROG_TYPE_SK_SKB'', 14),
     (''BPF_PROG_TYPE_CGROUP_DEVICE'', 15),
     (''BPF_PROG_TYPE_SK_MSG'', 16),
     (''BPF_PROG_TYPE_RAW_TRACEPOINT'', 17),
     (''BPF_PROG_TYPE_CGROUP_SOCK_ADDR'', 18),
     (''BPF_PROG_TYPE_LWT_SEG6LOCAL'', 19),
     (''BPF_PROG_TYPE_LIRC_MODE2'', 20),
     (''BPF_PROG_TYPE_SK_REUSEPORT'', 21),
     (''BPF_PROG_TYPE_FLOW_DISSECTOR'', 22),
     (''BPF_PROG_TYPE_CGROUP_SYSCTL'', 23),
     (''BPF_PROG_TYPE_RAW_TRACEPOINT_WRITABLE'', 24),
     (''BPF_PROG_TYPE_CGROUP_SOCKOPT'', 25),
     (''BPF_PROG_TYPE_TRACING'', 26),
     (''BPF_PROG_TYPE_STRUCT_OPS'', 27),
     (''BPF_PROG_TYPE_EXT'', 28),
     (''BPF_PROG_TYPE_LSM'', 29),
     (''BPF_PROG_TYPE_SK_LOOKUP'', 30),
     (''BPF_PROG_TYPE_SYSCALL'', 31),
     (''BPF_PROG_TYPE_NETFILTER'', 32)]"

definition enum_bpf_attach_type :: "(string \<times> int) list" where
  "enum_bpf_attach_type =
    [(''BPF_CGROUP_INET_INGRESS'', 0),
     (''BPF_CGROUP_INET_EGRESS'', 1),
     (''BPF_CGROUP_INET_SOCK_CREATE'', 2),
     (''BPF_CGROUP_SOCK_OPS'', 3),
     (''BPF_SK_SKB_STREAM_PARSER'', 4),
     (''BPF_SK_SKB_STREAM_VERDICT'', 5),
     (''BPF_CGROUP_DEVICE'', 6),
     (''BPF_SK_MSG_VERDICT'', 7),
     (''BPF_CGROUP_INET4_BIND'', 8),
     (''BPF_CGROUP_INET6_BIND'', 9),
     (''BPF_CGROUP_INET4_CONNECT'', 10),
     (''BPF_CGROUP_INET6_CONNECT'', 11),
     (''BPF_CGROUP_INET4_POST_BIND'', 12),
     (''BPF_CGROUP_INET6_POST_BIND'', 13),
     (''BPF_CGROUP_UDP4_SENDMSG'', 14),
     (''BPF_CGROUP_UDP6_SENDMSG'', 15),
     (''BPF_LIRC_MODE2'', 16),
     (''BPF_FLOW_DISSECTOR'', 17),
     (''BPF_CGROUP_SYSCTL'', 18),
     (''BPF_CGROUP_UDP4_RECVMSG'', 19),
     (''BPF_CGROUP_UDP6_RECVMSG'', 20),
     (''BPF_CGROUP_GETSOCKOPT'', 21),
     (''BPF_CGROUP_SETSOCKOPT'', 22),
     (''BPF_TRACE_RAW_TP'', 23),
     (''BPF_TRACE_FENTRY'', 24),
     (''BPF_TRACE_FEXIT'', 25),
     (''BPF_MODIFY_RETURN'', 26),
     (''BPF_LSM_MAC'', 27),
     (''BPF_TRACE_ITER'', 28),
     (''BPF_CGROUP_INET4_GETPEERNAME'', 29),
     (''BPF_CGROUP_INET6_GETPEERNAME'', 30),
     (''BPF_CGROUP_INET4_GETSOCKNAME'', 31),
     (''BPF_CGROUP_INET6_GETSOCKNAME'', 32),
     (''BPF_XDP_DEVMAP'', 33),
     (''BPF_CGROUP_INET_SOCK_RELEASE'', 34),
     (''BPF_XDP_CPUMAP'', 35),
     (''BPF_SK_LOOKUP'', 36),
     (''BPF_XDP'', 37),
     (''BPF_SK_SKB_VERDICT'', 38),
     (''BPF_SK_REUSEPORT_SELECT'', 39),
     (''BPF_SK_REUSEPORT_SELECT_OR_MIGRATE'', 40),
     (''BPF_PERF_EVENT'', 41),
     (''BPF_TRACE_KPROBE_MULTI'', 42),
     (''BPF_LSM_CGROUP'', 43),
     (''BPF_STRUCT_OPS'', 44),
     (''BPF_NETFILTER'', 45),
     (''BPF_TCX_INGRESS'', 46),
     (''BPF_TCX_EGRESS'', 47),
     (''BPF_TRACE_UPROBE_MULTI'', 48),
     (''__MAX_BPF_ATTACH_TYPE'', 49)]"

end
