(* ===== verification/Kernel_Types.thy ===== *)
theory Kernel_Types
  imports Vmlinux_Net Vmlinux_Task Vmlinux_Bpf
begin

text \<open>
  Facts about the transcribed kernel types that the programs rely on: where the members
  they read lie in \<open>struct sock\<close> and in every socket type derived from it.
\<close>

section \<open>The connection tuple in \<open>struct sock\<close>\<close>

abbreviation p_rcv_saddr :: "string list" where "p_rcv_saddr \<equiv> [''__sk_common'', ''skc_rcv_saddr'']"
abbreviation p_daddr :: "string list" where "p_daddr \<equiv> [''__sk_common'', ''skc_daddr'']"
abbreviation p_num :: "string list" where "p_num \<equiv> [''__sk_common'', ''skc_num'']"
abbreviation p_dport :: "string list" where "p_dport \<equiv> [''__sk_common'', ''skc_dport'']"

lemma sock_common_members:
  "find_field struct_sock_common ''skc_daddr'' = Some (0, t___be32)"
  "find_field struct_sock_common ''skc_rcv_saddr'' = Some (4, t___be32)"
  "find_field struct_sock_common ''skc_dport'' = Some (12, t___be16)"
  "find_field struct_sock_common ''skc_num'' = Some (14, t___u16)"
  by (simp_all add: struct_sock_common_def layout_simps)

lemma sock_common_first: "offset_path struct_sock (''__sk_common'' # ps) = offset_path struct_sock_common ps"
  unfolding struct_sock_def by (rule offset_path_first)

lemma sock_tuple_offsets:
  "offset_path struct_sock p_daddr = Some (0, t___be32)"
  "offset_path struct_sock p_rcv_saddr = Some (4, t___be32)"
  "offset_path struct_sock p_dport = Some (12, t___be16)"
  "offset_path struct_sock p_num = Some (14, t___u16)"
  unfolding sock_common_first by (simp_all add: sock_common_members)

section \<open>Socket types derived from \<open>struct sock\<close>\<close>

lemma inet_sock_first: "offset_path struct_inet_sock (''sk'' # ps) = offset_path struct_sock ps"
  unfolding struct_inet_sock_def by (rule offset_path_first)

lemma inet_connection_sock_first:
  "offset_path struct_inet_connection_sock (''icsk_inet'' # ps) = offset_path struct_inet_sock ps"
  unfolding struct_inet_connection_sock_def by (rule offset_path_first)

lemma tcp_sock_first: "offset_path struct_tcp_sock (''inet_conn'' # ps) = offset_path struct_inet_connection_sock ps"
  unfolding struct_tcp_sock_def by (rule offset_path_first)

lemma udp_sock_first: "offset_path struct_udp_sock (''inet'' # ps) = offset_path struct_inet_sock ps"
  unfolding struct_udp_sock_def by (rule offset_path_first)

lemma tcp6_sock_first: "offset_path struct_tcp6_sock (''tcp'' # ps) = offset_path struct_tcp_sock ps"
  unfolding struct_tcp6_sock_def by (rule offset_path_first)

lemma udp6_sock_first: "offset_path struct_udp6_sock (''udp'' # ps) = offset_path struct_udp_sock ps"
  unfolding struct_udp6_sock_def by (rule offset_path_first)

lemmas derived_first =
  tcp_sock_first udp_sock_first tcp6_sock_first udp6_sock_first
  inet_connection_sock_first inet_sock_first

end
