(* ===== verification/Bpf_Helpers.thy ===== *)
theory Bpf_Helpers
  imports Kernel_Types
begin

text \<open>
  The interface between the programs and the kernel. The BPF helpers and map
  implementations are not part of the repository: a program takes them as arguments
  (\<open>hash_ops\<close>, \<open>ring_ops\<close>, \<open>bpf_ctx\<close>), and what it relies on is stated by the locales
  \<open>bpf_hash\<close> and \<open>bpf_ring\<close>. Pointers returned by \<open>bpf_map_lookup_elem\<close> are slots of
  an explicit element store, so that reads and writes through them, also after the
  element was deleted, are part of the model. The theory \<open>Bpf_Reference\<close> interprets the
  locales on a bounded map with a free list and on a bounded ring.
\<close>

section \<open>Memory and the calling context\<close>

type_synonym mem = "u64 \<Rightarrow> byte option"

text \<open>\<open>bpf_probe_read_kernel\<close> and \<open>bpf_probe_read_user\<close> fail if any byte faults.\<close>

fun probe_read :: "mem \<Rightarrow> u64 \<Rightarrow> nat \<Rightarrow> bytes option" where
  "probe_read m p 0 = Some []"
| "probe_read m p (Suc n) =
     (case m p of None \<Rightarrow> None
      | Some b \<Rightarrow> (case probe_read m (p + 1) n of None \<Rightarrow> None | Some bs \<Rightarrow> Some (b # bs)))"

record bpf_ctx =
  current_pid_tgid :: u64 \<comment> \<open>\<open>bpf_get_current_pid_tgid()\<close>\<close>
  ktime_ns :: u64 \<comment> \<open>\<open>bpf_ktime_get_ns()\<close>\<close>
  current_comm :: "nat \<Rightarrow> bytes" \<comment> \<open>what \<open>bpf_get_current_comm(buf, n)\<close> leaves in \<open>buf\<close>\<close>
  kmem :: mem \<comment> \<open>kernel memory\<close>
  umem :: mem \<comment> \<open>memory of the current process\<close>
  reloc :: "string list \<Rightarrow> nat" \<comment> \<open>CO-RE relocated offset of a member path of \<open>struct sock\<close>\<close>

text \<open>
  \<open>BPF_CORE_READ(sk, a.b)\<close> probe-reads the member at its relocated offset into a
  zero-initialised result: a faulting read leaves zeroes.
\<close>

definition core_read :: "bpf_ctx \<Rightarrow> u64 \<Rightarrow> string list \<Rightarrow> nat \<Rightarrow> bytes" where
  "core_read ctx p path n =
     (case probe_read (kmem ctx) (p + of_nat (reloc ctx path)) n of
        Some bs \<Rightarrow> bs | None \<Rightarrow> replicate n 0)"

definition core_read16 :: "bpf_ctx \<Rightarrow> u64 \<Rightarrow> string list \<Rightarrow> u16" where
  "core_read16 ctx p path = un_le16 (core_read ctx p path 2)"

definition core_read32 :: "bpf_ctx \<Rightarrow> u64 \<Rightarrow> string list \<Rightarrow> u32" where
  "core_read32 ctx p path = un_le32 (core_read ctx p path 4)"

text \<open>Memory holding a byte image at an address.\<close>

fun holds :: "mem \<Rightarrow> u64 \<Rightarrow> bytes \<Rightarrow> bool" where
  "holds m p [] = True"
| "holds m p (b # bs) = (m p = Some b \<and> holds m (p + 1) bs)"

lemma probe_read_holds: "holds m p bs \<Longrightarrow> probe_read m p (length bs) = Some bs"
  by (induction bs arbitrary: p) auto

lemma probe_read_length: "probe_read m p n = Some bs \<Longrightarrow> length bs = n"
  by (induction n arbitrary: p bs) (auto split: option.splits)

lemma length_core_read [simp]: "length (core_read ctx p path n) = n"
  by (auto simp: core_read_def probe_read_length split: option.splits)

lemma holds_append: "holds m p (as @ bs) \<longleftrightarrow> holds m p as \<and> holds m (p + of_nat (length as)) bs"
  by (induction as arbitrary: p) (auto simp: algebra_simps)

lemma holds_slice:
  assumes "holds m p img" "off + n \<le> length img"
  shows "holds m (p + of_nat off) (take n (drop off img))"
proof -
  have "img = take off img @ take n (drop off img) @ drop n (drop off img)"
    by (simp only: append_take_drop_id)
  then have "holds m p (take off img @ take n (drop off img) @ drop n (drop off img))"
    using assms(1) by simp
  then have "holds m (p + of_nat (length (take off img))) (take n (drop off img))"
    by (simp only: holds_append)
  with assms(2) show ?thesis by simp
qed

text \<open>
  A relocated read of a member from an object held in memory succeeds and returns the
  member's bytes, for any layout of the object.
\<close>

lemma core_read_member:
  assumes "wf_ctype T" "offset_path T path = Some (off, t)" "reloc ctx path = off"
    and "holds (kmem ctx) p img" "length img = csize T"
  shows "core_read ctx p path (csize t) = take (csize t) (drop off img)"
proof -
  have le: "off + csize t \<le> length img" using offset_path_bounds [OF assms(1,2)] assms(5) by simp
  note h = holds_slice [OF assms(4) le]
  have "length (take (csize t) (drop off img)) = csize t" using le by simp
  with probe_read_holds [OF h] assms(3) show ?thesis by (simp add: core_read_def)
qed

section \<open>Hash maps\<close>

record ('m, 'v) hash_ops =
  map_lookup_elem :: "'m \<Rightarrow> u64 \<Rightarrow> nat option"
  map_update_elem :: "'m \<Rightarrow> u64 \<Rightarrow> 'v \<Rightarrow> int \<times> 'm" \<comment> \<open>with \<open>BPF_ANY\<close>\<close>
  map_delete_elem :: "'m \<Rightarrow> u64 \<Rightarrow> int \<times> 'm"
  value_load :: "'m \<Rightarrow> nat \<Rightarrow> 'v" \<comment> \<open>read through an element pointer\<close>
  value_store :: "'m \<Rightarrow> nat \<Rightarrow> 'v \<Rightarrow> 'm" \<comment> \<open>write through an element pointer\<close>

definition contents :: "('m, 'v) hash_ops \<Rightarrow> 'm \<Rightarrow> u64 \<Rightarrow> 'v option" where
  "contents h m k = map_option (value_load h m) (map_lookup_elem h m k)"

locale bpf_hash =
  fixes h :: "('m, 'v) hash_ops" and hinv :: "'m \<Rightarrow> bool"
  assumes update: "hinv m \<Longrightarrow> map_update_elem h m k v = (r, m') \<Longrightarrow>
      hinv m' \<and> (r = 0 \<longrightarrow> contents h m' = (contents h m)(k \<mapsto> v)) \<and>
      (r \<noteq> 0 \<longrightarrow> contents h m' = contents h m)"
    and delete: "hinv m \<Longrightarrow> map_delete_elem h m k = (r, m') \<Longrightarrow>
      hinv m' \<and> contents h m' = (contents h m)(k := None)"
    and delete_keeps_value: "hinv m \<Longrightarrow> map_lookup_elem h m k = Some p \<Longrightarrow>
      map_delete_elem h m k = (r, m') \<Longrightarrow> value_load h m' p = value_load h m p"
    and store: "hinv m \<Longrightarrow> map_lookup_elem h m k = Some p \<Longrightarrow>
      hinv (value_store h m p v) \<and> contents h (value_store h m p v) = (contents h m)(k \<mapsto> v) \<and>
      value_load h (value_store h m p v) p = v \<and>
      map_lookup_elem h (value_store h m p v) = map_lookup_elem h m"

text \<open>Maps that accept a new key while they hold fewer than \<open>max_entries\<close> keys.\<close>

locale bpf_hash_bounded = bpf_hash h hinv
  for h :: "('m, 'v) hash_ops" and hinv :: "'m \<Rightarrow> bool" +
  fixes max_entries :: nat
  assumes update_room: "hinv m \<Longrightarrow>
      k \<in> dom (contents h m) \<or> card (dom (contents h m)) < max_entries \<Longrightarrow>
      fst (map_update_elem h m k v) = 0"
    and bounded: "hinv m \<Longrightarrow> finite (dom (contents h m)) \<and> card (dom (contents h m)) \<le> max_entries"

text \<open>Assignment to a member through an element pointer.\<close>

definition store_via :: "('m, 'v) hash_ops \<Rightarrow> nat \<Rightarrow> ('v \<Rightarrow> 'v) \<Rightarrow> 'm \<Rightarrow> 'm" where
  "store_via h p f m = value_store h m p (f (value_load h m p))"

context bpf_hash
begin

lemma lookup_contents: "map_lookup_elem h m k = Some p \<Longrightarrow> contents h m k = Some (value_load h m p)"
  by (simp add: contents_def)

lemma lookup_None: "map_lookup_elem h m k = None \<longleftrightarrow> contents h m k = None"
  by (simp add: contents_def)

lemma delete_spec: "hinv m \<Longrightarrow> hinv (snd (map_delete_elem h m k)) \<and>
    contents h (snd (map_delete_elem h m k)) = (contents h m)(k := None)"
  using delete [of m k "fst (map_delete_elem h m k)"] by simp

lemma update_cases:
  assumes "hinv m"
  shows "hinv (snd (map_update_elem h m k v))"
    and "contents h (snd (map_update_elem h m k v)) =
      (if fst (map_update_elem h m k v) = 0 then (contents h m)(k \<mapsto> v) else contents h m)"
proof -
  obtain r m' where "map_update_elem h m k v = (r, m')" by fastforce
  with update [OF assms this] show "hinv (snd (map_update_elem h m k v))"
    and "contents h (snd (map_update_elem h m k v)) =
      (if fst (map_update_elem h m k v) = 0 then (contents h m)(k \<mapsto> v) else contents h m)"
    by auto
qed

lemma store_via_spec:
  assumes "hinv m" "map_lookup_elem h m k = Some p"
  shows "hinv (store_via h p f m)" "map_lookup_elem h (store_via h p f m) k = Some p"
    "value_load h (store_via h p f m) p = f (value_load h m p)"
    "contents h (store_via h p f m) = (contents h m)(k \<mapsto> f (value_load h m p))"
  using store [OF assms] assms(2) by (simp_all add: store_via_def)

end

text \<open>A full map refuses a key it does not hold.\<close>

context bpf_hash_bounded
begin

lemma update_full:
  assumes "hinv m" "card (dom (contents h m)) = max_entries" "k \<notin> dom (contents h m)"
  shows "fst (map_update_elem h m k v) \<noteq> 0"
proof
  assume "fst (map_update_elem h m k v) = 0"
  then have "contents h (snd (map_update_elem h m k v)) = (contents h m)(k \<mapsto> v)"
    using update_cases(2) [OF assms(1)] by simp
  moreover have "card (dom (contents h (snd (map_update_elem h m k v)))) \<le> max_entries"
    using bounded update_cases(1) [OF assms(1)] by blast
  ultimately have "card (insert k (dom (contents h m))) \<le> max_entries" by simp
  with assms bounded [OF assms(1)] show False by simp
qed

end

section \<open>Ring buffers\<close>

record 'r ring_ops =
  ringbuf_reserve :: "'r \<Rightarrow> nat \<Rightarrow> (nat \<times> 'r) option"
  ringbuf_memcpy :: "'r \<Rightarrow> nat \<Rightarrow> bytes \<Rightarrow> 'r" \<comment> \<open>copy into a reserved sample\<close>
  ringbuf_submit :: "'r \<Rightarrow> nat \<Rightarrow> 'r"

text \<open>A sample: its identity, whether it was submitted, its bytes.\<close>

type_synonym sample = "nat \<times> bool \<times> bytes"

definition set_bytes :: "nat \<Rightarrow> bytes \<Rightarrow> sample \<Rightarrow> sample" where
  "set_bytes p bs s = (if fst s = p then (p, fst (snd s), bs) else s)"

definition set_submitted :: "nat \<Rightarrow> sample \<Rightarrow> sample" where
  "set_submitted p s = (if fst s = p then (p, True, snd (snd s)) else s)"

text \<open>The consumer sees the samples in reservation order up to the first one not submitted.\<close>

definition consumer_view :: "sample list \<Rightarrow> bytes list" where
  "consumer_view ss = map (snd \<circ> snd) (takeWhile (fst \<circ> snd) ss)"

locale bpf_ring =
  fixes g :: "'r ring_ops" and rinv :: "'r \<Rightarrow> bool" and samples :: "'r \<Rightarrow> sample list"
  assumes reserve: "rinv r \<Longrightarrow> ringbuf_reserve g r n = Some (p, r') \<Longrightarrow>
      rinv r' \<and> p \<notin> fst ` set (samples r) \<and>
      (\<exists>bs. length bs = n \<and> samples r' = samples r @ [(p, False, bs)])"
    and memcpy: "rinv r \<Longrightarrow> (p, False, old) \<in> set (samples r) \<Longrightarrow> length bs = length old \<Longrightarrow>
      rinv (ringbuf_memcpy g r p bs) \<and>
      samples (ringbuf_memcpy g r p bs) = map (set_bytes p bs) (samples r)"
    and submit: "rinv r \<Longrightarrow> (p, False, bs) \<in> set (samples r) \<Longrightarrow>
      rinv (ringbuf_submit g r p) \<and>
      samples (ringbuf_submit g r p) = map (set_submitted p) (samples r)"

text \<open>
  The sequence all programs use: reserve, give up if that fails, copy the event into
  the reserved sample, submit.
\<close>

definition reserve_copy_submit :: "'r ring_ops \<Rightarrow> nat \<Rightarrow> bytes \<Rightarrow> 'r \<Rightarrow> bool \<times> 'r" where
  "reserve_copy_submit g n bs r =
     (case ringbuf_reserve g r n of
        None \<Rightarrow> (False, r)
      | Some (p, r1) \<Rightarrow> (True, ringbuf_submit g (ringbuf_memcpy g r1 p bs) p))"

lemma map_set_bytes_other: "p \<notin> fst ` set ss \<Longrightarrow> map (set_bytes p bs) ss = ss"
  by (induction ss) (auto simp: set_bytes_def)

lemma map_set_submitted_other: "p \<notin> fst ` set ss \<Longrightarrow> map (set_submitted p) ss = ss"
  by (induction ss) (auto simp: set_submitted_def)

context bpf_ring
begin

lemma reserve_copy_submit_spec:
  assumes "rinv r" "reserve_copy_submit g (length bs) bs r = (ok, r')"
  shows "rinv r' \<and> (\<not> ok \<longrightarrow> r' = r) \<and>
    (ok \<longrightarrow> (\<exists>p. p \<notin> fst ` set (samples r) \<and> samples r' = samples r @ [(p, True, bs)]))"
proof (cases "ringbuf_reserve g r (length bs)")
  case None
  with assms show ?thesis by (auto simp: reserve_copy_submit_def)
next
  case (Some q)
  obtain p r1 where q: "q = (p, r1)" by (cases q)
  from reserve [OF assms(1)] Some q obtain old where r1: "rinv r1" "p \<notin> fst ` set (samples r)"
    "length old = length bs" "samples r1 = samples r @ [(p, False, old)]" by blast
  define r2 where "r2 = ringbuf_memcpy g r1 p bs"
  have r2: "rinv r2 \<and> samples r2 = samples r @ [(p, False, bs)]"
    using memcpy [OF r1(1), of p old bs] r1
    by (simp add: map_set_bytes_other r2_def) (simp add: set_bytes_def)
  have "rinv (ringbuf_submit g r2 p) \<and> samples (ringbuf_submit g r2 p) = samples r @ [(p, True, bs)]"
    using submit [of r2 p bs] r2 r1(2)
    by (simp add: map_set_submitted_other) (simp add: set_submitted_def)
  with assms(2) Some q r1(2) show ?thesis by (auto simp: reserve_copy_submit_def r2_def)
qed

lemma reserve_copy_submit_view:
  assumes "rinv r" "reserve_copy_submit g (length bs) bs r = (True, r')"
    and "\<forall>s \<in> set (samples r). fst (snd s)"
  shows "consumer_view (samples r') = consumer_view (samples r) @ [bs]"
proof -
  from reserve_copy_submit_spec [OF assms(1,2)] obtain p where
    "samples r' = samples r @ [(p, True, bs)]" by blast
  with assms(3) show ?thesis by (simp add: consumer_view_def takeWhile_eq_all_conv [THEN iffD2])
qed

end


end
