(* ===== verification/Events.thy ===== *)
theory Events
  imports Bpf_Helpers
begin

text \<open>
  \<open>common.h\<close>: limits, event types, protocol and TCP state codes, and the four packed
  event structs that cross the ring buffers. Each struct is a record for the programs, a
  \<open>ctype\<close> for its layout, and a byte image, which is what \<open>__builtin_memcpy\<close> copies.
\<close>

section \<open>Limits\<close>

definition MAX_COMM_LEN :: nat where [event_simps]: "MAX_COMM_LEN = 16"
definition MAX_DOMAIN_LEN :: nat where [event_simps]: "MAX_DOMAIN_LEN = 256"
definition MAX_HTTP_PATH_LEN :: nat where [event_simps]: "MAX_HTTP_PATH_LEN = 128"
definition MAX_HTTP_HOST_LEN :: nat where [event_simps]: "MAX_HTTP_HOST_LEN = 128"
definition MAX_DB_PAYLOAD_LEN :: nat where [event_simps]: "MAX_DB_PAYLOAD_LEN = 256"
definition RING_BUFFER_SIZE :: nat where [event_simps]: "RING_BUFFER_SIZE = 256 * 1024"

section \<open>Codes\<close>

datatype event_type = EVENT_TCP_CONNECT | EVENT_TCP_ACCEPT | EVENT_TCP_CLOSE | EVENT_DNS_QUERY
  | EVENT_HTTP_REQUEST | EVENT_HTTPS_SNI | EVENT_DB_QUERY

fun event_code :: "event_type \<Rightarrow> u32" where
  "event_code EVENT_TCP_CONNECT = 1"
| "event_code EVENT_TCP_ACCEPT = 2"
| "event_code EVENT_TCP_CLOSE = 3"
| "event_code EVENT_DNS_QUERY = 4"
| "event_code EVENT_HTTP_REQUEST = 5"
| "event_code EVENT_HTTPS_SNI = 6"
| "event_code EVENT_DB_QUERY = 7"

lemma event_code_inj: "event_code a = event_code b \<Longrightarrow> a = b"
  by (cases a; cases b) simp_all

definition DB_PROTO_UNKNOWN :: u8 where "DB_PROTO_UNKNOWN = 0"
definition DB_PROTO_PG :: u8 where "DB_PROTO_PG = 1"
definition DB_PROTO_MYSQL :: u8 where "DB_PROTO_MYSQL = 2"
definition DB_PROTO_REDIS :: u8 where "DB_PROTO_REDIS = 3"
definition DB_PROTO_ENCRYPTED :: u8 where "DB_PROTO_ENCRYPTED = 4"

lemmas db_proto_defs = DB_PROTO_UNKNOWN_def DB_PROTO_PG_def DB_PROTO_MYSQL_def
  DB_PROTO_REDIS_def DB_PROTO_ENCRYPTED_def

definition TCP_ESTABLISHED :: i32 where "TCP_ESTABLISHED = 1"
definition TCP_SYN_SENT :: i32 where "TCP_SYN_SENT = 2"
definition TCP_FIN_WAIT1 :: i32 where "TCP_FIN_WAIT1 = 4"
definition TCP_FIN_WAIT2 :: i32 where "TCP_FIN_WAIT2 = 5"
definition TCP_TIME_WAIT :: i32 where "TCP_TIME_WAIT = 6"
definition TCP_CLOSE_WAIT :: i32 where "TCP_CLOSE_WAIT = 7"
definition TCP_CLOSE :: i32 where "TCP_CLOSE = 7"

lemmas tcp_state_defs = TCP_ESTABLISHED_def TCP_SYN_SENT_def TCP_FIN_WAIT1_def TCP_FIN_WAIT2_def
  TCP_TIME_WAIT_def TCP_CLOSE_WAIT_def TCP_CLOSE_def

section \<open>Event structs\<close>

record tcp_event =
  te_timestamp_ns :: u64
  te_event_type :: u32
  te_pid :: u32
  te_tid :: u32
  te_src_ip :: u32
  te_dst_ip :: u32
  te_src_port :: u16
  te_dst_port :: u16
  te_tcp_state :: u32
  te_bytes_sent :: u64
  te_bytes_recv :: u64
  te_comm :: bytes

definition struct_tcp_event :: ctype where
  "struct_tcp_event = CPacked
    [F ''timestamp_ns'' t___u64,
     F ''event_type'' t___u32,
     F ''pid'' t___u32,
     F ''tid'' t___u32,
     F ''src_ip'' t___u32,
     F ''dst_ip'' t___u32,
     F ''src_port'' t___u16,
     F ''dst_port'' t___u16,
     F ''tcp_state'' t___u32,
     F ''bytes_sent'' t___u64,
     F ''bytes_recv'' t___u64,
     F ''comm'' (CArr c_char 16)]"

record dns_event =
  de_timestamp_ns :: u64
  de_event_type :: u32
  de_pid :: u32
  de_src_ip :: u32
  de_dst_ip :: u32
  de_src_port :: u16
  de_dst_port :: u16
  de_query_id :: u16
  de_qtype :: u16
  de_domain :: bytes

definition struct_dns_event :: ctype where
  "struct_dns_event = CPacked
    [F ''timestamp_ns'' t___u64,
     F ''event_type'' t___u32,
     F ''pid'' t___u32,
     F ''src_ip'' t___u32,
     F ''dst_ip'' t___u32,
     F ''src_port'' t___u16,
     F ''dst_port'' t___u16,
     F ''query_id'' t___u16,
     F ''qtype'' t___u16,
     F ''domain'' (CArr c_char 256)]"

record http_event =
  he_timestamp_ns :: u64
  he_event_type :: u32
  he_pid :: u32
  he_src_ip :: u32
  he_dst_ip :: u32
  he_src_port :: u16
  he_dst_port :: u16
  he_status_code :: u16
  he_method :: u8
  he_pad :: u8
  he_host :: bytes
  he_path :: bytes

definition struct_http_event :: ctype where
  "struct_http_event = CPacked
    [F ''timestamp_ns'' t___u64,
     F ''event_type'' t___u32,
     F ''pid'' t___u32,
     F ''src_ip'' t___u32,
     F ''dst_ip'' t___u32,
     F ''src_port'' t___u16,
     F ''dst_port'' t___u16,
     F ''status_code'' t___u16,
     F ''method'' t___u8,
     F ''_pad'' t___u8,
     F ''host'' (CArr c_char 128),
     F ''path'' (CArr c_char 128)]"

record db_event =
  db_timestamp_ns :: u64
  db_event_type :: u32
  db_pid :: u32
  db_src_ip :: u32
  db_dst_ip :: u32
  db_src_port :: u16
  db_dst_port :: u16
  db_protocol :: u8
  db_pad :: u8
  db_payload_len :: u32
  db_response_bytes :: u32
  db_payload :: bytes
  db_comm :: bytes

definition struct_db_event :: ctype where
  "struct_db_event = CPacked
    [F ''timestamp_ns'' t___u64,
     F ''event_type'' t___u32,
     F ''pid'' t___u32,
     F ''src_ip'' t___u32,
     F ''dst_ip'' t___u32,
     F ''src_port'' t___u16,
     F ''dst_port'' t___u16,
     F ''protocol'' t___u8,
     F ''_pad'' t___u8,
     F ''payload_len'' t___u32,
     F ''response_bytes'' t___u32,
     F ''payload'' (CArr c_char 256),
     F ''comm'' (CArr c_char 16)]"

section \<open>Zero initialisation (\<open>= {}\<close>)\<close>

definition tcp_event_zero :: tcp_event where [event_simps]:
  "tcp_event_zero = \<lparr>te_timestamp_ns = 0, te_event_type = 0, te_pid = 0, te_tid = 0, te_src_ip = 0,
     te_dst_ip = 0, te_src_port = 0, te_dst_port = 0, te_tcp_state = 0, te_bytes_sent = 0,
     te_bytes_recv = 0, te_comm = replicate MAX_COMM_LEN 0\<rparr>"

definition dns_event_zero :: dns_event where [event_simps]:
  "dns_event_zero = \<lparr>de_timestamp_ns = 0, de_event_type = 0, de_pid = 0, de_src_ip = 0, de_dst_ip = 0,
     de_src_port = 0, de_dst_port = 0, de_query_id = 0, de_qtype = 0,
     de_domain = replicate MAX_DOMAIN_LEN 0\<rparr>"

definition http_event_zero :: http_event where [event_simps]:
  "http_event_zero = \<lparr>he_timestamp_ns = 0, he_event_type = 0, he_pid = 0, he_src_ip = 0, he_dst_ip = 0,
     he_src_port = 0, he_dst_port = 0, he_status_code = 0, he_method = 0, he_pad = 0,
     he_host = replicate MAX_HTTP_HOST_LEN 0, he_path = replicate MAX_HTTP_PATH_LEN 0\<rparr>"

definition db_event_zero :: db_event where [event_simps]:
  "db_event_zero = \<lparr>db_timestamp_ns = 0, db_event_type = 0, db_pid = 0, db_src_ip = 0, db_dst_ip = 0,
     db_src_port = 0, db_dst_port = 0, db_protocol = 0, db_pad = 0, db_payload_len = 0,
     db_response_bytes = 0, db_payload = replicate MAX_DB_PAYLOAD_LEN 0,
     db_comm = replicate MAX_COMM_LEN 0\<rparr>"

section \<open>Byte images\<close>

definition tcp_event_bytes :: "tcp_event \<Rightarrow> bytes" where
  "tcp_event_bytes e =
     le64 (te_timestamp_ns e) @ le32 (te_event_type e) @ le32 (te_pid e) @ le32 (te_tid e) @
     le32 (te_src_ip e) @ le32 (te_dst_ip e) @ le16 (te_src_port e) @ le16 (te_dst_port e) @
     le32 (te_tcp_state e) @ le64 (te_bytes_sent e) @ le64 (te_bytes_recv e) @ te_comm e"

definition dns_event_bytes :: "dns_event \<Rightarrow> bytes" where
  "dns_event_bytes e =
     le64 (de_timestamp_ns e) @ le32 (de_event_type e) @ le32 (de_pid e) @ le32 (de_src_ip e) @
     le32 (de_dst_ip e) @ le16 (de_src_port e) @ le16 (de_dst_port e) @ le16 (de_query_id e) @
     le16 (de_qtype e) @ de_domain e"

definition http_event_bytes :: "http_event \<Rightarrow> bytes" where
  "http_event_bytes e =
     le64 (he_timestamp_ns e) @ le32 (he_event_type e) @ le32 (he_pid e) @ le32 (he_src_ip e) @
     le32 (he_dst_ip e) @ le16 (he_src_port e) @ le16 (he_dst_port e) @ le16 (he_status_code e) @
     [he_method e] @ [he_pad e] @ he_host e @ he_path e"

definition db_event_bytes :: "db_event \<Rightarrow> bytes" where
  "db_event_bytes e =
     le64 (db_timestamp_ns e) @ le32 (db_event_type e) @ le32 (db_pid e) @ le32 (db_src_ip e) @
     le32 (db_dst_ip e) @ le16 (db_src_port e) @ le16 (db_dst_port e) @ [db_protocol e] @ [db_pad e] @
     le32 (db_payload_len e) @ le32 (db_response_bytes e) @ db_payload e @ db_comm e"

text \<open>A record is a value of its struct when its arrays have their declared lengths.\<close>

definition tcp_event_ok :: "tcp_event \<Rightarrow> bool" where
  "tcp_event_ok e \<longleftrightarrow> length (te_comm e) = MAX_COMM_LEN"

definition dns_event_ok :: "dns_event \<Rightarrow> bool" where
  "dns_event_ok e \<longleftrightarrow> length (de_domain e) = MAX_DOMAIN_LEN"

definition http_event_ok :: "http_event \<Rightarrow> bool" where
  "http_event_ok e \<longleftrightarrow> length (he_host e) = MAX_HTTP_HOST_LEN \<and> length (he_path e) = MAX_HTTP_PATH_LEN"

definition db_event_ok :: "db_event \<Rightarrow> bool" where
  "db_event_ok e \<longleftrightarrow> length (db_payload e) = MAX_DB_PAYLOAD_LEN \<and> length (db_comm e) = MAX_COMM_LEN"

lemmas event_ok_defs = tcp_event_ok_def dns_event_ok_def http_event_ok_def db_event_ok_def

section \<open>Sizes\<close>

lemma event_struct_sizes [simp]:
  "csize struct_tcp_event = 68" "csize struct_dns_event = 288"
  "csize struct_http_event = 288" "csize struct_db_event = 310"
  by (simp_all add: struct_tcp_event_def struct_dns_event_def struct_http_event_def
      struct_db_event_def layout_simps)

lemma event_bytes_length:
  "tcp_event_ok e1 \<Longrightarrow> length (tcp_event_bytes e1) = csize struct_tcp_event"
  "dns_event_ok e2 \<Longrightarrow> length (dns_event_bytes e2) = csize struct_dns_event"
  "http_event_ok e3 \<Longrightarrow> length (http_event_bytes e3) = csize struct_http_event"
  "db_event_ok e4 \<Longrightarrow> length (db_event_bytes e4) = csize struct_db_event"
  by (simp_all add: event_ok_defs tcp_event_bytes_def dns_event_bytes_def http_event_bytes_def
      db_event_bytes_def event_simps)

end
