(* ===== verification/Wire.thy ===== *)
theory Wire
  imports Events
begin

text \<open>
  The consumer's side of the ring buffer records. The Rust agent declares each event as a
  \<open>#[repr(C, packed)]\<close> struct and reinterprets the record's bytes; here each declaration
  is a layout and the reinterpretation reads every member at its offset. The locale
  \<open>wire_format\<close> states what producer and consumer agree on, and is interpreted on the four
  event types.
\<close>

section \<open>Reading members from bytes\<close>

definition member_bytes :: "ctype \<Rightarrow> string \<Rightarrow> bytes \<Rightarrow> bytes" where
  "member_bytes T nm d =
     (case find_field T nm of Some (off, t) \<Rightarrow> take (csize t) (drop off d) | None \<Rightarrow> [])"

definition member8 :: "ctype \<Rightarrow> string \<Rightarrow> bytes \<Rightarrow> u8" where
  "member8 T nm d = word_of_nat (le_value (member_bytes T nm d))"

definition member16 :: "ctype \<Rightarrow> string \<Rightarrow> bytes \<Rightarrow> u16" where
  "member16 T nm d = un_le16 (member_bytes T nm d)"

definition member32 :: "ctype \<Rightarrow> string \<Rightarrow> bytes \<Rightarrow> u32" where
  "member32 T nm d = un_le32 (member_bytes T nm d)"

definition member64 :: "ctype \<Rightarrow> string \<Rightarrow> bytes \<Rightarrow> u64" where
  "member64 T nm d = un_le64 (member_bytes T nm d)"

lemmas member_defs = member_bytes_def member8_def member16_def member32_def member64_def

section \<open>The Rust declarations\<close>

definition TcpEvent :: ctype where
  "TcpEvent = CPacked
    [F ''timestamp_ns'' (CInt 8), F ''event_type'' (CInt 4), F ''pid'' (CInt 4), F ''tid'' (CInt 4),
     F ''src_ip'' (CInt 4), F ''dst_ip'' (CInt 4), F ''src_port'' (CInt 2), F ''dst_port'' (CInt 2),
     F ''tcp_state'' (CInt 4), F ''bytes_sent'' (CInt 8), F ''bytes_recv'' (CInt 8),
     F ''comm'' (CArr (CInt 1) 16)]"

definition DnsEventRaw :: ctype where
  "DnsEventRaw = CPacked
    [F ''timestamp_ns'' (CInt 8), F ''event_type'' (CInt 4), F ''pid'' (CInt 4),
     F ''src_ip'' (CInt 4), F ''dst_ip'' (CInt 4), F ''src_port'' (CInt 2), F ''dst_port'' (CInt 2),
     F ''query_id'' (CInt 2), F ''qtype'' (CInt 2), F ''domain'' (CArr (CInt 1) 256)]"

definition HttpEventRaw :: ctype where
  "HttpEventRaw = CPacked
    [F ''timestamp_ns'' (CInt 8), F ''event_type'' (CInt 4), F ''pid'' (CInt 4),
     F ''src_ip'' (CInt 4), F ''dst_ip'' (CInt 4), F ''src_port'' (CInt 2), F ''dst_port'' (CInt 2),
     F ''status_code'' (CInt 2), F ''method'' (CInt 1), F ''_pad'' (CInt 1),
     F ''host'' (CArr (CInt 1) 128), F ''path'' (CArr (CInt 1) 128)]"

definition DbEvent :: ctype where
  "DbEvent = CPacked
    [F ''timestamp_ns'' (CInt 8), F ''event_type'' (CInt 4), F ''pid'' (CInt 4),
     F ''src_ip'' (CInt 4), F ''dst_ip'' (CInt 4), F ''src_port'' (CInt 2), F ''dst_port'' (CInt 2),
     F ''protocol'' (CInt 1), F ''_pad'' (CInt 1), F ''payload_len'' (CInt 4),
     F ''response_bytes'' (CInt 4), F ''payload'' (CArr (CInt 1) 256), F ''comm'' (CArr (CInt 1) 16)]"

lemmas rust_layouts = TcpEvent_def DnsEventRaw_def HttpEventRaw_def DbEvent_def

section \<open>Reinterpreting a record as a Rust struct\<close>

definition read_TcpEvent :: "bytes \<Rightarrow> tcp_event" where
  "read_TcpEvent d =
     \<lparr>te_timestamp_ns = member64 TcpEvent ''timestamp_ns'' d,
      te_event_type = member32 TcpEvent ''event_type'' d,
      te_pid = member32 TcpEvent ''pid'' d,
      te_tid = member32 TcpEvent ''tid'' d,
      te_src_ip = member32 TcpEvent ''src_ip'' d,
      te_dst_ip = member32 TcpEvent ''dst_ip'' d,
      te_src_port = member16 TcpEvent ''src_port'' d,
      te_dst_port = member16 TcpEvent ''dst_port'' d,
      te_tcp_state = member32 TcpEvent ''tcp_state'' d,
      te_bytes_sent = member64 TcpEvent ''bytes_sent'' d,
      te_bytes_recv = member64 TcpEvent ''bytes_recv'' d,
      te_comm = member_bytes TcpEvent ''comm'' d\<rparr>"

definition read_DnsEventRaw :: "bytes \<Rightarrow> dns_event" where
  "read_DnsEventRaw d =
     \<lparr>de_timestamp_ns = member64 DnsEventRaw ''timestamp_ns'' d,
      de_event_type = member32 DnsEventRaw ''event_type'' d,
      de_pid = member32 DnsEventRaw ''pid'' d,
      de_src_ip = member32 DnsEventRaw ''src_ip'' d,
      de_dst_ip = member32 DnsEventRaw ''dst_ip'' d,
      de_src_port = member16 DnsEventRaw ''src_port'' d,
      de_dst_port = member16 DnsEventRaw ''dst_port'' d,
      de_query_id = member16 DnsEventRaw ''query_id'' d,
      de_qtype = member16 DnsEventRaw ''qtype'' d,
      de_domain = member_bytes DnsEventRaw ''domain'' d\<rparr>"

definition read_HttpEventRaw :: "bytes \<Rightarrow> http_event" where
  "read_HttpEventRaw d =
     \<lparr>he_timestamp_ns = member64 HttpEventRaw ''timestamp_ns'' d,
      he_event_type = member32 HttpEventRaw ''event_type'' d,
      he_pid = member32 HttpEventRaw ''pid'' d,
      he_src_ip = member32 HttpEventRaw ''src_ip'' d,
      he_dst_ip = member32 HttpEventRaw ''dst_ip'' d,
      he_src_port = member16 HttpEventRaw ''src_port'' d,
      he_dst_port = member16 HttpEventRaw ''dst_port'' d,
      he_status_code = member16 HttpEventRaw ''status_code'' d,
      he_method = member8 HttpEventRaw ''method'' d,
      he_pad = member8 HttpEventRaw ''_pad'' d,
      he_host = member_bytes HttpEventRaw ''host'' d,
      he_path = member_bytes HttpEventRaw ''path'' d\<rparr>"

definition read_DbEvent :: "bytes \<Rightarrow> db_event" where
  "read_DbEvent d =
     \<lparr>db_timestamp_ns = member64 DbEvent ''timestamp_ns'' d,
      db_event_type = member32 DbEvent ''event_type'' d,
      db_pid = member32 DbEvent ''pid'' d,
      db_src_ip = member32 DbEvent ''src_ip'' d,
      db_dst_ip = member32 DbEvent ''dst_ip'' d,
      db_src_port = member16 DbEvent ''src_port'' d,
      db_dst_port = member16 DbEvent ''dst_port'' d,
      db_protocol = member8 DbEvent ''protocol'' d,
      db_pad = member8 DbEvent ''_pad'' d,
      db_payload_len = member32 DbEvent ''payload_len'' d,
      db_response_bytes = member32 DbEvent ''response_bytes'' d,
      db_payload = member_bytes DbEvent ''payload'' d,
      db_comm = member_bytes DbEvent ''comm'' d\<rparr>"

section \<open>Agreement of the two sides\<close>

locale wire_format =
  fixes enc :: "'e \<Rightarrow> bytes" and ok :: "'e \<Rightarrow> bool" and dec :: "bytes \<Rightarrow> 'e" and sz :: nat
  assumes enc_length: "ok e \<Longrightarrow> length (enc e) = sz"
    and dec_enc: "ok e \<Longrightarrow> dec (enc e) = e"
    and dec_ok: "length d = sz \<Longrightarrow> ok (dec d)"
    and enc_dec: "length d = sz \<Longrightarrow> enc (dec d) = d"
begin

lemma enc_inj: "ok a \<Longrightarrow> ok b \<Longrightarrow> enc a = enc b \<Longrightarrow> a = b"
  using dec_enc by metis

lemma dec_stream: "\<forall>e \<in> set es. ok e \<Longrightarrow> map dec (map enc es) = es"
  by (induction es) (auto simp: dec_enc)

lemma enc_range: "enc ` Collect ok = {d. length d = sz}"
  using enc_length enc_dec dec_ok by (force simp: image_iff)

end

text \<open>Consecutive slices put together are the bytes they were cut from.\<close>

fun cut :: "nat \<Rightarrow> nat list \<Rightarrow> bytes \<Rightarrow> bytes list" where
  "cut a [] d = []"
| "cut a (n # ns) d = take n (drop a d) # cut (a + n) ns d"

lemma concat_cut: "concat (cut a ns d) = take (sum_list ns) (drop a d)"
proof (induction ns arbitrary: a)
  case (Cons n ns)
  then show ?case by (simp add: take_add drop_drop add.commute)
qed simp

lemma member8_one [simp]: "word_of_nat (le_value [b]) = (b :: u8)"
  by simp

lemma one_byte: "length bs = Suc 0 \<Longrightarrow> [word_of_nat (le_value bs) :: u8] = bs"
  by (cases bs) auto

section \<open>Offsets of the Rust members\<close>

lemma TcpEvent_members:
  "member_bytes TcpEvent ''timestamp_ns'' d = take 8 d"
  "member_bytes TcpEvent ''event_type'' d = take 4 (drop 8 d)"
  "member_bytes TcpEvent ''pid'' d = take 4 (drop 12 d)"
  "member_bytes TcpEvent ''tid'' d = take 4 (drop 16 d)"
  "member_bytes TcpEvent ''src_ip'' d = take 4 (drop 20 d)"
  "member_bytes TcpEvent ''dst_ip'' d = take 4 (drop 24 d)"
  "member_bytes TcpEvent ''src_port'' d = take 2 (drop 28 d)"
  "member_bytes TcpEvent ''dst_port'' d = take 2 (drop 30 d)"
  "member_bytes TcpEvent ''tcp_state'' d = take 4 (drop 32 d)"
  "member_bytes TcpEvent ''bytes_sent'' d = take 8 (drop 36 d)"
  "member_bytes TcpEvent ''bytes_recv'' d = take 8 (drop 44 d)"
  "member_bytes TcpEvent ''comm'' d = take 16 (drop 52 d)"
  by (simp_all add: member_bytes_def TcpEvent_def layout_simps)

lemma DnsEventRaw_members:
  "member_bytes DnsEventRaw ''timestamp_ns'' d = take 8 d"
  "member_bytes DnsEventRaw ''event_type'' d = take 4 (drop 8 d)"
  "member_bytes DnsEventRaw ''pid'' d = take 4 (drop 12 d)"
  "member_bytes DnsEventRaw ''src_ip'' d = take 4 (drop 16 d)"
  "member_bytes DnsEventRaw ''dst_ip'' d = take 4 (drop 20 d)"
  "member_bytes DnsEventRaw ''src_port'' d = take 2 (drop 24 d)"
  "member_bytes DnsEventRaw ''dst_port'' d = take 2 (drop 26 d)"
  "member_bytes DnsEventRaw ''query_id'' d = take 2 (drop 28 d)"
  "member_bytes DnsEventRaw ''qtype'' d = take 2 (drop 30 d)"
  "member_bytes DnsEventRaw ''domain'' d = take 256 (drop 32 d)"
  by (simp_all add: member_bytes_def DnsEventRaw_def layout_simps)

lemma HttpEventRaw_members:
  "member_bytes HttpEventRaw ''timestamp_ns'' d = take 8 d"
  "member_bytes HttpEventRaw ''event_type'' d = take 4 (drop 8 d)"
  "member_bytes HttpEventRaw ''pid'' d = take 4 (drop 12 d)"
  "member_bytes HttpEventRaw ''src_ip'' d = take 4 (drop 16 d)"
  "member_bytes HttpEventRaw ''dst_ip'' d = take 4 (drop 20 d)"
  "member_bytes HttpEventRaw ''src_port'' d = take 2 (drop 24 d)"
  "member_bytes HttpEventRaw ''dst_port'' d = take 2 (drop 26 d)"
  "member_bytes HttpEventRaw ''status_code'' d = take 2 (drop 28 d)"
  "member_bytes HttpEventRaw ''method'' d = take (Suc 0) (drop 30 d)"
  "member_bytes HttpEventRaw ''_pad'' d = take (Suc 0) (drop 31 d)"
  "member_bytes HttpEventRaw ''host'' d = take 128 (drop 32 d)"
  "member_bytes HttpEventRaw ''path'' d = take 128 (drop 160 d)"
  by (simp_all add: member_bytes_def HttpEventRaw_def layout_simps)

lemma DbEvent_members:
  "member_bytes DbEvent ''timestamp_ns'' d = take 8 d"
  "member_bytes DbEvent ''event_type'' d = take 4 (drop 8 d)"
  "member_bytes DbEvent ''pid'' d = take 4 (drop 12 d)"
  "member_bytes DbEvent ''src_ip'' d = take 4 (drop 16 d)"
  "member_bytes DbEvent ''dst_ip'' d = take 4 (drop 20 d)"
  "member_bytes DbEvent ''src_port'' d = take 2 (drop 24 d)"
  "member_bytes DbEvent ''dst_port'' d = take 2 (drop 26 d)"
  "member_bytes DbEvent ''protocol'' d = take (Suc 0) (drop 28 d)"
  "member_bytes DbEvent ''_pad'' d = take (Suc 0) (drop 29 d)"
  "member_bytes DbEvent ''payload_len'' d = take 4 (drop 30 d)"
  "member_bytes DbEvent ''response_bytes'' d = take 4 (drop 34 d)"
  "member_bytes DbEvent ''payload'' d = take 256 (drop 38 d)"
  "member_bytes DbEvent ''comm'' d = take 16 (drop 294 d)"
  by (simp_all add: member_bytes_def DbEvent_def layout_simps)

section \<open>The four wire formats\<close>

lemmas tcp_wire_simps = tcp_event_bytes_def read_TcpEvent_def member16_def member32_def member64_def TcpEvent_members
lemmas dns_wire_simps = dns_event_bytes_def read_DnsEventRaw_def member16_def member32_def member64_def DnsEventRaw_members
lemmas http_wire_simps = http_event_bytes_def read_HttpEventRaw_def member8_def member16_def member32_def member64_def
  HttpEventRaw_members one_byte
lemmas db_wire_simps = db_event_bytes_def read_DbEvent_def member8_def member16_def member32_def member64_def
  DbEvent_members one_byte

interpretation tcp_wire: wire_format tcp_event_bytes tcp_event_ok read_TcpEvent 68
proof
  fix d :: bytes
  assume "length d = 68"
  then show "tcp_event_bytes (read_TcpEvent d) = d"
    using concat_cut [of 0 "[8, 4, 4, 4, 4, 4, 2, 2, 4, 8, 8, 16]" d] by (simp add: tcp_wire_simps)
qed (use event_bytes_length(1) in \<open>simp_all add: tcp_wire_simps tcp_event_ok_def event_simps\<close>)

interpretation dns_wire: wire_format dns_event_bytes dns_event_ok read_DnsEventRaw 288
proof
  fix d :: bytes
  assume "length d = 288"
  then show "dns_event_bytes (read_DnsEventRaw d) = d"
    using concat_cut [of 0 "[8, 4, 4, 4, 4, 2, 2, 2, 2, 256]" d] by (simp add: dns_wire_simps)
qed (use event_bytes_length(2) in \<open>simp_all add: dns_wire_simps dns_event_ok_def event_simps\<close>)

interpretation http_wire: wire_format http_event_bytes http_event_ok read_HttpEventRaw 288
proof
  fix d :: bytes
  assume "length d = 288"
  then show "http_event_bytes (read_HttpEventRaw d) = d"
    using concat_cut [of 0 "[8, 4, 4, 4, 4, 2, 2, 2, 1, 1, 128, 128]" d] by (simp add: http_wire_simps)
qed (use event_bytes_length(3) in \<open>simp_all add: http_wire_simps http_event_ok_def event_simps\<close>)

interpretation db_wire: wire_format db_event_bytes db_event_ok read_DbEvent 310
proof
  fix d :: bytes
  assume "length d = 310"
  then show "db_event_bytes (read_DbEvent d) = d"
    using concat_cut [of 0 "[8, 4, 4, 4, 4, 2, 2, 1, 1, 4, 4, 256, 16]" d] by (simp add: db_wire_simps)
qed (use event_bytes_length(4) in \<open>simp_all add: db_wire_simps db_event_ok_def event_simps\<close>)

end
