(* ===== verification/Layout_Facts.thy ===== *)
theory Layout_Facts
  imports Wire
begin

text \<open>
  What the transcribed declarations guarantee the programs and the consumer: where the members
  read through CO-RE and the probe arguments lie, that a pointer to any socket type may be used
  as a \<open>struct sock\<close> pointer, how the ring buffer object is laid out in pages, and that the C
  events and the consumer's Rust structs describe the same bytes.
\<close>

section \<open>Kernel objects\<close>

text \<open>
  Every member of \<open>struct sock\<close>, reached by any path of names through nested structs and
  anonymous unions, lies inside the 768 bytes of the object and at a multiple of its alignment.
\<close>

lemma sock_members_within:
  assumes "offset_path struct_sock path = Some (off, t)"
  shows "off + csize t \<le> 768 \<and> calign t dvd off"
  using offset_path_bounds [OF _ assms] offset_path_aligned [OF _ _ assms]
  by (simp add: layout_simps)

lemma sock_members_within_example:
  "offset_path struct_sock p_dport = Some (12, t___be16) \<and> 12 + csize t___be16 \<le> 768 \<and> calign t___be16 dvd 12"
  using sock_members_within [OF sock_tuple_offsets(3)] sock_tuple_offsets(3) by blast

text \<open>
  The connection tuple: in \<open>struct sock\<close> the destination address, the local address,
  the destination port and the local port are members of 4, 4, 2 and 2 bytes at 0, 4, 12 and
  14, so their byte ranges are disjoint and a read of one never returns bytes of another.
\<close>

lemma sock_tuple_layout:
  "map (\<lambda>p. map_option (\<lambda>(off, t). (off, csize t)) (offset_path struct_sock p))
     [p_daddr, p_rcv_saddr, p_dport, p_num] = [Some (0, 4), Some (4, 4), Some (12, 2), Some (14, 2)]"
  unfolding list.map sock_tuple_offsets by (simp add: layout_simps)

text \<open>
  Casting to \<open>struct sock\<close>: in \<open>tcp_sock\<close>, \<open>udp_sock\<close>, \<open>tcp6_sock\<close> and
  \<open>udp6_sock\<close> every member path of the embedded \<open>struct sock\<close> has the offset it has in
  \<open>struct sock\<close> itself, so the probed functions' socket pointers can be read as
  \<open>struct sock\<close> whatever the protocol is.
\<close>

lemma sock_cast_safe:
  "offset_path struct_tcp_sock (''inet_conn'' # ''icsk_inet'' # ''sk'' # ps) = offset_path struct_sock ps \<and>
   offset_path struct_udp_sock (''inet'' # ''sk'' # ps) = offset_path struct_sock ps \<and>
   offset_path struct_tcp6_sock (''tcp'' # ''inet_conn'' # ''icsk_inet'' # ''sk'' # ps) = offset_path struct_sock ps \<and>
   offset_path struct_udp6_sock (''udp'' # ''inet'' # ''sk'' # ps) = offset_path struct_sock ps"
  by (simp only: derived_first simp_thms)

text \<open>
  Sockets without a \<open>struct sock\<close>: the members the programs read lie at the same offsets
  in \<open>tcp_timewait_sock\<close> and \<open>tcp_request_sock\<close>, which share only the common prefix.
\<close>

lemma minisock_tuple_same:
  assumes "m \<in> {''skc_daddr'', ''skc_rcv_saddr'', ''skc_dport'', ''skc_num''}"
  shows "offset_path struct_tcp_timewait_sock [''tw_sk'', ''__tw_common'', m] = offset_path struct_sock [''__sk_common'', m] \<and>
    offset_path struct_tcp_request_sock [''req'', ''req'', ''__req_common'', m] = offset_path struct_sock [''__sk_common'', m]"
proof -
  have "offset_path struct_tcp_timewait_sock [''tw_sk'', ''__tw_common'', m] = offset_path struct_sock_common [m]"
    unfolding struct_tcp_timewait_sock_def offset_path_first struct_inet_timewait_sock_def by (rule refl)
  moreover have "offset_path struct_tcp_request_sock [''req'', ''req'', ''__req_common'', m] = offset_path struct_sock_common [m]"
    unfolding struct_tcp_request_sock_def struct_inet_request_sock_def struct_request_sock_def offset_path_first
    by (rule refl)
  ultimately show ?thesis unfolding sock_common_first by blast
qed

text \<open>
  Probe arguments: the registers \<open>BPF_KPROBE\<close> and \<open>BPF_KRETPROBE\<close> take the first five
  arguments and the return value from are the eight byte members \<open>di\<close>, \<open>si\<close>, \<open>dx\<close>,
  \<open>cx\<close>, \<open>r8\<close> and \<open>ax\<close> of \<open>struct pt_regs\<close>, at 112, 104, 96, 88, 72 and 80.
\<close>

lemma pt_regs_argument_slots:
  "map (\<lambda>r. map_option (\<lambda>(off, t). (off, csize t)) (find_field struct_pt_regs r))
     [''di'', ''si'', ''dx'', ''cx'', ''r8'', ''ax''] =
   [Some (112, 8), Some (104, 8), Some (96, 8), Some (88, 8), Some (72, 8), Some (80, 8)]"
  by (simp add: struct_pt_regs_def layout_simps)

text \<open>
  The ring buffer object: consumer position, producer position and data each start a page
  of their own (4096, 8192 and 12288), which is what allows them to be mapped into user space
  with different permissions.
\<close>

lemma ringbuf_pages:
  "map (\<lambda>m. map_option fst (find_field struct_bpf_ringbuf m)) [''consumer_pos'', ''producer_pos'', ''data''] =
     [Some 4096, Some 8192, Some 12288] \<and> csize struct_bpf_ringbuf = 12288"
  by (simp add: struct_bpf_ringbuf_def ringbuf_head_page_def ringbuf_consumer_page_def
      ringbuf_producer_page_def layout_simps)

section \<open>Events\<close>

definition member_slot :: "ctype \<Rightarrow> string \<Rightarrow> (nat \<times> nat) option" where
  "member_slot T nm = map_option (\<lambda>(off, t). (off, csize t)) (find_field T nm)"

text \<open>
  C40. Producer and consumer agree on the layout: for each of the four events every member name
  has the same offset and size in the C struct and in the Rust struct, names of one are names of
  the other, and the sizes are 68, 288, 288 and 310 bytes.
\<close>

theorem event_layouts_agree:
  "member_slot struct_tcp_event nm = member_slot TcpEvent nm \<and>
   member_slot struct_dns_event nm = member_slot DnsEventRaw nm \<and>
   member_slot struct_http_event nm = member_slot HttpEventRaw nm \<and>
   member_slot struct_db_event nm = member_slot DbEvent nm \<and>
   map csize [struct_tcp_event, struct_dns_event, struct_http_event, struct_db_event] = [68, 288, 288, 310] \<and>
   map csize [TcpEvent, DnsEventRaw, HttpEventRaw, DbEvent] = [68, 288, 288, 310]"
  by (simp add: member_slot_def struct_tcp_event_def struct_dns_event_def struct_http_event_def
      struct_db_event_def rust_layouts layout_simps)

text \<open>
  C39. Events round trip: what the agent reads from a record of the right size is the event the
  program wrote, for all four event types, and every record of the right size is the image of
  exactly the event read from it, so no two events share their bytes.
\<close>

theorem event_roundtrip:
  "(tcp_event_ok e1 \<longrightarrow> read_TcpEvent (tcp_event_bytes e1) = e1) \<and>
   (dns_event_ok e2 \<longrightarrow> read_DnsEventRaw (dns_event_bytes e2) = e2) \<and>
   (http_event_ok e3 \<longrightarrow> read_HttpEventRaw (http_event_bytes e3) = e3) \<and>
   (db_event_ok e4 \<longrightarrow> read_DbEvent (db_event_bytes e4) = e4) \<and>
   (length d1 = 68 \<longrightarrow> tcp_event_ok (read_TcpEvent d1) \<and> tcp_event_bytes (read_TcpEvent d1) = d1) \<and>
   (length d2 = 288 \<longrightarrow> dns_event_ok (read_DnsEventRaw d2) \<and> dns_event_bytes (read_DnsEventRaw d2) = d2) \<and>
   (length d2 = 288 \<longrightarrow> http_event_ok (read_HttpEventRaw d2) \<and> http_event_bytes (read_HttpEventRaw d2) = d2) \<and>
   (length d3 = 310 \<longrightarrow> db_event_ok (read_DbEvent d3) \<and> db_event_bytes (read_DbEvent d3) = d3)"
  by (intro conjI impI; rule tcp_wire.dec_enc tcp_wire.dec_ok tcp_wire.enc_dec dns_wire.dec_enc dns_wire.dec_ok
      dns_wire.enc_dec http_wire.dec_enc http_wire.dec_ok http_wire.enc_dec db_wire.dec_enc db_wire.dec_ok
      db_wire.enc_dec; assumption)

theorem event_roundtrip_witness:
  "read_TcpEvent (tcp_event_bytes tcp_event_zero) = tcp_event_zero \<and>
   read_DnsEventRaw (dns_event_bytes dns_event_zero) = dns_event_zero \<and>
   read_HttpEventRaw (http_event_bytes http_event_zero) = http_event_zero \<and>
   read_DbEvent (db_event_bytes db_event_zero) = db_event_zero \<and>
   tcp_event_bytes (read_TcpEvent (replicate 68 7)) = replicate 68 7 \<and>
   http_event_bytes (read_HttpEventRaw (replicate 288 7)) = replicate 288 7 \<and>
   db_event_bytes (read_DbEvent (replicate 310 7)) = replicate 310 7"
  using event_roundtrip [of tcp_event_zero dns_event_zero http_event_zero db_event_zero
      "replicate 68 7" "replicate 288 7" "replicate 310 7"]
  by (simp add: event_ok_defs tcp_event_zero_def dns_event_zero_def http_event_zero_def db_event_zero_def)

end
