(* ===== verification/Utf8.thy ===== *)
theory Utf8
  imports Prelude
begin

text \<open>
  Rust strings as lists of Unicode scalar values, with the two conversions from bytes the agent
  uses: \<open>str::from_utf8\<close>, which rejects ill-formed input, and \<open>String::from_utf8_lossy\<close>,
  which replaces each maximal ill-formed prefix by U+FFFD.
\<close>

type_synonym rstring = "nat list"

abbreviation lit :: "string \<Rightarrow> rstring" where "lit s \<equiv> map of_char s"

section \<open>Decoding\<close>

definition cont_byte :: "byte \<Rightarrow> bool" where
  "cont_byte b \<longleftrightarrow> 0x80 \<le> unat b \<and> unat b \<le> 0xBF"

definition low6 :: "byte \<Rightarrow> nat" where
  "low6 b = unat b - 0x80"

text \<open>The first scalar value of the input, or None if it is ill-formed; and the bytes used.\<close>

definition second_ok :: "nat \<Rightarrow> byte \<Rightarrow> bool" where
  "second_ok n b \<longleftrightarrow>
     (if n = 0xE0 then 0xA0 else if n = 0xF0 then 0x90 else 0x80) \<le> unat b \<and>
     unat b \<le> (if n = 0xED then 0x9F else if n = 0xF4 then 0x8F else 0xBF)"

fun utf8_next :: "bytes \<Rightarrow> nat option \<times> nat" where
  "utf8_next [] = (None, 0)"
| "utf8_next (b0 # bs) =
     (let n = unat b0 in
      if n < 0x80 then (Some n, 1)
      else if 0xC2 \<le> n \<and> n \<le> 0xDF then
        (case bs of
           b1 # _ \<Rightarrow> if cont_byte b1 then (Some ((n - 0xC0) * 64 + low6 b1), 2) else (None, 1)
         | [] \<Rightarrow> (None, 1))
      else if 0xE0 \<le> n \<and> n \<le> 0xEF then
        (case bs of
           b1 # b2 # _ \<Rightarrow>
             if \<not> second_ok n b1 then (None, 1)
             else if cont_byte b2 then (Some ((n - 0xE0) * 4096 + low6 b1 * 64 + low6 b2), 3)
             else (None, 2)
         | [b1] \<Rightarrow> (None, if second_ok n b1 then 2 else 1)
         | [] \<Rightarrow> (None, 1))
      else if 0xF0 \<le> n \<and> n \<le> 0xF4 then
        (case bs of
           b1 # b2 # b3 # _ \<Rightarrow>
             if \<not> second_ok n b1 then (None, 1)
             else if \<not> cont_byte b2 then (None, 2)
             else if cont_byte b3
             then (Some ((n - 0xF0) * 262144 + low6 b1 * 4096 + low6 b2 * 64 + low6 b3), 4)
             else (None, 3)
         | [b1, b2] \<Rightarrow> (None, if \<not> second_ok n b1 then 1 else if \<not> cont_byte b2 then 2 else 3)
         | [b1] \<Rightarrow> (None, if second_ok n b1 then 2 else 1)
         | [] \<Rightarrow> (None, 1))
      else (None, 1))"

lemma utf8_next_pos: "0 < snd (utf8_next (b # bs))"
  by (simp add: Let_def split: list.splits if_splits)

declare utf8_next.simps(2) [simp del]

lemma utf8_next_shrinks: "(c, k) = utf8_next (b # bs) \<Longrightarrow> length (drop k (b # bs)) < Suc (length bs)"
  using utf8_next_pos [of b bs] by (cases "utf8_next (b # bs)") auto

function from_utf8_lossy :: "bytes \<Rightarrow> rstring" where
  "from_utf8_lossy [] = []"
| "from_utf8_lossy (b # bs) =
     (case utf8_next (b # bs) of (c, k) \<Rightarrow>
        (case c of Some v \<Rightarrow> v | None \<Rightarrow> 0xFFFD) # from_utf8_lossy (drop k (b # bs)))"
  by pat_completeness auto
termination by (relation "measure length") (auto dest: utf8_next_shrinks)

function from_utf8 :: "bytes \<Rightarrow> rstring option" where
  "from_utf8 [] = Some []"
| "from_utf8 (b # bs) =
     (case utf8_next (b # bs) of (c, k) \<Rightarrow>
        (case c of
           None \<Rightarrow> None
         | Some v \<Rightarrow> map_option (Cons v) (from_utf8 (drop k (b # bs)))))"
  by pat_completeness auto
termination by (relation "measure length") (auto dest: utf8_next_shrinks)

declare from_utf8_lossy.simps(2) [simp del] from_utf8.simps(2) [simp del]

text \<open>On well-formed input the two agree.\<close>

lemma lossy_valid: "from_utf8 bs = Some s \<Longrightarrow> from_utf8_lossy bs = s"
proof (induction bs arbitrary: s rule: from_utf8.induct)
  case (2 b bs)
  then show ?case
    by (auto simp: from_utf8.simps(2) from_utf8_lossy.simps(2) split: prod.splits option.splits)
qed simp

section \<open>Encoding\<close>

definition scalar_value :: "nat \<Rightarrow> bool" where
  "scalar_value c \<longleftrightarrow> c < 0xD800 \<or> 0xDFFF < c \<and> c < 0x110000"

definition utf8_enc :: "nat \<Rightarrow> bytes" where
  "utf8_enc c =
     (if c < 0x80 then [of_nat c]
      else if c < 0x800 then [of_nat (0xC0 + c div 64), of_nat (0x80 + c mod 64)]
      else if c < 0x10000 then [of_nat (0xE0 + c div 4096), of_nat (0x80 + c div 64 mod 64), of_nat (0x80 + c mod 64)]
      else [of_nat (0xF0 + c div 262144), of_nat (0x80 + c div 4096 mod 64), of_nat (0x80 + c div 64 mod 64),
            of_nat (0x80 + c mod 64)])"

lemma unat_of_nat_byte: "n < 256 \<Longrightarrow> unat (of_nat n :: byte) = n"
  by (simp add: unat_of_nat)

lemma digits64:
  fixes c :: nat
  shows "c div 64 * 64 + c mod 64 = c"
    "c div 4096 * 4096 + c div 64 mod 64 * 64 + c mod 64 = c"
    "c div 262144 * 262144 + c div 4096 mod 64 * 4096 + c div 64 mod 64 * 64 + c mod 64 = c"
proof -
  have a: "c div 4096 = c div 64 div 64" "c div 262144 = c div 4096 div 64"
    by (simp_all add: div_mult2_eq [symmetric])
  have b: "x = x div 64 * 64 + x mod 64" for x :: nat by simp
  show "c div 64 * 64 + c mod 64 = c" by simp
  show two: "c div 4096 * 4096 + c div 64 mod 64 * 64 + c mod 64 = c"
    using b [of c] b [of "c div 64"] a(1) by linarith
  show "c div 262144 * 262144 + c div 4096 mod 64 * 4096 + c div 64 mod 64 * 64 + c mod 64 = c"
    using two b [of "c div 4096"] a(2) by linarith
qed

lemma cont_enc: "n < 64 \<Longrightarrow> cont_byte (of_nat (0x80 + n))" "n < 64 \<Longrightarrow> low6 (of_nat (0x80 + n)) = n"
  by (simp_all add: cont_byte_def low6_def unat_of_nat_byte del: of_nat_add)

lemma utf8_next3:
  assumes "a < 16" "m < 64" "l < 64" "a = 0 \<Longrightarrow> 32 \<le> m" "a = 13 \<Longrightarrow> m \<le> 31"
  shows "utf8_next (of_nat (0xE0 + a) # of_nat (0x80 + m) # of_nat (0x80 + l) # rest) =
    (Some (a * 4096 + m * 64 + l), 3)"
proof -
  have "second_ok (0xE0 + a) (of_nat (0x80 + m))"
    using assms by (simp add: second_ok_def unat_of_nat_byte del: of_nat_add)
  then show ?thesis using assms
    by (simp add: utf8_next.simps(2) cont_enc unat_of_nat_byte Let_def del: of_nat_add)
qed

lemma utf8_next4:
  assumes "a \<le> 4" "m < 64" "l < 64" "r < 64" "a = 0 \<Longrightarrow> 16 \<le> m" "a = 4 \<Longrightarrow> m \<le> 15"
  shows "utf8_next (of_nat (0xF0 + a) # of_nat (0x80 + m) # of_nat (0x80 + l) # of_nat (0x80 + r) # rest) =
    (Some (a * 262144 + m * 4096 + l * 64 + r), 4)"
proof -
  have "second_ok (0xF0 + a) (of_nat (0x80 + m))"
    using assms by (simp add: second_ok_def unat_of_nat_byte del: of_nat_add)
  then show ?thesis using assms
    by (simp add: utf8_next.simps(2) cont_enc unat_of_nat_byte Let_def del: of_nat_add)
qed

lemma utf8_next_enc:
  assumes "scalar_value c"
  shows "utf8_next (utf8_enc c @ rest) = (Some c, length (utf8_enc c))"
proof -
  note enc = cont_enc utf8_enc_def utf8_next.simps(2) unat_of_nat_byte second_ok_def
  consider "c < 0x80" | "0x80 \<le> c" "c < 0x800" | "0x800 \<le> c" "c < 0x10000" | "0x10000 \<le> c" "c < 0x110000"
    using assms unfolding scalar_value_def by linarith
  then show ?thesis
  proof cases
    case 1
    then show ?thesis by (simp add: enc)
  next
    case 2
    then have "2 \<le> c div 64" "c div 64 < 32" by (simp_all add: less_mult_imp_div_less)
    with 2 digits64(1) [of c] show ?thesis by (simp add: enc del: of_nat_add)
  next
    case 3
    have d: "c div 4096 < 16" using 3 by (simp add: less_mult_imp_div_less)
    have "c div 4096 = 0 \<Longrightarrow> 32 \<le> c div 64 mod 64" using 3 by (simp add: div_eq_0_iff mod_less)
    moreover have "c div 64 mod 64 \<le> 31" if t: "c div 4096 = 13"
    proof -
      have "c div 64 div 64 = 13" using t by (simp add: div_mult2_eq [symmetric])
      moreover have "c < 0xE000" using t by linarith
      then have "c div 64 < 864" using assms by (auto simp: scalar_value_def less_mult_imp_div_less)
      ultimately show ?thesis using div_mult_mod_eq [of "c div 64" 64] by linarith
    qed
    ultimately show ?thesis
      using 3 d digits64(2) [of c] utf8_next3 [of "c div 4096" "c div 64 mod 64" "c mod 64" rest]
      by (simp add: utf8_enc_def del: of_nat_add)
  next
    case 4
    have d: "c div 262144 \<le> 4" using 4 by simp
    have "c div 262144 = 0 \<Longrightarrow> 16 \<le> c div 4096 mod 64" using 4 by simp
    moreover have "c div 4096 mod 64 \<le> 15" if t: "c div 262144 = 4"
    proof -
      have "c div 4096 div 64 = 4" using t by (simp add: div_mult2_eq [symmetric])
      moreover have "c div 4096 < 272" using 4 by (simp add: less_mult_imp_div_less)
      ultimately show ?thesis using div_mult_mod_eq [of "c div 4096" 64] by linarith
    qed
    ultimately show ?thesis
      using 4 d digits64(3) [of c]
        utf8_next4 [of "c div 262144" "c div 4096 mod 64" "c div 64 mod 64" "c mod 64" rest]
      by (simp add: utf8_enc_def del: of_nat_add)
  qed
qed

lemma utf8_enc_nonempty: "utf8_enc c \<noteq> []"
  by (simp add: utf8_enc_def)

lemma from_utf8_enc_append:
  assumes "scalar_value c"
  shows "from_utf8 (utf8_enc c @ rest) = map_option (Cons c) (from_utf8 rest)"
proof -
  obtain b bs where e: "utf8_enc c = b # bs" using utf8_enc_nonempty [of c] by (cases "utf8_enc c") auto
  have "utf8_next (b # (bs @ rest)) = (Some c, length (b # bs))" using utf8_next_enc [OF assms, of rest] e by simp
  then show ?thesis by (simp add: e from_utf8.simps(2))
qed

lemma from_utf8_encode: "list_all scalar_value cs \<Longrightarrow> from_utf8 (concat (map utf8_enc cs)) = Some cs"
  by (induction cs) (simp_all add: from_utf8_enc_append)

text \<open>ASCII bytes stand for themselves.\<close>

lemma from_utf8_ascii: "list_all (\<lambda>b. unat b < 128) bs \<Longrightarrow> from_utf8 bs = Some (map unat bs)"
  by (induction bs) (simp_all add: from_utf8.simps(2) utf8_next.simps(2))

text \<open>Only the NUL character has a NUL byte in its encoding.\<close>

lemma utf8_enc_nonzero:
  assumes "scalar_value c" "0 < c"
  shows "0 \<notin> set (utf8_enc c)"
proof -
  have nz: "(of_nat n :: byte) \<noteq> 0" if "0 < n" "n < 256" for n
    using that unat_of_nat_byte [of n] by (metis less_irrefl unat_0)
  have "c < 0x110000" using assms(1) by (auto simp: scalar_value_def)
  then have "c < 0x800 \<Longrightarrow> 0xC0 + c div 64 < 256" "c < 0x10000 \<Longrightarrow> 0xE0 + c div 4096 < 256" "0xF0 + c div 262144 < 256"
    by (simp_all add: less_mult_imp_div_less)
  then show ?thesis using assms(2) nz [of c] nz [of "0xC0 + c div 64"] nz [of "0xE0 + c div 4096"]
      nz [of "0xF0 + c div 262144"] nz [of "0x80 + c mod 64"] nz [of "0x80 + c div 64 mod 64"]
      nz [of "0x80 + c div 4096 mod 64"]
    by (simp add: utf8_enc_def del: of_nat_add)
qed

section \<open>NUL-terminated strings\<close>

text \<open>The bytes before the first NUL, as the agent cuts them from fixed-size arrays.\<close>

definition until_nul :: "bytes \<Rightarrow> bytes" where
  "until_nul bs = takeWhile (\<lambda>b. b \<noteq> 0) bs"

lemma until_nul_append: "0 \<notin> set as \<Longrightarrow> until_nul (as @ 0 # bs) = as"
  by (induction as) (auto simp: until_nul_def)

lemma until_nul_all: "0 \<notin> set as \<Longrightarrow> until_nul as = as"
  by (induction as) (auto simp: until_nul_def)

end
