(* ===== verification/Text.thy ===== *)
theory Text
  imports Utf8
begin

text \<open>
  The string functions of the Rust standard library that the agent's parsers use, on strings as
  lists of scalar values: lines, words, trimming, splitting, prefixes, byte lengths and byte
  slices, the parsing of unsigned integers, and the upper case form as far as it is compared with
  ASCII keywords. The lemmas say how each function acts on text printed from its parts.
\<close>

section \<open>Lines, words, trimming\<close>

text \<open>\<open>str::lines\<close>: lines end at a line feed, with an optional carriage return before it.\<close>

definition strip_cr :: "rstring \<Rightarrow> rstring" where
  "strip_cr l = (if l \<noteq> [] \<and> last l = 13 then butlast l else l)"

fun str_lines_from :: "rstring \<Rightarrow> rstring \<Rightarrow> rstring list" where
  "str_lines_from acc [] = (if acc = [] then [] else [acc])"
| "str_lines_from acc (c # cs) =
     (if c = 10 then strip_cr acc # str_lines_from [] cs else str_lines_from (acc @ [c]) cs)"

definition str_lines :: "rstring \<Rightarrow> rstring list" where
  "str_lines s = str_lines_from [] s"

definition is_whitespace :: "nat \<Rightarrow> bool" where
  "is_whitespace c \<longleftrightarrow> (9 \<le> c \<and> c \<le> 13) \<or> c = 0x20 \<or> c = 0x85 \<or> c = 0xA0 \<or> c = 0x1680 \<or>
     (0x2000 \<le> c \<and> c \<le> 0x200A) \<or> c = 0x2028 \<or> c = 0x2029 \<or> c = 0x202F \<or> c = 0x205F \<or> c = 0x3000"

fun split_whitespace_from :: "rstring \<Rightarrow> rstring \<Rightarrow> rstring list" where
  "split_whitespace_from acc [] = (if acc = [] then [] else [acc])"
| "split_whitespace_from acc (c # cs) =
     (if is_whitespace c
      then (if acc = [] then split_whitespace_from [] cs else acc # split_whitespace_from [] cs)
      else split_whitespace_from (acc @ [c]) cs)"

definition split_whitespace :: "rstring \<Rightarrow> rstring list" where
  "split_whitespace s = split_whitespace_from [] s"

text \<open>\<open>trim_matches\<close> cuts at both ends, \<open>trim_end_matches\<close> at the end only.\<close>

definition trim_matches :: "(nat \<Rightarrow> bool) \<Rightarrow> rstring \<Rightarrow> rstring" where
  "trim_matches p s = rev (dropWhile p (rev (dropWhile p s)))"

definition trim :: "rstring \<Rightarrow> rstring" where
  "trim s = trim_matches is_whitespace s"

definition trim_end_char :: "nat \<Rightarrow> rstring \<Rightarrow> rstring" where
  "trim_end_char c s = rev (dropWhile (\<lambda>x. x = c) (rev s))"

fun drop_lfcr :: "rstring \<Rightarrow> rstring" where
  "drop_lfcr (a # b # s) = (if a = 10 \<and> b = 13 then drop_lfcr s else a # b # s)"
| "drop_lfcr s = s"

definition trim_end_crlf :: "rstring \<Rightarrow> rstring" where
  "trim_end_crlf s = rev (drop_lfcr (rev s))"

section \<open>Splitting\<close>

fun split_char_from :: "nat \<Rightarrow> rstring \<Rightarrow> rstring \<Rightarrow> rstring list" where
  "split_char_from sep acc [] = [acc]"
| "split_char_from sep acc (c # cs) =
     (if c = sep then acc # split_char_from sep [] cs else split_char_from sep (acc @ [c]) cs)"

definition split_char :: "nat \<Rightarrow> rstring \<Rightarrow> rstring list" where
  "split_char sep s = split_char_from sep [] s"

fun split_crlf_from :: "rstring \<Rightarrow> rstring \<Rightarrow> rstring list" where
  "split_crlf_from acc (c # d # cs) =
     (if c = 13 \<and> d = 10 then acc # split_crlf_from [] cs else split_crlf_from (acc @ [c]) (d # cs))"
| "split_crlf_from acc s = [acc @ s]"

definition split_crlf :: "rstring \<Rightarrow> rstring list" where
  "split_crlf s = split_crlf_from [] s"

fun split_once :: "nat \<Rightarrow> rstring \<Rightarrow> (rstring \<times> rstring) option" where
  "split_once sep [] = None"
| "split_once sep (c # cs) =
     (if c = sep then Some ([], cs) else map_option (\<lambda>(a, b). (c # a, b)) (split_once sep cs))"

text \<open>\<open>str::splitn\<close>: at most the given number of pieces, the last of which is not split further.\<close>

fun splitn :: "nat \<Rightarrow> nat \<Rightarrow> rstring \<Rightarrow> rstring list" where
  "splitn 0 sep s = []"
| "splitn (Suc 0) sep s = [s]"
| "splitn (Suc (Suc n)) sep s =
     (case split_once sep s of None \<Rightarrow> [s] | Some (a, b) \<Rightarrow> a # splitn (Suc n) sep b)"

definition starts_with :: "rstring \<Rightarrow> rstring \<Rightarrow> bool" where
  "starts_with p s \<longleftrightarrow> take (length p) s = p"

fun str_contains :: "rstring \<Rightarrow> rstring \<Rightarrow> bool" where
  "str_contains p [] = (p = [])"
| "str_contains p (c # s) = (starts_with p (c # s) \<or> str_contains p s)"

definition strip_prefix :: "rstring \<Rightarrow> rstring \<Rightarrow> rstring option" where
  "strip_prefix p s = (if starts_with p s then Some (drop (length p) s) else None)"

definition strip_suffix :: "rstring \<Rightarrow> rstring \<Rightarrow> rstring option" where
  "strip_suffix suf s =
     (if length suf \<le> length s \<and> drop (length s - length suf) s = suf then Some (take (length s - length suf) s) else None)"

definition strip_prefix_char :: "nat \<Rightarrow> rstring \<Rightarrow> rstring option" where
  "strip_prefix_char p s = (case s of [] \<Rightarrow> None | c # cs \<Rightarrow> if c = p then Some cs else None)"

text \<open>\<open>str::len\<close> counts bytes; a range of bytes must begin and end between characters (None is the panic).\<close>

definition str_len :: "rstring \<Rightarrow> nat" where
  "str_len s = sum_list (map (\<lambda>c. length (utf8_enc c)) s)"

fun str_split_at :: "nat \<Rightarrow> rstring \<Rightarrow> (rstring \<times> rstring) option" where
  "str_split_at n [] = (if n = 0 then Some ([], []) else None)"
| "str_split_at n (c # cs) =
     (if n = 0 then Some ([], c # cs)
      else if n < length (utf8_enc c) then None
      else map_option (\<lambda>(a, b). (c # a, b)) (str_split_at (n - length (utf8_enc c)) cs))"

definition str_range :: "rstring \<Rightarrow> nat \<Rightarrow> nat \<Rightarrow> rstring option" where
  "str_range s a b =
     (if b < a then None
      else (case str_split_at a s of
              None \<Rightarrow> None
            | Some (_, rest) \<Rightarrow> map_option fst (str_split_at (b - a) rest)))"

section \<open>Numbers\<close>

definition to_digit :: "nat \<Rightarrow> nat \<Rightarrow> nat option" where
  "to_digit radix c =
     (let d = (if 48 \<le> c \<and> c \<le> 57 then c - 48 else if 65 \<le> c \<and> c \<le> 90 then c - 55
               else if 97 \<le> c \<and> c \<le> 122 then c - 87 else 36)
      in if d < radix then Some d else None)"

text \<open>
  \<open>from_str_radix\<close> of an unsigned type: digit by digit with overflow checks, after an optional
  plus sign; a minus sign is not a digit. \<open>limit\<close> is \<open>2 ^ bits\<close>.
\<close>

fun parse_digits :: "nat \<Rightarrow> nat \<Rightarrow> nat \<Rightarrow> rstring \<Rightarrow> nat option" where
  "parse_digits radix limit acc [] = Some acc"
| "parse_digits radix limit acc (c # cs) =
     (case to_digit radix c of
        None \<Rightarrow> None
      | Some d \<Rightarrow> if acc * radix + d < limit then parse_digits radix limit (acc * radix + d) cs else None)"

definition parse_uint :: "nat \<Rightarrow> nat \<Rightarrow> rstring \<Rightarrow> nat option" where
  "parse_uint radix bits s =
     (case s of
        [] \<Rightarrow> None
      | c # cs \<Rightarrow>
          if c = 43 then (if cs = [] then None else parse_digits radix (2 ^ bits) 0 cs)
          else parse_digits radix (2 ^ bits) 0 s)"

section \<open>Upper case\<close>

text \<open>
  The agent compares the upper case form of words with ASCII keywords only. It is exact here for
  the characters whose upper case form is ASCII text: the ASCII letters, the dotless i, the long s,
  the sharp s and the Latin ligatures. Any other character has an upper case form that contains a
  character outside ASCII, as the character itself does, and no character is or becomes white space.
\<close>

definition char_upper :: "nat \<Rightarrow> rstring" where
  "char_upper c =
     (if 97 \<le> c \<and> c \<le> 122 then [c - 32]
      else if c = 0x131 then lit ''I'' else if c = 0x17F then lit ''S'' else if c = 0xDF then lit ''SS''
      else if c = 0xFB00 then lit ''FF'' else if c = 0xFB01 then lit ''FI'' else if c = 0xFB02 then lit ''FL''
      else if c = 0xFB03 then lit ''FFI'' else if c = 0xFB04 then lit ''FFL''
      else if c = 0xFB05 \<or> c = 0xFB06 then lit ''ST'' else [c])"

definition to_uppercase :: "rstring \<Rightarrow> rstring" where
  "to_uppercase s = concat (map char_upper s)"

definition ascii_lower :: "nat \<Rightarrow> nat" where
  "ascii_lower c = (if 65 \<le> c \<and> c \<le> 90 then c + 32 else c)"

section \<open>Printed numbers are read back\<close>

fun decimal :: "nat \<Rightarrow> rstring" where
  "decimal n = (if n < 10 then [48 + n] else decimal (n div 10) @ [48 + n mod 10])"

declare decimal.simps [simp del]

lemma decimal_nonempty: "decimal n \<noteq> []"
  by (subst decimal.simps) simp

lemma decimal_digits: "list_all (\<lambda>c. 48 \<le> c \<and> c \<le> 57) (decimal n)"
proof (induction n rule: decimal.induct)
  case (1 n)
  have "n mod 10 < 10" by simp
  with 1 show ?case by (subst decimal.simps) (simp add: less_Suc_eq_le [symmetric])
qed

lemma parse_digits_snoc:
  "parse_digits r l acc (cs @ [c]) =
     (case parse_digits r l acc cs of
        None \<Rightarrow> None
      | Some v \<Rightarrow> (case to_digit r c of None \<Rightarrow> None | Some d \<Rightarrow> if v * r + d < l then Some (v * r + d) else None))"
  by (induction cs arbitrary: acc) (simp_all split: option.splits)

lemma parse_digits_decimal: "n < l \<Longrightarrow> parse_digits 10 l 0 (decimal n) = Some n"
proof (induction n rule: decimal.induct)
  case (1 n)
  show ?case
  proof (cases "n < 10")
    case True
    then show ?thesis using "1.prems" by (subst decimal.simps) (simp add: to_digit_def)
  next
    case False
    have "parse_digits 10 l 0 (decimal (n div 10)) = Some (n div 10)"
      using "1.IH" [OF False] "1.prems" by (meson div_le_dividend le_less_trans)
    moreover have "to_digit 10 (48 + n mod 10) = Some (n mod 10)" by (simp add: to_digit_def)
    moreover have "n div 10 * 10 + n mod 10 = n" by simp
    ultimately show ?thesis using False "1.prems" by (subst decimal.simps) (simp add: parse_digits_snoc)
  qed
qed

lemma parse_uint_digits:
  assumes "s \<noteq> []" "43 \<notin> set s"
  shows "parse_uint r w s = parse_digits r (2 ^ w) 0 s"
  using assms by (cases s) (auto simp: parse_uint_def)

lemma parse_uint_decimal: "n < 2 ^ w \<Longrightarrow> parse_uint 10 w (decimal n) = Some n"
  using decimal_digits [of n]
  by (subst parse_uint_digits) (auto simp: decimal_nonempty parse_digits_decimal list_all_iff)

lemma parse_digits_bound: "parse_digits r l acc s = Some v \<Longrightarrow> acc < l \<Longrightarrow> v < l"
  by (induction s arbitrary: acc) (auto split: option.splits if_splits)

lemma parse_uint_bound: "parse_uint r w s = Some v \<Longrightarrow> v < 2 ^ w"
  using parse_digits_bound [of r "2 ^ w" 0 _ v]
  by (auto simp: parse_uint_def simp del: parse_digits.simps split: list.splits if_splits)

text \<open>Hexadecimal with a fixed number of digits, as \<open>%08X\<close> prints it.\<close>

definition hex_digit :: "nat \<Rightarrow> nat" where
  "hex_digit d = (if d < 10 then 48 + d else 55 + d)"

fun hex_fixed :: "nat \<Rightarrow> nat \<Rightarrow> rstring" where
  "hex_fixed 0 n = []"
| "hex_fixed (Suc k) n = hex_fixed k (n div 16) @ [hex_digit (n mod 16)]"

lemma length_hex_fixed [simp]: "length (hex_fixed k n) = k"
  by (induction k arbitrary: n) simp_all

lemma hex_digit_range: "48 \<le> hex_digit (n mod 16)" "hex_digit (n mod 16) \<le> 70"
proof -
  have "hex_digit d \<le> 70" if "d < 16" for d using that by (simp add: hex_digit_def)
  then show "hex_digit (n mod 16) \<le> 70" by simp
  show "48 \<le> hex_digit (n mod 16)" by (simp add: hex_digit_def)
qed

lemma hex_digit_no_colon: "hex_digit (n mod 16) \<noteq> 58"
proof -
  have "n mod 16 < 16" by simp
  then show ?thesis by (auto simp: hex_digit_def)
qed

lemma hex_fixed_chars: "c \<in> set (hex_fixed k n) \<Longrightarrow> 48 \<le> c \<and> c \<le> 70 \<and> c \<noteq> 58"
proof (induction k arbitrary: n)
  case (Suc k)
  then show ?case using hex_digit_range [of n] hex_digit_no_colon [of n] by auto
qed simp

lemma to_digit_hex: "d < 16 \<Longrightarrow> to_digit 16 (hex_digit d) = Some d"
  by (auto simp: to_digit_def hex_digit_def)

lemma parse_digits_hex: "n < 16 ^ k \<Longrightarrow> n < l \<Longrightarrow> parse_digits 16 l 0 (hex_fixed k n) = Some n"
proof (induction k arbitrary: n)
  case (Suc k)
  have "n div 16 < 16 ^ k" using Suc.prems(1) by (simp add: less_mult_imp_div_less mult.commute)
  moreover have "n div 16 < l" using Suc.prems(2) by (meson div_le_dividend le_less_trans)
  ultimately have "parse_digits 16 l 0 (hex_fixed k (n div 16)) = Some (n div 16)" by (rule Suc.IH)
  moreover have "n div 16 * 16 + n mod 16 = n" by simp
  ultimately show ?case using Suc.prems(2) by (simp add: parse_digits_snoc to_digit_hex)
qed simp

lemma parse_uint_hex: "0 < k \<Longrightarrow> n < 16 ^ k \<Longrightarrow> n < 2 ^ w \<Longrightarrow> parse_uint 16 w (hex_fixed k n) = Some n"
  using hex_fixed_chars [of 43 k n] length_hex_fixed [of k n]
  by (subst parse_uint_digits) (auto simp: parse_digits_hex simp del: length_hex_fixed)

section \<open>Printed words and fields are split again\<close>

fun join_with :: "rstring \<Rightarrow> rstring list \<Rightarrow> rstring" where
  "join_with sep [] = []"
| "join_with sep [w] = w"
| "join_with sep (w # ws) = w @ sep @ join_with sep ws"

definition is_word :: "rstring \<Rightarrow> bool" where
  "is_word w \<longleftrightarrow> w \<noteq> [] \<and> list_all (\<lambda>c. \<not> is_whitespace c) w"

lemma split_whitespace_word:
  "list_all (\<lambda>c. \<not> is_whitespace c) w \<Longrightarrow> split_whitespace_from acc (w @ s) = split_whitespace_from (acc @ w) s"
  by (induction w arbitrary: acc) simp_all

lemma split_whitespace_join:
  assumes "list_all is_word ws"
  shows "split_whitespace (join_with (lit '' '') ws) = ws"
  using assms unfolding split_whitespace_def
proof (induction "lit '' ''" ws rule: join_with.induct)
  case (2 w)
  then show ?case using split_whitespace_word [of w "[]" "[]"] by (simp add: is_word_def)
next
  case (3 w v vs)
  then show ?case
    using split_whitespace_word [of w "[]"] by (simp add: is_word_def is_whitespace_def)
qed simp

lemma words_of_blank: "is_whitespace c \<Longrightarrow> split_whitespace (c # s) = split_whitespace s"
  by (simp add: split_whitespace_def)

lemma split_whitespace_from_blanks:
  "list_all is_whitespace bs \<Longrightarrow> split_whitespace_from acc (s @ bs) = split_whitespace_from acc s"
proof (induction acc s rule: split_whitespace_from.induct)
  case (1 acc)
  then have "split_whitespace_from [] bs = []" by (induction bs) simp_all
  with 1 show ?case by (cases bs) simp_all
qed simp_all

lemma split_whitespace_trim: "split_whitespace (trim s) = split_whitespace s"
proof -
  let ?t = "dropWhile is_whitespace s"
  have front: "split_whitespace ?t = split_whitespace s"
    by (induction s) (simp_all add: words_of_blank)
  have "?t = trim s @ rev (takeWhile is_whitespace (rev ?t))"
    unfolding trim_def trim_matches_def
    by (metis rev_append rev_rev_ident takeWhile_dropWhile_id)
  moreover have "list_all is_whitespace (rev (takeWhile is_whitespace (rev ?t)))"
    by (auto simp: list_all_iff dest: set_takeWhileD)
  ultimately have "split_whitespace ?t = split_whitespace (trim s)"
    unfolding split_whitespace_def by (metis split_whitespace_from_blanks)
  with front show ?thesis by simp
qed

lemma trim_matches_core:
  assumes "list_all p pre" "list_all p post" "w \<noteq> []" "list_all (\<lambda>c. \<not> p c) w"
  shows "trim_matches p (pre @ w @ post) = w"
proof -
  have a: "dropWhile p (xs @ ys) = dropWhile p ys" if "list_all p xs" for xs ys
    using that by (auto simp: list_all_iff intro: dropWhile_append2)
  have b: "dropWhile p (v @ ys) = v @ ys" if "v \<noteq> []" "list_all (\<lambda>c. \<not> p c) v" for v ys
    using that by (cases v) simp_all
  have r: "list_all p (rev post)" "rev w \<noteq> []" "list_all (\<lambda>c. \<not> p c) (rev w)"
    using assms by (simp_all add: list_all_iff)
  have "dropWhile p (pre @ w @ post) = w @ post" using a [OF assms(1)] b [OF assms(3,4)] by simp
  moreover have "dropWhile p (rev (w @ post)) = rev w"
    using a [OF r(1), of "rev w"] b [OF r(2,3), of "[]"] by simp
  ultimately show ?thesis by (simp add: trim_matches_def)
qed

lemma split_whitespace_from_words:
  "list_all is_word (split_whitespace_from acc s)" if "list_all (\<lambda>c. \<not> is_whitespace c) acc"
  using that by (induction acc s rule: split_whitespace_from.induct) (auto simp: is_word_def)

lemma split_whitespace_words: "list_all is_word (split_whitespace s)"
  by (simp add: split_whitespace_def split_whitespace_from_words)

lemma str_lines_from_line: "10 \<notin> set w \<Longrightarrow> str_lines_from acc (w @ 10 # s) = strip_cr (acc @ w) # str_lines_from [] s"
  by (induction w arbitrary: acc) auto

lemma str_lines_line: "10 \<notin> set w \<Longrightarrow> 13 \<notin> set w \<Longrightarrow> str_lines (w @ 10 # s) = w # str_lines s"
  by (simp add: str_lines_def str_lines_from_line strip_cr_def) (metis last_in_set)

lemma str_lines_crlf: "10 \<notin> set w \<Longrightarrow> str_lines (w @ 13 # 10 # s) = w # str_lines s"
  using str_lines_from_line [of "w @ [13]" "[]" s] by (simp add: str_lines_def strip_cr_def)

lemma split_once_append: "c \<notin> set a \<Longrightarrow> split_once c (a @ c # b) = Some (a, b)"
  by (induction a) auto

lemma split_char_from_nonempty [simp]: "split_char_from sep acc s \<noteq> []"
  by (induction s arbitrary: acc) simp_all

lemma split_char_nonempty [simp]: "split_char sep s \<noteq> []"
  by (simp add: split_char_def)

lemma split_char_from_field:
  "sep \<notin> set w \<Longrightarrow> split_char_from sep acc (w @ s) = split_char_from sep (acc @ w) s"
  by (induction w arbitrary: acc) auto

lemma split_char_field: "sep \<notin> set w \<Longrightarrow> split_char sep (w @ sep # s) = w # split_char sep s"
  by (simp add: split_char_def split_char_from_field)

lemma split_char_none: "sep \<notin> set w \<Longrightarrow> split_char sep w = [w]"
  using split_char_from_field [of sep w "[]" "[]"] by (simp add: split_char_def)

lemma split_char_last:
  assumes "sep \<notin> set w"
  shows "last (split_char sep (s @ sep # w)) = w" "last (split_char sep w) = w"
proof -
  have "last (split_char_from sep acc (s @ sep # w)) = w" for acc
    by (induction s arbitrary: acc) (use split_char_none [OF assms] in \<open>simp_all add: split_char_def\<close>)
  then show "last (split_char sep (s @ sep # w)) = w" by (simp add: split_char_def)
  show "last (split_char sep w) = w" by (simp add: split_char_none [OF assms])
qed

lemma split_crlf_from_nonempty [simp]: "split_crlf_from acc s \<noteq> []"
  by (induction acc s rule: split_crlf_from.induct) simp_all

lemma split_crlf_nonempty [simp]: "split_crlf s \<noteq> []"
  by (simp add: split_crlf_def)

lemma split_crlf_from_field:
  "13 \<notin> set w \<Longrightarrow> split_crlf_from acc (w @ 13 # 10 # s) = (acc @ w) # split_crlf_from [] s"
proof (induction w arbitrary: acc)
  case (Cons c w)
  obtain d cs where t: "w @ 13 # 10 # s = d # cs" by (cases w) auto
  show ?case using Cons.IH [of "acc @ [c]"] Cons.prems by (simp add: t)
qed simp

lemma split_crlf_field: "13 \<notin> set w \<Longrightarrow> split_crlf (w @ 13 # 10 # s) = w # split_crlf s"
  by (simp add: split_crlf_def split_crlf_from_field)

section \<open>Byte offsets in ASCII text\<close>

lemma utf8_enc_length: "0 < length (utf8_enc c)" "length (utf8_enc c) \<le> 4"
  by (simp_all add: utf8_enc_def)

lemma utf8_enc_ascii: "c < 128 \<Longrightarrow> length (utf8_enc c) = 1"
  by (simp add: utf8_enc_def)

lemma str_len_ascii: "list_all (\<lambda>c. c < 128) s \<Longrightarrow> str_len s = length s"
  by (induction s) (simp_all add: str_len_def utf8_enc_ascii)

lemma str_len_bounds: "length s \<le> str_len s" "str_len s \<le> 4 * length s"
proof -
  show "length s \<le> str_len s"
  proof (induction s)
    case (Cons c s)
    have "1 \<le> length (utf8_enc c)" using utf8_enc_length(1) [of c] by linarith
    with Cons show ?case by (simp add: str_len_def del: One_nat_def)
  qed (simp add: str_len_def)
  show "str_len s \<le> 4 * length s"
  proof (induction s)
    case (Cons c s)
    then show ?case using utf8_enc_length(2) [of c] by (simp add: str_len_def)
  qed (simp add: str_len_def)
qed

lemma str_split_at_ascii:
  "list_all (\<lambda>c. c < 128) s \<Longrightarrow> n \<le> length s \<Longrightarrow> str_split_at n s = Some (take n s, drop n s)"
proof (induction s arbitrary: n)
  case (Cons c s)
  then show ?case by (cases n) (simp_all add: utf8_enc_ascii)
qed simp

lemma str_range_ascii:
  assumes "list_all (\<lambda>c. c < 128) s" "a \<le> b" "b \<le> length s"
  shows "str_range s a b = Some (take (b - a) (drop a s))"
proof -
  have "list_all (\<lambda>c. c < 128) (drop a s)" using assms(1) by (simp add: list_all_iff) (meson in_set_dropD)
  then show ?thesis using assms by (simp add: str_range_def str_split_at_ascii)
qed

section \<open>Upper case keeps the words\<close>

lemma char_upper_no_space: "\<not> is_whitespace c \<Longrightarrow> list_all (\<lambda>c. \<not> is_whitespace c) (char_upper c)"
proof -
  assume c: "\<not> is_whitespace c"
  have letter: "\<not> is_whitespace x" if "65 \<le> x" "x \<le> 90" for x using that by (simp add: is_whitespace_def)
  show ?thesis
  proof (cases "97 \<le> c \<and> c \<le> 122")
    case True
    then have "65 \<le> c - 32" "c - 32 \<le> 90" by auto
    with True show ?thesis by (simp add: char_upper_def letter)
  next
    case False
    then show ?thesis using c by (simp only: char_upper_def if_False) (simp add: letter)
  qed
qed

lemma char_upper_space: "is_whitespace c \<Longrightarrow> char_upper c = [c]"
  by (auto simp: char_upper_def is_whitespace_def)

lemma char_upper_nonempty: "char_upper c \<noteq> []"
  by (simp add: char_upper_def)

lemma to_uppercase_Nil [simp]: "to_uppercase w = [] \<longleftrightarrow> w = []"
  by (cases w) (simp_all add: to_uppercase_def char_upper_nonempty)

lemma split_whitespace_from_upper:
  "split_whitespace_from (to_uppercase acc) (to_uppercase s) = map to_uppercase (split_whitespace_from acc s)"
proof (induction acc s rule: split_whitespace_from.induct)
  case (1 acc)
  then show ?case by (simp add: to_uppercase_def [of "[]"])
next
  case (2 acc c cs)
  have app: "to_uppercase (x @ y) = to_uppercase x @ to_uppercase y" for x y by (simp add: to_uppercase_def)
  have one: "to_uppercase (c # cs) = char_upper c @ to_uppercase cs" "to_uppercase [c] = char_upper c"
    by (simp_all add: to_uppercase_def)
  have nil: "to_uppercase [] = []" by simp
  show ?case
  proof (cases "is_whitespace c")
    case True
    then show ?thesis using 2(1,2) by (cases "acc = []") (simp_all add: one char_upper_space nil)
  next
    case False
    then show ?thesis using 2(3)
      by (simp add: one app split_whitespace_word [OF char_upper_no_space])
  qed
qed

lemma split_whitespace_upper: "split_whitespace (to_uppercase s) = map to_uppercase (split_whitespace s)"
  using split_whitespace_from_upper [of "[]" s] by (simp add: split_whitespace_def to_uppercase_def)

lemma to_uppercase_ascii_upper: "list_all (\<lambda>c. c < 97) w \<Longrightarrow> to_uppercase w = w"
  by (induction w) (simp_all add: to_uppercase_def char_upper_def)

section \<open>Containment\<close>

lemma strip_prefix_append: "strip_prefix p (p @ s) = Some s"
  by (simp add: strip_prefix_def starts_with_def)

lemma starts_with_iff: "starts_with p s \<longleftrightarrow> (\<exists>b. s = p @ b)"
  by (metis append_eq_conv_conj append_take_drop_id starts_with_def)

lemma str_contains_iff: "str_contains p s \<longleftrightarrow> (\<exists>a b. s = a @ p @ b)"
proof (induction s)
  case (Cons c s)
  have "(\<exists>a b. c # s = a @ p @ b) \<longleftrightarrow> (\<exists>b. c # s = p @ b) \<or> (\<exists>a b. s = a @ p @ b)"
    by (metis append_Cons append_Nil list.exhaust list.inject)
  then show ?case using Cons.IH by (simp add: starts_with_iff)
qed simp

lemma str_contains_append: "str_contains p s \<Longrightarrow> str_contains p (t @ s)"
  unfolding str_contains_iff by (metis append.assoc)

lemma str_contains_prefix: "str_contains p (p @ s)"
  unfolding str_contains_iff by (metis append_Nil)

end
