(* ===== verification/Agent_Base.thy ===== *)
theory Agent_Base
  imports Wire Text
begin

text \<open>
  What the agent's ring buffer consumers share: the reinterpretation of a record as a packed
  struct, the network events they produce, and the formatting of addresses. The cast is done by
  the \<open>plain\<close> crate, which is a parameter of the consumers; the locale \<open>plain_view\<close> states its
  documented behaviour on a type of alignment 1: too short a slice is an error, otherwise the
  first bytes of the slice are the value.
\<close>

section \<open>The \<open>plain\<close> crate\<close>

locale plain_view =
  fixes from_bytes :: "bytes \<Rightarrow> 'e option" and dec :: "bytes \<Rightarrow> 'e" and sz :: nat
  assumes too_short: "length d < sz \<Longrightarrow> from_bytes d = None"
    and view: "sz \<le> length d \<Longrightarrow> from_bytes d = Some (dec (take sz d))"
begin

lemma view_exact: "length d = sz \<Longrightarrow> from_bytes d = Some (dec d)"
  using view by simp

end

definition plain_cast :: "(bytes \<Rightarrow> 'e) \<Rightarrow> nat \<Rightarrow> bytes \<Rightarrow> 'e option" where
  "plain_cast dec sz d = (if length d < sz then None else Some (dec (take sz d)))"

interpretation plain_cast: plain_view "plain_cast dec sz" dec sz for dec sz
  by unfold_locales (simp_all add: plain_cast_def)

section \<open>Slices\<close>

text \<open>
  Indexing and slicing with ranges as the language does them: None is the panic of an index or
  range that is out of bounds. \<open>get_or_0\<close> is \<open>data.get(i).copied().unwrap_or(0)\<close>.
\<close>

definition slice_get :: "bytes \<Rightarrow> nat \<Rightarrow> byte option" where
  "slice_get xs i = (if i < length xs then Some (xs ! i) else None)"

definition slice_range :: "bytes \<Rightarrow> nat \<Rightarrow> nat \<Rightarrow> bytes option" where
  "slice_range xs a b = (if a \<le> b \<and> b \<le> length xs then Some (take (b - a) (drop a xs)) else None)"

definition slice_from :: "bytes \<Rightarrow> nat \<Rightarrow> bytes option" where
  "slice_from xs a = (if a \<le> length xs then Some (drop a xs) else None)"

definition get_or_0 :: "bytes \<Rightarrow> nat \<Rightarrow> byte" where
  "get_or_0 xs i = (if i < length xs then xs ! i else 0)"

lemma slice_get_in: "i < length xs \<Longrightarrow> slice_get xs i = Some (xs ! i)"
  by (simp add: slice_get_def)

text \<open>Reading at a position where the rest of the data is known.\<close>

lemma drop_get:
  assumes "drop i data = b # rest"
  shows "slice_get data i = Some b" "get_or_0 data i = b" "drop (Suc i) data = rest" "i < length data"
proof -
  show i: "i < length data" using assms by (cases "i < length data") simp_all
  have "data ! i = b" using assms hd_drop_conv_nth [OF i] by simp
  with i show "slice_get data i = Some b" "get_or_0 data i = b" by (simp_all add: slice_get_def get_or_0_def)
  show "drop (Suc i) data = rest" using assms by (metis drop_Suc list.sel(3) tl_drop)
qed

lemma drop_more: "drop i data = xs @ ys \<Longrightarrow> drop (i + length xs) data = ys"
  by (metis add.commute append_eq_conv_conj drop_drop)

section \<open>Network events\<close>

text \<open>An \<open>f64\<close> as its bit pattern; \<open>0.0\<close> is 0.\<close>

type_synonym f64 = u64

datatype NetworkEvent =
    TcpConnection (source_ip: rstring) (source_port: u16) (destination_ip: rstring) (destination_port: u16)
      (state: rstring) (ev_pid: u32) (process_name: rstring)
  | DnsQuery (query_name: rstring) (resolved_ips: "rstring list") (latency_ms: f64) (ev_pid: u32)
  | HttpRequest (http_method: rstring) (http_path: rstring) (status_code: u16) (latency_ms: f64)
      (source_ip: rstring) (destination_ip: rstring) (destination_port: u16) (ev_pid: u32)
  | DbQuery (protocol: rstring) (query: rstring) (latency_ms: f64) (destination_ip: rstring)
      (destination_port: u16) (ev_pid: u32)

section \<open>Addresses\<close>

definition format_ip :: "u32 \<Rightarrow> rstring" where
  "format_ip ip =
     decimal (unat (ip AND 0xFF)) @ lit ''.'' @ decimal (unat (drop_bit 8 ip AND 0xFF)) @ lit ''.'' @
     decimal (unat (drop_bit 16 ip AND 0xFF)) @ lit ''.'' @ decimal (unat (drop_bit 24 ip AND 0xFF))"

lemma byte_of_word: "unat (drop_bit n (ip :: u32) AND 0xFF) = unat ip div 2 ^ n mod 256"
proof -
  have "drop_bit n ip AND 0xFF = take_bit 8 (drop_bit n ip)"
    by (simp add: take_bit_eq_mask mask_eq_exp_minus_1)
  then have "unat (drop_bit n ip AND 0xFF) = take_bit 8 (drop_bit n (take_bit 32 (unat ip)))"
    by (simp only: unsigned_take_bit_eq unsigned_drop_bit_eq) simp
  also have "take_bit 32 (unat ip) = unat ip"
    using unat_bound [of ip] by (simp add: take_bit_nat_eq_self)
  finally show ?thesis by (simp add: take_bit_eq_mod drop_bit_eq_div)
qed

text \<open>The dotted quad lists the bytes of the address as they lie in memory.\<close>

lemma format_ip_bytes:
  "format_ip (un_le32 [a, b, c, d]) =
     decimal (unat a) @ lit ''.'' @ decimal (unat b) @ lit ''.'' @ decimal (unat c) @ lit ''.'' @ decimal (unat d)"
proof -
  have v: "unat (un_le32 [a, b, c, d]) = unat a + 256 * (unat b + 256 * (unat c + 256 * unat d))"
  proof -
    have "unat (un_le32 [a, b, c, d]) = le_value [a, b, c, d]"
      using le_value_bound [of "[a, b, c, d]"] by (simp add: un_le32_def unat_of_nat del: le_value.simps)
    then show ?thesis by simp
  qed
  have lt: "unat a < 256" "unat b < 256" "unat c < 256" "unat d < 256"
    using unat_bound [where 'a = 8] by simp_all
  have digits: "n div 65536 = n div 256 div 256" "n div 16777216 = n div 256 div 256 div 256" for n :: nat
    by (simp_all add: div_mult2_eq [symmetric])
  have step: "(x + 256 * y) mod 256 = x" "(x + 256 * y) div 256 = y" if "x < 256" for x y :: nat
    using that by simp_all
  have "unat (un_le32 [a, b, c, d]) mod 256 = unat a"
    "unat (un_le32 [a, b, c, d]) div 256 mod 256 = unat b"
    "unat (un_le32 [a, b, c, d]) div 65536 mod 256 = unat c"
    "unat (un_le32 [a, b, c, d]) div 16777216 mod 256 = unat d"
    unfolding v digits by (simp_all only: step lt mod_less)
  then show ?thesis
    using byte_of_word [of 0 "un_le32 [a, b, c, d]"] by (simp add: format_ip_def byte_of_word)
qed

end
