(* ===== verification/Sni.thy ===== *)
theory Sni
  imports Agent_Base "HOL-Library.Monad_Syntax"
begin

text \<open>
  \<open>SniExtractor\<close> of \<open>http_inspector.rs\<close>: walks a TLS ClientHello to its server name
  extension. The outer option is None where the Rust code would panic on an index, the inner one
  is the result of the function. Two bytes combined as \<open>(hi << 8) | lo\<close> are the number
  \<open>256 * hi + lo\<close>.
\<close>

section \<open>The extractor\<close>

definition two :: "byte \<Rightarrow> byte \<Rightarrow> nat" where
  "two hi lo = 256 * unat hi + unat lo"

definition parse_sni_extension :: "bytes \<Rightarrow> rstring option option" where
  "parse_sni_extension data =
     (if length data < 5 then Some None
      else do {
        d0 \<leftarrow> slice_get data 0;
        d1 \<leftarrow> slice_get data 1;
        if two d0 d1 + 2 > length data then Some None
        else do {
          d2 \<leftarrow> slice_get data 2;
          if d2 \<noteq> 0 then Some None
          else do {
            d3 \<leftarrow> slice_get data 3;
            d4 \<leftarrow> slice_get data 4;
            if 5 + two d3 d4 > length data then Some None
            else do {
              name \<leftarrow> slice_range data 5 (5 + two d3 d4);
              Some (from_utf8 name)
            }
          }
        }
      })"

text \<open>The loop over the extensions.\<close>

function sni_extensions :: "bytes \<Rightarrow> nat \<Rightarrow> nat \<Rightarrow> rstring option option" where
  "sni_extensions data offset extensions_end =
     (if offset + 4 \<le> extensions_end then
        (case slice_get data offset of
           None \<Rightarrow> None
         | Some b \<Rightarrow>
             (let ext_type = two b (get_or_0 data (offset + 1));
                  ext_len = two (get_or_0 data (offset + 2)) (get_or_0 data (offset + 3));
                  ext_end = offset + 4 + ext_len
              in if ext_end > extensions_end then Some None
                 else if ext_type = 0 then
                   (case slice_range data (offset + 4) ext_end of
                      None \<Rightarrow> None
                    | Some ext \<Rightarrow> parse_sni_extension ext)
                 else sni_extensions data ext_end extensions_end))
      else Some None)"
  by pat_completeness auto
termination by (relation "measure (\<lambda>(_, offset, extensions_end). extensions_end - offset)") auto

declare sni_extensions.simps [simp del]

definition extract_sni :: "bytes \<Rightarrow> rstring option option" where
  "extract_sni data =
     (if length data < 44 then Some None
      else do {
        d0 \<leftarrow> slice_get data 0;
        if d0 \<noteq> 0x16 then Some None
        else do {
          d1 \<leftarrow> slice_get data 1;
          d2 \<leftarrow> slice_get data 2;
          if d1 < 0x03 \<or> d1 = 0x03 \<and> d2 < 0x01 then Some None
          else do {
            d3 \<leftarrow> slice_get data 3;
            d4 \<leftarrow> slice_get data 4;
            if 5 + two d3 d4 > length data then Some None
            else do {
              d5 \<leftarrow> slice_get data 5;
              if d5 \<noteq> 0x01 then Some None
              else do {
                d6 \<leftarrow> slice_get data 6;
                d7 \<leftarrow> slice_get data 7;
                d8 \<leftarrow> slice_get data 8;
                if 9 + (65536 * unat d6 + two d7 d8) > length data then Some None
                else if 43 \<ge> length data then Some None
                else do {
                  session_id_len \<leftarrow> slice_get data 43;
                  let offset = 43 + (1 + unat session_id_len);
                  if offset + 2 > length data then Some None
                  else do {
                    c \<leftarrow> slice_get data offset;
                    let offset = offset + (2 + two c (get_or_0 data (offset + 1)));
                    if offset \<ge> length data then Some None
                    else do {
                      compression_len \<leftarrow> slice_get data offset;
                      let offset = offset + (1 + unat compression_len);
                      if offset + 2 > length data then Some None
                      else do {
                        e \<leftarrow> slice_get data offset;
                        let extensions_len = two e (get_or_0 data (offset + 1));
                        let offset = offset + 2;
                        let extensions_end = offset + extensions_len;
                        if extensions_end > length data then Some None
                        else sni_extensions data offset extensions_end
                      }
                    }
                  }
                }
              }
            }
          }
        }
      })"

section \<open>No panics\<close>

lemma parse_sni_extension_total: "parse_sni_extension data \<noteq> None"
proof (cases "length data < 5")
  case False
  then have "slice_get data 0 = Some (data ! 0)" "slice_get data 1 = Some (data ! 1)"
    "slice_get data 2 = Some (data ! 2)" "slice_get data 3 = Some (data ! 3)" "slice_get data 4 = Some (data ! 4)"
    by (auto simp: slice_get_def)
  then show ?thesis unfolding parse_sni_extension_def by (simp add: slice_range_def)
qed (simp add: parse_sni_extension_def)

lemma sni_extensions_total: "extensions_end \<le> length data \<Longrightarrow> sni_extensions data offset extensions_end \<noteq> None"
proof (induction data offset extensions_end rule: sni_extensions.induct)
  case (1 data offset extensions_end)
  then show ?case
    using parse_sni_extension_total
    by (subst sni_extensions.simps) (simp add: slice_get_in slice_range_def Let_def del: not_None_eq)
qed

lemma extract_sni_total: "extract_sni data \<noteq> None"
proof (cases "length data < 44")
  case False
  then have "slice_get data 0 = Some (data ! 0)" "slice_get data 1 = Some (data ! 1)"
    "slice_get data 2 = Some (data ! 2)" "slice_get data 3 = Some (data ! 3)" "slice_get data 4 = Some (data ! 4)"
    "slice_get data 5 = Some (data ! 5)" "slice_get data 6 = Some (data ! 6)" "slice_get data 7 = Some (data ! 7)"
    "slice_get data 8 = Some (data ! 8)" "slice_get data 43 = Some (data ! 43)"
    by (auto simp: slice_get_def)
  then show ?thesis
    unfolding extract_sni_def using sni_extensions_total [of _ data]
    by (simp add: slice_get_in Let_def del: not_None_eq)
qed (simp add: extract_sni_def)

section \<open>A ClientHello with a server name\<close>

definition be2 :: "nat \<Rightarrow> bytes" where
  "be2 n = [of_nat (n div 256), of_nat (n mod 256)]"

definition be3 :: "nat \<Rightarrow> bytes" where
  "be3 n = [of_nat (n div 65536), of_nat (n div 256 mod 256), of_nat (n mod 256)]"

definition extension :: "nat \<times> bytes \<Rightarrow> bytes" where
  "extension x = be2 (fst x) @ be2 (length (snd x)) @ snd x"

definition server_name :: "bytes \<Rightarrow> bytes" where
  "server_name host = be2 (3 + length host) @ [0] @ be2 (length host) @ host"

definition client_hello_body :: "bytes \<Rightarrow> bytes \<Rightarrow> bytes \<Rightarrow> bytes \<Rightarrow> bytes \<Rightarrow> bytes" where
  "client_hello_body fixed session ciphers compression exts =
     fixed @ [of_nat (length session)] @ session @ be2 (length ciphers) @ ciphers @
     [of_nat (length compression)] @ compression @ be2 (length exts) @ exts"

definition tls_record :: "byte \<Rightarrow> bytes \<Rightarrow> bytes" where
  "tls_record minor body =
     [0x16, 0x03, minor] @ be2 (4 + length body) @ [0x01] @ be3 (length body) @ body"

lemma length_be [simp]: "length (be2 n) = 2" "length (be3 n) = 3"
  by (simp_all add: be2_def be3_def)

lemma two_be2: "n < 65536 \<Longrightarrow> two (of_nat (n div 256)) (of_nat (n mod 256)) = n"
  by (simp add: two_def unat_of_nat_byte less_mult_imp_div_less)

lemma drop_be2:
  assumes "drop i data = be2 n @ rest" "n < 65536"
  shows "slice_get data i = Some (of_nat (n div 256))" "get_or_0 data (Suc i) = of_nat (n mod 256)"
    "slice_get data (Suc i) = Some (of_nat (n mod 256))"
    "drop (Suc (Suc i)) data = rest" "Suc (Suc i) + length rest = length data"
proof -
  have "drop i data = of_nat (n div 256) # of_nat (n mod 256) # rest" using assms(1) by (simp add: be2_def)
  note a = drop_get [OF this] and b = drop_get [OF this(1) [THEN drop_get(3)]]
  show "slice_get data i = Some (of_nat (n div 256))" "get_or_0 data (Suc i) = of_nat (n mod 256)"
    "slice_get data (Suc i) = Some (of_nat (n mod 256))" "drop (Suc (Suc i)) data = rest"
    using a(1) b(1,2,3) by simp_all
  then show "Suc (Suc i) + length rest = length data" using b(4) by auto
qed

lemma parse_server_name:
  assumes "length host < 65533"
  shows "parse_sni_extension (server_name host) = Some (from_utf8 host)"
proof -
  have "parse_sni_extension (a # b # 0 # d # e # host) = Some (from_utf8 host)"
    if "two a b = 3 + length host" "two d e = length host" for a b d e
    using that by (simp add: parse_sni_extension_def slice_get_def slice_range_def)
  then show ?thesis
    using assms two_be2 [of "3 + length host"] two_be2 [of "length host"] by (simp add: server_name_def be2_def)
qed

lemma length_extension: "length (extension x) = 4 + length (snd x)"
  by (simp add: extension_def)

lemma extension_head:
  assumes "drop i data = extension (t, b) @ rest" "t < 65536" "length b < 65536"
  shows "\<exists>x. slice_get data i = Some x \<and> two x (get_or_0 data (i + 1)) = t"
    "two (get_or_0 data (i + 2)) (get_or_0 data (i + 3)) = length b"
    "drop (i + 4) data = b @ rest" "i + 4 + length b \<le> length data"
proof -
  have d: "drop i data = be2 t @ be2 (length b) @ b @ rest" using assms(1) by (simp add: extension_def)
  note h = drop_be2 [OF d assms(2)]
  note l = drop_be2 [OF h(4) assms(3)]
  show "\<exists>x. slice_get data i = Some x \<and> two x (get_or_0 data (i + 1)) = t"
    using h two_be2 [OF assms(2)] by simp
  have "get_or_0 data (i + 2) = of_nat (length b div 256)"
    using l(1) by (auto simp: slice_get_def get_or_0_def split: if_splits)
  then show "two (get_or_0 data (i + 2)) (get_or_0 data (i + 3)) = length b"
    using l(2) two_be2 [OF assms(3)] by (simp add: numeral_3_eq_3)
  show "drop (i + 4) data = b @ rest" using l(4) by (simp add: numeral_eq_Suc)
  show "i + 4 + length b \<le> length data" using l(5) by simp
qed

lemma sni_extensions_found:
  assumes "drop i data = concat (map extension pre) @ extension (0, server_name host) @ rest"
    and "\<forall>(t, b) \<in> set pre. 0 < t \<and> t < 65536 \<and> length b < 65536" and "length host < 65530"
    and "i + length (concat (map extension pre) @ extension (0, server_name host)) \<le> fin" "fin \<le> length data"
  shows "sni_extensions data i fin = Some (from_utf8 host)"
  using assms(1,2,4)
proof (induction pre arbitrary: i)
  case Nil
  have len: "length (server_name host) < 65536" using assms(3) by (simp add: server_name_def)
  have "drop i data = extension (0, server_name host) @ rest" using Nil(1) by simp
  note h = extension_head [OF this _ len, simplified]
  obtain x where x: "slice_get data i = Some x" "two x (get_or_0 data (Suc i)) = 0" using h(1) by auto
  have fin: "i + 4 + length (server_name host) \<le> fin" using Nil(3) by (simp add: extension_def)
  have r: "slice_range data (i + 4) (i + 4 + length (server_name host)) = Some (server_name host)"
    using h(3,4) by (simp add: slice_range_def)
  show ?case
    using x fin r h(2) parse_server_name [of host] assms(3)
    by (subst sni_extensions.simps) (simp add: Let_def)
next
  case (Cons y pre)
  obtain t b where y: "y = (t, b)" by (cases y)
  have tb: "0 < t" "t < 65536" "length b < 65536" using Cons.prems(2) y by auto
  have "drop i data = extension (t, b) @ concat (map extension pre) @ extension (0, server_name host) @ rest"
    using Cons.prems(1) y by simp
  note h = extension_head [OF this tb(2,3)]
  obtain x where x: "slice_get data i = Some x" "two x (get_or_0 data (Suc i)) = t" using h(1) by auto
  have nxt: "drop (i + 4 + length b) data = concat (map extension pre) @ extension (0, server_name host) @ rest"
    using drop_more [OF h(3)] by simp
  have fin: "i + 4 + length b + length (concat (map extension pre) @ extension (0, server_name host)) \<le> fin"
    using Cons.prems(3) by (simp add: y length_extension)
  have "sni_extensions data (i + 4 + length b) fin = Some (from_utf8 host)"
    using Cons.IH [OF nxt _ fin] Cons.prems(2) by simp
  then show ?case using x tb h(2) fin by (subst sni_extensions.simps) (simp add: Let_def)
qed

text \<open>The nine bytes before the handshake body, and the three lengths that lead to the extensions.\<close>

lemma tls_record_header:
  fixes body :: bytes
  assumes "data = tls_record minor body @ trail" "length body < 65532"
  defines "L \<equiv> length body"
  shows "slice_get data 0 = Some 0x16" "slice_get data 1 = Some 3" "slice_get data 2 = Some minor"
    "slice_get data 3 = Some (of_nat ((4 + L) div 256))" "slice_get data 4 = Some (of_nat ((4 + L) mod 256))"
    "slice_get data 5 = Some 1" "slice_get data 6 = Some (of_nat (L div 65536))"
    "slice_get data 7 = Some (of_nat (L div 256 mod 256))" "slice_get data 8 = Some (of_nat (L mod 256))"
    "two (of_nat ((4 + L) div 256)) (of_nat ((4 + L) mod 256)) = 4 + L"
    "65536 * unat (of_nat (L div 65536) :: byte) + two (of_nat (L div 256 mod 256)) (of_nat (L mod 256)) = L"
    "drop 9 data = body @ trail" "length data = 9 + L + length trail"
proof -
  have hdr: "data = 0x16 # 3 # minor # of_nat ((4 + L) div 256) # of_nat ((4 + L) mod 256) # 1 #
      of_nat (L div 65536) # of_nat (L div 256 mod 256) # of_nat (L mod 256) # body @ trail"
    by (simp add: assms(1) tls_record_def be2_def be3_def L_def)
  show "slice_get data 0 = Some 0x16" "slice_get data 1 = Some 3" "slice_get data 2 = Some minor"
    "slice_get data 3 = Some (of_nat ((4 + L) div 256))" "slice_get data 4 = Some (of_nat ((4 + L) mod 256))"
    "slice_get data 5 = Some 1" "slice_get data 6 = Some (of_nat (L div 65536))"
    "slice_get data 7 = Some (of_nat (L div 256 mod 256))" "slice_get data 8 = Some (of_nat (L mod 256))"
    "drop 9 data = body @ trail" "length data = 9 + L + length trail"
    unfolding hdr by (simp_all add: slice_get_def L_def)
  show "two (of_nat ((4 + L) div 256)) (of_nat ((4 + L) mod 256)) = 4 + L"
    by (rule two_be2) (use assms(2) L_def in simp)
  show "65536 * unat (of_nat (L div 65536) :: byte) + two (of_nat (L div 256 mod 256)) (of_nat (L mod 256)) = L"
    using assms(2) two_be2 [of L] L_def by simp
qed

lemma client_hello_offsets:
  assumes "drop 9 data = client_hello_body fixed session ciphers compression exts @ trail" "length fixed = 34"
    and "length ciphers < 65536" "length exts < 65536"
  defines "o1 \<equiv> 43 + (1 + length session)"
  defines "o2 \<equiv> o1 + (2 + length ciphers)"
  defines "o3 \<equiv> o2 + (1 + length compression)"
  shows "slice_get data 43 = Some (of_nat (length session))"
    "slice_get data o1 = Some (of_nat (length ciphers div 256))"
    "two (of_nat (length ciphers div 256)) (get_or_0 data (o1 + 1)) = length ciphers"
    "slice_get data o2 = Some (of_nat (length compression))"
    "slice_get data o3 = Some (of_nat (length exts div 256))"
    "two (of_nat (length exts div 256)) (get_or_0 data (o3 + 1)) = length exts"
    "drop (o3 + 2) data = exts @ trail"
proof -
  from drop_more [OF assms(1) [unfolded client_hello_body_def append.assoc]]
  have d43: "drop 43 data = of_nat (length session) # session @ be2 (length ciphers) @ ciphers @
      of_nat (length compression) # compression @ be2 (length exts) @ exts @ trail" by (simp add: assms(2))
  note g43 = drop_get [OF d43]
  have d1: "drop o1 data = be2 (length ciphers) @ ciphers @ of_nat (length compression) # compression @
      be2 (length exts) @ exts @ trail"
    using drop_more [OF g43(3)] by (simp add: o1_def)
  note g1 = drop_be2 [OF d1 assms(3)]
  have d2: "drop o2 data = of_nat (length compression) # compression @ be2 (length exts) @ exts @ trail"
    using drop_more [OF g1(4)] by (simp add: o2_def)
  note g2 = drop_get [OF d2]
  have d3: "drop o3 data = be2 (length exts) @ exts @ trail"
    using drop_more [OF g2(3)] by (simp add: o3_def)
  note g3 = drop_be2 [OF d3 assms(4)]
  show "slice_get data 43 = Some (of_nat (length session))" by (rule g43(1))
  show "slice_get data o1 = Some (of_nat (length ciphers div 256))" by (rule g1(1))
  show "two (of_nat (length ciphers div 256)) (get_or_0 data (o1 + 1)) = length ciphers"
    using g1(2) two_be2 [OF assms(3)] by simp
  show "slice_get data o2 = Some (of_nat (length compression))" by (rule g2(1))
  show "slice_get data o3 = Some (of_nat (length exts div 256))" by (rule g3(1))
  show "two (of_nat (length exts div 256)) (get_or_0 data (o3 + 1)) = length exts"
    using g3(2) two_be2 [OF assms(4)] by simp
  show "drop (o3 + 2) data = exts @ trail" using g3(4) by simp
qed

text \<open>The walk to the extensions.\<close>

lemma client_hello_walk:
  assumes data: "data = tls_record minor (client_hello_body fixed session ciphers compression exts) @ trail"
    and small: "1 \<le> minor" "length fixed = 34" "length session < 256" "length ciphers < 65536" "length compression < 256"
      "length exts < 65536" "length (client_hello_body fixed session ciphers compression exts) < 65532"
    and off: "off = 43 + (1 + length session) + (2 + length ciphers) + (1 + length compression) + 2"
  shows "extract_sni data = sni_extensions data off (off + length exts)" "drop off data = exts @ trail"
    "off + length exts \<le> length data"
proof -
  note hdr = tls_record_header [OF data small(7)]
  note at = client_hello_offsets [OF hdr(12) small(2,4,6)]
  have body: "length (client_hello_body fixed session ciphers compression exts) =
      34 + (1 + length session) + (2 + length ciphers) + (1 + length compression) + 2 + length exts"
    using small(2) by (simp add: client_hello_body_def)
  show "drop off data = exts @ trail" using at(7) by (simp add: off)
  show fin: "off + length exts \<le> length data" using hdr(13) body off by simp
  have bounds: "\<not> length data < 44" "\<not> length data \<le> 43" "\<not> length data < 43 + (1 + length session) + 2"
    "\<not> length data \<le> 43 + (1 + length session) + (2 + length ciphers)"
    "\<not> length data < 43 + (1 + length session) + (2 + length ciphers) + (1 + length compression) + 2"
    "\<not> length data < off" "\<not> length data < off + length exts"
    "\<not> length data < 5 + (4 + length (client_hello_body fixed session ciphers compression exts))"
    "\<not> length data < 9 + length (client_hello_body fixed session ciphers compression exts)"
    using hdr(13) body fin off by simp_all
  have ver: "\<not> minor < 1" using small(1) by (simp only: not_less)
  have sizes: "unat (of_nat (length session) :: byte) = length session"
    "unat (of_nat (length compression) :: byte) = length compression"
    using small(3,5) by (simp_all add: unat_of_nat_byte)
  show "extract_sni data = sni_extensions data off (off + length exts)"
    by (simp only: extract_sni_def hdr(1-11) bind.bind_lunit at(1-6) sizes Let_def off [symmetric]
        ver bounds less_irrefl simp_thms if_False if_True)
qed

lemma extract_sni_hello:
  assumes hello: "data = tls_record minor (client_hello_body fixed session ciphers compression exts) @ trail"
    and exts: "exts = concat (map extension before) @ extension (0, server_name host) @ after"
    and others: "\<forall>(t, b) \<in> set before. 0 < t \<and> t < 65536 \<and> length b < 65536"
    and "1 \<le> minor" "length fixed = 34" "length session < 256" "length ciphers < 65536" "length compression < 256"
    and "length (client_hello_body fixed session ciphers compression exts) < 65532" "length host < 65530"
  shows "extract_sni data = Some (from_utf8 host)"
proof -
  have len: "length exts < 65536" using assms(9) by (simp add: client_hello_body_def)
  note walk = client_hello_walk [OF hello assms(4-8) len assms(9) refl]
  let ?off = "43 + (1 + length session) + (2 + length ciphers) + (1 + length compression) + 2"
  have "drop ?off data = concat (map extension before) @ extension (0, server_name host) @ after @ trail"
    using walk(2) exts by simp
  from sni_extensions_found [OF this others assms(10) _ walk(3)] show ?thesis
    unfolding walk(1) using exts by simp
qed

section \<open>Properties\<close>

text \<open>
  The server name extractor never panics: on every byte string, well-formed or not, every
  index and range it uses is within bounds and its loop over the extensions ends.
\<close>

lemma extract_sni_never_panics: "extract_sni data \<noteq> None"
  by (rule extract_sni_total)

text \<open>
  The server name is found: on a TLS record with a ClientHello of any session id, cipher
  suites and compression methods, whose extensions are any number of other extensions, the
  server name extension and anything after it, the extractor returns the host name, if its
  bytes are UTF-8 (and nothing if they are not); bytes after the record do not matter.
\<close>

lemma extract_sni_finds_name:
  assumes hello: "data = tls_record minor (client_hello_body fixed session ciphers compression exts) @ trail"
    and exts: "exts = concat (map extension before) @ extension (0, server_name host) @ after"
    and others: "\<forall>(t, b) \<in> set before. 0 < t \<and> t < 65536 \<and> length b < 65536"
    and "1 \<le> minor" "length fixed = 34" "length session < 256" "length ciphers < 65536" "length compression < 256"
    and "length (client_hello_body fixed session ciphers compression exts) < 65532" "length host < 65530"
  shows "extract_sni data = Some (from_utf8 host)"
  by (rule extract_sni_hello [OF assms])

lemma extract_sni_finds_name_example:
  "extract_sni (tls_record 1 (client_hello_body (replicate 34 0) [] [0x13, 0x01] [0]
     (concat (map extension [(43, [2, 3, 4])]) @ extension (0, server_name [0x61, 0x2e, 0x69, 0x6f]) @ [])) @ []) =
   Some (Some [0x61, 0x2e, 0x69, 0x6f])"
proof -
  have "from_utf8 [0x61, 0x2e, 0x69, 0x6f] = Some [0x61, 0x2e, 0x69, 0x6f]"
    using from_utf8_ascii [of "[0x61, 0x2e, 0x69, 0x6f]"] by simp
  moreover have "length (client_hello_body (replicate 34 0) [] [0x13, 0x01] [0]
     (concat (map extension [(43, [2, 3, 4])]) @ extension (0, server_name [0x61, 0x2e, 0x69, 0x6f]) @ [])) < 65532"
    by (simp add: client_hello_body_def extension_def server_name_def)
  ultimately show ?thesis
    using extract_sni_finds_name [OF refl refl, of "[(43, [2, 3, 4])]" 1 "replicate 34 0" "[]" "[0x13, 0x01]" "[0]"
        "[0x61, 0x2e, 0x69, 0x6f]" "[]" "[]"] by simp
qed

end
