(* ===== verification/Sock_Access.thy ===== *)
theory Sock_Access
  imports Bpf_Helpers
begin

text \<open>
  Reading the connection 4-tuple of a \<open>struct sock\<close>. The programs read four members
  through CO-RE; the running kernel may lay \<open>struct sock\<close> out differently from
  \<open>vmlinux.h\<close>, as long as relocation found the members.
\<close>

record sock_tuple =
  st_saddr :: u32 \<comment> \<open>as stored, network byte order\<close>
  st_daddr :: u32
  st_num :: u16 \<comment> \<open>local port\<close>
  st_dport :: u16 \<comment> \<open>remote port, as a number\<close>

definition path_slice :: "ctype \<Rightarrow> string list \<Rightarrow> bytes \<Rightarrow> bytes" where
  "path_slice T path img =
     (case offset_path T path of Some (off, t) \<Rightarrow> take (csize t) (drop off img) | None \<Rightarrow> [])"

definition sock_tuple_of :: "ctype \<Rightarrow> bytes \<Rightarrow> sock_tuple" where
  "sock_tuple_of T img =
     \<lparr>st_saddr = un_le32 (path_slice T p_rcv_saddr img),
      st_daddr = un_le32 (path_slice T p_daddr img),
      st_num = un_le16 (path_slice T p_num img),
      st_dport = un_le16 (rev (path_slice T p_dport img))\<rparr>"

definition relocated :: "bpf_ctx \<Rightarrow> ctype \<Rightarrow> string list \<Rightarrow> nat \<Rightarrow> bool" where
  "relocated ctx T path n \<longleftrightarrow>
     (case offset_path T path of Some (off, t) \<Rightarrow> reloc ctx path = off \<and> csize t = n | None \<Rightarrow> False)"

text \<open>\<open>sock_at ctx T sk img\<close>: kernel memory holds an object of type \<open>T\<close> with image \<open>img\<close> at \<open>sk\<close>.\<close>

definition sock_at :: "bpf_ctx \<Rightarrow> ctype \<Rightarrow> u64 \<Rightarrow> bytes \<Rightarrow> bool" where
  "sock_at ctx T sk img \<longleftrightarrow>
     wf_ctype T \<and> holds (kmem ctx) sk img \<and> length img = csize T \<and>
     relocated ctx T p_rcv_saddr 4 \<and> relocated ctx T p_daddr 4 \<and>
     relocated ctx T p_num 2 \<and> relocated ctx T p_dport 2"

lemma relocated_core_read:
  assumes "wf_ctype T" "holds (kmem ctx) sk img" "length img = csize T" "relocated ctx T path n"
  shows "core_read ctx sk path n = path_slice T path img" "length (path_slice T path img) = n"
proof -
  from assms(4) obtain off t where t: "offset_path T path = Some (off, t)" "reloc ctx path = off" "csize t = n"
    by (auto simp: relocated_def split: option.splits)
  show eq: "core_read ctx sk path n = path_slice T path img"
    using core_read_member [OF assms(1) t(1,2) assms(2,3)] t by (simp add: path_slice_def)
  show "length (path_slice T path img) = n"
    using eq length_core_read by metis
qed

lemma sock_at_reads:
  assumes "sock_at ctx T sk img"
  shows "core_read32 ctx sk p_rcv_saddr = st_saddr (sock_tuple_of T img)"
    and "core_read32 ctx sk p_daddr = st_daddr (sock_tuple_of T img)"
    and "core_read16 ctx sk p_num = st_num (sock_tuple_of T img)"
    and "bpf_ntohs (core_read16 ctx sk p_dport) = st_dport (sock_tuple_of T img)"
proof -
  have wf: "wf_ctype T" "holds (kmem ctx) sk img" "length img = csize T"
    and r: "relocated ctx T p_rcv_saddr 4" "relocated ctx T p_daddr 4"
      "relocated ctx T p_num 2" "relocated ctx T p_dport 2"
    using assms by (simp_all add: sock_at_def)
  note rd = relocated_core_read [OF wf]
  show "core_read32 ctx sk p_rcv_saddr = st_saddr (sock_tuple_of T img)"
    using rd(1) [OF r(1)] by (simp add: core_read32_def sock_tuple_of_def)
  show "core_read32 ctx sk p_daddr = st_daddr (sock_tuple_of T img)"
    using rd(1) [OF r(2)] by (simp add: core_read32_def sock_tuple_of_def)
  show "core_read16 ctx sk p_num = st_num (sock_tuple_of T img)"
    using rd(1) [OF r(3)] by (simp add: core_read16_def sock_tuple_of_def)
  show "bpf_ntohs (core_read16 ctx sk p_dport) = st_dport (sock_tuple_of T img)"
    using rd [OF r(4)] by (simp add: core_read16_def sock_tuple_of_def bpf_ntohs_def)
qed

text \<open>\<open>bpf_get_current_comm\<close> fills the whole buffer it is given.\<close>

definition comm_ok :: "bpf_ctx \<Rightarrow> bool" where
  "comm_ok ctx \<longleftrightarrow> (\<forall>n. length (current_comm ctx n) = n)"

section \<open>A memory holding one object\<close>

definition image_mem :: "u64 \<Rightarrow> bytes \<Rightarrow> mem" where
  "image_mem p bs = (\<lambda>a. if unat (a - p) < length bs then Some (bs ! unat (a - p)) else None)"

lemma holds_nth: "(\<forall>i < length bs. m (p + of_nat i) = Some (bs ! i)) \<Longrightarrow> holds m p bs"
proof (induction bs arbitrary: p)
  case (Cons b bs)
  have "m p = Some b" using Cons.prems by force
  moreover have "holds m (p + 1) bs"
  proof (rule Cons.IH, intro allI impI)
    fix i assume "i < length bs"
    then have "m (p + of_nat (Suc i)) = Some ((b # bs) ! Suc i)" using Cons.prems by fastforce
    then show "m (p + 1 + of_nat i) = Some (bs ! i)" by (simp add: algebra_simps)
  qed
  ultimately show ?case by simp
qed simp

lemma holds_image_mem: "length bs < 2 ^ 64 \<Longrightarrow> holds (image_mem p bs) p bs"
  by (rule holds_nth) (simp add: image_mem_def unat_of_nat)

text \<open>The relocation of the layout in \<open>vmlinux.h\<close> itself.\<close>

definition vmlinux_reloc :: "string list \<Rightarrow> nat" where
  "vmlinux_reloc path = (case offset_path struct_sock path of Some (off, t) \<Rightarrow> off | None \<Rightarrow> 0)"

lemma vmlinux_reloc_tuple:
  "vmlinux_reloc p_rcv_saddr = 4" "vmlinux_reloc p_daddr = 0"
  "vmlinux_reloc p_num = 14" "vmlinux_reloc p_dport = 12"
  unfolding vmlinux_reloc_def by (simp_all only: sock_tuple_offsets option.case prod.case)

lemma vmlinux_relocated:
  assumes "reloc ctx = vmlinux_reloc"
  shows "relocated ctx struct_sock p_rcv_saddr 4" "relocated ctx struct_sock p_daddr 4"
    "relocated ctx struct_sock p_num 2" "relocated ctx struct_sock p_dport 2"
  unfolding relocated_def assms vmlinux_reloc_tuple
  by (simp_all only: sock_tuple_offsets option.case prod.case layout_simps simp_thms)

lemma vmlinux_sock_at:
  assumes "reloc ctx = vmlinux_reloc" "kmem ctx = image_mem sk img" "length img = 768"
  shows "sock_at ctx struct_sock sk img"
  using vmlinux_relocated [OF assms(1)] holds_image_mem [of img sk] assms(2,3)
  by (simp add: sock_at_def layout_simps del: offset_path.simps)

text \<open>The image of a \<open>struct sock\<close> with a given tuple and zeroes elsewhere.\<close>

definition sock_image :: "sock_tuple \<Rightarrow> bytes" where
  "sock_image v = le32 (st_daddr v) @ le32 (st_saddr v) @ replicate 4 0 @ be16 (st_dport v) @
     le16 (st_num v) @ replicate 752 0"

lemma length_sock_image [simp]: "length (sock_image v) = 768"
  by (simp add: sock_image_def)

lemma path_slice_tuple:
  "path_slice struct_sock p_rcv_saddr img = take 4 (drop 4 img)"
  "path_slice struct_sock p_daddr img = take 4 img"
  "path_slice struct_sock p_num img = take 2 (drop 14 img)"
  "path_slice struct_sock p_dport img = take 2 (drop 12 img)"
  unfolding path_slice_def
  by (simp_all only: sock_tuple_offsets option.case prod.case layout_simps drop_0)

lemma sock_tuple_of_image [simp]: "sock_tuple_of struct_sock (sock_image v) = v"
  by (simp add: sock_tuple_of_def path_slice_tuple) (simp add: sock_image_def be16_def)

section \<open>A concrete context\<close>

text \<open>
  A kernel with one socket object at address 4096, laid out as in \<open>vmlinux.h\<close>, seen by a
  thread at some time. It is the input of the concrete runs of the development.
\<close>

definition example_ctx :: "sock_tuple \<Rightarrow> u64 \<Rightarrow> u64 \<Rightarrow> bpf_ctx" where
  "example_ctx v tid t =
     \<lparr>current_pid_tgid = tid, ktime_ns = t, current_comm = (\<lambda>n. replicate n 0),
      kmem = image_mem 4096 (sock_image v), umem = (\<lambda>_. None), reloc = vmlinux_reloc\<rparr>"

definition example_tuple :: "u16 \<Rightarrow> sock_tuple" where
  "example_tuple dport = \<lparr>st_saddr = 0x0100007F, st_daddr = 0x0200000A, st_num = 40000, st_dport = dport\<rparr>"

lemma example_sock_at: "sock_at (example_ctx v tid t) struct_sock 4096 (sock_image v)"
  by (rule vmlinux_sock_at) (simp_all add: example_ctx_def)

lemma example_ctx_simps [simp]:
  "current_pid_tgid (example_ctx v tid t) = tid" "ktime_ns (example_ctx v tid t) = t"
  "current_comm (example_ctx v tid t) n = replicate n 0"
  by (simp_all add: example_ctx_def)

lemma example_comm_ok [simp]: "comm_ok (example_ctx v tid t)"
  by (simp add: comm_ok_def)

lemma example_reads:
  "core_read32 (example_ctx v tid t) 4096 p_rcv_saddr = st_saddr v"
  "core_read32 (example_ctx v tid t) 4096 p_daddr = st_daddr v"
  "core_read16 (example_ctx v tid t) 4096 p_num = st_num v"
  "bpf_ntohs (core_read16 (example_ctx v tid t) 4096 p_dport) = st_dport v"
  using sock_at_reads [OF example_sock_at] by simp_all

end
