(* ===== verification/Bpf_Reference.thy ===== *)
theory Bpf_Reference
  imports Bpf_Helpers
begin

text \<open>
  Executable kernel-side objects that satisfy the contracts of \<open>Bpf_Helpers\<close>: a hash
  map with preallocated elements and a ring buffer of bounded size. They show that the
  contracts can be met and carry the concrete runs of the development.
\<close>

section \<open>A reference hash map\<close>

text \<open>
  Preallocated elements with a last-in first-out free list: a deleted element keeps its
  value until a later insertion takes its slot.
\<close>

record 'v refmap =
  rm_index :: "(u64 \<times> nat) list" \<comment> \<open>key to slot\<close>
  rm_free :: "nat list"
  rm_elems :: "nat \<Rightarrow> 'v"

definition refmap_empty :: "nat \<Rightarrow> 'v \<Rightarrow> 'v refmap" where
  "refmap_empty n v = \<lparr>rm_index = [], rm_free = [0..<n], rm_elems = (\<lambda>_. v)\<rparr>"

definition refmap_update :: "'v refmap \<Rightarrow> u64 \<Rightarrow> 'v \<Rightarrow> int \<times> 'v refmap" where
  "refmap_update m k v =
     (case map_of (rm_index m) k of
        Some p \<Rightarrow> (0, m\<lparr>rm_elems := (rm_elems m)(p := v)\<rparr>)
      | None \<Rightarrow>
          (case rm_free m of
             [] \<Rightarrow> (- 7, m)
           | p # ps \<Rightarrow> (0, \<lparr>rm_index = (k, p) # rm_index m, rm_free = ps,
                              rm_elems = (rm_elems m)(p := v)\<rparr>)))"

definition refmap_delete :: "'v refmap \<Rightarrow> u64 \<Rightarrow> int \<times> 'v refmap" where
  "refmap_delete m k =
     (case map_of (rm_index m) k of
        None \<Rightarrow> (- 2, m)
      | Some p \<Rightarrow> (0, m\<lparr>rm_index := filter (\<lambda>e. fst e \<noteq> k) (rm_index m),
                         rm_free := p # rm_free m\<rparr>))"

definition refmap_ops :: "('v refmap, 'v) hash_ops" where
  "refmap_ops = \<lparr>map_lookup_elem = (\<lambda>m. map_of (rm_index m)), map_update_elem = refmap_update,
     map_delete_elem = refmap_delete, value_load = rm_elems,
     value_store = (\<lambda>m p v. m\<lparr>rm_elems := (rm_elems m)(p := v)\<rparr>)\<rparr>"

definition refmap_inv :: "nat \<Rightarrow> 'v refmap \<Rightarrow> bool" where
  "refmap_inv n m \<longleftrightarrow> distinct (map fst (rm_index m)) \<and>
     distinct (map snd (rm_index m) @ rm_free m) \<and>
     length (rm_index m) + length (rm_free m) = n"

lemma refmap_contents: "contents refmap_ops m k = map_option (rm_elems m) (map_of (rm_index m) k)"
  by (simp add: contents_def refmap_ops_def)

lemma map_of_slot_inj:
  assumes "distinct (map snd xs)" "map_of xs k = Some p" "map_of xs j = Some p"
  shows "k = j"
  using inj_onD [of snd "set xs" "(k, p)" "(j, p)"] assms(1)
    map_of_SomeD [OF assms(2)] map_of_SomeD [OF assms(3)]
  by (simp add: distinct_map)

lemma map_of_filter_neq: "map_of (filter (\<lambda>e. fst e \<noteq> k) xs) = (map_of xs)(k := None)"
  by (induction xs) auto

lemma length_filter_key:
  assumes "distinct (map fst xs)" "map_of xs k = Some p"
  shows "Suc (length (filter (\<lambda>e. fst e \<noteq> k) xs)) = length xs"
  using assms
proof (induction xs)
  case (Cons e xs)
  show ?case
  proof (cases "fst e = k")
    case True
    have "fst e \<notin> fst ` set xs" using Cons.prems by simp
    with True have "filter (\<lambda>e. fst e \<noteq> k) xs = xs" by (auto simp: filter_id_conv image_iff intro!: filter_True)
    with True show ?thesis by simp
  next
    case False
    with Cons show ?thesis by auto
  qed
qed simp

lemma refmap_contents_set:
  assumes "refmap_inv n m" "map_of (rm_index m) k = Some p"
  shows "contents refmap_ops (m\<lparr>rm_elems := (rm_elems m)(p := v)\<rparr>) = (contents refmap_ops m)(k \<mapsto> v)"
proof
  fix j
  have "map_of (rm_index m) j = Some p \<Longrightarrow> j = k"
    using map_of_slot_inj [OF _ _ assms(2)] assms(1) by (auto simp: refmap_inv_def)
  with assms(2) show "contents refmap_ops (m\<lparr>rm_elems := (rm_elems m)(p := v)\<rparr>) j =
      ((contents refmap_ops m)(k \<mapsto> v)) j"
    by (cases "map_of (rm_index m) j") (auto simp: refmap_contents)
qed

lemma refmap_update_spec:
  assumes "refmap_inv n m" "refmap_update m k v = (r, m')"
  shows "refmap_inv n m' \<and> (r = 0 \<longrightarrow> contents refmap_ops m' = (contents refmap_ops m)(k \<mapsto> v)) \<and>
    (r \<noteq> 0 \<longrightarrow> contents refmap_ops m' = contents refmap_ops m)"
proof (cases "map_of (rm_index m) k")
  case (Some p)
  with assms have "r = 0" "m' = m\<lparr>rm_elems := (rm_elems m)(p := v)\<rparr>"
    by (simp_all add: refmap_update_def)
  with assms(1) refmap_contents_set [OF assms(1) Some] show ?thesis
    by (simp add: refmap_inv_def)
next
  case None
  show ?thesis
  proof (cases "rm_free m")
    case Nil
    with None assms show ?thesis by (auto simp: refmap_update_def)
  next
    case (Cons p ps)
    have notin: "p \<notin> snd ` set (rm_index m)" "k \<notin> fst ` set (rm_index m)"
      using assms(1) Cons None by (auto simp: refmap_inv_def map_of_eq_None_iff)
    then have "map_of (rm_index m) j \<noteq> Some p" for j
      by (force dest: map_of_SomeD)
    then have "contents refmap_ops m' = (contents refmap_ops m)(k \<mapsto> v)"
      using assms(2) None Cons
      by (auto simp: refmap_update_def refmap_contents fun_eq_iff split: option.splits
          intro!: option.map_cong)
    moreover have "m' = \<lparr>rm_index = (k, p) # rm_index m, rm_free = ps, rm_elems = (rm_elems m)(p := v)\<rparr>"
      using assms(2) None Cons by (simp add: refmap_update_def)
    then have "refmap_inv n m'"
      using notin assms(1) Cons by (simp add: refmap_inv_def Int_commute)
    moreover have "r = 0" using assms None Cons by (simp add: refmap_update_def)
    ultimately show ?thesis by simp
  qed
qed

lemma refmap_delete_spec:
  assumes "refmap_inv n m" "refmap_delete m k = (r, m')"
  shows "refmap_inv n m' \<and> contents refmap_ops m' = (contents refmap_ops m)(k := None)"
proof (cases "map_of (rm_index m) k")
  case None
  with assms show ?thesis by (auto simp: refmap_delete_def refmap_contents fun_eq_iff)
next
  case (Some p)
  let ?f = "filter (\<lambda>e. fst e \<noteq> k) (rm_index m)"
  have "p \<notin> snd ` set ?f"
  proof
    assume "p \<in> snd ` set ?f"
    then obtain j where j: "(j, p) \<in> set (rm_index m)" "j \<noteq> k" by auto
    then have "map_of (rm_index m) j = Some p" using assms(1) by (simp add: refmap_inv_def)
    then have "j = k" using map_of_slot_inj [OF _ _ Some] assms(1) by (auto simp: refmap_inv_def)
    with j show False by simp
  qed
  moreover have "p \<notin> set (rm_free m)"
    using assms(1) map_of_SomeD [OF Some] by (auto simp: refmap_inv_def)
  moreover have m': "m' = m\<lparr>rm_index := ?f, rm_free := p # rm_free m\<rparr>"
    using assms(2) Some by (simp add: refmap_delete_def)
  moreover have "snd ` set ?f \<inter> set (rm_free m) = {}"
    using assms(1) by (force simp: refmap_inv_def)
  ultimately have "refmap_inv n m'"
    using assms(1) length_filter_key [OF _ Some]
    by (simp add: refmap_inv_def distinct_map_filter)
  moreover have "contents refmap_ops m' = (contents refmap_ops m)(k := None)"
    using assms(2) Some by (auto simp: refmap_delete_def refmap_contents map_of_filter_neq fun_eq_iff)
  ultimately show ?thesis ..
qed

interpretation refmap: bpf_hash refmap_ops "refmap_inv n" for n
proof
  fix m :: "'a refmap" and k v r m'
  assume "refmap_inv n m" "map_update_elem refmap_ops m k v = (r, m')"
  then show "refmap_inv n m' \<and> (r = 0 \<longrightarrow> contents refmap_ops m' = (contents refmap_ops m)(k \<mapsto> v)) \<and>
      (r \<noteq> 0 \<longrightarrow> contents refmap_ops m' = contents refmap_ops m)"
    using refmap_update_spec by (simp add: refmap_ops_def)
next
  fix m :: "'a refmap" and k r m'
  assume "refmap_inv n m" "map_delete_elem refmap_ops m k = (r, m')"
  then show "refmap_inv n m' \<and> contents refmap_ops m' = (contents refmap_ops m)(k := None)"
    using refmap_delete_spec by (simp add: refmap_ops_def)
next
  fix m :: "'a refmap" and k p r m'
  assume "map_lookup_elem refmap_ops m k = Some p" "map_delete_elem refmap_ops m k = (r, m')"
  then show "value_load refmap_ops m' p = value_load refmap_ops m p"
    by (auto simp: refmap_ops_def refmap_delete_def)
next
  fix m :: "'a refmap" and k p v
  assume "refmap_inv n m" "map_lookup_elem refmap_ops m k = Some p"
  then show "refmap_inv n (value_store refmap_ops m p v) \<and>
      contents refmap_ops (value_store refmap_ops m p v) = (contents refmap_ops m)(k \<mapsto> v) \<and>
      value_load refmap_ops (value_store refmap_ops m p v) p = v \<and>
      map_lookup_elem refmap_ops (value_store refmap_ops m p v) = map_lookup_elem refmap_ops m"
    using refmap_contents_set [of n m k p v] by (simp add: refmap_ops_def refmap_inv_def)
qed


text \<open>While fewer than \<open>n\<close> keys are present a slot is free, and updates succeed.\<close>

lemma refmap_dom: "dom (contents refmap_ops m) = fst ` set (rm_index m)"
  by (auto simp: refmap_contents dom_map_of_conv_image_fst [symmetric] dom_def)

lemma refmap_card: "refmap_inv n m \<Longrightarrow> card (dom (contents refmap_ops m)) = length (rm_index m)"
  using distinct_card [of "map fst (rm_index m)"] by (simp add: refmap_dom refmap_inv_def)

interpretation refmap: bpf_hash_bounded refmap_ops "refmap_inv n" n for n
proof
  fix m :: "'a refmap" and k v
  assume inv: "refmap_inv n m"
    and room: "k \<in> dom (contents refmap_ops m) \<or> card (dom (contents refmap_ops m)) < n"
  show "fst (map_update_elem refmap_ops m k v) = 0"
  proof (cases "map_of (rm_index m) k")
    case (Some p)
    then show ?thesis by (simp add: refmap_ops_def refmap_update_def)
  next
    case None
    then have "k \<notin> dom (contents refmap_ops m)" by (simp add: refmap_contents domIff)
    with room refmap_card [OF inv] inv have "rm_free m \<noteq> []" by (auto simp: refmap_inv_def)
    with None show ?thesis by (auto simp: refmap_ops_def refmap_update_def neq_Nil_conv)
  qed
next
  fix m :: "'a refmap"
  assume inv: "refmap_inv n m"
  with refmap_card [OF inv] show "finite (dom (contents refmap_ops m)) \<and> card (dom (contents refmap_ops m)) \<le> n"
    by (auto simp: refmap_dom refmap_inv_def)
qed

lemma refmap_empty_inv [simp]: "refmap_inv n (refmap_empty n v)"
  by (simp add: refmap_inv_def refmap_empty_def)

section \<open>A reference ring buffer\<close>

text \<open>
  Samples in reservation order. Each takes an eight byte header and its size rounded up
  to eight bytes; a reservation that would exceed the size of the ring fails.
\<close>

record refring =
  rr_cap :: nat
  rr_next :: nat
  rr_samples :: "sample list"

definition sample_space :: "nat \<Rightarrow> nat" where
  "sample_space n = round_up (n + 8) 8"

definition refring_used :: "refring \<Rightarrow> nat" where
  "refring_used r = sum_list (map (\<lambda>s. sample_space (length (snd (snd s)))) (rr_samples r))"

definition refring_empty :: "nat \<Rightarrow> refring" where
  "refring_empty c = \<lparr>rr_cap = c, rr_next = 0, rr_samples = []\<rparr>"

definition refring_ops :: "refring ring_ops" where
  "refring_ops =
     \<lparr>ringbuf_reserve = (\<lambda>r n.
        if refring_used r + sample_space n \<le> rr_cap r
        then Some (rr_next r, r\<lparr>rr_next := Suc (rr_next r),
                               rr_samples := rr_samples r @ [(rr_next r, False, replicate n 0)]\<rparr>)
        else None),
      ringbuf_memcpy = (\<lambda>r p bs. r\<lparr>rr_samples := map (set_bytes p bs) (rr_samples r)\<rparr>),
      ringbuf_submit = (\<lambda>r p. r\<lparr>rr_samples := map (set_submitted p) (rr_samples r)\<rparr>)\<rparr>"

definition refring_inv :: "refring \<Rightarrow> bool" where
  "refring_inv r \<longleftrightarrow> (\<forall>s \<in> set (rr_samples r). fst s < rr_next r)"

lemma fst_set_bytes [simp]: "fst (set_bytes p bs s) = fst s"
  by (simp add: set_bytes_def)

lemma fst_set_submitted [simp]: "fst (set_submitted p s) = fst s"
  by (simp add: set_submitted_def)

interpretation refring: bpf_ring refring_ops refring_inv rr_samples
  by unfold_locales
    (auto simp: refring_ops_def refring_inv_def less_Suc_eq split: if_splits)

lemma refring_empty_inv [simp]: "refring_inv (refring_empty c)"
  by (simp add: refring_inv_def refring_empty_def)

text \<open>Fresh objects accept a key and an event.\<close>

lemma refmap_empty_update [simp]: "0 < n \<Longrightarrow> fst (map_update_elem refmap_ops (refmap_empty n v) k w) = 0"
  by (rule refmap.update_room) (simp_all add: refmap_card refmap_empty_def refmap_inv_def refmap_dom)

lemma refmap_empty_contents [simp]: "contents refmap_ops (refmap_empty n v) k = None"
  by (simp add: refmap_contents refmap_empty_def)

lemma refring_empty_samples [simp]: "rr_samples (refring_empty c) = []"
  by (simp add: refring_empty_def)

lemma refring_empty_reserve [simp]:
  "n + 16 \<le> c \<Longrightarrow> ringbuf_reserve refring_ops (refring_empty c) n \<noteq> None"
  using round_up_less [of 8 "n + 8"]
  by (simp add: refring_ops_def refring_used_def refring_empty_def sample_space_def)

lemma refring_reserve_iff:
  "ringbuf_reserve refring_ops r n \<noteq> None \<longleftrightarrow> refring_used r + sample_space n \<le> rr_cap r"
  by (simp add: refring_ops_def)

lemma refring_cap_keep [simp]: "rr_cap (snd (reserve_copy_submit refring_ops n bs r)) = rr_cap r"
  by (simp add: reserve_copy_submit_def refring_ops_def)

text \<open>An insertion after a deletion takes the slot of the deleted element.\<close>

lemma refmap_slot_reuse:
  assumes "map_lookup_elem refmap_ops m k = Some p" "j \<noteq> k" "map_lookup_elem refmap_ops m j = None"
  shows "value_load refmap_ops (snd (map_update_elem refmap_ops (snd (map_delete_elem refmap_ops m k)) j v)) p = v"
  using assms by (simp add: refmap_ops_def refmap_delete_def refmap_update_def map_of_filter_neq)

end
