(* ===== verification/Probe_Pair.thy ===== *)
theory Probe_Pair
  imports Prelude
begin

text \<open>
  The correlation pattern both the TCP tracker and the database probe use: an entry probe
  leaves a value under the calling thread's id, the return probe of the same thread takes
  it away. The locale states it for a step function over probe events; its lemmas hold for
  any interleaving of threads.
\<close>

fun run_steps :: "('e \<Rightarrow> 's \<Rightarrow> 's) \<Rightarrow> 'e list \<Rightarrow> 's \<Rightarrow> 's" where
  "run_steps f [] s = s"
| "run_steps f (e # es) s = run_steps f es (f e s)"

lemma run_steps_append: "run_steps f (xs @ ys) s = run_steps f ys (run_steps f xs s)"
  by (induction xs arbitrary: s) auto

text \<open>The last event of a thread in a sequence.\<close>

fun last_of :: "('e \<Rightarrow> u64) \<Rightarrow> u64 \<Rightarrow> 'e list \<Rightarrow> 'e option" where
  "last_of tid k [] = None"
| "last_of tid k (e # es) =
     (case last_of tid k es of Some x \<Rightarrow> Some x | None \<Rightarrow> if tid e = k then Some e else None)"

locale probe_pair =
  fixes step :: "'e \<Rightarrow> 's \<Rightarrow> 's" and tid :: "'e \<Rightarrow> u64" and is_return :: "'e \<Rightarrow> bool"
    and neutral :: "'e \<Rightarrow> bool" \<comment> \<open>events that leave all entries alone\<close>
    and pending :: "'s \<Rightarrow> u64 \<Rightarrow> 'v option" and sinv :: "'s \<Rightarrow> bool" and eok :: "'e \<Rightarrow> bool"
  assumes step_inv: "sinv s \<Longrightarrow> eok e \<Longrightarrow> sinv (step e s)"
    and step_other: "sinv s \<Longrightarrow> eok e \<Longrightarrow> k \<noteq> tid e \<Longrightarrow> pending (step e s) k = pending s k"
    and step_neutral: "sinv s \<Longrightarrow> eok e \<Longrightarrow> neutral e \<Longrightarrow> pending (step e s) = pending s"
    and return_clears: "sinv s \<Longrightarrow> eok e \<Longrightarrow> is_return e \<Longrightarrow> pending (step e s) (tid e) = None"
begin

lemma run_inv: "sinv s \<Longrightarrow> list_all eok es \<Longrightarrow> sinv (run_steps step es s)"
  by (induction es arbitrary: s) (auto simp: step_inv)

lemma run_other:
  "sinv s \<Longrightarrow> list_all eok es \<Longrightarrow> \<forall>e \<in> set es. tid e \<noteq> k \<Longrightarrow>
     pending (run_steps step es s) k = pending s k"
  by (induction es arbitrary: s) (auto simp: step_inv step_other)

text \<open>
  A thread has an entry only if its last probe event was not a return, or it had one at the
  start and no event since: every return removes the thread's entry.
\<close>

lemma pending_open:
  assumes "sinv s" "list_all eok es" "pending (run_steps step es s) k \<noteq> None"
  shows "case last_of tid k (filter (\<lambda>e. \<not> neutral e) es) of
      None \<Rightarrow> pending s k \<noteq> None | Some e \<Rightarrow> \<not> is_return e"
  using assms
proof (induction es arbitrary: s)
  case (Cons e es)
  have ok: "eok e" "list_all eok es" using Cons.prems(2) by simp_all
  note ih = Cons.IH [OF step_inv [OF Cons.prems(1) ok(1)] ok(2)]
  note step = step_other [OF Cons.prems(1) ok(1)] return_clears [OF Cons.prems(1) ok(1)]
    step_neutral [OF Cons.prems(1) ok(1)]
  show ?case
  proof (cases "last_of tid k (filter (\<lambda>e. \<not> neutral e) es)")
    case None
    then have "pending (step e s) k \<noteq> None" using ih Cons.prems(3) by simp
    then show ?thesis using None step by (cases "tid e = k") auto
  next
    case (Some x)
    then show ?thesis using ih Cons.prems(3) by simp
  qed
qed simp

lemma last_of_mem: "last_of tid k es = Some x \<Longrightarrow> x \<in> set es \<and> tid x = k"
  by (induction es) (auto split: option.splits if_splits)

text \<open>If the last relevant event of every thread is a return, no entry is left.\<close>

lemma all_returned_no_leak:
  assumes "sinv s" "list_all eok es" "\<forall>k. pending s k = None"
    and last: "\<forall>e \<in> set es. neutral e \<or>
      (\<exists>x. last_of tid (tid e) (filter (\<lambda>e. \<not> neutral e) es) = Some x \<and> is_return x)"
  shows "pending (run_steps step es s) k = None"
proof (rule ccontr)
  assume "pending (run_steps step es s) k \<noteq> None"
  note open' = pending_open [OF assms(1,2) this]
  show False
  proof (cases "last_of tid k (filter (\<lambda>e. \<not> neutral e) es)")
    case None
    with open' assms(3) show False by simp
  next
    case (Some x)
    from last_of_mem [OF Some] have "x \<in> set es" "\<not> neutral x" "tid x = k" by auto
    with Some last open' show False by fastforce
  qed
qed

end

end
