(* ===== verification/Ring_Probe.thy ===== *)
theory Ring_Probe
  imports Bpf_Reference Probe_Pair "HOL-Library.Sublist"
begin

text \<open>
  Programs that keep no state but a ring buffer: each call decides whether its socket is of
  interest and, if so, reserves, copies and submits one fixed-size record. The DNS mapper and
  the HTTP inspector are of this shape. The lemmas say what a sequence of calls leaves in the
  ring, with and without lost records.
\<close>

locale ring_probe = bpf_ring g rinv samples
  for g :: "'r ring_ops" and rinv :: "'r \<Rightarrow> bool" and samples :: "'r \<Rightarrow> sample list" +
  fixes handler :: "'e \<Rightarrow> 'r \<Rightarrow> int \<times> 'r" and wanted :: "'e \<Rightarrow> bool" and report :: "'e \<Rightarrow> bytes"
    and rsize :: nat
  assumes handler_eq: "handler e r =
      (0, if wanted e then snd (reserve_copy_submit g rsize (report e) r) else r)"
    and report_length: "wanted e \<Longrightarrow> length (report e) = rsize"
begin

lemma step_outcome:
  assumes "rinv r"
  shows "rinv (snd (handler e r)) \<and>
    (if \<not> wanted e \<or> ringbuf_reserve g r rsize = None then handler e r = (0, r)
     else \<exists>p. p \<notin> fst ` set (samples r) \<and> samples (snd (handler e r)) = samples r @ [(p, True, report e)])"
proof (cases "wanted e")
  case True
  obtain ok r' where ok: "reserve_copy_submit g rsize (report e) r = (ok, r')" by fastforce
  then have "ok \<longleftrightarrow> ringbuf_reserve g r rsize \<noteq> None"
    by (auto simp: reserve_copy_submit_def split: option.splits)
  with reserve_copy_submit_spec [OF assms, of "report e" ok r'] ok True report_length [OF True] show ?thesis
    by (cases ok) (auto simp: handler_eq)
qed (use assms in \<open>simp add: handler_eq\<close>)

text \<open>Every record added belongs to a call of interest, in call order, and is submitted.\<close>

lemma run_reports:
  assumes "rinv r"
  shows "rinv (run_steps (\<lambda>e r. snd (handler e r)) es r) \<and> (\<exists>new. samples (run_steps (\<lambda>e r. snd (handler e r)) es r) = samples r @ new \<and>
    subseq (map (\<lambda>x. snd (snd x)) new) (map report (filter wanted es)) \<and> list_all (\<lambda>x. fst (snd x)) new)"
  using assms
proof (induction es arbitrary: r)
  case (Cons e es)
  let ?r = "snd (handler e r)"
  have out: "rinv ?r" "samples ?r = samples r \<or> (\<exists>p. wanted e \<and> samples ?r = samples r @ [(p, True, report e)])"
    using step_outcome [OF Cons.prems, of e] by (auto split: if_splits)
  from Cons.IH [OF out(1)] obtain new where new: "rinv (run_steps (\<lambda>e r. snd (handler e r)) es ?r)" "samples (run_steps (\<lambda>e r. snd (handler e r)) es ?r) = samples ?r @ new"
    "subseq (map (\<lambda>x. snd (snd x)) new) (map report (filter wanted es))" "list_all (\<lambda>x. fst (snd x)) new" by blast
  from out(2) show ?case
  proof
    assume "samples ?r = samples r"
    with new show ?thesis by (auto intro: list_emb_Cons)
  next
    assume "\<exists>p. wanted e \<and> samples ?r = samples r @ [(p, True, report e)]"
    then obtain p where "wanted e" "samples ?r = samples r @ [(p, True, report e)]" by blast
    with new show ?thesis by (auto intro!: exI [of _ "(p, True, report e) # new"])
  qed
qed auto

lemma run_decoded:
  assumes "rinv r" and dec: "\<And>e. wanted e \<Longrightarrow> dec (report e) = ev e"
  shows "\<exists>new. samples (run_steps (\<lambda>e r. snd (handler e r)) es r) = samples r @ new \<and>
    list_all (\<lambda>x. fst (snd x)) new \<and> subseq (map (\<lambda>x. dec (snd (snd x))) new) (map ev (filter wanted es))"
proof -
  obtain new where new: "samples (run_steps (\<lambda>e r. snd (handler e r)) es r) = samples r @ new"
    "list_all (\<lambda>x. fst (snd x)) new" "subseq (map (\<lambda>x. snd (snd x)) new) (map report (filter wanted es))"
    using run_reports [OF assms(1), of es] by blast
  have "subseq (map dec (map (\<lambda>x. snd (snd x)) new)) (map dec (map report (filter wanted es)))"
    by (rule subseq_map [OF new(3)])
  also have "map dec (map report (filter wanted es)) = map ev (filter wanted es)"
    by (simp add: dec)
  finally show ?thesis using new(1,2) by (auto simp: comp_def)
qed

text \<open>With room at every step nothing is lost.\<close>

lemma run_complete:
  assumes "rinv r" "\<forall>k < length es. ringbuf_reserve g (run_steps (\<lambda>e r. snd (handler e r)) (take k es) r) rsize \<noteq> None"
  shows "\<exists>new. samples (run_steps (\<lambda>e r. snd (handler e r)) es r) = samples r @ new \<and> map (\<lambda>x. snd (snd x)) new = map report (filter wanted es)"
  using assms
proof (induction es arbitrary: r)
  case (Cons e es)
  let ?r = "snd (handler e r)"
  have "ringbuf_reserve g r rsize \<noteq> None" using Cons.prems(2) by force
  then have out: "rinv ?r" "if wanted e then \<exists>p. samples ?r = samples r @ [(p, True, report e)] else samples ?r = samples r"
    using step_outcome [OF Cons.prems(1), of e] by (auto split: if_splits)
  have "\<forall>k < length es. ringbuf_reserve g (run_steps (\<lambda>e r. snd (handler e r)) (take k es) ?r) rsize \<noteq> None"
  proof (intro allI impI)
    fix k assume "k < length es"
    then show "ringbuf_reserve g (run_steps (\<lambda>e r. snd (handler e r)) (take k es) ?r) rsize \<noteq> None"
      using Cons.prems(2) [rule_format, of "Suc k"] by simp
  qed
  from Cons.IH [OF out(1) this] obtain new where new: "samples (run_steps (\<lambda>e r. snd (handler e r)) es ?r) = samples ?r @ new"
    "map (\<lambda>x. snd (snd x)) new = map report (filter wanted es)" by blast
  with out(2) show ?case by (auto split: if_splits)
qed simp

end

end
