(* ===== verification/Http_Inspector.thy ===== *)
theory Http_Inspector
  imports Wire Sock_Access Ring_Probe
begin

text \<open>
  \<open>http_inspector.bpf.c\<close>: one kprobe on \<open>tcp_sendmsg\<close> that reports messages to common HTTP
  and HTTPS ports into the ring buffer \<open>http_events\<close>. Host, path, method and status are left
  zero.
\<close>

section \<open>Program\<close>

definition is_http_port :: "u16 \<Rightarrow> bool" where
  "is_http_port port \<longleftrightarrow> port = 80 \<or> port = 8080 \<or> port = 8000 \<or> port = 3000 \<or> port = 5000"

definition is_https_port :: "u16 \<Rightarrow> bool" where
  "is_https_port port \<longleftrightarrow> port = 443 \<or> port = 8443"

definition handle_tcp_sendmsg ::
  "'r ring_ops \<Rightarrow> bpf_ctx \<Rightarrow> u64 \<Rightarrow> u64 \<Rightarrow> u64 \<Rightarrow> 'r \<Rightarrow> int \<times> 'r" where
  "handle_tcp_sendmsg g ctx sk msg sz r =
     (let evt = http_event_zero;
          dport = bpf_ntohs (core_read16 ctx sk p_dport);
          is_http = is_http_port dport;
          is_https = is_https_port dport
      in if \<not> is_http \<and> \<not> is_https then (0, r)
         else
           (let tid = current_pid_tgid ctx;
                evt = evt\<lparr>he_pid := hi32 tid\<rparr>;
                saddr = core_read32 ctx sk p_rcv_saddr;
                daddr = core_read32 ctx sk p_daddr;
                sport = core_read16 ctx sk p_num;
                evt = evt\<lparr>he_timestamp_ns := ktime_ns ctx,
                          he_event_type := event_code (if is_https then EVENT_HTTPS_SNI else EVENT_HTTP_REQUEST),
                          he_src_ip := saddr, he_dst_ip := daddr, he_src_port := sport, he_dst_port := dport,
                          he_status_code := 0, he_method := 0, he_pad := 0\<rparr>
            in case ringbuf_reserve g r (csize struct_http_event) of
                 None \<Rightarrow> (0, r)
               | Some (ring_evt, r1) \<Rightarrow>
                   (let r2 = ringbuf_memcpy g r1 ring_evt (http_event_bytes evt);
                        r3 = ringbuf_submit g r2 ring_evt
                    in (0, r3))))"

section \<open>What the program reports\<close>

definition http_wanted :: "bpf_ctx \<Rightarrow> u64 \<Rightarrow> bool" where
  "http_wanted ctx sk \<longleftrightarrow>
     (let dport = bpf_ntohs (core_read16 ctx sk p_dport) in is_http_port dport \<or> is_https_port dport)"

definition http_report :: "bpf_ctx \<Rightarrow> u64 \<Rightarrow> http_event" where
  "http_report ctx sk =
     (let dport = bpf_ntohs (core_read16 ctx sk p_dport) in
      \<lparr>he_timestamp_ns = ktime_ns ctx,
       he_event_type = event_code (if is_https_port dport then EVENT_HTTPS_SNI else EVENT_HTTP_REQUEST),
       he_pid = hi32 (current_pid_tgid ctx),
       he_src_ip = core_read32 ctx sk p_rcv_saddr, he_dst_ip = core_read32 ctx sk p_daddr,
       he_src_port = core_read16 ctx sk p_num, he_dst_port = dport,
       he_status_code = 0, he_method = 0, he_pad = 0,
       he_host = replicate 128 0, he_path = replicate 128 0\<rparr>)"

lemma http_report_ok [simp]: "http_event_ok (http_report ctx sk)"
  by (simp add: http_report_def http_event_ok_def event_simps Let_def)

lemma handle_tcp_sendmsg_eq:
  "handle_tcp_sendmsg g ctx sk msg sz r =
     (0, if http_wanted ctx sk
         then snd (reserve_copy_submit g (csize struct_http_event) (http_event_bytes (http_report ctx sk)) r)
         else r)"
  by (simp add: handle_tcp_sendmsg_def http_wanted_def http_report_def http_event_zero_def Let_def
      reserve_copy_submit_def MAX_HTTP_HOST_LEN_def MAX_HTTP_PATH_LEN_def split: option.splits prod.splits)

type_synonym send_call = "bpf_ctx \<times> u64 \<times> u64 \<times> u64"

definition send_call :: "'r ring_ops \<Rightarrow> send_call \<Rightarrow> 'r \<Rightarrow> int \<times> 'r" where
  "send_call g e r = (case e of (ctx, sk, msg, sz) \<Rightarrow> handle_tcp_sendmsg g ctx sk msg sz r)"

sublocale bpf_ring \<subseteq> http: ring_probe g rinv samples "send_call g"
  "\<lambda>(ctx, sk, msg, sz). http_wanted ctx sk" "\<lambda>(ctx, sk, msg, sz). http_event_bytes (http_report ctx sk)"
  "csize struct_http_event"
  by unfold_locales
    (auto simp: send_call_def handle_tcp_sendmsg_eq event_bytes_length(3) simp del: event_struct_sizes)

context bpf_ring
begin

lemmas http_step_outcome = http.step_outcome
lemmas http_run_reports = http.run_reports
lemmas http_run_decoded = http.run_decoded

end

section \<open>Properties\<close>

text \<open>
  C37. One message: the program always returns 0. It leaves the ring alone unless the destination
  port is one of 80, 8080, 8000, 3000, 5000 (type HTTP\_REQUEST) or 443, 8443 (type
  HTTPS\_SNI) and the ring has room; then it adds exactly one submitted record with the
  socket's 4-tuple and zeroes for status, method, host and path.
\<close>

theorem http_message_reported:
  assumes ring: "bpf_ring g rinv samples" and inv: "rinv r" and sock: "sock_at ctx T sk img"
    and v: "v = sock_tuple_of T img" and run: "handle_tcp_sendmsg g ctx sk msg sz r = (rc, r')"
  shows "rc = 0 \<and> rinv r' \<and>
    (if st_dport v \<notin> {80, 8080, 8000, 3000, 5000, 443, 8443} \<or> ringbuf_reserve g r 288 = None then r' = r
     else \<exists>p. samples r' = samples r @ [(p, True, http_event_bytes
        \<lparr>he_timestamp_ns = ktime_ns ctx, he_event_type = (if st_dport v \<in> {443, 8443} then 6 else 5),
         he_pid = hi32 (current_pid_tgid ctx),
         he_src_ip = st_saddr v, he_dst_ip = st_daddr v, he_src_port = st_num v, he_dst_port = st_dport v,
         he_status_code = 0, he_method = 0, he_pad = 0,
         he_host = replicate 128 0, he_path = replicate 128 0\<rparr>)])"
proof -
  have report: "http_report ctx sk =
        \<lparr>he_timestamp_ns = ktime_ns ctx, he_event_type = (if st_dport v \<in> {443, 8443} then 6 else 5),
         he_pid = hi32 (current_pid_tgid ctx),
         he_src_ip = st_saddr v, he_dst_ip = st_daddr v, he_src_port = st_num v, he_dst_port = st_dport v,
         he_status_code = 0, he_method = 0, he_pad = 0,
         he_host = replicate 128 0, he_path = replicate 128 0\<rparr>"
    by (simp add: http_report_def sock_at_reads [OF sock] v is_https_port_def Let_def)
  have wanted: "http_wanted ctx sk \<longleftrightarrow> st_dport v \<in> {80, 8080, 8000, 3000, 5000, 443, 8443}"
    by (simp add: http_wanted_def sock_at_reads [OF sock] v is_http_port_def is_https_port_def Let_def)
  have result: "rc = 0" "r' = snd (send_call g (ctx, sk, msg, sz) r)"
    using run by (simp_all add: send_call_def handle_tcp_sendmsg_eq split: if_splits)
  from bpf_ring.http_step_outcome [OF ring inv, of "(ctx, sk, msg, sz)"] show ?thesis
    unfolding result report wanted prod.case event_struct_sizes by (auto split: if_splits)
qed

theorem http_message_reported_witness:
  "\<exists>p r'. handle_tcp_sendmsg refring_ops (example_ctx (example_tuple 8443) (mk_pid_tgid 12 13) 5) 4096 0 40
       (refring_empty RING_BUFFER_SIZE) = (0, r') \<and>
     rr_samples r' = [(p, True, http_event_bytes
       \<lparr>he_timestamp_ns = 5, he_event_type = 6, he_pid = 12, he_src_ip = 0x0100007F, he_dst_ip = 0x0200000A,
        he_src_port = 40000, he_dst_port = 8443, he_status_code = 0, he_method = 0, he_pad = 0,
        he_host = replicate 128 0, he_path = replicate 128 0\<rparr>)]"
proof -
  let ?r = "refring_empty RING_BUFFER_SIZE" and ?c = "example_ctx (example_tuple 8443) (mk_pid_tgid 12 13) 5"
  obtain rc r' where run: "handle_tcp_sendmsg refring_ops ?c 4096 0 40 ?r = (rc, r')" by fastforce
  have "ringbuf_reserve refring_ops ?r 288 \<noteq> None" by (simp add: RING_BUFFER_SIZE_def del: not_None_eq)
  then show ?thesis
    using http_message_reported [OF refring.bpf_ring_axioms refring_empty_inv example_sock_at refl run] run
    by (simp add: example_tuple_def del: not_None_eq)
qed

text \<open>
  A sequence of messages: the records added are submitted, in call order, each belongs to a
  call on a socket with an HTTP or HTTPS port, and nothing is reported twice.
\<close>

lemma http_stream_in_order:
  assumes "bpf_ring g rinv samples" "rinv r"
  shows "\<exists>new. samples (run_steps (\<lambda>e r. snd (send_call g e r)) calls r) = samples r @ new \<and>
    list_all (\<lambda>x. fst (snd x)) new \<and>
    subseq (map (\<lambda>x. read_HttpEventRaw (snd (snd x))) new)
      (map (\<lambda>(ctx, sk, msg, sz). http_report ctx sk) (filter (\<lambda>(ctx, sk, msg, sz). http_wanted ctx sk) calls))"
  by (rule bpf_ring.http_run_decoded [OF assms]) (auto simp: http_wire.dec_enc)

lemma http_stream_in_order_example:
  "\<exists>new. rr_samples (run_steps (\<lambda>e r. snd (send_call refring_ops e r))
       [(example_ctx (example_tuple 80) 7 1, 4096, 0, 40), (example_ctx (example_tuple 22) 7 2, 4096, 0, 40)]
       (refring_empty RING_BUFFER_SIZE)) = new \<and>
     subseq (map (\<lambda>x. read_HttpEventRaw (snd (snd x))) new) [http_report (example_ctx (example_tuple 80) 7 1) 4096]"
  using http_stream_in_order [OF refring.bpf_ring_axioms refring_empty_inv,
      of "[(example_ctx (example_tuple 80) 7 1, 4096, 0, 40), (example_ctx (example_tuple 22) 7 2, 4096, 0, 40)]"
        RING_BUFFER_SIZE]
  by (simp add: http_wanted_def example_reads example_tuple_def is_http_port_def is_https_port_def Let_def
      del: run_steps.simps)

end
