(* ===== verification/Http_Consumer.thy ===== *)
theory Http_Consumer
  imports Sni Http_Inspector
begin

text \<open>
  \<open>http_inspector.rs\<close>: the request and response parsers, the conversion of an HTTP record and its payload
  into a network event, and the ring buffer callback with its bounded queue. A line's lower case
  form starts with \<open>host:\<close> exactly if its first five characters do up to ASCII case, since no
  character outside ASCII has one of these letters as its lower case form.
\<close>

section \<open>The request parser\<close>

definition is_host_line :: "rstring \<Rightarrow> bool" where
  "is_host_line line \<longleftrightarrow> map ascii_lower (take 5 line) = lit ''host:''"

record HttpRequest_parsed =
  hr_method :: u8
  hr_path :: rstring
  hr_host :: rstring
  hr_http_version :: rstring

definition method_code :: "rstring \<Rightarrow> u8" where
  "method_code m =
     (if m = lit ''GET'' then 1 else if m = lit ''POST'' then 2 else if m = lit ''PUT'' then 3
      else if m = lit ''DELETE'' then 4 else if m = lit ''PATCH'' then 5 else if m = lit ''HEAD'' then 6
      else if m = lit ''OPTIONS'' then 7 else 0)"

definition method_name :: "u8 \<Rightarrow> rstring" where
  "method_name m =
     (if m = 1 then lit ''GET'' else if m = 2 then lit ''POST'' else if m = 3 then lit ''PUT''
      else if m = 4 then lit ''DELETE'' else if m = 5 then lit ''PATCH'' else if m = 6 then lit ''HEAD''
      else if m = 7 then lit ''OPTIONS'' else lit ''UNKNOWN'')"

definition parse_request :: "bytes \<Rightarrow> HttpRequest_parsed option" where
  "parse_request data =
     (case from_utf8 data of
        None \<Rightarrow> None
      | Some text \<Rightarrow>
          (case str_lines text of
             [] \<Rightarrow> None
           | first_line # _ \<Rightarrow>
               (let parts = split_whitespace first_line in
                if length parts < 3 then None
                else
                  (let host = (case find is_host_line (str_lines text) of
                        Some line \<Rightarrow> trim (drop 5 line) | None \<Rightarrow> [])
                   in Some \<lparr>hr_method = method_code (parts ! 0), hr_path = parts ! 1, hr_host = host,
                            hr_http_version = parts ! 2\<rparr>))))"

definition parse_response :: "bytes \<Rightarrow> u16 option" where
  "parse_response data =
     (case from_utf8 data of
        None \<Rightarrow> None
      | Some text \<Rightarrow>
          (case str_lines text of
             [] \<Rightarrow> None
           | first_line # _ \<Rightarrow>
               if \<not> starts_with (lit ''HTTP/'') first_line then None
               else
                 (let parts = splitn 3 (of_char CHR '' '') first_line in
                  if length parts < 2 then None
                  else map_option of_nat (parse_uint 10 16 (parts ! 1)))))"

section \<open>The consumer\<close>

text \<open>The outer option is None where the extractor would panic.\<close>

definition http_process_event :: "u16 list \<Rightarrow> http_event \<Rightarrow> bytes \<Rightarrow> NetworkEvent option option" where
  "http_process_event exclude_ports raw payload =
     (if he_src_port raw \<in> set exclude_ports then Some None
      else if he_event_type raw = 5 then
        (case parse_request payload of
           None \<Rightarrow> Some None
         | Some req \<Rightarrow> Some (Some (HttpRequest (method_name (hr_method req)) (hr_path req) 0 0
             (format_ip (he_src_ip raw)) (format_ip (he_dst_ip raw)) (he_dst_port raw) (he_pid raw))))
      else if he_event_type raw = 6 then
        (case extract_sni payload of
           None \<Rightarrow> None
         | Some None \<Rightarrow> Some None
         | Some (Some hostname) \<Rightarrow> Some (Some (HttpRequest (lit ''TLS'') [] 0 0
             (format_ip (he_src_ip raw)) (format_ip (he_dst_ip raw)) (he_dst_port raw) (he_pid raw))))
      else Some None)"

definition MAX_EVENT_QUEUE :: nat where
  "MAX_EVENT_QUEUE = 4096"

definition handle_http_event ::
  "(bytes \<Rightarrow> http_event option) \<Rightarrow> u16 list \<Rightarrow> bytes \<Rightarrow> NetworkEvent list \<Rightarrow> (int \<times> NetworkEvent list) option" where
  "handle_http_event from_bytes exclude_ports data events =
     (let struct_size = csize HttpEventRaw in
      if length data < struct_size then Some (0, events)
      else
        (case from_bytes data of
           None \<Rightarrow> Some (0, events)
         | Some raw \<Rightarrow>
             if he_src_port raw \<in> set exclude_ports \<or> he_dst_port raw \<in> set exclude_ports then Some (0, events)
             else
               (let payload = (if length data > struct_size then drop struct_size data else []) in
                case http_process_event exclude_ports raw payload of
                  None \<Rightarrow> None
                | Some None \<Rightarrow> Some (0, events)
                | Some (Some event) \<Rightarrow>
                    (let guard = (if length events \<ge> MAX_EVENT_QUEUE then tl events else events)
                     in Some (0, guard @ [event])))))"

lemma size_HttpEventRaw [simp]: "csize HttpEventRaw = 288"
  by (simp add: HttpEventRaw_def layout_simps)

lemma http_process_event_total: "http_process_event ports raw payload \<noteq> None"
  using extract_sni_total [of payload] by (auto simp: http_process_event_def split: option.splits)

lemma parse_request_empty: "parse_request [] = None"
  by (simp add: parse_request_def str_lines_def)

lemma extract_sni_empty: "extract_sni [] = Some None"
  by (simp add: extract_sni_def)

lemma no_payload_no_event: "http_process_event ports raw [] = Some None"
  by (simp add: http_process_event_def parse_request_empty extract_sni_empty)

text \<open>Consuming the records of the ring in order.\<close>

fun consume_http :: "(bytes \<Rightarrow> http_event option) \<Rightarrow> u16 list \<Rightarrow> bytes list \<Rightarrow> NetworkEvent list \<Rightarrow> NetworkEvent list option" where
  "consume_http fb ports [] events = Some events"
| "consume_http fb ports (d # ds) events =
     (case handle_http_event fb ports d events of
        None \<Rightarrow> None
      | Some (_, events') \<Rightarrow> consume_http fb ports ds events')"

lemma bare_record_ignored:
  assumes "length d = 288"
  shows "handle_http_event fb ports d events = Some (0, events)"
  using assms by (simp add: handle_http_event_def no_payload_no_event Let_def split: option.splits)

lemma consume_bare_records: "list_all (\<lambda>d. length d = 288) ds \<Longrightarrow> consume_http fb ports ds events = Some events"
  by (induction ds) (simp_all add: bare_record_ignored)

lemma handle_http_event_bounded:
  assumes "length events \<le> MAX_EVENT_QUEUE"
  shows "\<exists>rc events'. handle_http_event fb ports d events = Some (rc, events') \<and> length events' \<le> MAX_EVENT_QUEUE"
  using assms
  by (auto simp: handle_http_event_def MAX_EVENT_QUEUE_def Let_def http_process_event_total split: option.splits)

definition drain_http :: "NetworkEvent list \<Rightarrow> NetworkEvent list \<times> NetworkEvent list" where
  "drain_http events = (events, [])"

text \<open>Every sample the kernel program leaves in a ring that was empty is the bare event.\<close>

lemma http_samples_bare:
  assumes ring: "bpf_ring g rinv samples" "rinv r" and empty: "samples r = []"
    and run: "r' = run_steps (\<lambda>e r. snd (send_call g e r)) calls r"
    and d: "d \<in> set (map (\<lambda>x. snd (snd x)) (samples r'))"
  shows "length d = 288"
proof -
  let ?rep = "\<lambda>(ctx, sk, msg :: u64, sz :: u64). http_event_bytes (http_report ctx sk)"
  let ?want = "\<lambda>(ctx, sk, msg :: u64, sz :: u64). http_wanted ctx sk"
  obtain new where new: "samples (run_steps (\<lambda>e r. snd (send_call g e r)) calls r) = samples r @ new"
    "subseq (map (\<lambda>x. snd (snd x)) new) (map ?rep (filter ?want calls))"
    using bpf_ring.http_run_reports [OF ring, of calls] by blast
  have "d \<in> set (map (\<lambda>x. snd (snd x)) new)" using d new(1) empty run by simp
  then obtain y where "y \<in> set (map ?rep (filter ?want calls))" "d = y" using list_emb_set [OF new(2)] by blast
  then show ?thesis using http_wire.enc_length [OF http_report_ok] by auto
qed

section \<open>Properties\<close>

text \<open>
  No HTTP record of the kernel program becomes a network event: run the program on any
  sequence of messages from an empty ring and hand every sample of the ring to the agent's
  callback. The queue is what it was before, because a sample is exactly the 288 bytes of the
  event and the agent looks for the request or the ClientHello after them.
\<close>

lemma http_events_never_surface:
  assumes ring: "bpf_ring g rinv samples" "rinv r" and empty: "samples r = []"
    and run: "r' = run_steps (\<lambda>e r. snd (send_call g e r)) calls r"
  shows "consume_http fb ports (map (\<lambda>x. snd (snd x)) (samples r')) events = Some events"
  using http_samples_bare [OF ring empty run] by (intro consume_bare_records) (auto simp: list_all_iff)

lemma http_events_never_surface_example:
  "consume_http (plain_cast read_HttpEventRaw 288) []
     (map (\<lambda>x. snd (snd x)) (rr_samples (run_steps (\<lambda>e r. snd (send_call refring_ops e r))
       [(example_ctx (example_tuple 80) 7 1, 4096, 0, 40), (example_ctx (example_tuple 443) 9 2, 4096, 0, 40)]
       (refring_empty RING_BUFFER_SIZE)))) [] = Some []"
  by (rule http_events_never_surface [OF refring.bpf_ring_axioms refring_empty_inv _ refl]) simp

text \<open>
  The queue is bounded and the callback never panics: whatever records arrive, in whatever
  number, the agent's queue never holds more than 4096 events.
\<close>

lemma http_queue_bounded:
  assumes "length events \<le> 4096"
  shows "\<exists>events'. consume_http fb ports ds events = Some events' \<and> length events' \<le> 4096"
  using assms
proof (induction ds arbitrary: events)
  case (Cons d ds)
  obtain rc ev where "handle_http_event fb ports d events = Some (rc, ev)" "length ev \<le> 4096"
    using handle_http_event_bounded [of events fb ports d] Cons.prems by (auto simp: MAX_EVENT_QUEUE_def)
  with Cons.IH show ?case by simp
qed simp

lemma http_queue_bounded_example:
  "\<exists>events'. consume_http (plain_cast read_HttpEventRaw 288) [] [replicate 288 0, [1, 2]] [] = Some events' \<and>
     length events' \<le> 4096"
  by (rule http_queue_bounded) simp

text \<open>
  What the consumer does with a payload: a record of type HTTPS\_SNI followed by a TLS
  ClientHello whose server name is UTF-8 adds one TLS event with the addresses, port and process
  of the record to a queue that is not full, unless a port is excluded.
\<close>

lemma http_payload_surfaces:
  assumes plain: "plain_view fb read_HttpEventRaw 288" and ok: "http_event_ok e"
    and kind: "he_event_type e = event_code EVENT_HTTPS_SNI"
    and ports: "he_src_port e \<notin> set ports" "he_dst_port e \<notin> set ports"
    and name: "extract_sni hello = Some (Some host)" and room: "length events < 4096"
  shows "handle_http_event fb ports (http_event_bytes e @ hello) events =
    Some (0, events @ [HttpRequest (lit ''TLS'') [] 0 0 (format_ip (he_src_ip e)) (format_ip (he_dst_ip e))
      (he_dst_port e) (he_pid e)])"
proof -
  have len: "length (http_event_bytes e) = 288" using http_wire.enc_length [OF ok] .
  have fb: "fb (http_event_bytes e @ hello) = Some e"
    using plain_view.view [OF plain] http_wire.dec_enc [OF ok] len by simp
  have "hello \<noteq> []" using name extract_sni_empty by auto
  then show ?thesis
    using kind ports name room len fb
    by (simp add: handle_http_event_def http_process_event_def MAX_EVENT_QUEUE_def Let_def)
qed

lemma http_payload_surfaces_example:
  "handle_http_event (plain_cast read_HttpEventRaw 288) [] (http_event_bytes (http_event_zero\<lparr>he_event_type := 6\<rparr>) @
     (tls_record 1 (client_hello_body (replicate 34 0) [] [0x13, 0x01] [0]
       (extension (0, server_name [0x61]))))) [] =
   Some (0, [HttpRequest (lit ''TLS'') [] 0 0 (format_ip 0) (format_ip 0) 0 0])"
proof -
  let ?exts = "extension (0, server_name [0x61])"
  let ?h = "tls_record 1 (client_hello_body (replicate 34 0) [] [0x13, 0x01] [0] ?exts)"
  have h: "?h = tls_record 1 (client_hello_body (replicate 34 0) [] [0x13, 0x01] [0] ?exts) @ []"
    and e: "?exts = concat (map extension []) @ extension (0, server_name [0x61]) @ []" by simp_all
  have "length (client_hello_body (replicate 34 0) [] [0x13, 0x01] [0] ?exts) < 65532"
    by (simp add: client_hello_body_def extension_def server_name_def)
  then have "extract_sni ?h = Some (from_utf8 [0x61])"
    by (intro extract_sni_hello [OF h e]) simp_all
  then have name: "extract_sni ?h = Some (Some [0x61])" using from_utf8_ascii [of "[0x61]"] by simp
  have ok: "http_event_ok (http_event_zero\<lparr>he_event_type := 6\<rparr>)"
    by (simp add: http_event_ok_def event_simps)
  show ?thesis
    using http_payload_surfaces [OF plain_cast.plain_view_axioms ok _ _ _ name, of "[]" "[]"]
    by (simp add: http_event_zero_def)
qed

end
