(* ===== verification/Http_Messages.thy ===== *)
theory Http_Messages
  imports Http_Consumer
begin

text \<open>
  The parsers of \<open>http_inspector.rs\<close> on the text of HTTP/1.1 messages: the text of a request with its
  host line and the text of a response with its status line, and that the parsers read their parts back.
\<close>

definition request_text :: "rstring \<Rightarrow> rstring \<Rightarrow> rstring \<Rightarrow> rstring \<Rightarrow> rstring \<Rightarrow> rstring" where
  "request_text m path version host rest =
     join_with (lit '' '') [m, path, version] @ 13 # 10 # (lit ''Host: '' @ host) @ 13 # 10 # rest"

definition response_text :: "rstring \<Rightarrow> nat \<Rightarrow> rstring \<Rightarrow> rstring \<Rightarrow> rstring" where
  "response_text version status reason rest =
     (lit ''HTTP/'' @ version @ 32 # decimal status @ 32 # reason) @ 13 # 10 # rest"

definition http_methods :: "string list" where
  "http_methods = [''GET'', ''POST'', ''PUT'', ''DELETE'', ''PATCH'', ''HEAD'', ''OPTIONS'']"

abbreviation utf8_text :: "rstring \<Rightarrow> bytes" where
  "utf8_text s \<equiv> concat (map utf8_enc s)"

lemma word_no_lf: "is_word w \<Longrightarrow> 10 \<notin> set w"
proof
  assume "is_word w" "10 \<in> set w"
  then have "\<not> is_whitespace 10" by (simp add: is_word_def list_all_iff)
  then show False by (simp add: is_whitespace_def)
qed

lemma decimal_between: "c \<in> set (decimal n) \<Longrightarrow> 48 \<le> c \<and> c \<le> 57"
  using decimal_digits [of n] by (simp add: list_all_iff)

lemma method_of_name:
  assumes "m \<in> set http_methods"
  shows "is_word (lit m) \<and> method_name (method_code (lit m)) = lit m \<and> method_code (lit m) \<noteq> 0 \<and>
    \<not> is_host_line (lit m @ 32 # s)"
  using assms
  by (auto simp: http_methods_def is_word_def is_whitespace_def method_code_def method_name_def is_host_line_def ascii_lower_def)

lemma parse_request_text:
  assumes m: "m \<in> set http_methods" and path: "is_word path" and version: "is_word version"
    and host: "10 \<notin> set host" "trim host = host"
    and scalars: "list_all scalar_value (request_text (lit m) path version host rest)"
  shows "parse_request (utf8_text (request_text (lit m) path version host rest)) =
    Some \<lparr>hr_method = method_code (lit m), hr_path = path, hr_host = host, hr_http_version = version\<rparr>"
proof -
  let ?first = "join_with [32] [lit m, path, version]"
  note known = method_of_name [OF m]
  have "10 \<notin> set ?first"
    using word_no_lf [OF conjunct1 [OF known]] word_no_lf [OF path] word_no_lf [OF version] by simp
  then have lines: "str_lines (request_text (lit m) path version host rest) = ?first # (lit ''Host: '' @ host) # str_lines rest"
    using host(1) by (simp add: request_text_def str_lines_crlf [of "lit ''Host: '' @ host", simplified] str_lines_crlf [of ?first, simplified])
  have words: "split_whitespace ?first = [lit m, path, version]"
    using split_whitespace_join [of "[lit m, path, version]"] by (simp add: known path version)
  have "\<not> is_host_line ?first" using known by simp
  moreover have "is_host_line (lit ''Host: '' @ host)" by (simp add: is_host_line_def ascii_lower_def)
  moreover have "trim (32 # host) = host" using host(2) by (simp add: trim_def trim_matches_def is_whitespace_def)
  ultimately show ?thesis
    by (simp add: parse_request_def from_utf8_encode [OF scalars] lines words Let_def del: join_with.simps)
qed

lemma parse_response_text:
  assumes status: "status < 65536" and version: "10 \<notin> set version" "32 \<notin> set version" and reason: "10 \<notin> set reason"
    and scalars: "list_all scalar_value (response_text version status reason rest)"
  shows "parse_response (utf8_text (response_text version status reason rest)) = Some (of_nat status)"
proof -
  let ?first = "lit ''HTTP/'' @ version @ 32 # decimal status @ 32 # reason"
  have digits: "10 \<notin> set (decimal status)" "32 \<notin> set (decimal status)" using decimal_between by fastforce+
  have "str_lines (response_text version status reason rest) = ?first # str_lines rest"
    unfolding response_text_def by (rule str_lines_crlf) (use version reason digits in simp)
  moreover have "splitn 3 32 ?first = [lit ''HTTP/'' @ version, decimal status, reason]"
    using split_once_append [of 32 "lit ''HTTP/'' @ version" "decimal status @ 32 # reason"]
      split_once_append [OF digits(2), of reason] version(2)
    by (simp add: numeral_3_eq_3)
  ultimately show ?thesis
    using status by (simp add: parse_response_def from_utf8_encode [OF scalars] starts_with_def parse_uint_decimal)
qed

text \<open>
  What the consumer makes of HTTP text: a record of type HTTP\_REQUEST followed by the UTF-8
  text of a request with one of the seven known methods adds exactly one event, with that method,
  path, and the addresses, port and process of the record, to a queue that is not full, unless a port
  is excluded; and the response parser reads the status code back from the text of a response.
\<close>

lemma http_text_surfaces:
  assumes plain: "plain_view fb read_HttpEventRaw 288" and ok: "http_event_ok e"
    and kind: "he_event_type e = event_code EVENT_HTTP_REQUEST"
    and ports: "he_src_port e \<notin> set ports" "he_dst_port e \<notin> set ports" and room: "length events < 4096"
    and request: "m \<in> set http_methods" "is_word path" "is_word version" "10 \<notin> set host" "trim host = host"
      "list_all scalar_value (request_text (lit m) path version host rest)"
    and response: "status < 65536" "10 \<notin> set version'" "32 \<notin> set version'" "10 \<notin> set reason"
      "list_all scalar_value (response_text version' status reason rest')"
  shows "handle_http_event fb ports (http_event_bytes e @ utf8_text (request_text (lit m) path version host rest)) events =
      Some (0, events @ [HttpRequest (lit m) path 0 0 (format_ip (he_src_ip e)) (format_ip (he_dst_ip e))
        (he_dst_port e) (he_pid e)]) \<and>
    parse_response (utf8_text (response_text version' status reason rest')) = Some (of_nat status)"
proof -
  let ?t = "utf8_text (request_text (lit m) path version host rest)"
  have len: "length (http_event_bytes e) = 288" using http_wire.enc_length [OF ok] .
  have fb: "fb (http_event_bytes e @ ?t) = Some e"
    using plain_view.view [OF plain] http_wire.dec_enc [OF ok] len by simp
  note parsed = parse_request_text [OF request]
  have "?t \<noteq> []" using parsed parse_request_empty by (metis option.distinct(1))
  then have "handle_http_event fb ports (http_event_bytes e @ ?t) events =
      Some (0, events @ [HttpRequest (lit m) path 0 0 (format_ip (he_src_ip e)) (format_ip (he_dst_ip e))
        (he_dst_port e) (he_pid e)])"
    using kind ports room len fb parsed method_of_name [OF request(1)]
    by (simp add: handle_http_event_def http_process_event_def MAX_EVENT_QUEUE_def Let_def)
  with parse_response_text [OF response] show ?thesis by blast
qed

lemma http_text_surfaces_example:
  "handle_http_event (plain_cast read_HttpEventRaw 288) [] (http_event_bytes (http_event_zero\<lparr>he_event_type := 5\<rparr>) @
     utf8_text (request_text (lit ''GET'') (lit ''/x'') (lit ''HTTP/1.1'') (lit ''h'') [])) [] =
   Some (0, [HttpRequest (lit ''GET'') (lit ''/x'') 0 0 (format_ip 0) (format_ip 0) 0 0]) \<and>
   parse_response (utf8_text (response_text (lit ''1.1'') 200 (lit ''OK'') [])) = Some 200"
proof -
  have ok: "http_event_ok (http_event_zero\<lparr>he_event_type := 5\<rparr>)"
    by (simp add: http_event_ok_def event_simps)
  show ?thesis
    using http_text_surfaces [OF plain_cast.plain_view_axioms ok, of "[]" "[]" "''GET''" "lit ''/x''" "lit ''HTTP/1.1''"
        "lit ''h''" "[]" 200 "lit ''1.1''" "lit ''OK''" "[]"]
    by (simp add: http_event_zero_def http_methods_def is_word_def is_whitespace_def trim_def trim_matches_def
        request_text_def response_text_def scalar_value_def decimal.simps)
qed

end
