(* ===== verification/Db_Probe.thy ===== *)
theory Db_Probe
  imports Wire Sock_Access Probe_Pair Bpf_Reference
begin

text \<open>
  \<open>db_probe.bpf.c\<close>: an entry probe on \<open>tcp_recvmsg\<close> leaves the socket and port of calls on
  database ports in the hash map \<open>recv_info\<close>, keyed by \<open>pid_tgid\<close>; the return probe takes
  the entry away and reports the received bytes into the ring buffer \<open>db_events\<close>. The return
  probe deletes the map element before it reads it through the pointer it looked up.
\<close>

section \<open>Programs\<close>

definition PG_PORT :: u16 where "PG_PORT = 5432"
definition MYSQL_PORT :: u16 where "MYSQL_PORT = 3306"
definition REDIS_PORT :: u16 where "REDIS_PORT = 6379"
definition REDIS_SENTINEL_PORT :: u16 where "REDIS_SENTINEL_PORT = 26379"
definition DETECT_LEN :: nat where "DETECT_LEN = 8"

lemmas db_port_defs = PG_PORT_def MYSQL_PORT_def REDIS_PORT_def REDIS_SENTINEL_PORT_def

record recvmsg_args =
  ra_sock_ptr :: u64
  ra_buf_ptr :: u64
  ra_dst_port :: u16

definition recvmsg_args_zero :: recvmsg_args where
  "recvmsg_args_zero = \<lparr>ra_sock_ptr = 0, ra_buf_ptr = 0, ra_dst_port = 0\<rparr>"

record ('r, 'm) db_maps =
  db_events :: 'r
  recv_info :: 'm

definition recv_info_max_entries :: nat where
  "recv_info_max_entries = 10240"

definition is_db_port :: "u16 \<Rightarrow> bool" where
  "is_db_port port \<longleftrightarrow> port = PG_PORT \<or> port = MYSQL_PORT \<or> port = REDIS_PORT \<or> port = REDIS_SENTINEL_PORT"

text \<open>A character constant of the source as the byte it compares with.\<close>

abbreviation ascii :: "char \<Rightarrow> u8" where "ascii c \<equiv> of_char c"

definition detect_protocol :: "bytes \<Rightarrow> u32 \<Rightarrow> u16 \<Rightarrow> u8" where
  "detect_protocol buf len port =
     (if len < 2 then DB_PROTO_UNKNOWN
      else
        (let b0 = buf ! 0; b1 = buf ! 1 in
         if b0 = 0x16 \<and> b1 = 0x03 then DB_PROTO_ENCRYPTED
         else if port = PG_PORT \<and>
           (b0 = ascii CHR ''R'' \<or> b0 = ascii CHR ''K'' \<or> b0 = ascii CHR ''T'' \<or> b0 = ascii CHR ''D'' \<or>
            b0 = ascii CHR ''C'' \<or> b0 = ascii CHR ''E'' \<or> b0 = ascii CHR ''Z'' \<or> b0 = ascii CHR ''N'' \<or>
            b0 = ascii CHR ''S'' \<or> b0 = ascii CHR ''Q'' \<or> b0 = ascii CHR ''P'' \<or> b0 = ascii CHR ''B'')
         then DB_PROTO_PG
         else if port = MYSQL_PORT \<and> len \<ge> 5 \<and>
           (let b4 = buf ! 4 in b4 = 0x0a \<or> b4 = 0x00 \<or> b4 = 0xff \<or> b4 = 0x03 \<or> b4 = 0x17)
         then DB_PROTO_MYSQL
         else if (port = REDIS_PORT \<or> port = REDIS_SENTINEL_PORT) \<and>
           (b0 = ascii CHR ''*'' \<or> b0 = ascii CHR ''+'' \<or> b0 = ascii CHR ''-'' \<or> b0 = ascii CHR '':'' \<or>
            b0 = ascii CHR ''$'' \<or>
            (b0 \<ge> ascii CHR ''A'' \<and> b0 \<le> ascii CHR ''Z'') \<or> (b0 \<ge> ascii CHR ''a'' \<and> b0 \<le> ascii CHR ''z''))
         then DB_PROTO_REDIS
         else DB_PROTO_UNKNOWN))"

definition handle_tcp_recvmsg ::
  "('m, recvmsg_args) hash_ops \<Rightarrow> bpf_ctx \<Rightarrow> u64 \<Rightarrow> u64 \<Rightarrow> u64 \<Rightarrow> i32 \<Rightarrow> u64 \<Rightarrow>
   ('r, 'm) db_maps \<Rightarrow> int \<times> ('r, 'm) db_maps" where
  "handle_tcp_recvmsg h ctx sk msg len flags addr_len s =
     (let args = recvmsg_args_zero;
          dport = bpf_ntohs (core_read16 ctx sk p_dport)
      in if \<not> is_db_port dport then (0, s)
         else
           (let tid = current_pid_tgid ctx;
                args = args\<lparr>ra_sock_ptr := sk, ra_dst_port := dport\<rparr>;
                args = args\<lparr>ra_buf_ptr := 0\<rparr>;
                (_, m) = map_update_elem h (recv_info s) tid args
            in (0, s\<lparr>recv_info := m\<rparr>)))"

text \<open>
  A read from user memory into a buffer: the bytes, or zeroes and an error on a fault.
\<close>

definition probe_read_user :: "bpf_ctx \<Rightarrow> nat \<Rightarrow> u64 \<Rightarrow> int \<times> bytes" where
  "probe_read_user ctx n p =
     (case probe_read (umem ctx) p n of Some bs \<Rightarrow> (0, bs) | None \<Rightarrow> (- 14, replicate n 0))"

text \<open>The return probe from the element pointer on: \<open>args\<close> is read through the map.\<close>

definition handle_tcp_recvmsg_ret_use ::
  "'r ring_ops \<Rightarrow> ('m, recvmsg_args) hash_ops \<Rightarrow> bpf_ctx \<Rightarrow> i32 \<Rightarrow> nat \<Rightarrow>
   ('r, 'm) db_maps \<Rightarrow> int \<times> ('r, 'm) db_maps" where
  "handle_tcp_recvmsg_ret_use g h ctx ret args s =
     (let tid = current_pid_tgid ctx; evt = db_event_zero in
      if sint ret \<le> 0 then (0, s)
      else
        (let copy_len = (if ret > of_nat MAX_DB_PAYLOAD_LEN then of_nat MAX_DB_PAYLOAD_LEN else ret);
             a = value_load h (recv_info s) args;
             (rc, detect_buf) = probe_read_user ctx DETECT_LEN (ra_buf_ptr a)
         in if ra_buf_ptr a \<noteq> 0 \<and> rc < 0 then (0, s)
            else
              (let evt = (if ra_buf_ptr a \<noteq> 0
                     then evt\<lparr>db_protocol := detect_protocol detect_buf (of_nat DETECT_LEN) (ra_dst_port a)\<rparr>
                     else evt\<lparr>db_protocol := DB_PROTO_UNKNOWN\<rparr>);
                   evt = evt\<lparr>db_timestamp_ns := ktime_ns ctx, db_event_type := event_code EVENT_DB_QUERY,
                     db_pid := hi32 tid, db_src_ip := 0, db_dst_ip := 0, db_src_port := 0,
                     db_dst_port := ra_dst_port a, db_payload_len := copy_len, db_response_bytes := ret,
                     db_pad := 0\<rparr>;
                   evt = (if ra_sock_ptr a \<noteq> 0
                     then evt\<lparr>db_src_ip := core_read32 ctx (ra_sock_ptr a) p_rcv_saddr,
                              db_dst_ip := core_read32 ctx (ra_sock_ptr a) p_daddr,
                              db_src_port := core_read16 ctx (ra_sock_ptr a) p_num\<rparr>
                     else evt);
                   evt = evt\<lparr>db_comm := current_comm ctx MAX_COMM_LEN\<rparr>;
                   evt = (if ra_buf_ptr a \<noteq> 0 \<and> copy_len > 0
                     then evt\<lparr>db_payload := snd (probe_read_user ctx (unat copy_len) (ra_buf_ptr a)) @
                              drop (unat copy_len) (db_payload evt)\<rparr>
                     else evt)
               in case ringbuf_reserve g (db_events s) (csize struct_db_event) of
                    None \<Rightarrow> (0, s)
                  | Some (ring_evt, r1) \<Rightarrow>
                      (let r2 = ringbuf_memcpy g r1 ring_evt (db_event_bytes evt);
                           r3 = ringbuf_submit g r2 ring_evt
                       in (0, s\<lparr>db_events := r3\<rparr>)))))"

definition handle_tcp_recvmsg_ret ::
  "'r ring_ops \<Rightarrow> ('m, recvmsg_args) hash_ops \<Rightarrow> bpf_ctx \<Rightarrow> i32 \<Rightarrow>
   ('r, 'm) db_maps \<Rightarrow> int \<times> ('r, 'm) db_maps" where
  "handle_tcp_recvmsg_ret g h ctx ret s =
     (let tid = current_pid_tgid ctx in
      case map_lookup_elem h (recv_info s) tid of
        None \<Rightarrow> (0, s)
      | Some args \<Rightarrow>
          (let (_, m) = map_delete_elem h (recv_info s) tid
           in handle_tcp_recvmsg_ret_use g h ctx ret args (s\<lparr>recv_info := m\<rparr>)))"

section \<open>Probe events\<close>

datatype db_probe =
    Recvmsg bpf_ctx u64 u64 u64 i32 u64
  | RecvmsgRet bpf_ctx i32

fun db_ctx :: "db_probe \<Rightarrow> bpf_ctx" where
  "db_ctx (Recvmsg ctx sk msg len flags addr_len) = ctx"
| "db_ctx (RecvmsgRet ctx ret) = ctx"

definition db_tid :: "db_probe \<Rightarrow> u64" where
  "db_tid e = current_pid_tgid (db_ctx e)"

fun is_recv_ret :: "db_probe \<Rightarrow> bool" where
  "is_recv_ret (RecvmsgRet ctx ret) = True"
| "is_recv_ret _ = False"

fun db_step ::
  "'r ring_ops \<Rightarrow> ('m, recvmsg_args) hash_ops \<Rightarrow> db_probe \<Rightarrow> ('r, 'm) db_maps \<Rightarrow> ('r, 'm) db_maps" where
  "db_step g h (Recvmsg ctx sk msg len flags addr_len) s =
     snd (handle_tcp_recvmsg h ctx sk msg len flags addr_len s)"
| "db_step g h (RecvmsgRet ctx ret) s = snd (handle_tcp_recvmsg_ret g h ctx ret s)"

section \<open>What the programs record and report\<close>

definition recv_port :: "bpf_ctx \<Rightarrow> u64 \<Rightarrow> u16" where
  "recv_port ctx sk = bpf_ntohs (core_read16 ctx sk p_dport)"

definition recv_entry :: "bpf_ctx \<Rightarrow> u64 \<Rightarrow> recvmsg_args" where
  "recv_entry ctx sk = \<lparr>ra_sock_ptr = sk, ra_buf_ptr = 0, ra_dst_port = recv_port ctx sk\<rparr>"

definition capped :: "i32 \<Rightarrow> u32" where
  "capped ret = (if ret > 256 then 256 else ret)"

text \<open>The report of an entry whose buffer pointer is null, as every entry's is.\<close>

definition db_report :: "bpf_ctx \<Rightarrow> recvmsg_args \<Rightarrow> i32 \<Rightarrow> db_event" where
  "db_report ctx a ret =
     \<lparr>db_timestamp_ns = ktime_ns ctx, db_event_type = event_code EVENT_DB_QUERY,
      db_pid = hi32 (current_pid_tgid ctx),
      db_src_ip = (if ra_sock_ptr a \<noteq> 0 then core_read32 ctx (ra_sock_ptr a) p_rcv_saddr else 0),
      db_dst_ip = (if ra_sock_ptr a \<noteq> 0 then core_read32 ctx (ra_sock_ptr a) p_daddr else 0),
      db_src_port = (if ra_sock_ptr a \<noteq> 0 then core_read16 ctx (ra_sock_ptr a) p_num else 0),
      db_dst_port = ra_dst_port a, db_protocol = DB_PROTO_UNKNOWN, db_pad = 0,
      db_payload_len = capped ret, db_response_bytes = ret,
      db_payload = replicate MAX_DB_PAYLOAD_LEN 0, db_comm = current_comm ctx MAX_COMM_LEN\<rparr>"

lemma db_report_ok [simp]: "comm_ok ctx \<Longrightarrow> db_event_ok (db_report ctx a ret)"
  by (simp add: db_report_def db_event_ok_def comm_ok_def)

lemma handle_tcp_recvmsg_eq:
  "handle_tcp_recvmsg h ctx sk msg len flags addr_len s =
     (0, if is_db_port (recv_port ctx sk)
         then s\<lparr>recv_info := snd (map_update_elem h (recv_info s) (current_pid_tgid ctx) (recv_entry ctx sk))\<rparr>
         else s)"
  by (simp add: handle_tcp_recvmsg_def recv_port_def recv_entry_def recvmsg_args_zero_def Let_def
      split: prod.splits)

lemma handle_tcp_recvmsg_ret_use_eq:
  assumes "ra_buf_ptr (value_load h (recv_info s) args) = 0"
  shows "handle_tcp_recvmsg_ret_use g h ctx ret args s =
     (0, if sint ret \<le> 0 then s
         else s\<lparr>db_events := snd (reserve_copy_submit g (csize struct_db_event)
                (db_event_bytes (db_report ctx (value_load h (recv_info s) args) ret)) (db_events s))\<rparr>)"
  using assms
  by (simp add: handle_tcp_recvmsg_ret_use_def db_report_def db_event_zero_def capped_def Let_def
      MAX_DB_PAYLOAD_LEN_def reserve_copy_submit_def split: option.splits prod.splits)

section \<open>The programs over maps that keep their contract\<close>

definition dpending :: "('m, recvmsg_args) hash_ops \<Rightarrow> ('r, 'm) db_maps \<Rightarrow> u64 \<Rightarrow> recvmsg_args option" where
  "dpending h s = contents h (recv_info s)"

text \<open>Entries come from the entry probe alone: a database port and no buffer pointer.\<close>

definition args_ok :: "recvmsg_args \<Rightarrow> bool" where
  "args_ok a \<longleftrightarrow> ra_buf_ptr a = 0 \<and> is_db_port (ra_dst_port a)"

definition dinv :: "('m, recvmsg_args) hash_ops \<Rightarrow> ('m \<Rightarrow> bool) \<Rightarrow> ('r \<Rightarrow> bool) \<Rightarrow> ('r, 'm) db_maps \<Rightarrow> bool" where
  "dinv h hinv rinv s \<longleftrightarrow> hinv (recv_info s) \<and> rinv (db_events s) \<and> (\<forall>a \<in> ran (dpending h s). args_ok a)"

locale db_objects = bpf_hash h hinv + bpf_ring g rinv samples
  for h :: "('m, recvmsg_args) hash_ops" and hinv :: "'m \<Rightarrow> bool"
    and g :: "'r ring_ops" and rinv :: "'r \<Rightarrow> bool" and samples :: "'r \<Rightarrow> sample list"
begin

text \<open>Reading through the pointer after the deletion still gives the entry.\<close>

lemma handle_tcp_recvmsg_ret_eq:
  assumes "dinv h hinv rinv s"
  shows "handle_tcp_recvmsg_ret g h ctx ret s =
     (0, case dpending h s (current_pid_tgid ctx) of
           None \<Rightarrow> s
         | Some a \<Rightarrow>
             \<lparr>db_events = (if sint ret \<le> 0 then db_events s
                else snd (reserve_copy_submit g (csize struct_db_event)
                  (db_event_bytes (db_report ctx a ret)) (db_events s))),
              recv_info = snd (map_delete_elem h (recv_info s) (current_pid_tgid ctx))\<rparr>)"
proof (cases "map_lookup_elem h (recv_info s) (current_pid_tgid ctx)")
  case None
  then show ?thesis by (simp add: handle_tcp_recvmsg_ret_def dpending_def contents_def)
next
  case (Some p)
  let ?t = "current_pid_tgid ctx"
  obtain r m where d: "map_delete_elem h (recv_info s) ?t = (r, m)" by fastforce
  have hi: "hinv (recv_info s)" using assms by (simp add: dinv_def)
  have v: "value_load h m p = value_load h (recv_info s) p" by (rule delete_keeps_value [OF hi Some d])
  have pend: "dpending h s ?t = Some (value_load h (recv_info s) p)"
    using lookup_contents [OF Some] by (simp add: dpending_def)
  then have "args_ok (value_load h (recv_info s) p)" using assms by (auto simp: dinv_def intro: ranI)
  then have "ra_buf_ptr (value_load h (recv_info (s\<lparr>recv_info := m\<rparr>)) p) = 0"
    using v by (simp add: args_ok_def)
  from handle_tcp_recvmsg_ret_use_eq [OF this, of g ctx ret] show ?thesis
    using d v pend Some by (cases s) (simp add: handle_tcp_recvmsg_ret_def Let_def)
qed

lemma recv_pending:
  assumes "dinv h hinv rinv s"
  shows "dpending h (db_step g h (Recvmsg ctx sk msg len flags al) s) =
    (if is_db_port (recv_port ctx sk) \<and>
        fst (map_update_elem h (recv_info s) (current_pid_tgid ctx) (recv_entry ctx sk)) = 0
     then (dpending h s)(current_pid_tgid ctx \<mapsto> recv_entry ctx sk) else dpending h s)"
  using assms by (simp add: handle_tcp_recvmsg_eq dinv_def dpending_def update_cases)

lemma recv_ret_pending:
  assumes "dinv h hinv rinv s"
  shows "dpending h (db_step g h (RecvmsgRet ctx ret) s) = (dpending h s)(current_pid_tgid ctx := None)"
proof (cases "dpending h s (current_pid_tgid ctx)")
  case None
  then show ?thesis using assms by (auto simp: handle_tcp_recvmsg_ret_eq)
next
  case (Some a)
  have "hinv (recv_info s)" using assms by (simp add: dinv_def)
  with Some assms show ?thesis
    by (simp add: handle_tcp_recvmsg_ret_eq) (simp add: dpending_def delete_spec)
qed

lemma recv_ring: "db_events (db_step g h (Recvmsg ctx sk msg len flags al) s) = db_events s"
  by (simp add: handle_tcp_recvmsg_eq)

lemma recv_ret_ring:
  assumes "dinv h hinv rinv s"
  shows "db_events (db_step g h (RecvmsgRet ctx ret) s) =
    (case dpending h s (current_pid_tgid ctx) of
       Some a \<Rightarrow> if sint ret \<le> 0 then db_events s
                 else snd (reserve_copy_submit g (csize struct_db_event)
                   (db_event_bytes (db_report ctx a ret)) (db_events s))
     | None \<Rightarrow> db_events s)"
  using assms by (simp add: handle_tcp_recvmsg_ret_eq split: option.splits)

lemma db_emit_outcome:
  assumes "rinv r" "db_event_ok e"
  defines "r' \<equiv> snd (reserve_copy_submit g (csize struct_db_event) (db_event_bytes e) r)"
  shows "rinv r'" "if ringbuf_reserve g r (csize struct_db_event) = None then r' = r
    else \<exists>p. samples r' = samples r @ [(p, True, db_event_bytes e)]"
proof -
  obtain ok where ok: "reserve_copy_submit g (csize struct_db_event) (db_event_bytes e) r = (ok, r')"
    unfolding r'_def by (metis prod.collapse)
  then have "ok \<longleftrightarrow> ringbuf_reserve g r (csize struct_db_event) \<noteq> None"
    by (auto simp: reserve_copy_submit_def split: option.splits)
  with reserve_copy_submit_spec [OF assms(1), of "db_event_bytes e"] ok event_bytes_length(4) [OF assms(2)]
  show "rinv r'" "if ringbuf_reserve g r (csize struct_db_event) = None then r' = r
    else \<exists>p. samples r' = samples r @ [(p, True, db_event_bytes e)]"
    by auto
qed

lemma step_dinv:
  assumes "dinv h hinv rinv s" "comm_ok (db_ctx e)"
  shows "dinv h hinv rinv (db_step g h e s)"
proof (cases e)
  case (Recvmsg ctx sk msg len flags al)
  have "ran (dpending h (db_step g h e s)) \<subseteq>
      (if is_db_port (recv_port ctx sk) then {recv_entry ctx sk} else {}) \<union> ran (dpending h s)"
    using recv_pending [OF assms(1)] Recvmsg by (auto simp: ran_def split: if_splits)
  moreover have "is_db_port (recv_port ctx sk) \<Longrightarrow> args_ok (recv_entry ctx sk)"
    by (simp add: args_ok_def recv_entry_def)
  ultimately have "\<forall>a \<in> ran (dpending h (db_step g h e s)). args_ok a"
    using assms(1) by (auto simp: dinv_def split: if_splits)
  then show ?thesis
    using assms(1) Recvmsg update_cases(1) by (auto simp: dinv_def handle_tcp_recvmsg_eq)
next
  case (RecvmsgRet ctx ret)
  have "hinv (recv_info (db_step g h e s))"
    using assms(1) RecvmsgRet delete_spec
    by (auto simp: handle_tcp_recvmsg_ret_eq [OF assms(1)] dinv_def split: option.splits)
  moreover have "rinv (db_events (db_step g h e s))"
    using recv_ret_ring [OF assms(1)] RecvmsgRet assms db_emit_outcome(1)
    by (auto simp: dinv_def split: option.splits)
  moreover have "ran (dpending h (db_step g h e s)) \<subseteq> ran (dpending h s)"
    using recv_ret_pending [OF assms(1)] RecvmsgRet by (auto simp: ran_def split: if_splits)
  ultimately show ?thesis using assms(1) by (auto simp: dinv_def)
qed

end

sublocale db_objects \<subseteq> db_pair: probe_pair "db_step g h" db_tid is_recv_ret "\<lambda>_. False"
  "dpending h" "dinv h hinv rinv" "\<lambda>e. comm_ok (db_ctx e)"
proof
  fix s :: "('r, 'm) db_maps" and e k
  assume inv: "dinv h hinv rinv s"
  { assume "comm_ok (db_ctx e)" with inv show "dinv h hinv rinv (db_step g h e s)" by (rule step_dinv) }
  { assume "k \<noteq> db_tid e" with inv show "dpending h (db_step g h e s) k = dpending h s k"
      using recv_pending [OF inv] recv_ret_pending [OF inv] by (cases e) (auto simp: db_tid_def) }
  { assume "is_recv_ret e" with inv show "dpending h (db_step g h e s) (db_tid e) = None"
      using recv_ret_pending [OF inv] by (cases e) (auto simp: db_tid_def) }
qed simp

interpretation ref_db: db_objects refmap_ops "refmap_inv n" refring_ops refring_inv rr_samples for n
  by unfold_locales

section \<open>Abstract specification\<close>

text \<open>
  The abstract probe keeps the receive calls under way, by thread, and the list of events
  reported so far. The two flags of a step say whether the map accepts the entry of the thread and
  whether the ring has room for a record; nothing else lets a call or an event be lost.
\<close>

type_synonym db_abstract = "(u64 \<Rightarrow> recvmsg_args option) \<times> db_event list"

inductive db_spec :: "bool \<Rightarrow> bool \<Rightarrow> db_probe \<Rightarrow> db_abstract \<Rightarrow> db_abstract \<Rightarrow> bool" where
  recv_ignored: "\<not> is_db_port (recv_port ctx sk) \<Longrightarrow> db_spec free room (Recvmsg ctx sk msg len flags al) (P, E) (P, E)"
| recv_recorded: "is_db_port (recv_port ctx sk) \<Longrightarrow>
    db_spec True room (Recvmsg ctx sk msg len flags al) (P, E) (P(current_pid_tgid ctx \<mapsto> recv_entry ctx sk), E)"
| recv_dropped: "is_db_port (recv_port ctx sk) \<Longrightarrow> db_spec False room (Recvmsg ctx sk msg len flags al) (P, E) (P, E)"
| ret_unknown: "P (current_pid_tgid ctx) = None \<Longrightarrow> db_spec free room (RecvmsgRet ctx ret) (P, E) (P, E)"
| ret_no_data: "P (current_pid_tgid ctx) = Some a \<Longrightarrow> sint ret \<le> 0 \<Longrightarrow>
    db_spec free room (RecvmsgRet ctx ret) (P, E) (P(current_pid_tgid ctx := None), E)"
| ret_reported: "P (current_pid_tgid ctx) = Some a \<Longrightarrow> 0 < sint ret \<Longrightarrow>
    db_spec free True (RecvmsgRet ctx ret) (P, E) (P(current_pid_tgid ctx := None), E @ [db_report ctx a ret])"
| ret_lost: "P (current_pid_tgid ctx) = Some a \<Longrightarrow> 0 < sint ret \<Longrightarrow>
    db_spec free False (RecvmsgRet ctx ret) (P, E) (P(current_pid_tgid ctx := None), E)"

inductive_cases db_spec_recvE: "db_spec free room (Recvmsg ctx sk msg len flags al) a b"
inductive_cases db_spec_retE: "db_spec free room (RecvmsgRet ctx ret) a b"

text \<open>The specification leaves no choice: an implementation cannot satisfy it by dropping events.\<close>

lemma db_spec_deterministic:
  assumes "db_spec free room e a b" "db_spec free room e a c"
  shows "b = c"
proof (cases e)
  case (Recvmsg ctx sk msg len flags al)
  then show ?thesis using assms by (auto elim!: db_spec_recvE)
next
  case (RecvmsgRet ctx ret)
  then show ?thesis using assms by (auto elim!: db_spec_retE)
qed

inductive db_reach :: "db_abstract \<Rightarrow> bool" where
  start: "db_reach (\<lambda>_. None, [])"
| step: "db_reach a \<Longrightarrow> db_spec free room e a b \<Longrightarrow> db_reach b"

definition db_abs :: "('m, recvmsg_args) hash_ops \<Rightarrow> ('r \<Rightarrow> sample list) \<Rightarrow> ('r, 'm) db_maps \<Rightarrow> db_abstract" where
  "db_abs h samples s = (dpending h s, map (\<lambda>x. read_DbEvent (snd (snd x))) (samples (db_events s)))"

text \<open>What is true of every reported event.\<close>

definition db_report_wf :: "db_event \<Rightarrow> bool" where
  "db_report_wf e \<longleftrightarrow> db_event_type e = event_code EVENT_DB_QUERY \<and> is_db_port (db_dst_port e) \<and>
     db_protocol e = DB_PROTO_UNKNOWN \<and> db_payload e = replicate 256 0 \<and>
     0 < sint (db_response_bytes e) \<and>
     unat (db_payload_len e) = min (unat (db_response_bytes e)) 256 \<and> 0 < unat (db_payload_len e)"

definition db_abs_inv :: "db_abstract \<Rightarrow> bool" where
  "db_abs_inv a \<longleftrightarrow> (\<forall>k x. fst a k = Some x \<longrightarrow> args_ok x) \<and> list_all db_report_wf (snd a)"

lemma unat_capped: "unat (capped ret) = min (unat ret) 256"
  by (auto simp: capped_def word_less_nat_alt min_def)

lemma pos_sint_nonzero: "0 < sint w \<Longrightarrow> 0 < unat w" for w :: i32
  by (cases "w = 0") (simp_all add: unat_gt_0)

lemma db_report_wf: "args_ok a \<Longrightarrow> 0 < sint ret \<Longrightarrow> db_report_wf (db_report ctx a ret)"
  using pos_sint_nonzero [of ret]
  by (simp add: db_report_wf_def db_report_def args_ok_def unat_capped MAX_DB_PAYLOAD_LEN_def)

lemma db_spec_inv: "db_spec free room e a b \<Longrightarrow> db_abs_inv a \<Longrightarrow> db_abs_inv b"
  by (induction rule: db_spec.induct)
    (auto simp: db_abs_inv_def args_ok_def recv_entry_def intro: db_report_wf [unfolded args_ok_def])

lemma db_reach_inv: "db_reach a \<Longrightarrow> db_abs_inv a"
proof (induction rule: db_reach.induct)
  case start
  show ?case by (simp add: db_abs_inv_def)
next
  case (step a free room e b)
  then show ?case by (blast intro: db_spec_inv)
qed

context db_objects
begin

lemma db_emit_abs:
  assumes "rinv r" "db_event_ok e"
  shows "map (\<lambda>x. read_DbEvent (snd (snd x)))
      (samples (snd (reserve_copy_submit g (csize struct_db_event) (db_event_bytes e) r))) =
    map (\<lambda>x. read_DbEvent (snd (snd x))) (samples r) @
      (if ringbuf_reserve g r (csize struct_db_event) \<noteq> None then [e] else [])"
  using db_emit_outcome(2) [OF assms] db_wire.dec_enc [OF assms(2)]
  by (auto split: if_splits)

abbreviation accepts :: "db_probe \<Rightarrow> ('r, 'm) db_maps \<Rightarrow> bool" where
  "accepts e s \<equiv> (case e of
     Recvmsg ctx sk msg len flags al \<Rightarrow> fst (map_update_elem h (recv_info s) (current_pid_tgid ctx) (recv_entry ctx sk)) = 0
   | RecvmsgRet ctx ret \<Rightarrow> True)"

lemma step_refines:
  assumes inv: "dinv h hinv rinv s" and ok: "comm_ok (db_ctx e)"
  shows "db_spec (accepts e s) (ringbuf_reserve g (db_events s) (csize struct_db_event) \<noteq> None) e
    (db_abs h samples s) (db_abs h samples (db_step g h e s))"
proof (cases e)
  case (Recvmsg ctx sk msg len flags al)
  with recv_pending [OF inv, of ctx sk] recv_ring [of ctx sk] show ?thesis
    by (cases "is_db_port (recv_port ctx sk)";
        cases "fst (map_update_elem h (recv_info s) (current_pid_tgid ctx) (recv_entry ctx sk)) = 0")
      (simp_all add: db_abs_def recv_ignored recv_recorded recv_dropped del: db_step.simps)
next
  case (RecvmsgRet ctx ret)
  have r: "rinv (db_events s)" using inv by (simp add: dinv_def)
  note eff = recv_ret_pending [OF inv, of ctx ret] recv_ret_ring [OF inv, of ctx ret]
  show ?thesis
  proof (cases "dpending h s (current_pid_tgid ctx)")
    case None
    then have "(dpending h s)(current_pid_tgid ctx := None) = dpending h s" by auto
    with None RecvmsgRet eff show ?thesis by (simp add: db_abs_def ret_unknown del: db_step.simps)
  next
    case (Some a)
    have "db_event_ok (db_report ctx a ret)" using ok RecvmsgRet by simp
    from db_emit_abs [OF r this] Some RecvmsgRet eff show ?thesis
      by (cases "0 < sint ret"; cases "ringbuf_reserve g (db_events s) (csize struct_db_event) \<noteq> None")
        (simp_all add: db_abs_def ret_no_data ret_reported ret_lost not_less del: db_step.simps not_None_eq)
  qed
qed

lemma run_reach:
  assumes "dinv h hinv rinv s" "list_all (\<lambda>e. comm_ok (db_ctx e)) es" "db_reach (db_abs h samples s)"
  shows "db_reach (db_abs h samples (run_steps (db_step g h) es s))"
  using assms
proof (induction es arbitrary: s)
  case (Cons e es)
  then have "db_reach (db_abs h samples (db_step g h e s))"
    by (auto intro: db_reach.step step_refines)
  with Cons step_dinv show ?case by simp
qed simp

lemmas db_no_leak = db_pair.all_returned_no_leak
lemmas db_run_inv = db_pair.run_inv
lemmas db_run_other = db_pair.run_other

text \<open>The entry of a thread survives the probes of other threads.\<close>

lemma recv_run:
  assumes inv: "dinv h hinv rinv s"
    and ok: "list_all (\<lambda>e. comm_ok (db_ctx e)) (Recvmsg c1 sk msg len flags al # mid)"
    and port: "is_db_port (recv_port c1 sk)"
    and stored: "fst (map_update_elem h (recv_info s) (current_pid_tgid c1) (recv_entry c1 sk)) = 0"
    and other: "\<forall>e \<in> set mid. db_tid e \<noteq> current_pid_tgid c1"
  defines "s1 \<equiv> run_steps (db_step g h) (Recvmsg c1 sk msg len flags al # mid) s"
  shows "dinv h hinv rinv s1" "dpending h s1 (current_pid_tgid c1) = Some (recv_entry c1 sk)"
proof -
  let ?s0 = "db_step g h (Recvmsg c1 sk msg len flags al) s"
  have inv0: "dinv h hinv rinv ?s0" by (rule step_dinv [OF inv]) (use ok in simp)
  show "dinv h hinv rinv s1" using db_run_inv [OF inv ok] by (simp add: s1_def)
  have "dpending h ?s0 (current_pid_tgid c1) = Some (recv_entry c1 sk)"
    using recv_pending [OF inv, of c1 sk] stored port by simp
  then show "dpending h s1 (current_pid_tgid c1) = Some (recv_entry c1 sk)"
    using db_run_other [OF inv0 _ other] ok by (simp add: s1_def)
qed

end

text \<open>Maps of bounded size accept an entry exactly if they have one of the thread or room for another.\<close>

locale db_objects_bounded = db_objects h hinv g rinv samples + bpf_hash_bounded h hinv max_entries
  for h :: "('m, recvmsg_args) hash_ops" and hinv :: "'m \<Rightarrow> bool"
    and g :: "'r ring_ops" and rinv :: "'r \<Rightarrow> bool" and samples :: "'r \<Rightarrow> sample list"
    and max_entries :: nat
begin

lemma step_refines_bounded:
  assumes inv: "dinv h hinv rinv s" and ok: "comm_ok (db_ctx e)"
  shows "db_spec (db_tid e \<in> dom (dpending h s) \<or> card (dom (dpending h s)) < max_entries)
    (ringbuf_reserve g (db_events s) (csize struct_db_event) \<noteq> None) e
    (db_abs h samples s) (db_abs h samples (db_step g h e s))"
proof (cases e)
  case (Recvmsg ctx sk msg len flags al)
  let ?t = "current_pid_tgid ctx"
  have h: "hinv (recv_info s)" using inv by (simp add: dinv_def)
  have "fst (map_update_elem h (recv_info s) ?t (recv_entry ctx sk)) = 0 \<longleftrightarrow>
      ?t \<in> dom (dpending h s) \<or> card (dom (dpending h s)) < max_entries"
    using update_room [OF h] update_full [OF h] bounded [OF h] unfolding dpending_def by (meson le_neq_implies_less)
  then show ?thesis using step_refines [OF inv ok] Recvmsg by (simp add: db_tid_def del: db_step.simps not_None_eq)
next
  case (RecvmsgRet ctx ret)
  have any: "db_spec True room (RecvmsgRet ctx ret) a b \<Longrightarrow> db_spec free room (RecvmsgRet ctx ret) a b" for free room a b
    by (auto elim!: db_spec_retE intro: db_spec.intros)
  show ?thesis using step_refines [OF inv ok] RecvmsgRet by (simp add: any del: db_step.simps not_None_eq)
qed

end

interpretation ref_db_bounded:
  db_objects_bounded refmap_ops "refmap_inv n" refring_ops refring_inv rr_samples n for n
  by unfold_locales

section \<open>Probes of other threads inside a return probe\<close>

text \<open>
  The return probe in two parts: up to the deletion of the element, and from there on, with the
  pointer the thread holds. Parts of the probes of other threads may come in between.
\<close>

datatype db_part =
    Enter bpf_ctx u64 u64 u64 i32 u64
  | Return_delete bpf_ctx
  | Return_use bpf_ctx i32

fun part_ctx :: "db_part \<Rightarrow> bpf_ctx" where
  "part_ctx (Enter ctx sk msg len flags al) = ctx"
| "part_ctx (Return_delete ctx) = ctx"
| "part_ctx (Return_use ctx ret) = ctx"

definition part_tid :: "db_part \<Rightarrow> u64" where
  "part_tid e = current_pid_tgid (part_ctx e)"

type_synonym ('r, 'm) db_parts = "('r, 'm) db_maps \<times> (u64 \<Rightarrow> nat option)"

fun part_step ::
  "'r ring_ops \<Rightarrow> ('m, recvmsg_args) hash_ops \<Rightarrow> db_part \<Rightarrow> ('r, 'm) db_parts \<Rightarrow> ('r, 'm) db_parts" where
  "part_step g h (Enter ctx sk msg len flags al) (s, held) = (snd (handle_tcp_recvmsg h ctx sk msg len flags al s), held)"
| "part_step g h (Return_delete ctx) (s, held) =
     (let tid = current_pid_tgid ctx in
      case map_lookup_elem h (recv_info s) tid of
        None \<Rightarrow> (s, held(tid := None))
      | Some args \<Rightarrow> (s\<lparr>recv_info := snd (map_delete_elem h (recv_info s) tid)\<rparr>, held(tid \<mapsto> args)))"
| "part_step g h (Return_use ctx ret) (s, held) =
     (let tid = current_pid_tgid ctx in
      case held tid of
        None \<Rightarrow> (s, held)
      | Some args \<Rightarrow> (snd (handle_tcp_recvmsg_ret_use g h ctx ret args s), held(tid := None)))"

text \<open>The two parts in a row are the return probe.\<close>

lemma parts_of_return:
  "fst (part_step g h (Return_use ctx ret) (part_step g h (Return_delete ctx) (s, held))) = db_step g h (RecvmsgRet ctx ret) s"
  by (simp add: handle_tcp_recvmsg_ret_def Let_def split: option.splits prod.splits)

fun inserts :: "db_part \<Rightarrow> bool" where
  "inserts (Enter ctx sk msg len flags al) = is_db_port (recv_port ctx sk)"
| "inserts _ = False"

lemma length_probe_read_user [simp]: "length (snd (probe_read_user ctx n p)) = n"
  by (auto simp: probe_read_user_def probe_read_length split: option.splits)

text \<open>Whatever the pointer leads to, the second part writes at most one well-formed record.\<close>

lemma ret_use_cases:
  assumes "comm_ok ctx"
  shows "\<exists>evt. db_event_ok evt \<and> snd (handle_tcp_recvmsg_ret_use g h ctx ret args s) \<in>
    {s, s\<lparr>db_events := snd (reserve_copy_submit g (csize struct_db_event) (db_event_bytes evt) (db_events s))\<rparr>}"
proof -
  define n where "n = (if ret > of_nat MAX_DB_PAYLOAD_LEN then of_nat MAX_DB_PAYLOAD_LEN else ret)"
  have n: "unat n \<le> 256" by (simp add: n_def MAX_DB_PAYLOAD_LEN_def word_le_nat_alt not_less)
  define a where "a = value_load h (recv_info s) args"
  define evt where "evt =
     \<lparr>db_timestamp_ns = ktime_ns ctx, db_event_type = event_code EVENT_DB_QUERY, db_pid = hi32 (current_pid_tgid ctx),
      db_src_ip = (if ra_sock_ptr a \<noteq> 0 then core_read32 ctx (ra_sock_ptr a) p_rcv_saddr else 0),
      db_dst_ip = (if ra_sock_ptr a \<noteq> 0 then core_read32 ctx (ra_sock_ptr a) p_daddr else 0),
      db_src_port = (if ra_sock_ptr a \<noteq> 0 then core_read16 ctx (ra_sock_ptr a) p_num else 0),
      db_dst_port = ra_dst_port a,
      db_protocol = (if ra_buf_ptr a \<noteq> 0
        then detect_protocol (snd (probe_read_user ctx DETECT_LEN (ra_buf_ptr a))) (of_nat DETECT_LEN) (ra_dst_port a)
        else DB_PROTO_UNKNOWN),
      db_pad = 0, db_payload_len = n, db_response_bytes = ret,
      db_payload = (if ra_buf_ptr a \<noteq> 0 \<and> n > 0
        then snd (probe_read_user ctx (unat n) (ra_buf_ptr a)) @ drop (unat n) (replicate MAX_DB_PAYLOAD_LEN 0)
        else replicate MAX_DB_PAYLOAD_LEN 0),
      db_comm = current_comm ctx MAX_COMM_LEN\<rparr>"
  have ok: "db_event_ok evt" using assms n by (simp add: evt_def db_event_ok_def comm_ok_def MAX_DB_PAYLOAD_LEN_def)
  have "snd (handle_tcp_recvmsg_ret_use g h ctx ret args s) \<in>
    {s, s\<lparr>db_events := snd (reserve_copy_submit g (csize struct_db_event) (db_event_bytes evt) (db_events s))\<rparr>}"
    unfolding handle_tcp_recvmsg_ret_use_def Let_def a_def [symmetric] n_def [symmetric]
    by (cases "ringbuf_reserve g (db_events s) (csize struct_db_event)")
      (auto simp: reserve_copy_submit_def db_event_zero_def evt_def split: prod.splits)
  then show ?thesis using ok by blast
qed

text \<open>Maps whose elements are allocated in advance: a deletion leaves the values of all elements as they are.\<close>

locale bpf_hash_prealloc = bpf_hash h hinv
  for h :: "('m, 'v) hash_ops" and hinv :: "'m \<Rightarrow> bool" +
  assumes delete_keeps_values: "hinv m \<Longrightarrow> value_load h (snd (map_delete_elem h m k)) = value_load h m"

interpretation refmap: bpf_hash_prealloc refmap_ops "refmap_inv n" for n
  by unfold_locales (auto simp: refmap_ops_def refmap_delete_def split: option.splits)

locale db_objects_prealloc = db_objects h hinv g rinv samples + bpf_hash_prealloc h hinv
  for h :: "('m, recvmsg_args) hash_ops" and hinv :: "'m \<Rightarrow> bool"
    and g :: "'r ring_ops" and rinv :: "'r \<Rightarrow> bool" and samples :: "'r \<Rightarrow> sample list"
begin

lemma use_frame:
  assumes "dinv h hinv rinv s" "comm_ok ctx"
  shows "recv_info (snd (handle_tcp_recvmsg_ret_use g h ctx ret args s)) = recv_info s \<and>
    dinv h hinv rinv (snd (handle_tcp_recvmsg_ret_use g h ctx ret args s))"
proof -
  have r: "rinv (db_events s)" using assms(1) by (simp add: dinv_def)
  show ?thesis using ret_use_cases [OF assms(2), of g h ret args s] assms(1) db_emit_outcome(1) [OF r]
    by (auto simp: dinv_def dpending_def)
qed

lemma delete_pending:
  assumes "dinv h hinv rinv s" "part_step g h (Return_delete ctx) (s, held) = (s', held')"
  shows "dinv h hinv rinv s' \<and> dpending h s' = (dpending h s)(current_pid_tgid ctx := None) \<and> db_events s' = db_events s \<and>
    held' = held(current_pid_tgid ctx := map_lookup_elem h (recv_info s) (current_pid_tgid ctx)) \<and>
    value_load h (recv_info s') = value_load h (recv_info s)"
proof (cases "map_lookup_elem h (recv_info s) (current_pid_tgid ctx)")
  case None
  then have "(dpending h s)(current_pid_tgid ctx := None) = dpending h s"
    using lookup_None by (auto simp: dpending_def fun_eq_iff)
  then show ?thesis using assms None by (auto simp: Let_def)
next
  case (Some p)
  have h: "hinv (recv_info s)" using assms(1) by (simp add: dinv_def)
  have s': "s' = s\<lparr>recv_info := snd (map_delete_elem h (recv_info s) (current_pid_tgid ctx))\<rparr>" "held' = held(current_pid_tgid ctx \<mapsto> p)"
    using assms(2) Some by (simp_all add: Let_def)
  have "dpending h s' = (dpending h s)(current_pid_tgid ctx := None)" using delete_spec [OF h] by (simp add: s' dpending_def)
  moreover from this have "ran (dpending h s') \<subseteq> ran (dpending h s)" by (auto simp: ran_def split: if_splits)
  ultimately show ?thesis using assms(1) delete_spec [OF h] delete_keeps_values [OF h] Some
    by (auto simp: s' dinv_def)
qed

text \<open>Parts of other threads keep the entry of a thread and the pointer it holds, and the value
  there unless they insert an entry.\<close>

lemma other_part:
  assumes "dinv h hinv rinv s" "comm_ok (part_ctx e)" "part_tid e \<noteq> t" "part_step g h e (s, held) = (s', held')"
  shows "dinv h hinv rinv s' \<and> dpending h s' t = dpending h s t \<and> held' t = held t \<and>
    (\<not> inserts e \<longrightarrow> value_load h (recv_info s') = value_load h (recv_info s))"
proof (cases e)
  case (Enter ctx sk msg len flags al)
  have "s' = db_step g h (Recvmsg ctx sk msg len flags al) s" "held' = held" using assms(4) Enter by simp_all
  then show ?thesis
    using step_dinv [OF assms(1), of "Recvmsg ctx sk msg len flags al"] recv_pending [OF assms(1), of ctx sk msg len flags al] assms(2,3) Enter
    by (auto simp: part_tid_def handle_tcp_recvmsg_eq)
next
  case (Return_delete ctx)
  show ?thesis using delete_pending [OF assms(1) assms(4) [unfolded Return_delete]] assms(3) Return_delete
    by (auto simp: part_tid_def)
next
  case (Return_use ctx ret)
  then show ?thesis using assms use_frame [OF assms(1), of ctx ret]
    by (auto simp: part_tid_def Let_def dpending_def split: option.splits)
qed

lemma other_parts:
  assumes "dinv h hinv rinv s" "list_all (\<lambda>e. comm_ok (part_ctx e)) es" "\<forall>e \<in> set es. part_tid e \<noteq> t"
    and "run_steps (part_step g h) es (s, held) = (s', held')"
  shows "dinv h hinv rinv s' \<and> dpending h s' t = dpending h s t \<and> held' t = held t \<and>
    (list_all (\<lambda>e. \<not> inserts e) es \<longrightarrow> value_load h (recv_info s') = value_load h (recv_info s))"
  using assms
proof (induction es arbitrary: s held)
  case (Cons e es)
  obtain s1 held1 where one: "part_step g h e (s, held) = (s1, held1)" by fastforce
  have ok: "comm_ok (part_ctx e)" "part_tid e \<noteq> t" "list_all (\<lambda>e. comm_ok (part_ctx e)) es" "\<forall>e \<in> set es. part_tid e \<noteq> t"
    using Cons.prems(2,3) by simp_all
  note first = other_part [OF Cons.prems(1) ok(1,2) one]
  have "run_steps (part_step g h) es (s1, held1) = (s', held')" using Cons.prems(4) one by (simp del: part_step.simps)
  note rest = Cons.IH [OF conjunct1 [OF first] ok(3,4) this]
  show ?case using first rest by simp
qed simp

lemma return_in_parts:
  assumes inv: "dinv h hinv rinv s"
    and ok: "list_all (\<lambda>e. comm_ok (part_ctx e)) (Enter c1 sk msg len flags al # mid @ Return_delete c2 # mid')"
    and port: "is_db_port (recv_port c1 sk)"
    and stored: "fst (map_update_elem h (recv_info s) (current_pid_tgid c1) (recv_entry c1 sk)) = 0"
    and other: "\<forall>e \<in> set (mid @ mid'). part_tid e \<noteq> current_pid_tgid c1" and quiet: "\<forall>e \<in> set mid'. \<not> inserts e"
    and tid: "current_pid_tgid c2 = current_pid_tgid c1"
    and run: "run_steps (part_step g h) (Enter c1 sk msg len flags al # mid @ Return_delete c2 # mid') (s, held) = (s1, held1)"
  shows "dinv h hinv rinv s1 \<and> dpending h s1 (current_pid_tgid c1) = None \<and>
    (\<exists>p. held1 (current_pid_tgid c1) = Some p \<and> value_load h (recv_info s1) p = recv_entry c1 sk)"
proof -
  let ?t = "current_pid_tgid c1" and ?s0 = "db_step g h (Recvmsg c1 sk msg len flags al) s"
  have inv0: "dinv h hinv rinv ?s0" by (rule step_dinv [OF inv]) (use ok in simp)
  have p0: "dpending h ?s0 ?t = Some (recv_entry c1 sk)" using recv_pending [OF inv, of c1 sk] stored port by simp
  obtain sa ha where a: "run_steps (part_step g h) mid (?s0, held) = (sa, ha)" by fastforce
  obtain sb hb where b: "part_step g h (Return_delete c2) (sa, ha) = (sb, hb)" by fastforce
  have c: "run_steps (part_step g h) mid' (sb, hb) = (s1, held1)"
    using run a b by (simp add: run_steps_append del: part_step.simps(2,3))
  have oka: "list_all (\<lambda>e. comm_ok (part_ctx e)) mid" "\<forall>e \<in> set mid. part_tid e \<noteq> ?t"
    and okc: "list_all (\<lambda>e. comm_ok (part_ctx e)) mid'" "\<forall>e \<in> set mid'. part_tid e \<noteq> ?t" "list_all (\<lambda>e. \<not> inserts e) mid'"
    using ok other quiet by (simp_all add: list_all_iff)
  note A = other_parts [OF inv0 oka a]
  note B = delete_pending [OF conjunct1 [OF A] b]
  note C = other_parts [OF conjunct1 [OF B] okc(1,2) c]
  obtain p where p: "map_lookup_elem h (recv_info sa) ?t = Some p" "value_load h (recv_info sa) p = recv_entry c1 sk"
    using A p0 by (auto simp: dpending_def contents_def)
  show ?thesis using B C okc(3) p tid by simp
qed

end

interpretation ref_db_prealloc: db_objects_prealloc refmap_ops "refmap_inv n" refring_ops refring_inv rr_samples for n
  by unfold_locales

section \<open>Concrete maps\<close>

definition db_maps_init :: "(refring, recvmsg_args refmap) db_maps" where
  "db_maps_init = \<lparr>db_events = refring_empty RING_BUFFER_SIZE,
     recv_info = refmap_empty recv_info_max_entries recvmsg_args_zero\<rparr>"

lemma db_maps_init_inv [simp]: "dinv refmap_ops (refmap_inv recv_info_max_entries) refring_inv db_maps_init"
  by (simp add: dinv_def db_maps_init_def dpending_def ran_def)

lemma db_maps_init_abs: "db_abs refmap_ops rr_samples db_maps_init = (\<lambda>_. None, [])"
  by (simp add: db_abs_def db_maps_init_def dpending_def fun_eq_iff)

lemma db_maps_init_room: "ringbuf_reserve refring_ops (db_events db_maps_init) 310 \<noteq> None"
  by (simp add: db_maps_init_def RING_BUFFER_SIZE_def del: not_None_eq)

lemma example_recv_port [simp]: "recv_port (example_ctx (example_tuple d) t k) 4096 = d"
  by (simp add: recv_port_def example_reads) (simp add: example_tuple_def)

section \<open>Properties\<close>

text \<open>
  C29. The database probe implements its specification: under the contracts of a hash map of
  \<open>max_entries\<close> keys and of the ring buffer, every probe that runs without another one in between keeps
  the invariant of the maps and takes them along the step of the specification, which leaves no choice: a
  call on a database port is recorded under its thread unless the map is full of other threads' entries,
  its return removes the entry and reports received bytes once, unless the ring refuses the record.
\<close>

theorem db_refines_spec:
  assumes "db_objects_bounded h hinv g rinv samples max_entries" "dinv h hinv rinv s" "comm_ok (db_ctx e)"
  shows "dinv h hinv rinv (db_step g h e s) \<and>
    db_spec (db_tid e \<in> dom (dpending h s) \<or> card (dom (dpending h s)) < max_entries)
      (ringbuf_reserve g (db_events s) 310 \<noteq> None) e
      (db_abs h samples s) (db_abs h samples (db_step g h e s)) \<and>
    (\<forall>b. db_spec (db_tid e \<in> dom (dpending h s) \<or> card (dom (dpending h s)) < max_entries)
      (ringbuf_reserve g (db_events s) 310 \<noteq> None) e (db_abs h samples s) b \<longrightarrow>
      b = db_abs h samples (db_step g h e s))"
proof -
  have obj: "db_objects h hinv g rinv samples" using assms(1) by (simp add: db_objects_bounded_def)
  note step = db_objects_bounded.step_refines_bounded [OF assms, unfolded event_struct_sizes]
  show ?thesis using db_objects.step_dinv [OF obj assms(2,3)] step db_spec_deterministic [OF _ step] by blast
qed

theorem db_refines_spec_witness:
  "db_abs refmap_ops rr_samples (db_step refring_ops refmap_ops
     (Recvmsg (example_ctx (example_tuple 5432) 7 1) 4096 0 0 0 0) db_maps_init) =
   ((\<lambda>_. None)(7 \<mapsto> recv_entry (example_ctx (example_tuple 5432) 7 1) 4096), [])"
proof -
  let ?e = "Recvmsg (example_ctx (example_tuple 5432) 7 1) 4096 0 0 0 0"
  have port: "is_db_port (recv_port (example_ctx (example_tuple 5432) 7 1) 4096)" by (simp add: is_db_port_def db_port_defs)
  have spec: "db_spec True room ?e (\<lambda>_. None, []) ((\<lambda>_. None)(7 \<mapsto> recv_entry (example_ctx (example_tuple 5432) 7 1) 4096), [])" for room
    using db_spec.recv_recorded [OF port] by simp
  have "dom (dpending refmap_ops db_maps_init) = {}" "0 < recv_info_max_entries"
    using db_maps_init_abs by (simp_all add: db_abs_def recv_info_max_entries_def)
  then have free: "(db_tid ?e \<in> dom (dpending refmap_ops db_maps_init) \<or>
      card (dom (dpending refmap_ops db_maps_init)) < recv_info_max_entries) = True" by simp
  have "comm_ok (db_ctx ?e)" by simp
  from db_refines_spec [OF ref_db_bounded.db_objects_bounded_axioms db_maps_init_inv this, unfolded free db_maps_init_abs]
  show ?thesis using spec by (metis (no_types))
qed

text \<open>
  C30. Correlation under interleaving: a thread enters \<open>tcp_recvmsg\<close> on a socket with a database port, and
  the call returns on that thread. Parts of the probes of other threads may come in between, also inside the
  return probe, after it deleted its entry and before it reads it, if none of those then inserts an entry. The
  entry is gone afterwards. A return of 0 or less reports nothing; a positive one adds exactly one record, if
  the ring has room: the port as read at entry, addresses and source port as the socket has them at return,
  the byte count, and the count capped at 256 as payload length.
\<close>

theorem db_recv_correlated:
  assumes obj: "db_objects_prealloc h hinv g rinv samples" and inv: "dinv h hinv rinv s"
    and ok: "list_all (\<lambda>e. comm_ok (part_ctx e)) (Enter c1 sk msg len flags al # mid @ Return_delete c2 # mid')" "comm_ok c3"
    and sock1: "sock_at c1 T1 sk img1" and port: "st_dport (sock_tuple_of T1 img1) \<in> {5432, 3306, 6379, 26379}"
    and stored: "fst (map_update_elem h (recv_info s) (current_pid_tgid c1) (recv_entry c1 sk)) = 0"
    and other: "\<forall>e \<in> set (mid @ mid'). part_tid e \<noteq> current_pid_tgid c1" and quiet: "\<forall>e \<in> set mid'. \<not> inserts e"
    and tid: "current_pid_tgid c2 = current_pid_tgid c1" "current_pid_tgid c3 = current_pid_tgid c1" and sk: "sk \<noteq> 0"
    and sock2: "sock_at c3 T2 sk img2" and v: "v = sock_tuple_of T2 img2"
    and before: "run_steps (part_step g h) (Enter c1 sk msg len flags al # mid @ Return_delete c2 # mid') (s, held) = (s1, held1)"
    and after: "part_step g h (Return_use c3 ret) (s1, held1) = (s2, held2)"
  shows "dpending h s2 (current_pid_tgid c1) = None \<and>
    (if sint ret \<le> 0 \<or> ringbuf_reserve g (db_events s1) 310 = None
     then db_events s2 = db_events s1
     else \<exists>p. samples (db_events s2) = samples (db_events s1) @ [(p, True, db_event_bytes
        \<lparr>db_timestamp_ns = ktime_ns c3, db_event_type = 7, db_pid = hi32 (current_pid_tgid c1),
         db_src_ip = st_saddr v, db_dst_ip = st_daddr v, db_src_port = st_num v,
         db_dst_port = st_dport (sock_tuple_of T1 img1), db_protocol = 0, db_pad = 0,
         db_payload_len = (if 256 < ret then 256 else ret), db_response_bytes = ret,
         db_payload = replicate 256 0, db_comm = current_comm c3 16\<rparr>)])"
proof -
  have p: "recv_port c1 sk = st_dport (sock_tuple_of T1 img1)"
    by (simp add: recv_port_def sock_at_reads [OF sock1])
  then have "is_db_port (recv_port c1 sk)" using port by (auto simp: is_db_port_def db_port_defs)
  from db_objects_prealloc.return_in_parts [OF obj inv ok(1) this stored other quiet tid(1) before]
  obtain q where s1: "dinv h hinv rinv s1" "dpending h s1 (current_pid_tgid c1) = None"
      "held1 (current_pid_tgid c1) = Some q" "value_load h (recv_info s1) q = recv_entry c1 sk" by blast
  have report: "db_report c3 (recv_entry c1 sk) ret =
        \<lparr>db_timestamp_ns = ktime_ns c3, db_event_type = 7, db_pid = hi32 (current_pid_tgid c1),
         db_src_ip = st_saddr v, db_dst_ip = st_daddr v, db_src_port = st_num v,
         db_dst_port = st_dport (sock_tuple_of T1 img1), db_protocol = 0, db_pad = 0,
         db_payload_len = (if 256 < ret then 256 else ret), db_response_bytes = ret,
         db_payload = replicate 256 0, db_comm = current_comm c3 16\<rparr>"
    by (simp add: db_report_def recv_entry_def p v tid sk sock_at_reads [OF sock2] capped_def event_simps
        DB_PROTO_UNKNOWN_def)
  have r: "rinv (db_events s1)" using s1(1) by (simp add: dinv_def)
  have "db_event_ok (db_report c3 (recv_entry c1 sk) ret)" using ok(2) by simp
  note out = db_objects.db_emit_outcome(2) [OF db_objects_prealloc.axioms(1) [OF obj] r this, unfolded report event_struct_sizes]
  have "ra_buf_ptr (value_load h (recv_info s1) q) = 0" by (simp add: s1(4) recv_entry_def)
  from handle_tcp_recvmsg_ret_use_eq [OF this, of g c3 ret]
  have s2: "s2 = (if sint ret \<le> 0 then s1
      else s1\<lparr>db_events := snd (reserve_copy_submit g 310 (db_event_bytes (db_report c3 (recv_entry c1 sk) ret)) (db_events s1))\<rparr>)"
    using after s1(3,4) tid(2) by (auto simp: Let_def)
  then have "dpending h s2 (current_pid_tgid c1) = None" using s1(2) by (simp add: dpending_def)
  then show ?thesis using out s2 unfolding report by (simp split: if_splits)
qed

theorem db_recv_correlated_witness:
  "\<exists>p. rr_samples (db_events (fst (part_step refring_ops refmap_ops
       (Return_use (example_ctx (example_tuple 5432) 7 3) 300)
       (run_steps (part_step refring_ops refmap_ops)
         [Enter (example_ctx (example_tuple 5432) 7 1) 4096 0 0 0 0,
          Enter (example_ctx (example_tuple 6379) 9 2) 4096 0 0 0 0,
          Return_delete (example_ctx (example_tuple 5432) 7 3),
          Return_delete (example_ctx (example_tuple 6379) 9 4)] (db_maps_init, \<lambda>_. None))))) =
     [(p, True, db_event_bytes
        \<lparr>db_timestamp_ns = 3, db_event_type = 7, db_pid = 0,
         db_src_ip = 0x0100007F, db_dst_ip = 0x0200000A, db_src_port = 40000, db_dst_port = 5432,
         db_protocol = 0, db_pad = 0, db_payload_len = 256, db_response_bytes = 300,
         db_payload = replicate 256 0, db_comm = replicate 16 0\<rparr>)]"
proof -
  let ?c = "\<lambda>d t k. example_ctx (example_tuple d) t k"
  let ?mid = "[Enter (?c 6379 9 2) 4096 0 0 0 0]" and ?mid' = "[Return_delete (?c 6379 9 4)]"
  let ?es = "Enter (?c 5432 7 1) 4096 0 0 0 0 # ?mid @ Return_delete (?c 5432 7 3) # ?mid'"
  obtain s1 held1 where s1: "run_steps (part_step refring_ops refmap_ops) ?es (db_maps_init, \<lambda>_. None) = (s1, held1)" by fastforce
  obtain s2 held2 where s2: "part_step refring_ops refmap_ops (Return_use (?c 5432 7 3) 300) (s1, held1) = (s2, held2)" by fastforce
  have ring: "db_events s1 = db_events db_maps_init"
    using s1 by (auto simp: handle_tcp_recvmsg_eq Let_def split: option.splits if_splits)
  have stored: "fst (map_update_elem refmap_ops (recv_info db_maps_init)
      (current_pid_tgid (?c 5432 7 1)) (recv_entry (?c 5432 7 1) 4096)) = 0"
    by (simp add: db_maps_init_def recv_info_max_entries_def)
  have ok: "list_all (\<lambda>e. comm_ok (part_ctx e)) ?es"
    and port: "st_dport (sock_tuple_of struct_sock (sock_image (example_tuple 5432))) \<in> {5432, 3306, 6379, 26379}"
    and other: "\<forall>e \<in> set (?mid @ ?mid'). part_tid e \<noteq> current_pid_tgid (?c 5432 7 1)" and quiet: "\<forall>e \<in> set ?mid'. \<not> inserts e"
    and tid: "current_pid_tgid (?c 5432 7 3) = current_pid_tgid (?c 5432 7 1)"
    and sk: "(4096 :: u64) \<noteq> 0" and hi: "hi32 7 = 0"
    and none: "rr_samples (db_events db_maps_init) = []"
    by (simp_all add: part_tid_def example_tuple_def hi32_def db_maps_init_def)
  note claim = db_recv_correlated [OF ref_db_prealloc.db_objects_prealloc_axioms db_maps_init_inv ok example_comm_ok example_sock_at
      port stored other quiet tid tid sk example_sock_at refl s1 s2]
  have "\<exists>p. rr_samples (db_events s2) = [(p, True, db_event_bytes
        \<lparr>db_timestamp_ns = 3, db_event_type = 7, db_pid = 0,
         db_src_ip = 0x0100007F, db_dst_ip = 0x0200000A, db_src_port = 40000, db_dst_port = 5432,
         db_protocol = 0, db_pad = 0, db_payload_len = 256, db_response_bytes = 300,
         db_payload = replicate 256 0, db_comm = replicate 16 0\<rparr>)]"
    using claim db_maps_init_room unfolding ring none
    by (simp add: hi del: part_step.simps run_steps.simps not_None_eq) (simp add: example_tuple_def)
  then show ?thesis using s1 s2 by (simp del: part_step.simps)
qed

text \<open>
  No entry outlives its call: from an empty map, after any interleaving of receive calls and
  returns in which the last event of every thread is a return, \<open>recv_info\<close> is empty,
  whatever the return codes were.
\<close>

lemma db_no_entry_after_returns:
  assumes "db_objects h hinv g rinv samples" "dinv h hinv rinv s"
    and "list_all (\<lambda>e. comm_ok (db_ctx e)) es" "\<forall>k. dpending h s k = None"
    and "\<forall>e \<in> set es. \<exists>x. last_of db_tid (db_tid e) es = Some x \<and> is_recv_ret x"
  shows "dpending h (run_steps (db_step g h) es s) k = None"
  using db_objects.db_no_leak [OF assms(1-4)] assms(5) by simp

lemma db_no_entry_after_returns_example:
  "dpending refmap_ops (run_steps (db_step refring_ops refmap_ops)
     [Recvmsg (example_ctx (example_tuple 5432) 7 1) 4096 0 0 0 0,
      Recvmsg (example_ctx (example_tuple 6379) 9 2) 4096 0 0 0 0,
      RecvmsgRet (example_ctx (example_tuple 5432) 7 3) (- 11),
      RecvmsgRet (example_ctx (example_tuple 6379) 9 5) 12] db_maps_init) 7 = None"
  by (rule db_no_entry_after_returns [OF ref_db.db_objects_axioms db_maps_init_inv])
    (simp_all add: db_tid_def db_maps_init_def dpending_def)

text \<open>
  C35. What is ever reported: in every run from empty maps each database event has a database
  port, a positive byte count, and a payload length that is that count capped at 256 and never
  0; but its protocol is always UNKNOWN and its payload all zeroes, because the entry probe
  stores a null buffer pointer, so the payload length counts bytes that were not captured.
\<close>

theorem db_reports_never_classified:
  assumes "db_objects h hinv g rinv samples" "dinv h hinv rinv s"
    and "list_all (\<lambda>e. comm_ok (db_ctx e)) es" "db_abs h samples s = (\<lambda>_. None, [])"
    and final: "db_abs h samples (run_steps (db_step g h) es s) = (P, E)"
  shows "list_all db_report_wf E"
proof -
  have "db_reach (P, E)"
    using db_objects.run_reach [OF assms(1,2,3)] db_reach.start assms(4) final by metis
  then show ?thesis using db_reach_inv by (fastforce simp: db_abs_inv_def)
qed

theorem db_reports_never_classified_witness:
  "\<exists>P E. db_abs refmap_ops rr_samples (run_steps (db_step refring_ops refmap_ops)
       [Recvmsg (example_ctx (example_tuple 5432) 7 1) 4096 0 0 0 0,
        RecvmsgRet (example_ctx (example_tuple 5432) 7 3) 12] db_maps_init) = (P, E) \<and>
     list_all db_report_wf E"
proof -
  obtain P E where "db_abs refmap_ops rr_samples (run_steps (db_step refring_ops refmap_ops)
       [Recvmsg (example_ctx (example_tuple 5432) 7 1) 4096 0 0 0 0,
        RecvmsgRet (example_ctx (example_tuple 5432) 7 3) 12] db_maps_init) = (P, E)" by fastforce
  with db_reports_never_classified [OF ref_db.db_objects_axioms db_maps_init_inv _ db_maps_init_abs this]
  show ?thesis by simp
qed

text \<open>
  The pointer is used after the deletion: the return probe of one thread has deleted its
  entry and a second thread, without an entry so far, enters \<open>tcp_recvmsg\<close> on another database
  socket before the first one goes on. On a map whose insertions reuse the freed element (which
  the contract of a hash map permits) the first thread then reports the port, addresses and
  source port of the second thread's socket under its own process id.
\<close>

lemma db_args_after_delete_race:
  assumes inv: "dinv refmap_ops (refmap_inv n) refring_inv s"
    and entry: "map_lookup_elem refmap_ops (recv_info s) (current_pid_tgid c1) = Some args"
    and ret: "0 < sint ret" and ok: "comm_ok c1"
    and other: "current_pid_tgid c2 \<noteq> current_pid_tgid c1"
      "map_lookup_elem refmap_ops (recv_info s) (current_pid_tgid c2) = None"
    and port: "is_db_port (recv_port c2 sk2)"
    and deleted: "s1 = s\<lparr>recv_info := snd (map_delete_elem refmap_ops (recv_info s) (current_pid_tgid c1))\<rparr>"
    and raced: "s2 = db_step refring_ops refmap_ops (Recvmsg c2 sk2 msg len flags al) s1"
    and room: "ringbuf_reserve refring_ops (db_events s) 310 \<noteq> None"
  shows "handle_tcp_recvmsg_ret refring_ops refmap_ops c1 ret s =
      handle_tcp_recvmsg_ret_use refring_ops refmap_ops c1 ret args s1 \<and>
    (\<exists>p. rr_samples (db_events (snd (handle_tcp_recvmsg_ret_use refring_ops refmap_ops c1 ret args s2))) =
      rr_samples (db_events s) @ [(p, True, db_event_bytes (db_report c1 (recv_entry c2 sk2) ret))])"
proof -
  have v: "value_load refmap_ops (recv_info s2) args = recv_entry c2 sk2"
    using refmap_slot_reuse [OF entry other] port by (simp add: raced deleted handle_tcp_recvmsg_eq)
  have r: "refring_inv (db_events s)" "db_events s2 = db_events s"
    using inv by (simp_all add: dinv_def raced deleted handle_tcp_recvmsg_eq)
  have "ra_buf_ptr (value_load refmap_ops (recv_info s2) args) = 0" by (simp add: v recv_entry_def)
  from handle_tcp_recvmsg_ret_use_eq [OF this, of refring_ops c1 ret]
  have use: "db_events (snd (handle_tcp_recvmsg_ret_use refring_ops refmap_ops c1 ret args s2)) =
      snd (reserve_copy_submit refring_ops (csize struct_db_event)
        (db_event_bytes (db_report c1 (recv_entry c2 sk2) ret)) (db_events s))"
    using ret by (simp add: v r(2))
  have split: "handle_tcp_recvmsg_ret refring_ops refmap_ops c1 ret s =
      handle_tcp_recvmsg_ret_use refring_ops refmap_ops c1 ret args s1"
    by (simp add: handle_tcp_recvmsg_ret_def entry deleted Let_def split: prod.splits)
  have "\<exists>p. rr_samples (db_events (snd (handle_tcp_recvmsg_ret_use refring_ops refmap_ops c1 ret args s2))) =
      rr_samples (db_events s) @ [(p, True, db_event_bytes (db_report c1 (recv_entry c2 sk2) ret))]"
    using ref_db.db_emit_outcome(2) [OF r(1) db_report_ok [OF ok]] room unfolding use
    by (simp del: not_None_eq split: if_splits)
  with split show ?thesis by blast
qed

lemma db_args_after_delete_race_example:
  "\<exists>p s. dpending refmap_ops s 7 = Some \<lparr>ra_sock_ptr = 4096, ra_buf_ptr = 0, ra_dst_port = 5432\<rparr> \<and>
     rr_samples (db_events (snd (handle_tcp_recvmsg_ret_use refring_ops refmap_ops
       (example_ctx (example_tuple 5432) 7 3) 12 0
       (db_step refring_ops refmap_ops (Recvmsg (example_ctx (example_tuple 6379) 9 2) 4096 0 0 0 0)
         (s\<lparr>recv_info := snd (map_delete_elem refmap_ops (recv_info s) 7)\<rparr>))))) =
     [(p, True, db_event_bytes (db_report (example_ctx (example_tuple 5432) 7 3)
        \<lparr>ra_sock_ptr = 4096, ra_buf_ptr = 0, ra_dst_port = 6379\<rparr> 12))]"
proof -
  let ?c = "\<lambda>d t k. example_ctx (example_tuple d) t k"
  let ?a = "\<lparr>ra_sock_ptr = 4096, ra_buf_ptr = 0, ra_dst_port = 5432\<rparr>"
  let ?s = "\<lparr>db_events = refring_empty RING_BUFFER_SIZE,
    recv_info = \<lparr>rm_index = [(7, 0)], rm_free = [1], rm_elems = (\<lambda>_. ?a)\<rparr>\<rparr>"
  have inv: "dinv refmap_ops (refmap_inv 2) refring_inv ?s"
    by (auto simp: dinv_def dpending_def refmap_contents refmap_inv_def ran_def args_ok_def is_db_port_def
        db_port_defs split: if_splits)
  have entry: "map_lookup_elem refmap_ops (recv_info ?s) (current_pid_tgid (?c 5432 7 3)) = Some 0"
    and other: "current_pid_tgid (?c 6379 9 2) \<noteq> current_pid_tgid (?c 5432 7 3)"
      "map_lookup_elem refmap_ops (recv_info ?s) (current_pid_tgid (?c 6379 9 2)) = None"
    and port: "is_db_port (recv_port (?c 6379 9 2) 4096)" and ret: "0 < sint (12 :: i32)"
    and pend: "dpending refmap_ops ?s 7 = Some ?a"
    by (simp_all add: refmap_ops_def is_db_port_def db_port_defs dpending_def contents_def)
  have room: "ringbuf_reserve refring_ops (db_events ?s) 310 \<noteq> None"
    by (simp add: RING_BUFFER_SIZE_def del: not_None_eq)
  note claim = db_args_after_delete_race [OF inv entry ret example_comm_ok other port refl refl room]
  show ?thesis
    by (rule exE [OF conjunct2 [OF claim]]) (use pend in \<open>force simp: recv_entry_def\<close>)
qed

text \<open>
  The classifier reads nothing beyond the length it is given: on buffers that agree on
  their first \<open>len\<close> bytes it returns the same protocol, for every port.
\<close>

lemma detect_protocol_reads_within_len:
  assumes "\<forall>i < unat len. buf ! i = buf' ! i"
  shows "detect_protocol buf len port = detect_protocol buf' len port"
proof (cases "len < 2")
  case False
  then have "2 \<le> unat len" by (simp add: word_less_nat_alt)
  moreover have "5 \<le> unat len" if "5 \<le> len" using that by (simp add: word_le_nat_alt)
  ultimately have "buf ! 0 = buf' ! 0" "buf ! 1 = buf' ! 1" "5 \<le> len \<Longrightarrow> buf ! 4 = buf' ! 4"
    using assms by auto
  then show ?thesis by (simp add: detect_protocol_def Let_def cong: conj_cong)
qed (simp add: detect_protocol_def)

lemma detect_protocol_reads_within_len_example:
  "detect_protocol [0x05, 0, 0, 0x01] 4 3306 = detect_protocol [0x05, 0, 0, 0x01, 0x0a] 4 3306"
proof (rule detect_protocol_reads_within_len, intro allI impI)
  fix i assume "i < unat (4 :: u32)"
  then have "i = 0 \<or> i = 1 \<or> i = 2 \<or> i = 3" by auto
  then show "[0x05, 0, 0, 0x01 :: u8] ! i = [0x05, 0, 0, 0x01, 0x0a] ! i" by auto
qed

text \<open>The marker tests as sets of bytes.\<close>

definition pg_markers :: "u8 set" where "pg_markers = of_char ` set ''RKTDCEZNSQPB''"
definition mysql_markers :: "u8 set" where "mysql_markers = {0x0a, 0x00, 0xff, 0x03, 0x17}"
definition redis_markers :: "u8 set" where
  "redis_markers = of_char ` set ''*+-:$'' \<union> {65..90} \<union> {97..122}"

lemma marker_iffs:
  "b0 = ascii CHR ''R'' \<or> b0 = ascii CHR ''K'' \<or> b0 = ascii CHR ''T'' \<or> b0 = ascii CHR ''D'' \<or>
   b0 = ascii CHR ''C'' \<or> b0 = ascii CHR ''E'' \<or> b0 = ascii CHR ''Z'' \<or> b0 = ascii CHR ''N'' \<or>
   b0 = ascii CHR ''S'' \<or> b0 = ascii CHR ''Q'' \<or> b0 = ascii CHR ''P'' \<or> b0 = ascii CHR ''B'' \<longleftrightarrow>
   b0 \<in> pg_markers"
  "b4 = 0x0a \<or> b4 = 0x00 \<or> b4 = 0xff \<or> b4 = 0x03 \<or> b4 = 0x17 \<longleftrightarrow> b4 \<in> mysql_markers"
  "b0 = ascii CHR ''*'' \<or> b0 = ascii CHR ''+'' \<or> b0 = ascii CHR ''-'' \<or> b0 = ascii CHR '':'' \<or>
   b0 = ascii CHR ''$'' \<or>
   (b0 \<ge> ascii CHR ''A'' \<and> b0 \<le> ascii CHR ''Z'') \<or> (b0 \<ge> ascii CHR ''a'' \<and> b0 \<le> ascii CHR ''z'') \<longleftrightarrow>
   b0 \<in> redis_markers"
  by (simp_all add: pg_markers_def mysql_markers_def redis_markers_def disj_assoc)

lemma detect_protocol_markers:
  "detect_protocol buf len port =
     (if len < 2 then DB_PROTO_UNKNOWN
      else if buf ! 0 = 0x16 \<and> buf ! 1 = 0x03 then DB_PROTO_ENCRYPTED
      else if port = 5432 \<and> buf ! 0 \<in> pg_markers then DB_PROTO_PG
      else if port = 3306 \<and> 5 \<le> len \<and> buf ! 4 \<in> mysql_markers then DB_PROTO_MYSQL
      else if port \<in> {6379, 26379} \<and> buf ! 0 \<in> redis_markers then DB_PROTO_REDIS
      else DB_PROTO_UNKNOWN)"
  unfolding detect_protocol_def Let_def marker_iffs db_port_defs by (simp only: insert_iff empty_iff simp_thms)

text \<open>
  The classification: on at least five bytes the protocol is ENCRYPTED exactly for a TLS
  handshake record header \<open>0x16 0x03\<close>; otherwise PostgreSQL, MySQL or Redis exactly when
  the port is the protocol's and the marker byte (byte 0, for MySQL byte 4) is one of the
  protocol's; and UNKNOWN in all other cases.
\<close>

lemma detect_protocol_classifies:
  assumes "5 \<le> len"
  shows "detect_protocol (b0 # b1 # b2 # b3 # b4 # rest) len port =
    (if (b0, b1) = (0x16, 0x03) then DB_PROTO_ENCRYPTED
     else if port = 5432 \<and> b0 \<in> of_char ` set ''RKTDCEZNSQPB'' then DB_PROTO_PG
     else if port = 3306 \<and> b4 \<in> {0x0a, 0x00, 0xff, 0x03, 0x17} then DB_PROTO_MYSQL
     else if port \<in> {6379, 26379} \<and> (b0 \<in> of_char ` set ''*+-:$'' \<or> b0 \<in> {65..90} \<union> {97..122})
     then DB_PROTO_REDIS
     else DB_PROTO_UNKNOWN)"
proof -
  have "\<not> len < 2" using assms by (simp add: word_less_nat_alt word_le_nat_alt)
  moreover have "(b0 # b1 # b2 # b3 # b4 # rest) ! 0 = b0" "(b0 # b1 # b2 # b3 # b4 # rest) ! 1 = b1"
    "(b0 # b1 # b2 # b3 # b4 # rest) ! 4 = b4" by simp_all
  ultimately show ?thesis using assms
    unfolding detect_protocol_markers pg_markers_def mysql_markers_def redis_markers_def Un_iff disj_assoc
    by (simp only: prod.inject simp_thms if_False if_True)
qed

lemma detect_protocol_classifies_example:
  "detect_protocol [0x4a, 0, 0, 0, 0x0a, 0x38, 0x2e, 0x30] 8 3306 = DB_PROTO_MYSQL"
  using detect_protocol_classifies [of 8 "0x4a" 0 0 0 "0x0a" "[0x38, 0x2e, 0x30]" 3306] by simp

end
