(* ===== verification/Db_Inspector.thy ===== *)
theory Db_Inspector
  imports Agent_Base Db_Probe
begin

text \<open>
  \<open>db_inspector.rs\<close>: the protocol enumeration of the agent and its own classifier, which the
  kernel program's \<open>detect_protocol\<close> mirrors. Indexing a slice out of range panics; here the
  classifier returns None then, so that its absence is part of what is proved.
\<close>

datatype DbProtocol = Unknown | PostgreSQL | MySQL | Redis | Encrypted

definition DbProtocol_from_u8 :: "u8 \<Rightarrow> DbProtocol" where
  "DbProtocol_from_u8 v =
     (if v = 1 then PostgreSQL else if v = 2 then MySQL else if v = 3 then Redis
      else if v = 4 then Encrypted else Unknown)"

fun DbProtocol_as_str :: "DbProtocol \<Rightarrow> rstring" where
  "DbProtocol_as_str Unknown = lit ''unknown''"
| "DbProtocol_as_str PostgreSQL = lit ''postgresql''"
| "DbProtocol_as_str MySQL = lit ''mysql''"
| "DbProtocol_as_str Redis = lit ''redis''"
| "DbProtocol_as_str Encrypted = lit ''encrypted''"

definition agent_detect_protocol :: "bytes \<Rightarrow> u16 \<Rightarrow> DbProtocol option" where
  "agent_detect_protocol payload port =
     (if length payload < 2 then Some Unknown
      else
        (case (slice_get payload 0, slice_get payload 1) of
           (Some b0, Some b1) \<Rightarrow>
             if b0 = 0x16 \<and> b1 = 0x03 then Some Encrypted
             else if port = 5432 \<and>
               (b0 = ascii CHR ''R'' \<or> b0 = ascii CHR ''K'' \<or> b0 = ascii CHR ''T'' \<or> b0 = ascii CHR ''D'' \<or>
                b0 = ascii CHR ''C'' \<or> b0 = ascii CHR ''E'' \<or> b0 = ascii CHR ''Z'' \<or> b0 = ascii CHR ''N'' \<or>
                b0 = ascii CHR ''S'' \<or> b0 = ascii CHR ''Q'' \<or> b0 = ascii CHR ''P'' \<or> b0 = ascii CHR ''B'')
             then Some PostgreSQL
             else
               (let redis =
                  (if (port = 6379 \<or> port = 26379) \<and>
                      (b0 = ascii CHR ''*'' \<or> b0 = ascii CHR ''+'' \<or> b0 = ascii CHR ''-'' \<or> b0 = ascii CHR '':'' \<or>
                       b0 = ascii CHR ''$'' \<or>
                       (b0 \<ge> ascii CHR ''A'' \<and> b0 \<le> ascii CHR ''Z'') \<or> (b0 \<ge> ascii CHR ''a'' \<and> b0 \<le> ascii CHR ''z''))
                   then Redis else Unknown)
                in if port = 3306 \<and> length payload \<ge> 5
                   then (case slice_get payload 4 of
                           None \<Rightarrow> None
                         | Some b4 \<Rightarrow>
                             if b4 = 0x0a \<or> b4 = 0x00 \<or> b4 = 0xff \<or> b4 = 0x03 \<or> b4 = 0x17 then Some MySQL
                             else Some redis)
                   else Some redis)
         | _ \<Rightarrow> None))"

lemma agent_detect_markers:
  "agent_detect_protocol payload port =
     Some (if length payload < 2 then Unknown
      else if payload ! 0 = 0x16 \<and> payload ! 1 = 0x03 then Encrypted
      else if port = 5432 \<and> payload ! 0 \<in> pg_markers then PostgreSQL
      else if port = 3306 \<and> 5 \<le> length payload \<and> payload ! 4 \<in> mysql_markers then MySQL
      else if port \<in> {6379, 26379} \<and> payload ! 0 \<in> redis_markers then Redis
      else Unknown)"
  unfolding agent_detect_protocol_def slice_get_def marker_iffs Let_def by (simp split: option.splits)

lemma from_u8_codes:
  "DbProtocol_from_u8 DB_PROTO_UNKNOWN = Unknown" "DbProtocol_from_u8 DB_PROTO_PG = PostgreSQL"
  "DbProtocol_from_u8 DB_PROTO_MYSQL = MySQL" "DbProtocol_from_u8 DB_PROTO_REDIS = Redis"
  "DbProtocol_from_u8 DB_PROTO_ENCRYPTED = Encrypted"
  by (simp_all add: DbProtocol_from_u8_def db_proto_defs)

section \<open>Properties\<close>

text \<open>
  Kernel and agent classify alike: the agent's classifier never panics, and the code the
  kernel's classifier returns for the first bytes of a payload, read by the agent as an
  enumeration value, is the agent's own classification of those bytes, for every port.
\<close>

lemma detect_protocol_same_in_agent:
  assumes "unat len = length payload"
  shows "agent_detect_protocol payload port = Some (DbProtocol_from_u8 (detect_protocol payload len port))"
proof -
  have "len < 2 \<longleftrightarrow> length payload < 2" "5 \<le> len \<longleftrightarrow> 5 \<le> length payload"
    using assms by (simp_all add: word_less_nat_alt word_le_nat_alt)
  then show ?thesis
    unfolding agent_detect_markers detect_protocol_markers by (simp add: from_u8_codes)
qed

lemma detect_protocol_same_in_agent_example:
  "agent_detect_protocol [0x2a, 0x31, 0x0d] 6379 = Some (DbProtocol_from_u8 (detect_protocol [0x2a, 0x31, 0x0d] 3 6379))"
  by (rule detect_protocol_same_in_agent) simp

end
