(* ===== verification/Db_Parsers.thy ===== *)
theory Db_Parsers
  imports Db_Inspector "HOL-Library.Monad_Syntax"
begin

text \<open>
  The parsing helpers of \<open>db_inspector.rs\<close>: NUL- and CRLF-terminated strings, the PostgreSQL
  command tag and error fields, MySQL's length-encoded integers, Redis commands, and the best-effort
  reading of SQL text. A function that indexes or slices returns an option whose None is the panic.
\<close>

section \<open>Strings\<close>

definition read_null_string :: "bytes \<Rightarrow> rstring" where
  "read_null_string data = from_utf8_lossy (until_nul data)"

definition skip_null_string :: "bytes \<Rightarrow> bytes" where
  "skip_null_string data = (case dropWhile (\<lambda>b. b \<noteq> 0) data of [] \<Rightarrow> [] | _ # rest \<Rightarrow> rest)"

definition read_crlf_string :: "bytes \<Rightarrow> rstring" where
  "read_crlf_string data = (case split_crlf (from_utf8_lossy data) of [] \<Rightarrow> [] | line # _ \<Rightarrow> line)"

definition MAX_QUERY_LEN :: nat where
  "MAX_QUERY_LEN = 1024"

definition truncate_query :: "rstring \<Rightarrow> rstring" where
  "truncate_query q =
     (if str_len q \<le> MAX_QUERY_LEN then q else take MAX_QUERY_LEN q @ lit ''...'')"

definition socket_key :: "u32 \<Rightarrow> u16 \<Rightarrow> u64" where
  "socket_key pid port = push_bit 16 (ucast pid) OR ucast port"

definition format_redis_command :: "rstring \<Rightarrow> rstring \<Rightarrow> rstring" where
  "format_redis_command command key = (if key = [] then command else command @ lit '' '' @ key)"

section \<open>PostgreSQL\<close>

text \<open>\<open>parts.get(i).and_then(|s| s.parse().ok()).unwrap_or(0)\<close>\<close>

definition nth_count :: "rstring list \<Rightarrow> nat \<Rightarrow> u64" where
  "nth_count parts i =
     (if i < length parts then (case parse_uint 10 64 (parts ! i) of Some n \<Rightarrow> of_nat n | None \<Rightarrow> 0) else 0)"

definition parse_pg_command_complete :: "rstring \<Rightarrow> u64" where
  "parse_pg_command_complete tag =
     (case split_whitespace tag of
        [] \<Rightarrow> 0
      | verb # rest \<Rightarrow>
          (let parts = verb # rest in
           if verb = lit ''SELECT'' then nth_count parts 1
           else if verb = lit ''INSERT'' then nth_count parts 2
           else if verb = lit ''UPDATE'' then nth_count parts 1
           else if verb = lit ''DELETE'' then nth_count parts 1
           else if verb = lit ''COPY'' then nth_count parts 1
           else 0))"

text \<open>The loop over the fields: \<open>Some (Some m)\<close> if it returns a message, \<open>Some None\<close> if it is left.\<close>

function pg_error_fields :: "bytes \<Rightarrow> nat \<Rightarrow> rstring option option" where
  "pg_error_fields data i =
     (if i < length data then
        (case slice_get data i of
           None \<Rightarrow> None
         | Some field_type \<Rightarrow>
             if field_type = 0 then Some None
             else if i + 1 \<ge> length data then Some None
             else
               (case slice_from data (i + 1) of
                  None \<Rightarrow> None
                | Some rest \<Rightarrow>
                    (let value = read_null_string rest in
                     if field_type = ascii CHR ''M'' then Some (Some value)
                     else pg_error_fields data (i + 1 + (str_len value + 1)))))
      else Some None)"
  by pat_completeness auto
termination by (relation "measure (\<lambda>(data, i). length data - i)") auto

declare pg_error_fields.simps [simp del]

definition parse_pg_error_response :: "bytes \<Rightarrow> rstring option" where
  "parse_pg_error_response payload =
     (if length payload < 6 then Some []
      else do {
        data \<leftarrow> slice_from payload 5;
        found \<leftarrow> pg_error_fields data 0;
        Some (case found of Some value \<Rightarrow> value | None \<Rightarrow> from_utf8_lossy data)
      })"

section \<open>MySQL\<close>

definition read_lenenc_int :: "bytes \<Rightarrow> u64 option" where
  "read_lenenc_int data =
     (if data = [] then Some 0
      else do {
        d0 \<leftarrow> slice_get data 0;
        if d0 \<le> 0xfb then Some (ucast d0)
        else if d0 = 0xfc then
          (if length data < 3 then Some 0
           else do {
             d1 \<leftarrow> slice_get data 1;
             d2 \<leftarrow> slice_get data 2;
             Some (ucast (un_le16 [d1, d2]))
           })
        else if d0 = 0xfd then
          (if length data < 4 then Some 0
           else do {
             d1 \<leftarrow> slice_get data 1;
             d2 \<leftarrow> slice_get data 2;
             d3 \<leftarrow> slice_get data 3;
             Some (ucast d1 OR push_bit 8 (ucast d2) OR push_bit 16 (ucast d3))
           })
        else if d0 = 0xfe then
          (if length data < 9 then Some 0
           else do {
             bs \<leftarrow> slice_range data 1 9;
             Some (un_le64 bs)
           })
        else Some 0
      })"

section \<open>Redis\<close>

datatype db_error = Missing_resp_array_count

fun resp_args :: "nat \<Rightarrow> rstring list \<Rightarrow> rstring list" where
  "resp_args 0 lines = []"
| "resp_args (Suc n) [] = []"
| "resp_args (Suc n) [len_line] = resp_args n []"
| "resp_args (Suc n) (len_line # val # lines) = val # resp_args n lines"

definition nth_or_empty :: "rstring list \<Rightarrow> nat \<Rightarrow> rstring" where
  "nth_or_empty args i = (if i < length args then args ! i else [])"

definition parse_redis_resp_array :: "bytes \<Rightarrow> db_error + (rstring \<times> rstring)" where
  "parse_redis_resp_array data =
     (case split_crlf (from_utf8_lossy data) of
        [] \<Rightarrow> Inl Missing_resp_array_count
      | count_line # lines \<Rightarrow>
          (let count = (case Option.bind (strip_prefix_char (of_char CHR ''*'') count_line) (parse_uint 10 64) of
                          Some n \<Rightarrow> n | None \<Rightarrow> 0)
           in if count = 0 then Inr (lit ''UNKNOWN'', [])
              else (let args = resp_args count lines in Inr (nth_or_empty args 0, nth_or_empty args 1))))"

definition parse_redis_inline_cmd :: "bytes \<Rightarrow> db_error + (rstring \<times> rstring)" where
  "parse_redis_inline_cmd data =
     (let line = trim_end_char 10 (trim_end_crlf (from_utf8_lossy data));
          parts = split_whitespace line
      in Inr (nth_or_empty parts 0, nth_or_empty parts 1))"

definition redis_read_commands :: "string list" where
  "redis_read_commands =
     [''GET'', ''MGET'', ''HGET'', ''HGETALL'', ''HMGET'', ''HKEYS'', ''HVALS'', ''HLEN'', ''LINDEX'',
      ''LLEN'', ''LRANGE'', ''SCARD'', ''SISMEMBER'', ''SMEMBERS'', ''SRANDMEMBER'', ''SINTER'',
      ''SUNION'', ''SDIFF'', ''ZCARD'', ''ZSCORE'', ''ZRANK'', ''ZREVRANK'', ''ZRANGE'',
      ''ZREVRANGE'', ''ZRANGEBYSCORE'', ''ZREVRANGEBYSCORE'', ''ZCOUNT'', ''TYPE'', ''EXISTS'',
      ''TTL'', ''PTTL'', ''STRLEN'', ''GETRANGE'', ''KEYS'', ''SCAN'', ''SSCAN'', ''HSCAN'',
      ''ZSCAN'', ''RANDOMKEY'', ''DBSIZE'', ''OBJECT'', ''SUBSTR'']"

definition redis_write_commands :: "string list" where
  "redis_write_commands =
     [''SET'', ''MSET'', ''HSET'', ''HMSET'', ''HSETNX'', ''LPUSH'', ''RPUSH'', ''LPOP'', ''RPOP'',
      ''LSET'', ''LREM'', ''SADD'', ''SREM'', ''SPOP'', ''SMOVE'', ''ZADD'', ''ZREM'', ''ZINCRBY'',
      ''ZREMRANGEBYRANK'', ''ZREMRANGEBYSCORE'', ''APPEND'', ''INCR'', ''DECR'', ''INCRBY'',
      ''DECRBY'', ''INCRBYFLOAT'', ''SETNX'', ''SETEX'', ''PSETEX'', ''MSETNX'', ''DEL'', ''UNLINK'',
      ''RENAME'', ''RENAMENX'', ''EXPIRE'', ''EXPIREAT'', ''PEXPIRE'', ''PEXPIREAT'', ''PERSIST'',
      ''SORT'', ''BITOP'', ''SETBIT'', ''GETBIT'', ''BITCOUNT'', ''BITPOS'', ''PFADD'', ''PFMERGE'']"

definition redis_key_commands :: "string list" where
  "redis_key_commands = [''DUMP'', ''RESTORE'', ''MIGRATE'', ''WAIT'', ''DEBUG'', ''SWAPDB'']"

definition redis_admin_commands :: "string list" where
  "redis_admin_commands =
     [''AUTH'', ''PING'', ''ECHO'', ''SELECT'', ''QUIT'', ''INFO'', ''CONFIG'', ''FLUSHDB'',
      ''FLUSHALL'', ''SAVE'', ''BGSAVE'', ''BGREWRITEAOF'', ''LASTSAVE'', ''SHUTDOWN'', ''SLOWLOG'',
      ''CLIENT'', ''MONITOR'', ''SYNC'', ''PSYNC'', ''REPLICAOF'', ''SLAVEOF'', ''CLUSTER'',
      ''SCRIPT'', ''EVAL'', ''EVALSHA'', ''SUBSCRIBE'', ''UNSUBSCRIBE'', ''PUBLISH'',
      ''PSUBSCRIBE'', ''PUNSUBSCRIBE'', ''WATCH'', ''UNWATCH'', ''MULTI'', ''EXEC'', ''DISCARD'',
      ''RESET'', ''ASKING'', ''READONLY'', ''READWRITE'', ''MEMORY'', ''MODULE'', ''LATENCY'',
      ''TIME'', ''COMMAND'', ''XADD'', ''XLEN'', ''XRANGE'', ''XREVRANGE'', ''XREAD'', ''XINFO'',
      ''XDEL'', ''XTRIM'', ''XREADGROUP'', ''XGROUP'', ''XACK'', ''XCLAIM'', ''XPENDING'']"

definition redis_command_type :: "rstring \<Rightarrow> rstring" where
  "redis_command_type command =
     (let cmd = to_uppercase command in
      if cmd \<in> set (map lit redis_read_commands) then lit ''READ''
      else if cmd \<in> set (map lit redis_write_commands) then lit ''WRITE''
      else if cmd \<in> set (map lit redis_key_commands) then lit ''KEY''
      else if cmd \<in> set (map lit redis_admin_commands) then lit ''ADMIN''
      else lit ''OTHER'')"

section \<open>SQL\<close>

text \<open>\<open>t.split('.').next_back().unwrap_or(t)\<close>\<close>

definition strip_schema :: "rstring \<Rightarrow> rstring" where
  "strip_schema t = (case rev (split_char (of_char CHR ''.'') t) of [] \<Rightarrow> t | x # _ \<Rightarrow> x)"

fun position :: "('a \<Rightarrow> bool) \<Rightarrow> 'a list \<Rightarrow> nat option" where
  "position p [] = None"
| "position p (x # xs) = (if p x then Some 0 else map_option Suc (position p xs))"

definition list_get :: "'a list \<Rightarrow> nat \<Rightarrow> 'a option" where
  "list_get xs i = (if i < length xs then Some (xs ! i) else None)"

definition clean_table :: "rstring \<Rightarrow> rstring" where
  "clean_table t = trim_matches (\<lambda>c. c \<in> set (lit ''(),'')) t"

definition table_after :: "rstring \<Rightarrow> rstring list \<Rightarrow> rstring list \<Rightarrow> rstring option" where
  "table_after keyword words orig_words =
     (case position (\<lambda>w. w = keyword) words of
        None \<Rightarrow> None
      | Some i \<Rightarrow> list_get orig_words (i + 1))"

definition table_at :: "rstring list \<Rightarrow> nat \<Rightarrow> rstring" where
  "table_at orig_words i = (case list_get orig_words i of Some t \<Rightarrow> strip_schema t | None \<Rightarrow> [])"

definition bare_keywords :: "string list" where
  "bare_keywords =
     [''BEGIN'', ''COMMIT'', ''ROLLBACK'', ''SAVEPOINT'', ''SET'', ''SHOW'', ''EXPLAIN'', ''DESCRIBE'',
      ''DESC'', ''USE'']"

definition parse_sql :: "rstring \<Rightarrow> rstring \<times> rstring" where
  "parse_sql q =
     (let trimmed = trim q in
      if trimmed = [] then (lit ''UNKNOWN'', [])
      else
        (let words = split_whitespace (to_uppercase trimmed); orig_words = split_whitespace trimmed in
         case words of
           [] \<Rightarrow> (lit ''UNKNOWN'', [])
         | w0 # _ \<Rightarrow>
             if w0 = lit ''SELECT'' then
               (lit ''SELECT'',
                case table_after (lit ''FROM'') words orig_words of
                  None \<Rightarrow> []
                | Some table \<Rightarrow>
                    (let table_clean = clean_table table in
                     if table_clean \<noteq> [] \<and> \<not> starts_with (lit ''('') table_clean
                     then strip_schema table_clean else []))
             else if w0 = lit ''INSERT'' then
               (lit ''INSERT'',
                case table_after (lit ''INTO'') words orig_words of
                  None \<Rightarrow> [] | Some table \<Rightarrow> strip_schema (clean_table table))
             else if w0 = lit ''UPDATE'' then (lit ''UPDATE'', table_at orig_words 1)
             else if w0 = lit ''DELETE'' then
               (lit ''DELETE'',
                case table_after (lit ''FROM'') words orig_words of
                  None \<Rightarrow> [] | Some table \<Rightarrow> strip_schema (clean_table table))
             else if w0 = lit ''CREATE'' then (lit ''CREATE'', table_at orig_words 2)
             else if w0 = lit ''DROP'' then (lit ''DROP'', table_at orig_words 2)
             else if w0 = lit ''ALTER'' then (lit ''ALTER'', table_at orig_words 2)
             else if w0 = lit ''TRUNCATE'' then
               (lit ''TRUNCATE'', table_at orig_words (if list_get words 1 = Some (lit ''TABLE'') then 2 else 1))
             else if w0 \<in> set (map lit bare_keywords) then (w0, [])
             else (lit ''COMMAND'', [])))"

section \<open>No panics\<close>

lemma pg_error_fields_total: "pg_error_fields data i \<noteq> None"
proof (induction data i rule: pg_error_fields.induct)
  case (1 data i)
  then show ?case
    by (subst pg_error_fields.simps) (simp add: slice_get_def slice_from_def Let_def del: not_None_eq)
qed

lemma parse_pg_error_response_total: "parse_pg_error_response payload \<noteq> None"
  using pg_error_fields_total [of "drop 5 payload" 0]
  by (auto simp: parse_pg_error_response_def slice_from_def)

lemma read_lenenc_int_total: "read_lenenc_int data \<noteq> None"
  by (simp add: read_lenenc_int_def slice_get_def slice_range_def)

lemma parse_redis_ok: "\<exists>p. parse_redis_resp_array data = Inr p" "\<exists>p. parse_redis_inline_cmd data = Inr p"
  by (auto simp: parse_redis_resp_array_def parse_redis_inline_cmd_def Let_def split: list.splits)

section \<open>Keys\<close>

lemma bit_socket_key:
  "n < 64 \<Longrightarrow> bit (socket_key pid port) n \<longleftrightarrow> (if n < 16 then bit port n else bit pid (n - 16))"
  by (auto simp: socket_key_def bit_or_iff bit_push_bit_iff bit_ucast_iff dest: bit_imp_le_length)

lemma socket_key_inject [simp]: "socket_key pid port = socket_key pid' port' \<longleftrightarrow> pid = pid' \<and> port = port'"
proof
  assume eq: "socket_key pid port = socket_key pid' port'"
  have "port = port'"
  proof (rule bit_word_eqI)
    fix n assume "n < LENGTH(16)"
    then show "bit port n \<longleftrightarrow> bit port' n"
      using bit_socket_key [of n pid port] bit_socket_key [of n pid' port'] eq by simp
  qed
  moreover have "pid = pid'"
  proof (rule bit_word_eqI)
    fix n assume "n < LENGTH(32)"
    then show "bit pid n \<longleftrightarrow> bit pid' n"
      using bit_socket_key [of "n + 16" pid port] bit_socket_key [of "n + 16" pid' port'] eq by simp
  qed
  ultimately show "pid = pid' \<and> port = port'" by simp
qed simp

section \<open>Length-encoded integers\<close>

definition lenenc :: "nat \<Rightarrow> bytes" where
  "lenenc n =
     (if n < 251 then [of_nat n] else if n < 2 ^ 16 then 0xfc # le_bytes 2 n
      else if n < 2 ^ 24 then 0xfd # le_bytes 3 n else 0xfe # le_bytes 8 n)"

lemma or_push_bit_add: "n = LENGTH('a) \<Longrightarrow> (ucast (a :: 'a::len word) :: 'b::len word) OR push_bit n b = ucast a + push_bit n b"
proof (rule disjunctive_add_eq_or [symmetric], rule bit_eqI)
  fix k
  assume n: "n = LENGTH('a)"
  have "bit a k \<Longrightarrow> k < LENGTH('a)" by (rule bit_imp_le_length)
  then show "bit ((ucast a :: 'b word) AND push_bit n b) k \<longleftrightarrow> bit (0 :: 'b word) k"
    using n by (auto simp: bit_and_iff bit_push_bit_iff bit_ucast_iff)
qed

lemma three_bytes:
  "(ucast d1 OR push_bit 8 (ucast d2) OR push_bit 16 (ucast d3) :: u64) = of_nat (le_value [d1, d2, d3])"
proof -
  have "push_bit 8 (ucast d2) OR push_bit 16 (ucast d3 :: u64) = push_bit 8 (ucast d2 OR push_bit 8 (ucast d3))"
    by (simp add: push_bit_or)
  also have "\<dots> = push_bit 8 (ucast d2 + push_bit 8 (ucast d3))" by (simp add: or_push_bit_add)
  finally have "(ucast d1 OR push_bit 8 (ucast d2) OR push_bit 16 (ucast d3) :: u64) =
      ucast d1 + push_bit 8 (ucast d2 + push_bit 8 (ucast d3))"
    using or_push_bit_add [of 8 d1] by simp
  also have "\<dots> = of_nat (unat d1) + 256 * (of_nat (unat d2) + 256 * of_nat (unat d3))"
    by (simp add: push_bit_eq_mult algebra_simps)
  finally show ?thesis by simp
qed

lemma read_lenenc_small: "n < 251 \<Longrightarrow> read_lenenc_int (of_nat n # rest) = Some (of_nat n)"
proof -
  assume n: "n < 251"
  then have "(of_nat n :: byte) \<le> 0xfb" by (simp add: word_le_nat_alt unat_of_nat_byte)
  moreover have "(ucast (of_nat n :: byte) :: u64) = of_nat n" using n by (simp add: unsigned_of_nat take_bit_nat_eq_self)
  ultimately show ?thesis by (simp add: read_lenenc_int_def slice_get_def)
qed

lemma read_lenenc_2: "n < 2 ^ 16 \<Longrightarrow> read_lenenc_int (0xfc # le_bytes 2 n @ rest) = Some (of_nat n)"
proof -
  assume n: "n < 2 ^ 16"
  obtain a b where ab: "le_bytes 2 n = [a, b]" by (auto simp: numeral_2_eq_2)
  have "le_value [a, b] = n" using le_value_le_bytes [of 2 n] n by (simp add: ab)
  then have "(ucast (un_le16 [a, b]) :: u64) = of_nat n"
    using n by (simp add: un_le16_def unsigned_of_nat take_bit_nat_eq_self del: le_value.simps)
  then show ?thesis by (simp add: read_lenenc_int_def slice_get_def ab)
qed

lemma read_lenenc_3: "n < 2 ^ 24 \<Longrightarrow> read_lenenc_int (0xfd # le_bytes 3 n @ rest) = Some (of_nat n)"
proof -
  assume n: "n < 2 ^ 24"
  obtain a b c where abc: "le_bytes 3 n = [a, b, c]" by (auto simp: numeral_3_eq_3)
  have "le_value [a, b, c] = n" using le_value_le_bytes [of 3 n] n by (simp add: abc)
  then show ?thesis by (simp add: read_lenenc_int_def slice_get_def abc three_bytes del: le_value.simps)
qed

lemma read_lenenc_8: "n < 2 ^ 64 \<Longrightarrow> read_lenenc_int (0xfe # le_bytes 8 n @ rest) = Some (of_nat n)"
proof -
  assume n: "n < 2 ^ 64"
  have "slice_range (0xfe # le_bytes 8 n @ rest) 1 9 = Some (le_bytes 8 n)" by (simp add: slice_range_def)
  moreover have "un_le64 (le_bytes 8 n) = of_nat n"
    using n by (simp add: un_le64_def le_value_le_bytes)
  ultimately show ?thesis by (simp add: read_lenenc_int_def slice_get_def)
qed

lemmas read_lenenc = read_lenenc_small read_lenenc_2 read_lenenc_3 read_lenenc_8

lemma lenenc_read_back: "n < 2 ^ 64 \<Longrightarrow> read_lenenc_int (lenenc n @ rest) = Some (of_nat n)"
  by (simp add: lenenc_def read_lenenc del: le_bytes.simps)

section \<open>Redis requests\<close>

text \<open>A command as a client sends it: an array of bulk strings.\<close>

definition bulk :: "rstring \<Rightarrow> rstring" where
  "bulk a = lit ''$'' @ decimal (str_len a) @ [13, 10] @ a @ [13, 10]"

definition resp_command :: "rstring list \<Rightarrow> rstring" where
  "resp_command args = lit ''*'' @ decimal (length args) @ [13, 10] @ concat (map bulk args)"

definition encode :: "rstring \<Rightarrow> bytes" where
  "encode s = concat (map utf8_enc s)"

lemma lossy_encode: "list_all scalar_value s \<Longrightarrow> from_utf8_lossy (encode s) = s"
  unfolding encode_def by (rule lossy_valid [OF from_utf8_encode])

lemma decimal_no_cr: "13 \<notin> set (decimal n)"
  using decimal_digits [of n] by (auto simp: list_all_iff)

lemma split_bulk:
  assumes "13 \<notin> set a"
  shows "split_crlf (bulk a @ s) = (lit ''$'' @ decimal (str_len a)) # a # split_crlf s"
  using split_crlf_field [of "lit ''$'' @ decimal (str_len a)" "a @ 13 # 10 # s"] split_crlf_field [OF assms, of s]
  by (simp add: bulk_def decimal_no_cr)

lemma resp_args_split:
  "list_all (\<lambda>a. 13 \<notin> set a) args \<Longrightarrow> resp_args (length args) (split_crlf (concat (map bulk args))) = args"
  by (induction args) (simp_all add: split_bulk)

lemma scalar_ascii: "list_all (\<lambda>c. c < 128) s \<Longrightarrow> list_all scalar_value s"
  by (auto simp: list_all_iff scalar_value_def)

lemma resp_command_scalar:
  assumes "list_all (list_all scalar_value) args"
  shows "list_all scalar_value (resp_command args)"
proof -
  have d: "list_all scalar_value (decimal n)" for n
    using decimal_digits [of n] by (auto simp: list_all_iff scalar_value_def)
  have "list_all scalar_value (bulk a)" if "list_all scalar_value a" for a
    using that d by (simp add: bulk_def scalar_value_def)
  then have "list_all scalar_value (concat (map bulk args))"
    using assms by (induction args) simp_all
  then show ?thesis using d by (simp add: resp_command_def scalar_value_def)
qed

lemma parse_resp_command:
  assumes chars: "list_all (list_all scalar_value) args" and nocr: "list_all (\<lambda>a. 13 \<notin> set a) args"
    and some: "args \<noteq> []" "length args < 2 ^ 64"
  shows "parse_redis_resp_array (encode (resp_command args)) = Inr (nth_or_empty args 0, nth_or_empty args 1)"
proof -
  have "split_crlf (resp_command args) = (lit ''*'' @ decimal (length args)) # split_crlf (concat (map bulk args))"
    using split_crlf_field [of "lit ''*'' @ decimal (length args)"] by (simp add: resp_command_def decimal_no_cr)
  then show ?thesis
    using some parse_uint_decimal [of "length args" 64] resp_args_split [OF nocr]
    by (simp add: parse_redis_resp_array_def lossy_encode [OF resp_command_scalar [OF chars]] strip_prefix_char_def Let_def)
qed

section \<open>Command tags and error fields\<close>

lemma decimal_word: "is_word (decimal n)"
  using decimal_digits [of n] by (auto simp: is_word_def decimal_nonempty list_all_iff is_whitespace_def)

text \<open>The body of an ErrorResponse: fields of a type byte and a NUL-terminated value, then a NUL.\<close>

definition pg_field :: "byte \<times> rstring \<Rightarrow> bytes" where
  "pg_field f = fst f # encode (snd f) @ [0]"

definition pg_text :: "rstring \<Rightarrow> bool" where
  "pg_text v \<longleftrightarrow> list_all scalar_value v \<and> 0 \<notin> set v"

lemma encode_no_nul: "pg_text v \<Longrightarrow> 0 \<notin> set (encode v)"
  using utf8_enc_nonzero by (fastforce simp: pg_text_def encode_def list_all_iff)

lemma length_encode: "length (encode v) = str_len v"
  by (induction v) (simp_all add: encode_def str_len_def)

lemma read_null_encode: "pg_text v \<Longrightarrow> read_null_string (encode v @ 0 # rest) = v"
  using until_nul_append [OF encode_no_nul] lossy_encode by (simp add: read_null_string_def pg_text_def)

lemma pg_error_fields_at:
  assumes "drop i data = pg_field (t, v) @ rest" "t \<noteq> 0" "pg_text v"
  shows "pg_error_fields data i =
    (if t = ascii CHR ''M'' then Some (Some v) else pg_error_fields data (i + length (pg_field (t, v))))"
proof -
  have d: "drop i data = t # encode v @ 0 # rest" using assms(1) by (simp add: pg_field_def)
  note g = drop_get [OF d]
  have "Suc i < length data" using drop_get(4) [of "Suc i" data] g(3) by (cases "encode v") auto
  moreover from this have "slice_from data (Suc i) = Some (encode v @ 0 # rest)" using g(3) by (simp add: slice_from_def)
  moreover have "length (pg_field (t, v)) = str_len v + 2" by (simp add: pg_field_def length_encode)
  ultimately show ?thesis
    using assms(2) g by (subst pg_error_fields.simps) (simp add: Let_def read_null_encode [OF assms(3)])
qed

lemma pg_error_fields_found:
  assumes "drop i data = concat (map pg_field before) @ pg_field (ascii CHR ''M'', m) @ rest"
    and "\<forall>(t, v) \<in> set before. t \<noteq> 0 \<and> t \<noteq> ascii CHR ''M'' \<and> pg_text v" "pg_text m"
  shows "pg_error_fields data i = Some (Some m)"
  using assms
proof (induction before arbitrary: i)
  case Nil
  then show ?case using pg_error_fields_at [of i data "ascii CHR ''M''" m rest] by simp
next
  case (Cons f before)
  obtain t v where f: "f = (t, v)" by (cases f)
  have d: "drop i data = pg_field (t, v) @ concat (map pg_field before) @ pg_field (ascii CHR ''M'', m) @ rest"
    using Cons.prems(1) by (simp add: f)
  have "pg_error_fields data i = pg_error_fields data (i + length (pg_field (t, v)))"
    using pg_error_fields_at [OF d] Cons.prems(2) by (simp add: f)
  then show ?case using Cons.IH [OF drop_more [OF d]] Cons.prems by simp
qed

lemma parse_pg_error_message:
  assumes "payload = e # l @ concat (map pg_field before) @ pg_field (ascii CHR ''M'', m) @ rest" "length l = 4"
    and "\<forall>(t, v) \<in> set before. t \<noteq> 0 \<and> t \<noteq> ascii CHR ''M'' \<and> pg_text v" "pg_text m"
  shows "parse_pg_error_response payload = Some m"
proof -
  have "drop 5 payload = concat (map pg_field before) @ pg_field (ascii CHR ''M'', m) @ rest" "\<not> length payload < 6"
    using assms(1,2) by (simp_all add: pg_field_def)
  with pg_error_fields_found [of 0 "drop 5 payload" before m rest] assms(3,4) show ?thesis
    by (simp add: parse_pg_error_response_def slice_from_def)
qed

section \<open>Queries\<close>

lemma truncate_short: "str_len q \<le> MAX_QUERY_LEN \<Longrightarrow> truncate_query q = q"
  by (simp add: truncate_query_def)

lemma truncate_bound: "length (truncate_query q) \<le> MAX_QUERY_LEN + 3"
  using str_len_bounds(1) [of q] by (auto simp: truncate_query_def)

lemma parse_sql_words:
  assumes "split_whitespace q = w # ws"
  defines "upper \<equiv> map to_uppercase (w # ws)"
  shows "fst (parse_sql q) =
     (let v = to_uppercase w in
      if v \<in> set (map lit ([''SELECT'', ''INSERT'', ''UPDATE'', ''DELETE'', ''CREATE'', ''DROP'', ''ALTER'', ''TRUNCATE''] @ bare_keywords))
      then v else lit ''COMMAND'')" 
    and "to_uppercase w \<in> {lit ''INSERT'', lit ''DELETE''} \<Longrightarrow> snd (parse_sql q) =
      (case table_after (if to_uppercase w = lit ''INSERT'' then lit ''INTO'' else lit ''FROM'') upper (w # ws) of
         None \<Rightarrow> [] | Some t \<Rightarrow> strip_schema (clean_table t))"
    and "to_uppercase w = lit ''SELECT'' \<Longrightarrow> snd (parse_sql q) =
      (case table_after (lit ''FROM'') upper (w # ws) of
         None \<Rightarrow> [] | Some t \<Rightarrow> if clean_table t \<noteq> [] \<and> \<not> starts_with (lit ''('') (clean_table t)
           then strip_schema (clean_table t) else [])"
    and "to_uppercase w = lit ''UPDATE'' \<Longrightarrow> snd (parse_sql q) = table_at (w # ws) 1"
proof -
  have ws: "split_whitespace (trim q) = w # ws" by (simp add: split_whitespace_trim assms(1))
  then have ne: "trim q \<noteq> []" by (auto simp: split_whitespace_def)
  have up: "split_whitespace (to_uppercase (trim q)) = to_uppercase w # map to_uppercase ws"
    by (simp add: split_whitespace_upper ws)
  note simps = parse_sql_def Let_def ne ws up if_False list.case
  show "fst (parse_sql q) =
     (let v = to_uppercase w in
      if v \<in> set (map lit ([''SELECT'', ''INSERT'', ''UPDATE'', ''DELETE'', ''CREATE'', ''DROP'', ''ALTER'', ''TRUNCATE''] @ bare_keywords))
      then v else lit ''COMMAND'')"
    by (simp only: simps) simp
  show "to_uppercase w \<in> {lit ''INSERT'', lit ''DELETE''} \<Longrightarrow> snd (parse_sql q) =
      (case table_after (if to_uppercase w = lit ''INSERT'' then lit ''INTO'' else lit ''FROM'') upper (w # ws) of
         None \<Rightarrow> [] | Some t \<Rightarrow> strip_schema (clean_table t))"
    "to_uppercase w = lit ''UPDATE'' \<Longrightarrow> snd (parse_sql q) = table_at (w # ws) 1"
    by (simp only: simps upper_def, auto)+
  show "to_uppercase w = lit ''SELECT'' \<Longrightarrow> snd (parse_sql q) =
      (case table_after (lit ''FROM'') upper (w # ws) of
         None \<Rightarrow> [] | Some t \<Rightarrow> if clean_table t \<noteq> [] \<and> \<not> starts_with (lit ''('') (clean_table t)
           then strip_schema (clean_table t) else [])"
    by (simp only: simps upper_def) simp
qed

lemma position_append:
  "position p xs = None \<Longrightarrow> position p (xs @ x # ys) = (if p x then Some (length xs) else map_option (\<lambda>n. n + length xs + 1) (position p ys))"
  by (induction xs) (auto split: if_splits simp: option.map_comp comp_def)

lemma position_none: "position p xs = None \<longleftrightarrow> list_all (\<lambda>x. \<not> p x) xs"
  by (induction xs) auto

text \<open>The table of a statement: the word after the keyword, without brackets and commas around it and without its schema.\<close>

definition statement_kinds :: "(string \<times> string) list" where
  "statement_kinds = [(''SELECT'', ''FROM''), (''DELETE'', ''FROM''), (''INSERT'', ''INTO'')]"

definition plain_name :: "rstring \<Rightarrow> bool" where
  "plain_name w \<longleftrightarrow> list_all (\<lambda>c. c \<notin> set (lit ''(),'')) w"

lemma strip_schema_last: "of_char CHR ''.'' \<notin> set name \<Longrightarrow> qual = [] \<or> (\<exists>s. qual = s @ lit ''.'') \<Longrightarrow> strip_schema (qual @ name) = name"
proof -
  assume n: "of_char CHR ''.'' \<notin> set name" and q: "qual = [] \<or> (\<exists>s. qual = s @ lit ''.'')"
  have "last (split_char (of_char CHR ''.'') (qual @ name)) = name"
    using q split_char_last [OF n] by auto
  then show ?thesis unfolding strip_schema_def
    by (metis (no_types, lifting) hd_rev list.case(2) list.collapse rev_is_Nil_conv split_char_nonempty)
qed

lemma parse_sql_table:
  assumes words: "split_whitespace q = verb # cols @ kw # (pre @ qual @ name @ post) # rest"
    and kind: "(v, k) \<in> set statement_kinds" "to_uppercase verb = lit v" "to_uppercase kw = lit k"
    and first: "list_all (\<lambda>w. to_uppercase w \<noteq> lit k) cols"
    and around: "list_all (\<lambda>c. c \<in> set (lit ''(),'')) pre" "list_all (\<lambda>c. c \<in> set (lit ''(),'')) post"
    and qual: "qual = [] \<or> (\<exists>s. qual = s @ lit ''.'')" "plain_name qual"
    and name: "name \<noteq> []" "plain_name name" "of_char CHR ''.'' \<notin> set name"
  shows "parse_sql q = (lit v, name)"
proof -
  let ?ws = "cols @ kw # (pre @ qual @ name @ post) # rest"
  have clean: "clean_table (pre @ qual @ name @ post) = qual @ name"
    using trim_matches_core [of "\<lambda>c. c \<in> set (lit ''(),'')" pre post "qual @ name"] around qual(2) name(1,2)
    by (simp add: clean_table_def plain_name_def)
  have strip: "strip_schema (qual @ name) = name" by (rule strip_schema_last [OF name(3) qual(1)])
  have "qual @ name \<noteq> []" "\<not> starts_with (lit ''('') (qual @ name)"
    using name(1,2) qual(2) by (cases "qual @ name", auto simp: starts_with_def plain_name_def append_eq_Cons_conv)+
  moreover have pos: "position (\<lambda>w. w = lit k) (map to_uppercase (verb # ?ws)) = Some (Suc (length cols))"
  proof -
    have "position (\<lambda>w. w = lit k) (map to_uppercase cols) = None" using first by (simp add: position_none list_all_iff)
    from position_append [OF this, of "lit k"] show ?thesis using kind by (auto simp: statement_kinds_def)
  qed
  then have "table_after (lit k) (map to_uppercase (verb # ?ws)) (verb # ?ws) = Some (pre @ qual @ name @ post)"
    by (simp add: table_after_def list_get_def nth_append)
  moreover have "fst (parse_sql q) = lit v"
    using parse_sql_words(1) [OF words] kind by (auto simp: statement_kinds_def Let_def)
  ultimately have "snd (parse_sql q) = name" "fst (parse_sql q) = lit v"
    using parse_sql_words(2,3) [OF words] kind clean strip by (auto simp: statement_kinds_def)
  then show ?thesis by (simp add: prod_eq_iff)
qed

end
