(* ===== verification/Db_Inspect.thy ===== *)
theory Db_Inspect
  imports Db_Parsers
begin

text \<open>
  \<open>DbInspector\<close> of \<open>db_inspector.rs\<close>: its tables, the parsers of the three protocols and
  \<open>inspect\<close>. A request leaves an entry under the key of process and port, a response takes it and
  becomes an event. The time of a call is an argument, in nanoseconds; \<open>millis\<close> stands for
  \<open>elapsed().as_secs_f64() * 1000.0\<close>. The outer option of a result is None where the code would
  panic, the sum is its \<open>Result\<close>.
\<close>

section \<open>Data\<close>

record DbQueryEvent =
  dq_protocol :: rstring
  dq_query :: rstring
  dq_query_type :: rstring
  dq_table_name :: rstring
  dq_database :: rstring
  dq_latency_ms :: f64
  dq_row_count :: u64
  dq_error_message :: rstring
  dq_source_ip :: rstring
  dq_destination_ip :: rstring
  dq_destination_port :: u16
  dq_pid :: u32
  dq_process_name :: rstring
  dq_is_encrypted :: bool

record PendingRequest =
  pr_sent_at :: nat
  pr_protocol :: DbProtocol
  pr_query :: rstring
  pr_query_type :: rstring
  pr_table_name :: rstring

record InspectorStats =
  is_total_events :: u64
  is_pg_queries :: u64
  is_mysql_queries :: u64
  is_redis_commands :: u64
  is_encrypted_events :: u64
  is_unknown_events :: u64
  is_parse_errors :: u64

record DbInspector =
  di_pending :: "u64 \<rightharpoonup> PendingRequest"
  di_stats :: InspectorStats

text \<open>The arguments of a call of \<open>inspect\<close>, and the time of the call.\<close>

record capture =
  cap_payload :: bytes
  cap_port :: u16
  cap_pid :: u32
  cap_process_name :: rstring
  cap_src_ip :: u32
  cap_dst_ip :: u32
  cap_timestamp_ns :: u64
  cap_now :: nat

type_synonym inspected = "(db_error + DbQueryEvent option) \<times> DbInspector"

definition InspectorStats_default :: InspectorStats where
  "InspectorStats_default =
     \<lparr>is_total_events = 0, is_pg_queries = 0, is_mysql_queries = 0, is_redis_commands = 0,
      is_encrypted_events = 0, is_unknown_events = 0, is_parse_errors = 0\<rparr>"

definition DbInspector_new :: DbInspector where
  "DbInspector_new = \<lparr>di_pending = Map.empty, di_stats = InspectorStats_default\<rparr>"

section \<open>Statistics\<close>

definition DbInspector_stats :: "DbInspector \<Rightarrow> InspectorStats" where
  "DbInspector_stats st = di_stats st"

definition record_protocol :: "DbProtocol \<Rightarrow> DbInspector \<Rightarrow> DbInspector" where
  "record_protocol p st =
     (let s = di_stats st; s = s\<lparr>is_total_events := is_total_events s + 1\<rparr> in
      st\<lparr>di_stats :=
        (case p of
           Unknown \<Rightarrow> s\<lparr>is_unknown_events := is_unknown_events s + 1\<rparr>
         | Encrypted \<Rightarrow> s\<lparr>is_encrypted_events := is_encrypted_events s + 1\<rparr>
         | _ \<Rightarrow> s)\<rparr>)"

definition increment_pg :: "DbInspector \<Rightarrow> DbInspector" where
  "increment_pg st = st\<lparr>di_stats := (di_stats st)\<lparr>is_pg_queries := is_pg_queries (di_stats st) + 1\<rparr>\<rparr>"

definition increment_mysql :: "DbInspector \<Rightarrow> DbInspector" where
  "increment_mysql st = st\<lparr>di_stats := (di_stats st)\<lparr>is_mysql_queries := is_mysql_queries (di_stats st) + 1\<rparr>\<rparr>"

definition increment_redis :: "DbInspector \<Rightarrow> DbInspector" where
  "increment_redis st = st\<lparr>di_stats := (di_stats st)\<lparr>is_redis_commands := is_redis_commands (di_stats st) + 1\<rparr>\<rparr>"

section \<open>Pending requests and events\<close>

definition capture_key :: "capture \<Rightarrow> u64" where
  "capture_key c = socket_key (cap_pid c) (cap_port c)"

definition pending_insert :: "capture \<Rightarrow> DbProtocol \<Rightarrow> rstring \<Rightarrow> rstring \<Rightarrow> rstring \<Rightarrow> DbInspector \<Rightarrow> DbInspector" where
  "pending_insert c p q ty table st =
     st\<lparr>di_pending := (di_pending st)(capture_key c \<mapsto>
       \<lparr>pr_sent_at = cap_now c, pr_protocol = p, pr_query = q, pr_query_type = ty, pr_table_name = table\<rparr>)\<rparr>"

definition pending_remove :: "capture \<Rightarrow> DbInspector \<Rightarrow> PendingRequest option \<times> DbInspector" where
  "pending_remove c st =
     (di_pending st (capture_key c), st\<lparr>di_pending := (di_pending st)(capture_key c := None)\<rparr>)"

text \<open>The event for a response, with the defaults for a response whose request was not seen.\<close>

definition response_event ::
  "(nat \<Rightarrow> f64) \<Rightarrow> capture \<Rightarrow> rstring \<Rightarrow> PendingRequest option \<Rightarrow> u64 \<Rightarrow> rstring \<Rightarrow> DbQueryEvent" where
  "response_event millis c proto req row_count error_message =
     \<lparr>dq_protocol = proto,
      dq_query = (case req of Some r \<Rightarrow> pr_query r | None \<Rightarrow> []),
      dq_query_type = (case req of Some r \<Rightarrow> pr_query_type r | None \<Rightarrow> lit ''COMMAND''),
      dq_table_name = (case req of Some r \<Rightarrow> pr_table_name r | None \<Rightarrow> []),
      dq_database = [],
      dq_latency_ms = (case req of Some r \<Rightarrow> millis (cap_now c - pr_sent_at r) | None \<Rightarrow> 0),
      dq_row_count = row_count,
      dq_error_message = error_message,
      dq_source_ip = format_ip (cap_src_ip c),
      dq_destination_ip = format_ip (cap_dst_ip c),
      dq_destination_port = cap_port c,
      dq_pid = cap_pid c,
      dq_process_name = cap_process_name c,
      dq_is_encrypted = False\<rparr>"

section \<open>PostgreSQL\<close>

definition after_header :: "bytes \<Rightarrow> bytes option" where
  "after_header payload = (if length payload > 5 then slice_from payload 5 else Some [])"

definition parse_postgresql :: "(nat \<Rightarrow> f64) \<Rightarrow> capture \<Rightarrow> DbInspector \<Rightarrow> inspected option" where
  "parse_postgresql millis c st =
     (if cap_payload c = [] then Some (Inr None, st)
      else do {
        msg_type \<leftarrow> slice_get (cap_payload c) 0;
        if msg_type = ascii CHR ''Q'' then do {
          body \<leftarrow> after_header (cap_payload c);
          let q = read_null_string body;
          let (query_type, table_name) = parse_sql q;
          Some (Inr None, pending_insert c PostgreSQL (truncate_query q) query_type table_name st)
        }
        else if msg_type = ascii CHR ''P'' then do {
          body \<leftarrow> after_header (cap_payload c);
          let q = read_null_string (skip_null_string body);
          let (query_type, table_name) = parse_sql q;
          Some (Inr None, pending_insert c PostgreSQL (truncate_query q) query_type table_name st)
        }
        else if msg_type = ascii CHR ''C'' then do {
          body \<leftarrow> after_header (cap_payload c);
          let row_count = parse_pg_command_complete (read_null_string body);
          let (req, st) = pending_remove c st;
          Some (Inr (Some (response_event millis c (lit ''postgresql'') req row_count [])), increment_pg st)
        }
        else if msg_type = ascii CHR ''E'' then do {
          error_msg \<leftarrow> parse_pg_error_response (cap_payload c);
          let (req, st) = pending_remove c st;
          Some (Inr (Some (response_event millis c (lit ''postgresql'') req 0 error_msg)), increment_pg st)
        }
        else if msg_type = ascii CHR ''Z'' then
          (let (req, st) = pending_remove c st in
           case req of
             Some r \<Rightarrow> Some (Inr (Some (response_event millis c (lit ''postgresql'') (Some r) 0 [])), increment_pg st)
           | None \<Rightarrow> Some (Inr None, st))
        else Some (Inr None, st)
      })"

section \<open>MySQL\<close>

definition parse_mysql :: "(nat \<Rightarrow> f64) \<Rightarrow> capture \<Rightarrow> DbInspector \<Rightarrow> inspected option" where
  "parse_mysql millis c st =
     (if length (cap_payload c) < 5 then Some (Inr None, st)
      else do {
        pkt_type \<leftarrow> slice_get (cap_payload c) 4;
        if pkt_type = 0x03 then do {
          query_bytes \<leftarrow> slice_from (cap_payload c) 5;
          let q = read_null_string query_bytes;
          let (query_type, table_name) = parse_sql q;
          Some (Inr None, pending_insert c MySQL (truncate_query q) query_type table_name st)
        }
        else if pkt_type = 0x00 then do {
          let (req, st) = pending_remove c st;
          row_count \<leftarrow> (if length (cap_payload c) > 5
            then Option.bind (slice_from (cap_payload c) 5) read_lenenc_int else Some 0);
          Some (Inr (Some (response_event millis c (lit ''mysql'') req row_count [])), increment_mysql st)
        }
        else if pkt_type = 0xff then do {
          error_msg \<leftarrow> (if length (cap_payload c) > 9
            then map_option from_utf8_lossy (slice_from (cap_payload c) 9) else Some (lit ''unknown error''));
          let (req, st) = pending_remove c st;
          Some (Inr (Some (response_event millis c (lit ''mysql'') req 0 error_msg)), increment_mysql st)
        }
        else if pkt_type = 0x0a then Some (Inr None, st)
        else if pkt_type = 0x17 then
          Some (Inr None, pending_insert c MySQL (lit ''<prepared statement>'') (lit ''EXECUTE'') [] st)
        else Some (Inr None, st)
      })"

section \<open>Redis\<close>

definition redis_request :: "(bytes \<Rightarrow> db_error + (rstring \<times> rstring)) \<Rightarrow> capture \<Rightarrow> DbInspector \<Rightarrow> inspected" where
  "redis_request parse c st =
     (case parse (cap_payload c) of
        Inl e \<Rightarrow> (Inl e, st)
      | Inr (command, key) \<Rightarrow>
          (Inr None, pending_insert c Redis (truncate_query (format_redis_command command key))
             (redis_command_type command) key st))"

definition parse_redis_resp :: "capture \<Rightarrow> DbInspector \<Rightarrow> inspected" where
  "parse_redis_resp c st = redis_request parse_redis_resp_array c st"

definition parse_redis_inline :: "capture \<Rightarrow> DbInspector \<Rightarrow> inspected" where
  "parse_redis_inline c st = redis_request parse_redis_inline_cmd c st"

text \<open>A response takes the pending request, if there is one.\<close>

definition redis_response :: "(nat \<Rightarrow> f64) \<Rightarrow> capture \<Rightarrow> u64 \<Rightarrow> rstring \<Rightarrow> DbInspector \<Rightarrow> inspected" where
  "redis_response millis c row_count error_message st =
     (let (req, st) = pending_remove c st in
      case req of
        Some r \<Rightarrow> (Inr (Some (response_event millis c (lit ''redis'') (Some r) row_count error_message)), increment_redis st)
      | None \<Rightarrow> (Inr None, st))"

definition ascii_letter :: "u8 \<Rightarrow> bool" where
  "ascii_letter b \<longleftrightarrow> (b \<ge> ascii CHR ''A'' \<and> b \<le> ascii CHR ''Z'') \<or> (b \<ge> ascii CHR ''a'' \<and> b \<le> ascii CHR ''z'')"

definition parse_redis :: "(nat \<Rightarrow> f64) \<Rightarrow> capture \<Rightarrow> DbInspector \<Rightarrow> inspected option" where
  "parse_redis millis c st =
     (if cap_payload c = [] then Some (Inr None, st)
      else do {
        first \<leftarrow> slice_get (cap_payload c) 0;
        if first = ascii CHR ''*'' then Some (parse_redis_resp c st)
        else if first = ascii CHR ''+'' then Some (redis_response millis c 0 [] st)
        else if first = ascii CHR ''-'' then Some (redis_response millis c 0 (read_crlf_string (cap_payload c)) st)
        else if first = ascii CHR '':'' then do {
          rest \<leftarrow> slice_from (cap_payload c) 1;
          Some (redis_response millis c
            (case parse_uint 10 64 (trim (read_crlf_string rest)) of Some n \<Rightarrow> of_nat n | None \<Rightarrow> 0) [] st)
        }
        else if ascii_letter first then Some (parse_redis_inline c st)
        else if first = ascii CHR ''$'' then Some (redis_response millis c 0 [] st)
        else Some (Inr None, st)
      })"

section \<open>Inspection\<close>

definition encrypted_event :: "capture \<Rightarrow> DbQueryEvent" where
  "encrypted_event c =
     \<lparr>dq_protocol = lit ''encrypted'', dq_query = [], dq_query_type = [], dq_table_name = [], dq_database = [],
      dq_latency_ms = 0, dq_row_count = 0, dq_error_message = [], dq_source_ip = format_ip (cap_src_ip c),
      dq_destination_ip = format_ip (cap_dst_ip c), dq_destination_port = cap_port c, dq_pid = cap_pid c,
      dq_process_name = cap_process_name c, dq_is_encrypted = True\<rparr>"

definition inspect :: "(nat \<Rightarrow> f64) \<Rightarrow> capture \<Rightarrow> DbInspector \<Rightarrow> inspected option" where
  "inspect millis c st =
     (if cap_payload c = [] then Some (Inr None, st)
      else do {
        p \<leftarrow> agent_detect_protocol (cap_payload c) (cap_port c);
        let st = record_protocol p st;
        (case p of
           Encrypted \<Rightarrow> Some (Inr (Some (encrypted_event c)), st)
         | PostgreSQL \<Rightarrow> parse_postgresql millis c st
         | MySQL \<Rightarrow> parse_mysql millis c st
         | Redis \<Rightarrow> parse_redis millis c st
         | Unknown \<Rightarrow> Some (Inr None, st))
      })"

end
