(* ===== verification/Keyed_Table.thy ===== *)
theory Keyed_Table
  imports Prelude
begin

text \<open>
  Machines that keep one slot per key in a table and touch, on each input, only the slot of the
  input's key. The interface \<open>keyed_table\<close> fixes the machine, the view of its table and the
  behaviour on one slot; what follows from its laws is that a run, seen at one key, is the run of
  the inputs of that key alone.
\<close>

fun run_outputs :: "('c \<Rightarrow> 's \<Rightarrow> 'e \<times> 's) \<Rightarrow> 'c list \<Rightarrow> 's \<Rightarrow> ('c \<times> 'e) list \<times> 's" where
  "run_outputs step [] st = ([], st)"
| "run_outputs step (c # cs) st =
     (let (e, st') = step c st; (out, st'') = run_outputs step cs st' in ((c, e) # out, st''))"

lemma run_outputs_append:
  "run_outputs step (cs @ ds) st =
     (let (o1, st1) = run_outputs step cs st; (o2, st2) = run_outputs step ds st1 in (o1 @ o2, st2))"
  by (induction cs arbitrary: st) (simp_all add: Let_def split: prod.splits)

lemma run_outputs_inputs: "(c, e) \<in> set (fst (run_outputs step cs st)) \<Longrightarrow> c \<in> set cs"
proof (induction cs arbitrary: st)
  case (Cons d cs)
  obtain f st' where s: "step d st = (f, st')" by (cases "step d st")
  obtain out st'' where r: "run_outputs step cs st' = (out, st'')" by (cases "run_outputs step cs st'")
  show ?case using Cons.prems Cons.IH [of st'] by (auto simp: s r)
qed simp

locale keyed_table =
  fixes key :: "'c \<Rightarrow> 'k" and step :: "'c \<Rightarrow> 's \<Rightarrow> 'e \<times> 's" and slot :: "'s \<Rightarrow> 'k \<Rightarrow> 'r option"
    and one :: "'c \<Rightarrow> 'r option \<Rightarrow> 'e \<times> 'r option"
  assumes result: "fst (step c st) = fst (one c (slot st (key c)))"
    and own: "slot (snd (step c st)) (key c) = snd (one c (slot st (key c)))"
    and other: "k \<noteq> key c \<Longrightarrow> slot (snd (step c st)) k = slot st k"
begin

lemma slot_run: "slot (snd (run_outputs step cs st)) k = snd (run_outputs one (filter (\<lambda>c. key c = k) cs) (slot st k))"
proof (induction cs arbitrary: st)
  case (Cons c cs)
  then show ?case
    using own [of c st] other [of k c st] by (auto simp: Let_def split: prod.splits) (metis snd_conv)+
qed simp

lemma outputs_run:
  "filter (\<lambda>(c, e). key c = k) (fst (run_outputs step cs st)) =
     fst (run_outputs one (filter (\<lambda>c. key c = k) cs) (slot st k))"
proof (induction cs arbitrary: st)
  case (Cons c cs)
  obtain e st' where s: "step c st = (e, st')" by (cases "step c st")
  obtain out st'' where r: "run_outputs step cs st' = (out, st'')" by (cases "run_outputs step cs st'")
  have ih: "filter (\<lambda>(c, e). key c = k) out = fst (run_outputs one (filter (\<lambda>c. key c = k) cs) (slot st' k))"
    using Cons.IH [of st'] by (simp add: r)
  show ?case
  proof (cases "key c = k")
    case True
    have "one c (slot st k) = (e, slot st' k)" using result [of c st] own [of c st] True by (simp add: s prod_eq_iff)
    with True ih show ?thesis by (simp add: s r split: prod.splits)
  next
    case False
    then have "slot st' k = slot st k" using other [of k c st] by (simp add: s)
    with False ih show ?thesis by (simp add: s r)
  qed
qed simp

text \<open>Two machine states that agree at a key produce the same outputs for the inputs of that key alone.\<close>

lemma alone:
  "filter (\<lambda>(c, e). key c = k) (fst (run_outputs step cs st)) =
     fst (run_outputs step (filter (\<lambda>c. key c = k) cs) st)"
proof -
  let ?ds = "filter (\<lambda>c. key c = k) cs"
  have all: "filter (\<lambda>(c, e). key c = k) (fst (run_outputs step ?ds st)) = fst (run_outputs step ?ds st)"
  proof (rule filter_True, rule ballI)
    fix x assume x: "x \<in> set (fst (run_outputs step ?ds st))"
    obtain c e where ce: "x = (c, e)" by (cases x)
    have "c \<in> set ?ds" using run_outputs_inputs x unfolding ce by fast
    then show "case x of (c, e) \<Rightarrow> key c = k" by (simp add: ce)
  qed
  have "filter (\<lambda>c. key c = k) ?ds = ?ds" by simp
  with outputs_run [of k ?ds st] all have "fst (run_outputs step ?ds st) = fst (run_outputs one ?ds (slot st k))"
    by (simp only:)
  with outputs_run [of k cs st] show ?thesis by (simp only:)
qed

end

end
