(* ===== verification/Db_Spec.thy ===== *)
theory Db_Spec
  imports Db_Inspect Keyed_Table
begin

text \<open>
  What the database inspector promises. A capture is one of four kinds of message; the abstract
  inspector keeps the open request of each process and port and reports it with the reply. The
  refinement theorem says that \<open>inspect\<close> with its table of 64-bit keys does exactly this, on every
  input, without panics and errors; the other properties follow from the abstract inspector.
\<close>

section \<open>Messages\<close>

datatype db_message =
    Request DbProtocol rstring rstring rstring
  | Reply bool rstring u64 rstring \<comment> \<open>whether it is reported without a request; protocol, rows, error\<close>
  | Tls
  | Quiet

definition sql_request :: "DbProtocol \<Rightarrow> rstring \<Rightarrow> db_message" where
  "sql_request p q = Request p (truncate_query q) (fst (parse_sql q)) (snd (parse_sql q))"

definition pg_message :: "bytes \<Rightarrow> db_message" where
  "pg_message b =
     (if b ! 0 = ascii CHR ''Q'' then sql_request PostgreSQL (read_null_string (drop 5 b))
      else if b ! 0 = ascii CHR ''P'' then sql_request PostgreSQL (read_null_string (skip_null_string (drop 5 b)))
      else if b ! 0 = ascii CHR ''C'' then
        Reply True (lit ''postgresql'') (parse_pg_command_complete (read_null_string (drop 5 b))) []
      else if b ! 0 = ascii CHR ''E'' then Reply True (lit ''postgresql'') 0 (the (parse_pg_error_response b))
      else if b ! 0 = ascii CHR ''Z'' then Reply False (lit ''postgresql'') 0 []
      else Quiet)"

definition mysql_message :: "bytes \<Rightarrow> db_message" where
  "mysql_message b =
     (if b ! 4 = 0x03 then sql_request MySQL (read_null_string (drop 5 b))
      else if b ! 4 = 0x00 then Reply True (lit ''mysql'') (the (read_lenenc_int (drop 5 b))) []
      else if b ! 4 = 0xff then
        Reply True (lit ''mysql'') 0 (if length b > 9 then from_utf8_lossy (drop 9 b) else lit ''unknown error'')
      else if b ! 4 = 0x17 then Request MySQL (lit ''<prepared statement>'') (lit ''EXECUTE'') []
      else Quiet)"

definition redis_call :: "db_error + (rstring \<times> rstring) \<Rightarrow> db_message" where
  "redis_call r =
     (case r of
        Inl _ \<Rightarrow> Quiet
      | Inr (command, key) \<Rightarrow>
          Request Redis (truncate_query (format_redis_command command key)) (redis_command_type command) key)"

definition redis_message :: "bytes \<Rightarrow> db_message" where
  "redis_message b =
     (if b ! 0 = ascii CHR ''*'' then redis_call (parse_redis_resp_array b)
      else if b ! 0 = ascii CHR ''+'' then Reply False (lit ''redis'') 0 []
      else if b ! 0 = ascii CHR ''-'' then Reply False (lit ''redis'') 0 (read_crlf_string b)
      else if b ! 0 = ascii CHR '':'' then
        Reply False (lit ''redis'')
          (case parse_uint 10 64 (trim (read_crlf_string (drop 1 b))) of Some n \<Rightarrow> of_nat n | None \<Rightarrow> 0) []
      else if ascii_letter (b ! 0) then redis_call (parse_redis_inline_cmd b)
      else if b ! 0 = ascii CHR ''$'' then Reply False (lit ''redis'') 0 []
      else Quiet)"

definition db_message_of :: "capture \<Rightarrow> db_message" where
  "db_message_of c =
     (case agent_detect_protocol (cap_payload c) (cap_port c) of
        Some Encrypted \<Rightarrow> Tls
      | Some PostgreSQL \<Rightarrow> pg_message (cap_payload c)
      | Some MySQL \<Rightarrow> mysql_message (cap_payload c)
      | Some Redis \<Rightarrow> redis_message (cap_payload c)
      | _ \<Rightarrow> Quiet)"

section \<open>The abstract inspector\<close>

definition conn :: "capture \<Rightarrow> u32 \<times> u16" where
  "conn c = (cap_pid c, cap_port c)"

definition open_request :: "capture \<Rightarrow> DbProtocol \<Rightarrow> rstring \<Rightarrow> rstring \<Rightarrow> rstring \<Rightarrow> PendingRequest" where
  "open_request c p q ty table =
     \<lparr>pr_sent_at = cap_now c, pr_protocol = p, pr_query = q, pr_query_type = ty, pr_table_name = table\<rparr>"

text \<open>The effect of a message on the open request of its process and port, and on the table.\<close>

definition slot_result ::
  "(nat \<Rightarrow> f64) \<Rightarrow> capture \<Rightarrow> db_message \<Rightarrow> PendingRequest option \<Rightarrow> DbQueryEvent option \<times> PendingRequest option" where
  "slot_result millis c m r =
     (case m of
        Request p q ty table \<Rightarrow> (None, Some (open_request c p q ty table))
      | Reply always proto n e \<Rightarrow>
          (if always \<or> r \<noteq> None then Some (response_event millis c proto r n e) else None, None)
      | Tls \<Rightarrow> (Some (encrypted_event c), r)
      | Quiet \<Rightarrow> (None, r))"

definition table_result ::
  "(nat \<Rightarrow> f64) \<Rightarrow> capture \<Rightarrow> db_message \<Rightarrow> (u32 \<times> u16 \<rightharpoonup> PendingRequest) \<Rightarrow> DbQueryEvent option \<times> (u32 \<times> u16 \<rightharpoonup> PendingRequest)" where
  "table_result millis c m s =
     (case slot_result millis c m (s (conn c)) of (e, r) \<Rightarrow> (e, s(conn c := r)))"

definition open_requests :: "DbInspector \<Rightarrow> u32 \<times> u16 \<rightharpoonup> PendingRequest" where
  "open_requests st = (\<lambda>(pid, port). di_pending st (socket_key pid port))"

section \<open>Refinement\<close>

named_theorems inspect_simps \<open>the operations of the inspector on its table\<close>

lemma pending_stats [inspect_simps]:
  "di_pending (record_protocol p st) = di_pending st" "di_pending (increment_pg st) = di_pending st"
  "di_pending (increment_mysql st) = di_pending st" "di_pending (increment_redis st) = di_pending st"
  by (simp_all add: record_protocol_def increment_pg_def increment_mysql_def increment_redis_def Let_def)

lemma abs_stats [inspect_simps]:
  "open_requests (record_protocol p st) = open_requests st" "open_requests (increment_pg st) = open_requests st"
  "open_requests (increment_mysql st) = open_requests st" "open_requests (increment_redis st) = open_requests st"
  by (simp_all add: open_requests_def pending_stats)

lemma abs_insert [inspect_simps]:
  "open_requests (pending_insert c p q ty table st) = (open_requests st)(conn c \<mapsto> open_request c p q ty table)"
  by (auto simp: open_requests_def pending_insert_def capture_key_def conn_def open_request_def)

lemma abs_remove:
  "fst (pending_remove c st) = open_requests st (conn c)" "open_requests (snd (pending_remove c st)) = (open_requests st)(conn c := None)"
  by (auto simp: open_requests_def pending_remove_def capture_key_def conn_def)

lemma pending_remove_eq [inspect_simps]:
  "pending_remove c st = (open_requests st (conn c), st\<lparr>di_pending := (di_pending st)(capture_key c := None)\<rparr>)"
  "open_requests (st\<lparr>di_pending := (di_pending st)(capture_key c := None)\<rparr>) = (open_requests st)(conn c := None)"
  using abs_remove [of c st] by (simp_all add: pending_remove_def)

definition refines :: "DbQueryEvent option \<times> (u32 \<times> u16 \<rightharpoonup> PendingRequest) \<Rightarrow> inspected option \<Rightarrow> bool" where
  "refines spec res \<longleftrightarrow> (\<exists>st'. res = Some (Inr (fst spec), st') \<and> open_requests st' = snd spec)"

lemma refinesI: "res = Some (Inr e, st') \<Longrightarrow> open_requests st' = s \<Longrightarrow> refines (e, s) res"
  by (simp add: refines_def)

lemma table_result_simps [inspect_simps]:
  "table_result millis c (Request p q ty table) s = (None, s(conn c \<mapsto> open_request c p q ty table))"
  "table_result millis c (Reply always proto n e) s =
     (if always \<or> s (conn c) \<noteq> None then Some (response_event millis c proto (s (conn c)) n e) else None, s(conn c := None))"
  "table_result millis c Tls s = (Some (encrypted_event c), s)"
  "table_result millis c Quiet s = (None, s)"
  by (simp_all add: table_result_def slot_result_def)

lemma after_header_eq: "after_header b = Some (drop 5 b)"
  by (simp add: after_header_def slice_from_def)

lemma sql_request_eq: "sql_request p q = (case parse_sql q of (ty, table) \<Rightarrow> Request p (truncate_query q) ty table)"
  by (simp add: sql_request_def split: prod.splits)

lemma refines_if:
  assumes "b \<Longrightarrow> refines (table_result millis c m s) x" "\<not> b \<Longrightarrow> refines (table_result millis c n s) y"
  shows "refines (table_result millis c (if b then m else n) s) (if b then x else y)"
  using assms by simp

lemma pg_refines:
  assumes "cap_payload c \<noteq> []"
  shows "refines (table_result millis c (pg_message (cap_payload c)) (open_requests st)) (parse_postgresql millis c st)"
proof -
  have head: "slice_get (cap_payload c) 0 = Some (cap_payload c ! 0)" using assms by (simp add: slice_get_def)
  obtain msg where msg: "parse_pg_error_response (cap_payload c) = Some msg"
    using parse_pg_error_response_total by blast
  show ?thesis
    unfolding parse_postgresql_def pg_message_def sql_request_eq head after_header_eq msg
    by (simp only: assms if_False Option.bind.bind_lunit option.sel Let_def, intro refines_if)
      (simp_all only: refines_def inspect_simps prod.case split: prod.splits option.splits, simp_all add: inspect_simps)
qed

lemma mysql_refines:
  assumes "5 \<le> length (cap_payload c)"
  shows "refines (table_result millis c (mysql_message (cap_payload c)) (open_requests st)) (parse_mysql millis c st)"
proof -
  have at4: "slice_get (cap_payload c) 4 = Some (cap_payload c ! 4)" using assms by (simp add: slice_get_def)
  obtain n where n: "read_lenenc_int (drop 5 (cap_payload c)) = Some n" using read_lenenc_int_total by blast
  have z: "read_lenenc_int [] = Some 0" by (simp add: read_lenenc_int_def)
  show ?thesis
    unfolding parse_mysql_def mysql_message_def sql_request_eq
    by (simp only: assms not_less [THEN iffD2] if_False Option.bind.bind_lunit at4 Let_def, intro refines_if)
      (use assms n z in \<open>auto simp: slice_from_def refines_def inspect_simps split: prod.splits option.splits\<close>)
qed

lemma redis_call_refines:
  assumes "\<exists>p. parse (cap_payload c) = Inr p"
  shows "refines (table_result millis c (redis_call (parse (cap_payload c))) (open_requests st)) (Some (redis_request parse c st))"
  using assms by (auto simp: redis_call_def redis_request_def refines_def inspect_simps)

lemma redis_reply_refines:
  "refines (table_result millis c (Reply False (lit ''redis'') n e) (open_requests st)) (Some (redis_response millis c n e st))"
  by (auto simp: redis_response_def refines_def inspect_simps Let_def split: option.splits)

lemma redis_refines:
  assumes "cap_payload c \<noteq> []"
  shows "refines (table_result millis c (redis_message (cap_payload c)) (open_requests st)) (parse_redis millis c st)"
proof -
  have head: "slice_get (cap_payload c) 0 = Some (cap_payload c ! 0)"
    and rest: "slice_from (cap_payload c) 1 = Some (drop 1 (cap_payload c))"
    using assms by (simp_all add: slice_get_def slice_from_def Suc_le_eq)
  show ?thesis
    unfolding parse_redis_def redis_message_def parse_redis_resp_def parse_redis_inline_def head rest
    by (simp only: assms if_False Option.bind.bind_lunit,
        intro refines_if redis_call_refines redis_reply_refines parse_redis_ok)
      (simp add: refines_def inspect_simps)
qed

lemma inspect_refines_table:
  "refines (table_result millis c (db_message_of c) (open_requests st)) (inspect millis c st)"
proof (cases "cap_payload c = []")
  case True
  then show ?thesis
    by (simp add: inspect_def db_message_of_def agent_detect_protocol_def refines_def inspect_simps)
next
  case False
  obtain p where p: "agent_detect_protocol (cap_payload c) (cap_port c) = Some p"
    using agent_detect_markers by blast
  have five: "5 \<le> length (cap_payload c)" if "p = MySQL"
    using p that by (auto simp: agent_detect_markers split: if_splits)
  show ?thesis
    using False p five pg_refines [OF False, of millis "record_protocol p st"]
      mysql_refines [of c millis "record_protocol p st"] redis_refines [OF False, of millis "record_protocol p st"]
    by (cases p) (simp_all add: inspect_def db_message_of_def Let_def inspect_simps refines_def)
qed

section \<open>Sequences of captures\<close>

text \<open>Inspecting captures one after the other; None if one of the calls panics or returns an error.\<close>

fun inspect_all :: "(nat \<Rightarrow> f64) \<Rightarrow> capture list \<Rightarrow> DbInspector \<Rightarrow> ((capture \<times> DbQueryEvent option) list \<times> DbInspector) option" where
  "inspect_all millis [] st = Some ([], st)"
| "inspect_all millis (c # cs) st =
     (case inspect millis c st of
        Some (Inr e, st') \<Rightarrow> map_option (\<lambda>(out, st''). ((c, e) # out, st'')) (inspect_all millis cs st')
      | _ \<Rightarrow> None)"

definition inspect_step :: "(nat \<Rightarrow> f64) \<Rightarrow> capture \<Rightarrow> DbInspector \<Rightarrow> DbQueryEvent option \<times> DbInspector" where
  "inspect_step millis c st = (case inspect millis c st of Some (Inr e, st') \<Rightarrow> (e, st') | _ \<Rightarrow> (None, st))"

lemma inspect_step_refines:
  "inspect millis c st = Some (Inr (fst (inspect_step millis c st)), snd (inspect_step millis c st))"
  "fst (inspect_step millis c st) = fst (slot_result millis c (db_message_of c) (open_requests st (conn c)))"
  "open_requests (snd (inspect_step millis c st)) =
     (open_requests st)(conn c := snd (slot_result millis c (db_message_of c) (open_requests st (conn c))))"
  using inspect_refines_table [of millis c st]
  by (auto simp: refines_def inspect_step_def table_result_def split: prod.splits)

lemma inspect_all_runs: "inspect_all millis cs st = Some (run_outputs (inspect_step millis) cs st)"
  by (induction cs arbitrary: st) (simp_all add: inspect_step_refines(1) split: prod.splits)

interpretation db_table: keyed_table conn "inspect_step millis" open_requests "\<lambda>c. slot_result millis c (db_message_of c)"
  for millis
  by unfold_locales (simp_all add: inspect_step_refines)

lemma quiet_slot:
  "list_all (\<lambda>c. db_message_of c \<in> {Tls, Quiet}) cs \<Longrightarrow>
     snd (run_outputs (\<lambda>c. slot_result millis c (db_message_of c)) cs r) = r"
proof (induction cs)
  case (Cons c cs)
  then have "snd (slot_result millis c (db_message_of c) r) = r" by (auto simp: slot_result_def)
  with Cons show ?case by (cases "slot_result millis c (db_message_of c) r") (simp add: Let_def split: prod.splits, metis snd_conv)
qed simp

lemma reply_takes_request:
  assumes req: "db_message_of req = Request p q ty table"
    and quiet: "list_all (\<lambda>c. conn c = conn req \<longrightarrow> db_message_of c \<in> {Tls, Quiet}) others"
    and rep: "conn rep = conn req" "db_message_of rep = Reply always proto n e"
  shows "\<exists>out st'. inspect_all millis (before @ req # others @ [rep]) st = Some (out, st') \<and>
      last out = (rep, Some (response_event millis rep proto (Some (open_request req p q ty table)) n e)) \<and>
      open_requests st' (conn req) = None"
proof -
  let ?step = "inspect_step millis"
  obtain o1 s1 where r1: "run_outputs ?step before st = (o1, s1)" by (cases "run_outputs ?step before st")
  obtain e2 s2 where r2: "?step req s1 = (e2, s2)" by (cases "?step req s1")
  obtain o3 s3 where r3: "run_outputs ?step others s2 = (o3, s3)" by (cases "run_outputs ?step others s2")
  obtain e4 s4 where r4: "?step rep s3 = (e4, s4)" by (cases "?step rep s3")
  have "open_requests s2 (conn req) = Some (open_request req p q ty table)"
    using inspect_step_refines(3) [of millis req s1] by (simp add: r2 req slot_result_def)
  moreover have "list_all (\<lambda>c. db_message_of c \<in> {Tls, Quiet}) (filter (\<lambda>c. conn c = conn req) others)"
    using quiet by (auto simp: list_all_iff)
  ultimately have s3: "open_requests s3 (conn req) = Some (open_request req p q ty table)"
    using db_table.slot_run [of millis others s2 "conn req"] by (simp add: r3 quiet_slot)
  have "e4 = Some (response_event millis rep proto (Some (open_request req p q ty table)) n e)" "open_requests s4 (conn req) = None"
    using inspect_step_refines(2,3) [of millis rep s3] by (simp_all add: r4 rep s3 slot_result_def)
  moreover have "run_outputs ?step (before @ req # others @ [rep]) st = (o1 @ (req, e2) # o3 @ [(rep, e4)], s4)"
    by (simp add: run_outputs_append r1 r2 r3 r4)
  ultimately show ?thesis by (simp add: inspect_all_runs)
qed

section \<open>What is kept and reported\<close>

definition sql_types :: "string list" where
  "sql_types = [''SELECT'', ''INSERT'', ''UPDATE'', ''DELETE'', ''CREATE'', ''DROP'', ''ALTER'', ''TRUNCATE'', ''UNKNOWN'', ''COMMAND''] @
     bare_keywords"

definition redis_types :: "string list" where
  "redis_types = [''READ'', ''WRITE'', ''KEY'', ''ADMIN'', ''OTHER'']"

text \<open>A well-formed open request: its protocol belongs to the port, its type to the protocol, its text is short.\<close>

definition request_ok :: "u16 \<Rightarrow> PendingRequest \<Rightarrow> bool" where
  "request_ok port r \<longleftrightarrow> length (pr_query r) \<le> 1027 \<and>
     (case pr_protocol r of
        PostgreSQL \<Rightarrow> port = 5432 \<and> pr_query_type r \<in> set (map lit sql_types)
      | MySQL \<Rightarrow> port = 3306 \<and> pr_query_type r \<in> set (map lit (''EXECUTE'' # sql_types))
      | Redis \<Rightarrow> port \<in> {6379, 26379} \<and> pr_query_type r \<in> set (map lit redis_types)
      | _ \<Rightarrow> False)"

definition event_ok :: "DbQueryEvent \<Rightarrow> bool" where
  "event_ok e \<longleftrightarrow> length (dq_query e) \<le> 1027 \<and>
     (if dq_is_encrypted e then dq_protocol e = lit ''encrypted'' \<and> dq_query e = []
      else dq_protocol e \<in> {lit ''postgresql'', lit ''mysql'', lit ''redis''} \<and>
        dq_query_type e \<in> set (map lit (''EXECUTE'' # sql_types @ redis_types)))"

definition inspector_ok :: "DbInspector \<Rightarrow> bool" where
  "inspector_ok st \<longleftrightarrow> (\<forall>pid port r. di_pending st (socket_key pid port) = Some r \<longrightarrow> request_ok port r)"

lemma inspector_ok_abs: "inspector_ok st \<longleftrightarrow> (\<forall>k r. open_requests st k = Some r \<longrightarrow> request_ok (snd k) r)"
  by (auto simp: inspector_ok_def open_requests_def)

lemma parse_sql_types: "fst (parse_sql q) \<in> set (map lit sql_types)"
proof (cases "split_whitespace q")
  case Nil
  then have "split_whitespace (trim q) = []" by (simp add: split_whitespace_trim)
  then have "split_whitespace (to_uppercase (trim q)) = []" by (simp add: split_whitespace_upper)
  then have "fst (parse_sql q) = lit ''UNKNOWN''" by (simp add: parse_sql_def Let_def)
  then show ?thesis by (simp add: sql_types_def)
next
  case (Cons w ws)
  show ?thesis unfolding parse_sql_words(1) [OF Cons] Let_def by (auto simp: sql_types_def)
qed

lemma redis_command_types: "redis_command_type c \<in> set (map lit redis_types)"
  by (simp add: redis_command_type_def redis_types_def Let_def)

lemma request_ok_sql:
  "request_ok port (open_request c p (truncate_query q) (fst (parse_sql q)) table)"
  if "p = PostgreSQL \<and> port = 5432 \<or> p = MySQL \<and> port = 3306"
  using that truncate_bound [of q] parse_sql_types [of q]
  by (auto simp: request_ok_def open_request_def MAX_QUERY_LEN_def)

lemma request_ok_prepared:
  "request_ok 3306 (open_request c MySQL (lit ''<prepared statement>'') (lit ''EXECUTE'') [])"
  by (simp add: request_ok_def open_request_def)

lemma message_ok:
  assumes "db_message_of c = Request p q ty table"
  shows "request_ok (cap_port c) (open_request c p q ty table)"
proof -
  note detect = agent_detect_markers [of "cap_payload c" "cap_port c"]
  consider (pg) "cap_port c = 5432" "pg_message (cap_payload c) = Request p q ty table"
    | (mysql) "cap_port c = 3306" "mysql_message (cap_payload c) = Request p q ty table"
    | (redis) "cap_port c \<in> {6379, 26379}" "redis_message (cap_payload c) = Request p q ty table"
    using assms detect by (auto simp: db_message_of_def split: if_splits)
  then show ?thesis
  proof cases
    case pg
    then show ?thesis using request_ok_sql
      by (auto simp: pg_message_def sql_request_def split: if_splits)
  next
    case mysql
    then show ?thesis using request_ok_sql request_ok_prepared
      by (auto simp: mysql_message_def sql_request_def simp del: list.map split: if_splits)
  next
    case redis
    obtain r where "redis_call r = Request p q ty table"
      using redis(2) by (auto simp: redis_message_def split: if_splits)
    then show ?thesis
      using redis(1) truncate_bound redis_command_types
      by (auto simp: redis_call_def request_ok_def open_request_def MAX_QUERY_LEN_def split: sum.splits prod.splits)
  qed
qed

lemma reply_protocol:
  assumes "db_message_of c = Reply always proto n e"
  shows "proto \<in> {lit ''postgresql'', lit ''mysql'', lit ''redis''}"
  using assms
  by (auto simp: db_message_of_def pg_message_def mysql_message_def redis_message_def sql_request_def redis_call_def
      split: option.splits DbProtocol.splits if_splits sum.splits prod.splits simp del: list.map)

lemma response_ok:
  assumes "\<And>r. req = Some r \<Longrightarrow> request_ok port r" "proto \<in> {lit ''postgresql'', lit ''mysql'', lit ''redis''}"
  shows "event_ok (response_event millis c proto req n e)"
  using assms
  by (cases req) (auto simp: event_ok_def response_event_def request_ok_def sql_types_def simp del: list.map(2)
      split: DbProtocol.splits)

lemma inspect_step_ok:
  assumes "inspector_ok st"
  shows "inspector_ok (snd (inspect_step millis c st))"
    "fst (inspect_step millis c st) = Some e \<Longrightarrow> event_ok e"
proof -
  have ok: "request_ok (cap_port c) r" if "open_requests st (conn c) = Some r" for r
    using assms that by (auto simp: inspector_ok_abs conn_def)
  show "inspector_ok (snd (inspect_step millis c st))"
    using assms ok message_ok
    by (auto simp: inspector_ok_abs inspect_step_refines slot_result_def conn_def split: db_message.splits if_splits)
  have resp: "event_ok (response_event millis c proto (open_requests st (conn c)) n x)"
    if "db_message_of c = Reply always proto n x" for always proto n x
    by (rule response_ok [OF ok reply_protocol [OF that]])
  have enc: "event_ok (encrypted_event c)" by (simp add: event_ok_def encrypted_event_def)
  show "event_ok e" if "fst (inspect_step millis c st) = Some e"
    using that resp enc
    by (auto simp: inspect_step_refines slot_result_def split: db_message.splits if_splits)
qed

lemma run_inspector_ok:
  "inspector_ok st \<Longrightarrow> run_outputs (inspect_step millis) cs st = (out, st') \<Longrightarrow>
     inspector_ok st' \<and> (\<forall>c e. (c, Some e) \<in> set out \<longrightarrow> event_ok e)"
proof (induction cs arbitrary: st out st')
  case (Cons c cs)
  obtain e s1 where s: "inspect_step millis c st = (e, s1)" by (cases "inspect_step millis c st")
  obtain o2 s2 where r: "run_outputs (inspect_step millis) cs s1 = (o2, s2)" by (cases "run_outputs (inspect_step millis) cs s1")
  have "inspector_ok s1" "\<And>x. e = Some x \<Longrightarrow> event_ok x"
    using inspect_step_ok [OF Cons.prems(1), of millis c] by (simp_all add: s)
  with Cons.IH [OF _ r] Cons.prems(2) show ?case by (auto simp: s r)
qed simp

end
