(* ===== verification/Db_Reports.thy ===== *)
theory Db_Reports
  imports Db_Spec
begin

text \<open>
  What the database inspector reports on whole exchanges: the accounting of its statistics, and,
  for each protocol, a request as a client sends it followed by the server's reply. The last
  section collects the replies the parsers do not recognise.
\<close>

section \<open>Statistics\<close>

definition reported :: "DbInspector \<Rightarrow> u64" where
  "reported st = is_pg_queries (di_stats st) + is_mysql_queries (di_stats st) + is_redis_commands (di_stats st) +
     is_encrypted_events (di_stats st)"

definition seen :: "DbInspector \<Rightarrow> u64 \<times> u64" where
  "seen st = (is_total_events (di_stats st), is_parse_errors (di_stats st))"

definition counts :: "DbInspector \<Rightarrow> inspected option \<Rightarrow> bool" where
  "counts st res \<longleftrightarrow>
     (case res of
        Some (Inr e, st') \<Rightarrow> seen st' = seen st \<and> reported st' = reported st + (if e = None then 0 else 1)
      | _ \<Rightarrow> True)"

named_theorems count_simps \<open>the counters after each operation\<close>

lemma count_ops [count_simps]:
  "reported (increment_pg st) = reported st + 1" "seen (increment_pg st) = seen st"
  "reported (increment_mysql st) = reported st + 1" "seen (increment_mysql st) = seen st"
  "reported (increment_redis st) = reported st + 1" "seen (increment_redis st) = seen st"
  "reported (pending_insert c p q ty table st) = reported st" "seen (pending_insert c p q ty table st) = seen st"
  "reported (st\<lparr>di_pending := m\<rparr>) = reported st" "seen (st\<lparr>di_pending := m\<rparr>) = seen st"
  "reported (record_protocol p st) = reported st + (if p = Encrypted then 1 else 0)"
  "seen (record_protocol p st) = (fst (seen st) + 1, snd (seen st))"
  by (simp_all add: reported_def seen_def increment_pg_def increment_mysql_def increment_redis_def
      pending_insert_def record_protocol_def Let_def split: DbProtocol.splits)

lemma counts_simps [count_simps]:
  "counts st (Some (Inr e, st')) \<longleftrightarrow> seen st' = seen st \<and> reported st' = reported st + (if e = None then 0 else 1)"
  "counts st None" "counts st (Some (Inl x, st'))"
  by (simp_all add: counts_def)

lemma counts_if: "(b \<Longrightarrow> counts st x) \<Longrightarrow> (\<not> b \<Longrightarrow> counts st y) \<Longrightarrow> counts st (if b then x else y)"
  by simp

lemma counts_bind: "(\<And>x. m = Some x \<Longrightarrow> counts st (f x)) \<Longrightarrow> counts st (Option.bind m f)"
  by (cases m) (simp_all add: count_simps)

lemmas counts_intros = counts_if counts_bind

lemma counts_pg: "counts st (parse_postgresql millis c st)"
  unfolding parse_postgresql_def Let_def
  by (intro counts_intros) (simp_all add: pending_remove_def count_simps split: prod.splits option.splits)

lemma counts_mysql: "counts st (parse_mysql millis c st)"
  unfolding parse_mysql_def Let_def pending_remove_def prod.case
  by (intro counts_intros) (simp_all add: count_simps split: prod.splits option.splits)

lemma counts_redis_parts:
  "counts st (Some (redis_request parse c st))" "counts st (Some (redis_response millis c n e st))"
  by (simp_all add: redis_request_def redis_response_def pending_remove_def count_simps split: sum.splits prod.splits option.splits)

lemma counts_redis: "counts st (parse_redis millis c st)"
  unfolding parse_redis_def Let_def parse_redis_resp_def parse_redis_inline_def
  by (intro counts_intros) (simp_all add: counts_redis_parts counts_simps(1))

lemma inspect_step_counts:
  "seen (snd (inspect_step millis c st)) =
     (fst (seen st) + (if cap_payload c = [] then 0 else 1), snd (seen st))"
  "reported (snd (inspect_step millis c st)) =
     reported st + (if fst (inspect_step millis c st) = None then 0 else 1)"
proof -
  obtain p where p: "agent_detect_protocol (cap_payload c) (cap_port c) = Some p" using agent_detect_markers by blast
  let ?st = "record_protocol p st"
  obtain e st' where i: "inspect millis c st = Some (Inr e, st')" using inspect_step_refines(1) by blast
  then have s: "inspect_step millis c st = (e, st')" by (simp add: inspect_step_def)
  have "seen st' = (fst (seen st) + (if cap_payload c = [] then 0 else 1), snd (seen st)) \<and>
      reported st' = reported st + (if e = None then 0 else 1)"
  proof (cases "cap_payload c = []")
    case True
    then show ?thesis using i by (simp add: inspect_def)
  next
    case False
    then show ?thesis
      using i counts_pg [of ?st millis c] counts_mysql [of ?st millis c] counts_redis [of ?st millis c]
      by (cases p) (auto simp: inspect_def p count_simps)
  qed
  then show "seen (snd (inspect_step millis c st)) =
     (fst (seen st) + (if cap_payload c = [] then 0 else 1), snd (seen st))"
    "reported (snd (inspect_step millis c st)) = reported st + (if fst (inspect_step millis c st) = None then 0 else 1)"
    by (simp_all add: s)
qed

lemma run_counts:
  assumes "run_outputs (inspect_step millis) cs st = (out, st')"
  shows "seen st' = (fst (seen st) + of_nat (length (filter (\<lambda>c. cap_payload c \<noteq> []) cs)), snd (seen st)) \<and>
    reported st' = reported st + of_nat (length (filter (\<lambda>(c, e). e \<noteq> None) out))"
  using assms
proof (induction cs arbitrary: st out st')
  case (Cons c cs)
  obtain e s1 where s: "inspect_step millis c st = (e, s1)" by (cases "inspect_step millis c st")
  obtain o2 s2 where r: "run_outputs (inspect_step millis) cs s1 = (o2, s2)" by (cases "run_outputs (inspect_step millis) cs s1")
  note one = inspect_step_counts [of millis c st, unfolded s fst_conv snd_conv]
  have "out = (c, e) # o2" "st' = s2" using Cons.prems by (simp_all add: s r)
  then show ?case using Cons.IH [OF r] one by (simp add: algebra_simps)
qed simp

section \<open>Messages on the wire\<close>

definition pg_frame :: "char \<Rightarrow> bytes \<Rightarrow> bytes \<Rightarrow> bytes" where
  "pg_frame kind len body = ascii kind # len @ body"

definition mysql_frame :: "bytes \<Rightarrow> byte \<Rightarrow> bytes \<Rightarrow> bytes" where
  "mysql_frame header kind body = header @ kind # body"

lemma pg_marker_not_tls: "m \<in> pg_markers \<Longrightarrow> m \<noteq> 0x16" "m \<in> redis_markers \<Longrightarrow> m \<noteq> 0x16"
  by (auto simp: pg_markers_def redis_markers_def)

lemma pg_kind:
  assumes "cap_payload c = m # b # rest" "cap_port c = 5432" "m \<in> pg_markers"
  shows "db_message_of c = pg_message (cap_payload c)"
  using assms pg_marker_not_tls(1) [OF assms(3)] by (simp add: db_message_of_def agent_detect_markers)

lemma redis_kind:
  assumes "cap_payload c = m # b # rest" "cap_port c \<in> {6379, 26379}" "m \<in> redis_markers"
  shows "db_message_of c = redis_message (cap_payload c)"
  using assms pg_marker_not_tls(2) [OF assms(3)] by (auto simp: db_message_of_def agent_detect_markers)

lemma pg_query_message:
  assumes "cap_payload c = pg_frame CHR ''Q'' l (encode q @ [0])" "length l = 4" "cap_port c = 5432" "pg_text q"
  shows "db_message_of c = sql_request PostgreSQL q"
proof -
  obtain b rest where p: "cap_payload c = ascii CHR ''Q'' # b # rest"
    using assms(1,2) by (cases l) (auto simp: pg_frame_def)
  have "db_message_of c = pg_message (cap_payload c)" by (rule pg_kind [OF p assms(3)]) (simp add: pg_markers_def)
  also have "\<dots> = sql_request PostgreSQL q"
    using assms read_null_encode [OF assms(4), of "[]"] by (simp add: pg_message_def pg_frame_def)
  finally show ?thesis .
qed

lemma pg_complete_message:
  assumes "cap_payload c = pg_frame CHR ''C'' l (encode tag @ [0])" "length l = 4" "cap_port c = 5432" "pg_text tag"
  shows "db_message_of c = Reply True (lit ''postgresql'') (parse_pg_command_complete tag) []"
proof -
  obtain b rest where p: "cap_payload c = ascii CHR ''C'' # b # rest"
    using assms(1,2) by (cases l) (auto simp: pg_frame_def)
  have "db_message_of c = pg_message (cap_payload c)" by (rule pg_kind [OF p assms(3)]) (simp add: pg_markers_def)
  also have "\<dots> = Reply True (lit ''postgresql'') (parse_pg_command_complete tag) []"
    using assms read_null_encode [OF assms(4), of "[]"] by (simp add: pg_message_def pg_frame_def)
  finally show ?thesis .
qed

definition select_tag :: "nat \<Rightarrow> rstring" where
  "select_tag n = join_with (lit '' '') [lit ''SELECT'', decimal n]"

lemma select_tag_text: "pg_text (select_tag n)"
  using decimal_digits [of n] by (auto simp: select_tag_def pg_text_def list_all_iff scalar_value_def)

lemma select_tag_count: "n < 2 ^ 64 \<Longrightarrow> parse_pg_command_complete (select_tag n) = of_nat n"
proof -
  assume n: "n < 2 ^ 64"
  have "is_word (lit ''SELECT'')" by (simp add: is_word_def is_whitespace_def)
  then have "split_whitespace (select_tag n) = [lit ''SELECT'', decimal n]"
    unfolding select_tag_def by (intro split_whitespace_join) (simp add: decimal_word)
  then show ?thesis using parse_uint_decimal [OF n] by (simp add: parse_pg_command_complete_def nth_count_def)
qed

lemma encode_ascii: "c < 128 \<Longrightarrow> encode (c # s) = of_nat c # encode s"
  by (simp add: encode_def utf8_enc_def)

lemma encode_Nil: "encode s = [] \<longleftrightarrow> s = []"
  by (cases s) (simp_all add: encode_def utf8_enc_nonempty)

lemma redis_command_message:
  assumes "cap_payload c = encode (resp_command (command # args))" "cap_port c \<in> {6379, 26379}"
    and "list_all (list_all scalar_value) (command # args)" "list_all (\<lambda>a. 13 \<notin> set a) (command # args)"
    and "length args < 2 ^ 64 - 1"
  shows "db_message_of c =
    Request Redis (truncate_query (format_redis_command command (nth_or_empty args 0))) (redis_command_type command)
      (nth_or_empty args 0)"
proof -
  have parsed: "parse_redis_resp_array (cap_payload c) = Inr (command, nth_or_empty args 0)"
    using parse_resp_command [OF assms(3,4)] assms(1,5) by (simp add: nth_or_empty_def)
  have "cap_payload c = ascii CHR ''*'' # encode (tl (resp_command (command # args)))"
    using encode_ascii [of "of_char CHR ''*''"] by (simp add: assms(1) resp_command_def)
  moreover have "encode (tl (resp_command (command # args))) \<noteq> []" by (simp add: resp_command_def encode_Nil)
  ultimately obtain b rest where p: "cap_payload c = ascii CHR ''*'' # b # rest" using neq_Nil_conv by metis
  have "db_message_of c = redis_message (cap_payload c)" by (rule redis_kind [OF p assms(2)]) (simp add: redis_markers_def)
  also have "\<dots> = redis_call (parse_redis_resp_array (cap_payload c))" by (simp add: redis_message_def p)
  finally show ?thesis by (simp add: parsed redis_call_def)
qed

definition integer_reply :: "nat \<Rightarrow> rstring" where
  "integer_reply n = lit '':'' @ decimal n @ [13, 10]"

lemma trim_word: "is_word w \<Longrightarrow> trim w = w"
  using trim_matches_core [of is_whitespace "[]" "[]" w] by (simp add: trim_def is_word_def)

lemma redis_integer_message:
  assumes "cap_payload c = encode (integer_reply n)" "cap_port c \<in> {6379, 26379}" "n < 2 ^ 64"
  shows "db_message_of c = Reply False (lit ''redis'') (of_nat n) []"
proof -
  have enc: "encode (integer_reply n) = ascii CHR '':'' # encode (decimal n @ [13, 10])"
    using encode_ascii [of "of_char CHR '':''"] by (simp add: integer_reply_def)
  have "list_all scalar_value (decimal n @ [13, 10])"
    using decimal_digits [of n] by (auto simp: list_all_iff scalar_value_def)
  then have "read_crlf_string (encode (decimal n @ [13, 10])) = decimal n"
    using split_crlf_field [OF decimal_no_cr, of n "[]"] by (simp add: read_crlf_string_def lossy_encode)
  then have rows: "parse_uint 10 64 (trim (read_crlf_string (drop 1 (cap_payload c)))) = Some n"
    using parse_uint_decimal [OF assms(3)] by (simp add: assms(1) enc trim_word decimal_word)
  have "encode (decimal n @ [13, 10]) \<noteq> []" by (simp add: encode_Nil)
  then obtain b rest where p: "cap_payload c = ascii CHR '':'' # b # rest"
    using assms(1) enc neq_Nil_conv by metis
  have "db_message_of c = redis_message (cap_payload c)" by (rule redis_kind [OF p assms(2)]) (simp add: redis_markers_def)
  also have "\<dots> = Reply False (lit ''redis'')
      (case parse_uint 10 64 (trim (read_crlf_string (drop 1 (cap_payload c)))) of Some n \<Rightarrow> of_nat n | None \<Rightarrow> 0) []"
    by (simp add: redis_message_def p)
  finally show ?thesis by (simp only: rows option.case)
qed

lemma mysql_kind:
  assumes "cap_payload c = mysql_frame header kind body" "length header = 4" "cap_port c = 3306"
    and "take 2 header \<noteq> [0x16, 0x03]"
  shows "db_message_of c = mysql_message (cap_payload c)" "cap_payload c ! 4 = kind" "drop 5 (cap_payload c) = body"
proof -
  obtain h0 h1 h2 h3 where h: "header = [h0, h1, h2, h3]"
    using assms(2) by (auto simp: numeral_eq_Suc length_Suc_conv)
  show p: "cap_payload c ! 4 = kind" "drop 5 (cap_payload c) = body" by (simp_all add: assms(1) mysql_frame_def h)
  have "\<not> (h0 = 0x16 \<and> h1 = 0x03)" using assms(4) by (simp add: h)
  then show "db_message_of c = mysql_message (cap_payload c)"
    using assms(1,3) by (auto simp: db_message_of_def agent_detect_markers mysql_frame_def h mysql_message_def mysql_markers_def)
qed

section \<open>Properties\<close>

text \<open>Captures for the examples below.\<close>

definition example_capture :: "bytes \<Rightarrow> u16 \<Rightarrow> nat \<Rightarrow> capture" where
  "example_capture payload port now =
     \<lparr>cap_payload = payload, cap_port = port, cap_pid = 7, cap_process_name = lit ''app'', cap_src_ip = 0, cap_dst_ip = 1,
      cap_timestamp_ns = 0, cap_now = now\<rparr>"

text \<open>
  C5. The inspector implements its specification: on every capture, in every state, \<open>inspect\<close>
  returns without panic and without error, its event is the one the abstract inspector produces
  from the open request of the same process and port, and its table afterwards is the abstract
  table after the message: a request replaces the open request, a reply removes it, and anything
  else leaves it.
\<close>

theorem inspect_refines_spec:
  "\<exists>st'. inspect millis c st = Some (Inr (fst (table_result millis c (db_message_of c) (open_requests st))), st') \<and>
     open_requests st' = snd (table_result millis c (db_message_of c) (open_requests st))"
  using inspect_refines_table [of millis c st] by (simp add: refines_def)

text \<open>
  Processes and ports do not influence each other: among the captures of any sequence, those
  of one process and port produce the same events as if they were the only ones.
\<close>

lemma db_connections_independent:
  "\<exists>out st' out' st''. inspect_all millis cs st = Some (out, st') \<and>
     inspect_all millis (filter (\<lambda>c. (cap_pid c, cap_port c) = k) cs) st = Some (out', st'') \<and>
     filter (\<lambda>(c, e). (cap_pid c, cap_port c) = k) out = out'"
  using db_table.alone [of k millis cs st]
  by (simp add: inspect_all_runs conn_def) (metis (no_types, lifting) prod.collapse)

text \<open>
  C34. The inspector's table stays well-formed and its events are: from an empty inspector, after
  any captures, every open request has the protocol of its port, a query type of that protocol and
  at most 1027 characters of text, and every event has a known protocol and query type and at most
  1027 characters of query.
\<close>

theorem inspector_stays_wellformed:
  "\<exists>out st. inspect_all millis cs DbInspector_new = Some (out, st) \<and> inspector_ok st \<and>
     list_all (\<lambda>(c, e). case e of None \<Rightarrow> True | Some x \<Rightarrow> event_ok x) out"
proof -
  have new: "inspector_ok DbInspector_new" by (simp add: inspector_ok_def DbInspector_new_def)
  obtain out st where r: "run_outputs (inspect_step millis) cs DbInspector_new = (out, st)" by fastforce
  with run_inspector_ok [OF new r] show ?thesis
    by (auto simp: inspect_all_runs list_all_iff split: option.splits)
qed

text \<open>
  The statistics account for the work: after any captures, starting from an empty inspector,
  the total counts the non-empty payloads, the counters of the three protocols and of encrypted
  connections together count the events returned (all modulo 2 to the 64), and the parse error
  counter is never touched.
\<close>

lemma inspector_stats_account:
  "\<exists>out st. inspect_all millis cs DbInspector_new = Some (out, st) \<and>
    is_total_events (DbInspector_stats st) = of_nat (length (filter (\<lambda>c. cap_payload c \<noteq> []) cs)) \<and>
    is_pg_queries (DbInspector_stats st) + is_mysql_queries (DbInspector_stats st) + is_redis_commands (DbInspector_stats st) +
      is_encrypted_events (DbInspector_stats st) = of_nat (length (filter (\<lambda>(c, e). e \<noteq> None) out)) \<and>
    is_parse_errors (DbInspector_stats st) = 0"
proof -
  obtain out st where r: "run_outputs (inspect_step millis) cs DbInspector_new = (out, st)" by fastforce
  with run_counts [of millis cs DbInspector_new out st] show ?thesis
    by (simp add: inspect_all_runs seen_def reported_def DbInspector_new_def InspectorStats_default_def DbInspector_stats_def)
qed

text \<open>
  C31. A PostgreSQL query is reported: a client sends a simple query whose words are a SELECT,
  DELETE or INSERT statement naming a table, and the server completes it with a SELECT tag of n
  rows, with any captures in between that are of other processes or ports or carry no message. The
  reply is reported with the query, its kind, the table without schema, brackets and commas, the
  row count, the time between the two captures, the addresses, port, process and command of the capture
  of the reply, no database, no error and no encryption, and nothing stays open.
\<close>

theorem pg_query_reported:
  assumes req: "cap_payload req = pg_frame CHR ''Q'' la (encode q @ [0])" "length la = 4" "cap_port req = 5432"
    and sql: "pg_text q" "str_len q \<le> 1024"
      "split_whitespace q = verb # cols @ kw # (pre @ qual @ name @ post) # rest"
      "(v, k) \<in> set statement_kinds" "to_uppercase verb = lit v" "to_uppercase kw = lit k"
      "list_all (\<lambda>w. to_uppercase w \<noteq> lit k) cols"
      "list_all (\<lambda>c. c \<in> set (lit ''(),'')) pre" "list_all (\<lambda>c. c \<in> set (lit ''(),'')) post"
      "qual = [] \<or> (\<exists>s. qual = s @ lit ''.'')" "plain_name qual"
      "name \<noteq> []" "plain_name name" "of_char CHR ''.'' \<notin> set name"
    and quiet: "list_all (\<lambda>c. conn c = conn req \<longrightarrow> db_message_of c \<in> {Tls, Quiet}) others"
    and rep: "cap_payload rep = pg_frame CHR ''C'' lb (encode (select_tag n) @ [0])" "length lb = 4" "conn rep = conn req"
      "n < 2 ^ 64"
  shows "\<exists>out st'. inspect_all millis (before @ req # others @ [rep]) st = Some (out, st') \<and>
    last out = (rep, Some
      \<lparr>dq_protocol = lit ''postgresql'', dq_query = q, dq_query_type = lit v, dq_table_name = name, dq_database = [],
       dq_latency_ms = millis (cap_now rep - cap_now req), dq_row_count = of_nat n, dq_error_message = [],
       dq_source_ip = format_ip (cap_src_ip rep), dq_destination_ip = format_ip (cap_dst_ip rep),
       dq_destination_port = 5432, dq_pid = cap_pid req, dq_process_name = cap_process_name rep, dq_is_encrypted = False\<rparr>) \<and>
    di_pending st' (socket_key (cap_pid req) 5432) = None"
proof -
  have "parse_sql q = (lit v, name)" by (rule parse_sql_table [OF sql(3-14)])
  then have m: "db_message_of req = Request PostgreSQL q (lit v) name"
    using pg_query_message [OF req sql(1)] sql(2) by (simp add: sql_request_def truncate_query_def MAX_QUERY_LEN_def)
  have port: "cap_port rep = 5432" "cap_pid rep = cap_pid req" using rep(3) req(3) by (simp_all add: conn_def)
  have r: "db_message_of rep = Reply True (lit ''postgresql'') (of_nat n) []"
    using pg_complete_message [OF rep(1,2) port(1) select_tag_text] select_tag_count [OF rep(4)] by simp
  from reply_takes_request [OF m quiet rep(3) r, of millis before st] port req(3) show ?thesis
    by (auto simp: response_event_def open_request_def open_requests_def conn_def)
qed

theorem pg_query_reported_witness:
  "\<exists>out st'. inspect_all (\<lambda>ns. of_nat ns)
      [example_capture (pg_frame CHR ''Q'' [0, 0, 0, 31] (encode (lit ''select id from public.users'') @ [0])) 5432 10,
       example_capture (pg_frame CHR ''C'' [0, 0, 0, 13] (encode (select_tag 42) @ [0])) 5432 30] DbInspector_new = Some (out, st') \<and>
    (\<exists>rep e. last out = (rep, Some e) \<and> dq_table_name e = lit ''users'' \<and> dq_row_count e = 42 \<and> dq_latency_ms e = 20 \<and>
      dq_source_ip e = format_ip (cap_src_ip rep) \<and> dq_destination_ip e = format_ip (cap_dst_ip rep))"
proof -
  let ?req = "example_capture (pg_frame CHR ''Q'' [0, 0, 0, 31] (encode (lit ''select id from public.users'') @ [0])) 5432 10"
  let ?rep = "example_capture (pg_frame CHR ''C'' [0, 0, 0, 13] (encode (select_tag 42) @ [0])) 5432 30"
  have words: "split_whitespace (lit ''select id from public.users'') =
      lit ''select'' # [lit ''id''] @ lit ''from'' # ([] @ lit ''public.'' @ lit ''users'' @ []) # []"
    by (simp add: split_whitespace_def is_whitespace_def)
  have "\<exists>out st'. inspect_all (\<lambda>ns. of_nat ns) ([] @ ?req # [] @ [?rep]) DbInspector_new = Some (out, st') \<and>
    last out = (?rep, Some
      \<lparr>dq_protocol = lit ''postgresql'', dq_query = lit ''select id from public.users'', dq_query_type = lit ''SELECT'',
       dq_table_name = lit ''users'', dq_database = [], dq_latency_ms = of_nat (cap_now ?rep - cap_now ?req),
       dq_row_count = of_nat 42, dq_error_message = [], dq_source_ip = format_ip (cap_src_ip ?rep),
       dq_destination_ip = format_ip (cap_dst_ip ?rep), dq_destination_port = 5432, dq_pid = cap_pid ?req,
       dq_process_name = cap_process_name ?rep, dq_is_encrypted = False\<rparr>) \<and>
    di_pending st' (socket_key (cap_pid ?req) 5432) = None"
    by (rule pg_query_reported [OF _ _ _ _ _ words, where v = "''SELECT''" and k = "''FROM''" and
          la = "[0, 0, 0, 31]" and lb = "[0, 0, 0, 13]"])
      (simp_all add: example_capture_def pg_text_def scalar_value_def str_len_def utf8_enc_def statement_kinds_def
        to_uppercase_def char_upper_def plain_name_def conn_def)
  then show ?thesis by (auto simp: example_capture_def)
qed

text \<open>
  A Redis command is reported: a client sends a command with any number of arguments as an
  array of bulk strings, and the server answers with an integer, with any captures in between that
  are of other processes or ports or carry no message. The reply is reported with the command and
  its first argument, the category of the command, the first argument as the key, and the integer
  as the row count. Carriage returns in an argument are excluded.
\<close>

lemma redis_command_reported:
  assumes req: "cap_payload req = encode (resp_command (command # args))" "cap_port req \<in> {6379, 26379}"
    and args: "list_all (list_all scalar_value) (command # args)" "list_all (\<lambda>a. 13 \<notin> set a) (command # args)"
      "length args < 2 ^ 64 - 1" "str_len (format_redis_command command (nth_or_empty args 0)) \<le> 1024"
    and quiet: "list_all (\<lambda>c. conn c = conn req \<longrightarrow> db_message_of c \<in> {Tls, Quiet}) others"
    and rep: "cap_payload rep = encode (integer_reply n)" "conn rep = conn req" "n < 2 ^ 64"
  shows "\<exists>out st' e. inspect_all millis (before @ req # others @ [rep]) st = Some (out, st') \<and>
    last out = (rep, Some e) \<and> dq_protocol e = lit ''redis'' \<and>
    dq_query e = format_redis_command command (nth_or_empty args 0) \<and> dq_query_type e = redis_command_type command \<and>
    dq_table_name e = nth_or_empty args 0 \<and> dq_row_count e = of_nat n \<and>
    dq_latency_ms e = millis (cap_now rep - cap_now req)"
proof -
  have m: "db_message_of req = Request Redis (format_redis_command command (nth_or_empty args 0))
      (redis_command_type command) (nth_or_empty args 0)"
    using redis_command_message [OF req args(1-3)] args(4) by (simp add: truncate_query_def MAX_QUERY_LEN_def)
  have "cap_port rep \<in> {6379, 26379}" using rep(2) req(2) by (simp add: conn_def)
  from reply_takes_request [OF m quiet rep(2) redis_integer_message [OF rep(1) this rep(3)], of millis before st]
  show ?thesis by (auto simp: response_event_def open_request_def)
qed

lemma redis_command_reported_example:
  "\<exists>out st' e. inspect_all (\<lambda>ns. of_nat ns)
      [example_capture (encode (resp_command [lit ''DEL'', lit ''k''])) 6379 10,
       example_capture (encode (integer_reply 1)) 6379 30] DbInspector_new = Some (out, st') \<and>
    last out = (example_capture (encode (integer_reply 1)) 6379 30, Some e) \<and>
    dq_query e = lit ''DEL k'' \<and> dq_query_type e = lit ''WRITE'' \<and> dq_row_count e = 1"
proof -
  let ?req = "example_capture (encode (resp_command (lit ''DEL'' # [lit ''k'']))) 6379 10"
  let ?rep = "example_capture (encode (integer_reply 1)) 6379 30"
  have ty: "redis_command_type (lit ''DEL'') = lit ''WRITE''"
    by (simp add: redis_command_type_def to_uppercase_def char_upper_def redis_read_commands_def redis_write_commands_def Let_def)
  have "\<exists>out st' e. inspect_all (\<lambda>ns. of_nat ns) ([] @ ?req # [] @ [?rep]) DbInspector_new = Some (out, st') \<and>
    last out = (?rep, Some e) \<and> dq_protocol e = lit ''redis'' \<and>
    dq_query e = format_redis_command (lit ''DEL'') (nth_or_empty [lit ''k''] 0) \<and>
    dq_query_type e = redis_command_type (lit ''DEL'') \<and>
    dq_table_name e = nth_or_empty [lit ''k''] 0 \<and> dq_row_count e = of_nat 1 \<and>
    dq_latency_ms e = of_nat (cap_now ?rep - cap_now ?req)"
    by (rule redis_command_reported)
      (simp_all add: example_capture_def conn_def scalar_value_def nth_or_empty_def format_redis_command_def str_len_def utf8_enc_def)
  then show ?thesis unfolding ty by (auto simp: nth_or_empty_def format_redis_command_def)
qed

text \<open>
  Length-encoded integers are read back: every 64-bit number, in MySQL's encoding of one,
  three, four or nine bytes and followed by anything, is read as itself, and no byte string makes
  the reader panic.
\<close>

lemma lenenc_int_roundtrip:
  "read_lenenc_int (lenenc (unat w) @ rest) = Some w \<and> read_lenenc_int data \<noteq> None"
  using lenenc_read_back [of "unat w" rest] unat_bound [of w] read_lenenc_int_total [of data] by simp

text \<open>
  What the MySQL parser takes for a reply: on port 3306 a packet that is neither an OK nor an
  ERR packet (in particular the first packet of a result set, whose byte 4 is the number of
  columns) never produces an event, so a query that returns rows stays open. If the number of
  columns is 3 or 23 the packet replaces the open query, and a packet of length 790 is
  taken for TLS.
\<close>

lemma mysql_result_set_not_reported:
  assumes packet: "cap_payload c = mysql_frame header kind body" "length header = 4" "cap_port c = 3306"
    and first: "kind \<noteq> 0x00" "kind \<noteq> 0xff"
  shows "\<exists>e st'. inspect millis c st = Some (Inr e, st') \<and>
    (if take 2 header = [0x16, 0x03] then e = Some (encrypted_event c)
     else e = None \<and> (kind \<notin> {0x03, 0x17} \<longrightarrow> di_pending st' = di_pending st) \<and>
       (kind \<in> {0x03, 0x17} \<longrightarrow> (\<exists>r. di_pending st' (socket_key (cap_pid c) 3306) = Some r \<and> pr_sent_at r = cap_now c)))"
proof -
  obtain h0 h1 h2 h3 where h: "header = [h0, h1, h2, h3]"
    using packet(2) by (auto simp: numeral_eq_Suc length_Suc_conv)
  have p: "cap_payload c = h0 # h1 # h2 # h3 # kind # body" by (simp add: packet(1) mysql_frame_def h)
  show ?thesis
  proof (cases "h0 = 0x16 \<and> h1 = 0x03")
    case True
    then show ?thesis using p by (simp add: inspect_def agent_detect_markers h)
  next
    case False
    then have d: "agent_detect_protocol (h0 # h1 # h2 # h3 # kind # body) 3306 =
        Some (if kind \<in> {0x0a, 0x03, 0x17} then MySQL else Unknown)"
      using first by (auto simp: agent_detect_markers mysql_markers_def)
    show ?thesis
      using False first
      by (auto simp: inspect_def d h p parse_mysql_def slice_get_def slice_from_def pending_stats
          pending_insert_def capture_key_def packet(3) Let_def split: prod.splits)
  qed
qed

lemma mysql_result_set_not_reported_example:
  "\<exists>e st'. inspect (\<lambda>_. 0) (example_capture (mysql_frame [1, 0, 0, 1] 1 []) 3306 5) DbInspector_new = Some (Inr e, st') \<and> e = None"
  using mysql_result_set_not_reported [of "example_capture (mysql_frame [1, 0, 0, 1] 1 []) 3306 5" "[1, 0, 0, 1]" 1 "[]" "\<lambda>_. 0" DbInspector_new]
  by (auto simp: example_capture_def)

section \<open>Replies that are misread\<close>

text \<open>A Redis reply that is an array is taken for a request and replaces the open one.\<close>

lemma redis_array_reply_taken_for_request:
  assumes "cap_payload c = ascii CHR ''*'' # b # rest" "cap_port c = 6379"
  shows "\<exists>st'. inspect millis c st = Some (Inr None, st') \<and>
    (\<exists>r. di_pending st' (socket_key (cap_pid c) 6379) = Some r \<and> pr_sent_at r = cap_now c)"
proof -
  have m: "db_message_of c = redis_call (parse_redis_resp_array (cap_payload c))"
    using redis_kind [OF assms(1)] assms by (simp add: redis_markers_def redis_message_def)
  obtain command key where "parse_redis_resp_array (cap_payload c) = Inr (command, key)"
    using parse_redis_ok(1) by fastforce
  with m have "\<exists>q ty t. db_message_of c = Request Redis q ty t" by (simp add: redis_call_def)
  then obtain q ty t where "db_message_of c = Request Redis q ty t" by blast
  then obtain st' where i: "inspect millis c st = Some (Inr None, st')"
    and s: "open_requests st' = (open_requests st)(conn c \<mapsto> open_request c Redis q ty t)"
    using inspect_refines_table [of millis c st] by (auto simp: refines_def inspect_simps)
  have "open_requests st' (conn c) = Some (open_request c Redis q ty t)" by (simp add: s)
  then show ?thesis using i assms(2) by (simp add: open_requests_def conn_def open_request_def)
qed

text \<open>The PostgreSQL client message Execute has the type byte of ErrorResponse and is reported as an error.\<close>

lemma pg_execute_reported_as_error:
  assumes "cap_payload c = pg_frame CHR ''E'' [0, 0, 0, 9] [0, 0, 0, 0, 0]" "cap_port c = 5432"
  shows "\<exists>e st'. inspect millis c st = Some (Inr (Some e), st') \<and> dq_error_message e = [0, 0, 0, 0, 0]"
proof -
  have p: "cap_payload c = [ascii CHR ''E'', 0, 0, 0, 9, 0, 0, 0, 0, 0]" using assms(1) by (simp add: pg_frame_def)
  have "parse_pg_error_response (cap_payload c) = Some [0, 0, 0, 0, 0]"
    using lossy_valid [OF from_utf8_ascii [of "[0, 0, 0, 0, 0]"]]
    by (simp add: p parse_pg_error_response_def slice_from_def pg_error_fields.simps slice_get_def)
  then have "db_message_of c = Reply True (lit ''postgresql'') 0 [0, 0, 0, 0, 0]"
    using pg_kind [OF p assms(2)] by (simp add: pg_markers_def pg_message_def p)
  then show ?thesis
    using inspect_refines_table [of millis c st] by (auto simp: refines_def inspect_simps response_event_def)
qed

text \<open>
  A field value that is not UTF-8 makes the walk over the error fields skip too far, because its
  replacement characters are longer than the bytes they replace: here the message is missed.
\<close>

lemma pg_error_message_missed:
  "parse_pg_error_response ([0x45, 0, 0, 0, 0, 0x53, 0xff, 0xff, 0] @ [0x4d, 0x61, 0, 0]) \<noteq> Some [0x61]"
proof -
  have lossy: "from_utf8_lossy [0xff, 0xff] = [0xFFFD, 0xFFFD]" "from_utf8_lossy [] = []"
    by (simp_all add: from_utf8_lossy.simps(2) utf8_next.simps(2))
  show ?thesis
    by (simp add: parse_pg_error_response_def slice_from_def pg_error_fields.simps slice_get_def read_null_string_def
        until_nul_def lossy str_len_def utf8_enc_def from_utf8_lossy.simps(2) utf8_next.simps(2))
qed

end
