(* ===== verification/Edge_Buffer.thy ===== *)
theory Edge_Buffer
  imports Text
begin

text \<open>
  \<open>communication/edge_buffer.rs\<close>: the queue of data not yet delivered, in memory with a byte budget
  and, where a database is configured, on disk. The database table is a list of rows in the order of
  insertion, and each SQL statement of the source a function on it; rows that \<open>ORDER BY\<close> leaves
  equal stay in that order. Whether a statement succeeds, the clocks and whether a lock is free are
  arguments. \<open>bincode\<close> is a parameter, \<open>bincode_ok\<close> its documented round trip.
\<close>

section \<open>Data\<close>

datatype DataType = Metrics | Traces | Events | NetworkEvents

definition DataType_as_str :: "DataType \<Rightarrow> rstring" where
  "DataType_as_str t =
     (case t of Metrics \<Rightarrow> lit ''metrics'' | Traces \<Rightarrow> lit ''traces'' | Events \<Rightarrow> lit ''events''
      | NetworkEvents \<Rightarrow> lit ''network_events'')"

definition DataType_from_str :: "rstring \<Rightarrow> DataType option" where
  "DataType_from_str s =
     (if s = lit ''metrics'' then Some Metrics else if s = lit ''traces'' then Some Traces
      else if s = lit ''events'' then Some Events else if s = lit ''network_events'' then Some NetworkEvents
      else None)"

record BufferEntry =
  be_sequence_number :: u64
  be_created_at :: nat
  be_data :: bytes
  be_data_type :: DataType
  be_sqlite_row_id :: "int option"

text \<open>Sizes are \<open>usize\<close>, durations nanoseconds.\<close>

record EdgeBufferConfig =
  ec_max_memory_bytes :: u64
  ec_max_entries :: u64
  ec_entry_ttl :: nat
  ec_disk_spill_dir :: rstring
  ec_disk_spill_enabled :: bool
  ec_max_disk_bytes :: u64
  ec_sqlite_path :: "rstring option"

definition EdgeBufferConfig_default :: EdgeBufferConfig where
  "EdgeBufferConfig_default =
     \<lparr>ec_max_memory_bytes = 100 * 1024 * 1024, ec_max_entries = 100000, ec_entry_ttl = 24 * 60 * 60 * 10 ^ 9,
      ec_disk_spill_dir = lit ''/tmp/paryty-edge-buffer'', ec_disk_spill_enabled = True,
      ec_max_disk_bytes = 1024 * 1024 * 1024, ec_sqlite_path = None\<rparr>"

record BufferMetrics =
  bm_entries_written :: u64
  bm_entries_read :: u64
  bm_entries_evicted :: u64
  bm_entries_disk_spilled :: u64
  bm_current_memory_bytes :: u64
  bm_current_entry_count :: u64
  bm_disk_bytes_used :: u64
  bm_entries_spilled_sqlite :: u64
  bm_entries_drained_sqlite :: u64

definition BufferMetrics_default :: BufferMetrics where
  "BufferMetrics_default =
     \<lparr>bm_entries_written = 0, bm_entries_read = 0, bm_entries_evicted = 0, bm_entries_disk_spilled = 0,
      bm_current_memory_bytes = 0, bm_current_entry_count = 0, bm_disk_bytes_used = 0,
      bm_entries_spilled_sqlite = 0, bm_entries_drained_sqlite = 0\<rparr>"

text \<open>A row of the table \<open>buffer\<close>, and the table with its AUTOINCREMENT counter.\<close>

record row =
  rw_id :: int
  rw_data_type :: rstring
  rw_data :: bytes
  rw_priority :: int
  rw_retry_count :: int
  rw_created_at :: int
  rw_sent_at :: "int option"

record sqlite =
  sq_rows :: "row list"
  sq_next_id :: int

record bincode =
  bc_serialize :: "u64 \<times> bytes \<Rightarrow> bytes option"
  bc_deserialize :: "bytes \<Rightarrow> (u64 \<times> bytes) option"

definition bincode_ok :: "bincode \<Rightarrow> bool" where
  "bincode_ok b \<longleftrightarrow> (\<forall>x blob. bc_serialize b x = Some blob \<longrightarrow> bc_deserialize b blob = Some x)"

record EdgeBuffer =
  eb_config :: EdgeBufferConfig
  eb_buffer :: "BufferEntry list"
  eb_memory_usage :: u64
  eb_sequence_counter :: u64
  eb_metrics :: BufferMetrics
  eb_running :: bool
  eb_db :: "sqlite option"

text \<open>\<open>init_sqlite\<close> opens the database of a path, or fails.\<close>

definition EdgeBuffer_new :: "(rstring \<Rightarrow> sqlite option) \<Rightarrow> EdgeBufferConfig \<Rightarrow> EdgeBuffer" where
  "EdgeBuffer_new init_sqlite config =
     \<lparr>eb_config = config, eb_buffer = [], eb_memory_usage = 0, eb_sequence_counter = 1,
      eb_metrics = BufferMetrics_default, eb_running = True,
      eb_db = Option.bind (ec_sqlite_path config) init_sqlite\<rparr>"

definition SQLITE_DRAIN_BATCH_SIZE :: nat where
  "SQLITE_DRAIN_BATCH_SIZE = 1000"

section \<open>SQL\<close>

definition sql_insert :: "DataType \<Rightarrow> bytes \<Rightarrow> int \<Rightarrow> sqlite \<Rightarrow> sqlite" where
  "sql_insert t blob now db =
     db\<lparr>sq_rows := sq_rows db @ [\<lparr>rw_id = sq_next_id db, rw_data_type = DataType_as_str t, rw_data = blob,
          rw_priority = 2, rw_retry_count = 0, rw_created_at = now, rw_sent_at = None\<rparr>],
        sq_next_id := sq_next_id db + 1\<rparr>"

definition sql_delete_expired :: "int \<Rightarrow> sqlite \<Rightarrow> nat \<times> sqlite" where
  "sql_delete_expired cutoff db =
     (length (filter (\<lambda>r. rw_created_at r < cutoff) (sq_rows db)),
      db\<lparr>sq_rows := filter (\<lambda>r. \<not> rw_created_at r < cutoff) (sq_rows db)\<rparr>)"

definition sql_pending :: "sqlite \<Rightarrow> row list" where
  "sql_pending db =
     take SQLITE_DRAIN_BATCH_SIZE
       (sort_key (\<lambda>r. rw_priority r) (sort_key (\<lambda>r. rw_created_at r) (filter (\<lambda>r. rw_sent_at r = None) (sq_rows db))))"

definition sql_update :: "int \<Rightarrow> (row \<Rightarrow> row) \<Rightarrow> sqlite \<Rightarrow> sqlite" where
  "sql_update row_id f db = db\<lparr>sq_rows := map (\<lambda>r. if rw_id r = row_id then f r else r) (sq_rows db)\<rparr>"

section \<open>Eviction\<close>

definition entry_size :: "BufferEntry \<Rightarrow> nat" where
  "entry_size e = length (be_data e)"

text \<open>Taking one entry out of memory; the accounting both evictions share.\<close>

definition forget :: "BufferEntry \<Rightarrow> EdgeBuffer \<Rightarrow> EdgeBuffer" where
  "forget e st =
     st\<lparr>eb_buffer := tl (eb_buffer st),
        eb_memory_usage := eb_memory_usage st - of_nat (entry_size e),
        eb_metrics := (eb_metrics st)\<lparr>bm_entries_evicted := bm_entries_evicted (eb_metrics st) + 1,
          bm_current_entry_count := bm_current_entry_count (eb_metrics st) - 1\<rparr>\<rparr>"

definition evict_oldest :: "EdgeBuffer \<Rightarrow> bool \<times> EdgeBuffer" where
  "evict_oldest st = (case eb_buffer st of [] \<Rightarrow> (False, st) | e # _ \<Rightarrow> (True, forget e st))"

lemma forget_shrinks [simp]: "eb_buffer (forget e st) = tl (eb_buffer st)"
  by (simp add: forget_def)

function evict_until :: "u64 \<Rightarrow> EdgeBuffer \<Rightarrow> EdgeBuffer" where
  "evict_until sz st =
     (if eb_memory_usage st + sz > ec_max_memory_bytes (eb_config st)
      then (let (evicted, st') = evict_oldest st in if \<not> evicted then st' else evict_until sz st')
      else st)"
  by pat_completeness auto
termination
  by (relation "measure (\<lambda>(sz, st). length (eb_buffer st))") (auto simp: evict_oldest_def split: list.splits)

function evict_expired_memory :: "nat \<Rightarrow> EdgeBuffer \<Rightarrow> EdgeBuffer" where
  "evict_expired_memory now st =
     (case eb_buffer st of
        [] \<Rightarrow> st
      | e # _ \<Rightarrow> if now - be_created_at e > ec_entry_ttl (eb_config st) then evict_expired_memory now (forget e st) else st)"
  by pat_completeness auto
termination
  by (relation "measure (\<lambda>(now, st). length (eb_buffer st))") auto

declare evict_until.simps [simp del] evict_expired_memory.simps [simp del]

text \<open>\<open>i64::saturating_sub\<close>.\<close>

definition saturating_sub :: "int \<Rightarrow> int \<Rightarrow> int" where
  "saturating_sub a b = max (- (2 ^ 63)) (min (2 ^ 63 - 1) (a - b))"

definition evict_expired_sqlite :: "int \<Rightarrow> bool \<Rightarrow> EdgeBuffer \<Rightarrow> EdgeBuffer" where
  "evict_expired_sqlite epoch ok st =
     (case eb_db st of
        None \<Rightarrow> st
      | Some db \<Rightarrow>
          (let cutoff = saturating_sub epoch (sint (of_nat (ec_entry_ttl (eb_config st) div 10 ^ 9) :: 64 word)) in
           if \<not> ok then st
           else
             (let (deleted, db') = sql_delete_expired cutoff db in
              st\<lparr>eb_db := Some db',
                 eb_metrics := (eb_metrics st)\<lparr>bm_entries_evicted := bm_entries_evicted (eb_metrics st) + of_nat deleted\<rparr>\<rparr>)))"

definition evict_expired :: "nat \<Rightarrow> int \<Rightarrow> bool \<Rightarrow> EdgeBuffer \<Rightarrow> EdgeBuffer" where
  "evict_expired now epoch ok st = evict_expired_sqlite epoch ok (evict_expired_memory now st)"

section \<open>Writing\<close>

text \<open>What a write reads from its surroundings: the clocks, and whether the two statements succeed.\<close>

record write_env =
  we_created :: nat
  we_now :: nat
  we_evict_epoch :: int
  we_evict_ok :: bool
  we_spill_epoch :: int
  we_spill_ok :: bool

definition spill_to_sqlite :: "bincode \<Rightarrow> write_env \<Rightarrow> BufferEntry \<Rightarrow> sqlite \<Rightarrow> sqlite option" where
  "spill_to_sqlite bc env e db =
     (case bc_serialize bc (be_sequence_number e, be_data e) of
        None \<Rightarrow> None
      | Some blob \<Rightarrow> if we_spill_ok env then Some (sql_insert (be_data_type e) blob (we_spill_epoch env) db) else None)"

definition push_entry :: "BufferEntry \<Rightarrow> EdgeBuffer \<Rightarrow> EdgeBuffer" where
  "push_entry e st =
     (let usage = eb_memory_usage st + of_nat (entry_size e) in
      st\<lparr>eb_buffer := eb_buffer st @ [e], eb_memory_usage := usage,
         eb_metrics := (eb_metrics st)\<lparr>bm_entries_written := bm_entries_written (eb_metrics st) + 1,
           bm_current_memory_bytes := usage, bm_current_entry_count := bm_current_entry_count (eb_metrics st) + 1\<rparr>\<rparr>)"

definition buffer_write :: "bincode \<Rightarrow> write_env \<Rightarrow> bytes \<Rightarrow> DataType \<Rightarrow> EdgeBuffer \<Rightarrow> u64 \<times> EdgeBuffer" where
  "buffer_write bc env data t st =
     (let seq = eb_sequence_counter st;
          st = st\<lparr>eb_sequence_counter := seq + 1\<rparr>;
          e = \<lparr>be_sequence_number = seq, be_created_at = we_created env, be_data = data, be_data_type = t, be_sqlite_row_id = None\<rparr>;
          sz = of_nat (entry_size e);
          st = evict_expired (we_now env) (we_evict_epoch env) (we_evict_ok env) st
      in if eb_memory_usage st + sz > ec_max_memory_bytes (eb_config st)
         then
           (case Option.bind (eb_db st) (spill_to_sqlite bc env e) of
              Some db \<Rightarrow>
                (seq, st\<lparr>eb_db := Some db,
                   eb_metrics := (eb_metrics st)\<lparr>bm_entries_spilled_sqlite := bm_entries_spilled_sqlite (eb_metrics st) + 1,
                     bm_entries_written := bm_entries_written (eb_metrics st) + 1\<rparr>\<rparr>)
            | None \<Rightarrow> (seq, push_entry e (evict_until sz st)))
         else (seq, push_entry e st))"

section \<open>Reading\<close>

definition data_size :: "BufferEntry list \<Rightarrow> nat" where
  "data_size es = sum_list (map entry_size es)"

definition read_entries :: "nat \<Rightarrow> EdgeBuffer \<Rightarrow> BufferEntry list \<times> EdgeBuffer" where
  "read_entries count st =
     (let n = min count (length (eb_buffer st));
          entries = take n (eb_buffer st);
          usage = eb_memory_usage st - of_nat (data_size entries)
      in (entries, st\<lparr>eb_buffer := drop n (eb_buffer st), eb_memory_usage := usage,
            eb_metrics := (eb_metrics st)\<lparr>bm_entries_read := bm_entries_read (eb_metrics st) + of_nat (length entries),
              bm_current_memory_bytes := usage,
              bm_current_entry_count := bm_current_entry_count (eb_metrics st) - of_nat (length entries)\<rparr>\<rparr>))"

definition peek :: "nat \<Rightarrow> EdgeBuffer \<Rightarrow> BufferEntry list" where
  "peek count st = take count (eb_buffer st)"

definition buffer_len :: "EdgeBuffer \<Rightarrow> nat" where
  "buffer_len st = length (eb_buffer st)"

definition buffer_is_empty :: "EdgeBuffer \<Rightarrow> bool" where
  "buffer_is_empty st \<longleftrightarrow> eb_buffer st = []"

text \<open>A row that cannot be deserialised makes the whole drain of the table fail.\<close>

definition entry_of_row :: "bincode \<Rightarrow> nat \<Rightarrow> row \<Rightarrow> BufferEntry option" where
  "entry_of_row bc now r =
     (case bc_deserialize bc (rw_data r) of
        None \<Rightarrow> None
      | Some (seq, data) \<Rightarrow>
          Some \<lparr>be_sequence_number = seq, be_created_at = now, be_data = data,
            be_data_type = (case DataType_from_str (rw_data_type r) of Some t \<Rightarrow> t | None \<Rightarrow> Metrics),
            be_sqlite_row_id = Some (rw_id r)\<rparr>)"

definition drain_sqlite_pending :: "bincode \<Rightarrow> nat \<Rightarrow> bool \<Rightarrow> sqlite \<Rightarrow> BufferEntry list option" where
  "drain_sqlite_pending bc now ok db = (if ok then those (map (entry_of_row bc now) (sql_pending db)) else None)"

definition drain :: "bincode \<Rightarrow> nat \<Rightarrow> bool \<Rightarrow> EdgeBuffer \<Rightarrow> BufferEntry list \<times> EdgeBuffer" where
  "drain bc now ok st =
     (let entries = eb_buffer st;
          st = st\<lparr>eb_buffer := [], eb_memory_usage := eb_memory_usage st - of_nat (data_size entries),
            eb_metrics := (eb_metrics st)\<lparr>bm_entries_read := bm_entries_read (eb_metrics st) + of_nat (length entries),
              bm_current_memory_bytes := 0, bm_current_entry_count := 0\<rparr>\<rparr>
      in case Option.bind (eb_db st) (drain_sqlite_pending bc now ok) of
           None \<Rightarrow> (entries, st)
         | Some rows \<Rightarrow>
             (entries @ rows,
              st\<lparr>eb_metrics := (eb_metrics st)\<lparr>bm_entries_drained_sqlite :=
                   bm_entries_drained_sqlite (eb_metrics st) + of_nat (length rows)\<rparr>\<rparr>))"

definition drain_by_type :: "DataType \<Rightarrow> EdgeBuffer \<Rightarrow> BufferEntry list \<times> EdgeBuffer" where
  "drain_by_type t st =
     (let entries = filter (\<lambda>e. be_data_type e = t) (eb_buffer st) in
      (entries,
       st\<lparr>eb_buffer := filter (\<lambda>e. be_data_type e \<noteq> t) (eb_buffer st),
          eb_memory_usage := eb_memory_usage st - of_nat (data_size entries),
          eb_metrics := (eb_metrics st)\<lparr>bm_entries_read := bm_entries_read (eb_metrics st) + of_nat (length entries),
            bm_current_entry_count := bm_current_entry_count (eb_metrics st) - of_nat (length entries)\<rparr>\<rparr>))"

text \<open>Whether \<open>try_write\<close> gets the lock, and whether the statement succeeds, are arguments.\<close>

definition delete_all_backlog :: "bool \<Rightarrow> bool \<Rightarrow> EdgeBuffer \<Rightarrow> EdgeBuffer" where
  "delete_all_backlog lock_free ok st =
     (let drained = (if lock_free then length (eb_buffer st) else 0);
          st = (if lock_free then st\<lparr>eb_buffer := []\<rparr> else st);
          st = (if drained > 0
                then st\<lparr>eb_memory_usage := 0, eb_metrics := (eb_metrics st)\<lparr>bm_current_entry_count := 0\<rparr>\<rparr>
                else st)
      in st\<lparr>eb_db := map_option (\<lambda>db. if ok then db\<lparr>sq_rows := []\<rparr> else db) (eb_db st)\<rparr>)"

section \<open>Acknowledgement and inspection\<close>

text \<open>None: an error (no database, or the statement failed).\<close>

definition mark_sent :: "int \<Rightarrow> bool \<Rightarrow> int \<Rightarrow> EdgeBuffer \<Rightarrow> EdgeBuffer option" where
  "mark_sent now ok row_id st =
     (case eb_db st of
        None \<Rightarrow> None
      | Some db \<Rightarrow> if ok then Some (st\<lparr>eb_db := Some (sql_update row_id (\<lambda>r. r\<lparr>rw_sent_at := Some now\<rparr>) db)\<rparr>) else None)"

definition mark_retry :: "bool \<Rightarrow> int \<Rightarrow> EdgeBuffer \<Rightarrow> EdgeBuffer option" where
  "mark_retry ok row_id st =
     (case eb_db st of
        None \<Rightarrow> None
      | Some db \<Rightarrow>
          if ok then Some (st\<lparr>eb_db := Some (sql_update row_id (\<lambda>r. r\<lparr>rw_retry_count := rw_retry_count r + 1\<rparr>) db)\<rparr>) else None)"

definition unsent :: "sqlite \<Rightarrow> row list" where
  "unsent db = filter (\<lambda>r. rw_sent_at r = None) (sq_rows db)"

definition sqlite_pending_count :: "bool \<Rightarrow> EdgeBuffer \<Rightarrow> nat option" where
  "sqlite_pending_count ok st =
     (case eb_db st of None \<Rightarrow> Some 0 | Some db \<Rightarrow> if ok then Some (length (unsent db)) else None)"

definition persistent_size :: "bool \<Rightarrow> EdgeBuffer \<Rightarrow> u64" where
  "persistent_size ok st =
     (case eb_db st of
        None \<Rightarrow> 0
      | Some db \<Rightarrow> if ok then of_nat (sum_list (map (\<lambda>r. length (rw_data r)) (unsent db))) else 0)"

definition oldest_entry_timestamp :: "bool \<Rightarrow> EdgeBuffer \<Rightarrow> int" where
  "oldest_entry_timestamp ok st =
     (case eb_db st of
        None \<Rightarrow> 0
      | Some db \<Rightarrow>
          if \<not> ok then 0
          else (case map rw_created_at (unsent db) of [] \<Rightarrow> 0 | t # ts \<Rightarrow> fold min ts t))"

definition shutdown :: "EdgeBuffer \<Rightarrow> EdgeBuffer" where
  "shutdown st = st\<lparr>eb_running := False\<rparr>"

end
