(* ===== verification/Edge_Spec.thy ===== *)
theory Edge_Spec
  imports Edge_Buffer Keyed_Table
begin

text \<open>
  What the edge buffer promises. Both evictions forget a prefix of the memory queue; from this the
  accounting of bytes and entries, the byte budget, the balance of the counters and the order of
  what is read follow for all sequences of operations. Entries spilled to the database come back
  until they are acknowledged.
\<close>

section \<open>Forgetting a prefix\<close>

definition forget_n :: "nat \<Rightarrow> EdgeBuffer \<Rightarrow> EdgeBuffer" where
  "forget_n n st =
     st\<lparr>eb_buffer := drop n (eb_buffer st),
        eb_memory_usage := eb_memory_usage st - of_nat (data_size (take n (eb_buffer st))),
        eb_metrics := (eb_metrics st)\<lparr>bm_entries_evicted := bm_entries_evicted (eb_metrics st) + of_nat n,
          bm_current_entry_count := bm_current_entry_count (eb_metrics st) - of_nat n\<rparr>\<rparr>"

lemma data_size_simps [simp]:
  "data_size [] = 0" "data_size (e # es) = entry_size e + data_size es"
  "data_size (es @ fs) = data_size es + data_size fs"
  by (simp_all add: data_size_def)

lemma forget_n_0: "forget_n 0 st = st"
  by (simp add: forget_n_def)

lemma forget_n_Suc: "eb_buffer st = e # es \<Longrightarrow> forget_n n (forget e st) = forget_n (Suc n) st"
  by (simp add: forget_n_def forget_def)

lemma forgets_next:
  assumes "eb_buffer st = e # es" "n \<le> length (eb_buffer (forget e st))" "st' = forget_n n (forget e st)"
  shows "\<exists>n \<le> length (eb_buffer st). st' = forget_n n st"
  using assms forget_n_Suc [OF assms(1)] by (intro exI [of _ "Suc n"]) simp

text \<open>The two loops, one round at a time.\<close>

definition over_budget :: "u64 \<Rightarrow> EdgeBuffer \<Rightarrow> bool" where
  "over_budget sz st \<longleftrightarrow> eb_memory_usage st + sz > ec_max_memory_bytes (eb_config st)"

lemma evict_until_round:
  "eb_buffer st = e # es \<Longrightarrow> over_budget sz st \<Longrightarrow> evict_until sz st = evict_until sz (forget e st)"
  "eb_buffer st = [] \<or> \<not> over_budget sz st \<Longrightarrow> evict_until sz st = st"
  by (auto simp: over_budget_def evict_until.simps [of sz st] evict_oldest_def)

lemma evict_expired_round:
  "eb_buffer st = e # es \<Longrightarrow> now - be_created_at e > ec_entry_ttl (eb_config st) \<Longrightarrow>
     evict_expired_memory now st = evict_expired_memory now (forget e st)"
  "eb_buffer st = [] \<Longrightarrow> evict_expired_memory now st = st"
  "eb_buffer st = e # es \<Longrightarrow> \<not> now - be_created_at e > ec_entry_ttl (eb_config st) \<Longrightarrow> evict_expired_memory now st = st"
  by (auto simp: evict_expired_memory.simps [of now st])

lemma forgets_none: "st' = st \<Longrightarrow> \<exists>n \<le> length (eb_buffer st). st' = forget_n n st"
  using forget_n_0 by (intro exI [of _ 0]) simp

lemma evict_until_forgets: "\<exists>n \<le> length (eb_buffer st). evict_until sz st = forget_n n st"
proof (induction "eb_buffer st" arbitrary: st)
  case Nil
  then show ?case by (intro forgets_none evict_until_round(2)) simp
next
  case (Cons e es)
  show ?case
  proof (cases "over_budget sz st")
    case True
    have "es = eb_buffer (forget e st)" using Cons.hyps(2) by (metis forget_shrinks list.sel(3))
    from Cons.hyps(1) [OF this] show ?thesis
      using forgets_next Cons.hyps(2) evict_until_round(1) [OF _ True] by metis
  qed (simp add: forgets_none evict_until_round(2))
qed

lemma evict_expired_forgets: "\<exists>n \<le> length (eb_buffer st). evict_expired_memory now st = forget_n n st"
proof (induction "eb_buffer st" arbitrary: st)
  case Nil
  then show ?case by (intro forgets_none evict_expired_round(2)) simp
next
  case (Cons e es)
  show ?case
  proof (cases "now - be_created_at e > ec_entry_ttl (eb_config st)")
    case True
    have "es = eb_buffer (forget e st)" using Cons.hyps(2) by (metis forget_shrinks list.sel(3))
    from Cons.hyps(1) [OF this] show ?thesis
      using forgets_next Cons.hyps(2) evict_expired_round(1) [OF _ True] by metis
  qed (rule forgets_none, rule evict_expired_round(3) [OF Cons.hyps(2) [symmetric]])
qed

text \<open>The loop that makes room ends with room or with an empty queue.\<close>

lemma evict_until_room: "\<not> over_budget sz (evict_until sz st) \<or> eb_buffer (evict_until sz st) = []"
proof (induction "eb_buffer st" arbitrary: st)
  case Nil
  then show ?case by (simp add: evict_until_round(2))
next
  case (Cons e es)
  show ?case
  proof (cases "over_budget sz st")
    case True
    have "es = eb_buffer (forget e st)" using Cons.hyps(2) by (metis forget_shrinks list.sel(3))
    from Cons.hyps(1) [OF this] show ?thesis using evict_until_round(1) [OF Cons.hyps(2) [symmetric] True] by simp
  qed (simp add: evict_until_round(2))
qed

text \<open>A write: expiry first, then into memory or, when there is no room, to the database.\<close>

definition after_expiry :: "write_env \<Rightarrow> EdgeBuffer \<Rightarrow> EdgeBuffer" where
  "after_expiry env st = evict_expired (we_now env) (we_evict_epoch env) (we_evict_ok env)
     (st\<lparr>eb_sequence_counter := eb_sequence_counter st + 1\<rparr>)"

definition new_entry :: "write_env \<Rightarrow> bytes \<Rightarrow> DataType \<Rightarrow> EdgeBuffer \<Rightarrow> BufferEntry" where
  "new_entry env data t st = \<lparr>be_sequence_number = eb_sequence_counter st, be_created_at = we_created env, be_data = data,
     be_data_type = t, be_sqlite_row_id = None\<rparr>"

definition spilled :: "sqlite \<Rightarrow> EdgeBuffer \<Rightarrow> EdgeBuffer" where
  "spilled db st = st\<lparr>eb_db := Some db, eb_metrics := (eb_metrics st)\<lparr>
     bm_entries_spilled_sqlite := bm_entries_spilled_sqlite (eb_metrics st) + 1,
     bm_entries_written := bm_entries_written (eb_metrics st) + 1\<rparr>\<rparr>"

lemma new_entry_size [simp]: "entry_size (new_entry env data t st) = length data"
  by (simp add: new_entry_def entry_size_def)

lemma buffer_write_eq:
  "buffer_write bc env data t st = (eb_sequence_counter st,
     let e = new_entry env data t st; st1 = after_expiry env st in
     if over_budget (of_nat (length data)) st1
     then (case Option.bind (eb_db st1) (spill_to_sqlite bc env e) of
        Some db \<Rightarrow> spilled db st1
      | None \<Rightarrow> push_entry e (evict_until (of_nat (length data)) st1))
     else push_entry e st1)"
  by (simp add: buffer_write_def Let_def new_entry_def after_expiry_def over_budget_def spilled_def entry_size_def
      split: option.splits)

section \<open>Operations\<close>

datatype buffer_op =
    Write write_env bytes DataType
  | Read nat
  | Drain nat bool
  | Drain_type DataType
  | Delete_backlog bool bool
  | Mark_sent int bool int
  | Mark_retry bool int

definition unless_failed :: "('s \<Rightarrow> 's option) \<Rightarrow> 's \<Rightarrow> 's" where
  "unless_failed f st = (case f st of Some st' \<Rightarrow> st' | None \<Rightarrow> st)"

fun buffer_step :: "bincode \<Rightarrow> buffer_op \<Rightarrow> EdgeBuffer \<Rightarrow> BufferEntry list \<times> EdgeBuffer" where
  "buffer_step bc (Write env data t) st = ([], snd (buffer_write bc env data t st))"
| "buffer_step bc (Read n) st = read_entries n st"
| "buffer_step bc (Drain now ok) st = drain bc now ok st"
| "buffer_step bc (Drain_type t) st = drain_by_type t st"
| "buffer_step bc (Delete_backlog free ok) st = ([], delete_all_backlog free ok st)"
| "buffer_step bc (Mark_sent now ok i) st = ([], unless_failed (mark_sent now ok i) st)"
| "buffer_step bc (Mark_retry ok i) st = ([], unless_failed (mark_retry ok i) st)"

section \<open>Accounting\<close>

definition accounted :: "EdgeBuffer \<Rightarrow> bool" where
  "accounted st \<longleftrightarrow> eb_memory_usage st = of_nat (data_size (eb_buffer st)) \<and>
     bm_current_entry_count (eb_metrics st) = of_nat (length (eb_buffer st))"

named_theorems edge_ops \<open>operations of the buffer as updates of its state\<close>

lemma data_size_split: "data_size (take n es) + data_size (drop n es) = data_size es"
  by (metis append_take_drop_id data_size_simps(3))

lemma data_size_filter: "data_size (filter P es) + data_size (filter (\<lambda>e. \<not> P e) es) = data_size es"
  by (induction es) auto

lemma data_size_le [simp]: "data_size (drop n es) \<le> data_size es" "data_size (filter P es) \<le> data_size es"
  using data_size_split [of n es] data_size_filter [of P es] by simp_all

lemma of_nat_diff_word: "a + b = c \<Longrightarrow> (of_nat c :: u64) - of_nat a = of_nat b"
  by auto

lemma accounted_forget_n:
  assumes "accounted st" "n \<le> length (eb_buffer st)"
  shows "accounted (forget_n n st)"
  using assms of_nat_diff_word [OF data_size_split [of n "eb_buffer st"]]
    of_nat_diff_word [of n "length (eb_buffer st) - n" "length (eb_buffer st)"]
  by (simp add: accounted_def forget_n_def)

lemma accounted_evict_until: "accounted st \<Longrightarrow> accounted (evict_until sz st)"
  using evict_until_forgets [of st sz] accounted_forget_n by metis

lemma accounted_evict_expired: "accounted st \<Longrightarrow> accounted (evict_expired now epoch ok st)"
proof -
  assume "accounted st"
  then have "accounted (evict_expired_memory now st)" using evict_expired_forgets [of st now] accounted_forget_n by metis
  then show ?thesis
    by (auto simp: evict_expired_def evict_expired_sqlite_def accounted_def Let_def split: option.splits prod.splits)
qed

lemma accounted_push: "accounted st \<Longrightarrow> accounted (push_entry e st)"
  by (simp add: accounted_def push_entry_def Let_def)

lemma accounted_write:
  assumes "accounted st"
  shows "accounted (snd (buffer_write bc env data t st))"
proof -
  have "accounted (after_expiry env st)"
    using assms unfolding after_expiry_def by (intro accounted_evict_expired) (simp add: accounted_def)
  moreover from this have "accounted (spilled db (after_expiry env st))" for db by (simp add: accounted_def spilled_def)
  ultimately show ?thesis
    by (simp add: buffer_write_eq Let_def accounted_push accounted_evict_until split: option.splits)
qed

lemma accounted_step: "accounted st \<Longrightarrow> accounted (snd (buffer_step bc op st))"
proof (cases op)
  case (Read n)
  assume "accounted st"
  then show ?thesis
    using Read of_nat_diff_word [OF data_size_split [of "min n (length (eb_buffer st))" "eb_buffer st"]]
      of_nat_diff_word [of "min n (length (eb_buffer st))" "length (eb_buffer st) - min n (length (eb_buffer st))" "length (eb_buffer st)"]
    by (simp add: read_entries_def accounted_def Let_def)
next
  case (Drain_type t)
  assume "accounted st"
  then show ?thesis
    using Drain_type of_nat_diff_word [OF data_size_filter [of "\<lambda>e. be_data_type e = t" "eb_buffer st"]]
      of_nat_diff_word [OF sum_length_filter_compl [of "\<lambda>e. be_data_type e = t" "eb_buffer st"]]
    by (simp add: drain_by_type_def accounted_def Let_def)
next
  case (Write env data t)
  assume "accounted st"
  then show ?thesis using Write accounted_write by simp
qed (auto simp: drain_def delete_all_backlog_def unless_failed_def mark_sent_def mark_retry_def
    accounted_def Let_def split: option.splits)

section \<open>The byte budget\<close>

definition within :: "EdgeBuffer \<Rightarrow> bool" where
  "within st \<longleftrightarrow> data_size (eb_buffer st) \<le> unat (ec_max_memory_bytes (eb_config st)) \<or> length (eb_buffer st) = 1"

text \<open>Sizes so small that no sum wraps.\<close>

definition small :: "EdgeBuffer \<Rightarrow> bool" where
  "small st \<longleftrightarrow> unat (ec_max_memory_bytes (eb_config st)) < 2 ^ 62 \<and> list_all (\<lambda>e. entry_size e < 2 ^ 62) (eb_buffer st)"

definition budgeted :: "EdgeBuffer \<Rightarrow> bool" where
  "budgeted st \<longleftrightarrow> accounted st \<and> within st \<and> small st"

lemma budgeted_size: "budgeted st \<Longrightarrow> data_size (eb_buffer st) < 2 ^ 62"
  by (cases "eb_buffer st") (auto simp: budgeted_def within_def small_def)

lemma over_budget_nat:
  assumes "budgeted st" "k < 2 ^ 62"
  shows "over_budget (of_nat k) st \<longleftrightarrow> data_size (eb_buffer st) + k > unat (ec_max_memory_bytes (eb_config st))"
proof -
  have "data_size (eb_buffer st) + k < 2 ^ 64" using budgeted_size [OF assms(1)] assms(2) by simp
  then have "unat (of_nat (data_size (eb_buffer st) + k) :: u64) = data_size (eb_buffer st) + k"
    by (simp del: of_nat_add add: unat_of_nat)
  moreover have "eb_memory_usage st + of_nat k = of_nat (data_size (eb_buffer st) + k)"
    using assms(1) by (simp add: budgeted_def accounted_def)
  ultimately show ?thesis by (simp add: over_budget_def word_less_nat_alt)
qed

lemma budgeted_keeps:
  assumes "budgeted st" "accounted st'" "eb_config st' = eb_config st" "data_size (eb_buffer st') \<le> data_size (eb_buffer st)"
    "length (eb_buffer st') \<le> length (eb_buffer st)" "set (eb_buffer st') \<subseteq> set (eb_buffer st)"
  shows "budgeted st'"
proof -
  have "length (eb_buffer st') = 0 \<or> length (eb_buffer st') = 1 \<or> length (eb_buffer st) > 1"
    using assms(5) by linarith
  then have "within st'" using assms unfolding budgeted_def within_def by auto
  moreover have "small st'" using assms by (auto simp: budgeted_def small_def list_all_iff)
  ultimately show ?thesis using assms(2) by (simp add: budgeted_def)
qed

lemma budgeted_forget_n: "budgeted st \<Longrightarrow> n \<le> length (eb_buffer st) \<Longrightarrow> budgeted (forget_n n st)"
  using accounted_forget_n [of st n]
  by (rule_tac budgeted_keeps [of st]) (auto simp: budgeted_def, auto simp: forget_n_def dest: in_set_dropD)

lemma budgeted_evict_until: "budgeted st \<Longrightarrow> budgeted (evict_until sz st)"
  using evict_until_forgets [of st sz] budgeted_forget_n by metis

lemma budgeted_evict_expired: "budgeted st \<Longrightarrow> budgeted (evict_expired now epoch ok st)"
proof -
  assume b: "budgeted st"
  then have "budgeted (evict_expired_memory now st)" using evict_expired_forgets [of st now] budgeted_forget_n by metis
  then show ?thesis using accounted_evict_expired b
    by (auto simp: budgeted_def within_def small_def evict_expired_def evict_expired_sqlite_def Let_def
        split: option.splits prod.splits)
qed

lemma budgeted_push:
  assumes "budgeted st" "entry_size e < 2 ^ 62" "\<not> over_budget (of_nat (entry_size e)) st \<or> eb_buffer st = []"
  shows "budgeted (push_entry e st)"
  using assms over_budget_nat [OF assms(1,2)] accounted_push [of st e]
  by (auto simp: budgeted_def within_def small_def push_entry_def Let_def not_less)

lemma budgeted_write:
  assumes "budgeted st" "length data < 2 ^ 62"
  shows "budgeted (snd (buffer_write bc env data t st))"
proof -
  define st1 where "st1 = after_expiry env st"
  have b: "budgeted st1" unfolding st1_def after_expiry_def
    by (rule budgeted_evict_expired) (use assms(1) in \<open>simp add: budgeted_def accounted_def within_def small_def\<close>)
  then have "budgeted (spilled db st1)" for db by (simp add: budgeted_def accounted_def within_def small_def spilled_def)
  moreover have "\<not> over_budget (of_nat (length data)) st1 \<Longrightarrow> budgeted (push_entry (new_entry env data t st) st1)"
    by (rule budgeted_push [OF b]) (use assms(2) in simp_all)
  moreover have "budgeted (push_entry (new_entry env data t st) (evict_until (of_nat (length data)) st1))"
    by (rule budgeted_push [OF budgeted_evict_until [OF b]]) (use assms(2) evict_until_room in simp_all)
  ultimately show ?thesis by (simp add: buffer_write_eq Let_def st1_def [symmetric] split: option.splits)
qed

definition op_small :: "buffer_op \<Rightarrow> bool" where
  "op_small op \<longleftrightarrow> (case op of Write env data t \<Rightarrow> length data < 2 ^ 62 | _ \<Rightarrow> True)"

lemma budgeted_step: "budgeted st \<Longrightarrow> op_small op \<Longrightarrow> budgeted (snd (buffer_step bc op st))"
proof (cases "\<exists>env data t. op = Write env data t")
  case False
  assume b: "budgeted st"
  have a: "accounted (snd (buffer_step bc op st))" using b by (simp add: budgeted_def accounted_step)
  have "set (eb_buffer (snd (buffer_step bc op st))) \<subseteq> set (eb_buffer st) \<and>
      data_size (eb_buffer (snd (buffer_step bc op st))) \<le> data_size (eb_buffer st) \<and>
      length (eb_buffer (snd (buffer_step bc op st))) \<le> length (eb_buffer st) \<and>
      eb_config (snd (buffer_step bc op st)) = eb_config st"
    using False
    by (cases op) (auto simp: read_entries_def drain_def drain_by_type_def delete_all_backlog_def unless_failed_def
        mark_sent_def mark_retry_def Let_def dest: in_set_dropD split: option.splits)
  then show ?thesis using budgeted_keeps [OF b a] by blast
qed (auto simp: op_small_def budgeted_write)

lemma budgeted_new:
  "unat (ec_max_memory_bytes config) < 2 ^ 62 \<Longrightarrow> budgeted (EdgeBuffer_new init config)"
  by (simp add: EdgeBuffer_new_def budgeted_def accounted_def within_def small_def BufferMetrics_default_def)

lemma step_config: "eb_config (snd (buffer_step bc op st)) = eb_config st"
proof (cases op)
  case (Write env data t)
  have e: "eb_config (evict_until sz st') = eb_config st'" for sz st'
    using evict_until_forgets [of st' sz] by (auto simp: forget_n_def)
  have "eb_config (evict_expired_memory now st') = eb_config st'" for now st'
    using evict_expired_forgets [of st' now] by (auto simp: forget_n_def)
  then have "eb_config (after_expiry env st) = eb_config st"
    by (simp add: after_expiry_def evict_expired_def evict_expired_sqlite_def Let_def split: option.splits prod.splits)
  then show ?thesis by (simp add: Write buffer_write_eq Let_def push_entry_def spilled_def e split: option.splits)
qed (simp_all add: read_entries_def drain_def drain_by_type_def delete_all_backlog_def unless_failed_def mark_sent_def
    mark_retry_def Let_def split: option.splits)

lemma new_config [simp]: "eb_config (EdgeBuffer_new init config) = config"
  by (simp add: EdgeBuffer_new_def)

lemma run_keeps:
  assumes "\<And>op st. I st \<Longrightarrow> P op \<Longrightarrow> I (snd (step op st))" "I st" "list_all P ops"
  shows "I (snd (run_outputs step ops st))"
  using assms(2,3)
proof (induction ops arbitrary: st)
  case (Cons op ops)
  have "I (snd (step op st))" using Cons.prems assms(1) by simp
  from Cons.IH [OF this] show ?case using Cons.prems by (simp add: Let_def case_prod_beta)
qed simp

section \<open>The balance of the counters\<close>

text \<open>Without a database, what was written was read, was evicted or is still there.\<close>

definition balanced :: "EdgeBuffer \<Rightarrow> bool" where
  "balanced st \<longleftrightarrow> eb_db st = None \<and>
     bm_entries_written (eb_metrics st) =
       bm_entries_read (eb_metrics st) + bm_entries_evicted (eb_metrics st) + of_nat (length (eb_buffer st))"

lemma balanced_forget_n: "balanced st \<Longrightarrow> n \<le> length (eb_buffer st) \<Longrightarrow> balanced (forget_n n st)"
  using of_nat_diff_word [of n "length (eb_buffer st) - n" "length (eb_buffer st)"]
  by (auto simp: balanced_def forget_n_def)

lemma evict_expired_no_db: "eb_db st = None \<Longrightarrow> evict_expired now epoch ok st = evict_expired_memory now st"
  using evict_expired_forgets [of st now]
  by (auto simp: evict_expired_def evict_expired_sqlite_def forget_n_def split: option.splits)

lemma balanced_evict:
  assumes "balanced st"
  shows "balanced (evict_until sz st)" "balanced (evict_expired now epoch ok st)"
proof -
  show "balanced (evict_until sz st)" using evict_until_forgets [of st sz] balanced_forget_n assms by metis
  have "balanced (evict_expired_memory now st)" using evict_expired_forgets [of st now] balanced_forget_n assms by metis
  then show "balanced (evict_expired now epoch ok st)" using assms by (simp add: evict_expired_no_db balanced_def)
qed

lemma balanced_push: "balanced st \<Longrightarrow> balanced (push_entry e st)"
  by (simp add: balanced_def push_entry_def Let_def)

lemma balanced_write: "balanced st \<Longrightarrow> balanced (snd (buffer_write bc env data t st))"
proof -
  assume "balanced st"
  then have b: "balanced (after_expiry env st)"
    unfolding after_expiry_def by (intro balanced_evict) (simp add: balanced_def)
  then have "eb_db (after_expiry env st) = None" by (simp add: balanced_def)
  then show ?thesis by (simp add: buffer_write_eq Let_def balanced_push balanced_evict b)
qed

definition keeps_backlog :: "buffer_op \<Rightarrow> bool" where
  "keeps_backlog op \<longleftrightarrow> (case op of Delete_backlog _ _ \<Rightarrow> False | _ \<Rightarrow> True)"

lemma balanced_step: "balanced st \<Longrightarrow> keeps_backlog op \<Longrightarrow> balanced (snd (buffer_step bc op st))"
proof (cases op)
  case (Read n)
  assume "balanced st"
  then show ?thesis
    using Read of_nat_diff_word [of "min n (length (eb_buffer st))" "length (eb_buffer st) - min n (length (eb_buffer st))" "length (eb_buffer st)"]
    by (auto simp: read_entries_def balanced_def Let_def)
next
  case (Drain_type t)
  assume "balanced st"
  then show ?thesis
    using Drain_type arg_cong [OF sum_length_filter_compl [of "\<lambda>e. be_data_type e = t" "eb_buffer st"], of "of_nat :: nat \<Rightarrow> u64"]
    by (auto simp: drain_by_type_def balanced_def Let_def)
next
  case (Write env data t)
  assume "balanced st"
  then show ?thesis using Write balanced_write by simp
qed (auto simp: keeps_backlog_def drain_def unless_failed_def mark_sent_def mark_retry_def balanced_def Let_def split: option.splits)

section \<open>First in, first out\<close>

definition entry_content :: "BufferEntry \<Rightarrow> u64 \<times> bytes \<times> DataType" where
  "entry_content e = (be_sequence_number e, be_data e, be_data_type e)"

fun writes :: "buffer_op list \<Rightarrow> (write_env \<times> bytes \<times> DataType) list" where
  "writes [] = []"
| "writes (Write env data t # ops) = (env, data, t) # writes ops"
| "writes (_ # ops) = writes ops"

fun numbered :: "u64 \<Rightarrow> (write_env \<times> bytes \<times> DataType) list \<Rightarrow> (u64 \<times> bytes \<times> DataType) list" where
  "numbered seq [] = []"
| "numbered seq ((env, data, t) # ws) = (seq, data, t) # numbered (seq + 1) ws"

definition in_order :: "buffer_op \<Rightarrow> bool" where
  "in_order op \<longleftrightarrow> (case op of Write _ _ _ \<Rightarrow> True | Read _ \<Rightarrow> True | Drain _ _ \<Rightarrow> True | _ \<Rightarrow> False)"

definition write_total :: "buffer_op list \<Rightarrow> nat" where
  "write_total ops = sum_list (map (\<lambda>(env, data, t). length data) (writes ops))"

text \<open>No write comes so late that an entry created before has expired.\<close>

definition none_expires :: "nat \<Rightarrow> nat list \<Rightarrow> buffer_op list \<Rightarrow> bool" where
  "none_expires ttl created ops \<longleftrightarrow>
     list_all (\<lambda>(env, _). list_all (\<lambda>c. we_now env - c \<le> ttl) (created @ map (\<lambda>(env', _). we_created env') (writes ops))) (writes ops)"

lemma expires_nothing:
  assumes "list_all (\<lambda>e. now - be_created_at e \<le> ec_entry_ttl (eb_config st)) (eb_buffer st)" "eb_db st = None"
  shows "evict_expired now epoch ok st = st"
  using assms evict_expired_round(2) [of st now] evict_expired_round(3) [of st _ _ now]
  by (cases "eb_buffer st") (auto simp: evict_expired_no_db)

definition lossless :: "EdgeBuffer \<Rightarrow> buffer_op list \<Rightarrow> bool" where
  "lossless st ops \<longleftrightarrow> eb_db st = None \<and> accounted st \<and> unat (ec_max_memory_bytes (eb_config st)) < 2 ^ 62 \<and>
     data_size (eb_buffer st) + write_total ops \<le> unat (ec_max_memory_bytes (eb_config st)) \<and>
     none_expires (ec_entry_ttl (eb_config st)) (map be_created_at (eb_buffer st)) ops"

lemma write_lossless:
  assumes "lossless st (Write env data t # ops)"
  shows "snd (buffer_write bc env data t st) =
      push_entry (new_entry env data t st) (st\<lparr>eb_sequence_counter := eb_sequence_counter st + 1\<rparr>)"
proof -
  let ?st = "st\<lparr>eb_sequence_counter := eb_sequence_counter st + 1\<rparr>"
  have e: "after_expiry env st = ?st"
    using assms unfolding after_expiry_def
    by (intro expires_nothing) (auto simp: lossless_def none_expires_def list_all_iff)
  have fits: "data_size (eb_buffer st) + length data \<le> unat (ec_max_memory_bytes (eb_config st))"
    using assms by (simp add: lossless_def write_total_def)
  moreover have "unat (ec_max_memory_bytes (eb_config st)) < 2 ^ 62" using assms by (simp add: lossless_def)
  ultimately have "unat (of_nat (data_size (eb_buffer st) + length data) :: u64) = data_size (eb_buffer st) + length data"
    by (simp del: of_nat_add add: unat_of_nat)
  then have "\<not> over_budget (of_nat (length data)) ?st"
    using fits assms by (simp add: over_budget_def lossless_def accounted_def word_less_nat_alt)
  with e show ?thesis by (simp add: buffer_write_eq Let_def)
qed

lemma none_expires_subset: "none_expires ttl cs ops \<Longrightarrow> set cs' \<subseteq> set cs \<Longrightarrow> none_expires ttl cs' ops"
  by (fastforce simp: none_expires_def list_all_iff)

lemma lossless_keeps:
  assumes "lossless st (op # ops)" "writes (op # ops) = writes ops" "accounted st'" "eb_config st' = eb_config st"
    "eb_db st' = eb_db st" "data_size (eb_buffer st') \<le> data_size (eb_buffer st)" "set (eb_buffer st') \<subseteq> set (eb_buffer st)"
  shows "lossless st' ops"
proof -
  have "none_expires (ec_entry_ttl (eb_config st)) (map be_created_at (eb_buffer st)) ops"
    using assms(1,2) by (simp add: lossless_def none_expires_def)
  then have "none_expires (ec_entry_ttl (eb_config st)) (map be_created_at (eb_buffer st')) ops"
    by (rule none_expires_subset) (use assms(7) in auto)
  then show ?thesis using assms by (simp add: lossless_def write_total_def)
qed

lemma lossless_step:
  assumes "lossless st (op # ops)" "in_order op"
  shows "lossless (snd (buffer_step bc op st)) ops"
    and "map entry_content (fst (buffer_step bc op st) @ eb_buffer (snd (buffer_step bc op st))) =
      map entry_content (eb_buffer st) @ (case op of Write env data t \<Rightarrow> [(eb_sequence_counter st, data, t)] | _ \<Rightarrow> [])"
    and "eb_sequence_counter (snd (buffer_step bc op st)) =
      eb_sequence_counter st + (case op of Write _ _ _ \<Rightarrow> 1 | _ \<Rightarrow> 0)"
proof -
  have acc: "accounted (snd (buffer_step bc op st))" using assms(1) accounted_step by (simp add: lossless_def)
  have *: "lossless (snd (buffer_step bc op st)) ops \<and>
    map entry_content (fst (buffer_step bc op st) @ eb_buffer (snd (buffer_step bc op st))) =
      map entry_content (eb_buffer st) @ (case op of Write env data t \<Rightarrow> [(eb_sequence_counter st, data, t)] | _ \<Rightarrow> []) \<and>
    eb_sequence_counter (snd (buffer_step bc op st)) = eb_sequence_counter st + (case op of Write _ _ _ \<Rightarrow> 1 | _ \<Rightarrow> 0)"
  proof (cases op)
    case (Write env data t)
    show ?thesis using acc assms(1) write_lossless [of st env data t ops bc]
      by (auto simp: Write lossless_def push_entry_def new_entry_def entry_content_def entry_size_def write_total_def
          none_expires_def list_all_iff Let_def)
  next
    case (Read n)
    have "lossless (snd (buffer_step bc op st)) ops"
      by (rule lossless_keeps [OF assms(1) _ acc]) (auto simp: Read read_entries_def Let_def dest: in_set_dropD)
    then show ?thesis by (simp add: Read read_entries_def Let_def flip: map_append)
  next
    case (Drain now ok)
    have "lossless (snd (buffer_step bc op st)) ops"
      by (rule lossless_keeps [OF assms(1) _ acc]) (auto simp: Drain drain_def Let_def split: option.splits)
    then show ?thesis using assms(1) by (simp add: Drain drain_def lossless_def Let_def)
  qed (use assms(2) in \<open>simp_all add: in_order_def\<close>)
  then show "lossless (snd (buffer_step bc op st)) ops"
    and "map entry_content (fst (buffer_step bc op st) @ eb_buffer (snd (buffer_step bc op st))) =
      map entry_content (eb_buffer st) @ (case op of Write env data t \<Rightarrow> [(eb_sequence_counter st, data, t)] | _ \<Rightarrow> [])"
    and "eb_sequence_counter (snd (buffer_step bc op st)) =
      eb_sequence_counter st + (case op of Write _ _ _ \<Rightarrow> 1 | _ \<Rightarrow> 0)" by blast+
qed

lemma run_lossless:
  assumes "lossless st ops" "list_all in_order ops" "run_outputs (buffer_step bc) ops st = (out, st')"
  shows "map entry_content (concat (map snd out) @ eb_buffer st') =
    map entry_content (eb_buffer st) @ numbered (eb_sequence_counter st) (writes ops)"
  using assms
proof (induction ops arbitrary: st out)
  case (Cons op ops)
  obtain es st1 where s: "buffer_step bc op st = (es, st1)" by (cases "buffer_step bc op st")
  obtain out1 where r: "run_outputs (buffer_step bc) ops st1 = (out1, st')" "out = (op, es) # out1"
    using Cons.prems(3) s by (cases "run_outputs (buffer_step bc) ops st1") auto
  note l = lossless_step [OF Cons.prems(1), of bc]
  have ih: "map entry_content (concat (map snd out1) @ eb_buffer st') =
      map entry_content (eb_buffer st1) @ numbered (eb_sequence_counter st1) (writes ops)"
    using Cons.IH [of st1 out1] Cons.prems(2) l(1) r(1) by (simp add: s)
  let ?new = "case op of Write env data t \<Rightarrow> [(eb_sequence_counter st, data, t)] | _ \<Rightarrow> []"
  have o: "map entry_content (concat (map snd out) @ eb_buffer st') =
      map entry_content (es @ eb_buffer st1) @ numbered (eb_sequence_counter st1) (writes ops)"
    using ih by (simp add: r(2))
  have c: "eb_sequence_counter st1 = eb_sequence_counter st + (case op of Write _ _ _ \<Rightarrow> 1 | _ \<Rightarrow> 0)"
    using l(3) Cons.prems(2) by (simp add: s)
  note o
  also have "map entry_content (es @ eb_buffer st1) = map entry_content (eb_buffer st) @ ?new"
    using l(2) Cons.prems(2) by (simp add: s)
  also have "(map entry_content (eb_buffer st) @ ?new) @ numbered (eb_sequence_counter st1) (writes ops) =
      map entry_content (eb_buffer st) @ numbered (eb_sequence_counter st) (writes (op # ops))"
    by (cases op) (simp_all add: c)
  finally show ?case .
qed simp

section \<open>Spilling to the database\<close>

lemma those_map: "\<forall>x \<in> set xs. f x \<noteq> None \<Longrightarrow> those (map f xs) = Some (map (\<lambda>x. the (f x)) xs)"
  by (induction xs) auto

lemma set_sql_pending: "length (unsent db) \<le> SQLITE_DRAIN_BATCH_SIZE \<Longrightarrow> set (sql_pending db) = set (unsent db)"
  by (simp add: sql_pending_def unsent_def)

definition decodable :: "bincode \<Rightarrow> sqlite \<Rightarrow> bool" where
  "decodable bc db \<longleftrightarrow> list_all (\<lambda>r. bc_deserialize bc (rw_data r) \<noteq> None) (sq_rows db)"

text \<open>A drain of a table that is not too long returns every row that was not acknowledged.\<close>

lemma drain_unsent:
  assumes "eb_db st = Some db" "decodable bc db" "length (unsent db) \<le> SQLITE_DRAIN_BATCH_SIZE"
  shows "set (fst (drain bc now True st)) = set (eb_buffer st) \<union> (\<lambda>r. the (entry_of_row bc now r)) ` set (unsent db)"
proof -
  have "\<forall>r \<in> set (sql_pending db). entry_of_row bc now r \<noteq> None"
    using assms(2) set_sql_pending [OF assms(3)]
    by (auto simp: decodable_def list_all_iff unsent_def entry_of_row_def split: option.splits prod.splits)
  then have "drain_sqlite_pending bc now True db = Some (map (\<lambda>r. the (entry_of_row bc now r)) (sql_pending db))"
    by (simp add: drain_sqlite_pending_def those_map)
  then show ?thesis using assms(1) set_sql_pending [OF assms(3)] by (simp add: drain_def Let_def)
qed

lemma drained_acknowledged:
  assumes "eb_db st = Some db" "decodable bc db" "length (unsent db) \<le> SQLITE_DRAIN_BATCH_SIZE"
    and "list_all (\<lambda>e. be_sqlite_row_id e = None) (eb_buffer st)" "list_all (\<lambda>r. rw_id r \<noteq> i) (unsent db)"
  shows "list_all (\<lambda>e. be_sqlite_row_id e \<noteq> Some i) (fst (drain bc now True st))"
proof -
  have "be_sqlite_row_id (the (entry_of_row bc now r)) = Some (rw_id r)" if "r \<in> set (unsent db)" for r
  proof -
    have "bc_deserialize bc (rw_data r) \<noteq> None" using that assms(2) by (auto simp: unsent_def decodable_def list_all_iff)
    then show ?thesis by (auto simp: entry_of_row_def)
  qed
  then show ?thesis using assms(4,5) drain_unsent [OF assms(1-3), of now] by (auto simp: list_all_iff)
qed

lemma sent_rows:
  "length (filter (\<lambda>r. rw_sent_at r = None) (map (\<lambda>r. if rw_id r = i then r\<lparr>rw_sent_at := Some epoch\<rparr> else r) rs)) \<le>
     length (filter (\<lambda>r. rw_sent_at r = None) rs)"
  "list_all (\<lambda>r. rw_id r \<noteq> i) (filter (\<lambda>r. rw_sent_at r = None)
     (map (\<lambda>r. if rw_id r = i then r\<lparr>rw_sent_at := Some epoch\<rparr> else r) rs))"
  "list_all (\<lambda>r. P (rw_data r)) (map (\<lambda>r. if rw_id r = i then r\<lparr>rw_sent_at := Some epoch\<rparr> else r) rs) =
     list_all (\<lambda>r. P (rw_data r)) rs"
  by (induction rs) simp_all

lemma update_sent:
  "decodable bc db \<Longrightarrow> decodable bc (sql_update i (\<lambda>r. r\<lparr>rw_sent_at := Some epoch\<rparr>) db)"
  "length (unsent (sql_update i (\<lambda>r. r\<lparr>rw_sent_at := Some epoch\<rparr>) db)) \<le> length (unsent db)"
  "list_all (\<lambda>r. rw_id r \<noteq> i) (unsent (sql_update i (\<lambda>r. r\<lparr>rw_sent_at := Some epoch\<rparr>) db))"
  using sent_rows(1,2) [of i epoch "sq_rows db"] sent_rows(3) [of "\<lambda>d. bc_deserialize bc d \<noteq> None" i epoch "sq_rows db"]
  by (simp_all add: decodable_def unsent_def sql_update_def)

lemma DataType_roundtrip: "DataType_from_str (DataType_as_str t) = Some t"
  by (cases t) (simp_all add: DataType_as_str_def DataType_from_str_def)

section \<open>Properties\<close>

text \<open>
  C28. Memory stays within the budget: whatever operations run on a new buffer, in any order, the
  byte and entry counters are exact and the data in memory is never more than the configured
  maximum, except that a single entry larger than the maximum is held alone. Sizes below 2 to the 62
  are assumed, so that no sum wraps.
\<close>

theorem edge_buffer_within_budget:
  assumes "unat (ec_max_memory_bytes config) < 2 ^ 62" "list_all op_small ops"
  shows "(let st = snd (run_outputs (buffer_step bc) ops (EdgeBuffer_new init config)) in
    eb_memory_usage st = of_nat (data_size (eb_buffer st)) \<and>
    bm_current_entry_count (eb_metrics st) = of_nat (length (eb_buffer st)) \<and>
    (data_size (eb_buffer st) \<le> unat (ec_max_memory_bytes config) \<or> length (eb_buffer st) = 1))"
proof -
  let ?I = "\<lambda>st. budgeted st \<and> eb_config st = config"
  let ?st = "snd (run_outputs (buffer_step bc) ops (EdgeBuffer_new init config))"
  have "?I ?st"
    by (rule run_keeps [where P = op_small]) (use assms in \<open>simp_all add: budgeted_step budgeted_new step_config\<close>)
  then show ?thesis by (auto simp: Let_def budgeted_def accounted_def within_def)
qed

definition example_env :: write_env where
  "example_env = \<lparr>we_created = 0, we_now = 0, we_evict_epoch = 0, we_evict_ok = True, we_spill_epoch = 0, we_spill_ok = True\<rparr>"

definition plain_bincode :: bincode where
  "plain_bincode = \<lparr>bc_serialize = (\<lambda>(seq, data). Some (le64 seq @ data)),
     bc_deserialize = (\<lambda>blob. if length blob < 8 then None else Some (un_le64 (take 8 blob), drop 8 blob))\<rparr>"

theorem edge_buffer_within_budget_witness:
  "(let st = snd (run_outputs (buffer_step plain_bincode)
      [Write example_env [1, 2] Metrics, Write example_env [3, 4] Traces]
      (EdgeBuffer_new (\<lambda>_. None) (EdgeBufferConfig_default\<lparr>ec_max_memory_bytes := 3\<rparr>))) in
    data_size (eb_buffer st) \<le> 3 \<or> length (eb_buffer st) = 1)"
  using edge_buffer_within_budget [of "EdgeBufferConfig_default\<lparr>ec_max_memory_bytes := 3\<rparr>"
      "[Write example_env [1, 2] Metrics, Write example_env [3, 4] Traces]" plain_bincode "\<lambda>_. None"]
  by (simp add: op_small_def Let_def)

text \<open>
  C27. Nothing is lost while there is room: on a buffer without a database, if all that is written
  fits into the budget and no entry expires, then for any mix of writes, reads and drains what was
  taken out followed by what is still there is exactly what was written, in order, numbered from 1.
\<close>

theorem edge_buffer_loses_nothing:
  assumes "ec_sqlite_path config = None" "unat (ec_max_memory_bytes config) < 2 ^ 62"
    and "write_total ops \<le> unat (ec_max_memory_bytes config)" "none_expires (ec_entry_ttl config) [] ops"
    and "list_all in_order ops" "run_outputs (buffer_step bc) ops (EdgeBuffer_new init config) = (out, st)"
  shows "map entry_content (concat (map snd out) @ eb_buffer st) = numbered 1 (writes ops)"
proof -
  have "lossless (EdgeBuffer_new init config) ops"
    using assms(1-4) by (simp add: lossless_def EdgeBuffer_new_def accounted_def BufferMetrics_default_def)
  from run_lossless [OF this assms(5,6)] show ?thesis by (simp add: EdgeBuffer_new_def)
qed

theorem edge_buffer_loses_nothing_witness:
  "(let r = run_outputs (buffer_step plain_bincode)
      [Write example_env [1, 2] Metrics, Read 1, Write example_env [3] Traces] (EdgeBuffer_new (\<lambda>_. None) EdgeBufferConfig_default) in
    map entry_content (concat (map snd (fst r)) @ eb_buffer (snd r)) = [(1, [1, 2], Metrics), (2, [3], Traces)])"
  using edge_buffer_loses_nothing [of EdgeBufferConfig_default "[Write example_env [1, 2] Metrics, Read 1, Write example_env [3] Traces]"
      plain_bincode "\<lambda>_. None", OF _ _ _ _ _ prod.collapse [symmetric]]
  by (simp add: EdgeBufferConfig_default_def write_total_def none_expires_def example_env_def in_order_def Let_def)

text \<open>
  Losses are counted: on a buffer without a database, after any operations but the deletion of the
  backlog, the entries written are those handed out, those evicted and those still in memory, as
  the metrics count them (modulo 2 to the 64).
\<close>

lemma edge_buffer_losses_counted:
  assumes "ec_sqlite_path config = None" "list_all keeps_backlog ops"
  shows "(let st = snd (run_outputs (buffer_step bc) ops (EdgeBuffer_new init config)) in
    bm_entries_written (eb_metrics st) =
      bm_entries_read (eb_metrics st) + bm_entries_evicted (eb_metrics st) + of_nat (length (eb_buffer st)))"
proof -
  have "balanced (snd (run_outputs (buffer_step bc) ops (EdgeBuffer_new init config)))"
    by (rule run_keeps [where P = keeps_backlog])
      (use assms in \<open>simp_all add: balanced_step\<close>, simp add: balanced_def EdgeBuffer_new_def BufferMetrics_default_def)
  then show ?thesis by (simp add: Let_def balanced_def)
qed

lemma edge_buffer_losses_counted_example:
  "(let st = snd (run_outputs (buffer_step plain_bincode)
      [Write example_env [1, 2] Metrics, Write example_env [3, 4] Traces]
      (EdgeBuffer_new (\<lambda>_. None) (EdgeBufferConfig_default\<lparr>ec_max_memory_bytes := 3\<rparr>))) in
    bm_entries_written (eb_metrics st) =
      bm_entries_read (eb_metrics st) + bm_entries_evicted (eb_metrics st) + of_nat (length (eb_buffer st)))"
  using edge_buffer_losses_counted [of "EdgeBufferConfig_default\<lparr>ec_max_memory_bytes := 3\<rparr>"
      "[Write example_env [1, 2] Metrics, Write example_env [3, 4] Traces]" plain_bincode "\<lambda>_. None"]
  by (simp add: keeps_backlog_def EdgeBufferConfig_default_def)

text \<open>
  A spilled entry comes back until it is acknowledged: when there is no room in memory and the
  database accepts the row, a write leaves the memory queue as the expiry left it, and a later drain
  of a table of fewer than 1000 readable rows returns an entry with the sequence number, data and type
  written and the id of its row; after \<open>mark_sent\<close> of that id no drain returns such a row again.
\<close>

lemma edge_spill_returns:
  assumes bc: "bincode_ok bc" "bc_serialize bc (eb_sequence_counter st, data) = Some blob"
    and db: "eb_db (after_expiry env st) = Some db" "decodable bc db" "length (unsent db) < 1000"
    and full: "over_budget (of_nat (length data)) (after_expiry env st)" and ok: "we_spill_ok env"
    and memory: "list_all (\<lambda>e. be_sqlite_row_id e = None) (eb_buffer (after_expiry env st))"
  shows "(let st1 = snd (buffer_write bc env data t st); i = sq_next_id db in
    eb_buffer st1 = eb_buffer (after_expiry env st) \<and>
    (\<exists>e \<in> set (fst (drain bc now True st1)). entry_content e = (eb_sequence_counter st, data, t) \<and> be_sqlite_row_id e = Some i) \<and>
    (\<exists>st2. mark_sent epoch True i st1 = Some st2 \<and>
       list_all (\<lambda>e. be_sqlite_row_id e \<noteq> Some i) (fst (drain bc now True st2))))"
proof -
  define new where "new = \<lparr>rw_id = sq_next_id db, rw_data_type = DataType_as_str t, rw_data = blob, rw_priority = 2,
    rw_retry_count = 0, rw_created_at = we_spill_epoch env, rw_sent_at = None\<rparr>"
  define db1 where "db1 = sql_insert t blob (we_spill_epoch env) db"
  have rows: "sq_rows db1 = sq_rows db @ [new]" by (simp add: db1_def sql_insert_def new_def)
  have st1: "snd (buffer_write bc env data t st) = spilled db1 (after_expiry env st)"
    using bc(2) db(1) full ok by (simp add: buffer_write_eq Let_def spill_to_sqlite_def new_entry_def db1_def)
  have decode: "bc_deserialize bc blob = Some (eb_sequence_counter st, data)" using bc by (simp add: bincode_ok_def)
  have dec: "decodable bc db1" using db(2) decode by (simp add: decodable_def rows new_def)
  have len: "length (unsent db1) \<le> SQLITE_DRAIN_BATCH_SIZE"
    using db(3) by (simp add: unsent_def rows new_def SQLITE_DRAIN_BATCH_SIZE_def)
  have "the (entry_of_row bc now new) \<in> set (fst (drain bc now True (spilled db1 (after_expiry env st))))"
    using drain_unsent [of "spilled db1 (after_expiry env st)" db1 bc now] dec len
    by (simp add: spilled_def unsent_def rows new_def)
  moreover have "entry_content (the (entry_of_row bc now new)) = (eb_sequence_counter st, data, t)"
    "be_sqlite_row_id (the (entry_of_row bc now new)) = Some (sq_next_id db)"
    by (simp_all add: entry_of_row_def decode new_def entry_content_def DataType_roundtrip)
  moreover
  define db2 where "db2 = sql_update (sq_next_id db) (\<lambda>r. r\<lparr>rw_sent_at := Some epoch\<rparr>) db1"
  define st2 where "st2 = (spilled db1 (after_expiry env st))\<lparr>eb_db := Some db2\<rparr>"
  have "mark_sent epoch True (sq_next_id db) (spilled db1 (after_expiry env st)) = Some st2"
    by (simp add: mark_sent_def spilled_def st2_def db2_def)
  moreover have "list_all (\<lambda>e. be_sqlite_row_id e \<noteq> Some (sq_next_id db)) (fst (drain bc now True st2))"
    using drained_acknowledged [of st2 db2 bc "sq_next_id db" now] memory update_sent(1) [OF dec]
      update_sent(3) order_trans [OF update_sent(2) len]
    by (simp add: st2_def spilled_def db2_def)
  ultimately show ?thesis by (auto simp: Let_def st1 spilled_def)
qed

lemma plain_bincode_ok: "bincode_ok plain_bincode"
  by (auto simp: bincode_ok_def plain_bincode_def)

text \<open>A full buffer of two bytes with an empty database.\<close>

definition example_buffer :: EdgeBuffer where
  "example_buffer = \<lparr>eb_config = EdgeBufferConfig_default\<lparr>ec_max_memory_bytes := 2\<rparr>,
     eb_buffer = [\<lparr>be_sequence_number = 1, be_created_at = 0, be_data = [1, 2], be_data_type = Metrics, be_sqlite_row_id = None\<rparr>],
     eb_memory_usage = 2, eb_sequence_counter = 2, eb_metrics = BufferMetrics_default, eb_running = True,
     eb_db = Some \<lparr>sq_rows = [], sq_next_id = 1\<rparr>\<rparr>"

lemma example_after_expiry: "after_expiry example_env example_buffer = example_buffer\<lparr>eb_sequence_counter := 3\<rparr>"
  by (simp add: after_expiry_def evict_expired_def evict_expired_round(3) example_buffer_def example_env_def
      evict_expired_sqlite_def sql_delete_expired_def BufferMetrics_default_def Let_def)

lemma edge_spill_returns_example:
  "\<exists>e \<in> set (fst (drain plain_bincode 0 True (snd (buffer_write plain_bincode example_env [3] Traces example_buffer)))).
     entry_content e = (2, [3], Traces)"
proof -
  have seq: "eb_sequence_counter example_buffer = 2" by (simp add: example_buffer_def)
  have "bc_serialize plain_bincode (eb_sequence_counter example_buffer, [3]) = Some (le64 2 @ [3])"
    by (simp add: plain_bincode_def seq)
  note spill = edge_spill_returns [OF plain_bincode_ok this, where env = example_env and db = "\<lparr>sq_rows = [], sq_next_id = 1\<rparr>"
      and t = Traces and now = 0 and epoch = 0]
  have "eb_db (after_expiry example_env example_buffer) = Some \<lparr>sq_rows = [], sq_next_id = 1\<rparr>"
    "over_budget (of_nat (length [3 :: byte])) (after_expiry example_env example_buffer)"
    "list_all (\<lambda>e. be_sqlite_row_id e = None) (eb_buffer (after_expiry example_env example_buffer))"
    by (simp_all add: example_after_expiry over_budget_def) (simp_all add: example_buffer_def EdgeBufferConfig_default_def)
  moreover have "decodable plain_bincode \<lparr>sq_rows = [], sq_next_id = 1\<rparr>" "we_spill_ok example_env"
    "length (unsent \<lparr>sq_rows = [], sq_next_id = 1\<rparr>) < 1000"
    by (simp_all add: decodable_def unsent_def example_env_def)
  ultimately show ?thesis using spill unfolding Let_def seq by blast
qed

end
