(* ===== verification/Agent_Config.thy ===== *)
theory Agent_Config
  imports Text
begin

text \<open>\<open>EbpfConfig\<close> of \<open>config/mod.rs\<close>: the part of the agent's configuration the observers read.\<close>

record EbpfConfig =
  cfg_enabled :: bool
  cfg_tcp_connections :: bool
  cfg_dns_resolution :: bool
  cfg_http_inspection :: bool
  cfg_db_inspection :: bool
  cfg_exclude_ports :: "u16 list"
  cfg_exclude_ips :: "rstring list"
  cfg_ring_buffer_size_kb :: u32
  cfg_poll_interval_ms :: u64
  cfg_fallback_to_proc :: bool

definition default_ring_buffer_size_kb :: u32 where
  "default_ring_buffer_size_kb = 256"

definition default_poll_interval_ms :: u64 where
  "default_poll_interval_ms = 100"

definition default_fallback_to_proc :: bool where
  "default_fallback_to_proc = True"

end
