(* ===== verification/Proc_Fallback.thy ===== *)
theory Proc_Fallback
  imports Agent_Base Agent_Config "HOL-Library.AList"
begin

text \<open>
  \<open>proc_fallback.rs\<close>: the observer that polls the socket tables of \<open>/proc\<close>. What a poll reads
  from \<open>/proc\<close> is a record of contents (None where a file or directory cannot be read); the clock is
  an argument, in nanoseconds. The table of connections is an association list, since a poll iterates
  over it; the process id cache is a map. The outer option of a result is None where the code would
  panic, which only slicing an address inside a character could cause.
\<close>

section \<open>Data\<close>

record ProcKey =
  pk_src_ip :: u32
  pk_src_port :: u16
  pk_dst_ip :: u32
  pk_dst_port :: u16

record ConnectionState =
  cs_state :: rstring
  cs_pid :: u32
  cs_process_name :: rstring
  cs_first_seen :: nat

record PidCacheEntry =
  pc_pid :: u32
  pc_inserted_at :: nat

type_synonym pid_cache = "u64 \<rightharpoonup> PidCacheEntry"
type_synonym conn_table = "(ProcKey \<times> ConnectionState) list"

record ProcObserver =
  po_prev_connections :: conn_table
  po_pid_cache :: pid_cache
  po_config :: EbpfConfig

definition ProcObserver_new :: "EbpfConfig \<Rightarrow> ProcObserver" where
  "ProcObserver_new config = \<lparr>po_prev_connections = [], po_pid_cache = Map.empty, po_config = config\<rparr>"

definition PID_CACHE_TTL :: nat where
  "PID_CACHE_TTL = 30 * 10 ^ 9"

text \<open>
  What is read from \<open>/proc\<close>: the two socket tables, the names in \<open>/proc\<close> (None for an entry that
  cannot be read), the targets of a process's descriptors, and its command.
\<close>

record procfs =
  fs_net_tcp :: "rstring option"
  fs_net_tcp6 :: "rstring option"
  fs_dir :: "rstring option list option"
  fs_fds :: "u32 \<Rightarrow> rstring option list option"
  fs_comm :: "u32 \<Rightarrow> rstring option"

datatype proc_error = Cannot_read_tcp | Cannot_read_tcp6

datatype addr_error = Missing_colon | Bad_port | Bad_ipv4 | Bad_ipv6_segment | Unexpected_length nat

section \<open>Fields\<close>

definition tcp_state_from_hex :: "rstring \<Rightarrow> rstring option" where
  "tcp_state_from_hex hex =
     (if hex = lit ''01'' then Some (lit ''ESTABLISHED'') else if hex = lit ''02'' then Some (lit ''SYN_SENT'')
      else if hex = lit ''03'' then Some (lit ''SYN_RECV'') else if hex = lit ''04'' then Some (lit ''FIN_WAIT1'')
      else if hex = lit ''05'' then Some (lit ''FIN_WAIT2'') else if hex = lit ''06'' then Some (lit ''TIME_WAIT'')
      else if hex = lit ''07'' then Some (lit ''CLOSE_WAIT'') else if hex = lit ''08'' then Some (lit ''LAST_ACK'')
      else if hex = lit ''09'' then Some (lit ''CLOSING'') else if hex = lit ''0A'' then Some (lit ''LISTEN'')
      else None)"

definition parse_address :: "rstring \<Rightarrow> (addr_error + u32 \<times> u16) option" where
  "parse_address s =
     (case split_once (of_char CHR '':'') s of
        None \<Rightarrow> Some (Inl Missing_colon)
      | Some (ip_hex, port_hex) \<Rightarrow>
          (case parse_uint 16 16 port_hex of
             None \<Rightarrow> Some (Inl Bad_port)
           | Some port \<Rightarrow>
               if str_len ip_hex = 8 then
                 (case parse_uint 16 32 ip_hex of
                    None \<Rightarrow> Some (Inl Bad_ipv4)
                  | Some ip \<Rightarrow> Some (Inr (of_nat ip, of_nat port)))
               else if str_len ip_hex = 32 then
                 (case str_range ip_hex 24 32 of
                    None \<Rightarrow> None
                  | Some seg \<Rightarrow>
                      (case parse_uint 16 32 seg of
                         None \<Rightarrow> Some (Inl Bad_ipv6_segment)
                       | Some seg3 \<Rightarrow> Some (Inr (of_nat seg3, of_nat port))))
               else Some (Inl (Unexpected_length (str_len ip_hex)))))"

definition proc_format_ip :: "u32 \<Rightarrow> rstring" where
  "proc_format_ip ip =
     (let b = le32 ip in
      decimal (unat (b ! 0)) @ lit ''.'' @ decimal (unat (b ! 1)) @ lit ''.'' @
      decimal (unat (b ! 2)) @ lit ''.'' @ decimal (unat (b ! 3)))"

section \<open>Processes\<close>

fun scan_entries :: "procfs \<Rightarrow> rstring \<Rightarrow> rstring option list \<Rightarrow> u32" where
  "scan_entries fs target [] = 0"
| "scan_entries fs target (entry # entries) =
     (case Option.bind entry (parse_uint 10 32) of
        None \<Rightarrow> scan_entries fs target entries
      | Some n \<Rightarrow>
          (let pid = of_nat n in
           case fs_fds fs pid of
             None \<Rightarrow> scan_entries fs target entries
           | Some links \<Rightarrow> if Some target \<in> set links then pid else scan_entries fs target entries))"

definition scan_proc_fds_for_inode :: "procfs \<Rightarrow> rstring \<Rightarrow> u32" where
  "scan_proc_fds_for_inode fs target =
     (case fs_dir fs of None \<Rightarrow> 0 | Some entries \<Rightarrow> scan_entries fs target entries)"

definition find_pid_for_inode :: "procfs \<Rightarrow> nat \<Rightarrow> u64 \<Rightarrow> pid_cache \<Rightarrow> u32 \<times> pid_cache" where
  "find_pid_for_inode fs now inode cache =
     (if inode = 0 then (0, cache)
      else
        (let rescan = (let pid = scan_proc_fds_for_inode fs (lit ''socket:['' @ decimal (unat inode) @ lit '']'')
                       in (pid, cache(inode \<mapsto> \<lparr>pc_pid = pid, pc_inserted_at = now\<rparr>)))
         in case cache inode of
              Some entry \<Rightarrow> if now - pc_inserted_at entry < PID_CACHE_TTL then (pc_pid entry, cache) else rescan
            | None \<Rightarrow> rescan))"

definition get_process_name :: "procfs \<Rightarrow> u32 \<Rightarrow> rstring" where
  "get_process_name fs pid = (case fs_comm fs pid of Some s \<Rightarrow> trim s | None \<Rightarrow> [])"

section \<open>The socket table\<close>

definition parse_proc_line ::
  "EbpfConfig \<Rightarrow> procfs \<Rightarrow> nat \<Rightarrow> rstring \<Rightarrow> pid_cache \<times> conn_table \<Rightarrow> (pid_cache \<times> conn_table) option" where
  "parse_proc_line config fs now line acc =
     (let fields = split_whitespace line in
      if length fields < 10 then Some acc
      else
        (let local_addr = fields ! 1; remote_addr = fields ! 2; state_hex = fields ! 3; inode_str = fields ! 9 in
         case tcp_state_from_hex state_hex of
           None \<Rightarrow> Some acc
         | Some st \<Rightarrow>
             if st = lit ''LISTEN'' then Some acc
             else
               (case parse_address local_addr of
                  None \<Rightarrow> None
                | Some (Inl _) \<Rightarrow> Some acc
                | Some (Inr (src_ip, src_port)) \<Rightarrow>
                    (case parse_address remote_addr of
                       None \<Rightarrow> None
                     | Some (Inl _) \<Rightarrow> Some acc
                     | Some (Inr (dst_ip, dst_port)) \<Rightarrow>
                         if src_port \<in> set (cfg_exclude_ports config) \<or> dst_port \<in> set (cfg_exclude_ports config)
                         then Some acc
                         else
                           (let src_ip_str = proc_format_ip src_ip; dst_ip_str = proc_format_ip dst_ip in
                            if list_ex (\<lambda>ip. ip = src_ip_str \<or> ip = dst_ip_str) (cfg_exclude_ips config)
                            then Some acc
                            else
                              (let inode = (case parse_uint 10 64 inode_str of Some n \<Rightarrow> of_nat n | None \<Rightarrow> 0);
                                   (pid, cache) = find_pid_for_inode fs now inode (fst acc);
                                   process_name = (if pid > 0 then get_process_name fs pid else []);
                                   key = \<lparr>pk_src_ip = src_ip, pk_src_port = src_port, pk_dst_ip = dst_ip, pk_dst_port = dst_port\<rparr>
                               in Some (cache, AList.update key
                                    \<lparr>cs_state = st, cs_pid = pid, cs_process_name = process_name, cs_first_seen = now\<rparr>
                                    (snd acc))))))))"

fun parse_proc_lines ::
  "EbpfConfig \<Rightarrow> procfs \<Rightarrow> nat \<Rightarrow> rstring list \<Rightarrow> pid_cache \<times> conn_table \<Rightarrow> (pid_cache \<times> conn_table) option" where
  "parse_proc_lines config fs now [] acc = Some acc"
| "parse_proc_lines config fs now (line # lines) acc =
     Option.bind (parse_proc_line config fs now line acc) (parse_proc_lines config fs now lines)"

text \<open>Reading a table that exists; the first line is the header.\<close>

definition parse_proc_tcp ::
  "EbpfConfig \<Rightarrow> procfs \<Rightarrow> nat \<Rightarrow> proc_error \<Rightarrow> rstring option \<Rightarrow> pid_cache \<times> conn_table \<Rightarrow> (proc_error option \<times> pid_cache \<times> conn_table) option" where
  "parse_proc_tcp config fs now err content acc =
     (case content of
        None \<Rightarrow> Some (Some err, acc)
      | Some text \<Rightarrow> map_option (Pair None) (parse_proc_lines config fs now (drop 1 (str_lines text)) acc))"

section \<open>A poll\<close>

definition opened_event :: "ProcKey \<times> ConnectionState \<Rightarrow> NetworkEvent" where
  "opened_event kv = TcpConnection (proc_format_ip (pk_src_ip (fst kv))) (pk_src_port (fst kv))
     (proc_format_ip (pk_dst_ip (fst kv))) (pk_dst_port (fst kv)) (cs_state (snd kv)) (cs_pid (snd kv))
     (cs_process_name (snd kv))"

definition closed_event :: "ProcKey \<times> ConnectionState \<Rightarrow> NetworkEvent" where
  "closed_event kv = TcpConnection (proc_format_ip (pk_src_ip (fst kv))) (pk_src_port (fst kv))
     (proc_format_ip (pk_dst_ip (fst kv))) (pk_dst_port (fst kv)) (lit ''CLOSED'') (cs_pid (snd kv))
     (cs_process_name (snd kv))"

definition contains_key :: "conn_table \<Rightarrow> ProcKey \<Rightarrow> bool" where
  "contains_key table key \<longleftrightarrow> map_of table key \<noteq> None"

definition diff_events :: "conn_table \<Rightarrow> conn_table \<Rightarrow> NetworkEvent list" where
  "diff_events prev current =
     map opened_event (filter (\<lambda>kv. \<not> contains_key prev (fst kv) \<and> cs_state (snd kv) \<noteq> lit ''LISTEN'') current) @
     map closed_event (filter (\<lambda>kv. \<not> contains_key current (fst kv) \<and> cs_state (snd kv) \<noteq> lit ''LISTEN'') prev)"

definition cache_retain :: "nat \<Rightarrow> pid_cache \<Rightarrow> pid_cache" where
  "cache_retain now cache =
     (\<lambda>inode. case cache inode of
        Some entry \<Rightarrow> if now - pc_inserted_at entry < PID_CACHE_TTL then Some entry else None
      | None \<Rightarrow> None)"

definition collect :: "procfs \<Rightarrow> nat \<Rightarrow> ProcObserver \<Rightarrow> ((proc_error + NetworkEvent list) \<times> ProcObserver) option" where
  "collect fs now obs =
     (case parse_proc_tcp (po_config obs) fs now Cannot_read_tcp (fs_net_tcp fs) (po_pid_cache obs, []) of
        None \<Rightarrow> None
      | Some (Some e, cache, _) \<Rightarrow> Some (Inl e, obs\<lparr>po_pid_cache := cache\<rparr>)
      | Some (None, acc) \<Rightarrow>
          (case parse_proc_tcp (po_config obs) fs now Cannot_read_tcp6 (fs_net_tcp6 fs) acc of
             None \<Rightarrow> None
           | Some (Some e, cache, _) \<Rightarrow> Some (Inl e, obs\<lparr>po_pid_cache := cache\<rparr>)
           | Some (None, cache, current) \<Rightarrow>
               Some (Inr (diff_events (po_prev_connections obs) current),
                     obs\<lparr>po_prev_connections := current, po_pid_cache := cache_retain now cache\<rparr>)))"

section \<open>Addresses\<close>

text \<open>An address as the kernel prints it: \<open>%08X:%04X\<close>, or four 32-bit words for IPv6.\<close>

definition addr_text :: "u32 \<Rightarrow> u16 \<Rightarrow> rstring" where
  "addr_text ip port = hex_fixed 8 (unat ip) @ lit '':'' @ hex_fixed 4 (unat port)"

definition addr6_text :: "u32 list \<Rightarrow> u16 \<Rightarrow> rstring" where
  "addr6_text ws port = concat (map (\<lambda>w. hex_fixed 8 (unat w)) ws) @ lit '':'' @ hex_fixed 4 (unat port)"

lemma hex_ascii: "list_all (\<lambda>c. c < 128) (hex_fixed k n)"
  using hex_fixed_chars [of _ k n] by (fastforce simp: list_all_iff)

lemma split_addr: "58 \<notin> set a \<Longrightarrow> split_once (of_char CHR '':'') (a @ lit '':'' @ b) = Some (a, b)"
  using split_once_append [of 58 a b] by simp

lemma parse_port: "parse_uint 16 16 (hex_fixed 4 (unat port)) = Some (unat port)" for port :: u16
  using unat_bound [of port] by (intro parse_uint_hex) simp_all

lemma parse_word: "parse_uint 16 32 (hex_fixed 8 (unat w)) = Some (unat w)" for w :: u32
  using unat_bound [of w] by (intro parse_uint_hex) simp_all

lemma parse_addr_text: "parse_address (addr_text ip port) = Some (Inr (ip, port))"
proof -
  have "58 \<notin> set (hex_fixed 8 (unat ip))" using hex_fixed_chars [of 58 8 "unat ip"] by auto
  note split = split_addr [OF this, of "hex_fixed 4 (unat port)"]
  show ?thesis unfolding parse_address_def addr_text_def split
    by (simp add: parse_port parse_word str_len_ascii [OF hex_ascii])
qed

lemma parse_addr6_text: "parse_address (addr6_text [a, b, c, d] port) = Some (Inr (d, port))"
proof -
  let ?h = "concat (map (\<lambda>w. hex_fixed 8 (unat w)) [a, b, c, d])"
  have asc: "list_all (\<lambda>c. c < 128) ?h" using hex_ascii by simp
  have "58 \<notin> set ?h" using hex_fixed_chars [of 58 8] by fastforce
  note split = split_addr [OF this, of "hex_fixed 4 (unat port)"]
  have len: "str_len ?h = 32" using str_len_ascii [OF asc] by simp
  have seg: "str_range ?h 24 32 = Some (hex_fixed 8 (unat d))" using str_range_ascii [OF asc, of 24 32] by simp
  show ?thesis unfolding parse_address_def addr6_text_def split option.case prod.case parse_port len seg
    by (simp add: parse_word)
qed

lemma proc_format_ip_eq: "proc_format_ip ip = format_ip ip"
proof -
  obtain a b c d where abcd: "le32 ip = [a, b, c, d]"
  proof -
    have "length (le32 ip) = Suc (Suc (Suc (Suc 0)))" by simp
    then show thesis using that by (auto simp only: length_Suc_conv length_0_conv)
  qed
  then have "ip = un_le32 [a, b, c, d]" by (metis un_le32_le32)
  then show ?thesis using format_ip_bytes [of a b c d] by (simp add: proc_format_ip_def abcd Let_def)
qed

text \<open>Different addresses are printed differently.\<close>

lemma decimal_no_dot: "46 \<notin> set (decimal n)"
  using decimal_digits [of n] by (auto simp: list_all_iff)

lemma decimal_inject: "decimal m = decimal n \<longleftrightarrow> m = n"
proof
  assume eq: "decimal m = decimal n"
  have "parse_digits 10 (Suc (m + n)) 0 (decimal m) = Some m" "parse_digits 10 (Suc (m + n)) 0 (decimal n) = Some n"
    by (rule parse_digits_decimal, linarith)+
  with eq show "m = n" by (metis option.inject)
qed simp

lemma quad_parts:
  "split_char 46 (decimal a @ lit ''.'' @ decimal b @ lit ''.'' @ decimal c @ lit ''.'' @ decimal d) =
     [decimal a, decimal b, decimal c, decimal d]"
  by (simp add: split_char_field split_char_none decimal_no_dot)

lemma proc_format_ip_inject: "proc_format_ip x = proc_format_ip y \<longleftrightarrow> x = y"
proof
  assume "proc_format_ip x = proc_format_ip y"
  then have "split_char 46 (proc_format_ip x) = split_char 46 (proc_format_ip y)" by simp
  then have eq: "le32 x ! 0 = le32 y ! 0" "le32 x ! 1 = le32 y ! 1" "le32 x ! 2 = le32 y ! 2" "le32 x ! 3 = le32 y ! 3"
    unfolding proc_format_ip_def Let_def quad_parts by (simp_all add: decimal_inject word_unat_eq_iff)
  have "le32 x ! i = le32 y ! i" if i: "i < 4" for i
  proof -
    consider "i = 0" | "i = 1" | "i = 2" | "i = 3" using i by linarith
    then show ?thesis using eq by cases simp_all
  qed
  then have "le32 x = le32 y" by (intro nth_equalityI) simp_all
  then show "x = y" by (metis un_le32_le32)
qed simp

section \<open>No panics on ASCII tables\<close>

lemma set_split_whitespace_from: "w \<in> set (split_whitespace_from acc s) \<Longrightarrow> set w \<subseteq> set acc \<union> set s"
  by (induction acc s arbitrary: w rule: split_whitespace_from.induct) (auto split: if_splits)

lemma set_str_lines_from: "l \<in> set (str_lines_from acc s) \<Longrightarrow> set l \<subseteq> set acc \<union> set s"
proof (induction acc s arbitrary: l rule: str_lines_from.induct)
  case (2 acc c cs)
  have "set (strip_cr acc) \<subseteq> set acc" by (auto simp: strip_cr_def dest: in_set_butlastD)
  with 2 show ?case by (auto split: if_splits)
qed (auto split: if_splits)

lemma split_once_set: "split_once sep s = Some (a, b) \<Longrightarrow> set a \<subseteq> set s"
  by (induction s arbitrary: a b) (auto split: if_splits)

definition ascii_text :: "rstring \<Rightarrow> bool" where
  "ascii_text s \<longleftrightarrow> list_all (\<lambda>c. c < 128) s"

lemma parse_address_ascii: "ascii_text s \<Longrightarrow> parse_address s \<noteq> None"
proof -
  assume s: "ascii_text s"
  have "str_range a 24 32 \<noteq> None" if "split_once (of_char CHR '':'') s = Some (a, b)" "str_len a = 32" for a b
  proof -
    have a: "list_all (\<lambda>c. c < 128) a" using split_once_set [OF that(1)] s by (auto simp: ascii_text_def list_all_iff)
    show ?thesis using that(2) str_range_ascii [OF a, of 24 32] str_len_ascii [OF a] by simp
  qed
  then show ?thesis by (auto simp: parse_address_def split: option.splits prod.splits if_splits)
qed

lemma parse_proc_line_ascii: "ascii_text line \<Longrightarrow> parse_proc_line config fs now line acc \<noteq> None"
proof -
  assume line: "ascii_text line"
  have "parse_address (split_whitespace line ! i) \<noteq> None" if "i < length (split_whitespace line)" for i
    using set_split_whitespace_from [of "split_whitespace line ! i" "[]" line] that line
    by (intro parse_address_ascii) (auto simp: ascii_text_def list_all_iff split_whitespace_def)
  then have "\<not> length (split_whitespace line) < 10 \<Longrightarrow> parse_address (split_whitespace line ! 1) \<noteq> None"
    "\<not> length (split_whitespace line) < 10 \<Longrightarrow> parse_address (split_whitespace line ! 2) \<noteq> None"
    by (meson less_le_trans not_less numeral_less_iff one_less_numeral_iff rel_simps)+
  then show ?thesis
    unfolding parse_proc_line_def Let_def
    by (auto simp del: not_None_eq split: option.split sum.split prod.split if_split)
qed

lemma parse_proc_lines_ascii: "list_all ascii_text lines \<Longrightarrow> parse_proc_lines config fs now lines acc \<noteq> None"
proof (induction lines arbitrary: acc)
  case (Cons line lines)
  then obtain acc' where "parse_proc_line config fs now line acc = Some acc'"
    using parse_proc_line_ascii [of line config fs now acc] by auto
  with Cons show ?case by simp
qed simp

lemma parse_proc_tcp_ascii:
  assumes "\<And>s. content = Some s \<Longrightarrow> ascii_text s"
  shows "\<exists>acc'. parse_proc_tcp config fs now err content acc = Some (if content = None then Some err else None, acc')"
proof (cases content)
  case (Some s)
  have "list_all ascii_text (str_lines s)"
    using assms [OF Some] set_str_lines_from [of _ "[]" s] by (fastforce simp: ascii_text_def list_all_iff str_lines_def)
  then have "list_all ascii_text (drop 1 (str_lines s))" by (meson in_set_dropD list_all_iff)
  from parse_proc_lines_ascii [OF this, of config fs now acc] show ?thesis by (auto simp: parse_proc_tcp_def Some)
qed (simp add: parse_proc_tcp_def)

end
