(* ===== verification/Printed_Text.thy ===== *)
theory Printed_Text
  imports Text
begin

text \<open>
  Text printed line by line from words of visible characters, and how it is read back: by lines, and each
  line by words. Numbers are printed in decimal or with a fixed number of hexadecimal digits.
\<close>

definition visible :: "rstring \<Rightarrow> bool" where
  "visible w \<longleftrightarrow> w \<noteq> [] \<and> list_all (\<lambda>c. 33 \<le> c \<and> c \<le> 126) w"

lemma visible_word: "visible w \<Longrightarrow> is_word w"
  by (auto simp: visible_def is_word_def is_whitespace_def list_all_iff)

lemma visible_hex: "0 < k \<Longrightarrow> visible (hex_fixed k n)"
proof -
  have "list_all (\<lambda>c. 33 \<le> c \<and> c \<le> 126) (hex_fixed k n)"
    using hex_fixed_chars [of _ k n] by (fastforce simp: list_all_iff)
  then show "0 < k \<Longrightarrow> visible (hex_fixed k n)"
    using length_hex_fixed [of k n] by (auto simp: visible_def simp del: length_hex_fixed)
qed

lemma visible_decimal: "visible (decimal n)"
  using decimal_digits [of n] by (fastforce simp: visible_def decimal_nonempty list_all_iff)

lemma visible_chars: "visible w \<Longrightarrow> list_all (\<lambda>c. 32 \<le> c \<and> c \<le> 126) w"
  unfolding visible_def by (erule conjE, erule list.pred_mono_strong) simp

lemma join_chars: "list_all visible ws \<Longrightarrow> list_all (\<lambda>c. 32 \<le> c \<and> c \<le> 126) (join_with (lit '' '') ws)"
  by (induction "lit '' ''" ws rule: join_with.induct) (simp_all add: visible_chars)

text \<open>Lines of words.\<close>

definition line_of :: "rstring list \<Rightarrow> rstring" where
  "line_of ws = join_with (lit '' '') ws"

definition printed :: "rstring list list \<Rightarrow> rstring" where
  "printed ls = concat (map (\<lambda>ws. line_of ws @ [10]) ls)"

lemma words_of_line [simp]: "list_all visible ws \<Longrightarrow> split_whitespace (line_of ws) = ws"
  unfolding line_of_def by (rule split_whitespace_join) (auto simp: list_all_iff visible_word)

lemma lines_of_printed [simp]: "list_all (list_all visible) ls \<Longrightarrow> str_lines (printed ls) = map line_of ls"
proof (induction ls)
  case Nil
  then show ?case by (simp add: printed_def str_lines_def)
next
  case (Cons ws ls)
  have "list_all (\<lambda>c. 32 \<le> c \<and> c \<le> 126) (line_of ws)"
    unfolding line_of_def by (rule join_chars) (use Cons.prems in simp)
  then have "10 \<notin> set (line_of ws)" "13 \<notin> set (line_of ws)" by (auto simp: list_all_iff)
  then show ?case using Cons by (simp add: printed_def str_lines_line)
qed

lemma starts_with_line: "starts_with p w \<Longrightarrow> starts_with p (line_of (w # ws))"
  by (cases ws) (auto simp: line_of_def starts_with_iff)

end
