(* ===== verification/Proc_Polls.thy ===== *)
theory Proc_Polls
  imports Proc_Fallback Printed_Text
begin

text \<open>
  What the \<open>/proc\<close> observer sees and reports: the table it reads from a printed socket table, the
  well-formedness of its table, and sequences of polls as the loop of \<open>run\<close> makes them.
\<close>

section \<open>One line\<close>

text \<open>
  A socket as the kernel prints it: ten words or more, of which the observer reads the two
  addresses, the state and the inode.
\<close>

record sock_entry =
  se_src :: u32
  se_sport :: u16
  se_dst :: u32
  se_dport :: u16
  se_state :: nat
  se_inode :: u64

definition entry_words :: "rstring \<Rightarrow> rstring list \<Rightarrow> rstring list \<Rightarrow> sock_entry \<Rightarrow> rstring list" where
  "entry_words sl mid rest e =
     [sl, addr_text (se_src e) (se_sport e), addr_text (se_dst e) (se_dport e), hex_fixed 2 (se_state e)] @ mid @
     [decimal (unat (se_inode e))] @ rest"

definition prints :: "rstring \<Rightarrow> sock_entry \<Rightarrow> bool" where
  "prints line e \<longleftrightarrow> (\<exists>sl mid rest. split_whitespace line = entry_words sl mid rest e \<and> length mid = 5)"

definition entry_key :: "sock_entry \<Rightarrow> ProcKey" where
  "entry_key e = \<lparr>pk_src_ip = se_src e, pk_src_port = se_sport e, pk_dst_ip = se_dst e, pk_dst_port = se_dport e\<rparr>"

definition key_excluded :: "EbpfConfig \<Rightarrow> ProcKey \<Rightarrow> bool" where
  "key_excluded config k \<longleftrightarrow>
     pk_src_port k \<in> set (cfg_exclude_ports config) \<or> pk_dst_port k \<in> set (cfg_exclude_ports config) \<or>
     proc_format_ip (pk_src_ip k) \<in> set (cfg_exclude_ips config) \<or> proc_format_ip (pk_dst_ip k) \<in> set (cfg_exclude_ips config)"

definition entry_state :: "sock_entry \<Rightarrow> rstring option" where
  "entry_state e = tcp_state_from_hex (hex_fixed 2 (se_state e))"

definition entry_shown :: "EbpfConfig \<Rightarrow> sock_entry \<Rightarrow> bool" where
  "entry_shown config e \<longleftrightarrow>
     entry_state e \<noteq> None \<and> entry_state e \<noteq> Some (lit ''LISTEN'') \<and> \<not> key_excluded config (entry_key e)"

text \<open>What a line contributes: nothing, or a connection with its state and inode. None is the panic.\<close>

definition read_line :: "EbpfConfig \<Rightarrow> rstring \<Rightarrow> (ProcKey \<times> rstring \<times> u64) option option" where
  "read_line config line =
     (let fields = split_whitespace line in
      if length fields < 10 then Some None
      else
        (case tcp_state_from_hex (fields ! 3) of
           None \<Rightarrow> Some None
         | Some st \<Rightarrow>
             if st = lit ''LISTEN'' then Some None
             else
               (case (parse_address (fields ! 1), parse_address (fields ! 2)) of
                  (Some (Inr (sip, sport)), Some (Inr (dip, dport))) \<Rightarrow>
                    (let key = \<lparr>pk_src_ip = sip, pk_src_port = sport, pk_dst_ip = dip, pk_dst_port = dport\<rparr> in
                     Some (if key_excluded config key then None
                           else Some (key, st, case parse_uint 10 64 (fields ! 9) of Some n \<Rightarrow> of_nat n | None \<Rightarrow> 0)))
                | (None, _) \<Rightarrow> None
                | (Some (Inr _), None) \<Rightarrow> None
                | _ \<Rightarrow> Some None)))"

definition add_socket ::
  "procfs \<Rightarrow> nat \<Rightarrow> ProcKey \<times> rstring \<times> u64 \<Rightarrow> pid_cache \<times> conn_table \<Rightarrow> pid_cache \<times> conn_table" where
  "add_socket fs now s acc =
     (case s of (key, st, inode) \<Rightarrow>
        (case find_pid_for_inode fs now inode (fst acc) of (pid, cache) \<Rightarrow>
           (cache, AList.update key \<lparr>cs_state = st, cs_pid = pid,
              cs_process_name = (if pid > 0 then get_process_name fs pid else []), cs_first_seen = now\<rparr> (snd acc))))"

lemma list_ex_excluded: "list_ex (\<lambda>ip. ip = a \<or> ip = b) ips \<longleftrightarrow> a \<in> set ips \<or> b \<in> set ips"
  by (auto simp: list_ex_iff)

lemma parse_proc_line_eq:
  "parse_proc_line config fs now line acc =
     map_option (\<lambda>r. case r of None \<Rightarrow> acc | Some s \<Rightarrow> add_socket fs now s acc) (read_line config line)"
  unfolding parse_proc_line_def read_line_def add_socket_def key_excluded_def list_ex_excluded Let_def
  by (simp split: option.split sum.split prod.split)

lemma read_printed_line:
  assumes "prints line e"
  shows "read_line config line =
    Some (if entry_shown config e then Some (entry_key e, the (entry_state e), se_inode e) else None)"
proof -
  obtain sl mid rest where w: "split_whitespace line = entry_words sl mid rest e" and m: "length mid = 5"
    using assms by (auto simp: prints_def)
  let ?f = "split_whitespace line"
  have nine: "?f ! 9 = decimal (unat (se_inode e))" using m by (simp add: w entry_words_def nth_append)
  have f: "?f ! 1 = addr_text (se_src e) (se_sport e)" "?f ! 2 = addr_text (se_dst e) (se_dport e)"
    "?f ! 3 = hex_fixed 2 (se_state e)" "\<not> length ?f < 10"
    using m by (simp_all add: w entry_words_def del: hex_fixed.simps)
  have inode: "parse_uint 10 64 (decimal (unat (se_inode e))) = Some (unat (se_inode e))"
    using unat_bound [of "se_inode e"] by (intro parse_uint_decimal) simp
  show ?thesis
    unfolding read_line_def Let_def f(1-3) nine inode parse_addr_text
    using f(4) by (simp add: entry_shown_def entry_state_def entry_key_def split: option.splits)
qed

section \<open>The table\<close>

definition sockets_of :: "EbpfConfig \<Rightarrow> sock_entry list \<Rightarrow> ProcKey \<rightharpoonup> rstring" where
  "sockets_of config es =
     fold (\<lambda>e m. if entry_shown config e then m(entry_key e := entry_state e) else m) es Map.empty"

definition table_states :: "conn_table \<Rightarrow> ProcKey \<rightharpoonup> rstring" where
  "table_states table = (\<lambda>k. map_option cs_state (map_of table k))"

lemma table_states_add:
  "table_states (snd (add_socket fs now (k, st, inode) acc)) = (table_states (snd acc))(k \<mapsto> st)"
  by (auto simp: add_socket_def table_states_def update_conv' split: prod.splits)

lemma parse_printed_lines:
  "list_all2 prints lines es \<Longrightarrow> \<exists>acc'. parse_proc_lines config fs now lines acc = Some acc' \<and>
     table_states (snd acc') =
       fold (\<lambda>e m. if entry_shown config e then m(entry_key e := entry_state e) else m) es (table_states (snd acc))"
proof (induction lines es arbitrary: acc rule: list_all2_induct)
  case (Cons line lines e es)
  let ?acc = "if entry_shown config e then add_socket fs now (entry_key e, the (entry_state e), se_inode e) acc else acc"
  have "parse_proc_line config fs now line acc = Some ?acc"
    by (simp add: parse_proc_line_eq read_printed_line [OF Cons(1)])
  moreover have "table_states (snd ?acc) =
      (if entry_shown config e then (table_states (snd acc))(entry_key e := entry_state e) else table_states (snd acc))"
    by (auto simp: table_states_add entry_shown_def)
  ultimately show ?case using Cons.IH [of ?acc] by simp
qed simp

section \<open>Well-formed tables\<close>

definition table_ok :: "EbpfConfig \<Rightarrow> conn_table \<Rightarrow> bool" where
  "table_ok config table \<longleftrightarrow> distinct (map fst table) \<and>
     (\<forall>k s. map_of table k = Some s \<longrightarrow> cs_state s \<notin> {lit ''LISTEN'', lit ''CLOSED''} \<and> \<not> key_excluded config k)"

lemma state_not_closed: "tcp_state_from_hex h = Some s \<Longrightarrow> s \<noteq> lit ''CLOSED''"
  by (auto simp: tcp_state_from_hex_def split: if_splits)

lemma read_line_ok:
  assumes "read_line config line = Some (Some (k, st, inode))"
  shows "st \<notin> {lit ''LISTEN'', lit ''CLOSED''} \<and> \<not> key_excluded config k"
  using assms state_not_closed
  by (auto simp: read_line_def Let_def split: if_splits option.splits sum.splits prod.splits)

lemma parse_proc_line_ok:
  assumes "parse_proc_line config fs now line acc = Some acc'" "table_ok config (snd acc)"
  shows "table_ok config (snd acc')"
proof -
  obtain r where r: "read_line config line = Some r" "acc' = (case r of None \<Rightarrow> acc | Some s \<Rightarrow> add_socket fs now s acc)"
    using assms(1) by (auto simp: parse_proc_line_eq)
  show ?thesis
  proof (cases r)
    case (Some s)
    obtain k st inode where s: "s = (k, st, inode)" by (cases s)
    have ok: "st \<notin> {lit ''LISTEN'', lit ''CLOSED''} \<and> \<not> key_excluded config k" using read_line_ok r(1) Some s by blast
    obtain pid cache where "find_pid_for_inode fs now inode (fst acc) = (pid, cache)" by (cases "find_pid_for_inode fs now inode (fst acc)")
    then have "\<exists>v. snd acc' = AList.update k v (snd acc) \<and> cs_state v = st"
      using r(2) by (auto simp: Some s add_socket_def)
    with ok assms(2) show ?thesis
      by (auto simp: table_ok_def update_conv' distinct_update split: if_splits dest: map_of_SomeD)
  qed (use assms r in simp)
qed

lemma parse_proc_lines_ok:
  "parse_proc_lines config fs now lines acc = Some acc' \<Longrightarrow> table_ok config (snd acc) \<Longrightarrow> table_ok config (snd acc')"
proof (induction lines arbitrary: acc)
  case (Cons line lines)
  then obtain acc1 where "parse_proc_line config fs now line acc = Some acc1"
    "parse_proc_lines config fs now lines acc1 = Some acc'" by (auto simp: bind_eq_Some_conv)
  with Cons.IH parse_proc_line_ok Cons.prems(2) show ?case by blast
qed simp

lemma parse_proc_tcp_ok:
  "parse_proc_tcp config fs now err content acc = Some (e, acc') \<Longrightarrow> table_ok config (snd acc) \<Longrightarrow> table_ok config (snd acc')"
  by (auto simp: parse_proc_tcp_def dest: parse_proc_lines_ok split: option.splits)

definition observer_ok :: "ProcObserver \<Rightarrow> bool" where
  "observer_ok obs \<longleftrightarrow> table_ok (po_config obs) (po_prev_connections obs)"

inductive collect_outcome :: "ProcObserver \<Rightarrow> (proc_error + NetworkEvent list) \<Rightarrow> ProcObserver \<Rightarrow> bool" for obs where
  failed: "collect_outcome obs (Inl e) (obs\<lparr>po_pid_cache := cache\<rparr>)"
| polled: "table_ok (po_config obs) current \<Longrightarrow>
    collect_outcome obs (Inr (diff_events (po_prev_connections obs) current))
      (obs\<lparr>po_prev_connections := current, po_pid_cache := cache\<rparr>)"

lemma collect_has_outcome: "collect fs now obs = Some (r, obs') \<Longrightarrow> collect_outcome obs r obs'"
proof -
  assume c: "collect fs now obs = Some (r, obs')"
  have empty: "table_ok (po_config obs) (snd (po_pid_cache obs, []))" by (simp add: table_ok_def)
  obtain e1 cache1 t1 where p1: "parse_proc_tcp (po_config obs) fs now Cannot_read_tcp (fs_net_tcp fs) (po_pid_cache obs, []) = Some (e1, cache1, t1)"
    using c by (auto simp: collect_def split: option.splits)
  show ?thesis
  proof (cases e1)
    case (Some e)
    then show ?thesis using c p1 failed by (auto simp: collect_def)
  next
    case None
    then obtain e2 cache2 t2 where p2: "parse_proc_tcp (po_config obs) fs now Cannot_read_tcp6 (fs_net_tcp6 fs) (cache1, t1) = Some (e2, cache2, t2)"
      using c p1 by (auto simp: collect_def split: option.splits)
    have "table_ok (po_config obs) t2"
      using parse_proc_tcp_ok [OF p2] parse_proc_tcp_ok [OF p1 empty] by simp
    then show ?thesis using c p1 p2 None failed polled by (cases e2) (auto simp: collect_def)
  qed
qed

lemma collect_ok: "collect_outcome obs r obs' \<Longrightarrow> observer_ok obs \<Longrightarrow> observer_ok obs' \<and> po_config obs' = po_config obs"
  by (induction rule: collect_outcome.induct) (auto simp: observer_ok_def)

section \<open>Sequences of polls\<close>

text \<open>
  The loop of \<open>run\<close>: the events of every successful poll are sent in order, a failed poll is
  logged and skipped.
\<close>

fun poll_all :: "(procfs \<times> nat) list \<Rightarrow> ProcObserver \<Rightarrow> (NetworkEvent list \<times> ProcObserver) option" where
  "poll_all [] obs = Some ([], obs)"
| "poll_all ((fs, now) # polls) obs =
     (case collect fs now obs of
        None \<Rightarrow> None
      | Some (Inl e, obs') \<Rightarrow> poll_all polls obs'
      | Some (Inr events, obs') \<Rightarrow> map_option (\<lambda>(es, obs''). (events @ es, obs'')) (poll_all polls obs'))"

type_synonym quad = "rstring \<times> u16 \<times> rstring \<times> u16"

definition key_quad :: "ProcKey \<Rightarrow> quad" where
  "key_quad k = (proc_format_ip (pk_src_ip k), pk_src_port k, proc_format_ip (pk_dst_ip k), pk_dst_port k)"

text \<open>What a receiver of the events believes to be open.\<close>

definition replay :: "NetworkEvent \<Rightarrow> quad set \<Rightarrow> quad set" where
  "replay e open_conns =
     (case e of
        TcpConnection sip sport dip dport st _ _ \<Rightarrow>
          if st = lit ''CLOSED'' then open_conns - {(sip, sport, dip, dport)} else insert (sip, sport, dip, dport) open_conns
      | _ \<Rightarrow> open_conns)"

lemma key_quad_inject: "key_quad a = key_quad b \<longleftrightarrow> a = b"
  by (cases a, cases b) (auto simp: key_quad_def proc_format_ip_inject)

lemma replay_opened:
  "list_all (\<lambda>kv. cs_state (snd kv) \<noteq> lit ''CLOSED'') kvs \<Longrightarrow>
     fold replay (map opened_event kvs) S = S \<union> key_quad ` fst ` set kvs"
  by (induction kvs arbitrary: S) (auto simp: replay_def opened_event_def key_quad_def)

lemma replay_closed: "fold replay (map closed_event kvs) S = S - key_quad ` fst ` set kvs"
  by (induction kvs arbitrary: S) (auto simp: replay_def closed_event_def key_quad_def)

definition open_keys :: "conn_table \<Rightarrow> ProcKey set" where
  "open_keys table = fst ` set table"

lemma open_keys_dom: "open_keys table = dom (map_of table)"
  by (simp add: open_keys_def dom_map_of_conv_image_fst)

lemma table_ok_in:
  "table_ok config table \<Longrightarrow> kv \<in> set table \<Longrightarrow> cs_state (snd kv) \<notin> {lit ''LISTEN'', lit ''CLOSED''}"
  by (cases kv) (auto simp: table_ok_def)

lemma new_keys:
  assumes "table_ok config table"
  shows "fst ` set (filter (\<lambda>kv. \<not> contains_key other (fst kv) \<and> cs_state (snd kv) \<noteq> lit ''LISTEN'') table) =
    open_keys table - open_keys other"
proof -
  have "contains_key other k \<longleftrightarrow> k \<in> open_keys other" for k by (auto simp: contains_key_def open_keys_dom)
  then show ?thesis using table_ok_in [OF assms] by (auto simp: open_keys_def image_iff)
qed

lemma replay_diff:
  assumes "table_ok config prev" "table_ok config current"
  shows "fold replay (diff_events prev current) (key_quad ` open_keys prev) = key_quad ` open_keys current"
proof -
  have "list_all (\<lambda>kv. cs_state (snd kv) \<noteq> lit ''CLOSED'')
      (filter (\<lambda>kv. \<not> contains_key prev (fst kv) \<and> cs_state (snd kv) \<noteq> lit ''LISTEN'') current)"
    using table_ok_in [OF assms(2)] by (auto simp: list_all_iff)
  then have "fold replay (diff_events prev current) S =
      S \<union> key_quad ` (open_keys current - open_keys prev) - key_quad ` (open_keys prev - open_keys current)" for S
    by (simp only: diff_events_def fold_append comp_def replay_opened replay_closed new_keys [OF assms(1)] new_keys [OF assms(2)])
  then show ?thesis by (auto simp: key_quad_inject)
qed

lemma poll_all_replay:
  "poll_all polls obs = Some (events, obs') \<Longrightarrow> observer_ok obs \<Longrightarrow>
     observer_ok obs' \<and> fold replay events (key_quad ` open_keys (po_prev_connections obs)) =
       key_quad ` open_keys (po_prev_connections obs')"
proof (induction polls arbitrary: obs events)
  case (Cons p polls)
  obtain fs now where p: "p = (fs, now)" by (cases p)
  obtain r obs1 where c: "collect fs now obs = Some (r, obs1)" using Cons.prems(1) by (auto simp: p split: option.splits)
  from collect_has_outcome [OF c] Cons.prems show ?case
  proof (cases rule: collect_outcome.cases)
    case (failed e cache)
    then show ?thesis using Cons.IH [of obs1 events] Cons.prems by (simp add: p c observer_ok_def)
  next
    case (polled current cache)
    obtain es where es: "poll_all polls obs1 = Some (es, obs')" "events = diff_events (po_prev_connections obs) current @ es"
      using Cons.prems(1) polled(1) by (auto simp: p c)
    have "observer_ok obs1" using polled(2,3) by (simp add: observer_ok_def)
    then show ?thesis
      using Cons.IH [OF es(1)] replay_diff [OF Cons.prems(2) [unfolded observer_ok_def] polled(3)] polled(2)
      by (simp add: es(2))
  qed
qed simp

lemma collect_total:
  assumes "\<And>s. fs_net_tcp fs = Some s \<Longrightarrow> ascii_text s" "\<And>s. fs_net_tcp6 fs = Some s \<Longrightarrow> ascii_text s"
  shows "\<exists>r obs'. collect fs now obs = Some (r, obs') \<and>
    (case r of
       Inl Cannot_read_tcp \<Rightarrow> fs_net_tcp fs = None
     | Inl Cannot_read_tcp6 \<Rightarrow> fs_net_tcp fs \<noteq> None \<and> fs_net_tcp6 fs = None
     | Inr _ \<Rightarrow> fs_net_tcp fs \<noteq> None \<and> fs_net_tcp6 fs \<noteq> None)"
proof -
  let ?p1 = "parse_proc_tcp (po_config obs) fs now Cannot_read_tcp (fs_net_tcp fs) (po_pid_cache obs, [])"
  obtain cache1 t1 where p1: "?p1 = Some (if fs_net_tcp fs = None then Some Cannot_read_tcp else None, cache1, t1)"
    using parse_proc_tcp_ascii [of "fs_net_tcp fs" "po_config obs" fs now Cannot_read_tcp "(po_pid_cache obs, [])"] assms(1)
    by auto
  let ?p2 = "parse_proc_tcp (po_config obs) fs now Cannot_read_tcp6 (fs_net_tcp6 fs) (cache1, t1)"
  obtain cache2 t2 where p2: "?p2 = Some (if fs_net_tcp6 fs = None then Some Cannot_read_tcp6 else None, cache2, t2)"
    using parse_proc_tcp_ascii [of "fs_net_tcp6 fs" "po_config obs" fs now Cannot_read_tcp6 "(cache1, t1)"] assms(2)
    by auto
  show ?thesis unfolding collect_def p1 using p2 by (simp split: option.split if_split)
qed

section \<open>Process ids\<close>

lemma find_pid_source:
  "fst (find_pid_for_inode fs now inode cache) = 0 \<and> inode = 0 \<or>
   (\<exists>entry. cache inode = Some entry \<and> now - pc_inserted_at entry < PID_CACHE_TTL \<and>
      find_pid_for_inode fs now inode cache = (pc_pid entry, cache)) \<or>
   fst (find_pid_for_inode fs now inode cache) =
     scan_proc_fds_for_inode fs (lit ''socket:['' @ decimal (unat inode) @ lit '']'')"
  by (auto simp: find_pid_for_inode_def Let_def split: option.splits)

lemma scan_finds_owner:
  assumes "scan_proc_fds_for_inode fs target = pid" "pid \<noteq> 0"
  shows "\<exists>links. fs_fds fs pid = Some links \<and> Some target \<in> set links"
proof -
  have "scan_entries fs target es = pid \<Longrightarrow> \<exists>links. fs_fds fs pid = Some links \<and> Some target \<in> set links" for es
    using assms(2) by (induction fs target es rule: scan_entries.induct)
      (auto simp: Let_def split: option.splits if_splits)
  then show ?thesis using assms by (auto simp: scan_proc_fds_for_inode_def split: option.splits)
qed

section \<open>Properties\<close>

definition example_config :: EbpfConfig where
  "example_config = \<lparr>cfg_enabled = True, cfg_tcp_connections = True, cfg_dns_resolution = False, cfg_http_inspection = False,
     cfg_db_inspection = False, cfg_exclude_ports = [22], cfg_exclude_ips = [], cfg_ring_buffer_size_kb = default_ring_buffer_size_kb,
     cfg_poll_interval_ms = default_poll_interval_ms, cfg_fallback_to_proc = default_fallback_to_proc\<rparr>"

definition example_entry :: sock_entry where
  "example_entry = \<lparr>se_src = 0x0100007F, se_sport = 0xC000, se_dst = 0x0200000A, se_dport = 443, se_state = 1, se_inode = 67890\<rparr>"

definition example_line :: rstring where
  "example_line = join_with (lit '' '') (entry_words (lit ''1:'') (replicate 5 (lit ''0'')) [] example_entry)"

definition example_table :: rstring where
  "example_table = lit ''sl'' @ [10] @ example_line @ [10]"

definition example_fs :: "rstring option \<Rightarrow> procfs" where
  "example_fs tcp6 = \<lparr>fs_net_tcp = Some example_table, fs_net_tcp6 = tcp6, fs_dir = None, fs_fds = (\<lambda>_. None), fs_comm = (\<lambda>_. None)\<rparr>"

lemma visible_addr: "visible (addr_text ip port)"
  using visible_hex [of 8 "unat ip"] visible_hex [of 4 "unat port"] by (simp add: visible_def addr_text_def)

abbreviation example_words :: "rstring list" where
  "example_words \<equiv> entry_words (lit ''1:'') (replicate 5 (lit ''0'')) [] example_entry"

lemma example_visible: "list_all visible example_words"
  using visible_hex visible_decimal visible_addr by (simp add: entry_words_def visible_def [of "[49, 58]"] visible_def [of "[48]"] list_all_iff del: hex_fixed.simps)

lemma example_prints: "prints example_line example_entry"
proof -
  have "list_all is_word example_words" using example_visible visible_word by (auto simp: list_all_iff)
  then have "split_whitespace example_line = example_words" unfolding example_line_def by (rule split_whitespace_join)
  then show ?thesis unfolding prints_def by (metis length_replicate)
qed

lemma example_lines: "str_lines example_table = [lit ''sl'', example_line]" "ascii_text example_table"
proof -
  have c: "list_all (\<lambda>c. 32 \<le> c \<and> c \<le> 126) example_line"
    unfolding example_line_def by (rule join_chars [OF example_visible])
  then have "10 \<notin> set example_line" "13 \<notin> set example_line" by (auto simp: list_all_iff)
  then show "str_lines example_table = [lit ''sl'', example_line]"
    using str_lines_line [of "lit ''sl''"] by (simp add: example_table_def str_lines_line) (simp add: str_lines_def)
  show "ascii_text example_table" using c by (auto simp: example_table_def ascii_text_def list_all_iff)
qed

text \<open>
  Addresses are read as the kernel prints them: an IPv4 address and port printed with eight and
  four hexadecimal digits are read back exactly, of an IPv6 address the last 32 bits are kept, and
  the dotted quad shown is the one the kernel-side consumers show for the same socket.
\<close>

lemma proc_address_roundtrip:
  "parse_address (addr_text ip port) = Some (Inr (ip, port)) \<and>
   parse_address (addr6_text [a, b, c, d] port) = Some (Inr (d, port)) \<and> proc_format_ip ip = format_ip ip"
  by (simp add: parse_addr_text parse_addr6_text proc_format_ip_eq)

text \<open>
  C33. The socket table is read completely: if the lines after the header are printed sockets, in
  any state and with any other columns, the observer's table has exactly the connections whose state
  it knows, that are not listening and whose ports and addresses are not excluded, each with the
  state of its last line.
\<close>

theorem proc_table_read:
  assumes "list_all2 prints (drop 1 (str_lines content)) es"
  shows "\<exists>cache' table. parse_proc_tcp config fs now err (Some content) (cache, []) = Some (None, cache', table) \<and>
    table_states table = sockets_of config es"
  using parse_printed_lines [OF assms, of config fs now "(cache, [])"]
  by (auto simp: parse_proc_tcp_def sockets_of_def table_states_def)

theorem proc_table_read_witness:
  "\<exists>cache' table. parse_proc_tcp example_config (example_fs None) 0 Cannot_read_tcp (Some example_table) (Map.empty, []) =
     Some (None, cache', table) \<and> table_states table = [entry_key example_entry \<mapsto> lit ''ESTABLISHED'']"
proof -
  have "hex_fixed 2 1 = lit ''01''" by (simp add: numeral_2_eq_2 hex_digit_def)
  then have st: "entry_state example_entry = Some (lit ''ESTABLISHED'')"
    by (simp add: entry_state_def example_entry_def tcp_state_from_hex_def del: hex_fixed.simps)
  then have shown: "entry_shown example_config example_entry"
    by (simp add: entry_shown_def key_excluded_def entry_key_def example_config_def example_entry_def)
  have "list_all2 prints (drop 1 (str_lines example_table)) [example_entry]"
    by (simp add: example_lines example_prints)
  from proc_table_read [OF this, of example_config "example_fs None" 0 Cannot_read_tcp Map.empty] show ?thesis
    by (simp add: sockets_of_def shown st)
qed

lemma example_polls:
  "\<exists>events obs. poll_all [(example_fs (Some []), 0), (example_fs None, 1)] (ProcObserver_new example_config) = Some (events, obs)"
proof -
  have a: "\<exists>r o1. collect (example_fs x) n o0 = Some (r, o1)" if "x = None \<or> x = Some []" for x n o0
    using collect_total [of "example_fs x" n o0] that example_lines(2) by (auto simp: example_fs_def ascii_text_def)
  obtain r1 o1 where r1: "collect (example_fs (Some [])) 0 (ProcObserver_new example_config) = Some (r1, o1)" using a by blast
  obtain r2 o2 where r2: "collect (example_fs None) 1 o1 = Some (r2, o2)" using a by blast
  show ?thesis using r1 r2 by (cases r1; cases r2) simp_all
qed

text \<open>
  C6. The events tell the truth: over any sequence of polls from a new observer, failed ones
  included, replaying the events (a state opens a connection, CLOSED closes it) gives exactly the
  connections of the observer's table, and that table has no connection twice, none that is listening
  and none that is excluded.
\<close>

theorem proc_events_replay:
  assumes "poll_all polls (ProcObserver_new config) = Some (events, obs)"
  shows "fold replay events {} = key_quad ` {k. contains_key (po_prev_connections obs) k} \<and> observer_ok obs"
proof -
  have "observer_ok (ProcObserver_new config)" by (simp add: observer_ok_def ProcObserver_new_def table_ok_def)
  moreover have "{k. contains_key t k} = open_keys t" for t by (auto simp: contains_key_def open_keys_dom)
  ultimately show ?thesis using poll_all_replay [OF assms] by (simp add: ProcObserver_new_def open_keys_def)
qed

theorem proc_events_replay_witness:
  "\<exists>events obs. poll_all [(example_fs (Some []), 0), (example_fs None, 1)] (ProcObserver_new example_config) = Some (events, obs) \<and>
     fold replay events {} = key_quad ` {k. contains_key (po_prev_connections obs) k}"
  using example_polls proc_events_replay [of _ example_config] by blast

text \<open>
  How a poll fails: on ASCII tables a poll never panics. It fails with an error if and only
  if one of the two tables cannot be read, and then it reports nothing and keeps the table of
  connections; in particular it never succeeds on a system without IPv6, where the second table
  does not exist.
\<close>

lemma proc_poll_errors:
  assumes "\<And>s. fs_net_tcp fs = Some s \<Longrightarrow> ascii_text s" "\<And>s. fs_net_tcp6 fs = Some s \<Longrightarrow> ascii_text s"
  shows "\<exists>r obs'. collect fs now obs = Some (r, obs') \<and>
    (r = Inl Cannot_read_tcp \<longleftrightarrow> fs_net_tcp fs = None) \<and>
    (r = Inl Cannot_read_tcp6 \<longleftrightarrow> fs_net_tcp fs \<noteq> None \<and> fs_net_tcp6 fs = None) \<and>
    (\<forall>e. r = Inl e \<longrightarrow> po_prev_connections obs' = po_prev_connections obs)"
proof -
  obtain r obs' where c: "collect fs now obs = Some (r, obs')"
    and r: "case r of
       Inl Cannot_read_tcp \<Rightarrow> fs_net_tcp fs = None
     | Inl Cannot_read_tcp6 \<Rightarrow> fs_net_tcp fs \<noteq> None \<and> fs_net_tcp6 fs = None
     | Inr _ \<Rightarrow> fs_net_tcp fs \<noteq> None \<and> fs_net_tcp6 fs \<noteq> None"
    using collect_total [of fs now obs] assms by blast
  from collect_has_outcome [OF c] have "po_prev_connections obs' = po_prev_connections obs" if "r = Inl e" for e
    using that by (cases rule: collect_outcome.cases) simp_all
  then show ?thesis using c r by (auto split: sum.splits proc_error.splits)
qed

lemma proc_poll_errors_example:
  "\<exists>r obs'. collect (example_fs None) 0 (ProcObserver_new example_config) = Some (r, obs') \<and> r = Inl Cannot_read_tcp6"
  using proc_poll_errors [of "example_fs None" 0 "ProcObserver_new example_config"] example_lines(2)
  by (auto simp: example_fs_def)

text \<open>IPv6 connections that differ outside the last 32 bits of an address are one connection to the observer.\<close>

lemma ipv6_addresses_merged:
  "parse_address (addr6_text [a, b, c, d] port) = parse_address (addr6_text [a', b', c', d] port)"
  by (simp add: parse_addr6_text)

end
