(* ===== verification/Client_Backlog.thy ===== *)
theory Client_Backlog
  imports Edge_Spec Proc_Polls
begin

text \<open>
  The part of the agent's client that the observers use (\<open>communication/mod.rs\<close> and \<open>send\<close> of
  \<open>communication/grpc_client.rs\<close>): sending raw data with buffering, sending a batch of network events,
  and flushing the edge buffer; and the \<open>/proc\<close> loop that sends through it. \<open>send\<close> puts the data
  into a bounded channel whose receiving end the client keeps and no code reads, so a send on a full
  channel waits for ever: None. The answers of \<open>is_connected\<close>, the RPC, the JSON serialiser and the
  compressor are arguments.
\<close>

section \<open>The raw channel\<close>

definition CHANNEL_CAPACITY :: nat where
  "CHANNEL_CAPACITY = 1024"

record client =
  cl_channel :: "bytes list"
  cl_messages_sent :: u64
  cl_sequence_counter :: u64
  cl_buffer :: EdgeBuffer

definition Client_new :: "EdgeBuffer \<Rightarrow> client" where
  "Client_new buffer = \<lparr>cl_channel = [], cl_messages_sent = 0, cl_sequence_counter = 1, cl_buffer = buffer\<rparr>"

text \<open>True: queued; False: the error that the client is not connected.\<close>

definition grpc_send :: "bool \<Rightarrow> bytes \<Rightarrow> client \<Rightarrow> (bool \<times> client) option" where
  "grpc_send connected data cl =
     (if \<not> connected then Some (False, cl)
      else if length (cl_channel cl) < CHANNEL_CAPACITY
      then Some (True, cl\<lparr>cl_channel := cl_channel cl @ [data], cl_messages_sent := cl_messages_sent cl + 1\<rparr>)
      else None)"

section \<open>Sending\<close>

record send_env =
  se_write :: write_env
  se_connected :: bool \<comment> \<open>the test before the send\<close>
  se_still_connected :: bool \<comment> \<open>the test inside \<open>send\<close>\<close>

definition next_sequence :: "client \<Rightarrow> client" where
  "next_sequence cl = cl\<lparr>cl_sequence_counter := cl_sequence_counter cl + 1\<rparr>"

definition buffer_data :: "bincode \<Rightarrow> write_env \<Rightarrow> bytes \<Rightarrow> DataType \<Rightarrow> client \<Rightarrow> client" where
  "buffer_data bc env data t cl = cl\<lparr>cl_buffer := snd (buffer_write bc env data t (cl_buffer cl))\<rparr>"

text \<open>A failed send is only logged; the data stays in the buffer whether the send succeeds or not.\<close>

definition send_buffered :: "bincode \<Rightarrow> send_env \<Rightarrow> DataType \<Rightarrow> bytes \<Rightarrow> client \<Rightarrow> client option" where
  "send_buffered bc env t data cl =
     (let cl = buffer_data bc (se_write env) data t cl in
      if se_connected env then map_option snd (grpc_send (se_still_connected env) data cl) else Some cl)"

definition send_events :: "bincode \<Rightarrow> send_env \<Rightarrow> bytes \<Rightarrow> client \<Rightarrow> client option" where
  "send_events bc env data cl = send_buffered bc env Events data (next_sequence cl)"

definition send_network_events :: "bincode \<Rightarrow> send_env \<Rightarrow> bytes \<Rightarrow> client \<Rightarrow> client option" where
  "send_network_events bc env data cl = send_buffered bc env NetworkEvents data (next_sequence cl)"

text \<open>The inner option is None if the compressor fails, which is returned as an error.\<close>

definition send_traces :: "(bytes \<Rightarrow> bytes option) \<Rightarrow> bincode \<Rightarrow> send_env \<Rightarrow> bytes \<Rightarrow> client \<Rightarrow> (bool \<times> client) option" where
  "send_traces compress bc env data cl =
     (let cl = next_sequence cl in
      case compress data of
        None \<Rightarrow> Some (False, cl)
      | Some compressed \<Rightarrow> map_option (Pair True) (send_buffered bc env Traces compressed cl))"

text \<open>
  The cluster answers a batch with the numbers of its events it accepted and rejected; a call that fails
  has no answer. The caller logs the numbers and returns: the result here is the answer of the call, None
  if there was no call or it failed.
\<close>

type_synonym i64 = "64 word" \<comment> \<open>its value is \<open>sint\<close>\<close>

record NetworkEventResponse =
  nr_accepted_count :: i64
  nr_rejected_count :: i64
  nr_rejection_reasons :: "i32 \<rightharpoonup> rstring"

definition send_network_events_proto ::
  "(u64 \<Rightarrow> NetworkEvent list \<Rightarrow> NetworkEventResponse option) \<Rightarrow> (NetworkEvent list \<Rightarrow> bytes option) \<Rightarrow> bincode \<Rightarrow>
   send_env \<Rightarrow> NetworkEvent list \<Rightarrow> client \<Rightarrow> NetworkEventResponse option \<times> client" where
  "send_network_events_proto rpc to_json bc env events cl =
     (let seq = cl_sequence_counter cl; cl = next_sequence cl in
      case (if se_connected env then rpc seq events else None) of
        Some response \<Rightarrow> (Some response, cl)
      | None \<Rightarrow>
          (case to_json events of
             None \<Rightarrow> (None, cl)
           | Some data \<Rightarrow> (None, buffer_data bc (se_write env) data NetworkEvents cl)))"

section \<open>Flushing\<close>

record flush_env =
  fe_now :: nat
  fe_drain_ok :: bool
  fe_connected :: "nat \<Rightarrow> bool" \<comment> \<open>at the i-th send\<close>
  fe_mark_ok :: "nat \<Rightarrow> bool"
  fe_mark_epoch :: int

text \<open>Acknowledging an entry that came from the database; a failure is only logged.\<close>

definition acknowledge :: "(int \<Rightarrow> EdgeBuffer \<Rightarrow> EdgeBuffer option) \<Rightarrow> BufferEntry \<Rightarrow> client \<Rightarrow> client" where
  "acknowledge mark e cl =
     (case be_sqlite_row_id e of
        None \<Rightarrow> cl
      | Some row_id \<Rightarrow> cl\<lparr>cl_buffer := unless_failed (mark row_id) (cl_buffer cl)\<rparr>)"

fun send_entries :: "flush_env \<Rightarrow> nat \<Rightarrow> BufferEntry list \<Rightarrow> client \<Rightarrow> client option" where
  "send_entries env i [] cl = Some cl"
| "send_entries env i (e # entries) cl =
     (case grpc_send (fe_connected env i) (be_data e) cl of
        None \<Rightarrow> None
      | Some (True, cl) \<Rightarrow>
          send_entries env (i + 1) entries (acknowledge (mark_sent (fe_mark_epoch env) (fe_mark_ok env i)) e cl)
      | Some (False, cl) \<Rightarrow> Some (acknowledge (mark_retry (fe_mark_ok env i)) e cl))"

definition flush_buffer :: "bincode \<Rightarrow> flush_env \<Rightarrow> client \<Rightarrow> client option" where
  "flush_buffer bc env cl =
     (let (entries, buffer) = drain bc (fe_now env) (fe_drain_ok env) (cl_buffer cl);
          cl = cl\<lparr>cl_buffer := buffer\<rparr>
      in if length entries = 0 then Some cl else send_entries env 0 entries cl)"

definition upload_backlog_stream :: "bincode \<Rightarrow> flush_env \<Rightarrow> client \<Rightarrow> client option" where
  "upload_backlog_stream bc env cl =
     (let (entries, buffer) = drain bc (fe_now env) (fe_drain_ok env) (cl_buffer cl);
          cl = cl\<lparr>cl_buffer := buffer\<rparr>
      in if length entries = 0 then Some cl else send_entries env 0 entries cl)"

section \<open>Operations\<close>

datatype client_op =
    Send_events send_env bytes
  | Send_network_events send_env bytes
  | Send_traces "bytes option" send_env \<comment> \<open>the compressor's result\<close>
  | Send_batch "NetworkEventResponse option" "bytes option" send_env \<comment> \<open>the answers of the RPC and of the serialiser\<close>
  | Flush flush_env
  | Upload flush_env

fun client_step :: "bincode \<Rightarrow> client_op \<Rightarrow> client \<Rightarrow> client option" where
  "client_step bc (Send_events env data) cl = send_events bc env data cl"
| "client_step bc (Send_network_events env data) cl = send_network_events bc env data cl"
| "client_step bc (Send_traces compressed env) cl = map_option snd (send_traces (\<lambda>_. compressed) bc env [] cl)"
| "client_step bc (Send_batch answer json env) cl =
     Some (snd (send_network_events_proto (\<lambda>_ _. answer) (\<lambda>_. json) bc env [] cl))"
| "client_step bc (Flush env) cl = flush_buffer bc env cl"
| "client_step bc (Upload env) cl = upload_backlog_stream bc env cl"

fun client_run :: "bincode \<Rightarrow> client_op list \<Rightarrow> client \<Rightarrow> client option" where
  "client_run bc [] cl = Some cl"
| "client_run bc (op # ops) cl = Option.bind (client_step bc op cl) (client_run bc ops)"

text \<open>The \<open>/proc\<close> loop with its sends; the k-th event sent uses the k-th answers.\<close>

datatype proc_outcome =
    Polled nat client ProcObserver
  | Not_serialised
  | Waits_forever
  | Panics

fun proc_send_all ::
  "(NetworkEvent \<Rightarrow> bytes option) \<Rightarrow> bincode \<Rightarrow> (nat \<Rightarrow> send_env) \<Rightarrow> nat \<Rightarrow> NetworkEvent list \<Rightarrow> client \<Rightarrow> (bool \<times> client) option" where
  "proc_send_all to_json bc env k [] cl = Some (True, cl)"
| "proc_send_all to_json bc env k (event # events) cl =
     (case to_json event of
        None \<Rightarrow> Some (False, cl)
      | Some data \<Rightarrow>
          (case send_network_events bc (env k) data cl of
             None \<Rightarrow> None
           | Some cl \<Rightarrow> proc_send_all to_json bc env (k + 1) events cl))"

fun proc_run ::
  "(NetworkEvent \<Rightarrow> bytes option) \<Rightarrow> bincode \<Rightarrow> (nat \<Rightarrow> send_env) \<Rightarrow> nat \<Rightarrow> (procfs \<times> nat) list \<Rightarrow> client \<Rightarrow> ProcObserver \<Rightarrow> proc_outcome" where
  "proc_run to_json bc env k [] cl obs = Polled k cl obs"
| "proc_run to_json bc env k ((fs, now) # polls) cl obs =
     (case collect fs now obs of
        None \<Rightarrow> Panics
      | Some (Inl e, obs) \<Rightarrow> proc_run to_json bc env k polls cl obs
      | Some (Inr events, obs) \<Rightarrow>
          (case proc_send_all to_json bc env k events cl of
             None \<Rightarrow> Waits_forever
           | Some (False, cl) \<Rightarrow> Not_serialised
           | Some (True, cl) \<Rightarrow> proc_run to_json bc env (k + length events) polls cl obs))"

section \<open>The channel fills\<close>

text \<open>How the channel and its counter may move.\<close>

definition channel_grows :: "client \<Rightarrow> client \<Rightarrow> bool" where
  "channel_grows cl cl' \<longleftrightarrow> (\<exists>new. cl_channel cl' = cl_channel cl @ new \<and>
     cl_messages_sent cl' = cl_messages_sent cl + of_nat (length new) \<and>
     (length (cl_channel cl) \<le> CHANNEL_CAPACITY \<longrightarrow> length (cl_channel cl') \<le> CHANNEL_CAPACITY))"

lemma channel_grows_refl: "cl_channel cl' = cl_channel cl \<Longrightarrow> cl_messages_sent cl' = cl_messages_sent cl \<Longrightarrow> channel_grows cl cl'"
  by (auto simp: channel_grows_def)

lemma channel_grows_trans [trans]: "channel_grows a b \<Longrightarrow> channel_grows b c \<Longrightarrow> channel_grows a c"
  unfolding channel_grows_def by (clarsimp simp: algebra_simps)

lemma grpc_send_grows: "grpc_send connected data cl = Some (ok, cl') \<Longrightarrow> channel_grows cl cl'"
  by (auto simp: grpc_send_def channel_grows_def split: if_splits)

lemma channel_fields [simp]:
  "cl_channel (next_sequence cl) = cl_channel cl" "cl_messages_sent (next_sequence cl) = cl_messages_sent cl"
  "cl_channel (buffer_data bc env data t cl) = cl_channel cl" "cl_messages_sent (buffer_data bc env data t cl) = cl_messages_sent cl"
  "cl_channel (acknowledge mark e cl) = cl_channel cl" "cl_messages_sent (acknowledge mark e cl) = cl_messages_sent cl"
  by (simp_all add: next_sequence_def buffer_data_def acknowledge_def split: option.splits)

lemma send_buffered_grows: "send_buffered bc env t data cl = Some cl' \<Longrightarrow> channel_grows cl cl'"
proof -
  have start: "channel_grows cl (buffer_data bc (se_write env) data t cl)" by (rule channel_grows_refl) simp_all
  assume "send_buffered bc env t data cl = Some cl'"
  then show ?thesis using channel_grows_trans [OF start grpc_send_grows] start
    by (auto simp: send_buffered_def Let_def split: if_splits)
qed

lemma send_entries_grows: "send_entries env i entries cl = Some cl' \<Longrightarrow> channel_grows cl cl'"
proof (induction entries arbitrary: i cl)
  case (Cons e entries)
  obtain ok cl1 where s: "grpc_send (fe_connected env i) (be_data e) cl = Some (ok, cl1)"
    using Cons.prems by (auto split: option.splits)
  have grows: "channel_grows cl (acknowledge mark e cl1)" for mark
    by (rule channel_grows_trans [OF grpc_send_grows [OF s]]) (rule channel_grows_refl; simp)
  show ?case using Cons.prems s channel_grows_trans [OF grows Cons.IH] grows by (cases ok) auto
qed (simp add: channel_grows_refl)

lemma flush_grows:
  assumes "(case drain bc now ok (cl_buffer cl) of (entries, buffer) \<Rightarrow>
    if length entries = 0 then Some (cl\<lparr>cl_buffer := buffer\<rparr>) else send_entries env 0 entries (cl\<lparr>cl_buffer := buffer\<rparr>)) = Some cl'"
  shows "channel_grows cl cl'"
proof -
  obtain entries buffer where d: "drain bc now ok (cl_buffer cl) = (entries, buffer)" by fastforce
  have "channel_grows cl (cl\<lparr>cl_buffer := buffer\<rparr>)" by (rule channel_grows_refl) simp_all
  then show ?thesis using assms channel_grows_trans [OF _ send_entries_grows] by (auto simp: d split: if_splits)
qed

lemma client_step_grows: "client_step bc op cl = Some cl' \<Longrightarrow> channel_grows cl cl'"
proof -
  have n: "channel_grows (next_sequence cl) c \<Longrightarrow> channel_grows cl c" for c by (simp add: channel_grows_def)
  assume "client_step bc op cl = Some cl'"
  then show ?thesis
    by (cases op) (auto simp: send_events_def send_network_events_def send_traces_def send_network_events_proto_def
        flush_buffer_def upload_backlog_stream_def Let_def channel_grows_refl
        intro: n [OF send_buffered_grows] flush_grows split: option.splits if_splits)
qed

lemma client_run_grows: "client_run bc ops cl = Some cl' \<Longrightarrow> channel_grows cl cl'"
proof (induction ops arbitrary: cl)
  case (Cons op ops)
  then obtain cl1 where "client_step bc op cl = Some cl1" "client_run bc ops cl1 = Some cl'"
    by (auto simp: Option.bind_eq_Some_conv)
  then show ?case using channel_grows_trans [OF client_step_grows Cons.IH] by blast
qed (simp add: channel_grows_refl)

end
