(* ===== verification/Senders.thy ===== *)
theory Senders
  imports Client_Backlog
begin

text \<open>
  The two contracts the senders of the agent meet. A keeping sender gives what it sends to the cluster or
  writes it to the edge buffer; a queueing sender puts it into the raw channel and waits if that is full.
  The consequences for any sequence of sends are proved once.
\<close>

fun run_sends :: "('x \<Rightarrow> 's \<Rightarrow> ('r \<times> 's) option) \<Rightarrow> 'x list \<Rightarrow> 's \<Rightarrow> ('r list \<times> 's) option" where
  "run_sends send [] s = Some ([], s)"
| "run_sends send (x # xs) s =
     (case send x s of None \<Rightarrow> None | Some (r, s) \<Rightarrow> map_option (\<lambda>(rs, s). (r # rs, s)) (run_sends send xs s))"

lemma run_sends_Cons:
  assumes "run_sends send (x # xs) s = Some (rs, s')"
  obtains r s1 rs' where "send x s = Some (r, s1)" "run_sends send xs s1 = Some (rs', s')" "rs = r # rs'"
  using assms by (auto split: option.splits)

lemma run_sends_length: "run_sends send xs s = Some (rs, s') \<Longrightarrow> length rs = length xs"
  by (induction xs arbitrary: s rs) (auto split: option.splits)

lemma run_sends_keeps:
  assumes "\<And>x s r s'. send x s = Some (r, s') \<Longrightarrow> f s' = f s"
  shows "run_sends send xs s = Some (rs, s') \<Longrightarrow> f s' = f s"
proof (induction xs arbitrary: s rs)
  case (Cons x xs)
  from Cons.prems obtain r s1 rs' where s: "send x s = Some (r, s1)" "run_sends send xs s1 = Some (rs', s')" "rs = r # rs'"
    by (rule run_sends_Cons)
  show ?case using Cons.IH [OF s(2)] assms [OF s(1)] by simp
qed simp

section \<open>Delivered or kept\<close>

text \<open>The writes to the edge buffer for what was not taken.\<close>

fun kept :: "('x \<Rightarrow> write_env \<times> bytes \<times> DataType) \<Rightarrow> ('r \<Rightarrow> bool) \<Rightarrow> 'x list \<Rightarrow> 'r list \<Rightarrow> buffer_op list" where
  "kept entry taken (x # xs) (r # rs) =
     (if taken r then kept entry taken xs rs
      else (case entry x of (env, d, t) \<Rightarrow> Write env d t # kept entry taken xs rs))"
| "kept entry taken _ _ = []"

lemma kept_in_order: "list_all in_order (kept entry taken xs rs)"
  by (induction entry taken xs rs rule: kept.induct) (simp_all add: in_order_def split: prod.splits)

lemma kept_numbered:
  "length rs = length xs \<Longrightarrow> map snd (numbered seq (writes (kept entry taken xs rs))) =
     map (\<lambda>(x, r). snd (entry x)) (filter (\<lambda>(x, r). \<not> taken r) (zip xs rs))"
  by (induction entry taken xs rs arbitrary: seq rule: kept.induct) (auto split: prod.splits)

locale keeping_sender =
  fixes send :: "'x \<Rightarrow> 's \<Rightarrow> ('r \<times> 's) option" and buffer :: "'s \<Rightarrow> EdgeBuffer" and taken :: "'r \<Rightarrow> bool"
    and accepted :: "'x \<Rightarrow> bool" and entry :: "'x \<Rightarrow> write_env \<times> bytes \<times> DataType" and bc :: bincode
  assumes delivers: "send x s = Some (r, s') \<Longrightarrow> taken r \<Longrightarrow> buffer s' = buffer s \<and> accepted x"
    and keeps: "send x s = Some (r, s') \<Longrightarrow> \<not> taken r \<Longrightarrow>
      buffer s' = (case entry x of (env, d, t) \<Rightarrow> snd (buffer_write bc env d t (buffer s)))"
begin

lemma run_kept:
  "run_sends send xs s = Some (rs, s') \<Longrightarrow>
     buffer s' = snd (run_outputs (buffer_step bc) (kept entry taken xs rs) (buffer s)) \<and>
     fst (run_outputs (buffer_step bc) (kept entry taken xs rs) (buffer s)) = map (\<lambda>op. (op, [])) (kept entry taken xs rs) \<and>
     list_all2 (\<lambda>x r. taken r \<longrightarrow> accepted x) xs rs"
proof (induction xs arbitrary: s rs)
  case (Cons x xs)
  from Cons.prems obtain r s1 rs' where s: "send x s = Some (r, s1)" "run_sends send xs s1 = Some (rs', s')" "rs = r # rs'"
    by (rule run_sends_Cons)
  obtain env d t where e: "entry x = (env, d, t)" using prod_cases3 by blast
  show ?case using Cons.IH [OF s(2)] delivers [OF s(1)] keeps [OF s(1)] by (auto simp: s(3) e Let_def split: prod.splits)
qed simp

lemma delivered_or_kept:
  assumes "run_sends send xs s = Some (rs, s')" "buffer s = EdgeBuffer_new init ec"
    and "ec_sqlite_path ec = None" "unat (ec_max_memory_bytes ec) < 2 ^ 62"
    and "write_total (kept entry taken xs rs) \<le> unat (ec_max_memory_bytes ec)"
      "none_expires (ec_entry_ttl ec) [] (kept entry taken xs rs)"
  shows "list_all2 (\<lambda>x r. taken r \<longrightarrow> accepted x) xs rs \<and>
    map (\<lambda>e. (be_data e, be_data_type e)) (eb_buffer (buffer s')) =
      map (\<lambda>(x, r). snd (entry x)) (filter (\<lambda>(x, r). \<not> taken r) (zip xs rs))"
proof -
  let ?ops = "kept entry taken xs rs"
  note run = run_kept [OF assms(1), unfolded assms(2)]
  have lossless: "lossless (EdgeBuffer_new init ec) ?ops"
    using assms by (simp add: lossless_def EdgeBuffer_new_def accounted_def BufferMetrics_default_def)
  have none: "concat (map (\<lambda>x. []) ops) = []" for ops :: "buffer_op list" by (induction ops) simp_all
  from run_lossless [OF lossless kept_in_order prod.collapse [symmetric], of bc]
  have "map entry_content (eb_buffer (buffer s')) = numbered 1 (writes ?ops)"
    using run by (simp add: comp_def none EdgeBuffer_new_def)
  then have "map snd (map entry_content (eb_buffer (buffer s'))) = map snd (numbered 1 (writes ?ops))" by simp
  then show ?thesis using run kept_numbered [OF run_sends_length [OF assms(1)], of 1 entry taken]
    by (simp add: entry_content_def comp_def)
qed

end

section \<open>Queued for ever\<close>

text \<open>Each send appends one message to a channel nobody empties.\<close>

locale queueing_sender =
  fixes send :: "'x \<Rightarrow> 's \<Rightarrow> ('r \<times> 's) option" and channel :: "'s \<Rightarrow> bytes list" and ready :: "'s \<Rightarrow> bool"
    and message :: "'x \<Rightarrow> bytes"
  assumes room: "ready s \<Longrightarrow> length (channel s) < CHANNEL_CAPACITY \<Longrightarrow>
      \<exists>r s'. send x s = Some (r, s') \<and> ready s' \<and> channel s' = channel s @ [message x]"
    and full: "ready s \<Longrightarrow> CHANNEL_CAPACITY \<le> length (channel s) \<Longrightarrow> send x s = None"
begin

lemma queued:
  "ready s \<Longrightarrow> length (channel s) + length xs \<le> CHANNEL_CAPACITY \<Longrightarrow>
     \<exists>rs s'. run_sends send xs s = Some (rs, s') \<and> ready s' \<and> channel s' = channel s @ map message xs"
proof (induction xs arbitrary: s)
  case (Cons x xs)
  then have "length (channel s) < CHANNEL_CAPACITY" by simp
  then obtain r s1 where s: "send x s = Some (r, s1)" "ready s1" "channel s1 = channel s @ [message x]"
    using room [OF Cons.prems(1)] by blast
  then obtain rs s' where "run_sends send xs s1 = Some (rs, s')" "ready s'" "channel s' = channel s1 @ map message xs"
    using Cons.IH [of s1] Cons.prems(2) by auto
  then show ?case using s by simp
qed simp

lemma stalls:
  "ready s \<Longrightarrow> length (channel s) \<le> CHANNEL_CAPACITY \<Longrightarrow>
     run_sends send xs s = None \<longleftrightarrow> CHANNEL_CAPACITY < length (channel s) + length xs"
proof (induction xs arbitrary: s)
  case (Cons x xs)
  show ?case
  proof (cases "length (channel s) < CHANNEL_CAPACITY")
    case True
    then obtain r s1 where s: "send x s = Some (r, s1)" "ready s1" "channel s1 = channel s @ [message x]"
      using room [OF Cons.prems(1)] by blast
    then show ?thesis using Cons.IH [of s1] True by simp
  next
    case False
    then show ?thesis using full [OF Cons.prems(1)] by simp
  qed
qed simp

end

end
