(* ===== verification/Client_Reports.thy ===== *)
theory Client_Reports
  imports Senders
begin

text \<open>
  What becomes of the data the observers hand to the client: batches of network events are taken
  by the cluster or kept in the edge buffer; the raw channel fills and then stops its users, among
  them the \<open>/proc\<close> observer; and a flush empties the edge buffer whatever it manages to send.
\<close>

section \<open>The raw channel\<close>

lemma grpc_send_full: "CHANNEL_CAPACITY \<le> length (cl_channel cl) \<Longrightarrow> grpc_send True data cl = None"
  by (simp add: grpc_send_def)

lemma grpc_send_room:
  "length (cl_channel cl) < CHANNEL_CAPACITY \<Longrightarrow>
     grpc_send True data cl = Some (True, cl\<lparr>cl_channel := cl_channel cl @ [data], cl_messages_sent := cl_messages_sent cl + 1\<rparr>)"
  by (simp add: grpc_send_def)

definition online :: "send_env \<Rightarrow> bool" where
  "online env \<longleftrightarrow> se_connected env \<and> se_still_connected env"

definition online_env :: "write_env \<Rightarrow> send_env" where
  "online_env w = \<lparr>se_write = w, se_connected = True, se_still_connected = True\<rparr>"

lemma online_env: "online env \<Longrightarrow> env = online_env (se_write env)"
  by (cases env) (simp add: online_def online_env_def)

text \<open>The sends of events and of network events of a connected agent, as queueing senders.\<close>

definition events_online :: "bincode \<Rightarrow> write_env \<times> bytes \<Rightarrow> client \<Rightarrow> (unit \<times> client) option" where
  "events_online bc x cl = map_option (Pair ()) (send_events bc (online_env (fst x)) (snd x) cl)"

definition network_online :: "bincode \<Rightarrow> write_env \<times> bytes \<Rightarrow> client \<Rightarrow> (unit \<times> client) option" where
  "network_online bc x cl = map_option (Pair ()) (send_network_events bc (online_env (fst x)) (snd x) cl)"

lemmas online_sends = online_env_def send_events_def send_network_events_def send_buffered_def grpc_send_full grpc_send_room Let_def

interpretation events_queue: queueing_sender "events_online bc" cl_channel "\<lambda>_. True" snd for bc
  by unfold_locales (simp_all add: events_online_def online_sends)

interpretation network_queue: queueing_sender "network_online bc" cl_channel "\<lambda>_. True" snd for bc
  by unfold_locales (simp_all add: network_online_def online_sends)

text \<open>
  The raw channel only fills: after any sequence of sends and flushes of a new client, the messages
  it counts as sent are exactly those in the channel, at most 1024; whatever runs afterwards, they stay
  there; and once there are 1024, every further send of events while connected waits for ever.
\<close>

lemma raw_channel_fills:
  assumes "client_run bc ops (Client_new buffer) = Some cl" "client_run bc more_ops cl = Some cl'" "online env"
  shows "cl_messages_sent cl = of_nat (length (cl_channel cl)) \<and> length (cl_channel cl) \<le> 1024 \<and>
    (\<exists>new. cl_channel cl' = cl_channel cl @ new) \<and>
    (length (cl_channel cl) = 1024 \<longrightarrow> send_network_events bc env data cl = None \<and> send_events bc env data cl = None)"
proof -
  have "cl_messages_sent cl = of_nat (length (cl_channel cl)) \<and> length (cl_channel cl) \<le> 1024"
    using client_run_grows [OF assms(1)] by (auto simp: channel_grows_def Client_new_def CHANNEL_CAPACITY_def)
  moreover have "\<exists>new. cl_channel cl' = cl_channel cl @ new"
    using client_run_grows [OF assms(2)] by (auto simp: channel_grows_def)
  moreover have "send_network_events bc env data cl = None \<and> send_events bc env data cl = None" if "length (cl_channel cl) = 1024"
    using assms(3) that by (simp add: send_network_events_def send_events_def send_buffered_def Let_def online_def
        grpc_send_full CHANNEL_CAPACITY_def)
  ultimately show ?thesis by blast
qed

definition example_send :: send_env where
  "example_send = \<lparr>se_write = example_env, se_connected = True, se_still_connected = True\<rparr>"

abbreviation default_buffer :: EdgeBuffer where
  "default_buffer \<equiv> EdgeBuffer_new (\<lambda>_. None) EdgeBufferConfig_default"

lemma example_online: "online example_send"
  by (simp add: online_def example_send_def)

lemma raw_channel_fills_example:
  "\<exists>cl. client_run plain_bincode [Send_events example_send [1]] (Client_new default_buffer) = Some cl \<and>
     cl_messages_sent cl = of_nat (length (cl_channel cl))"
proof -
  obtain cl where r: "client_run plain_bincode [Send_events example_send [1]] (Client_new default_buffer) = Some cl"
    by (simp add: send_events_def send_buffered_def grpc_send_def example_send_def Client_new_def CHANNEL_CAPACITY_def Let_def)
  have "client_run plain_bincode [] cl = Some cl" by simp
  from raw_channel_fills [OF r this example_online] r show ?thesis by blast
qed

section \<open>The \<open>/proc\<close> observer\<close>

fun queued_events :: "(NetworkEvent \<Rightarrow> bytes) \<Rightarrow> (nat \<Rightarrow> send_env) \<Rightarrow> nat \<Rightarrow> NetworkEvent list \<Rightarrow> (write_env \<times> bytes) list" where
  "queued_events json env k [] = []"
| "queued_events json env k (e # es) = (se_write (env k), json e) # queued_events json env (k + 1) es"

lemma queued_events_data [simp]: "map snd (queued_events json env k es) = map json es"
  by (induction es arbitrary: k) simp_all

lemma length_queued_events [simp]: "length (queued_events json env k es) = length es"
  by (induction es arbitrary: k) simp_all

lemma proc_send_all_queued:
  assumes "\<And>k. online (env k)" "\<And>e. to_json e = Some (json e)"
  shows "proc_send_all to_json bc env k events cl =
    map_option (\<lambda>(rs, cl). (True, cl)) (run_sends (network_online bc) (queued_events json env k events) cl)"
proof (induction events arbitrary: k cl)
  case (Cons e events)
  have "send_network_events bc (env k) d c = send_network_events bc (online_env (se_write (env k))) d c" for d c
    using online_env [OF assms(1)] by simp
  then show ?case using Cons by (simp add: assms(2) network_online_def option.map_comp comp_def case_prod_unfold split: option.splits)
qed simp

lemma proc_send_all_online:
  assumes "\<And>k. online (env k)" "\<And>e. to_json e = Some (json e)"
  shows "length (cl_channel cl) + length events > CHANNEL_CAPACITY \<Longrightarrow> length (cl_channel cl) \<le> CHANNEL_CAPACITY \<Longrightarrow>
      proc_send_all to_json bc env k events cl = None"
    and "length (cl_channel cl) + length events \<le> CHANNEL_CAPACITY \<Longrightarrow>
      \<exists>cl'. proc_send_all to_json bc env k events cl = Some (True, cl') \<and> cl_channel cl' = cl_channel cl @ map json events"
proof -
  note q = proc_send_all_queued [where env = env and to_json = to_json and json = json, OF assms]
  show "length (cl_channel cl) + length events > CHANNEL_CAPACITY \<Longrightarrow> length (cl_channel cl) \<le> CHANNEL_CAPACITY \<Longrightarrow>
      proc_send_all to_json bc env k events cl = None"
    using network_queue.stalls [of cl bc "queued_events json env k events"] by (simp add: q)
  show "length (cl_channel cl) + length events \<le> CHANNEL_CAPACITY \<Longrightarrow>
      \<exists>cl'. proc_send_all to_json bc env k events cl = Some (True, cl') \<and> cl_channel cl' = cl_channel cl @ map json events"
    using network_queue.queued [of cl "queued_events json env k events" bc] by (auto simp: q)
qed

lemma proc_run_online:
  assumes env: "\<And>k. online (env k)" and json: "\<And>e. to_json e = Some (json e)"
    and "poll_all polls obs = Some (events, obs')" "length (cl_channel cl) \<le> CHANNEL_CAPACITY"
  shows "if length (cl_channel cl) + length events > CHANNEL_CAPACITY
    then proc_run to_json bc env k polls cl obs = Waits_forever
    else \<exists>cl'. proc_run to_json bc env k polls cl obs = Polled (k + length events) cl' obs' \<and>
      cl_channel cl' = cl_channel cl @ map json events"
  using assms(3,4)
proof (induction polls obs arbitrary: events k cl rule: poll_all.induct)
  case (2 fs now polls obs)
  note sent = proc_send_all_online [where env = env and to_json = to_json and json = json, OF env json]
  obtain r obs1 where c: "collect fs now obs = Some (r, obs1)" using 2(3) by (auto split: option.splits)
  show ?case
  proof (cases r)
    case (Inl e)
    then show ?thesis using 2 c by (cases "collect fs now obs") auto
  next
    case (Inr new)
    obtain later where p: "poll_all polls obs1 = Some (later, obs')" and ev: "events = new @ later" using 2(3) c Inr by auto
    show ?thesis
    proof (cases "length (cl_channel cl) + length new > CHANNEL_CAPACITY")
      case True
      then show ?thesis using sent(1) [OF True 2(4)] by (simp add: c Inr ev)
    next
      case False
      then obtain cl1 where s: "proc_send_all to_json bc env k new cl = Some (True, cl1)"
        "cl_channel cl1 = cl_channel cl @ map json new" using sent(2) [where cl = cl and events = new and k = k] by auto
      have "length (cl_channel cl1) \<le> CHANNEL_CAPACITY" using False s(2) by simp
      from 2(2) [OF c refl Inr p this, of "k + length new"] show ?thesis
        using s by (auto simp: c Inr ev add.assoc split: if_splits)
    qed
  qed
qed simp

text \<open>
  The \<open>/proc\<close> observer stops: while the agent is connected and events can be serialised, polls that
  yield more events in all than the raw channel has room for make the observer wait for ever; fewer are
  all put into the channel, in order.
\<close>

lemma proc_observer_stalls:
  assumes "\<And>k. online (env k)" "\<And>e. to_json e = Some (json e)"
    and "poll_all polls (ProcObserver_new config) = Some (events, obs)"
  shows "(length events > 1024 \<longrightarrow>
      proc_run to_json bc env 0 polls (Client_new buffer) (ProcObserver_new config) = Waits_forever) \<and>
    (length events \<le> 1024 \<longrightarrow> (\<exists>cl. proc_run to_json bc env 0 polls (Client_new buffer) (ProcObserver_new config) =
      Polled (length events) cl obs \<and> cl_channel cl = map json events))"
  using proc_run_online [where env = env and to_json = to_json and json = json and cl = "Client_new buffer" and bc = bc and k = 0, OF assms]
  by (auto simp: Client_new_def CHANNEL_CAPACITY_def split: if_splits)

lemma proc_observer_stalls_example:
  "\<exists>events obs. poll_all [(example_fs (Some []), 0), (example_fs None, 1)] (ProcObserver_new example_config) = Some (events, obs) \<and>
     (length events \<le> 1024 \<longrightarrow> (\<exists>cl. proc_run (\<lambda>_. Some [1]) plain_bincode (\<lambda>_. example_send) 0
        [(example_fs (Some []), 0), (example_fs None, 1)] (Client_new default_buffer) (ProcObserver_new example_config) =
          Polled (length events) cl obs \<and> cl_channel cl = map (\<lambda>_. [1]) events))"
  using example_polls proc_observer_stalls [of "\<lambda>_. example_send" "\<lambda>_. Some [1]" "\<lambda>_. [1]", OF example_online refl] by blast

section \<open>Flushing\<close>

definition from_memory :: "BufferEntry list \<Rightarrow> bool" where
  "from_memory entries \<longleftrightarrow> list_all (\<lambda>e. be_sqlite_row_id e = None) entries"

text \<open>The entries a flush gets to before the first send that fails.\<close>

fun reached :: "(nat \<Rightarrow> bool) \<Rightarrow> nat \<Rightarrow> BufferEntry list \<Rightarrow> BufferEntry list" where
  "reached connected i [] = []"
| "reached connected i (e # entries) = (if connected i then e # reached connected (i + 1) entries else [])"

lemma send_entries_memory:
  assumes "from_memory entries" "length (cl_channel cl) \<le> CHANNEL_CAPACITY"
  shows "if length (cl_channel cl) + length (reached (fe_connected env) i entries) > CHANNEL_CAPACITY
    then send_entries env i entries cl = None
    else \<exists>cl'. send_entries env i entries cl = Some cl' \<and> cl_buffer cl' = cl_buffer cl \<and>
      cl_channel cl' = cl_channel cl @ map be_data (reached (fe_connected env) i entries)"
  using assms
proof (induction entries arbitrary: i cl)
  case (Cons e entries)
  have ack: "acknowledge mark e c = c" for mark c using Cons.prems(1) by (simp add: acknowledge_def from_memory_def)
  have mem: "from_memory entries" using Cons.prems(1) by (simp add: from_memory_def)
  show ?case
  proof (cases "fe_connected env i")
    case True
    show ?thesis
    proof (cases "length (cl_channel cl) < CHANNEL_CAPACITY")
      case room: True
      let ?cl = "cl\<lparr>cl_channel := cl_channel cl @ [be_data e], cl_messages_sent := cl_messages_sent cl + 1\<rparr>"
      show ?thesis using Cons.IH [OF mem, of ?cl "i + 1"] room True by (auto simp: grpc_send_room ack split: if_splits)
    next
      case False
      then show ?thesis using True Cons.prems(2) by (simp add: grpc_send_full)
    qed
  qed (use Cons.prems(2) in \<open>simp add: grpc_send_def ack\<close>)
qed simp

lemma drain_memory:
  "eb_db b = None \<Longrightarrow> \<exists>b'. drain bc now ok b = (eb_buffer b, b') \<and> eb_buffer b' = []"
  by (simp add: drain_def Let_def)

text \<open>
  A flush empties the buffer whatever it sends: with a buffer in memory only, a flush (or an upload
  of the backlog) puts exactly the entries before the first failing send into the raw channel, and waits
  for ever if they do not all fit. When it returns, the buffer is empty: the entries from the failing
  one on are neither in the channel nor in the buffer any more.
\<close>

lemma flush_strands_backlog:
  assumes "eb_db (cl_buffer cl) = None" "from_memory (eb_buffer (cl_buffer cl))" "length (cl_channel cl) \<le> 1024"
  shows "(length (cl_channel cl) + length (reached (fe_connected env) 0 (eb_buffer (cl_buffer cl))) > 1024 \<longrightarrow>
      flush_buffer bc env cl = None \<and> upload_backlog_stream bc env cl = None) \<and>
    (length (cl_channel cl) + length (reached (fe_connected env) 0 (eb_buffer (cl_buffer cl))) \<le> 1024 \<longrightarrow>
      (\<exists>cl'. flush_buffer bc env cl = Some cl' \<and> upload_backlog_stream bc env cl = Some cl' \<and>
        cl_channel cl' = cl_channel cl @ map be_data (reached (fe_connected env) 0 (eb_buffer (cl_buffer cl))) \<and>
        eb_buffer (cl_buffer cl') = []))"
proof -
  obtain b where d: "drain bc (fe_now env) (fe_drain_ok env) (cl_buffer cl) = (eb_buffer (cl_buffer cl), b)" "eb_buffer b = []"
    using drain_memory [OF assms(1)] by blast
  have f: "flush_buffer bc env cl = send_entries env 0 (eb_buffer (cl_buffer cl)) (cl\<lparr>cl_buffer := b\<rparr>)"
    "upload_backlog_stream bc env cl = send_entries env 0 (eb_buffer (cl_buffer cl)) (cl\<lparr>cl_buffer := b\<rparr>)"
    by (simp_all add: flush_buffer_def upload_backlog_stream_def d Let_def)
  show ?thesis
    using send_entries_memory [OF assms(2), of "cl\<lparr>cl_buffer := b\<rparr>" env 0] assms(3) d(2)
    by (auto simp: f CHANNEL_CAPACITY_def split: if_splits)
qed

text \<open>A client with two entries in memory, flushed while the connection fails before the second.\<close>

definition example_client :: client where
  "example_client = Client_new (default_buffer\<lparr>eb_buffer :=
     [\<lparr>be_sequence_number = 1, be_created_at = 0, be_data = [1], be_data_type = Events, be_sqlite_row_id = None\<rparr>,
      \<lparr>be_sequence_number = 2, be_created_at = 0, be_data = [2], be_data_type = Events, be_sqlite_row_id = None\<rparr>]\<rparr>)"

definition example_flush :: flush_env where
  "example_flush = \<lparr>fe_now = 0, fe_drain_ok = True, fe_connected = (\<lambda>i. i = 0), fe_mark_ok = (\<lambda>_. True), fe_mark_epoch = 0\<rparr>"

lemma flush_strands_backlog_example:
  "\<exists>cl'. flush_buffer plain_bincode example_flush example_client = Some cl' \<and> cl_channel cl' = [[1]] \<and>
     eb_buffer (cl_buffer cl') = []"
  using flush_strands_backlog [of example_client example_flush plain_bincode]
  by (auto simp: example_client_def example_flush_def Client_new_def from_memory_def EdgeBuffer_new_def EdgeBufferConfig_default_def)

section \<open>Batches of network events\<close>

text \<open>
  The batches of the event loop, sent one after the other; each comes with what the environment decides
  while it is sent. The n-th batch of a client is sent under the sequence number n, if there is a connection.
\<close>

definition send_batch ::
  "(u64 \<Rightarrow> NetworkEvent list \<Rightarrow> NetworkEventResponse option) \<Rightarrow> (NetworkEvent list \<Rightarrow> bytes option) \<Rightarrow> bincode \<Rightarrow>
   send_env \<times> NetworkEvent list \<Rightarrow> client \<Rightarrow> (NetworkEventResponse option \<times> client) option" where
  "send_batch rpc to_json bc x cl = Some (send_network_events_proto rpc to_json bc (fst x) (snd x) cl)"

fun answers ::
  "(u64 \<Rightarrow> NetworkEvent list \<Rightarrow> NetworkEventResponse option) \<Rightarrow> u64 \<Rightarrow> (send_env \<times> NetworkEvent list) list \<Rightarrow>
   NetworkEventResponse option list" where
  "answers rpc seq [] = []"
| "answers rpc seq (x # xs) = (if se_connected (fst x) then rpc seq (snd x) else None) # answers rpc (seq + 1) xs"

definition batch_entry :: "(NetworkEvent list \<Rightarrow> bytes) \<Rightarrow> send_env \<times> NetworkEvent list \<Rightarrow> write_env \<times> bytes \<times> DataType" where
  "batch_entry json x = (se_write (fst x), json (snd x), NetworkEvents)"

lemma send_batch_Some:
  "send_batch rpc (\<lambda>b. Some (json b)) bc x cl =
     (case (if se_connected (fst x) then rpc (cl_sequence_counter cl) (snd x) else None) of
        Some r \<Rightarrow> Some (Some r, next_sequence cl)
      | None \<Rightarrow> Some (None, buffer_data bc (se_write (fst x)) (json (snd x)) NetworkEvents (next_sequence cl)))"
  by (simp add: send_batch_def send_network_events_proto_def Let_def split: option.split)

interpretation batch_sender: keeping_sender "send_batch rpc (\<lambda>b. Some (json b)) bc" cl_buffer "\<lambda>r. r \<noteq> None"
    "\<lambda>x. \<exists>seq. rpc seq (snd x) \<noteq> None" "batch_entry json" bc for rpc json bc
  by unfold_locales
    (auto simp: send_batch_Some batch_entry_def next_sequence_def buffer_data_def split: if_splits option.splits)

lemma send_batch_channel: "send_batch rpc to_json bc x cl = Some (r, cl') \<Longrightarrow> cl_channel cl' = cl_channel cl"
  by (auto simp: send_batch_def send_network_events_proto_def next_sequence_def buffer_data_def Let_def split: if_splits option.splits)

lemma run_send_batch:
  "\<exists>cl'. run_sends (send_batch rpc (\<lambda>b. Some (json b)) bc) xs cl = Some (answers rpc (cl_sequence_counter cl) xs, cl')"
proof (induction xs arbitrary: cl)
  case (Cons x xs)
  let ?a = "if se_connected (fst x) then rpc (cl_sequence_counter cl) (snd x) else None"
  obtain cl1 where one: "send_batch rpc (\<lambda>b. Some (json b)) bc x cl = Some (?a, cl1)"
      "cl_sequence_counter cl1 = cl_sequence_counter cl + 1"
    by (cases ?a) (auto simp: send_batch_Some next_sequence_def buffer_data_def split: if_splits)
  show ?case using Cons.IH [of cl1] by (auto simp: one)
qed simp

text \<open>An answer that rejects events ends the batch like any other: nothing is buffered or sent again.\<close>

lemma rejected_batch_dropped:
  assumes "se_connected env" "rpc (cl_sequence_counter cl) events = Some r" "nr_rejected_count r = of_nat (length events)"
  shows "send_network_events_proto rpc to_json bc env events cl = (Some r, next_sequence cl)"
  using assms by (simp add: send_network_events_proto_def Let_def)

text \<open>
  C8. Every batch of network events is answered or kept, and never both: from a new client whose buffer is
  in memory only, any batches are sent, the n-th under the sequence number n, and the edge buffer holds
  afterwards the serialised form of exactly those without an answer, the connection being down or the call
  having failed, in order, as long as they fit into the budget and do not expire; the raw channel is not
  used. An answer counts whatever it says: a batch whose events the cluster rejected, all or some of them,
  is not kept and not sent again.
\<close>

theorem batches_answered_or_kept:
  assumes config: "ec_sqlite_path config = None" "unat (ec_max_memory_bytes config) < 2 ^ 62"
    and json: "\<And>b. to_json b = Some (json b)"
    and fits: "write_total (kept (batch_entry json) (\<lambda>r. r \<noteq> None) batches (answers rpc 1 batches)) \<le> unat (ec_max_memory_bytes config)"
      "none_expires (ec_entry_ttl config) [] (kept (batch_entry json) (\<lambda>r. r \<noteq> None) batches (answers rpc 1 batches))"
  shows "\<exists>cl. run_sends (send_batch rpc to_json bc) batches (Client_new (EdgeBuffer_new init config)) = Some (answers rpc 1 batches, cl) \<and>
    map (\<lambda>e. (be_data e, be_data_type e)) (eb_buffer (cl_buffer cl)) =
      map (\<lambda>(x, r). (json (snd x), NetworkEvents)) (filter (\<lambda>(x, r). r = None) (zip batches (answers rpc 1 batches))) \<and>
    cl_channel cl = []"
proof -
  have j: "to_json = (\<lambda>b. Some (json b))" using json by (simp add: fun_eq_iff)
  let ?cl = "Client_new (EdgeBuffer_new init config)"
  have start: "cl_buffer ?cl = EdgeBuffer_new init config" "cl_sequence_counter ?cl = 1" by (simp_all add: Client_new_def)
  obtain cl where sent: "run_sends (send_batch rpc to_json bc) batches ?cl = Some (answers rpc 1 batches, cl)"
    using run_send_batch [of rpc json bc batches ?cl] by (auto simp: j start)
  have "cl_channel cl = []" using run_sends_keeps [where f = cl_channel, OF send_batch_channel sent] by (simp add: Client_new_def)
  then show ?thesis
    using sent batch_sender.delivered_or_kept [OF sent [unfolded j] start(1) config fits] by (auto simp: batch_entry_def)
qed

text \<open>The first batch is rejected whole and leaves nothing; the call of the second fails.\<close>

definition example_answer :: NetworkEventResponse where
  "example_answer = \<lparr>nr_accepted_count = 0, nr_rejected_count = 1, nr_rejection_reasons = Map.empty\<rparr>"

theorem batches_answered_or_kept_witness:
  "\<exists>cl. run_sends (send_batch (\<lambda>seq _. if seq = 1 then Some example_answer else None) (\<lambda>b. Some [of_nat (length b)]) plain_bincode)
      [(example_send, [DnsQuery [] [] 0 7]), (example_send, [])] (Client_new default_buffer) = Some ([Some example_answer, None], cl) \<and>
    map (\<lambda>e. (be_data e, be_data_type e)) (eb_buffer (cl_buffer cl)) = [([0], NetworkEvents)]"
proof -
  let ?json = "\<lambda>b :: NetworkEvent list. [of_nat (length b)] :: bytes"
  let ?rpc = "\<lambda>(seq :: u64) (_ :: NetworkEvent list). if seq = 1 then Some example_answer else None"
  let ?xs = "[(example_send, [DnsQuery [] [] 0 7]), (example_send, [])]"
  have a: "answers ?rpc 1 ?xs = [Some example_answer, None]" by (simp add: example_send_def)
  have k: "kept (batch_entry ?json) (\<lambda>r. r \<noteq> None) ?xs (answers ?rpc 1 ?xs) = [Write example_env [0] NetworkEvents]"
    unfolding a by (simp add: batch_entry_def example_send_def)
  have "write_total (kept (batch_entry ?json) (\<lambda>r. r \<noteq> None) ?xs (answers ?rpc 1 ?xs)) \<le> unat (ec_max_memory_bytes EdgeBufferConfig_default)"
    "none_expires (ec_entry_ttl EdgeBufferConfig_default) [] (kept (batch_entry ?json) (\<lambda>r. r \<noteq> None) ?xs (answers ?rpc 1 ?xs))"
    unfolding k by (simp_all add: EdgeBufferConfig_default_def write_total_def none_expires_def example_env_def)
  note small = this
  have "\<exists>cl. run_sends (send_batch ?rpc (\<lambda>b. Some (?json b)) plain_bincode) ?xs (Client_new default_buffer) = Some (answers ?rpc 1 ?xs, cl) \<and>
    map (\<lambda>e. (be_data e, be_data_type e)) (eb_buffer (cl_buffer cl)) =
      map (\<lambda>(x, r). (?json (snd x), NetworkEvents)) (filter (\<lambda>(x, r). r = None) (zip ?xs (answers ?rpc 1 ?xs))) \<and>
    cl_channel cl = []"
    by (rule batches_answered_or_kept [OF _ _ refl small]) (simp_all add: EdgeBufferConfig_default_def)
  then show ?thesis unfolding a by auto
qed

end
