(* ===== verification/Observer.thy ===== *)
theory Observer
  imports Agent_Config
begin

text \<open>
  \<open>loader.rs\<close> and the start of \<open>mod.rs\<close>: the checks of the host, the loading of the programs,
  and the choice between kernel programs, the \<open>/proc\<close> observer and no observer. What is read from the
  host is a record (None where a file cannot be read). Opening and loading an object file is done by
  libbpf and is a parameter: for a program name, the loaded object with its programs, each with its
  section and the link attaching it gives, or nothing if opening or loading fails.
\<close>

section \<open>The host\<close>

record host =
  h_osrelease :: "rstring option" \<comment> \<open>\<open>/proc/sys/kernel/osrelease\<close>\<close>
  h_btf :: bool \<comment> \<open>\<open>/sys/kernel/btf/vmlinux\<close> exists\<close>
  h_status :: "rstring option" \<comment> \<open>\<open>/proc/self/status\<close>\<close>

datatype load_error =
    Cannot_read_osrelease
  | Version_empty
  | Version_missing_minor
  | Invalid_major
  | Invalid_minor
  | Kernel_too_old u32 u32
  | Btf_not_available
  | Cannot_load rstring

datatype cap_error = Cannot_read_status | No_CapEff_line | No_CapEff_value | Bad_CapEff_value

definition MIN_KERNEL_MAJOR :: u32 where "MIN_KERNEL_MAJOR = 5"

definition MIN_KERNEL_MINOR :: u32 where "MIN_KERNEL_MINOR = 4"

definition parse_kernel_version :: "rstring \<Rightarrow> load_error + u32 \<times> u32" where
  "parse_kernel_version s =
     (case split_char (of_char CHR ''.'') s of
        [] \<Rightarrow> Inl Version_empty
      | [_] \<Rightarrow> Inl Version_missing_minor
      | major_str # minor_str # _ \<Rightarrow>
          (case parse_uint 10 32 major_str of
             None \<Rightarrow> Inl Invalid_major
           | Some major \<Rightarrow>
               (case parse_uint 10 32 minor_str of
                  None \<Rightarrow> Inl Invalid_minor
                | Some minor \<Rightarrow> Inr (of_nat major, of_nat minor))))"

definition kernel_version :: "host \<Rightarrow> load_error + u32 \<times> u32" where
  "kernel_version h =
     (case h_osrelease h of None \<Rightarrow> Inl Cannot_read_osrelease | Some raw \<Rightarrow> parse_kernel_version (trim raw))"

definition CAP_BPF_BIT :: nat where "CAP_BPF_BIT = 39"

definition check_cap_bpf :: "host \<Rightarrow> cap_error + bool" where
  "check_cap_bpf h =
     (case h_status h of
        None \<Rightarrow> Inl Cannot_read_status
      | Some status \<Rightarrow>
          (case find (starts_with (lit ''CapEff:'')) (str_lines status) of
             None \<Rightarrow> Inl No_CapEff_line
           | Some line \<Rightarrow>
               (case drop 1 (split_whitespace line) of
                  [] \<Rightarrow> Inl No_CapEff_value
                | hex_str # _ \<Rightarrow>
                    (case parse_uint 16 64 hex_str of
                       None \<Rightarrow> Inl Bad_CapEff_value
                     | Some cap_eff \<Rightarrow> Inr (drop_bit CAP_BPF_BIT (of_nat cap_eff :: u64) AND 1 = 1)))))"

text \<open>The outcome of the capability check is only logged.\<close>

definition check_capabilities :: "host \<Rightarrow> load_error + unit" where
  "check_capabilities h =
     (case kernel_version h of
        Inl e \<Rightarrow> Inl e
      | Inr (major, minor) \<Rightarrow>
          if major < MIN_KERNEL_MAJOR \<or> (major = MIN_KERNEL_MAJOR \<and> minor < MIN_KERNEL_MINOR)
          then Inl (Kernel_too_old major minor)
          else if \<not> h_btf h then Inl Btf_not_available
          else (case check_cap_bpf h of _ \<Rightarrow> Inr ()))"

section \<open>Loading\<close>

type_synonym ('obj, 'link) libbpf = "rstring \<Rightarrow> ('obj \<times> (rstring \<times> 'link option) list) option"

record ('obj, 'link) EbpfPrograms =
  ep_tcp_object :: "'obj option"
  ep_dns_object :: "'obj option"
  ep_http_object :: "'obj option"
  ep_links :: "'link list"

definition is_loaded :: "('obj, 'link) EbpfPrograms \<Rightarrow> bool" where
  "is_loaded p \<longleftrightarrow> ep_tcp_object p \<noteq> None \<or> ep_dns_object p \<noteq> None \<or> ep_http_object p \<noteq> None"

definition KPROBE_PREFIX :: rstring where "KPROBE_PREFIX = lit ''kprobe/''"

definition KRETPROBE_PREFIX :: rstring where "KRETPROBE_PREFIX = lit ''kretprobe/''"

definition load_program :: "('obj, 'link) libbpf \<Rightarrow> rstring \<Rightarrow> load_error + 'obj \<times> 'link list" where
  "load_program libbpf name =
     (case libbpf name of
        None \<Rightarrow> Inl (Cannot_load name)
      | Some (obj, progs) \<Rightarrow>
          Inr (obj, List.map_filter
            (\<lambda>(sec, attached). if starts_with KPROBE_PREFIX sec \<or> starts_with KRETPROBE_PREFIX sec then attached else None)
            progs))"

text \<open>Loading one program if it is enabled, adding its links to those collected so far.\<close>

definition load_if ::
  "('obj, 'link) libbpf \<Rightarrow> bool \<Rightarrow> rstring \<Rightarrow> 'link list \<Rightarrow> load_error + 'obj option \<times> 'link list" where
  "load_if libbpf enabled name all_links =
     (if enabled then
        (case load_program libbpf name of
           Inl e \<Rightarrow> Inl e
         | Inr (obj, links) \<Rightarrow> Inr (Some obj, all_links @ links))
      else Inr (None, all_links))"

definition load :: "EbpfConfig \<Rightarrow> host \<Rightarrow> ('obj, 'link) libbpf \<Rightarrow> load_error + ('obj, 'link) EbpfPrograms" where
  "load config h libbpf =
     (case check_capabilities h of
        Inl e \<Rightarrow> Inl e
      | Inr _ \<Rightarrow>
          (case load_if libbpf (cfg_tcp_connections config) (lit ''tcp_tracker'') [] of
             Inl e \<Rightarrow> Inl e
           | Inr (tcp_object, links) \<Rightarrow>
               (case load_if libbpf (cfg_dns_resolution config) (lit ''dns_mapper'') links of
                  Inl e \<Rightarrow> Inl e
                | Inr (dns_object, links) \<Rightarrow>
                    (case load_if libbpf (cfg_http_inspection config) (lit ''http_inspector'') links of
                       Inl e \<Rightarrow> Inl e
                     | Inr (http_object, links) \<Rightarrow>
                         Inr \<lparr>ep_tcp_object = tcp_object, ep_dns_object = dns_object, ep_http_object = http_object,
                              ep_links = links\<rparr>))))"

section \<open>Mode\<close>

datatype ObserverMode = Ebpf | ProcFallback | Stub

definition release_number :: "rstring option \<Rightarrow> u32" where
  "release_number part = (case Option.bind part (parse_uint 10 32) of Some n \<Rightarrow> of_nat n | None \<Rightarrow> 0)"

definition version_ok :: "host \<Rightarrow> bool" where
  "version_ok h =
     (case h_osrelease h of
        None \<Rightarrow> False
      | Some raw \<Rightarrow>
          (let parts = split_char (of_char CHR ''.'') (trim raw);
               major = release_number (case parts of [] \<Rightarrow> None | s # _ \<Rightarrow> Some s);
               minor = release_number
                 (case parts of
                    _ # s # _ \<Rightarrow> (case split_char (of_char CHR ''-'') s of [] \<Rightarrow> None | x # _ \<Rightarrow> Some x)
                  | _ \<Rightarrow> None)
           in major > 5 \<or> (major = 5 \<and> minor \<ge> 4)))"

definition detect_observer_mode :: "EbpfConfig \<Rightarrow> host \<Rightarrow> ObserverMode" where
  "detect_observer_mode config h =
     (if \<not> cfg_enabled config then Stub
      else if version_ok h \<and> h_btf h then Ebpf
      else if cfg_fallback_to_proc config then ProcFallback
      else Stub)"

text \<open>What \<open>run\<close> ends up doing: one of its loops, or returning an error.\<close>

datatype ('obj, 'link) run_outcome =
    Runs_ebpf "('obj, 'link) EbpfPrograms"
  | Runs_proc
  | Idles
  | Fails load_error

definition run_ebpf :: "EbpfConfig \<Rightarrow> host \<Rightarrow> ('obj, 'link) libbpf \<Rightarrow> ('obj, 'link) run_outcome" where
  "run_ebpf config h libbpf =
     (case load config h libbpf of
        Inl e \<Rightarrow> Fails e
      | Inr programs \<Rightarrow> if \<not> is_loaded programs then Runs_proc else Runs_ebpf programs)"

definition run_observer :: "EbpfConfig \<Rightarrow> host \<Rightarrow> ('obj, 'link) libbpf \<Rightarrow> ('obj, 'link) run_outcome" where
  "run_observer config h libbpf =
     (case detect_observer_mode config h of
        Ebpf \<Rightarrow> run_ebpf config h libbpf
      | ProcFallback \<Rightarrow> Runs_proc
      | Stub \<Rightarrow> Idles)"

section \<open>Release strings\<close>

lemma decimal_not_in: "c < 48 \<Longrightarrow> c \<notin> set (decimal n)"
  using decimal_digits [of n] by (auto simp: list_all_iff)

text \<open>A release \<open>M.m\<close> followed by a dot and more, or by a dash and text without dots.\<close>

definition release_dot :: "u32 \<Rightarrow> u32 \<Rightarrow> rstring \<Rightarrow> rstring" where
  "release_dot major minor rest = decimal (unat major) @ lit ''.'' @ decimal (unat minor) @ lit ''.'' @ rest"

definition release_dash :: "u32 \<Rightarrow> u32 \<Rightarrow> rstring \<Rightarrow> rstring" where
  "release_dash major minor rest = decimal (unat major) @ lit ''.'' @ decimal (unat minor) @ lit ''-'' @ rest"

lemma parse_u32: "parse_uint 10 32 (decimal (unat w)) = Some (unat w)" for w :: u32
  using unat_bound [of w] by (intro parse_uint_decimal) simp

lemma split_release_dot: "split_char 46 (release_dot major minor rest) =
    decimal (unat major) # decimal (unat minor) # split_char 46 rest"
  by (simp add: release_dot_def split_char_field decimal_not_in)

lemma split_release_dash: "46 \<notin> set rest \<Longrightarrow> split_char 46 (release_dash major minor rest) =
    [decimal (unat major), decimal (unat minor) @ 45 # rest]"
  by (simp add: release_dash_def split_char_field split_char_none decimal_not_in)

lemma parse_digits_dash: "parse_digits 10 l acc (s @ 45 # rest) = None"
proof (induction s arbitrary: acc)
  case Nil
  have "to_digit 10 45 = None" by (simp add: to_digit_def)
  then show ?case by simp
next
  case (Cons c s)
  then show ?case by (simp split: option.split)
qed

lemma parse_minor_dash: "parse_uint 10 32 (decimal n @ 45 # rest) = None"
proof -
  have "43 \<notin> set (decimal n)" by (rule decimal_not_in) simp
  then have "decimal n @ 45 # rest = d # ds \<Longrightarrow> d \<noteq> 43" for d ds using decimal_nonempty [of n] by (cases "decimal n") auto
  then show ?thesis
    using parse_digits_dash by (simp add: parse_uint_def decimal_nonempty del: parse_digits.simps split: list.split)
      (metis parse_digits_dash)
qed

lemma version_parts:
  assumes "h_osrelease h = Some raw" "split_char 46 (trim raw) = decimal (unat major) # minor_str # parts"
    and "split_char 45 minor_str = decimal (unat minor) # others"
  shows "version_ok h \<longleftrightarrow> (major :: u32) > 5 \<or> (major = 5 \<and> (minor :: u32) \<ge> 4)"
  using assms by (simp add: version_ok_def release_number_def parse_u32 Let_def)

lemma parse_digits_chars: "parse_digits 10 l acc s = Some n \<Longrightarrow> c \<in> set s \<Longrightarrow> 48 \<le> c \<and> c \<le> 57"
  by (induction s arbitrary: acc) (auto simp: to_digit_def Let_def split: option.splits if_splits)

lemma parse_uint_no_dash: "parse_uint 10 w s = Some n \<Longrightarrow> 45 \<notin> set s"
  using parse_digits_chars [of "2 ^ w" 0 _ n 45]
  by (fastforce simp: parse_uint_def simp del: parse_digits.simps split: list.splits if_splits)

text \<open>Where the loader can read the release, mode detection reads the same numbers.\<close>

lemma version_ok_parsed:
  assumes "kernel_version h = Inr (major, minor)"
  shows "version_ok h \<longleftrightarrow> major > 5 \<or> (major = 5 \<and> minor \<ge> 4)"
proof -
  obtain raw where raw: "h_osrelease h = Some raw" "parse_kernel_version (trim raw) = Inr (major, minor)"
    using assms by (auto simp: kernel_version_def split: option.splits)
  obtain a b parts na nb where p: "split_char 46 (trim raw) = a # b # parts" "parse_uint 10 32 a = Some na"
    "parse_uint 10 32 b = Some nb" "major = of_nat na" "minor = of_nat nb"
    using raw(2) by (auto simp: parse_kernel_version_def split: list.splits option.splits)
  have "split_char 45 b = [b]" by (rule split_char_none [OF parse_uint_no_dash [OF p(3)]])
  then show ?thesis using p raw(1) by (simp add: version_ok_def release_number_def Let_def)
qed

lemma check_capabilities_detected:
  assumes "version_ok h" "h_btf h"
  shows "check_capabilities h = (case kernel_version h of Inl e \<Rightarrow> Inl e | Inr _ \<Rightarrow> Inr ())"
proof (cases "kernel_version h")
  case (Inr v)
  obtain major minor where v: "v = (major, minor)" by (cases v)
  have "major > 5 \<or> (major = 5 \<and> minor \<ge> 4)" using version_ok_parsed Inr v assms(1) by blast
  then have "\<not> (major < MIN_KERNEL_MAJOR \<or> (major = MIN_KERNEL_MAJOR \<and> minor < MIN_KERNEL_MINOR))"
    by (auto simp: MIN_KERNEL_MAJOR_def MIN_KERNEL_MINOR_def)
  then show ?thesis using assms(2) Inr v by (simp add: check_capabilities_def)
qed (simp add: check_capabilities_def)

definition wanted_programs :: "EbpfConfig \<Rightarrow> rstring list" where
  "wanted_programs config =
     (if cfg_tcp_connections config then [lit ''tcp_tracker''] else []) @
     (if cfg_dns_resolution config then [lit ''dns_mapper''] else []) @
     (if cfg_http_inspection config then [lit ''http_inspector''] else [])"

definition ebpf_chosen :: "EbpfConfig \<Rightarrow> host \<Rightarrow> bool" where
  "ebpf_chosen config h \<longleftrightarrow> cfg_enabled config \<and> version_ok h \<and> h_btf h"

lemma load_if_cases:
  "load_if libbpf b name links =
     (if \<not> b then Inr (None, links)
      else case libbpf name of
        None \<Rightarrow> Inl (Cannot_load name)
      | Some (obj, progs) \<Rightarrow> Inr (Some obj, links @ snd (projr (load_program libbpf name))))"
  by (simp add: load_if_def load_program_def split: option.splits)

lemma load_detected:
  assumes "check_capabilities h = Inr ()"
  shows "case find (\<lambda>n. libbpf n = None) (wanted_programs config) of
      Some n \<Rightarrow> load config h libbpf = Inl (Cannot_load n)
    | None \<Rightarrow> \<exists>p. load config h libbpf = Inr p \<and> (is_loaded p \<longleftrightarrow> wanted_programs config \<noteq> [])"
  by (cases "cfg_tcp_connections config"; cases "cfg_dns_resolution config"; cases "cfg_http_inspection config")
    (simp_all add: load_def assms load_if_cases wanted_programs_def is_loaded_def split: option.splits prod.splits)

section \<open>Properties\<close>

text \<open>
  The two readings of the kernel release: for a release \<open>M.m.rest\<close> mode detection and the
  loader's check both accept exactly the versions from 5.4 on. For a release \<open>M.m-rest\<close> without
  further dots mode detection still accepts them, while the loader rejects every such release as
  an invalid minor number.
\<close>

lemma kernel_release_checks:
  assumes dot: "h_osrelease h = Some raw" "trim raw = release_dot major minor rest" and btf: "h_btf h" "h_btf h'"
    and dash: "h_osrelease h' = Some raw'" "trim raw' = release_dash major minor rest'" "46 \<notin> set rest'"
  shows "(version_ok h \<longleftrightarrow> major > 5 \<or> (major = 5 \<and> minor \<ge> 4)) \<and>
    (check_capabilities h = Inr () \<longleftrightarrow> major > 5 \<or> (major = 5 \<and> minor \<ge> 4)) \<and>
    (version_ok h' \<longleftrightarrow> major > 5 \<or> (major = 5 \<and> minor \<ge> 4)) \<and>
    check_capabilities h' = Inl Invalid_minor"
proof -
  have v: "kernel_version h = Inr (major, minor)"
    by (simp add: kernel_version_def dot parse_kernel_version_def split_release_dot parse_u32)
  have v': "kernel_version h' = Inl Invalid_minor"
    by (simp add: kernel_version_def dash(1,2) parse_kernel_version_def split_release_dash [OF dash(3)] parse_u32
        parse_minor_dash)
  have "split_char 45 (decimal (unat minor) @ 45 # rest') = decimal (unat minor) # split_char 45 rest'"
    by (rule split_char_field) (simp add: decimal_not_in)
  then have "version_ok h' \<longleftrightarrow> major > 5 \<or> (major = 5 \<and> minor \<ge> 4)"
    by (intro version_parts [OF dash(1)]) (simp_all add: dash(2) split_release_dash [OF dash(3)])
  moreover have "check_capabilities h = Inr () \<longleftrightarrow> major > 5 \<or> (major = 5 \<and> minor \<ge> 4)"
    using btf(1) by (auto simp: check_capabilities_def v MIN_KERNEL_MAJOR_def MIN_KERNEL_MINOR_def not_less)
  ultimately show ?thesis using version_ok_parsed [OF v] v' by (simp add: check_capabilities_def)
qed

lemma kernel_release_checks_example:
  "version_ok \<lparr>h_osrelease = Some (lit ''6.1-rc2''), h_btf = True, h_status = None\<rparr> \<and>
   check_capabilities \<lparr>h_osrelease = Some (lit ''6.1-rc2''), h_btf = True, h_status = None\<rparr> = Inl Invalid_minor"
  using kernel_release_checks [of "\<lparr>h_osrelease = Some (lit ''6.1.0''), h_btf = True, h_status = None\<rparr>" "lit ''6.1.0''" 6 1
      "lit ''0''" "\<lparr>h_osrelease = Some (lit ''6.1-rc2''), h_btf = True, h_status = None\<rparr>" "lit ''6.1-rc2''" "lit ''rc2''"]
  by (simp add: trim_def trim_matches_def is_whitespace_def release_dot_def release_dash_def decimal.simps)

text \<open>
  C32. How the observer starts, on every host and configuration: it returns an error exactly if
  kernel programs were chosen and the release cannot be parsed by the loader or an enabled program
  cannot be loaded, whatever the fallback setting; it polls \<open>/proc\<close> exactly if kernel programs were
  not chosen and the fallback is on, or they were chosen and no program is enabled.
\<close>

theorem observer_start_outcomes:
  fixes libbpf :: "('obj, 'link) libbpf"
  shows "(run_observer config h libbpf = Fails e \<longleftrightarrow> ebpf_chosen config h \<and>
      (kernel_version h = Inl e \<or>
       (\<exists>v n. kernel_version h = Inr v \<and> find (\<lambda>n. libbpf n = None) (wanted_programs config) = Some n \<and> e = Cannot_load n))) \<and>
    (run_observer config h libbpf = Runs_proc \<longleftrightarrow>
      cfg_enabled config \<and> \<not> (version_ok h \<and> h_btf h) \<and> cfg_fallback_to_proc config \<or>
      ebpf_chosen config h \<and> (\<exists>v. kernel_version h = Inr v) \<and> wanted_programs config = [])"
proof (cases "version_ok h \<and> h_btf h")
  case True
  note caps = check_capabilities_detected [OF True [THEN conjunct1] True [THEN conjunct2]]
  show ?thesis
  proof (cases "kernel_version h")
    case (Inl x)
    then have "load config h libbpf = Inl x" by (simp add: load_def caps)
    with True Inl show ?thesis by (auto simp: run_observer_def run_ebpf_def detect_observer_mode_def ebpf_chosen_def)
  next
    case (Inr v)
    then have "check_capabilities h = Inr ()" by (simp add: caps)
    note l = load_detected [OF this, where libbpf = libbpf and config = config]
    show ?thesis
    proof (cases "find (\<lambda>n. libbpf n = None) (wanted_programs config)")
      case None
      then obtain p where "load config h libbpf = Inr p" "is_loaded p \<longleftrightarrow> wanted_programs config \<noteq> []" using l by auto
      with True Inr None show ?thesis
        by (auto simp: run_observer_def run_ebpf_def detect_observer_mode_def ebpf_chosen_def)
    next
      case (Some n)
      then have "load config h libbpf = Inl (Cannot_load n)" "wanted_programs config \<noteq> []" using l by auto
      with True Inr Some show ?thesis
        by (auto simp: run_observer_def run_ebpf_def detect_observer_mode_def ebpf_chosen_def)
    qed
  qed
next
  case False
  then show ?thesis by (auto simp: run_observer_def detect_observer_mode_def ebpf_chosen_def)
qed

end
