(* ===== verification/Tcp_Tracker.thy ===== *)
theory Tcp_Tracker
  imports Wire Sock_Access Probe_Pair Bpf_Reference
begin

text \<open>
  \<open>tcp_tracker.bpf.c\<close>: three kprobe programs over a ring buffer \<open>tcp_events\<close> and a hash
  map \<open>connect_info\<close> keyed by \<open>pid_tgid\<close>. A connection is recorded when
  \<open>tcp_connect\<close> is entered and reported when \<open>tcp_v4_connect\<close> returns 0; state changes
  to ESTABLISHED, TIME\_WAIT and CLOSE are reported as they happen.
\<close>

section \<open>Programs\<close>

record ('r, 'm) tcp_maps =
  tcp_events :: 'r
  connect_info :: 'm

definition connect_info_max_entries :: nat where
  "connect_info_max_entries = 10240"

definition emit_event :: "'r ring_ops \<Rightarrow> tcp_event \<Rightarrow> 'r \<Rightarrow> int \<times> 'r" where
  "emit_event g evt r =
     (case reserve_copy_submit g (csize struct_tcp_event) (tcp_event_bytes evt) r of
        (False, r') \<Rightarrow> (- 1, r')
      | (True, r') \<Rightarrow> (0, r'))"

definition handle_tcp_connect ::
  "('m, tcp_event) hash_ops \<Rightarrow> bpf_ctx \<Rightarrow> u64 \<Rightarrow> ('r, 'm) tcp_maps \<Rightarrow> int \<times> ('r, 'm) tcp_maps" where
  "handle_tcp_connect h ctx sk s =
     (let evt = tcp_event_zero;
          tid = current_pid_tgid ctx;
          evt = evt\<lparr>te_pid := hi32 tid, te_tid := lo32 tid\<rparr>;
          saddr = core_read32 ctx sk p_rcv_saddr;
          daddr = core_read32 ctx sk p_daddr;
          sport = core_read16 ctx sk p_num;
          dport = core_read16 ctx sk p_dport;
          evt = evt\<lparr>te_src_ip := saddr, te_dst_ip := daddr, te_src_port := sport,
                    te_dst_port := bpf_ntohs dport\<rparr>;
          evt = evt\<lparr>te_timestamp_ns := ktime_ns ctx, te_comm := current_comm ctx MAX_COMM_LEN\<rparr>;
          (_, m) = map_update_elem h (connect_info s) tid evt
      in (0, s\<lparr>connect_info := m\<rparr>))"

definition handle_tcp_v4_connect_ret ::
  "'r ring_ops \<Rightarrow> ('m, tcp_event) hash_ops \<Rightarrow> bpf_ctx \<Rightarrow> i32 \<Rightarrow> ('r, 'm) tcp_maps \<Rightarrow>
   int \<times> ('r, 'm) tcp_maps" where
  "handle_tcp_v4_connect_ret g h ctx ret s =
     (let tid = current_pid_tgid ctx in
      case map_lookup_elem h (connect_info s) tid of
        None \<Rightarrow> (0, s)
      | Some evt \<Rightarrow>
          (let s = (if ret = 0 then
                      (let m = store_via h evt (te_tcp_state_update (\<lambda>_. TCP_ESTABLISHED)) (connect_info s);
                           m = store_via h evt (te_event_type_update (\<lambda>_. event_code EVENT_TCP_CONNECT)) m;
                           m = store_via h evt (te_timestamp_ns_update (\<lambda>_. ktime_ns ctx)) m;
                           (_, r) = emit_event g (value_load h m evt) (tcp_events s)
                       in s\<lparr>connect_info := m, tcp_events := r\<rparr>)
                    else s);
               (_, m) = map_delete_elem h (connect_info s) tid
           in (0, s\<lparr>connect_info := m\<rparr>)))"

definition handle_tcp_set_state ::
  "'r ring_ops \<Rightarrow> bpf_ctx \<Rightarrow> u64 \<Rightarrow> i32 \<Rightarrow> ('r, 'm) tcp_maps \<Rightarrow> int \<times> ('r, 'm) tcp_maps" where
  "handle_tcp_set_state g ctx sk state s =
     (if state \<noteq> TCP_ESTABLISHED \<and> state \<noteq> TCP_TIME_WAIT \<and> state \<noteq> TCP_CLOSE then (0, s)
      else
        (let evt = tcp_event_zero;
             tid = current_pid_tgid ctx;
             evt = evt\<lparr>te_pid := hi32 tid, te_tid := lo32 tid\<rparr>;
             saddr = core_read32 ctx sk p_rcv_saddr;
             daddr = core_read32 ctx sk p_daddr;
             sport = core_read16 ctx sk p_num;
             dport = core_read16 ctx sk p_dport;
             evt = evt\<lparr>te_src_ip := saddr, te_dst_ip := daddr, te_src_port := sport,
                       te_dst_port := bpf_ntohs dport\<rparr>;
             evt = evt\<lparr>te_tcp_state := state, te_timestamp_ns := ktime_ns ctx,
                       te_comm := current_comm ctx MAX_COMM_LEN\<rparr>;
             evt = (if state = TCP_ESTABLISHED
                    then evt\<lparr>te_event_type := event_code EVENT_TCP_ACCEPT\<rparr>
                    else evt\<lparr>te_event_type := event_code EVENT_TCP_CLOSE\<rparr>);
             (_, r) = emit_event g evt (tcp_events s)
         in (0, s\<lparr>tcp_events := r\<rparr>)))"

text \<open>The three member assignments of the return probe on success.\<close>

definition connect_write :: "('m, tcp_event) hash_ops \<Rightarrow> bpf_ctx \<Rightarrow> nat \<Rightarrow> 'm \<Rightarrow> 'm" where
  "connect_write h ctx p m =
     store_via h p (te_timestamp_ns_update (\<lambda>_. ktime_ns ctx))
       (store_via h p (te_event_type_update (\<lambda>_. event_code EVENT_TCP_CONNECT))
         (store_via h p (te_tcp_state_update (\<lambda>_. TCP_ESTABLISHED)) m))"

section \<open>Probe events\<close>

datatype tcp_probe =
    TcpConnect bpf_ctx u64
  | TcpV4ConnectRet bpf_ctx i32
  | TcpSetState bpf_ctx u64 i32

fun tcp_tid :: "tcp_probe \<Rightarrow> u64" where
  "tcp_tid (TcpConnect ctx sk) = current_pid_tgid ctx"
| "tcp_tid (TcpV4ConnectRet ctx ret) = current_pid_tgid ctx"
| "tcp_tid (TcpSetState ctx sk st) = current_pid_tgid ctx"

fun tcp_ctx :: "tcp_probe \<Rightarrow> bpf_ctx" where
  "tcp_ctx (TcpConnect ctx sk) = ctx"
| "tcp_ctx (TcpV4ConnectRet ctx ret) = ctx"
| "tcp_ctx (TcpSetState ctx sk st) = ctx"

fun is_connect_ret :: "tcp_probe \<Rightarrow> bool" where
  "is_connect_ret (TcpV4ConnectRet ctx ret) = True"
| "is_connect_ret _ = False"

fun is_set_state :: "tcp_probe \<Rightarrow> bool" where
  "is_set_state (TcpSetState ctx sk st) = True"
| "is_set_state _ = False"

fun tcp_step ::
  "'r ring_ops \<Rightarrow> ('m, tcp_event) hash_ops \<Rightarrow> tcp_probe \<Rightarrow> ('r, 'm) tcp_maps \<Rightarrow> ('r, 'm) tcp_maps" where
  "tcp_step g h (TcpConnect ctx sk) s = snd (handle_tcp_connect h ctx sk s)"
| "tcp_step g h (TcpV4ConnectRet ctx ret) s = snd (handle_tcp_v4_connect_ret g h ctx ret s)"
| "tcp_step g h (TcpSetState ctx sk st) s = snd (handle_tcp_set_state g ctx sk st s)"

section \<open>What the programs report, independently of maps\<close>

definition tuple_event :: "bpf_ctx \<Rightarrow> u64 \<Rightarrow> tcp_event" where
  "tuple_event ctx sk =
     \<lparr>te_timestamp_ns = ktime_ns ctx, te_event_type = 0,
      te_pid = hi32 (current_pid_tgid ctx), te_tid = lo32 (current_pid_tgid ctx),
      te_src_ip = core_read32 ctx sk p_rcv_saddr, te_dst_ip = core_read32 ctx sk p_daddr,
      te_src_port = core_read16 ctx sk p_num, te_dst_port = bpf_ntohs (core_read16 ctx sk p_dport),
      te_tcp_state = 0, te_bytes_sent = 0, te_bytes_recv = 0,
      te_comm = current_comm ctx MAX_COMM_LEN\<rparr>"

definition connect_report :: "bpf_ctx \<Rightarrow> tcp_event \<Rightarrow> tcp_event" where
  "connect_report ctx e = e\<lparr>te_tcp_state := TCP_ESTABLISHED,
     te_event_type := event_code EVENT_TCP_CONNECT, te_timestamp_ns := ktime_ns ctx\<rparr>"

definition state_report :: "bpf_ctx \<Rightarrow> u64 \<Rightarrow> i32 \<Rightarrow> tcp_event" where
  "state_report ctx sk st = (tuple_event ctx sk)\<lparr>te_tcp_state := st,
     te_event_type := event_code (if st = TCP_ESTABLISHED then EVENT_TCP_ACCEPT else EVENT_TCP_CLOSE)\<rparr>"

definition reported_state :: "i32 \<Rightarrow> bool" where
  "reported_state st \<longleftrightarrow> st \<in> {TCP_ESTABLISHED, TCP_TIME_WAIT, TCP_CLOSE}"

lemma tuple_event_ok [simp]: "comm_ok ctx \<Longrightarrow> tcp_event_ok (tuple_event ctx sk)"
  by (simp add: tuple_event_def tcp_event_ok_def comm_ok_def)

lemma connect_report_ok [simp]: "tcp_event_ok (connect_report ctx e) = tcp_event_ok e"
  by (simp add: connect_report_def tcp_event_ok_def)

lemma state_report_ok [simp]: "comm_ok ctx \<Longrightarrow> tcp_event_ok (state_report ctx sk st)"
  by (simp add: state_report_def tuple_event_def tcp_event_ok_def comm_ok_def)

lemma handle_tcp_connect_eq:
  "handle_tcp_connect h ctx sk s =
     (0, s\<lparr>connect_info :=
        snd (map_update_elem h (connect_info s) (current_pid_tgid ctx) (tuple_event ctx sk))\<rparr>)"
  by (simp add: handle_tcp_connect_def tuple_event_def tcp_event_zero_def Let_def split: prod.splits)

lemma handle_tcp_set_state_eq:
  "handle_tcp_set_state g ctx sk st s =
     (0, if reported_state st
         then s\<lparr>tcp_events := snd (emit_event g (state_report ctx sk st) (tcp_events s))\<rparr> else s)"
  by (simp add: handle_tcp_set_state_def reported_state_def state_report_def tuple_event_def
      tcp_event_zero_def Let_def split: prod.splits)

section \<open>The programs over maps that keep their contract\<close>

definition tpending :: "('m, tcp_event) hash_ops \<Rightarrow> ('r, 'm) tcp_maps \<Rightarrow> u64 \<Rightarrow> tcp_event option" where
  "tpending h s = contents h (connect_info s)"

definition tinv :: "('m, tcp_event) hash_ops \<Rightarrow> ('m \<Rightarrow> bool) \<Rightarrow> ('r \<Rightarrow> bool) \<Rightarrow> ('r, 'm) tcp_maps \<Rightarrow> bool" where
  "tinv h hinv rinv s \<longleftrightarrow> hinv (connect_info s) \<and> rinv (tcp_events s) \<and>
     (\<forall>e \<in> ran (tpending h s). tcp_event_ok e)"

locale tcp_objects = bpf_hash h hinv + bpf_ring g rinv samples
  for h :: "('m, tcp_event) hash_ops" and hinv :: "'m \<Rightarrow> bool"
    and g :: "'r ring_ops" and rinv :: "'r \<Rightarrow> bool" and samples :: "'r \<Rightarrow> sample list"
begin

lemma emit_event_spec:
  assumes "rinv r" "tcp_event_ok e" "emit_event g e r = (rc, r')"
  shows "rinv r' \<and>
    (if rc = 0 then \<exists>p. p \<notin> fst ` set (samples r) \<and> samples r' = samples r @ [(p, True, tcp_event_bytes e)]
     else rc = - 1 \<and> r' = r)"
proof -
  obtain ok r1 where ok: "reserve_copy_submit g (length (tcp_event_bytes e)) (tcp_event_bytes e) r = (ok, r1)"
    by fastforce
  then have "r' = r1" "rc = (if ok then 0 else - 1)"
    using assms(3) event_bytes_length(1) [OF assms(2)] by (auto simp: emit_event_def split: bool.splits)
  with reserve_copy_submit_spec [OF assms(1) ok] show ?thesis by auto
qed

text \<open>The outcome depends on the reservation alone.\<close>

lemma emit_event_outcome:
  assumes "rinv r" "tcp_event_ok e"
  shows "if ringbuf_reserve g r (csize struct_tcp_event) = None
    then emit_event g e r = (- 1, r)
    else fst (emit_event g e r) = 0 \<and>
      (\<exists>p. samples (snd (emit_event g e r)) = samples r @ [(p, True, tcp_event_bytes e)])"
proof -
  obtain rc r' where rc: "emit_event g e r = (rc, r')" by fastforce
  have "rc = 0 \<longleftrightarrow> ringbuf_reserve g r (csize struct_tcp_event) \<noteq> None"
    using rc by (auto simp: emit_event_def reserve_copy_submit_def split: option.splits)
  with emit_event_spec [OF assms rc] rc show ?thesis by auto
qed

lemma emit_event_inv: "rinv r \<Longrightarrow> tcp_event_ok e \<Longrightarrow> rinv (snd (emit_event g e r))"
  using emit_event_spec by (metis prod.collapse)

text \<open>The three stores through the element pointer amount to one update of the entry.\<close>

lemma connect_write_spec:
  assumes "hinv m" "map_lookup_elem h m k = Some p"
  shows "hinv (connect_write h ctx p m)"
    "value_load h (connect_write h ctx p m) p = connect_report ctx (value_load h m p)"
    "contents h (connect_write h ctx p m) = (contents h m)(k \<mapsto> connect_report ctx (value_load h m p))"
proof -
  note a = store_via_spec [OF assms, of "te_tcp_state_update (\<lambda>_. TCP_ESTABLISHED)"]
  note b = store_via_spec [OF a(1,2), of "te_event_type_update (\<lambda>_. event_code EVENT_TCP_CONNECT)"]
  note c = store_via_spec [OF b(1,2), of "te_timestamp_ns_update (\<lambda>_. ktime_ns ctx)"]
  show "hinv (connect_write h ctx p m)" using c(1) by (simp add: connect_write_def)
  show "value_load h (connect_write h ctx p m) p = connect_report ctx (value_load h m p)"
    unfolding connect_write_def connect_report_def c(3) b(3) a(3) by simp
  show "contents h (connect_write h ctx p m) = (contents h m)(k \<mapsto> connect_report ctx (value_load h m p))"
    unfolding connect_write_def connect_report_def c(4) b(3,4) a(3,4) by simp
qed

lemma handle_tcp_v4_connect_ret_eq:
  "handle_tcp_v4_connect_ret g h ctx ret s =
     (0, case map_lookup_elem h (connect_info s) (current_pid_tgid ctx) of
           None \<Rightarrow> s
         | Some p \<Rightarrow>
             (if ret = 0 then
                s\<lparr>tcp_events := snd (emit_event g (value_load h (connect_write h ctx p (connect_info s)) p) (tcp_events s)),
                  connect_info := snd (map_delete_elem h (connect_write h ctx p (connect_info s)) (current_pid_tgid ctx))\<rparr>
              else s\<lparr>connect_info := snd (map_delete_elem h (connect_info s) (current_pid_tgid ctx))\<rparr>))"
  by (simp add: handle_tcp_v4_connect_ret_def connect_write_def Let_def split: prod.splits option.splits)

text \<open>Effect of each program on the pending connections.\<close>

lemma connect_pending:
  assumes "tinv h hinv rinv s"
  shows "tpending h (tcp_step g h (TcpConnect ctx sk) s) =
    (if fst (map_update_elem h (connect_info s) (current_pid_tgid ctx) (tuple_event ctx sk)) = 0
     then (tpending h s)(current_pid_tgid ctx \<mapsto> tuple_event ctx sk) else tpending h s)"
  using assms by (simp add: handle_tcp_connect_eq tinv_def tpending_def update_cases)

lemma connect_ret_pending:
  assumes "tinv h hinv rinv s"
  shows "tpending h (tcp_step g h (TcpV4ConnectRet ctx ret) s) = (tpending h s)(current_pid_tgid ctx := None)"
proof (cases "map_lookup_elem h (connect_info s) (current_pid_tgid ctx)")
  case None
  then show ?thesis by (auto simp: handle_tcp_v4_connect_ret_eq tpending_def contents_def fun_eq_iff)
next
  case (Some p)
  have "hinv (connect_info s)" using assms by (simp add: tinv_def tpending_def)
  with Some show ?thesis
    by (simp add: handle_tcp_v4_connect_ret_eq tpending_def delete_spec connect_write_spec [OF _ Some])
qed

lemma set_state_pending: "tpending h (tcp_step g h (TcpSetState ctx sk st) s) = tpending h s"
  by (simp add: handle_tcp_set_state_eq tpending_def)

text \<open>Effect of each program on the ring buffer.\<close>

lemma connect_ring: "tcp_events (tcp_step g h (TcpConnect ctx sk) s) = tcp_events s"
  by (simp add: handle_tcp_connect_eq)

lemma connect_ret_ring:
  assumes "tinv h hinv rinv s"
  shows "tcp_events (tcp_step g h (TcpV4ConnectRet ctx ret) s) =
    (case tpending h s (current_pid_tgid ctx) of
       Some e \<Rightarrow> if ret = 0 then snd (emit_event g (connect_report ctx e) (tcp_events s)) else tcp_events s
     | None \<Rightarrow> tcp_events s)"
proof (cases "map_lookup_elem h (connect_info s) (current_pid_tgid ctx)")
  case None
  then show ?thesis by (simp add: handle_tcp_v4_connect_ret_eq tpending_def contents_def)
next
  case (Some p)
  have "hinv (connect_info s)" using assms by (simp add: tinv_def tpending_def)
  with Some show ?thesis
    by (simp add: handle_tcp_v4_connect_ret_eq tpending_def connect_write_spec [OF _ Some] lookup_contents)
qed

lemma set_state_ring: "tcp_events (tcp_step g h (TcpSetState ctx sk st) s) =
    (if reported_state st then snd (emit_event g (state_report ctx sk st) (tcp_events s)) else tcp_events s)"
  by (simp add: handle_tcp_set_state_eq)

text \<open>Every program keeps the invariant.\<close>

lemma step_tinv:
  assumes "tinv h hinv rinv s" "comm_ok (tcp_ctx e)"
  shows "tinv h hinv rinv (tcp_step g h e s)"
proof (cases e)
  case (TcpConnect ctx sk)
  have "ran (tpending h (tcp_step g h e s)) \<subseteq> insert (tuple_event ctx sk) (ran (tpending h s))"
    using connect_pending [OF assms(1)] TcpConnect by (auto simp: ran_def split: if_splits)
  moreover have "tcp_event_ok (tuple_event ctx sk)" using assms(2) TcpConnect by simp
  ultimately show ?thesis
    using assms(1) TcpConnect update_cases(1) by (auto simp: tinv_def handle_tcp_connect_eq)
next
  case (TcpV4ConnectRet ctx ret)
  have h: "hinv (connect_info (tcp_step g h e s))"
  proof (cases "map_lookup_elem h (connect_info s) (current_pid_tgid ctx)")
    case (Some p)
    moreover have "hinv (connect_info s)" using assms(1) by (simp add: tinv_def)
    ultimately show ?thesis
      using TcpV4ConnectRet by (simp add: handle_tcp_v4_connect_ret_eq delete_spec connect_write_spec(1))
  qed (use assms(1) TcpV4ConnectRet in \<open>simp add: handle_tcp_v4_connect_ret_eq tinv_def\<close>)
  have "tpending h s k = Some x \<Longrightarrow> tcp_event_ok x" for k x
    using assms(1) by (auto simp: tinv_def ran_def)
  then have "rinv (tcp_events (tcp_step g h e s))"
    using assms(1) TcpV4ConnectRet connect_ret_ring [OF assms(1)]
    by (auto simp: tinv_def emit_event_inv split: option.splits)
  moreover have "ran (tpending h (tcp_step g h e s)) \<subseteq> ran (tpending h s)"
    using connect_ret_pending [OF assms(1)] TcpV4ConnectRet by (auto simp: ran_def split: if_splits)
  ultimately show ?thesis using h assms(1) by (auto simp: tinv_def)
next
  case (TcpSetState ctx sk st)
  with assms set_state_pending [of ctx sk st s] set_state_ring [of ctx sk st s] show ?thesis
    by (auto simp: tinv_def emit_event_inv handle_tcp_set_state_eq)
qed

end

sublocale tcp_objects \<subseteq> tcp_pair: probe_pair "tcp_step g h" tcp_tid is_connect_ret is_set_state
  "tpending h" "tinv h hinv rinv" "\<lambda>e. comm_ok (tcp_ctx e)"
proof
  fix s :: "('r, 'm) tcp_maps" and e k
  assume inv: "tinv h hinv rinv s"
  { assume "comm_ok (tcp_ctx e)" with inv show "tinv h hinv rinv (tcp_step g h e s)" by (rule step_tinv) }
  { assume "k \<noteq> tcp_tid e" with inv show "tpending h (tcp_step g h e s) k = tpending h s k"
      using connect_pending [OF inv] connect_ret_pending [OF inv] set_state_pending
      by (cases e) auto }
  { assume "is_set_state e" then show "tpending h (tcp_step g h e s) = tpending h s"
      using set_state_pending by (cases e) auto }
  { assume "is_connect_ret e" with inv show "tpending h (tcp_step g h e s) (tcp_tid e) = None"
      using connect_ret_pending [OF inv] by (cases e) auto }
qed

interpretation ref_tcp: tcp_objects refmap_ops "refmap_inv n" refring_ops refring_inv rr_samples for n
  by unfold_locales

section \<open>Abstract specification\<close>

text \<open>
  The abstract tracker keeps the connections being opened, by thread, and the list of
  events reported so far. The two flags of a step say whether the map accepts the entry of the
  thread and whether the ring has room for a record; nothing else lets an entry or an event be lost.
\<close>

type_synonym tcp_abstract = "(u64 \<Rightarrow> tcp_event option) \<times> tcp_event list"

inductive tcp_spec :: "bool \<Rightarrow> bool \<Rightarrow> tcp_probe \<Rightarrow> tcp_abstract \<Rightarrow> tcp_abstract \<Rightarrow> bool" where
  connect_recorded: "tcp_spec True room (TcpConnect ctx sk) (P, E) (P(current_pid_tgid ctx \<mapsto> tuple_event ctx sk), E)"
| connect_dropped: "tcp_spec False room (TcpConnect ctx sk) (P, E) (P, E)"
| return_unknown: "P (current_pid_tgid ctx) = None \<Longrightarrow> tcp_spec free room (TcpV4ConnectRet ctx ret) (P, E) (P, E)"
| return_failed: "P (current_pid_tgid ctx) = Some e \<Longrightarrow> ret \<noteq> 0 \<Longrightarrow>
    tcp_spec free room (TcpV4ConnectRet ctx ret) (P, E) (P(current_pid_tgid ctx := None), E)"
| return_reported: "P (current_pid_tgid ctx) = Some e \<Longrightarrow>
    tcp_spec free True (TcpV4ConnectRet ctx 0) (P, E) (P(current_pid_tgid ctx := None), E @ [connect_report ctx e])"
| return_lost: "P (current_pid_tgid ctx) = Some e \<Longrightarrow>
    tcp_spec free False (TcpV4ConnectRet ctx 0) (P, E) (P(current_pid_tgid ctx := None), E)"
| state_ignored: "\<not> reported_state st \<Longrightarrow> tcp_spec free room (TcpSetState ctx sk st) (P, E) (P, E)"
| state_reported: "reported_state st \<Longrightarrow> tcp_spec free True (TcpSetState ctx sk st) (P, E) (P, E @ [state_report ctx sk st])"
| state_lost: "reported_state st \<Longrightarrow> tcp_spec free False (TcpSetState ctx sk st) (P, E) (P, E)"

inductive_cases tcp_spec_connectE: "tcp_spec free room (TcpConnect ctx sk) a b"
inductive_cases tcp_spec_retE: "tcp_spec free room (TcpV4ConnectRet ctx ret) a b"
inductive_cases tcp_spec_stateE: "tcp_spec free room (TcpSetState ctx sk st) a b"

text \<open>The specification leaves no choice: an implementation cannot satisfy it by dropping events.\<close>

lemma tcp_spec_deterministic:
  assumes "tcp_spec free room e a b" "tcp_spec free room e a c"
  shows "b = c"
proof (cases e)
  case (TcpConnect ctx sk)
  then show ?thesis using assms by (auto elim!: tcp_spec_connectE)
next
  case (TcpV4ConnectRet ctx ret)
  then show ?thesis using assms by (auto elim!: tcp_spec_retE)
next
  case (TcpSetState ctx sk st)
  then show ?thesis using assms by (auto elim!: tcp_spec_stateE)
qed

inductive tcp_reach :: "tcp_abstract \<Rightarrow> bool" where
  start: "tcp_reach (\<lambda>_. None, [])"
| step: "tcp_reach a \<Longrightarrow> tcp_spec free room e a b \<Longrightarrow> tcp_reach b"

definition tcp_abs :: "('m, tcp_event) hash_ops \<Rightarrow> ('r \<Rightarrow> sample list) \<Rightarrow> ('r, 'm) tcp_maps \<Rightarrow> tcp_abstract" where
  "tcp_abs h samples s =
     (tpending h s, map (\<lambda>x. read_TcpEvent (snd (snd x))) (samples (tcp_events s)))"

text \<open>What is true of every entry and of every reported event.\<close>

definition entry_of_thread :: "u64 \<Rightarrow> tcp_event \<Rightarrow> bool" where
  "entry_of_thread k e \<longleftrightarrow> mk_pid_tgid (te_pid e) (te_tid e) = k \<and> te_event_type e = 0 \<and>
     te_tcp_state e = 0 \<and> te_bytes_sent e = 0 \<and> te_bytes_recv e = 0"

definition report_ok :: "tcp_event \<Rightarrow> bool" where
  "report_ok e \<longleftrightarrow> te_bytes_sent e = 0 \<and> te_bytes_recv e = 0 \<and>
     ((te_event_type e = event_code EVENT_TCP_CONNECT \<and> te_tcp_state e = TCP_ESTABLISHED) \<or>
      (te_event_type e = event_code EVENT_TCP_ACCEPT \<and> te_tcp_state e = TCP_ESTABLISHED) \<or>
      (te_event_type e = event_code EVENT_TCP_CLOSE \<and> te_tcp_state e \<in> {TCP_TIME_WAIT, TCP_CLOSE}))"

definition tcp_abs_inv :: "tcp_abstract \<Rightarrow> bool" where
  "tcp_abs_inv a \<longleftrightarrow> (\<forall>k e. fst a k = Some e \<longrightarrow> entry_of_thread k e) \<and> list_all report_ok (snd a)"

lemma entry_tuple_event: "entry_of_thread (current_pid_tgid ctx) (tuple_event ctx sk)"
  by (simp add: entry_of_thread_def tuple_event_def)

lemma report_connect: "entry_of_thread k e \<Longrightarrow> report_ok (connect_report ctx e)"
  by (simp add: entry_of_thread_def report_ok_def connect_report_def)

lemma report_state: "reported_state st \<Longrightarrow> report_ok (state_report ctx sk st)"
  by (auto simp: report_ok_def state_report_def tuple_event_def reported_state_def tcp_state_defs)

lemma tcp_spec_inv: "tcp_spec free room e a b \<Longrightarrow> tcp_abs_inv a \<Longrightarrow> tcp_abs_inv b"
  by (induction rule: tcp_spec.induct)
    (auto simp: tcp_abs_inv_def entry_tuple_event report_state intro: report_connect)

lemma tcp_reach_inv: "tcp_reach a \<Longrightarrow> tcp_abs_inv a"
proof (induction rule: tcp_reach.induct)
  case start
  show ?case by (simp add: tcp_abs_inv_def)
next
  case (step a free room e b)
  then show ?case by (blast intro: tcp_spec_inv)
qed

section \<open>Refinement\<close>

context tcp_objects
begin

lemma emit_abs:
  assumes "rinv r" "tcp_event_ok e"
  shows "map (\<lambda>x. read_TcpEvent (snd (snd x))) (samples (snd (emit_event g e r))) =
    map (\<lambda>x. read_TcpEvent (snd (snd x))) (samples r) @
      (if ringbuf_reserve g r (csize struct_tcp_event) \<noteq> None then [e] else [])"
  using emit_event_outcome [OF assms] tcp_wire.dec_enc [OF assms(2)] by (auto split: if_splits)

abbreviation accepts :: "tcp_probe \<Rightarrow> ('r, 'm) tcp_maps \<Rightarrow> bool" where
  "accepts e s \<equiv> (case e of
     TcpConnect ctx sk \<Rightarrow> fst (map_update_elem h (connect_info s) (current_pid_tgid ctx) (tuple_event ctx sk)) = 0
   | _ \<Rightarrow> True)"

lemma step_refines:
  assumes inv: "tinv h hinv rinv s" and ok: "comm_ok (tcp_ctx e)"
  shows "tcp_spec (accepts e s) (ringbuf_reserve g (tcp_events s) (csize struct_tcp_event) \<noteq> None) e
    (tcp_abs h samples s) (tcp_abs h samples (tcp_step g h e s))"
proof (cases e)
  case (TcpConnect ctx sk)
  with connect_pending [OF inv, of ctx sk] connect_ring [of ctx sk s] show ?thesis
    by (cases "fst (map_update_elem h (connect_info s) (current_pid_tgid ctx) (tuple_event ctx sk)) = 0")
      (simp_all add: tcp_abs_def connect_recorded connect_dropped del: tcp_step.simps)
next
  case (TcpV4ConnectRet ctx ret)
  have r: "rinv (tcp_events s)" using inv by (simp add: tinv_def)
  show ?thesis
  proof (cases "tpending h s (current_pid_tgid ctx)")
    case None
    then have "(tpending h s)(current_pid_tgid ctx := None) = tpending h s" by auto
    with None TcpV4ConnectRet connect_ret_pending [OF inv, of ctx ret] connect_ret_ring [OF inv, of ctx ret]
    show ?thesis by (simp add: tcp_abs_def return_unknown del: tcp_step.simps)
  next
    case (Some x)
    then have "tcp_event_ok (connect_report ctx x)" using inv by (auto simp: tinv_def ran_def)
    from emit_abs [OF r this] Some TcpV4ConnectRet connect_ret_pending [OF inv, of ctx ret]
      connect_ret_ring [OF inv, of ctx ret]
    show ?thesis
      by (cases "ret = 0"; cases "ringbuf_reserve g (tcp_events s) (csize struct_tcp_event) \<noteq> None")
        (simp_all add: tcp_abs_def return_failed return_reported return_lost del: tcp_step.simps not_None_eq)
  qed
next
  case (TcpSetState ctx sk st)
  have r: "rinv (tcp_events s)" using inv by (simp add: tinv_def)
  have "tcp_event_ok (state_report ctx sk st)" using ok TcpSetState by simp
  from emit_abs [OF r this] TcpSetState set_state_pending [of ctx sk st s] set_state_ring [of ctx sk st s]
  show ?thesis
    by (cases "reported_state st"; cases "ringbuf_reserve g (tcp_events s) (csize struct_tcp_event) \<noteq> None")
      (simp_all add: tcp_abs_def state_ignored state_reported state_lost del: tcp_step.simps not_None_eq)
qed

lemma run_reach:
  assumes "tinv h hinv rinv s" "list_all (\<lambda>e. comm_ok (tcp_ctx e)) es" "tcp_reach (tcp_abs h samples s)"
  shows "tcp_reach (tcp_abs h samples (run_steps (tcp_step g h) es s))"
  using assms
proof (induction es arbitrary: s)
  case (Cons e es)
  then have "tcp_reach (tcp_abs h samples (tcp_step g h e s))"
    by (auto intro: tcp_reach.step step_refines)
  with Cons step_tinv show ?case by simp
qed simp

end

section \<open>A connection under interleaving\<close>

text \<open>
  Events that cannot touch the entry of thread \<open>t\<close>: those of other threads, and state
  changes.
\<close>

definition keeps_entry :: "u64 \<Rightarrow> tcp_probe \<Rightarrow> bool" where
  "keeps_entry t e \<longleftrightarrow> tcp_tid e \<noteq> t \<or> is_set_state e"

text \<open>The event reported for a connection opened at \<open>c1\<close> whose call returned at \<open>c2\<close>.\<close>

definition connection_event :: "bpf_ctx \<Rightarrow> bpf_ctx \<Rightarrow> sock_tuple \<Rightarrow> tcp_event" where
  "connection_event c1 c2 v =
     \<lparr>te_timestamp_ns = ktime_ns c2, te_event_type = event_code EVENT_TCP_CONNECT,
      te_pid = hi32 (current_pid_tgid c1), te_tid = lo32 (current_pid_tgid c1),
      te_src_ip = st_saddr v, te_dst_ip = st_daddr v, te_src_port = st_num v, te_dst_port = st_dport v,
      te_tcp_state = TCP_ESTABLISHED, te_bytes_sent = 0, te_bytes_recv = 0,
      te_comm = current_comm c1 MAX_COMM_LEN\<rparr>"

lemma connection_event_eq:
  "sock_at c1 T sk img \<Longrightarrow>
     connect_report c2 (tuple_event c1 sk) = connection_event c1 c2 (sock_tuple_of T img)"
  by (simp add: connect_report_def tuple_event_def connection_event_def sock_at_reads)

context tcp_objects
begin

lemma keeps_entry_step:
  assumes "tinv h hinv rinv s" "keeps_entry t e"
  shows "tpending h (tcp_step g h e s) t = tpending h s t"
proof (cases e)
  case (TcpConnect ctx sk)
  with assms show ?thesis using connect_pending [OF assms(1), of ctx sk] by (auto simp: keeps_entry_def)
next
  case (TcpV4ConnectRet ctx ret)
  with assms show ?thesis using connect_ret_pending [OF assms(1), of ctx ret] by (auto simp: keeps_entry_def)
next
  case (TcpSetState ctx sk st)
  then show ?thesis using set_state_pending [of ctx sk st s] by simp
qed

lemma keeps_entry_run:
  assumes "tinv h hinv rinv s" "list_all (\<lambda>e. comm_ok (tcp_ctx e)) es" "list_all (keeps_entry t) es"
  shows "tpending h (run_steps (tcp_step g h) es s) t = tpending h s t"
  using assms
proof (induction es arbitrary: s)
  case (Cons e es)
  then show ?case using step_tinv keeps_entry_step by simp
qed simp

text \<open>The return probe of a thread with an entry reports that entry, whatever ran in between.\<close>

lemma connection_run:
  assumes inv: "tinv h hinv rinv s" and ok: "list_all (\<lambda>e. comm_ok (tcp_ctx e)) (TcpConnect c1 sk # mid)"
    and stored: "fst (map_update_elem h (connect_info s) (current_pid_tgid c1) (tuple_event c1 sk)) = 0"
    and keep: "list_all (keeps_entry (current_pid_tgid c1)) mid"
  defines "s1 \<equiv> run_steps (tcp_step g h) (TcpConnect c1 sk # mid) s"
  shows "tinv h hinv rinv s1" "tpending h s1 (current_pid_tgid c1) = Some (tuple_event c1 sk)"
proof -
  let ?s0 = "tcp_step g h (TcpConnect c1 sk) s"
  have inv0: "tinv h hinv rinv ?s0" by (rule step_tinv [OF inv]) (use ok in simp)
  show "tinv h hinv rinv s1" using tcp_pair.run_inv [OF inv ok] by (simp add: s1_def)
  have "tpending h ?s0 (current_pid_tgid c1) = Some (tuple_event c1 sk)"
    using connect_pending [OF inv, of c1 sk] stored by simp
  then show "tpending h s1 (current_pid_tgid c1) = Some (tuple_event c1 sk)"
    using keeps_entry_run [OF inv0 _ keep] ok by (simp add: s1_def)
qed

lemma connection_reported:
  assumes inv: "tinv h hinv rinv s" and ok: "list_all (\<lambda>e. comm_ok (tcp_ctx e)) (TcpConnect c1 sk # mid)"
    and stored: "fst (map_update_elem h (connect_info s) (current_pid_tgid c1) (tuple_event c1 sk)) = 0"
    and keep: "list_all (keeps_entry (current_pid_tgid c1)) mid"
    and sock: "sock_at c1 T sk img" and tid: "current_pid_tgid c2 = current_pid_tgid c1"
    and before: "s1 = run_steps (tcp_step g h) (TcpConnect c1 sk # mid) s"
    and after: "s2 = tcp_step g h (TcpV4ConnectRet c2 0) s1"
  shows "tpending h s2 (current_pid_tgid c1) = None \<and>
    (if ringbuf_reserve g (tcp_events s1) (csize struct_tcp_event) = None
     then tcp_events s2 = tcp_events s1
     else \<exists>p. samples (tcp_events s2) = samples (tcp_events s1) @
        [(p, True, tcp_event_bytes (connection_event c1 c2 (sock_tuple_of T img)))])"
proof -
  note s1 = connection_run [OF inv ok stored keep]
  have inv1: "tinv h hinv rinv s1" and pend: "tpending h s1 (current_pid_tgid c1) = Some (tuple_event c1 sk)"
    using s1 before by simp_all
  let ?e = "connection_event c1 c2 (sock_tuple_of T img)"
  have eok: "tcp_event_ok ?e" using ok by (simp add: connection_event_def tcp_event_ok_def comm_ok_def)
  have "tcp_events s2 = snd (emit_event g ?e (tcp_events s1))"
    using connect_ret_ring [OF inv1, of c2 0] pend tid after connection_event_eq [OF sock]
    by simp
  moreover have "rinv (tcp_events s1)" using inv1 by (simp add: tinv_def)
  ultimately show ?thesis
    using emit_event_outcome [OF _ eok] connect_ret_pending [OF inv1, of c2 0]
      tid after by (simp split: if_splits del: tcp_step.simps)
qed

lemma state_reported:
  assumes inv: "tinv h hinv rinv s" and ok: "comm_ok ctx" and st: "reported_state st"
    and room: "ringbuf_reserve g (tcp_events s) (csize struct_tcp_event) \<noteq> None"
  shows "\<exists>p. samples (tcp_events (tcp_step g h (TcpSetState ctx sk st) s)) =
      samples (tcp_events s) @ [(p, True, tcp_event_bytes (state_report ctx sk st))]"
proof -
  have r: "rinv (tcp_events s)" using inv by (simp add: tinv_def)
  show ?thesis using emit_event_outcome [OF r state_report_ok [OF ok]] room st
    unfolding set_state_ring by (simp del: not_None_eq split: if_splits)
qed

end

text \<open>Entries pile up when threads enter \<open>tcp_connect\<close> and no return probe follows.\<close>

locale tcp_objects_bounded = tcp_objects h hinv g rinv samples + bpf_hash_bounded h hinv max_entries
  for h :: "('m, tcp_event) hash_ops" and hinv :: "'m \<Rightarrow> bool"
    and g :: "'r ring_ops" and rinv :: "'r \<Rightarrow> bool" and samples :: "'r \<Rightarrow> sample list"
    and max_entries :: nat
begin

text \<open>The map accepts an entry exactly if it has one of the thread or room for another.\<close>

lemma step_refines_bounded:
  assumes inv: "tinv h hinv rinv s" and ok: "comm_ok (tcp_ctx e)"
  shows "tcp_spec (tcp_tid e \<in> dom (tpending h s) \<or> card (dom (tpending h s)) < max_entries)
    (ringbuf_reserve g (tcp_events s) (csize struct_tcp_event) \<noteq> None) e
    (tcp_abs h samples s) (tcp_abs h samples (tcp_step g h e s))"
proof (cases e)
  case (TcpConnect ctx sk)
  let ?t = "current_pid_tgid ctx"
  have h: "hinv (connect_info s)" using inv by (simp add: tinv_def)
  have "fst (map_update_elem h (connect_info s) ?t (tuple_event ctx sk)) = 0 \<longleftrightarrow>
      ?t \<in> dom (tpending h s) \<or> card (dom (tpending h s)) < max_entries"
    using update_room [OF h] update_full [OF h] bounded [OF h] unfolding tpending_def by (meson le_neq_implies_less)
  then show ?thesis using step_refines [OF inv ok] TcpConnect by (simp del: tcp_step.simps not_None_eq)
next
  case (TcpV4ConnectRet ctx ret)
  have any: "tcp_spec True room (TcpV4ConnectRet ctx ret) a b \<Longrightarrow> tcp_spec free room (TcpV4ConnectRet ctx ret) a b" for free room a b
    by (auto elim!: tcp_spec_retE intro: tcp_spec.intros)
  show ?thesis using step_refines [OF inv ok] TcpV4ConnectRet by (simp add: any del: tcp_step.simps not_None_eq)
next
  case (TcpSetState ctx sk st)
  have any: "tcp_spec True room (TcpSetState ctx sk st) a b \<Longrightarrow> tcp_spec free room (TcpSetState ctx sk st) a b" for free room a b
    by (auto elim!: tcp_spec_stateE intro: tcp_spec.intros)
  show ?thesis using step_refines [OF inv ok] TcpSetState by (simp add: any del: tcp_step.simps not_None_eq)
qed

lemma connects_fill:
  assumes "tinv h hinv rinv s" "list_all (\<lambda>(c, sk). comm_ok c) cs"
    and "distinct (map (\<lambda>(c, sk). current_pid_tgid c) cs)"
    and "\<forall>(c, sk) \<in> set cs. tpending h s (current_pid_tgid c) = None"
    and "card (dom (tpending h s)) + length cs \<le> max_entries"
  defines "s' \<equiv> run_steps (tcp_step g h) (map (\<lambda>(c, sk). TcpConnect c sk) cs) s"
  shows "tinv h hinv rinv s' \<and> dom (tpending h s') = dom (tpending h s) \<union> (\<lambda>(c, sk). current_pid_tgid c) ` set cs
    \<and> card (dom (tpending h s')) = card (dom (tpending h s)) + length cs"
  using assms(1-5) unfolding s'_def
proof (induction cs arbitrary: s)
  case (Cons x cs)
  obtain c sk where x: "x = (c, sk)" by (cases x)
  let ?s = "tcp_step g h (TcpConnect c sk) s" and ?t = "current_pid_tgid c"
  let ?s' = "run_steps (tcp_step g h) (map (\<lambda>(c, sk). TcpConnect c sk) cs) ?s"
  have h: "hinv (connect_info s)" using Cons.prems(1) by (simp add: tinv_def)
  have "card (dom (contents h (connect_info s))) < max_entries"
    using Cons.prems(5) by (simp add: tpending_def)
  then have "fst (map_update_elem h (connect_info s) ?t (tuple_event c sk)) = 0"
    using update_room [OF h] by blast
  then have p: "tpending h ?s = (tpending h s)(?t \<mapsto> tuple_event c sk)"
    using connect_pending [OF Cons.prems(1)] by simp
  have inv: "tinv h hinv rinv ?s" by (rule step_tinv [OF Cons.prems(1)]) (use Cons.prems(2) x in simp)
  have fin: "finite (dom (tpending h s))" using bounded [OF h] by (simp add: tpending_def)
  have "?t \<notin> dom (tpending h s)" using Cons.prems(4) x by (auto simp: domIff)
  then have card: "card (dom (tpending h ?s)) = Suc (card (dom (tpending h s)))"
    using fin unfolding p by simp
  have free: "\<forall>(c, sk) \<in> set cs. tpending h ?s (current_pid_tgid c) = None"
    using Cons.prems(3,4) x unfolding p by force
  have room: "list_all (\<lambda>(c, sk). comm_ok c) cs" "distinct (map (\<lambda>(c, sk). current_pid_tgid c) cs)"
    "card (dom (tpending h ?s)) + length cs \<le> max_entries"
    using Cons.prems(2,3,5) unfolding card by simp_all
  have dom: "dom (tpending h ?s) = insert ?t (dom (tpending h s))" unfolding p by simp
  note IH = Cons.IH [OF inv room(1,2) free room(3)]
  have ih: "tinv h hinv rinv ?s'"
    "dom (tpending h ?s') = insert ?t (dom (tpending h s)) \<union> (\<lambda>(c, sk). current_pid_tgid c) ` set cs"
    "card (dom (tpending h ?s')) = Suc (card (dom (tpending h s))) + length cs"
    using IH unfolding card by (blast, metis dom IH, blast)
  have s': "run_steps (tcp_step g h) (map (\<lambda>(c, sk). TcpConnect c sk) (x # cs)) s = ?s'"
    by (simp add: x del: tcp_step.simps)
  have "card (dom (tpending h ?s')) = card (dom (tpending h s)) + length (x # cs)" using ih(3) by simp
  moreover have "dom (tpending h ?s') = dom (tpending h s) \<union> (\<lambda>(c, sk). current_pid_tgid c) ` set (x # cs)"
    unfolding ih(2) by (simp add: x)
  ultimately show ?case unfolding s' using ih(1) by blast
qed simp

end

interpretation ref_tcp_bounded:
  tcp_objects_bounded refmap_ops "refmap_inv n" refring_ops refring_inv rr_samples n for n
  by unfold_locales

context tcp_objects
begin

lemmas tcp_no_leak = tcp_pair.all_returned_no_leak

text \<open>With a full map a connection of a new thread leaves no trace.\<close>

lemma refused_connect:
  assumes inv: "tinv h hinv rinv s" and ok: "comm_ok c1"
    and refused: "fst (map_update_elem h (connect_info s) (current_pid_tgid c1) (tuple_event c1 sk)) \<noteq> 0"
    and new: "tpending h s (current_pid_tgid c1) = None"
    and tid: "current_pid_tgid c2 = current_pid_tgid c1"
  shows "tcp_events (run_steps (tcp_step g h) [TcpConnect c1 sk, TcpV4ConnectRet c2 0] s) = tcp_events s"
proof -
  let ?s = "tcp_step g h (TcpConnect c1 sk) s"
  have "tinv h hinv rinv ?s" by (rule step_tinv [OF inv]) (simp add: ok)
  moreover have "tpending h ?s (current_pid_tgid c2) = None"
    using connect_pending [OF inv, of c1 sk] refused new tid by simp
  ultimately have "tcp_events (tcp_step g h (TcpV4ConnectRet c2 0) ?s) = tcp_events ?s"
    using connect_ret_ring by simp
  then show ?thesis using connect_ring [of c1 sk s] by (simp del: tcp_step.simps)
qed

end

section \<open>Concrete maps\<close>

definition tcp_maps_init :: "(refring, tcp_event refmap) tcp_maps" where
  "tcp_maps_init = \<lparr>tcp_events = refring_empty RING_BUFFER_SIZE,
     connect_info = refmap_empty connect_info_max_entries tcp_event_zero\<rparr>"

lemma tcp_maps_init_inv [simp]:
  "tinv refmap_ops (refmap_inv connect_info_max_entries) refring_inv tcp_maps_init"
  by (auto simp: tinv_def tcp_maps_init_def tpending_def refmap_contents refmap_empty_def ran_def
      refmap_inv_def refring_inv_def refring_empty_def)

lemma tcp_maps_init_abs: "tcp_abs refmap_ops rr_samples tcp_maps_init = (\<lambda>_. None, [])"
  by (simp add: tcp_abs_def tcp_maps_init_def tpending_def refmap_contents refmap_empty_def
      refring_empty_def fun_eq_iff)

lemma tcp_step_cap: "rr_cap (tcp_events (tcp_step refring_ops refmap_ops e s)) = rr_cap (tcp_events s)"
proof -
  have emit: "rr_cap (snd (emit_event refring_ops x r)) = rr_cap r" for x r
    using refring_cap_keep [of "csize struct_tcp_event" "tcp_event_bytes x" r]
    by (auto simp: emit_event_def simp del: refring_cap_keep split: prod.splits bool.splits)
  show ?thesis
    by (cases e) (auto simp: handle_tcp_connect_eq ref_tcp.handle_tcp_v4_connect_ret_eq
        handle_tcp_set_state_eq emit split: option.splits)
qed

section \<open>Properties\<close>

text \<open>
  C1. The TCP tracker implements its specification: under the contracts of a hash map of
  \<open>max_entries\<close> keys and of the ring buffer, every probe that fires keeps the invariant of the maps
  and takes them along the step of the specification, which leaves no choice: a connection is recorded
  under its thread unless the map is full of other threads' entries, reported once on a successful
  return unless the ring refuses the record, and a reported state change likewise.
\<close>

theorem tcp_refines_spec:
  assumes "tcp_objects_bounded h hinv g rinv samples max_entries" "tinv h hinv rinv s" "comm_ok (tcp_ctx e)"
  shows "tinv h hinv rinv (tcp_step g h e s) \<and>
    tcp_spec (tcp_tid e \<in> dom (tpending h s) \<or> card (dom (tpending h s)) < max_entries)
      (ringbuf_reserve g (tcp_events s) 68 \<noteq> None) e
      (tcp_abs h samples s) (tcp_abs h samples (tcp_step g h e s)) \<and>
    (\<forall>b. tcp_spec (tcp_tid e \<in> dom (tpending h s) \<or> card (dom (tpending h s)) < max_entries)
      (ringbuf_reserve g (tcp_events s) 68 \<noteq> None) e (tcp_abs h samples s) b \<longrightarrow>
      b = tcp_abs h samples (tcp_step g h e s))"
proof -
  have obj: "tcp_objects h hinv g rinv samples" using assms(1) by (simp add: tcp_objects_bounded_def)
  note step = tcp_objects_bounded.step_refines_bounded [OF assms, unfolded event_struct_sizes]
  show ?thesis using tcp_objects.step_tinv [OF obj assms(2,3)] step tcp_spec_deterministic [OF _ step] by blast
qed

theorem tcp_refines_spec_witness:
  "tcp_abs refmap_ops rr_samples
     (tcp_step refring_ops refmap_ops (TcpConnect (example_ctx (example_tuple 443) 7 1) 4096) tcp_maps_init) =
   ((\<lambda>_. None)(7 \<mapsto> tuple_event (example_ctx (example_tuple 443) 7 1) 4096), [])"
proof -
  let ?e = "TcpConnect (example_ctx (example_tuple 443) 7 1) 4096"
  have inv: "tinv refmap_ops (refmap_inv connect_info_max_entries) refring_inv tcp_maps_init" by simp
  have "tcp_spec True room ?e (\<lambda>_. None, []) ((\<lambda>_. None)(7 \<mapsto> tuple_event (example_ctx (example_tuple 443) 7 1) 4096), [])" for room
    using tcp_spec.connect_recorded [of room "example_ctx (example_tuple 443) 7 1"] by simp
  note spec = this
  have "dom (tpending refmap_ops tcp_maps_init) = {}" "0 < connect_info_max_entries"
    using tcp_maps_init_abs by (simp_all add: tcp_abs_def connect_info_max_entries_def)
  then have free: "(tcp_tid ?e \<in> dom (tpending refmap_ops tcp_maps_init) \<or>
      card (dom (tpending refmap_ops tcp_maps_init)) < connect_info_max_entries) = True" by simp
  have "comm_ok (tcp_ctx ?e)" by simp
  from tcp_refines_spec [OF ref_tcp_bounded.tcp_objects_bounded_axioms inv this, unfolded free tcp_maps_init_abs]
  show ?thesis using spec by (metis (no_types))
qed

text \<open>
  C2. Correlation under interleaving: a thread enters \<open>tcp_connect\<close>, any number of other
  probes fire in between (of other threads, or state changes), and \<open>tcp_v4_connect\<close> then
  returns 0 on that thread. The return probe reports exactly the socket's 4-tuple read at
  entry, with the ids and command of the thread, state ESTABLISHED and the time of the
  return; it fails to do so only when the ring buffer has no room. The entry is gone
  afterwards.
\<close>

theorem tcp_connect_correlated:
  assumes obj: "tcp_objects h hinv g rinv samples" and inv: "tinv h hinv rinv s"
    and ok: "list_all (\<lambda>e. comm_ok (tcp_ctx e)) (TcpConnect c1 sk # mid)"
    and stored: "fst (map_update_elem h (connect_info s) (current_pid_tgid c1) (tuple_event c1 sk)) = 0"
    and keep: "list_all (keeps_entry (current_pid_tgid c1)) mid"
    and sock: "sock_at c1 T sk img" and tid: "current_pid_tgid c2 = current_pid_tgid c1"
    and before: "s1 = run_steps (tcp_step g h) (TcpConnect c1 sk # mid) s"
    and after: "s2 = tcp_step g h (TcpV4ConnectRet c2 0) s1"
  shows "tpending h s2 (current_pid_tgid c1) = None \<and>
    (if ringbuf_reserve g (tcp_events s1) (csize struct_tcp_event) = None
     then tcp_events s2 = tcp_events s1
     else \<exists>p. samples (tcp_events s2) = samples (tcp_events s1) @
        [(p, True, tcp_event_bytes (connection_event c1 c2 (sock_tuple_of T img)))])"
  by (rule tcp_objects.connection_reported [OF obj inv ok stored keep sock tid before after])

theorem tcp_connect_correlated_witness:
  "\<exists>p. rr_samples (tcp_events (tcp_step refring_ops refmap_ops
       (TcpV4ConnectRet (example_ctx (example_tuple 5432) 7 3) 0)
       (run_steps (tcp_step refring_ops refmap_ops)
         [TcpConnect (example_ctx (example_tuple 5432) 7 1) 4096,
          TcpConnect (example_ctx (example_tuple 80) 9 2) 4096] tcp_maps_init))) =
     [(p, True, tcp_event_bytes (connection_event (example_ctx (example_tuple 5432) 7 1)
        (example_ctx (example_tuple 5432) 7 3) (example_tuple 5432)))]"
proof -
  let ?c = "\<lambda>d t k. example_ctx (example_tuple d) t k"
  let ?s1 = "run_steps (tcp_step refring_ops refmap_ops)
    [TcpConnect (?c 5432 7 1) 4096, TcpConnect (?c 80 9 2) 4096] tcp_maps_init"
  have ring: "tcp_events ?s1 = refring_empty RING_BUFFER_SIZE"
    by (simp add: handle_tcp_connect_eq tcp_maps_init_def)
  have stored: "fst (map_update_elem refmap_ops (connect_info tcp_maps_init)
      (current_pid_tgid (?c 5432 7 1)) (tuple_event (?c 5432 7 1) 4096)) = 0"
    by (simp add: tcp_maps_init_def connect_info_max_entries_def)
  have ok: "list_all (\<lambda>e. comm_ok (tcp_ctx e)) (TcpConnect (?c 5432 7 1) 4096 # [TcpConnect (?c 80 9 2) 4096])"
    and keep: "list_all (keeps_entry (current_pid_tgid (?c 5432 7 1))) [TcpConnect (?c 80 9 2) 4096]"
    and tid: "current_pid_tgid (?c 5432 7 3) = current_pid_tgid (?c 5432 7 1)"
    by (simp_all add: keeps_entry_def)
  have room: "(ringbuf_reserve refring_ops (refring_empty RING_BUFFER_SIZE) (csize struct_tcp_event) = None) = False"
    by (simp add: RING_BUFFER_SIZE_def)
  show ?thesis
    using tcp_connect_correlated [OF ref_tcp.tcp_objects_axioms tcp_maps_init_inv ok stored keep example_sock_at
        tid refl refl]
    unfolding ring room by (simp del: tcp_step.simps run_steps.simps)
qed

text \<open>
  No entry outlives its call: from empty maps, after any interleaving of probe events in
  which the last connect or return event of every thread is a return, \<open>connect_info\<close> is
  empty, whatever the return codes were.
\<close>

lemma tcp_no_entry_after_returns:
  assumes "tcp_objects h hinv g rinv samples" "tinv h hinv rinv s"
    and "list_all (\<lambda>e. comm_ok (tcp_ctx e)) es" "\<forall>k. tpending h s k = None"
    and "\<forall>e \<in> set es. is_set_state e \<or>
      (\<exists>x. last_of tcp_tid (tcp_tid e) (filter (\<lambda>e. \<not> is_set_state e) es) = Some x \<and> is_connect_ret x)"
  shows "tpending h (run_steps (tcp_step g h) es s) k = None"
  using tcp_objects.tcp_no_leak [OF assms] .

lemma tcp_maps_init_pending [simp]: "tpending refmap_ops tcp_maps_init k = None"
  by (simp add: tpending_def tcp_maps_init_def)

lemma tcp_no_entry_after_returns_example:
  "tpending refmap_ops (run_steps (tcp_step refring_ops refmap_ops)
     [TcpConnect (example_ctx (example_tuple 443) 7 1) 4096,
      TcpConnect (example_ctx (example_tuple 80) 9 2) 4096,
      TcpV4ConnectRet (example_ctx (example_tuple 443) 7 3) 0,
      TcpSetState (example_ctx (example_tuple 443) 7 4) 4096 1,
      TcpV4ConnectRet (example_ctx (example_tuple 80) 9 5) (- 111)] tcp_maps_init) 7 = None"
  by (rule tcp_no_entry_after_returns [OF ref_tcp.tcp_objects_axioms tcp_maps_init_inv]) simp_all

text \<open>
  Everything the tracker ever reports is well formed: in every run from empty maps each
  reported event is a CONNECT or ACCEPT with state ESTABLISHED or a CLOSE with state
  TIME\_WAIT or CLOSE, its byte counters are 0, and each entry of \<open>connect_info\<close> carries the
  ids of the thread it is stored under.
\<close>

lemma tcp_reports_wellformed:
  assumes "tcp_objects h hinv g rinv samples" "tinv h hinv rinv s"
    and "list_all (\<lambda>e. comm_ok (tcp_ctx e)) es" "tcp_abs h samples s = (\<lambda>_. None, [])"
    and final: "tcp_abs h samples (run_steps (tcp_step g h) es s) = (P, E)"
  shows "list_all report_ok E \<and> (\<forall>k e. P k = Some e \<longrightarrow> entry_of_thread k e)"
proof -
  have "tcp_reach (P, E)"
    using tcp_objects.run_reach [OF assms(1,2,3)] tcp_reach.start assms(4) final by metis
  then show ?thesis using tcp_reach_inv by (fastforce simp: tcp_abs_inv_def)
qed

lemma tcp_reports_wellformed_example:
  "\<exists>P E. tcp_abs refmap_ops rr_samples (run_steps (tcp_step refring_ops refmap_ops)
       [TcpConnect (example_ctx (example_tuple 443) 7 1) 4096,
        TcpSetState (example_ctx (example_tuple 443) 7 4) 4096 7] tcp_maps_init) = (P, E) \<and>
     list_all report_ok E"
proof -
  obtain P E where "tcp_abs refmap_ops rr_samples (run_steps (tcp_step refring_ops refmap_ops)
       [TcpConnect (example_ctx (example_tuple 443) 7 1) 4096,
        TcpSetState (example_ctx (example_tuple 443) 7 4) 4096 7] tcp_maps_init) = (P, E)"
    by fastforce
  with tcp_reports_wellformed [OF ref_tcp.tcp_objects_axioms tcp_maps_init_inv _ tcp_maps_init_abs this]
  show ?thesis by simp
qed

text \<open>
  C38. State changes: a change to any state other than ESTABLISHED, TIME\_WAIT and CLOSE
  touches nothing; a change to one of these is reported with the socket's 4-tuple, the new
  state, and the type ACCEPT for ESTABLISHED and CLOSE otherwise, unless the ring is full.
  The program always returns 0 and never touches \<open>connect_info\<close>.
\<close>

theorem tcp_set_state_reports:
  assumes obj: "tcp_objects h hinv g rinv samples" and inv: "tinv h hinv rinv s" and ok: "comm_ok ctx"
    and sock: "sock_at ctx T sk img"
    and result: "handle_tcp_set_state g ctx sk st s = (rc, s')"
  shows "rc = 0 \<and> connect_info s' = connect_info s \<and>
    (if st \<notin> {1, 6, 7} \<or> ringbuf_reserve g (tcp_events s) 68 = None then s' = s
     else \<exists>p. samples (tcp_events s') = samples (tcp_events s) @ [(p, True, tcp_event_bytes
        (let v = sock_tuple_of T img in
         \<lparr>te_timestamp_ns = ktime_ns ctx, te_event_type = (if st = 1 then 2 else 3),
          te_pid = hi32 (current_pid_tgid ctx), te_tid = lo32 (current_pid_tgid ctx),
          te_src_ip = st_saddr v, te_dst_ip = st_daddr v, te_src_port = st_num v, te_dst_port = st_dport v,
          te_tcp_state = st, te_bytes_sent = 0, te_bytes_recv = 0,
          te_comm = current_comm ctx 16\<rparr>))])"
proof -
  have r: "rinv (tcp_events s)" using inv by (simp add: tinv_def)
  have rep: "state_report ctx sk st =
        (let v = sock_tuple_of T img in
         \<lparr>te_timestamp_ns = ktime_ns ctx, te_event_type = (if st = 1 then 2 else 3),
          te_pid = hi32 (current_pid_tgid ctx), te_tid = lo32 (current_pid_tgid ctx),
          te_src_ip = st_saddr v, te_dst_ip = st_daddr v, te_src_port = st_num v, te_dst_port = st_dport v,
          te_tcp_state = st, te_bytes_sent = 0, te_bytes_recv = 0, te_comm = current_comm ctx 16\<rparr>)"
    by (simp add: state_report_def tuple_event_def sock_at_reads [OF sock] tcp_state_defs event_simps Let_def)
  have st: "reported_state st \<longleftrightarrow> st \<in> {1, 6, 7}" by (simp add: reported_state_def tcp_state_defs)
  from tcp_objects.emit_event_outcome [OF obj r state_report_ok [OF ok]] result show ?thesis
    unfolding handle_tcp_set_state_eq st rep [symmetric] by (auto split: if_splits)
qed

theorem tcp_set_state_reports_witness:
  "\<exists>p s'. handle_tcp_set_state refring_ops (example_ctx (example_tuple 443) 7 4) 4096 6 tcp_maps_init = (0, s') \<and>
     rr_samples (tcp_events s') = [(p, True, tcp_event_bytes
       \<lparr>te_timestamp_ns = 4, te_event_type = 3, te_pid = 0, te_tid = 7, te_src_ip = 0x0100007F,
        te_dst_ip = 0x0200000A, te_src_port = 40000, te_dst_port = 443, te_tcp_state = 6,
        te_bytes_sent = 0, te_bytes_recv = 0, te_comm = replicate 16 0\<rparr>)]"
proof -
  let ?c = "example_ctx (example_tuple 443) 7 4"
  obtain rc s' where run: "handle_tcp_set_state refring_ops ?c 4096 6 tcp_maps_init = (rc, s')" by fastforce
  have "hi32 7 = 0" "lo32 7 = 7" by (simp_all add: hi32_def lo32_def)
  moreover have "ringbuf_reserve refring_ops (tcp_events tcp_maps_init) 68 \<noteq> None"
    by (simp add: tcp_maps_init_def RING_BUFFER_SIZE_def del: not_None_eq)
  moreover have "rr_samples (tcp_events tcp_maps_init) = []" by (simp add: tcp_maps_init_def)
  ultimately show ?thesis
    using tcp_set_state_reports [OF ref_tcp.tcp_objects_axioms tcp_maps_init_inv example_comm_ok
        example_sock_at run] run
    by (simp add: Let_def del: not_None_eq) (simp add: example_tuple_def)
qed

text \<open>
  Connections whose return is not probed exhaust the map: when \<open>max_entries\<close> different
  threads have entered \<open>tcp_connect\<close> without a return probe (the return probe sits on
  \<open>tcp_v4_connect\<close> only), the map is full, and a successful connection of any further
  thread is not reported although the ring has room.
\<close>

lemma tcp_unreturned_connects_silence_tracker:
  assumes obj: "tcp_objects_bounded h hinv g rinv samples (length cs)"
    and inv: "tinv h hinv rinv s" and empty: "\<forall>k. tpending h s k = None"
    and ok: "list_all (\<lambda>(c, sk). comm_ok c) cs" "comm_ok c1"
    and dist: "distinct (map (\<lambda>(c, sk). current_pid_tgid c) cs)"
    and new: "current_pid_tgid c1 \<notin> set (map (\<lambda>(c, sk). current_pid_tgid c) cs)"
    and tid: "current_pid_tgid c2 = current_pid_tgid c1"
    and full: "s1 = run_steps (tcp_step g h) (map (\<lambda>(c, sk). TcpConnect c sk) cs) s"
  shows "tcp_events (run_steps (tcp_step g h) [TcpConnect c1 sk, TcpV4ConnectRet c2 0] s1) = tcp_events s1"
proof -
  have dom: "dom (tpending h s) = {}" using empty by auto
  note fill = tcp_objects_bounded.connects_fill [OF obj inv ok(1) dist]
  have s1: "tinv h hinv rinv s1" "dom (tpending h s1) = (\<lambda>(c, sk). current_pid_tgid c) ` set cs"
    "card (dom (tpending h s1)) = length cs"
    using fill dom empty full by auto
  have hinv: "hinv (connect_info s1)" using s1(1) by (simp add: tinv_def)
  have new': "current_pid_tgid c1 \<notin> dom (tpending h s1)" using new s1(2) by auto
  have bounded: "bpf_hash_bounded h hinv (length cs)" and obj': "tcp_objects h hinv g rinv samples"
    using obj by (simp_all add: tcp_objects_bounded_def)
  have "fst (map_update_elem h (connect_info s1) (current_pid_tgid c1) (tuple_event c1 sk)) \<noteq> 0"
    using bpf_hash_bounded.update_full [OF bounded hinv] s1(3) new' by (simp add: tpending_def)
  then show ?thesis
    using tcp_objects.refused_connect [OF obj' s1(1) ok(2) _ _ tid] new' by (simp add: domIff)
qed

lemma tcp_unreturned_connects_silence_tracker_example:
  "tcp_events (run_steps (tcp_step refring_ops refmap_ops)
     [TcpConnect (example_ctx (example_tuple 80) 9 2) 4096, TcpV4ConnectRet (example_ctx (example_tuple 80) 9 3) 0]
     (run_steps (tcp_step refring_ops refmap_ops)
       (map (\<lambda>(c, sk). TcpConnect c sk) [(example_ctx (example_tuple 80) 7 1, 4096)])
       \<lparr>tcp_events = refring_empty 4096, connect_info = refmap_empty 1 tcp_event_zero\<rparr>)) =
   refring_empty 4096"
proof -
  let ?s = "\<lparr>tcp_events = refring_empty 4096, connect_info = refmap_empty 1 tcp_event_zero\<rparr>"
  let ?cs = "[(example_ctx (example_tuple 80) 7 1, 4096 :: u64)]"
  have inv: "tinv refmap_ops (refmap_inv (length ?cs)) refring_inv ?s"
    and empty: "\<forall>k. tpending refmap_ops ?s k = None"
    by (simp_all add: tinv_def tpending_def ran_def)
  have ring: "tcp_events (run_steps (tcp_step refring_ops refmap_ops) (map (\<lambda>(c, sk). TcpConnect c sk) ?cs) ?s) =
      refring_empty 4096" by (simp add: handle_tcp_connect_eq)
  show ?thesis
    using tcp_unreturned_connects_silence_tracker [OF ref_tcp_bounded.tcp_objects_bounded_axioms inv empty
        _ _ _ _ _ refl, of "example_ctx (example_tuple 80) 9 2" "example_ctx (example_tuple 80) 9 3" 4096]
    unfolding ring by (simp del: run_steps.simps)
qed

text \<open>
  An active open is reported twice: a thread opens a connection, the call returns 0, and
  the socket then becomes ESTABLISHED. With room in map and ring the run adds exactly two
  samples, a CONNECT and an ACCEPT, both with the same 4-tuple, since the state probe does
  not look at which side opened the connection.
\<close>

lemma tcp_active_open_also_accept:
  assumes obj: "tcp_objects h hinv g rinv samples" and inv: "tinv h hinv rinv s"
    and ok: "comm_ok c1" "comm_ok c2" "comm_ok c3"
    and stored: "fst (map_update_elem h (connect_info s) (current_pid_tgid c1) (tuple_event c1 sk)) = 0"
    and sock: "sock_at c1 T sk img" "sock_at c3 T sk img" and tid: "current_pid_tgid c2 = current_pid_tgid c1"
    and room: "ringbuf_reserve g (tcp_events s) 68 \<noteq> None"
    and run: "s2 = run_steps (tcp_step g h) [TcpConnect c1 sk, TcpV4ConnectRet c2 0] s"
    and room2: "ringbuf_reserve g (tcp_events s2) 68 \<noteq> None"
  shows "\<exists>p q a c. samples (tcp_events (tcp_step g h (TcpSetState c3 sk TCP_ESTABLISHED) s2)) =
      samples (tcp_events s) @ [(p, True, tcp_event_bytes c), (q, True, tcp_event_bytes a)] \<and>
    te_event_type c = event_code EVENT_TCP_CONNECT \<and> te_event_type a = event_code EVENT_TCP_ACCEPT \<and>
    (te_src_ip a, te_src_port a, te_dst_ip a, te_dst_port a) =
    (te_src_ip c, te_src_port c, te_dst_ip c, te_dst_port c)"
proof -
  let ?s1 = "run_steps (tcp_step g h) (TcpConnect c1 sk # []) s"
  have okm: "list_all (\<lambda>e. comm_ok (tcp_ctx e)) (TcpConnect c1 sk # [])"
    and keep: "list_all (keeps_entry (current_pid_tgid c1)) []" using ok by simp_all
  have s2: "s2 = tcp_step g h (TcpV4ConnectRet c2 0) ?s1" by (simp add: run del: tcp_step.simps)
  have r1: "tcp_events ?s1 = tcp_events s" using tcp_objects.connect_ring [OF obj] by (simp del: tcp_step.simps)
  obtain p where p: "samples (tcp_events s2) = samples (tcp_events s) @
      [(p, True, tcp_event_bytes (connection_event c1 c2 (sock_tuple_of T img)))]"
    using tcp_objects.connection_reported [OF obj inv okm stored keep sock(1) tid refl s2] room
    unfolding r1 by (simp del: not_None_eq split: if_splits) blast
  have inv2: "tinv h hinv rinv s2"
    using tcp_objects.step_tinv [OF obj] inv ok by (simp add: run del: tcp_step.simps)
  have "reported_state TCP_ESTABLISHED" by (simp add: reported_state_def)
  then obtain q where "samples (tcp_events (tcp_step g h (TcpSetState c3 sk TCP_ESTABLISHED) s2)) =
      samples (tcp_events s2) @ [(q, True, tcp_event_bytes (state_report c3 sk TCP_ESTABLISHED))]"
    using tcp_objects.state_reported [OF obj inv2 ok(3)] room2 by (simp del: not_None_eq tcp_step.simps) blast
  then show ?thesis
    by (intro exI [of _ p] exI [of _ q] exI [of _ "state_report c3 sk TCP_ESTABLISHED"]
        exI [of _ "connection_event c1 c2 (sock_tuple_of T img)"])
      (simp add: p state_report_def tuple_event_def connection_event_def
        sock_at_reads [OF sock(2)] del: tcp_step.simps)
qed

lemma tcp_active_open_also_accept_example:
  "\<exists>p q a c. rr_samples (tcp_events (tcp_step refring_ops refmap_ops
       (TcpSetState (example_ctx (example_tuple 443) 9 3) 4096 TCP_ESTABLISHED)
       (run_steps (tcp_step refring_ops refmap_ops)
         [TcpConnect (example_ctx (example_tuple 443) 7 1) 4096,
          TcpV4ConnectRet (example_ctx (example_tuple 443) 7 2) 0] tcp_maps_init))) =
     [(p, True, tcp_event_bytes c), (q, True, tcp_event_bytes a)] \<and>
     te_event_type c = event_code EVENT_TCP_CONNECT \<and> te_event_type a = event_code EVENT_TCP_ACCEPT"
proof -
  let ?c = "\<lambda>t k. example_ctx (example_tuple 443) t k"
  let ?s2 = "run_steps (tcp_step refring_ops refmap_ops)
    [TcpConnect (?c 7 1) 4096, TcpV4ConnectRet (?c 7 2) 0] tcp_maps_init"
  have room: "ringbuf_reserve refring_ops (tcp_events tcp_maps_init) 68 \<noteq> None"
    by (simp add: tcp_maps_init_def RING_BUFFER_SIZE_def del: not_None_eq)
  have stored: "fst (map_update_elem refmap_ops (connect_info tcp_maps_init)
      (current_pid_tgid (?c 7 1)) (tuple_event (?c 7 1) 4096)) = 0"
    by (simp add: tcp_maps_init_def connect_info_max_entries_def)
  have tid: "current_pid_tgid (?c 7 2) = current_pid_tgid (?c 7 1)" by simp
  have none: "rr_samples (tcp_events tcp_maps_init) = []" by (simp add: tcp_maps_init_def)
  have room2: "ringbuf_reserve refring_ops (tcp_events ?s2) 68 \<noteq> None"
  proof -
    have "list_all (\<lambda>e. comm_ok (tcp_ctx e)) (TcpConnect (?c 7 1) 4096 # [])" by simp
    from ref_tcp.connection_reported [OF tcp_maps_init_inv this stored _ example_sock_at tid refl refl]
    have "\<exists>p. rr_samples (tcp_events ?s2) = [(p, True, tcp_event_bytes (connection_event (?c 7 1) (?c 7 2) (example_tuple 443)))]"
      using room none by (simp add: tcp_objects.connect_ring [OF ref_tcp.tcp_objects_axioms] del: not_None_eq tcp_step.simps split: if_splits)
    moreover have "tcp_event_ok (connection_event (?c 7 1) (?c 7 2) (example_tuple 443))"
      by (simp add: connection_event_def tcp_event_ok_def)
    ultimately have "refring_used (tcp_events ?s2) = sample_space 68"
      using event_bytes_length(1) by (auto simp: refring_used_def)
    moreover have "rr_cap (tcp_events ?s2) = RING_BUFFER_SIZE"
      by (simp add: tcp_step_cap tcp_maps_init_def refring_empty_def del: tcp_step.simps)
    moreover have "sample_space 68 = 80" by (simp add: sample_space_def round_up_def)
    ultimately show ?thesis unfolding refring_reserve_iff by (simp add: RING_BUFFER_SIZE_def)
  qed
  show ?thesis
    using tcp_active_open_also_accept [OF ref_tcp.tcp_objects_axioms tcp_maps_init_inv example_comm_ok
        example_comm_ok example_comm_ok stored example_sock_at example_sock_at tid room refl room2]
    unfolding none by (simp del: tcp_step.simps run_steps.simps) blast
qed

text \<open>
  Codes against the kernel's enumeration in \<open>vmlinux.h\<close>: ESTABLISHED, SYN\_SENT, the two
  FIN\_WAIT states, TIME\_WAIT and CLOSE have the kernel's numbers, but the CLOSE\_WAIT of
  \<open>common.h\<close> is the kernel's CLOSE; the kernel's own CLOSE\_WAIT is 8.
\<close>

lemma tcp_state_codes_vs_kernel:
  "map_of enum_tcp_states ''TCP_ESTABLISHED'' = Some (uint TCP_ESTABLISHED) \<and>
   map_of enum_tcp_states ''TCP_SYN_SENT'' = Some (uint TCP_SYN_SENT) \<and>
   map_of enum_tcp_states ''TCP_FIN_WAIT1'' = Some (uint TCP_FIN_WAIT1) \<and>
   map_of enum_tcp_states ''TCP_FIN_WAIT2'' = Some (uint TCP_FIN_WAIT2) \<and>
   map_of enum_tcp_states ''TCP_TIME_WAIT'' = Some (uint TCP_TIME_WAIT) \<and>
   map_of enum_tcp_states ''TCP_CLOSE'' = Some (uint TCP_CLOSE) \<and>
   map_of enum_tcp_states ''TCP_CLOSE_WAIT'' = Some 8 \<and> uint TCP_CLOSE_WAIT = uint TCP_CLOSE"
  by (simp add: enum_tcp_states_def tcp_state_defs)

end
