(* ===== verification/Tcp_Consumer.thy ===== *)
theory Tcp_Consumer
  imports Agent_Base Tcp_Tracker "HOL-Library.AList"
begin

text \<open>
  \<open>tcp_tracker.rs\<close>: the agent keeps the tracked connections in a hash map keyed by the
  4-tuple. The ring buffer callback \<open>handle_tcp_event\<close> updates it from each record;
  \<open>drain_events\<close> turns it into network events and clears it. The map is an association list
  (its iteration order is not specified), an \<open>Instant\<close> is a number of nanoseconds, and the time
  of a call is an argument.
\<close>

section \<open>Tracked connections\<close>

record ConnectionKey =
  ck_src_ip :: u32
  ck_src_port :: u16
  ck_dst_ip :: u32
  ck_dst_port :: u16

record TrackedConnection =
  tc_pid :: u32
  tc_process_name :: rstring
  tc_state :: rstring
  tc_bytes_sent :: u64
  tc_bytes_recv :: u64
  tc_first_seen :: nat
  tc_last_seen :: nat

type_synonym connections = "(ConnectionKey \<times> TrackedConnection) list"

definition extract_comm :: "bytes \<Rightarrow> rstring" where
  "extract_comm comm = from_utf8_lossy (until_nul comm)"

definition tcp_state_name :: "u32 \<Rightarrow> rstring" where
  "tcp_state_name st =
     (if st = 1 then lit ''ESTABLISHED'' else if st = 2 then lit ''SYN_SENT''
      else if st = 3 then lit ''SYN_RECV'' else if st = 4 then lit ''FIN_WAIT1''
      else if st = 5 then lit ''FIN_WAIT2'' else if st = 6 then lit ''TIME_WAIT''
      else if st = 7 then lit ''CLOSE_WAIT'' else if st = 8 then lit ''LAST_ACK''
      else if st = 9 then lit ''CLOSING'' else if st = 10 then lit ''LISTEN''
      else lit ''UNKNOWN'')"

definition handle_tcp_event ::
  "(bytes \<Rightarrow> tcp_event option) \<Rightarrow> nat \<Rightarrow> u16 list \<Rightarrow> bytes \<Rightarrow> connections \<Rightarrow> int \<times> connections" where
  "handle_tcp_event from_bytes now exclude_ports data conns =
     (case from_bytes data of
        None \<Rightarrow> (0, conns)
      | Some event \<Rightarrow>
          if te_src_port event \<in> set exclude_ports \<or> te_dst_port event \<in> set exclude_ports
          then (0, conns)
          else
            (let key = \<lparr>ck_src_ip = te_src_ip event, ck_src_port = te_src_port event,
                        ck_dst_ip = te_dst_ip event, ck_dst_port = te_dst_port event\<rparr>;
                 name = extract_comm (te_comm event);
                 st = tcp_state_name (te_tcp_state event);
                 tracked = (case map_of conns key of
                     Some t \<Rightarrow> t
                   | None \<Rightarrow> \<lparr>tc_pid = te_pid event, tc_process_name = name, tc_state = st,
                              tc_bytes_sent = 0, tc_bytes_recv = 0, tc_first_seen = now, tc_last_seen = now\<rparr>);
                 tracked = tracked\<lparr>tc_state := st, tc_bytes_sent := te_bytes_sent event,
                   tc_bytes_recv := te_bytes_recv event, tc_last_seen := now, tc_pid := te_pid event,
                   tc_process_name := name\<rparr>
             in (0, AList.update key tracked conns)))"

definition stale_threshold :: nat where
  "stale_threshold = 300 * 1000000000"

definition connection_event_of :: "ConnectionKey \<Rightarrow> TrackedConnection \<Rightarrow> NetworkEvent" where
  "connection_event_of key conn =
     TcpConnection (format_ip (ck_src_ip key)) (ck_src_port key) (format_ip (ck_dst_ip key)) (ck_dst_port key)
       (tc_state conn) (tc_pid conn) (tc_process_name conn)"

definition drain_connections :: "nat \<Rightarrow> connections \<Rightarrow> NetworkEvent list \<times> connections" where
  "drain_connections now conns =
     (let conns = filter (\<lambda>(key, conn). \<not> stale_threshold < now - tc_last_seen conn) conns;
          events = map (\<lambda>(key, conn). connection_event_of key conn) conns
      in (events, []))"

section \<open>Effect on the map\<close>

definition event_key :: "tcp_event \<Rightarrow> ConnectionKey" where
  "event_key e = \<lparr>ck_src_ip = te_src_ip e, ck_src_port = te_src_port e,
     ck_dst_ip = te_dst_ip e, ck_dst_port = te_dst_port e\<rparr>"

definition excluded :: "u16 list \<Rightarrow> tcp_event \<Rightarrow> bool" where
  "excluded ports e \<longleftrightarrow> te_src_port e \<in> set ports \<or> te_dst_port e \<in> set ports"

definition tracked_of :: "nat \<Rightarrow> nat \<Rightarrow> tcp_event \<Rightarrow> TrackedConnection" where
  "tracked_of first now e =
     \<lparr>tc_pid = te_pid e, tc_process_name = extract_comm (te_comm e), tc_state = tcp_state_name (te_tcp_state e),
      tc_bytes_sent = te_bytes_sent e, tc_bytes_recv = te_bytes_recv e, tc_first_seen = first, tc_last_seen = now\<rparr>"

lemma tracked_update:
  "t\<lparr>tc_state := tcp_state_name (te_tcp_state e), tc_bytes_sent := te_bytes_sent e,
     tc_bytes_recv := te_bytes_recv e, tc_last_seen := now, tc_pid := te_pid e,
     tc_process_name := extract_comm (te_comm e)\<rparr> = tracked_of (tc_first_seen t) now e"
  by (cases t) (simp add: tracked_of_def)

lemma handle_tcp_event_eq:
  assumes "from_bytes data = Some e" "\<not> excluded ports e"
  shows "handle_tcp_event from_bytes now ports data conns =
    (0, AList.update (event_key e)
      (tracked_of (case map_of conns (event_key e) of Some t \<Rightarrow> tc_first_seen t | None \<Rightarrow> now) now e) conns)"
  using assms
  by (simp add: handle_tcp_event_def excluded_def event_key_def tracked_update Let_def split: option.splits)

lemma handle_tcp_event_excluded:
  assumes "from_bytes data = Some e" "excluded ports e"
  shows "handle_tcp_event from_bytes now ports data conns = (0, conns)"
  using assms by (simp add: handle_tcp_event_def excluded_def)

lemma handle_tcp_event_distinct:
  "distinct (map fst conns) \<Longrightarrow> distinct (map fst (snd (handle_tcp_event fb now ports data conns)))"
  by (simp add: handle_tcp_event_def Let_def distinct_update split: option.splits)

text \<open>Consuming a sequence of records, each at its time.\<close>

fun consume_tcp :: "(bytes \<Rightarrow> tcp_event option) \<Rightarrow> u16 list \<Rightarrow> (nat \<times> bytes) list \<Rightarrow> connections \<Rightarrow> connections" where
  "consume_tcp fb ports [] conns = conns"
| "consume_tcp fb ports ((now, d) # ds) conns = consume_tcp fb ports ds (snd (handle_tcp_event fb now ports d conns))"

lemma consume_tcp_append: "consume_tcp fb ports (xs @ ys) conns = consume_tcp fb ports ys (consume_tcp fb ports xs conns)"
  by (induction fb ports xs conns rule: consume_tcp.induct) auto

lemma consume_events_last:
  assumes "plain_view fb read_TcpEvent 68" "\<forall>(t, e) \<in> set evs. tcp_event_ok e"
    and rel: "rel = filter (\<lambda>(t, e). \<not> excluded ports e \<and> event_key e = k) evs"
  shows "map_of (consume_tcp fb ports (map (\<lambda>(t, e). (t, tcp_event_bytes e)) evs) []) k =
    (if rel = [] then None else Some (tracked_of (fst (hd rel)) (fst (last rel)) (snd (last rel))))"
  using assms(2) unfolding rel
proof (induction evs rule: rev_induct)
  case (snoc x evs)
  obtain t e where x: "x = (t, e)" by (cases x)
  let ?c = "consume_tcp fb ports (map (\<lambda>(t, e). (t, tcp_event_bytes e)) evs) []"
  let ?rel = "filter (\<lambda>(t, e). \<not> excluded ports e \<and> event_key e = k) evs"
  have fb: "fb (tcp_event_bytes e) = Some e"
    using plain_view.view_exact [OF assms(1)] tcp_wire.enc_length tcp_wire.dec_enc snoc.prems x by simp
  have run: "consume_tcp fb ports (map (\<lambda>(t, e). (t, tcp_event_bytes e)) (evs @ [x])) [] =
      snd (handle_tcp_event fb t ports (tcp_event_bytes e) ?c)"
    by (simp add: consume_tcp_append x)
  have ih: "map_of ?c k = (if ?rel = [] then None else Some (tracked_of (fst (hd ?rel)) (fst (last ?rel)) (snd (last ?rel))))"
    using snoc by simp
  show ?case
  proof (cases "excluded ports e")
    case True
    then show ?thesis unfolding run handle_tcp_event_excluded [of fb, OF fb True] using ih by (simp add: x)
  next
    case False
    then show ?thesis
      unfolding run handle_tcp_event_eq [of fb, OF fb False] using ih
      by (cases "event_key e = k") (auto simp: x update_conv tracked_of_def hd_append)
  qed
qed simp

section \<open>Properties\<close>

text \<open>
  The agent's map holds the latest event of every connection: after any sequence of TCP
  records, the entry of a 4-tuple is built from the last record of that tuple whose ports are
  not excluded, first seen at the first such record and last seen at the last; tuples without
  such a record have no entry.
\<close>

lemma tcp_agent_tracks_latest:
  assumes "plain_view fb read_TcpEvent 68" "\<forall>(t, e) \<in> set evs. tcp_event_ok e"
    and "rel = filter (\<lambda>(t, e). \<not> excluded ports e \<and> event_key e = k) evs"
  shows "map_of (consume_tcp fb ports (map (\<lambda>(t, e). (t, tcp_event_bytes e)) evs) []) k =
    (if rel = [] then None else Some (tracked_of (fst (hd rel)) (fst (last rel)) (snd (last rel))))"
  by (rule consume_events_last [OF assms])

lemma tcp_agent_tracks_latest_example:
  "map_of (consume_tcp (plain_cast read_TcpEvent 68) [22]
     (map (\<lambda>(t, e). (t, tcp_event_bytes e))
       [(5, tcp_event_zero\<lparr>te_dst_port := 443, te_tcp_state := 1\<rparr>),
        (7, tcp_event_zero\<lparr>te_dst_port := 22\<rparr>),
        (9, tcp_event_zero\<lparr>te_dst_port := 443, te_tcp_state := 6\<rparr>)]) [])
     \<lparr>ck_src_ip = 0, ck_src_port = 0, ck_dst_ip = 0, ck_dst_port = 443\<rparr> =
   Some (tracked_of 5 9 (tcp_event_zero\<lparr>te_dst_port := 443, te_tcp_state := 6\<rparr>))"
  by (subst tcp_agent_tracks_latest [OF plain_cast.plain_view_axioms _ refl])
    (simp_all add: tcp_event_ok_def tcp_event_zero_def excluded_def event_key_def)

text \<open>
  C3. A connection reaches the agent: a thread opens a connection, probes of other threads fire
  in between, the call returns 0, and the ring has room. The newest sample of the ring, handed
  to the agent's callback with neither port excluded, makes the agent track the socket's
  4-tuple as ESTABLISHED with the process id and command of the thread and zero byte counts.
\<close>

theorem tcp_connection_reaches_agent:
  assumes obj: "tcp_objects h hinv g rinv samples" and inv: "tinv h hinv rinv s"
    and ok: "list_all (\<lambda>e. comm_ok (tcp_ctx e)) (TcpConnect c1 sk # mid)"
    and stored: "fst (map_update_elem h (connect_info s) (current_pid_tgid c1) (tuple_event c1 sk)) = 0"
    and keep: "list_all (keeps_entry (current_pid_tgid c1)) mid"
    and sock: "sock_at c1 T sk img" and tid: "current_pid_tgid c2 = current_pid_tgid c1"
    and before: "s1 = run_steps (tcp_step g h) (TcpConnect c1 sk # mid) s"
    and after: "s2 = tcp_step g h (TcpV4ConnectRet c2 0) s1"
    and room: "ringbuf_reserve g (tcp_events s1) 68 \<noteq> None"
    and plain: "plain_view fb read_TcpEvent 68" and v: "v = sock_tuple_of T img"
    and ports: "st_num v \<notin> set ports" "st_dport v \<notin> set ports"
    and agent: "conns' = snd (handle_tcp_event fb now ports (snd (snd (last (samples (tcp_events s2))))) conns)"
  shows "\<exists>t. map_of conns' \<lparr>ck_src_ip = st_saddr v, ck_src_port = st_num v,
        ck_dst_ip = st_daddr v, ck_dst_port = st_dport v\<rparr> = Some t \<and>
    tc_state t = lit ''ESTABLISHED'' \<and> tc_pid t = hi32 (current_pid_tgid c1) \<and>
    tc_process_name t = extract_comm (current_comm c1 16) \<and>
    tc_bytes_sent t = 0 \<and> tc_bytes_recv t = 0 \<and> tc_last_seen t = now"
proof -
  let ?e = "connection_event c1 c2 v"
  have "\<exists>p. samples (tcp_events s2) = samples (tcp_events s1) @ [(p, True, tcp_event_bytes ?e)]"
    using tcp_objects.connection_reported [OF obj inv ok stored keep sock tid before after] room
    by (simp add: v del: not_None_eq split: if_splits)
  then have last: "snd (snd (last (samples (tcp_events s2)))) = tcp_event_bytes ?e" by auto
  have eok: "tcp_event_ok ?e" using ok by (simp add: connection_event_def tcp_event_ok_def comm_ok_def)
  have fb: "fb (tcp_event_bytes ?e) = Some ?e"
    using plain_view.view_exact [OF plain] tcp_wire.enc_length [OF eok] tcp_wire.dec_enc [OF eok] by simp
  have "\<not> excluded ports ?e" using ports by (simp add: excluded_def connection_event_def)
  from handle_tcp_event_eq [of fb, OF fb this] show ?thesis
    unfolding agent last
    by (simp add: update_conv event_key_def tracked_of_def connection_event_def tcp_state_name_def
        TCP_ESTABLISHED_def MAX_COMM_LEN_def)
qed

theorem tcp_connection_reaches_agent_witness:
  "\<exists>t. map_of (snd (handle_tcp_event (plain_cast read_TcpEvent 68) 17 [22]
       (snd (snd (last (rr_samples (tcp_events (tcp_step refring_ops refmap_ops
          (TcpV4ConnectRet (example_ctx (example_tuple 443) 7 3) 0)
          (run_steps (tcp_step refring_ops refmap_ops)
            [TcpConnect (example_ctx (example_tuple 443) 7 1) 4096] tcp_maps_init))))))) []))
     \<lparr>ck_src_ip = 0x0100007F, ck_src_port = 40000, ck_dst_ip = 0x0200000A, ck_dst_port = 443\<rparr> = Some t \<and>
     tc_state t = lit ''ESTABLISHED''"
proof -
  let ?c = "\<lambda>k. example_ctx (example_tuple 443) 7 k"
  let ?s1 = "run_steps (tcp_step refring_ops refmap_ops) [TcpConnect (?c 1) 4096] tcp_maps_init"
  have stored: "fst (map_update_elem refmap_ops (connect_info tcp_maps_init)
      (current_pid_tgid (?c 1)) (tuple_event (?c 1) 4096)) = 0"
    by (simp add: tcp_maps_init_def connect_info_max_entries_def)
  have ok: "list_all (\<lambda>e. comm_ok (tcp_ctx e)) (TcpConnect (?c 1) 4096 # [])"
    and keep: "list_all (keeps_entry (current_pid_tgid (?c 1))) []"
    and tid: "current_pid_tgid (?c 3) = current_pid_tgid (?c 1)" by simp_all
  have room: "ringbuf_reserve refring_ops (tcp_events ?s1) 68 \<noteq> None"
    by (simp add: handle_tcp_connect_eq tcp_maps_init_def RING_BUFFER_SIZE_def del: not_None_eq)
  have ports: "st_num (sock_tuple_of struct_sock (sock_image (example_tuple 443))) \<notin> set [22]"
    "st_dport (sock_tuple_of struct_sock (sock_image (example_tuple 443))) \<notin> set [22]"
    by (simp_all add: example_tuple_def)
  show ?thesis
    using tcp_connection_reaches_agent [OF ref_tcp.tcp_objects_axioms tcp_maps_init_inv ok stored keep example_sock_at
        tid refl refl room plain_cast.plain_view_axioms refl ports refl, of 17 "[]"]
    by (simp del: tcp_step.simps run_steps.simps) (auto simp: example_tuple_def simp del: tcp_step.simps run_steps.simps)
qed

text \<open>
  Draining: the events returned are exactly those of the connections seen within the last
  300 seconds, one per connection, and the map is empty afterwards.
\<close>

lemma tcp_drain_reports_fresh:
  "set (fst (drain_connections now conns)) =
     {connection_event_of key conn | key conn. (key, conn) \<in> set conns \<and> now - tc_last_seen conn \<le> 300000000000} \<and>
   length (fst (drain_connections now conns)) =
     length (filter (\<lambda>(key, conn). now - tc_last_seen conn \<le> 300000000000) conns) \<and>
   snd (drain_connections now conns) = []"
proof -
  have "fst (drain_connections now conns) = map (\<lambda>(key, conn). connection_event_of key conn)
      (filter (\<lambda>(key, conn). now - tc_last_seen conn \<le> 300000000000) conns)"
    by (simp add: drain_connections_def Let_def stale_threshold_def not_less)
  then show ?thesis by (force simp: drain_connections_def Let_def)
qed

text \<open>
  State names: of the kernel's TCP states in \<open>vmlinux.h\<close> the agent names exactly the codes 1
  to 6 and 10 as the kernel does. It calls CLOSE (7) CLOSE\_WAIT, CLOSE\_WAIT (8) LAST\_ACK,
  LAST\_ACK (9) CLOSING, and CLOSING (11) UNKNOWN.
\<close>

lemma tcp_state_names_vs_kernel:
  "filter (\<lambda>(nm, v). tcp_state_name (word_of_int v) \<noteq> lit (drop 4 nm)) enum_tcp_states =
     [(''TCP_CLOSE'', 7), (''TCP_CLOSE_WAIT'', 8), (''TCP_LAST_ACK'', 9), (''TCP_CLOSING'', 11),
      (''TCP_NEW_SYN_RECV'', 12), (''TCP_MAX_STATES'', 13)] \<and>
   tcp_state_name 7 = lit ''CLOSE_WAIT'' \<and> tcp_state_name 8 = lit ''LAST_ACK'' \<and>
   tcp_state_name 9 = lit ''CLOSING'' \<and> tcp_state_name 11 = lit ''UNKNOWN''"
  by (simp add: enum_tcp_states_def tcp_state_name_def)

text \<open>
  Addresses are shown right: the address words hold the bytes as the socket stores them, in
  network order, and the agent prints the four bytes in that order as a dotted quad.
\<close>

lemma tcp_address_shown:
  assumes "path_slice T p_daddr img = [a, b, c, d]" "path_slice T p_rcv_saddr img = [a', b', c', d']"
  shows "format_ip (st_daddr (sock_tuple_of T img)) =
      decimal (unat a) @ lit ''.'' @ decimal (unat b) @ lit ''.'' @ decimal (unat c) @ lit ''.'' @ decimal (unat d) \<and>
    format_ip (st_saddr (sock_tuple_of T img)) =
      decimal (unat a') @ lit ''.'' @ decimal (unat b') @ lit ''.'' @ decimal (unat c') @ lit ''.'' @ decimal (unat d')"
  using assms by (simp add: sock_tuple_of_def format_ip_bytes)

lemma tcp_address_shown_example:
  "format_ip (st_saddr (sock_tuple_of struct_sock ([10, 0, 0, 2, 127, 0, 0, 1] @ replicate 760 0))) = lit ''127.0.0.1''"
  using tcp_address_shown [of struct_sock "[10, 0, 0, 2, 127, 0, 0, 1] @ replicate 760 0" 10 0 0 2 127 0 0 1]
  unfolding path_slice_tuple by (simp add: decimal.simps)

text \<open>
  Process names: a command of Unicode scalar values other than NUL, encoded as UTF-8 and
  terminated by a NUL inside the buffer, is read back exactly, whatever follows the NUL.
\<close>

lemma extract_comm_reads_name:
  assumes "list_all scalar_value cs" "0 \<notin> set (concat (map utf8_enc cs))"
  shows "extract_comm (concat (map utf8_enc cs) @ 0 # junk) = cs"
  using from_utf8_encode [OF assms(1)] by (simp add: extract_comm_def until_nul_append [OF assms(2)] lossy_valid)

lemma extract_comm_reads_name_example: "extract_comm [0x70, 0xC3, 0xA9, 0, 7] = [0x70, 0xE9]"
  using extract_comm_reads_name [of "[0x70, 0xE9]" "[7]"] by (simp add: scalar_value_def utf8_enc_def)

end
