(* ===== verification/Dns_Mapper.thy ===== *)
theory Dns_Mapper
  imports Wire Sock_Access Ring_Probe
begin

text \<open>
  \<open>dns_mapper.bpf.c\<close>: one kprobe on \<open>udp_sendmsg\<close> that reports datagrams of sockets
  connected to port 53 into the ring buffer \<open>dns_events\<close>. The queried name is not read: every
  report carries the placeholder \<open><pending>\<close>.
\<close>

section \<open>Program\<close>

definition DNS_PORT :: u16 where "DNS_PORT = 53"

text \<open>The placeholder with its terminating NUL.\<close>

definition pending_domain :: bytes where
  "pending_domain = map of_char ''<pending>'' @ [0]"

function copy_pending_from :: "nat \<Rightarrow> bytes \<Rightarrow> nat \<Rightarrow> bytes" where
  "copy_pending_from i dst dst_len =
     (if i < 10 \<and> i < dst_len
      then copy_pending_from (Suc i) (dst[i := pending_domain ! i]) dst_len
      else dst)"
  by pat_completeness auto
termination by (relation "measure (\<lambda>(i, _, _). 10 - i)") auto

declare copy_pending_from.simps [simp del]

definition copy_pending :: "bytes \<Rightarrow> nat \<Rightarrow> bytes" where
  "copy_pending dst dst_len = copy_pending_from 0 dst dst_len"

definition handle_udp_sendmsg ::
  "'r ring_ops \<Rightarrow> bpf_ctx \<Rightarrow> u64 \<Rightarrow> u64 \<Rightarrow> u64 \<Rightarrow> 'r \<Rightarrow> int \<times> 'r" where
  "handle_udp_sendmsg g ctx sk msg len r =
     (let evt = dns_event_zero;
          dport = bpf_ntohs (core_read16 ctx sk p_dport)
      in if dport \<noteq> DNS_PORT then (0, r)
         else
           (let tid = current_pid_tgid ctx;
                evt = evt\<lparr>de_pid := hi32 tid\<rparr>;
                saddr = core_read32 ctx sk p_rcv_saddr;
                daddr = core_read32 ctx sk p_daddr;
                sport = core_read16 ctx sk p_num;
                evt = evt\<lparr>de_timestamp_ns := ktime_ns ctx, de_event_type := event_code EVENT_DNS_QUERY,
                          de_src_ip := saddr, de_dst_ip := daddr, de_src_port := sport,
                          de_dst_port := dport, de_query_id := 0, de_qtype := 0\<rparr>;
                evt = evt\<lparr>de_domain := copy_pending (de_domain evt) MAX_DOMAIN_LEN\<rparr>
            in case ringbuf_reserve g r (csize struct_dns_event) of
                 None \<Rightarrow> (0, r)
               | Some (ring_evt, r1) \<Rightarrow>
                   (let r2 = ringbuf_memcpy g r1 ring_evt (dns_event_bytes evt);
                        r3 = ringbuf_submit g r2 ring_evt
                    in (0, r3))))"

section \<open>The copy loop\<close>

lemma copy_pending_from_eq:
  "i \<le> 10 \<Longrightarrow> 10 \<le> length dst \<Longrightarrow> dst_len \<le> length dst \<Longrightarrow>
     copy_pending_from i dst dst_len =
       take i dst @ take (min 10 dst_len - i) (drop i pending_domain) @ drop (max i (min 10 dst_len)) dst"
proof (induction i dst dst_len rule: copy_pending_from.induct)
  case (1 i dst dst_len)
  show ?case
  proof (cases "i < 10 \<and> i < dst_len")
    case True
    have len: "length pending_domain = 10" by (simp add: pending_domain_def)
    have "copy_pending_from i dst dst_len = copy_pending_from (Suc i) (dst[i := pending_domain ! i]) dst_len"
      using True by (simp add: copy_pending_from.simps [of i])
    also have "\<dots> = take (Suc i) (dst[i := pending_domain ! i]) @
        take (min 10 dst_len - Suc i) (drop (Suc i) pending_domain) @
        drop (max (Suc i) (min 10 dst_len)) (dst[i := pending_domain ! i])"
      using 1 True by simp
    also have "\<dots> = take i dst @ take (min 10 dst_len - i) (drop i pending_domain) @
        drop (max i (min 10 dst_len)) dst"
      using True 1(3) len
      by (simp add: take_Suc_conv_app_nth Cons_nth_drop_Suc [symmetric, of i pending_domain] take_Cons'
          max_def min_def drop_update_cancel)
    finally show ?thesis .
  next
    case False
    with 1(2) have "i = 10 \<or> i < 10 \<and> dst_len \<le> i" by auto
    with 1(2-4) show ?thesis by (auto simp: copy_pending_from.simps [of i] max_def min_def)
  qed
qed

lemma copy_pending_eq:
  assumes "10 \<le> dst_len" "dst_len \<le> length dst"
  shows "copy_pending dst dst_len = pending_domain @ drop 10 dst"
  using copy_pending_from_eq [of 0 dst dst_len] assms
  by (simp add: copy_pending_def pending_domain_def max_def min_def)

section \<open>What the program reports\<close>

definition dns_report :: "bpf_ctx \<Rightarrow> u64 \<Rightarrow> dns_event" where
  "dns_report ctx sk =
     \<lparr>de_timestamp_ns = ktime_ns ctx, de_event_type = event_code EVENT_DNS_QUERY,
      de_pid = hi32 (current_pid_tgid ctx),
      de_src_ip = core_read32 ctx sk p_rcv_saddr, de_dst_ip = core_read32 ctx sk p_daddr,
      de_src_port = core_read16 ctx sk p_num, de_dst_port = bpf_ntohs (core_read16 ctx sk p_dport),
      de_query_id = 0, de_qtype = 0, de_domain = pending_domain @ replicate 246 0\<rparr>"

definition dns_wanted :: "bpf_ctx \<Rightarrow> u64 \<Rightarrow> bool" where
  "dns_wanted ctx sk \<longleftrightarrow> bpf_ntohs (core_read16 ctx sk p_dport) = DNS_PORT"

lemma dns_report_ok [simp]: "dns_event_ok (dns_report ctx sk)"
  by (simp add: dns_report_def dns_event_ok_def pending_domain_def event_simps)

lemma handle_udp_sendmsg_eq:
  "handle_udp_sendmsg g ctx sk msg len r =
     (0, if dns_wanted ctx sk
         then snd (reserve_copy_submit g (csize struct_dns_event) (dns_event_bytes (dns_report ctx sk)) r)
         else r)"
  using copy_pending_eq [of 256 "replicate 256 0"]
  by (simp add: handle_udp_sendmsg_def dns_wanted_def dns_report_def dns_event_zero_def Let_def
      reserve_copy_submit_def MAX_DOMAIN_LEN_def split: option.splits prod.splits)

type_synonym udp_call = "bpf_ctx \<times> u64 \<times> u64 \<times> u64"

definition udp_call :: "'r ring_ops \<Rightarrow> udp_call \<Rightarrow> 'r \<Rightarrow> int \<times> 'r" where
  "udp_call g e r = (case e of (ctx, sk, msg, len) \<Rightarrow> handle_udp_sendmsg g ctx sk msg len r)"

sublocale bpf_ring \<subseteq> dns: ring_probe g rinv samples "udp_call g"
  "\<lambda>(ctx, sk, msg, len). dns_wanted ctx sk" "\<lambda>(ctx, sk, msg, len). dns_event_bytes (dns_report ctx sk)"
  "csize struct_dns_event"
  by unfold_locales
    (auto simp: udp_call_def handle_udp_sendmsg_eq event_bytes_length(2) simp del: event_struct_sizes)

context bpf_ring
begin

lemmas dns_step_outcome = dns.step_outcome
lemmas dns_run_reports = dns.run_reports
lemmas dns_run_decoded = dns.run_decoded
lemmas dns_run_complete = dns.run_complete

end

section \<open>Properties\<close>

text \<open>
  The placeholder copy: for every buffer of at least the ten bytes of the literal and every
  \<open>dst_len\<close> within the buffer, the loop stops and has written the first
  \<open>min(10, dst_len)\<close> bytes of \<open>"<pending>"\<close> with its NUL to the front of the buffer and
  nothing beyond \<open>dst_len\<close>.
\<close>

lemma copy_pending_writes_prefix:
  assumes "10 \<le> length dst" "dst_len \<le> length dst"
  shows "copy_pending dst dst_len = take dst_len pending_domain @ drop (min 10 dst_len) dst"
  using copy_pending_from_eq [of 0 dst dst_len] assms
  by (cases "10 \<le> dst_len") (simp_all add: copy_pending_def pending_domain_def max_def min_def)

lemma copy_pending_writes_prefix_example:
  "copy_pending (replicate 12 7) 4 = [60, 112, 101, 110, 7, 7, 7, 7, 7, 7, 7, 7]"
  using copy_pending_writes_prefix [of "replicate 12 7" 4]
  by (simp add: pending_domain_def numeral_eq_Suc)

text \<open>
  C36. One datagram: the program always returns 0. It leaves the ring alone unless the socket is
  connected to port 53 and the ring has room; then it adds exactly one submitted record with
  the socket's 4-tuple, the sender's process id, the time, no query id, no query type, and
  \<open><pending>\<close> padded with NULs as the name.
\<close>

theorem dns_datagram_reported:
  assumes ring: "bpf_ring g rinv samples" and inv: "rinv r" and sock: "sock_at ctx T sk img"
    and v: "v = sock_tuple_of T img" and run: "handle_udp_sendmsg g ctx sk msg len r = (rc, r')"
  shows "rc = 0 \<and> rinv r' \<and>
    (if st_dport v \<noteq> 53 \<or> ringbuf_reserve g r 288 = None then r' = r
     else \<exists>p. samples r' = samples r @ [(p, True, dns_event_bytes
        \<lparr>de_timestamp_ns = ktime_ns ctx, de_event_type = 4, de_pid = hi32 (current_pid_tgid ctx),
         de_src_ip = st_saddr v, de_dst_ip = st_daddr v, de_src_port = st_num v, de_dst_port = 53,
         de_query_id = 0, de_qtype = 0,
         de_domain = map of_char ''<pending>'' @ replicate 247 0\<rparr>)])"
proof -
  have report: "dns_report ctx sk =
      \<lparr>de_timestamp_ns = ktime_ns ctx, de_event_type = 4, de_pid = hi32 (current_pid_tgid ctx),
       de_src_ip = st_saddr v, de_dst_ip = st_daddr v, de_src_port = st_num v, de_dst_port = 53,
       de_query_id = 0, de_qtype = 0, de_domain = map of_char ''<pending>'' @ replicate 247 0\<rparr>"
    if "st_dport v = 53"
    using that by (simp add: dns_report_def sock_at_reads [OF sock] v pending_domain_def
        replicate_Suc [symmetric] del: replicate.simps)
  have wanted: "dns_wanted ctx sk \<longleftrightarrow> st_dport v = 53"
    by (simp add: dns_wanted_def sock_at_reads [OF sock] v DNS_PORT_def)
  from bpf_ring.dns_step_outcome [OF ring inv, of "(ctx, sk, msg, len)"] run report wanted show ?thesis
    by (auto simp: udp_call_def handle_udp_sendmsg_eq split: if_splits)
qed

theorem dns_datagram_reported_witness:
  "\<exists>p r'. handle_udp_sendmsg refring_ops (example_ctx (example_tuple 53) (mk_pid_tgid 12 13) 5) 4096 0 40
       (refring_empty RING_BUFFER_SIZE) = (0, r') \<and>
     rr_samples r' = [(p, True, dns_event_bytes
       \<lparr>de_timestamp_ns = 5, de_event_type = 4, de_pid = 12, de_src_ip = 0x0100007F, de_dst_ip = 0x0200000A,
        de_src_port = 40000, de_dst_port = 53, de_query_id = 0, de_qtype = 0,
        de_domain = map of_char ''<pending>'' @ replicate 247 0\<rparr>)]"
proof -
  let ?r = "refring_empty RING_BUFFER_SIZE" and ?c = "example_ctx (example_tuple 53) (mk_pid_tgid 12 13) 5"
  obtain rc r' where run: "handle_udp_sendmsg refring_ops ?c 4096 0 40 ?r = (rc, r')" by fastforce
  have "ringbuf_reserve refring_ops ?r 288 \<noteq> None" by (simp add: RING_BUFFER_SIZE_def del: not_None_eq)
  then show ?thesis
    using dns_datagram_reported [OF refring.bpf_ring_axioms refring_empty_inv example_sock_at refl run] run
    by (simp del: not_None_eq) (simp add: example_tuple_def)
qed

text \<open>
  A sequence of datagrams: whatever the sockets are and whenever the ring runs full, the
  records added are submitted, in call order, and each belongs to a call on a socket with
  destination port 53; nothing is reported twice.
\<close>

lemma dns_stream_in_order:
  assumes "bpf_ring g rinv samples" "rinv r"
  shows "\<exists>new. samples (run_steps (\<lambda>e r. snd (udp_call g e r)) calls r) = samples r @ new \<and>
    list_all (\<lambda>x. fst (snd x)) new \<and>
    subseq (map (\<lambda>x. read_DnsEventRaw (snd (snd x))) new)
      (map (\<lambda>(ctx, sk, msg, len). dns_report ctx sk) (filter (\<lambda>(ctx, sk, msg, len). dns_wanted ctx sk) calls))"
  by (rule bpf_ring.dns_run_decoded [OF assms]) (auto simp: dns_wire.dec_enc)

lemma dns_stream_in_order_example:
  "\<exists>new. rr_samples (run_steps (\<lambda>e r. snd (udp_call refring_ops e r))
       [(example_ctx (example_tuple 53) 7 1, 4096, 0, 40), (example_ctx (example_tuple 123) 7 2, 4096, 0, 40)]
       (refring_empty RING_BUFFER_SIZE)) = new \<and>
     subseq (map (\<lambda>x. read_DnsEventRaw (snd (snd x))) new) [dns_report (example_ctx (example_tuple 53) 7 1) 4096]"
  using dns_stream_in_order [OF refring.bpf_ring_axioms refring_empty_inv,
      of "[(example_ctx (example_tuple 53) 7 1, 4096, 0, 40), (example_ctx (example_tuple 123) 7 2, 4096, 0, 40)]"
        RING_BUFFER_SIZE]
  by (simp add: dns_wanted_def example_reads example_tuple_def DNS_PORT_def del: run_steps.simps)

end
