(* ===== verification/Dns_Consumer.thy ===== *)
theory Dns_Consumer
  imports Agent_Base Dns_Mapper "HOL-Library.AList"
begin

text \<open>
  \<open>dns_mapper.rs\<close>: the agent's cache of DNS names, filled by the ring buffer callback. Records
  whose name is empty or \<open><pending>\<close> are ignored. The cache is an association list, an
  \<open>Instant\<close> is a number of nanoseconds, and the time of a call and the process names of
  \<open>/proc\<close> are arguments.
\<close>

section \<open>The cache\<close>

record DnsEntry =
  dn_domain :: rstring
  dn_ips :: "rstring list"
  dn_ttl :: u32
  dn_query_type :: rstring
  dn_last_seen :: nat
  dn_pid :: u32
  dn_process_name :: rstring

type_synonym dns_cache = "(rstring \<times> DnsEntry) list"

definition CACHE_TTL :: nat where
  "CACHE_TTL = 300 * 1000000000"

definition extract_domain :: "bytes \<Rightarrow> rstring" where
  "extract_domain raw = from_utf8_lossy (until_nul raw)"

definition qtype_string :: "u16 \<Rightarrow> rstring" where
  "qtype_string qtype =
     (if qtype = 1 then lit ''A'' else if qtype = 28 then lit ''AAAA'' else if qtype = 5 then lit ''CNAME''
      else if qtype = 15 then lit ''MX'' else if qtype = 16 then lit ''TXT'' else lit ''UNKNOWN'')"

definition dns_process_event :: "(u32 \<Rightarrow> rstring) \<Rightarrow> nat \<Rightarrow> dns_event \<Rightarrow> dns_cache \<Rightarrow> dns_cache" where
  "dns_process_event get_process_name now raw cache =
     (let domain = extract_domain (de_domain raw) in
      if domain = [] \<or> domain = lit ''<pending>'' then cache
      else
        (let query_type = qtype_string (de_qtype raw);
             name = get_process_name (de_pid raw);
             entry = (case map_of cache domain of
                 Some x \<Rightarrow> x
               | None \<Rightarrow> \<lparr>dn_domain = domain, dn_ips = [], dn_ttl = 0, dn_query_type = query_type,
                          dn_last_seen = now, dn_pid = de_pid raw, dn_process_name = name\<rparr>);
             entry = entry\<lparr>dn_last_seen := now, dn_pid := de_pid raw, dn_process_name := name\<rparr>
         in AList.update domain entry cache))"

definition dns_ring_callback ::
  "(bytes \<Rightarrow> dns_event option) \<Rightarrow> (u32 \<Rightarrow> rstring) \<Rightarrow> nat \<Rightarrow> u16 list \<Rightarrow> bytes \<Rightarrow> dns_cache \<Rightarrow>
   int \<times> dns_cache" where
  "dns_ring_callback from_bytes get_process_name now exclude_ports data cache =
     (if length data \<noteq> csize DnsEventRaw then (0, cache)
      else
        (case from_bytes data of
           None \<Rightarrow> (0, cache)
         | Some raw \<Rightarrow>
             if de_dst_port raw \<in> set exclude_ports then (0, cache)
             else (0, dns_process_event get_process_name now raw cache)))"

definition dns_resolve :: "rstring \<Rightarrow> dns_cache \<Rightarrow> DnsEntry option" where
  "dns_resolve domain cache = map_of cache domain"

definition correlate_ip :: "rstring \<Rightarrow> dns_cache \<Rightarrow> rstring option" where
  "correlate_ip ip cache =
     map_option (\<lambda>(d, entry). dn_domain entry) (find (\<lambda>(d, entry). ip \<in> set (dn_ips entry)) cache)"

definition drain_dns :: "nat \<Rightarrow> dns_cache \<Rightarrow> NetworkEvent list \<times> dns_cache" where
  "drain_dns now cache =
     (let cache = filter (\<lambda>(d, entry). now - dn_last_seen entry < CACHE_TTL) cache
      in (map (\<lambda>(d, entry). DnsQuery (dn_domain entry) (dn_ips entry) 0 (dn_pid entry)) cache, cache))"

text \<open>Consuming the records of the ring in order, each at its time.\<close>

fun consume_dns ::
  "(bytes \<Rightarrow> dns_event option) \<Rightarrow> (u32 \<Rightarrow> rstring) \<Rightarrow> u16 list \<Rightarrow> (nat \<times> bytes) list \<Rightarrow> dns_cache \<Rightarrow> dns_cache" where
  "consume_dns fb names ports [] cache = cache"
| "consume_dns fb names ports ((now, d) # ds) cache =
     consume_dns fb names ports ds (snd (dns_ring_callback fb names now ports d cache))"

section \<open>The placeholder is ignored\<close>

lemma extract_domain_pending: "extract_domain (map of_char ''<pending>'' @ 0 # rest) = lit ''<pending>''"
proof -
  have "from_utf8 (map of_char ''<pending>'') = Some (map unat (map of_char ''<pending>'' :: bytes))"
    by (rule from_utf8_ascii) simp
  then have "from_utf8_lossy (map of_char ''<pending>'') = lit ''<pending>''"
    using lossy_valid by simp
  moreover have "until_nul (map of_char ''<pending>'' @ 0 # rest) = map of_char ''<pending>''"
    by (rule until_nul_append) simp
  ultimately show ?thesis by (simp add: extract_domain_def)
qed

lemma report_domain_pending: "extract_domain (de_domain (dns_report ctx sk)) = lit ''<pending>''"
  using extract_domain_pending [of "replicate 246 0"] by (simp add: dns_report_def pending_domain_def)

lemma report_ignored:
  assumes "plain_view fb read_DnsEventRaw 288"
  shows "dns_ring_callback fb names now ports (dns_event_bytes (dns_report ctx sk)) cache = (0, cache)"
proof -
  have "fb (dns_event_bytes (dns_report ctx sk)) = Some (dns_report ctx sk)"
    using plain_view.view_exact [OF assms] dns_wire.enc_length dns_wire.dec_enc by simp
  then show ?thesis by (simp add: dns_ring_callback_def dns_process_event_def report_domain_pending)
qed

lemma consume_reports_ignored:
  assumes "plain_view fb read_DnsEventRaw 288" "\<forall>(t, d) \<in> set ds. \<exists>ctx sk. d = dns_event_bytes (dns_report ctx sk)"
  shows "consume_dns fb names ports ds cache = cache"
  using assms(2)
proof (induction ds arbitrary: cache)
  case (Cons x ds)
  obtain t d where "x = (t, d)" by (cases x)
  with Cons report_ignored [OF assms(1)] show ?case by auto
qed simp

text \<open>Every sample the kernel program leaves in a ring that was empty is one of its reports.\<close>

lemma dns_samples_are_reports:
  assumes ring: "bpf_ring g rinv samples" "rinv r" and empty: "samples r = []"
    and run: "r' = run_steps (\<lambda>e r. snd (udp_call g e r)) calls r"
    and d: "d \<in> set (map (\<lambda>x. snd (snd x)) (samples r'))"
  shows "\<exists>ctx sk. d = dns_event_bytes (dns_report ctx sk)"
proof -
  let ?rep = "\<lambda>(ctx, sk, msg, len). dns_event_bytes (dns_report ctx sk)"
  let ?want = "\<lambda>(ctx, sk, msg :: u64, len :: u64). dns_wanted ctx sk"
  obtain new where new: "samples (run_steps (\<lambda>e r. snd (udp_call g e r)) calls r) = samples r @ new"
    "subseq (map (\<lambda>x. snd (snd x)) new) (map ?rep (filter ?want calls))"
    using bpf_ring.dns_run_reports [OF ring, of calls] by blast
  have "d \<in> set (map (\<lambda>x. snd (snd x)) new)" using d new(1) empty run by simp
  then obtain y where "y \<in> set (map ?rep (filter ?want calls))" "d = y" using list_emb_set [OF new(2)] by blast
  then show ?thesis by auto
qed

section \<open>Properties\<close>

text \<open>
  No DNS record of the kernel program ever reaches the cache: run the program on any
  sequence of datagrams from an empty ring, and hand every sample of the ring to the agent's
  callback at any times and with any excluded ports. The cache is what it was before, since
  every sample carries the name \<open><pending>\<close>, which the agent ignores.
\<close>

lemma dns_events_never_cached:
  assumes ring: "bpf_ring g rinv samples" "rinv r" and empty: "samples r = []"
    and plain: "plain_view fb read_DnsEventRaw 288"
    and run: "r' = run_steps (\<lambda>e r. snd (udp_call g e r)) calls r"
    and delivered: "ds = zip ts (map (\<lambda>x. snd (snd x)) (samples r'))"
  shows "consume_dns fb names ports ds cache = cache"
proof -
  have "\<forall>(t, d) \<in> set ds. \<exists>ctx sk. d = dns_event_bytes (dns_report ctx sk)"
    using dns_samples_are_reports [OF ring empty run] by (fastforce simp: delivered dest: set_zip_rightD)
  then show ?thesis by (rule consume_reports_ignored [OF plain])
qed

lemma dns_events_never_cached_example:
  "consume_dns (plain_cast read_DnsEventRaw 288) (\<lambda>_. []) []
     (zip [1, 2] (map (\<lambda>x. snd (snd x)) (rr_samples (run_steps (\<lambda>e r. snd (udp_call refring_ops e r))
       [(example_ctx (example_tuple 53) 7 1, 4096, 0, 40), (example_ctx (example_tuple 53) 9 2, 4096, 0, 40)]
       (refring_empty RING_BUFFER_SIZE))))) [] = []"
  by (rule dns_events_never_cached [OF refring.bpf_ring_axioms refring_empty_inv _ plain_cast.plain_view_axioms refl refl])
    simp

text \<open>
  What the cache would do with a named query: a record with a name that is neither empty nor
  the placeholder and a port that is not excluded makes the name resolvable; an existing entry
  keeps its addresses, lifetime and query type and only its time, process id and process name
  change; all other names resolve as before.
\<close>

lemma dns_named_query_cached:
  assumes plain: "plain_view fb read_DnsEventRaw 288" and ok: "dns_event_ok e"
    and domain: "d = extract_domain (de_domain e)" "d \<noteq> []" "d \<noteq> lit ''<pending>''"
    and port: "de_dst_port e \<notin> set ports"
    and run: "dns_ring_callback fb names now ports (dns_event_bytes e) cache = (rc, cache')"
  shows "rc = 0 \<and> (\<forall>d'. d' \<noteq> d \<longrightarrow> dns_resolve d' cache' = dns_resolve d' cache) \<and>
    (\<exists>x. dns_resolve d cache' = Some x \<and> dn_last_seen x = now \<and> dn_pid x = de_pid e \<and>
       dn_process_name x = names (de_pid e) \<and>
       (case dns_resolve d cache of
          Some y \<Rightarrow> dn_domain x = dn_domain y \<and> dn_ips x = dn_ips y \<and> dn_ttl x = dn_ttl y \<and>
                    dn_query_type x = dn_query_type y
        | None \<Rightarrow> dn_domain x = d \<and> dn_ips x = [] \<and> dn_query_type x = qtype_string (de_qtype e)))"
proof -
  have "fb (dns_event_bytes e) = Some e"
    using plain_view.view_exact [OF plain] dns_wire.enc_length [OF ok] dns_wire.dec_enc [OF ok] by simp
  then have "rc = 0" "cache' = dns_process_event names now e cache"
    using run port dns_wire.enc_length [OF ok]
    by (auto simp: dns_ring_callback_def DnsEventRaw_def layout_simps split: if_splits)
  with domain show ?thesis
    by (auto simp: dns_process_event_def dns_resolve_def update_conv Let_def split: option.splits)
qed

lemma dns_named_query_cached_example:
  "\<exists>x. dns_resolve (lit ''a.io'') (snd (dns_ring_callback (plain_cast read_DnsEventRaw 288) (\<lambda>_. lit ''dig'') 5 []
       (dns_event_bytes (dns_event_zero\<lparr>de_pid := 9, de_qtype := 28,
          de_domain := map of_char ''a.io'' @ 0 # replicate 251 0\<rparr>)) [])) = Some x \<and>
     dn_pid x = 9 \<and> dn_query_type x = lit ''AAAA''"
proof -
  let ?e = "dns_event_zero\<lparr>de_pid := 9, de_qtype := 28, de_domain := map of_char ''a.io'' @ 0 # replicate 251 0\<rparr>"
  obtain rc cache' where run: "dns_ring_callback (plain_cast read_DnsEventRaw 288) (\<lambda>_. lit ''dig'') 5 []
      (dns_event_bytes ?e) [] = (rc, cache')" by fastforce
  have "from_utf8 (map of_char ''a.io'') = Some (map unat (map of_char ''a.io'' :: bytes))"
    by (rule from_utf8_ascii) simp
  moreover have "until_nul (map of_char ''a.io'' @ 0 # replicate 251 0) = map of_char ''a.io''"
    by (rule until_nul_append) simp
  ultimately have d: "lit ''a.io'' = extract_domain (de_domain ?e)"
    using lossy_valid [of "map of_char ''a.io''"] by (simp add: extract_domain_def)
  have ok: "dns_event_ok ?e" by (simp add: dns_event_ok_def event_simps)
  show ?thesis
    using dns_named_query_cached [OF plain_cast.plain_view_axioms ok d _ _ _ run] run
    by (auto simp: dns_resolve_def qtype_string_def)
qed

end
