(* ===== verification/Observer_Loop.thy ===== *)
theory Observer_Loop
  imports Observer Tcp_Consumer Dns_Consumer Http_Consumer
begin

text \<open>
  The event loop of \<open>run_ebpf\<close> in \<open>mod.rs\<close>: one iteration hands the records of the three rings
  to their callbacks, drains the trackers and sends what they held as one batch, TCP first, then DNS,
  then HTTP. The records a poll delivers, each with the time at which its callback runs, the times of
  the two drains that read the clock, and the casts of the \<open>plain\<close> crate are arguments; the batches
  that are sent are the result. A ring that was not set up delivers nothing.
\<close>

record ring_views =
  rv_tcp :: "bytes \<Rightarrow> tcp_event option"
  rv_dns :: "bytes \<Rightarrow> dns_event option"
  rv_http :: "bytes \<Rightarrow> http_event option"

record delivery =
  dl_tcp :: "(nat \<times> bytes) list"
  dl_dns :: "(nat \<times> bytes) list"
  dl_http :: "bytes list"
  dl_tcp_drain :: nat
  dl_dns_drain :: nat

record agent_state =
  ag_connections :: connections
  ag_dns_cache :: dns_cache
  ag_http_queue :: "NetworkEvent list"

definition agent_init :: agent_state where
  "agent_init = \<lparr>ag_connections = [], ag_dns_cache = [], ag_http_queue = []\<rparr>"

definition ebpf_iteration ::
  "ring_views \<Rightarrow> (u32 \<Rightarrow> rstring) \<Rightarrow> u16 list \<Rightarrow> delivery \<Rightarrow> agent_state \<Rightarrow> (NetworkEvent list list \<times> agent_state) option" where
  "ebpf_iteration v names ports d st =
     (let conns = consume_tcp (rv_tcp v) ports (dl_tcp d) (ag_connections st);
          cache = consume_dns (rv_dns v) names ports (dl_dns d) (ag_dns_cache st)
      in case consume_http (rv_http v) ports (dl_http d) (ag_http_queue st) of
           None \<Rightarrow> None
         | Some queue \<Rightarrow>
             (let (tcp_events, conns) = drain_connections (dl_tcp_drain d) conns;
                  (dns_events, cache) = drain_dns (dl_dns_drain d) cache;
                  (http_events, queue) = drain_http queue;
                  all_events = tcp_events @ dns_events @ http_events
              in Some (if all_events \<noteq> [] then [all_events] else [],
                       \<lparr>ag_connections = conns, ag_dns_cache = cache, ag_http_queue = queue\<rparr>)))"

fun ebpf_loop ::
  "ring_views \<Rightarrow> (u32 \<Rightarrow> rstring) \<Rightarrow> u16 list \<Rightarrow> delivery list \<Rightarrow> agent_state \<Rightarrow> (NetworkEvent list list \<times> agent_state) option" where
  "ebpf_loop v names ports [] st = Some ([], st)"
| "ebpf_loop v names ports (d # ds) st =
     (case ebpf_iteration v names ports d st of
        None \<Rightarrow> None
      | Some (sent, st') \<Rightarrow> map_option (\<lambda>(batches, st''). (sent @ batches, st'')) (ebpf_loop v names ports ds st'))"

section \<open>Draining what just arrived\<close>

lemma set_alist_update: "x \<in> set (AList.update k v al) \<Longrightarrow> x = (k, v) \<or> x \<in> set al"
  by (induction al) (auto split: if_splits)

lemma handle_tcp_event_seen:
  assumes "\<forall>(k, c) \<in> set conns. T \<le> tc_last_seen c" "T \<le> now"
  shows "\<forall>(k, c) \<in> set (snd (handle_tcp_event fb now ports d conns)). T \<le> tc_last_seen c"
  using assms by (auto simp: handle_tcp_event_def Let_def dest!: set_alist_update split: option.splits)

lemma consume_tcp_seen:
  "\<forall>(k, c) \<in> set conns. T \<le> tc_last_seen c \<Longrightarrow> \<forall>(t, d) \<in> set ds. T \<le> t \<Longrightarrow>
     \<forall>(k, c) \<in> set (consume_tcp fb ports ds conns). T \<le> tc_last_seen c"
proof (induction ds arbitrary: conns)
  case (Cons x ds)
  obtain t d where x: "x = (t, d)" by (cases x)
  have "T \<le> t" using Cons.prems(2) x by simp
  from Cons.IH [OF handle_tcp_event_seen [OF Cons.prems(1) this]] show ?case using Cons.prems(2) x by simp
qed simp

definition connection_batch :: "ring_views \<Rightarrow> u16 list \<Rightarrow> delivery \<Rightarrow> NetworkEvent list" where
  "connection_batch v ports d = map (\<lambda>(k, c). connection_event_of k c) (consume_tcp (rv_tcp v) ports (dl_tcp d) [])"

text \<open>The callbacks of a poll run at most 300 seconds before the drain.\<close>

definition prompt :: "delivery \<Rightarrow> bool" where
  "prompt d \<longleftrightarrow> list_all (\<lambda>(t, x). dl_tcp_drain d - t \<le> stale_threshold) (dl_tcp d)"

lemma drain_arrived:
  assumes "prompt d"
  shows "drain_connections (dl_tcp_drain d) (consume_tcp (rv_tcp v) ports (dl_tcp d) []) = (connection_batch v ports d, [])"
proof -
  let ?c = "consume_tcp (rv_tcp v) ports (dl_tcp d) []"
  have "\<forall>(k, c) \<in> set ?c. dl_tcp_drain d - stale_threshold \<le> tc_last_seen c"
    using assms by (intro consume_tcp_seen) (auto simp: prompt_def list_all_iff)
  then have "filter (\<lambda>(k, c). \<not> stale_threshold < dl_tcp_drain d - tc_last_seen c) ?c = ?c"
    by (intro filter_True) auto
  then show ?thesis by (simp add: drain_connections_def connection_batch_def)
qed

lemma iteration_batch:
  assumes "plain_view (rv_dns v) read_DnsEventRaw 288"
    and "\<forall>(t, x) \<in> set (dl_dns d). \<exists>ctx sk. x = dns_event_bytes (dns_report ctx sk)" "\<forall>x \<in> set (dl_http d). length x = 288"
    and "prompt d"
  shows "ebpf_iteration v names ports d agent_init =
    Some (if connection_batch v ports d = [] then [] else [connection_batch v ports d], agent_init)"
proof -
  have "consume_dns (rv_dns v) names ports (dl_dns d) [] = []"
    by (rule consume_reports_ignored [OF assms(1,2)])
  moreover have "consume_http (rv_http v) ports (dl_http d) [] = Some []"
    by (rule consume_bare_records) (use assms(3) in \<open>simp add: list_all_iff\<close>)
  ultimately show ?thesis
    by (simp add: ebpf_iteration_def agent_init_def drain_arrived [OF assms(4)] drain_dns_def drain_http_def)
qed

lemma loop_batches:
  assumes "plain_view (rv_dns v) read_DnsEventRaw 288"
    and "\<forall>d \<in> set ds. (\<forall>(t, x) \<in> set (dl_dns d). \<exists>ctx sk. x = dns_event_bytes (dns_report ctx sk)) \<and>
      (\<forall>x \<in> set (dl_http d). length x = 288) \<and> prompt d"
  shows "ebpf_loop v names ports ds agent_init =
    Some (filter (\<lambda>b. b \<noteq> []) (map (connection_batch v ports) ds), agent_init)"
  using assms(2) by (induction ds) (simp_all add: iteration_batch [OF assms(1)])

section \<open>Properties\<close>

text \<open>
  C7. What the agent sends, end to end: let the DNS and HTTP programs of the kernel run on any
  calls from empty rings and deliver their records to the loop in any portions, together with any
  TCP records, handed over at most 300 seconds before they are drained. The loop never panics, and the batches it sends are, in order, the connections of the
  TCP records of each iteration, one event per connection, where there are any; no DNS and no HTTP
  event is ever sent, and nothing is kept between iterations.
\<close>

theorem ebpf_batches_are_connections:
  assumes dns: "bpf_ring gd rinvd samplesd" "rinvd rd" "samplesd rd = []"
      "rd' = run_steps (\<lambda>e r. snd (udp_call gd e r)) dns_calls rd"
      "map snd (concat (map dl_dns ds)) = map (\<lambda>x. snd (snd x)) (samplesd rd')"
    and http: "bpf_ring gh rinvh samplesh" "rinvh rh" "samplesh rh = []"
      "rh' = run_steps (\<lambda>e r. snd (send_call gh e r)) http_calls rh"
      "concat (map dl_http ds) = map (\<lambda>x. snd (snd x)) (samplesh rh')"
    and prompt: "list_all prompt ds" and plain: "plain_view (rv_dns v) read_DnsEventRaw 288"
  shows "ebpf_loop v names ports ds agent_init =
    Some (filter (\<lambda>b. b \<noteq> []) (map (connection_batch v ports) ds), agent_init)"
proof (rule loop_batches [OF plain])
  have "\<exists>ctx sk. x = dns_event_bytes (dns_report ctx sk)" if "d \<in> set ds" "(t, x) \<in> set (dl_dns d)" for d t x
  proof (rule dns_samples_are_reports [OF dns(1-4)])
    have "(t, x) \<in> set (concat (map dl_dns ds))" using that by auto
    then show "x \<in> set (map (\<lambda>x. snd (snd x)) (samplesd rd'))" unfolding dns(5) [symmetric] by force
  qed
  moreover have "length x = 288" if "d \<in> set ds" "x \<in> set (dl_http d)" for d x
    using http_samples_bare [OF http(1-4), of x] that unfolding http(5) [symmetric] by auto
  ultimately show "\<forall>d \<in> set ds. (\<forall>(t, x) \<in> set (dl_dns d). \<exists>ctx sk. x = dns_event_bytes (dns_report ctx sk)) \<and>
      (\<forall>x \<in> set (dl_http d). length x = 288) \<and> prompt d" using prompt by (auto simp: list_all_iff)
qed

definition example_views :: ring_views where
  "example_views = \<lparr>rv_tcp = plain_cast read_TcpEvent 68, rv_dns = plain_cast read_DnsEventRaw 288,
     rv_http = plain_cast read_HttpEventRaw 288\<rparr>"

theorem ebpf_batches_are_connections_witness:
  "ebpf_loop example_views (\<lambda>_. []) [22]
     [\<lparr>dl_tcp = [(5, tcp_event_bytes (tcp_event_zero\<lparr>te_dst_port := 443\<rparr>))],
       dl_dns = map (\<lambda>x. (5, snd (snd x))) (rr_samples (run_steps (\<lambda>e r. snd (udp_call refring_ops e r))
         [(example_ctx (example_tuple 53) 7 1, 4096, 0, 40)] (refring_empty RING_BUFFER_SIZE))),
       dl_http = map (\<lambda>x. snd (snd x)) (rr_samples (run_steps (\<lambda>e r. snd (send_call refring_ops e r))
         [(example_ctx (example_tuple 80) 7 1, 4096, 0, 40)] (refring_empty RING_BUFFER_SIZE))),
       dl_tcp_drain = 6, dl_dns_drain = 7\<rparr>] agent_init =
   Some ([[TcpConnection (format_ip 0) 0 (format_ip 0) 443 (lit ''UNKNOWN'') 0 []]], agent_init)"
proof -
  let ?e = "tcp_event_zero\<lparr>te_dst_port := 443\<rparr>"
  let ?dns = "map (\<lambda>x. (5 :: nat, snd (snd x))) (rr_samples (run_steps (\<lambda>e r. snd (udp_call refring_ops e r))
         [(example_ctx (example_tuple 53) 7 1, 4096, 0, 40)] (refring_empty RING_BUFFER_SIZE)))"
  let ?http = "map (\<lambda>x. snd (snd x)) (rr_samples (run_steps (\<lambda>e r. snd (send_call refring_ops e r))
         [(example_ctx (example_tuple 80) 7 1, 4096, 0, 40)] (refring_empty RING_BUFFER_SIZE)))"
  let ?d = "\<lparr>dl_tcp = [(5, tcp_event_bytes ?e)], dl_dns = ?dns, dl_http = ?http, dl_tcp_drain = 6, dl_dns_drain = 7\<rparr>"
  have plain: "plain_view (rv_dns example_views) read_DnsEventRaw 288"
    by (simp add: example_views_def plain_cast.plain_view_axioms)
  have empty: "rr_samples (refring_empty RING_BUFFER_SIZE) = []" by simp
  have loop: "ebpf_loop example_views (\<lambda>_. []) [22] [?d] agent_init =
      Some (filter (\<lambda>b. b \<noteq> []) (map (connection_batch example_views [22]) [?d]), agent_init)"
    by (rule ebpf_batches_are_connections [OF refring.bpf_ring_axioms refring_empty_inv empty refl _
          refring.bpf_ring_axioms refring_empty_inv empty refl _ _ plain,
          where dns_calls = "[(example_ctx (example_tuple 53) 7 1, 4096, 0, 40)]" and
            http_calls = "[(example_ctx (example_tuple 80) 7 1, 4096, 0, 40)]"]) (simp_all add: prompt_def stale_threshold_def comp_def)
  have ok: "tcp_event_ok ?e" by (simp add: tcp_event_ok_def tcp_event_zero_def)
  have "rv_tcp example_views (tcp_event_bytes ?e) = Some ?e"
    using tcp_wire.enc_length [OF ok] tcp_wire.dec_enc [OF ok] by (simp add: example_views_def plain_cast_def)
  then have "connection_batch example_views [22] ?d = [TcpConnection (format_ip 0) 0 (format_ip 0) 443 (lit ''UNKNOWN'') 0 []]"
    by (simp add: connection_batch_def handle_tcp_event_def tcp_event_zero_def connection_event_of_def extract_comm_def
        until_nul_def tcp_state_name_def)
  with loop show ?thesis by simp
qed

end
