(* ===== verification/Float64.thy ===== *)
theory Float64
  imports Complex_Main "HOL-Library.Log_Nat" Prelude
begin

text \<open>
  The IEEE double arithmetic the agent computes delays and sampling rates with (Rust's \<open>f64\<close>): a value is
  a rational, an infinity or not a number, and every operation rounds the exact result to the nearest
  double, ties to even, with subnormals and overflow. The two zeros are one value: no code modelled here
  divides by a zero or prints one. Not-a-number compares false with everything.
\<close>

section \<open>Rounding\<close>

text \<open>The integer nearest to a rational, the even one of two.\<close>

definition round_half_even :: "rat \<Rightarrow> int" where
  "round_half_even q =
     (let f = \<lfloor>q\<rfloor>; d = q - of_int f in
      if d < 1 / 2 then f else if 1 / 2 < d then f + 1 else if even f then f else f + 1)"

definition pow2 :: "int \<Rightarrow> rat" where
  "pow2 e = (if 0 \<le> e then 2 ^ nat e else 1 / 2 ^ nat (- e))"

text \<open>The exponent of the leading binary digit, for a positive argument.\<close>

definition ilog2 :: "rat \<Rightarrow> int" where
  "ilog2 q = (case quotient_of q of (n, d) \<Rightarrow>
     (let k = bitlen n - bitlen d in if pow2 k \<le> q then k else k - 1))"

text \<open>The weight of the last of 53 digits, never below the one of the subnormals.\<close>

definition ulp :: "rat \<Rightarrow> int" where
  "ulp q = (if q = 0 then - 1074 else max (ilog2 \<bar>q\<bar> - 52) (- 1074))"

definition round53 :: "rat \<Rightarrow> rat" where
  "round53 q = of_int (round_half_even (q / pow2 (ulp q))) * pow2 (ulp q)"

lemma pow2_pos [simp]: "0 < pow2 e" "pow2 e \<noteq> 0"
  by (simp_all add: pow2_def)

lemma pow2_add: "pow2 (a + b) = pow2 a * pow2 b"
proof -
  have p: "pow2 e = (2::rat) powi e" for e
    by (simp add: pow2_def power_int_def field_simps)
  show ?thesis by (simp add: p power_int_add)
qed

lemma pow2_mono: "a \<le> b \<Longrightarrow> pow2 a \<le> pow2 b"
proof -
  assume "a \<le> b"
  then have "pow2 b = pow2 a * 2 ^ nat (b - a)" using pow2_add [of a "b - a"] by (simp add: pow2_def)
  then show ?thesis by simp
qed

lemma pow2_nat: "pow2 (int n) = 2 ^ n"
  by (simp add: pow2_def)

lemma pow2_Suc: "pow2 (k + 1) = 2 * pow2 k"
  by (simp add: pow2_add) (simp add: pow2_def)

lemma round_half_even_int [simp]: "round_half_even (of_int i) = i"
  by (simp add: round_half_even_def)

lemma round_half_even_floor: "\<lfloor>q\<rfloor> \<le> round_half_even q" "round_half_even q \<le> \<lfloor>q\<rfloor> + 1"
  by (simp_all add: round_half_even_def Let_def)

text \<open>Rounding to an integer keeps every integer bound.\<close>

lemma round_half_even_ge: "of_int i \<le> q \<Longrightarrow> i \<le> round_half_even q"
  using round_half_even_floor(1) [of q] by (simp add: le_floor_iff [symmetric])

lemma round_half_even_le: "q \<le> of_int i \<Longrightarrow> round_half_even q \<le> i"
proof (cases "q = of_int i")
  case False
  assume "q \<le> of_int i"
  then have "\<lfloor>q\<rfloor> < i" using False by (simp only: floor_less_iff)
  then show ?thesis using round_half_even_floor(2) [of q] by linarith
qed simp

lemma bitlen_range: "0 < n \<Longrightarrow> pow2 (bitlen n - 1) \<le> of_int n \<and> of_int n < pow2 (bitlen n)"
proof -
  assume n: "0 < n"
  then have b: "0 < bitlen n" using bitlen_nonneg [of n] bitlen_eq_zero_iff [of n] by linarith
  have i: "2 ^ nat (bitlen n - 1) \<le> n \<and> n < 2 ^ nat (bitlen n)" using n by (rule bitlen_bounds)
  have "(2::rat) ^ nat (bitlen n - 1) = of_int (2 ^ nat (bitlen n - 1))" "(2::rat) ^ nat (bitlen n) = of_int (2 ^ nat (bitlen n))" by simp_all
  then show ?thesis using i b by (simp only: pow2_def of_int_le_iff of_int_less_iff) simp
qed

lemma ilog2_bounds: "0 < q \<Longrightarrow> pow2 (ilog2 q) \<le> q \<and> q < pow2 (ilog2 q + 1)"
proof -
  assume q: "0 < q"
  obtain n d where nd: "quotient_of q = (n, d)" by fastforce
  have d: "0 < d" using nd by (rule quotient_of_denom_pos)
  have qe: "q = of_int n / of_int d" using nd by (rule quotient_of_div)
  then have n: "0 < n" using q d by (simp add: zero_less_divide_iff)
  let ?k = "bitlen n - bitlen d"
  have bn: "pow2 (bitlen n - 1) \<le> of_int n" "of_int n < pow2 (bitlen n)" using bitlen_range [OF n] by simp_all
  have bd: "pow2 (bitlen d - 1) \<le> of_int d" "of_int d < pow2 (bitlen d)" using bitlen_range [OF d] by simp_all
  have "q * of_int d = of_int n" using d by (simp add: qe)
  moreover have "pow2 (?k - 1) * of_int d \<le> pow2 (?k - 1) * pow2 (bitlen d)" using bd(2) by (intro mult_left_mono) (simp_all add: less_imp_le)
  moreover have "pow2 (?k - 1) * pow2 (bitlen d) = pow2 (bitlen n - 1)" by (simp flip: pow2_add)
  ultimately have "pow2 (?k - 1) * of_int d \<le> q * of_int d" using bn(1) by linarith
  then have lo: "pow2 (?k - 1) \<le> q" using d by (simp add: mult_le_cancel_right)
  have "pow2 (?k + 1) * pow2 (bitlen d - 1) \<le> pow2 (?k + 1) * of_int d" using bd(1) by (intro mult_left_mono) (simp_all add: less_imp_le)
  moreover have "pow2 (?k + 1) * pow2 (bitlen d - 1) = pow2 (bitlen n)" by (simp flip: pow2_add)
  ultimately have "q * of_int d < pow2 (?k + 1) * of_int d" using bn(2) \<open>q * of_int d = of_int n\<close> by linarith
  then have hi: "q < pow2 (?k + 1)" using d by (simp add: mult_less_cancel_right)
  show ?thesis using lo hi by (simp add: ilog2_def nd Let_def)
qed

section \<open>Bounds kept by rounding\<close>

text \<open>The doubles below the overflow threshold.\<close>

definition representable :: "rat \<Rightarrow> bool" where
  "representable z \<longleftrightarrow> (\<exists>m k. z = of_int m * pow2 k \<and> \<bar>m\<bar> \<le> 2 ^ 53 \<and> - 1074 \<le> k)"

text \<open>A representable bound is a whole number of last digits, or reaches no further than the leading digit.\<close>

lemma representable_ulp:
  assumes "representable z"
  shows "(\<exists>i. z = of_int i * pow2 (ulp y)) \<or> \<bar>z\<bar> \<le> 2 ^ 52 * pow2 (ulp y) \<and> 2 ^ 52 * pow2 (ulp y) \<le> \<bar>y\<bar>"
proof -
  obtain m k where z: "z = of_int m * pow2 k" "\<bar>m\<bar> \<le> 2 ^ 53" "- 1074 \<le> k"
    using assms by (auto simp: representable_def)
  show ?thesis
  proof (cases "ulp y \<le> k")
    case True
    have "z = of_int (m * 2 ^ nat (k - ulp y)) * pow2 (ulp y)"
      using True pow2_add [of "k - ulp y" "ulp y"] by (simp add: z(1) pow2_def [of "k - ulp y"])
    then show ?thesis by blast
  next
    case False
    then have u: "y \<noteq> 0" "ulp y = ilog2 \<bar>y\<bar> - 52" using z(3) by (auto simp: ulp_def max_def split: if_splits)
    have "2 ^ 52 * pow2 (ulp y) = pow2 (ilog2 \<bar>y\<bar>)" using pow2_add [of 52 "ulp y"] by (simp add: u(2) pow2_def [of 52])
    then have hi: "2 ^ 52 * pow2 (ulp y) \<le> \<bar>y\<bar>" using ilog2_bounds [of "\<bar>y\<bar>"] u(1) by simp
    have "pow2 k \<le> pow2 (ulp y - 1)" using False by (intro pow2_mono) simp
    moreover have "2 * pow2 (ulp y - 1) = pow2 (ulp y)" using pow2_Suc [of "ulp y - 1"] by simp
    ultimately have k: "2 * pow2 k \<le> pow2 (ulp y)" by linarith
    have "rat_of_int \<bar>m\<bar> \<le> rat_of_int (2 ^ 53)" using z(2) by (simp only: of_int_le_iff)
    then have "\<bar>z\<bar> \<le> 2 ^ 53 * pow2 k" by (simp add: z(1) abs_mult mult_right_mono less_imp_le)
    with k hi show ?thesis by simp
  qed
qed

lemma round53_ge: assumes z: "representable z" and le: "z \<le> y" shows "z \<le> round53 y"
proof -
  let ?u = "pow2 (ulp y)"
  have up: "of_int i \<le> y / ?u \<Longrightarrow> of_int i * ?u \<le> round53 y" for i
    using round_half_even_ge [of i "y / ?u"] by (simp add: round53_def)
  consider i where "z = of_int i * ?u" | "\<bar>z\<bar> \<le> 2 ^ 52 * ?u" "2 ^ 52 * ?u \<le> \<bar>y\<bar>"
    using representable_ulp [OF z, of y] by blast
  then show ?thesis
  proof cases
    case (1 i)
    then show ?thesis using le up [of i] by (simp add: pos_le_divide_eq)
  next
    case 2
    then have "2 ^ 52 * ?u \<le> y \<or> z = - (2 ^ 52) * ?u" using le by (auto simp: abs_le_iff abs_if split: if_splits)
    then show ?thesis
      using 2 le up [of "2 ^ 52"] up [of "- (2 ^ 52)"] by (auto simp: pos_le_divide_eq abs_le_iff)
  qed
qed

lemma round53_le: assumes z: "representable z" and le: "y \<le> z" shows "round53 y \<le> z"
proof -
  let ?u = "pow2 (ulp y)"
  have down: "y / ?u \<le> of_int i \<Longrightarrow> round53 y \<le> of_int i * ?u" for i
    using round_half_even_le [of "y / ?u" i] by (simp add: round53_def)
  consider i where "z = of_int i * ?u" | "\<bar>z\<bar> \<le> 2 ^ 52 * ?u" "2 ^ 52 * ?u \<le> \<bar>y\<bar>"
    using representable_ulp [OF z, of y] by blast
  then show ?thesis
  proof cases
    case (1 i)
    then show ?thesis using le down [of i] by (simp add: pos_divide_le_eq)
  next
    case 2
    then have "y \<le> - (2 ^ 52) * ?u \<or> z = 2 ^ 52 * ?u" using le by (auto simp: abs_le_iff abs_if split: if_splits)
    then show ?thesis
      using 2 le down [of "2 ^ 52"] down [of "- (2 ^ 52)"] by (auto simp: pos_divide_le_eq abs_le_iff)
  qed
qed

lemma round53_exact: "representable z \<Longrightarrow> round53 z = z"
  using round53_ge [of z z] round53_le [of z z] by simp

lemma representable_int: "\<bar>m\<bar> \<le> 2 ^ 53 \<Longrightarrow> representable (of_int m)"
  unfolding representable_def by (rule exI [of _ m], rule exI [of _ 0]) (simp add: pow2_def)

lemma representable_half: "\<bar>m\<bar> \<le> 2 ^ 53 \<Longrightarrow> representable (of_int m / 2)"
  unfolding representable_def by (rule exI [of _ m], rule exI [of _ "- 1"]) (simp add: pow2_def)

section \<open>Doubles\<close>

datatype double = Finite rat | PosInf | NegInf | NotNumber

text \<open>The nearest double; from half way past the largest one on, an infinity.\<close>

definition to_double :: "rat \<Rightarrow> double" where
  "to_double q = (let r = round53 q in if 2 ^ 1024 \<le> r then PosInf else if r \<le> - (2 ^ 1024) then NegInf else Finite r)"

fun d_less :: "double \<Rightarrow> double \<Rightarrow> bool" where
  "d_less (Finite a) (Finite b) = (a < b)"
| "d_less (Finite a) PosInf = True"
| "d_less NegInf (Finite b) = True"
| "d_less NegInf PosInf = True"
| "d_less _ _ = False"

fun d_min :: "double \<Rightarrow> double \<Rightarrow> double" where
  "d_min NotNumber b = b"
| "d_min a b = (if d_less b a then b else a)"

fun d_max :: "double \<Rightarrow> double \<Rightarrow> double" where
  "d_max NotNumber b = b"
| "d_max a b = (if d_less a b then b else a)"

fun d_neg :: "double \<Rightarrow> double" where
  "d_neg (Finite a) = Finite (- a)"
| "d_neg PosInf = NegInf"
| "d_neg NegInf = PosInf"
| "d_neg NotNumber = NotNumber"

fun d_add :: "double \<Rightarrow> double \<Rightarrow> double" where
  "d_add (Finite a) (Finite b) = to_double (a + b)"
| "d_add (Finite a) b = b"
| "d_add a (Finite b) = a"
| "d_add PosInf PosInf = PosInf"
| "d_add NegInf NegInf = NegInf"
| "d_add _ _ = NotNumber"

definition d_sub :: "double \<Rightarrow> double \<Rightarrow> double" where
  "d_sub a b = d_add a (d_neg b)"

text \<open>The sign of a value; an infinity times zero is not a number.\<close>

fun d_sign :: "double \<Rightarrow> rat" where
  "d_sign (Finite a) = sgn a"
| "d_sign PosInf = 1"
| "d_sign NegInf = - 1"
| "d_sign NotNumber = 0"

fun d_mul :: "double \<Rightarrow> double \<Rightarrow> double" where
  "d_mul (Finite a) (Finite b) = to_double (a * b)"
| "d_mul a b = (if d_sign a * d_sign b = 0 then NotNumber else if 0 < d_sign a * d_sign b then PosInf else NegInf)"

text \<open>\<open>as f64\<close> of an unsigned integer, the quotient (a zero divisor counts as the positive zero), and
  \<open>as u64\<close>, which cuts the fraction and saturates.\<close>

definition double_of :: "nat \<Rightarrow> double" where
  "double_of n = to_double (of_nat n)"

fun d_div :: "double \<Rightarrow> double \<Rightarrow> double" where
  "d_div (Finite a) (Finite b) =
     (if b \<noteq> 0 then to_double (a / b) else if a = 0 then NotNumber else if 0 < a then PosInf else NegInf)"
| "d_div (Finite a) NotNumber = NotNumber"
| "d_div (Finite a) _ = Finite 0"
| "d_div PosInf (Finite b) = (if b < 0 then NegInf else PosInf)"
| "d_div NegInf (Finite b) = (if b < 0 then PosInf else NegInf)"
| "d_div _ _ = NotNumber"

fun double_as_u64 :: "double \<Rightarrow> u64" where
  "double_as_u64 (Finite a) = (if a < 0 then 0 else if 2 ^ 64 \<le> a then - 1 else of_int \<lfloor>a\<rfloor>)"
| "double_as_u64 PosInf = - 1"
| "double_as_u64 _ = 0"

lemma to_double_exact: "representable z \<Longrightarrow> \<bar>z\<bar> < 2 ^ 1024 \<Longrightarrow> to_double z = Finite z"
  by (auto simp: to_double_def round53_exact abs_less_iff)

lemma to_double_between:
  assumes "representable a" "representable b" "a \<le> q" "q \<le> b" "\<bar>a\<bar> < 2 ^ 1024" "\<bar>b\<bar> < 2 ^ 1024"
  shows "\<exists>r. to_double q = Finite r \<and> a \<le> r \<and> r \<le> b"
  using round53_ge [OF assms(1,3)] round53_le [OF assms(2,4)] assms(5,6)
  by (intro exI [of _ "round53 q"]) (auto simp: to_double_def Let_def abs_less_iff)

end
