(* ===== verification/Flow_Control.thy ===== *)
theory Flow_Control
  imports Float64
begin

text \<open>
  Flow control (\<open>communication/flow_control.rs\<close>): the queue of outgoing messages by priority, the
  backpressure flag and sampling rate, and the signals of the cluster that set them. Each method is one
  step: its locks are taken and released inside it. The random number of the sampling is an argument.
  The queue is specified by one first-in-first-out list for each priority.
\<close>

section \<open>Messages and state\<close>

datatype Priority = Critical | High | Normal | Low

fun priority_rank :: "Priority \<Rightarrow> nat" where
  "priority_rank Critical = 0"
| "priority_rank High = 1"
| "priority_rank Normal = 2"
| "priority_rank Low = 3"

instantiation Priority :: linorder
begin

definition less_eq_Priority :: "Priority \<Rightarrow> Priority \<Rightarrow> bool" where
  "less_eq_Priority p q \<longleftrightarrow> priority_rank p \<le> priority_rank q"

definition less_Priority :: "Priority \<Rightarrow> Priority \<Rightarrow> bool" where
  "less_Priority p q \<longleftrightarrow> priority_rank p < priority_rank q"

instance
proof
  fix p q :: Priority
  show "p \<le> q \<Longrightarrow> q \<le> p \<Longrightarrow> p = q" by (cases p; cases q) (simp_all add: less_eq_Priority_def)
qed (auto simp: less_eq_Priority_def less_Priority_def)

end

lemmas priority_order = less_eq_Priority_def less_Priority_def

record PrioritizedMessage =
  pm_priority :: Priority
  pm_data :: bytes
  pm_sequence_number :: u64

record FlowControlState =
  fs_accepting :: bool
  fs_credits :: u64
  fs_window_bytes :: u64
  fs_window_used :: u64
  fs_suggested_sampling_rate :: double
  fs_desired_interval_ms :: "u64 option"

definition FlowControlState_default :: FlowControlState where
  "FlowControlState_default =
     \<lparr>fs_accepting = True, fs_credits = 1000, fs_window_bytes = 10 * 1024 * 1024, fs_window_used = 0,
      fs_suggested_sampling_rate = Finite 1, fs_desired_interval_ms = None\<rparr>"

record FlowControl =
  fc_state :: FlowControlState
  fc_queue :: "PrioritizedMessage list"
  fc_backpressure_active :: bool
  fc_messages_dropped :: u64
  fc_sampling_rate :: double
  fc_max_queue_size :: nat

definition FlowControl_new :: "nat \<Rightarrow> FlowControl" where
  "FlowControl_new max_queue_size =
     \<lparr>fc_state = FlowControlState_default, fc_queue = [], fc_backpressure_active = False, fc_messages_dropped = 0,
      fc_sampling_rate = Finite 1, fc_max_queue_size = max_queue_size\<rparr>"

section \<open>The queue\<close>

definition make_contiguous_sorted :: "PrioritizedMessage list \<Rightarrow> PrioritizedMessage list" where
  "make_contiguous_sorted queue = sort_key pm_priority queue"

text \<open>The index of the last element that satisfies a test, and removing by index.\<close>

definition rposition :: "('a \<Rightarrow> bool) \<Rightarrow> 'a list \<Rightarrow> nat option" where
  "rposition P xs = (case filter (\<lambda>i. P (xs ! i)) [0..<length xs] of [] \<Rightarrow> None | is \<Rightarrow> Some (last is))"

definition remove_at :: "nat \<Rightarrow> 'a list \<Rightarrow> 'a list" where
  "remove_at i xs = take i xs @ drop (Suc i) xs"

definition drop_message :: "FlowControl \<Rightarrow> FlowControl" where
  "drop_message fc = fc\<lparr>fc_messages_dropped := fc_messages_dropped fc + 1\<rparr>"

definition push_message :: "PrioritizedMessage \<Rightarrow> FlowControl \<Rightarrow> FlowControl" where
  "push_message m fc = fc\<lparr>fc_queue := make_contiguous_sorted (fc_queue fc @ [m])\<rparr>"

definition enqueue :: "double \<Rightarrow> bytes \<Rightarrow> Priority \<Rightarrow> u64 \<Rightarrow> FlowControl \<Rightarrow> bool \<times> FlowControl" where
  "enqueue random d priority sequence_number fc =
     (let m = \<lparr>pm_priority = priority, pm_data = d, pm_sequence_number = sequence_number\<rparr> in
      if priority = Critical then (True, push_message m fc)
      else if fc_backpressure_active fc \<and> d_less (fc_sampling_rate fc) random then (False, drop_message fc)
      else if fc_max_queue_size fc \<le> length (fc_queue fc)
      then (case rposition (\<lambda>m'. priority \<le> pm_priority m') (fc_queue fc) of
              Some lowest \<Rightarrow> (True, push_message m (drop_message (fc\<lparr>fc_queue := remove_at lowest (fc_queue fc)\<rparr>)))
            | None \<Rightarrow> (False, drop_message fc))
      else (True, push_message m fc))"

definition dequeue :: "nat \<Rightarrow> FlowControl \<Rightarrow> PrioritizedMessage list \<times> FlowControl" where
  "dequeue count fc =
     (let drain_count = min count (length (fc_queue fc)) in
      (take drain_count (fc_queue fc), fc\<lparr>fc_queue := drop drain_count (fc_queue fc)\<rparr>))"

section \<open>Signals\<close>

definition window_usage :: "FlowControlState \<Rightarrow> double" where
  "window_usage st =
     (if 0 < fs_window_bytes st
      then d_div (double_of (unat (fs_window_used st))) (double_of (unat (fs_window_bytes st))) else Finite 0)"

definition update_state :: "FlowControlState \<Rightarrow> FlowControl \<Rightarrow> FlowControl" where
  "update_state st fc =
     fc\<lparr>fc_sampling_rate := (if d_less (Finite 0) (fs_suggested_sampling_rate st) then fs_suggested_sampling_rate st
                              else fc_sampling_rate fc),
        fc_backpressure_active := \<not> fs_accepting st \<or> fs_credits st = 0 \<or> d_less (to_double (9 / 10)) (window_usage st),
        fc_state := st\<rparr>"

text \<open>The cluster's signal; the 32-bit rate counts with its value as a double.\<close>

record FlowSignal =
  sg_desired_interval_ms :: i32
  sg_sampling_rate :: double
  sg_pause :: bool

definition apply_server_signal :: "FlowSignal \<Rightarrow> FlowControl \<Rightarrow> FlowControl" where
  "apply_server_signal signal fc =
     (let fc = (if sg_pause signal then fc\<lparr>fc_backpressure_active := True\<rparr> else fc);
          fc = (if d_less (Finite 0) (sg_sampling_rate signal) then fc\<lparr>fc_sampling_rate := sg_sampling_rate signal\<rparr> else fc);
          st = fc_state fc;
          st = (if sg_pause signal then st\<lparr>fs_accepting := False\<rparr> else st);
          st = (if d_less (Finite 0) (sg_sampling_rate signal)
                then st\<lparr>fs_suggested_sampling_rate := sg_sampling_rate signal\<rparr> else st);
          st = (if 0 < sint (sg_desired_interval_ms signal)
                then st\<lparr>fs_desired_interval_ms := Some (scast (sg_desired_interval_ms signal))\<rparr> else st)
      in fc\<lparr>fc_state := st\<rparr>)"

text \<open>The readers.\<close>

definition is_backpressured :: "FlowControl \<Rightarrow> bool" where
  "is_backpressured fc = fc_backpressure_active fc"

definition sampling_rate :: "FlowControl \<Rightarrow> double" where
  "sampling_rate fc = fc_sampling_rate fc"

definition queue_len :: "FlowControl \<Rightarrow> nat" where
  "queue_len fc = length (fc_queue fc)"

definition messages_dropped :: "FlowControl \<Rightarrow> u64" where
  "messages_dropped fc = fc_messages_dropped fc"

definition desired_interval :: "FlowControl \<Rightarrow> u64 option" where
  "desired_interval fc = fs_desired_interval_ms (fc_state fc)"

definition suggested_sampling_rate :: "FlowControl \<Rightarrow> double" where
  "suggested_sampling_rate fc = fc_sampling_rate fc"

section \<open>Operations\<close>

datatype flow_op =
    Enqueue double bytes Priority u64
  | Dequeue nat
  | Update_state FlowControlState
  | Server_signal FlowSignal

datatype flow_result = Queued bool | Taken "PrioritizedMessage list" | Updated

fun flow_step :: "flow_op \<Rightarrow> FlowControl \<Rightarrow> flow_result \<times> FlowControl" where
  "flow_step (Enqueue random d p n) fc = map_prod Queued id (enqueue random d p n fc)"
| "flow_step (Dequeue count) fc = map_prod Taken id (dequeue count fc)"
| "flow_step (Update_state st) fc = (Updated, update_state st fc)"
| "flow_step (Server_signal signal) fc = (Updated, apply_server_signal signal fc)"

fun flow_run :: "flow_op list \<Rightarrow> FlowControl \<Rightarrow> flow_result list \<times> FlowControl" where
  "flow_run [] fc = ([], fc)"
| "flow_run (op # ops) fc =
     (let (r, fc) = flow_step op fc; (rs, fc) = flow_run ops fc in (r # rs, fc))"

end
