(* ===== verification/Flow_Spec.thy ===== *)
theory Flow_Spec
  imports Flow_Control "HOL-Library.Multiset"
begin

text \<open>
  What the outgoing message queue promises: it behaves as one first-in-first-out list for each priority,
  served in the order of the priorities; critical messages are never lost; and every other message is
  delivered, queued or counted as dropped.
\<close>

section \<open>The specification\<close>

type_synonym classes = "Priority \<Rightarrow> PrioritizedMessage list"

definition serve :: "classes \<Rightarrow> PrioritizedMessage list" where
  "serve c = c Critical @ c High @ c Normal @ c Low"

text \<open>The least urgent class that has messages, among those no more urgent than the given one.\<close>

definition lowest_class :: "classes \<Rightarrow> Priority \<Rightarrow> Priority option" where
  "lowest_class c p = find (\<lambda>v. p \<le> v \<and> c v \<noteq> []) [Low, Normal, High, Critical]"

definition add_last :: "PrioritizedMessage \<Rightarrow> classes \<Rightarrow> classes" where
  "add_last m c = c(pm_priority m := c (pm_priority m) @ [m])"

definition drop_newest :: "Priority \<Rightarrow> classes \<Rightarrow> classes" where
  "drop_newest v c = c(v := butlast (c v))"

text \<open>A state of the specification: the classes, and the rest of the manager without its queue.\<close>

type_synonym flow_spec = "classes \<times> FlowControl"

definition spec_enqueue :: "double \<Rightarrow> bytes \<Rightarrow> Priority \<Rightarrow> u64 \<Rightarrow> flow_spec \<Rightarrow> bool \<times> flow_spec" where
  "spec_enqueue random d p n = (\<lambda>(c, fc).
     let m = \<lparr>pm_priority = p, pm_data = d, pm_sequence_number = n\<rparr> in
     if p = Critical then (True, add_last m c, fc)
     else if fc_backpressure_active fc \<and> d_less (fc_sampling_rate fc) random then (False, c, drop_message fc)
     else if length (serve c) < fc_max_queue_size fc then (True, add_last m c, fc)
     else (case lowest_class c p of
             None \<Rightarrow> (False, c, drop_message fc)
           | Some v \<Rightarrow> (True, add_last m (drop_newest v c), drop_message fc)))"

definition spec_dequeue :: "nat \<Rightarrow> flow_spec \<Rightarrow> PrioritizedMessage list \<times> flow_spec" where
  "spec_dequeue n = (\<lambda>(c, fc).
     let h = n - length (c Critical); l = h - length (c High); k = l - length (c Normal) in
     (take n (c Critical) @ take h (c High) @ take l (c Normal) @ take k (c Low),
      (\<lambda>p. case p of Critical \<Rightarrow> drop n (c Critical) | High \<Rightarrow> drop h (c High) | Normal \<Rightarrow> drop l (c Normal) | Low \<Rightarrow> drop k (c Low)),
      fc))"

fun spec_step :: "flow_op \<Rightarrow> flow_spec \<Rightarrow> flow_result \<times> flow_spec" where
  "spec_step (Enqueue random d p n) s = map_prod Queued id (spec_enqueue random d p n s)"
| "spec_step (Dequeue n) s = map_prod Taken id (spec_dequeue n s)"
| "spec_step (Update_state st) (c, fc) = (Updated, c, update_state st fc)"
| "spec_step (Server_signal signal) (c, fc) = (Updated, c, apply_server_signal signal fc)"

fun spec_run :: "flow_op list \<Rightarrow> flow_spec \<Rightarrow> flow_result list \<times> flow_spec" where
  "spec_run [] s = ([], s)"
| "spec_run (op # ops) s = (let (r, s) = spec_step op s; (rs, s) = spec_run ops s in (r # rs, s))"

definition of_class :: "PrioritizedMessage list \<Rightarrow> classes" where
  "of_class q = (\<lambda>p. filter (\<lambda>m. pm_priority m = p) q)"

definition flow_abs :: "FlowControl \<Rightarrow> flow_spec" where
  "flow_abs fc = (of_class (fc_queue fc), fc\<lparr>fc_queue := []\<rparr>)"

section \<open>Sorted queues\<close>

definition by_priority :: "PrioritizedMessage list \<Rightarrow> bool" where
  "by_priority q \<longleftrightarrow> sorted (map pm_priority q)"

lemma of_class_simps [simp]:
  "of_class [] = (\<lambda>p. [])"
  "of_class (m # q) = (of_class q)(pm_priority m := m # of_class q (pm_priority m))"
  "of_class (q @ q') = (\<lambda>p. of_class q p @ of_class q' p)"
  by (auto simp: of_class_def)

lemma of_class_mem: "m \<in> set (of_class q p) \<longleftrightarrow> m \<in> set q \<and> pm_priority m = p"
  by (auto simp: of_class_def)

lemma by_priority_Cons: "by_priority (m # q) \<longleftrightarrow> (\<forall>m' \<in> set q. pm_priority m \<le> pm_priority m') \<and> by_priority q"
  by (simp add: by_priority_def)

lemma by_priority_snoc: "by_priority (q @ [m]) \<longleftrightarrow> (\<forall>m' \<in> set q. pm_priority m' \<le> pm_priority m) \<and> by_priority q"
  by (auto simp: by_priority_def sorted_append)

lemma by_priority_drop: "by_priority q \<Longrightarrow> by_priority (drop n q)"
  by (simp add: by_priority_def sorted_wrt_drop flip: drop_map)

lemma no_class: "\<forall>m \<in> set q. p < pm_priority m \<Longrightarrow> of_class q p = []"
  by (auto simp: of_class_def filter_empty_conv)

lemma serve_classes: "by_priority q \<Longrightarrow> serve (of_class q) = q"
proof (induction q)
  case (Cons m q)
  then have q: "serve (of_class q) = q" and le: "\<forall>m' \<in> set q. pm_priority m \<le> pm_priority m'" by (simp_all add: by_priority_Cons)
  have "p < pm_priority m \<Longrightarrow> of_class q p = []" for p using le by (intro no_class) (auto intro: less_le_trans)
  then have e: "p < pm_priority m \<Longrightarrow> of_class q p = []" for p .
  show ?case
    by (cases "pm_priority m") (use q e [of Critical] e [of High] e [of Normal] in \<open>simp_all add: serve_def priority_order\<close>)
qed (simp add: serve_def)

lemma serve_length: "by_priority q \<Longrightarrow> length (serve (of_class q)) = length q"
  by (simp add: serve_classes)

lemma sorted_push: "by_priority (make_contiguous_sorted (q @ [m]))"
  by (simp add: by_priority_def make_contiguous_sorted_def)

lemma of_class_push: "of_class (make_contiguous_sorted (q @ [m])) = add_last m (of_class q)"
  unfolding of_class_def make_contiguous_sorted_def sort_key_stable by (auto simp: add_last_def)

lemma of_class_push2: "of_class (make_contiguous_sorted (q @ [l, m])) = add_last m (of_class (q @ [l]))"
  using of_class_push [of "q @ [l]" m] by simp

section \<open>The victim of a full queue\<close>

lemma rposition_snoc: "rposition P (xs @ [x]) = (if P x then Some (length xs) else rposition P xs)"
proof -
  have "filter (\<lambda>i. P ((xs @ [x]) ! i)) [0..<length xs] = filter (\<lambda>i. P (xs ! i)) [0..<length xs]"
    by (rule filter_cong) (auto simp: nth_append)
  moreover have "rposition P xs = (let is = filter (\<lambda>i. P (xs ! i)) [0..<length xs] in if is = [] then None else Some (last is))"
    for xs by (simp add: rposition_def Let_def split: list.splits)
  ultimately show ?thesis by simp
qed

lemma rposition_none: "(\<forall>x \<in> set xs. \<not> P x) \<Longrightarrow> rposition P xs = None"
  by (auto simp: rposition_def split: list.splits dest!: Cons_eq_filterD)

lemma remove_last [simp]: "remove_at (length xs) (xs @ [x]) = xs"
  by (simp add: remove_at_def)

lemma rposition_sorted:
  assumes "by_priority q"
  shows "rposition (\<lambda>m. p \<le> pm_priority m) q =
    (if q \<noteq> [] \<and> p \<le> pm_priority (last q) then Some (length q - 1) else None)"
proof (cases q rule: rev_cases)
  case (snoc q' m)
  then have "\<forall>m' \<in> set q'. pm_priority m' \<le> pm_priority m" using assms by (simp add: by_priority_snoc)
  then show ?thesis by (auto simp: snoc rposition_snoc intro: rposition_none order_trans)
qed (simp add: rposition_def)

lemma lowest_class_snoc:
  assumes "by_priority (q @ [m])"
  shows "lowest_class (of_class (q @ [m])) p = (if p \<le> pm_priority m then Some (pm_priority m) else None)"
proof -
  have "pm_priority m < v \<Longrightarrow> of_class q v = []" for v
    using assms by (auto simp: by_priority_snoc of_class_def filter_empty_conv)
  then have e: "pm_priority m < v \<Longrightarrow> of_class q v = []" for v .
  show ?thesis
    by (cases "pm_priority m"; cases p)
      (use e [of High] e [of Normal] e [of Low] in \<open>simp_all add: lowest_class_def priority_order\<close>)
qed

lemma drop_newest_snoc: "drop_newest (pm_priority m) (of_class (q @ [m])) = of_class q"
  by (auto simp: drop_newest_def)

section \<open>The operations implement the specification\<close>

lemma enqueue_refines:
  assumes q: "by_priority (fc_queue fc)"
  shows "spec_enqueue random d p n (flow_abs fc) = map_prod id flow_abs (enqueue random d p n fc)"
    and "by_priority (fc_queue (snd (enqueue random d p n fc)))"
proof -
  let ?m = "\<lparr>pm_priority = p, pm_data = d, pm_sequence_number = n\<rparr>"
  have push: "flow_abs (push_message ?m fc') = (add_last ?m (of_class (fc_queue fc')), fc'\<lparr>fc_queue := []\<rparr>)" for fc'
    by (simp add: flow_abs_def push_message_def of_class_push)
  have full: "spec_enqueue random d p n (flow_abs fc) = map_prod id flow_abs (enqueue random d p n fc)"
    if "fc_queue fc = q' @ [l]" for q' l
    using q that
    by (auto simp: spec_enqueue_def enqueue_def push serve_length rposition_sorted lowest_class_snoc drop_newest_snoc
        Let_def flow_abs_def drop_message_def push_message_def of_class_push of_class_push2 simp del: of_class_simps)
  show "spec_enqueue random d p n (flow_abs fc) = map_prod id flow_abs (enqueue random d p n fc)"
  proof (cases "fc_queue fc" rule: rev_cases)
    case Nil
    then show ?thesis
      by (simp add: spec_enqueue_def enqueue_def push Let_def flow_abs_def drop_message_def push_message_def of_class_push
          serve_def rposition_def lowest_class_def make_contiguous_sorted_def add_last_def)
  qed (rule full)
  show "by_priority (fc_queue (snd (enqueue random d p n fc)))"
    using q by (auto simp: enqueue_def push_message_def sorted_push drop_message_def Let_def split: option.splits)
qed

text \<open>Taking and dropping reaches one class after the other.\<close>

lemma serve_take:
  "take n (serve c) = (let h = n - length (c Critical); l = h - length (c High); k = l - length (c Normal) in
     take n (c Critical) @ take h (c High) @ take l (c Normal) @ take k (c Low))"
  by (simp add: serve_def Let_def add.assoc)

lemma serve_drop:
  "drop n (serve c) = (let h = n - length (c Critical); l = h - length (c High); k = l - length (c Normal) in
     drop n (c Critical) @ drop h (c High) @ drop l (c Normal) @ drop k (c Low))"
  by (simp add: serve_def Let_def add.assoc)

lemma of_class_part: "set xs \<subseteq> set (of_class q v) \<Longrightarrow> of_class xs p = (if p = v then xs else [])"
  by (auto simp: of_class_def filter_empty_conv intro!: filter_True)

lemma of_class_drop: "of_class (drop n (of_class q v)) p = (if p = v then drop n (of_class q v) else [])"
  by (rule of_class_part) (auto dest: in_set_dropD)

lemma dequeue_refines:
  assumes q: "by_priority (fc_queue fc)"
  shows "spec_dequeue n (flow_abs fc) = map_prod id flow_abs (dequeue n fc)"
    and "by_priority (fc_queue (snd (dequeue n fc)))"
proof -
  let ?c = "of_class (fc_queue fc)"
  have t: "take n (fc_queue fc) = take n (serve ?c)" and d: "drop n (fc_queue fc) = drop n (serve ?c)"
    using q by (simp_all add: serve_classes)
  have m: "dequeue n fc = (take n (fc_queue fc), fc\<lparr>fc_queue := drop n (fc_queue fc)\<rparr>)"
    by (simp add: dequeue_def min_def)
  have "of_class (drop n (fc_queue fc)) p = fst (snd (spec_dequeue n (?c, fc))) p" for p
    unfolding d serve_drop Let_def by (cases p) (simp_all add: spec_dequeue_def of_class_drop Let_def add.assoc)
  then show "spec_dequeue n (flow_abs fc) = map_prod id flow_abs (dequeue n fc)"
    by (simp add: m flow_abs_def t serve_take spec_dequeue_def Let_def fun_eq_iff)
  show "by_priority (fc_queue (snd (dequeue n fc)))" using q by (simp add: m by_priority_drop)
qed

lemma signal_queue [simp]:
  "fc_queue (apply_server_signal signal fc) = fc_queue fc" "fc_queue (update_state st fc) = fc_queue fc"
  "fc_max_queue_size (apply_server_signal signal fc) = fc_max_queue_size fc" "fc_max_queue_size (update_state st fc) = fc_max_queue_size fc"
  "fc_messages_dropped (apply_server_signal signal fc) = fc_messages_dropped fc" "fc_messages_dropped (update_state st fc) = fc_messages_dropped fc"
  by (simp_all add: apply_server_signal_def update_state_def Let_def)

lemma flow_step_refines:
  assumes "by_priority (fc_queue fc)"
  shows "spec_step op (flow_abs fc) = map_prod id flow_abs (flow_step op fc)"
    and "by_priority (fc_queue (snd (flow_step op fc)))"
proof -
  show "spec_step op (flow_abs fc) = map_prod id flow_abs (flow_step op fc)"
  proof (cases op)
    case (Enqueue random d p n)
    then show ?thesis using enqueue_refines(1) [OF assms, of random d p n] by (simp add: map_prod_def case_prod_unfold)
  next
    case (Dequeue n)
    then show ?thesis using dequeue_refines(1) [OF assms, of n] by (simp add: map_prod_def case_prod_unfold)
  qed (simp_all add: flow_abs_def apply_server_signal_def update_state_def Let_def)
  show "by_priority (fc_queue (snd (flow_step op fc)))"
    using assms enqueue_refines(2) [OF assms] dequeue_refines(2) [OF assms] by (cases op) simp_all
qed

lemma flow_run_refines:
  "by_priority (fc_queue fc) \<Longrightarrow>
     spec_run ops (flow_abs fc) = map_prod id flow_abs (flow_run ops fc) \<and> by_priority (fc_queue (snd (flow_run ops fc)))"
proof (induction ops arbitrary: fc)
  case (Cons op ops)
  note s = flow_step_refines [OF Cons.prems, of op]
  show ?case using s Cons.IH [OF s(2)] by (simp add: case_prod_unfold map_prod_def Let_def)
qed simp

section \<open>What the queue promises\<close>

text \<open>C13. Starting empty, the manager gives the same answers and delivers the same messages as the
  specification with one first-in-first-out list for each priority, for every sequence of messages,
  deliveries, state updates and signals, and its queue is always the specification's classes one after
  the other, the most urgent first.\<close>

theorem flow_control_refines_spec:
  "spec_run ops (flow_abs (FlowControl_new n)) = map_prod id flow_abs (flow_run ops (FlowControl_new n)) \<and>
   fc_queue (snd (flow_run ops (FlowControl_new n))) = serve (fst (flow_abs (snd (flow_run ops (FlowControl_new n)))))"
  using flow_run_refines [of "FlowControl_new n" ops] by (simp add: FlowControl_new_def by_priority_def flow_abs_def serve_classes)

section \<open>Nothing is lost silently\<close>

text \<open>The messages of one priority that a run offers, and those it delivers.\<close>

fun offered :: "flow_op list \<Rightarrow> PrioritizedMessage list" where
  "offered [] = []"
| "offered (Enqueue random d p n # ops) = \<lparr>pm_priority = p, pm_data = d, pm_sequence_number = n\<rparr> # offered ops"
| "offered (op # ops) = offered ops"

fun delivered :: "flow_result list \<Rightarrow> PrioritizedMessage list" where
  "delivered [] = []"
| "delivered (Taken ms # rs) = ms @ delivered rs"
| "delivered (r # rs) = delivered rs"

lemma offered_step: "offered (op # ops) = offered [op] @ offered ops"
  by (cases op) simp_all

lemma delivered_step: "delivered (r # rs) = delivered [r] @ delivered rs"
  by (cases r) simp_all

text \<open>What a call does to the queue.\<close>

lemma enqueue_cases:
  assumes "by_priority (fc_queue fc)" "enqueue random d p n fc = (r, fc')"
  defines "m \<equiv> \<lparr>pm_priority = p, pm_data = d, pm_sequence_number = n\<rparr>"
  obtains (push) "fc' = push_message m fc" "p = Critical \<or> length (fc_queue fc) < fc_max_queue_size fc"
  | (refuse) "fc' = drop_message fc" "p \<noteq> Critical"
  | (replace) q l where "fc_queue fc = q @ [l]" "pm_priority l \<noteq> Critical" "p \<noteq> Critical"
      "fc' = push_message m (drop_message (fc\<lparr>fc_queue := q\<rparr>))"
proof (cases "p = Critical \<or> fc_backpressure_active fc \<and> d_less (fc_sampling_rate fc) random \<or> length (fc_queue fc) < fc_max_queue_size fc")
  case True
  then show ?thesis using assms(2) push refuse by (cases "p = Critical") (auto simp: enqueue_def m_def Let_def split: if_splits)
next
  case False
  then have e: "(case rposition (\<lambda>m'. p \<le> pm_priority m') (fc_queue fc) of
       Some i \<Rightarrow> (True, push_message m (drop_message (fc\<lparr>fc_queue := remove_at i (fc_queue fc)\<rparr>)))
     | None \<Rightarrow> (False, drop_message fc)) = (r, fc')"
    using assms(2) False unfolding m_def by (auto simp: enqueue_def Let_def)
  show ?thesis
  proof (cases "fc_queue fc" rule: rev_cases)
    case Nil
    then show ?thesis using e False refuse by (simp add: rposition_def)
  next
    case (snoc q l)
    show ?thesis
    proof (cases "p \<le> pm_priority l")
      case True
      moreover have "pm_priority l \<noteq> Critical" using True False by (cases p) (auto simp: priority_order)
      ultimately show ?thesis using e False snoc replace rposition_sorted [OF assms(1), of p] by auto
    next
      case below: False
      then show ?thesis using e False snoc refuse rposition_sorted [OF assms(1), of p] by auto
    qed
  qed
qed

lemma fc_fields [simp]:
  "fc_queue (drop_message fc) = fc_queue fc" "fc_messages_dropped (drop_message fc) = fc_messages_dropped fc + 1"
  "fc_max_queue_size (drop_message fc) = fc_max_queue_size fc"
  "fc_queue (push_message m fc) = make_contiguous_sorted (fc_queue fc @ [m])"
  "fc_messages_dropped (push_message m fc) = fc_messages_dropped fc" "fc_max_queue_size (push_message m fc) = fc_max_queue_size fc"
  by (simp_all add: drop_message_def push_message_def)

lemma critical_enqueue:
  assumes "by_priority (fc_queue fc)"
  shows "of_class (fc_queue (snd (enqueue random d p n fc))) Critical =
    of_class (fc_queue fc) Critical @ (if p = Critical then [\<lparr>pm_priority = p, pm_data = d, pm_sequence_number = n\<rparr>] else [])"
proof -
  obtain r fc' where e: "enqueue random d p n fc = (r, fc')" by fastforce
  from assms e show ?thesis
    by (cases rule: enqueue_cases) (auto simp: e of_class_push add_last_def simp flip: append.simps)
qed

lemma of_class_split: "of_class (take k q) p @ of_class (drop k q) p = of_class q p"
  by (simp add: of_class_def flip: filter_append)

lemma critical_step:
  assumes "by_priority (fc_queue fc)"
  shows "of_class (delivered [fst (flow_step op fc)]) Critical @ of_class (fc_queue (snd (flow_step op fc))) Critical =
         of_class (fc_queue fc) Critical @ of_class (offered [op]) Critical"
proof (cases op)
  case (Enqueue random d p n)
  then show ?thesis using critical_enqueue [OF assms, of random d p n] by simp
qed (simp_all add: dequeue_def Let_def of_class_split)

lemma critical_run:
  "by_priority (fc_queue fc) \<Longrightarrow>
     of_class (delivered (fst (flow_run ops fc))) Critical @ of_class (fc_queue (snd (flow_run ops fc))) Critical =
     of_class (fc_queue fc) Critical @ of_class (offered ops) Critical"
proof (induction ops arbitrary: fc)
  case (Cons op ops)
  let ?fc = "snd (flow_step op fc)"
  have "of_class (delivered [fst (flow_step op fc)]) Critical @ of_class (fc_queue ?fc) Critical @ of_class (offered ops) Critical =
      of_class (fc_queue fc) Critical @ of_class (offered [op]) Critical @ of_class (offered ops) Critical"
    using arg_cong [OF critical_step [OF Cons.prems, of op], of "\<lambda>xs. xs @ of_class (offered ops) Critical"] by simp
  then show ?case using Cons.IH [OF flow_step_refines(2) [OF Cons.prems, of op]]
    by (simp add: case_prod_unfold Let_def offered_step [of op ops] delivered_step [of "fst (flow_step op fc)" "fst (flow_run ops ?fc)"])
qed simp

text \<open>C14. Critical messages are never lost: whatever the backpressure, the sampling and the capacity,
  the critical messages a run offers are exactly those it has delivered followed by those still queued,
  in the order they were offered.\<close>

theorem critical_messages_never_lost:
  "case flow_run ops (FlowControl_new n) of (rs, fc) \<Rightarrow>
     of_class (delivered rs) Critical @ of_class (fc_queue fc) Critical = of_class (offered ops) Critical"
  using critical_run [of "FlowControl_new n" ops] by (simp add: FlowControl_new_def by_priority_def case_prod_unfold)

text \<open>The messages that may be dropped fit the capacity, and the counters add up.\<close>

definition droppable :: "PrioritizedMessage list \<Rightarrow> nat" where
  "droppable q = length (filter (\<lambda>m. pm_priority m \<noteq> Critical) q)"

definition flow_ok :: "FlowControl \<Rightarrow> bool" where
  "flow_ok fc \<longleftrightarrow> by_priority (fc_queue fc) \<and> droppable (fc_queue fc) \<le> fc_max_queue_size fc"

lemma droppable_le: "droppable q \<le> length q"
  by (simp add: droppable_def)

lemma droppable_simps [simp]: "droppable [] = 0" "droppable (q @ q') = droppable q + droppable q'"
  by (simp_all add: droppable_def)

lemma droppable_push: "droppable (make_contiguous_sorted (q @ [m])) = droppable q + (if pm_priority m = Critical then 0 else 1)"
proof -
  have m: "droppable xs = size (filter_mset (\<lambda>m. pm_priority m \<noteq> Critical) (mset xs))" for xs
    by (simp add: droppable_def flip: mset_filter)
  show ?thesis by (simp add: m make_contiguous_sorted_def)
qed

lemma length_push [simp]: "length (make_contiguous_sorted q) = length q"
  by (simp add: make_contiguous_sorted_def)

lemma enqueue_counts:
  assumes ok: "flow_ok fc"
  shows "flow_ok (snd (enqueue random d p n fc))"
    and "of_nat (length (fc_queue (snd (enqueue random d p n fc)))) + fc_messages_dropped (snd (enqueue random d p n fc)) =
         of_nat (length (fc_queue fc)) + fc_messages_dropped fc + (1 :: u64)"
    and "fc_max_queue_size (snd (enqueue random d p n fc)) = fc_max_queue_size fc"
proof -
  obtain r fc' where e: "enqueue random d p n fc = (r, fc')" by fastforce
  have q: "by_priority (fc_queue fc)" "droppable (fc_queue fc) \<le> fc_max_queue_size fc" using ok by (simp_all add: flow_ok_def)
  have one: "droppable [l] = (if pm_priority l = Critical then 0 else 1)" for l by (simp add: droppable_def)
  note room = droppable_le [of "fc_queue fc"]
  have "(droppable (fc_queue fc') \<le> fc_max_queue_size fc' \<and> fc_max_queue_size fc' = fc_max_queue_size fc) \<and>
    of_nat (length (fc_queue fc')) + fc_messages_dropped fc' = of_nat (length (fc_queue fc)) + fc_messages_dropped fc + (1 :: u64)"
    using q(1) e
  proof (cases rule: enqueue_cases)
    case push
    then show ?thesis using q(2) room by (auto simp: droppable_push)
  next
    case (replace q' l)
    then show ?thesis using q(2) by (simp add: droppable_push one)
  qed (use q(2) in simp)
  then show "flow_ok (snd (enqueue random d p n fc))"
    "of_nat (length (fc_queue (snd (enqueue random d p n fc)))) + fc_messages_dropped (snd (enqueue random d p n fc)) =
         of_nat (length (fc_queue fc)) + fc_messages_dropped fc + (1 :: u64)"
    "fc_max_queue_size (snd (enqueue random d p n fc)) = fc_max_queue_size fc"
    using enqueue_refines(2) [OF q(1), of random d p n] by (simp_all add: flow_ok_def e)
qed

lemma dequeue_counts:
  assumes ok: "flow_ok fc"
  shows "flow_ok (snd (dequeue n fc))"
    and "of_nat (length (fc_queue (snd (dequeue n fc)))) + of_nat (length (fst (dequeue n fc))) = (of_nat (length (fc_queue fc)) :: u64)"
proof -
  have "droppable (drop k q) \<le> droppable q" for k q
    by (metis append_take_drop_id droppable_simps(2) le_add2)
  then have "droppable (drop k (fc_queue fc)) \<le> fc_max_queue_size fc" for k
    using ok order_trans unfolding flow_ok_def by blast
  then show "flow_ok (snd (dequeue n fc))" using ok by (simp add: flow_ok_def dequeue_def Let_def by_priority_drop)
  show "of_nat (length (fc_queue (snd (dequeue n fc)))) + of_nat (length (fst (dequeue n fc))) = (of_nat (length (fc_queue fc)) :: u64)"
    by (simp add: dequeue_def Let_def flip: of_nat_add)
qed

lemma chained_sums:
  "d1 + q1 + r1 = q0 + r0 + o1 \<Longrightarrow> d2 + q2 + r2 = q1 + r1 + o2 \<Longrightarrow> (d1 + d2) + q2 + r2 = q0 + r0 + (o1 + (o2 :: u64))"
proof -
  assume one: "d1 + q1 + r1 = q0 + r0 + o1" and two: "d2 + q2 + r2 = q1 + r1 + o2"
  have "(d1 + d2) + q2 + r2 = d1 + (d2 + q2 + r2)" by (simp add: ac_simps)
  also have "\<dots> = (d1 + q1 + r1) + o2" unfolding two by (simp only: add.assoc)
  also have "\<dots> = q0 + r0 + (o1 + o2)" unfolding one by (simp only: add.assoc)
  finally show ?thesis .
qed

lemma flow_run_counts:
  "flow_ok fc \<Longrightarrow> flow_ok (snd (flow_run ops fc)) \<and> fc_max_queue_size (snd (flow_run ops fc)) = fc_max_queue_size fc \<and>
     of_nat (length (delivered (fst (flow_run ops fc)))) + of_nat (length (fc_queue (snd (flow_run ops fc)))) +
       fc_messages_dropped (snd (flow_run ops fc)) =
     of_nat (length (fc_queue fc)) + fc_messages_dropped fc + (of_nat (length (offered ops)) :: u64)"
proof (induction ops arbitrary: fc)
  case (Cons op ops)
  let ?fc = "snd (flow_step op fc)"
  have s: "flow_ok ?fc \<and> fc_max_queue_size ?fc = fc_max_queue_size fc \<and>
    of_nat (length (delivered [fst (flow_step op fc)])) + of_nat (length (fc_queue ?fc)) + fc_messages_dropped ?fc =
    of_nat (length (fc_queue fc)) + fc_messages_dropped fc + (of_nat (length (offered [op])) :: u64)"
  proof (cases op)
    case (Enqueue random d p n)
    then show ?thesis using enqueue_counts [OF Cons.prems, of random d p n] by simp
  next
    case (Dequeue n)
    have "fc_messages_dropped (snd (dequeue n fc)) = fc_messages_dropped fc" "fc_max_queue_size (snd (dequeue n fc)) = fc_max_queue_size fc"
      by (simp_all add: dequeue_def Let_def)
    then show ?thesis using dequeue_counts [OF Cons.prems, of n] Dequeue by (simp add: add.commute)
  qed (use Cons.prems in \<open>simp_all add: flow_ok_def\<close>)
  then have ok: "flow_ok ?fc" by simp
  have sum: "of_nat (length (delivered [fst (flow_step op fc)])) + of_nat (length (fc_queue ?fc)) + fc_messages_dropped ?fc =
    of_nat (length (fc_queue fc)) + fc_messages_dropped fc + (of_nat (length (offered [op])) :: u64)"
    using s by simp
  from Cons.IH [OF ok] s chained_sums [OF sum] show ?case
    by (simp add: case_prod_unfold Let_def offered_step [of op ops] delivered_step [of "fst (flow_step op fc)" "fst (flow_run ops ?fc)"])
qed simp

text \<open>The queue stays within its capacity, up to critical messages, and no message disappears
  without being counted: delivered, queued and dropped messages add up to the messages offered, as a
  64-bit sum.\<close>

lemma flow_queue_bounded_and_counted:
  "case flow_run ops (FlowControl_new n) of (rs, fc) \<Rightarrow>
     droppable (fc_queue fc) \<le> n \<and>
     of_nat (length (delivered rs)) + of_nat (queue_len fc) + messages_dropped fc = (of_nat (length (offered ops)) :: u64)"
  using flow_run_counts [of "FlowControl_new n" ops]
  by (simp add: FlowControl_new_def flow_ok_def by_priority_def case_prod_unfold queue_len_def messages_dropped_def)

end
