(* ===== verification/Config_Load.thy ===== *)
theory Config_Load
  imports Text
begin

text \<open>
  Loading the agent's configuration (\<open>config/mod.rs\<close>): durations, validation, the overrides from the
  environment, writing a new API key to the file and reading it again; and the metal scraper's own
  parser for the same interval (\<open>metal/mod.rs\<close>). The YAML parser and printer, the environment and the
  file system are arguments; the configuration is modelled as far as this code reads it. Multiplications
  wrap, as in a release build. None as a result is a panic.
\<close>

section \<open>Durations\<close>

datatype duration_error = Empty_duration | Invalid_number | Zero_duration | Unknown_unit

text \<open>In seconds.\<close>

definition config_parse_duration :: "rstring \<Rightarrow> (duration_error + u64) option" where
  "config_parse_duration s =
     (let s = trim s in
      if s = [] then Some (Inl Empty_duration)
      else (case str_split_at (str_len s - 1) s of
              None \<Rightarrow> None
            | Some (num_str, unit) \<Rightarrow>
                Some (case parse_uint 10 64 num_str of
                        None \<Rightarrow> Inl Invalid_number
                      | Some value \<Rightarrow>
                          if value = 0 then Inl Zero_duration
                          else if unit = lit ''s'' then Inr (of_nat value)
                          else if unit = lit ''m'' then Inr (of_nat value * 60)
                          else if unit = lit ''h'' then Inr (of_nat value * 3600)
                          else Inl Unknown_unit)))"

datatype metal_duration_error = Number_error | Format_error

text \<open>In milliseconds.\<close>

definition metal_parse_duration :: "rstring \<Rightarrow> metal_duration_error + nat" where
  "metal_parse_duration s =
     (let s = trim s; number = (\<lambda>t f. case parse_uint 10 64 t of None \<Rightarrow> Inl Number_error | Some v \<Rightarrow> Inr (f v)) in
      case strip_suffix (lit ''ms'') s of
        Some t \<Rightarrow> number t (\<lambda>ms. ms)
      | None \<Rightarrow> (case strip_suffix (lit ''s'') s of
          Some t \<Rightarrow> number t (\<lambda>secs. 1000 * secs)
        | None \<Rightarrow> (case strip_suffix (lit ''m'') s of
            Some t \<Rightarrow> number t (\<lambda>mins. 1000 * unat (of_nat mins * 60 :: u64))
          | None \<Rightarrow> Inl Format_error)))"

section \<open>The configuration\<close>

record AgentConfig =
  ac_id :: rstring
  ac_cluster_endpoint :: rstring
  ac_api_key :: rstring
  ac_tenant_id :: "rstring option"
  ac_twin_id :: "rstring option"
  ac_client_id :: "rstring option"
  ac_cluster_agent_id :: "rstring option"

record Config =
  cf_agent :: AgentConfig
  cf_metal_interval :: rstring
  cf_health_intervals :: "rstring list" \<comment> \<open>of \<open>layers.supervisor.health_checks\<close>\<close>
  cf_tls_enabled :: bool
  cf_edge_enabled :: bool
  cf_edge_max_size_mb :: u64

datatype config_error =
    Read_failed | Yaml_failed | Empty_endpoint | Bad_metal_interval duration_error | Bad_health_interval duration_error | Zero_edge_buffer

fun check_intervals :: "rstring list \<Rightarrow> (duration_error + unit) option" where
  "check_intervals [] = Some (Inr ())"
| "check_intervals (i # is) =
     (case config_parse_duration i of None \<Rightarrow> None | Some (Inl e) \<Rightarrow> Some (Inl e) | Some (Inr d) \<Rightarrow> check_intervals is)"

text \<open>The warning about a key that looks like a UUID prints its first eight bytes.\<close>

definition key_prefix_panics :: "rstring \<Rightarrow> bool" where
  "key_prefix_panics key \<longleftrightarrow> str_len key = 36 \<and> 45 \<in> set key \<and> str_range key 0 8 = None"

definition validate :: "Config \<Rightarrow> (config_error + unit) option" where
  "validate config =
     (if trim (ac_cluster_endpoint (cf_agent config)) = [] then Some (Inl Empty_endpoint)
      else if key_prefix_panics (ac_api_key (cf_agent config)) then None
      else (case config_parse_duration (cf_metal_interval config) of
              None \<Rightarrow> None
            | Some (Inl e) \<Rightarrow> Some (Inl (Bad_metal_interval e))
            | Some (Inr d) \<Rightarrow>
                (case check_intervals (cf_health_intervals config) of
                   None \<Rightarrow> None
                 | Some (Inl e) \<Rightarrow> Some (Inl (Bad_health_interval e))
                 | Some (Inr u) \<Rightarrow>
                     Some (if cf_edge_enabled config \<and> cf_edge_max_size_mb config = 0 then Inl Zero_edge_buffer else Inr ()))))"

section \<open>Loading\<close>

type_synonym env_vars = "rstring \<Rightarrow> rstring option"

definition env_overrides :: "env_vars \<Rightarrow> AgentConfig \<Rightarrow> AgentConfig" where
  "env_overrides env a =
     (let set = (\<lambda>v f a. case env v of None \<Rightarrow> a | Some x \<Rightarrow> f x a);
          a = set (lit ''PARYTY_API_KEY'') (\<lambda>x. ac_api_key_update (\<lambda>_. x)) a;
          a = set (lit ''PARYTY_CLUSTER_ENDPOINT'') (\<lambda>x. ac_cluster_endpoint_update (\<lambda>_. x)) a;
          a = set (lit ''PARYTY_TENANT_ID'') (\<lambda>x. ac_tenant_id_update (\<lambda>_. Some x)) a;
          a = set (lit ''PARYTY_TWIN_ID'') (\<lambda>x. ac_twin_id_update (\<lambda>_. Some x)) a;
          a = set (lit ''PARYTY_CLIENT_ID'') (\<lambda>x. ac_client_id_update (\<lambda>_. Some x)) a
      in set (lit ''PARYTY_CLUSTER_AGENT_ID'') (\<lambda>x. ac_cluster_agent_id_update (\<lambda>_. Some x)) a)"

definition load_from_str :: "(rstring \<Rightarrow> Config option) \<Rightarrow> rstring \<Rightarrow> env_vars \<Rightarrow> rstring \<Rightarrow> (config_error + Config) option" where
  "load_from_str yaml new_uuid env s =
     (case yaml s of
        None \<Rightarrow> Some (Inl Yaml_failed)
      | Some config \<Rightarrow>
          (let config = config\<lparr>cf_agent := env_overrides env (cf_agent config)\<rparr>;
               config = (if ac_id (cf_agent config) = lit ''auto''
                         then config\<lparr>cf_agent := (cf_agent config)\<lparr>ac_id := new_uuid\<rparr>\<rparr> else config)
           in case validate config of
                None \<Rightarrow> None
              | Some (Inl e) \<Rightarrow> Some (Inl e)
              | Some (Inr u) \<Rightarrow> Some (Inr config)))"

text \<open>A file: absent, unreadable, or its text.\<close>

datatype config_file = Absent | Unreadable | Content rstring

definition load_from_path :: "(rstring \<Rightarrow> Config option) \<Rightarrow> rstring \<Rightarrow> env_vars \<Rightarrow> config_file \<Rightarrow> (config_error + Config) option" where
  "load_from_path yaml new_uuid env f =
     (case f of Content s \<Rightarrow> load_from_str yaml new_uuid env s | _ \<Rightarrow> Some (Inl Read_failed))"

definition reread_api_key :: "(rstring \<Rightarrow> Config option) \<Rightarrow> rstring \<Rightarrow> env_vars \<Rightarrow> config_file \<Rightarrow> (config_error + rstring option) option" where
  "reread_api_key yaml new_uuid env f =
     (case env (lit ''PARYTY_API_KEY'') of
        Some (c # key) \<Rightarrow> Some (Inr (Some (c # key)))
      | _ \<Rightarrow>
          (case f of
             Absent \<Rightarrow> Some (Inr None)
           | Unreadable \<Rightarrow> Some (Inl Read_failed)
           | Content s \<Rightarrow>
               (case load_from_str yaml new_uuid env s of
                  None \<Rightarrow> None
                | Some (Inl e) \<Rightarrow> Some (Inl e)
                | Some (Inr config) \<Rightarrow>
                    Some (Inr (if ac_api_key (cf_agent config) \<noteq> [] then Some (ac_api_key (cf_agent config)) else None)))))"

section \<open>Facts about durations\<close>

lemma str_len_Cons: "str_len (c # s) = length (utf8_enc c) + str_len s"
  by (simp add: str_len_def)

lemma str_len_append: "str_len (a @ b) = str_len a + str_len b"
  by (simp add: str_len_def)

lemma str_split_at_Some: "str_split_at n s = Some (a, b) \<Longrightarrow> s = a @ b \<and> str_len a = n"
proof (induction n s arbitrary: a b rule: str_split_at.induct)
  case (1 n)
  then show ?case by (auto simp: str_len_def split: if_splits)
next
  case (2 n c cs)
  then show ?case by (force simp: str_len_def split: if_splits)
qed

lemma str_split_at_append: "str_split_at (str_len a) (a @ b) = Some (a, b)"
proof (induction a)
  case Nil
  then show ?case by (cases b) (simp_all add: str_len_def)
next
  case (Cons c a)
  have "0 < length (utf8_enc c)" by (rule utf8_enc_length)
  then show ?case using Cons by (simp add: str_len_Cons)
qed

lemma split_last_ascii: "c < 128 \<Longrightarrow> str_split_at (str_len (t @ [c]) - 1) (t @ [c]) = Some (t, [c])"
  using str_split_at_append [of t "[c]"] by (simp add: str_len_append str_len_Cons utf8_enc_ascii str_len_def [of "[]"])

text \<open>A string that the configuration accepts is a number and a unit.\<close>

lemma config_duration_split:
  assumes "config_parse_duration s = Some (Inr d)"
  obtains num v c where "trim s = num @ [c]" "parse_uint 10 64 num = Some v" "v \<noteq> 0"
    "c = 115 \<and> d = of_nat v \<or> c = 109 \<and> d = of_nat v * 60 \<or> c = 104 \<and> d = of_nat v * 3600"
proof -
  obtain num unit v where sp: "str_split_at (str_len (trim s) - 1) (trim s) = Some (num, unit)"
    and v: "parse_uint 10 64 num = Some v" "v \<noteq> 0"
    and u: "unit = lit ''s'' \<and> d = of_nat v \<or> unit = lit ''m'' \<and> d = of_nat v * 60 \<or> unit = lit ''h'' \<and> d = of_nat v * 3600"
    using assms by (auto simp: config_parse_duration_def Let_def split: option.splits if_splits)
  have "trim s = num @ unit" using str_split_at_Some [OF sp] by simp
  then show ?thesis using that [of num _ v] v u by auto
qed

lemma strip_suffix_snoc: "strip_suffix [x] (t @ [c]) = (if c = x then Some t else None)"
  by (simp add: strip_suffix_def)

lemma strip_suffix_snoc2: "strip_suffix [x, y] (t @ [c]) = (if c = y \<and> t \<noteq> [] \<and> last t = x then Some (butlast t) else None)"
  by (cases t rule: rev_cases) (auto simp: strip_suffix_def)

lemma last_digit: "parse_uint 10 64 num = Some v \<Longrightarrow> num \<noteq> [] \<and> last num \<noteq> 109"
proof -
  have digits: "parse_digits 10 l acc t = Some v \<Longrightarrow> t \<noteq> [] \<Longrightarrow> last t \<noteq> 109" for l acc t
    by (induction t arbitrary: acc) (auto simp: to_digit_def Let_def split: option.splits if_splits)
  assume "parse_uint 10 64 num = Some v"
  moreover have "num \<noteq> []" "num \<noteq> [43]" using calculation by (auto simp: parse_uint_def)
  ultimately show ?thesis using digits [of "2 ^ 64" 0 "tl num"] digits [of "2 ^ 64" 0 num]
    by (cases num) (auto simp: parse_uint_def simp del: parse_digits.simps split: if_splits)
qed

text \<open>Numbers as they are usually written.\<close>

lemma trim_no_space: "list_all (\<lambda>c. \<not> is_whitespace c) s \<Longrightarrow> trim s = s"
proof -
  have d: "list_all (\<lambda>c. \<not> is_whitespace c) t \<Longrightarrow> dropWhile is_whitespace t = t" for t by (cases t) simp_all
  assume "list_all (\<lambda>c. \<not> is_whitespace c) s"
  then show ?thesis by (simp add: trim_def trim_matches_def d)
qed

lemma trim_number: "list_all (\<lambda>c. 33 \<le> c \<and> c < 128) u \<Longrightarrow> trim (decimal n @ u) = decimal n @ u"
proof -
  have w: "33 \<le> c \<Longrightarrow> c < 128 \<Longrightarrow> \<not> is_whitespace c" for c by (auto simp: is_whitespace_def)
  assume "list_all (\<lambda>c. 33 \<le> c \<and> c < 128) u"
  then show ?thesis using decimal_digits [of n] w by (intro trim_no_space) (fastforce simp: list_all_iff)
qed

lemma config_duration_decimal:
  assumes "0 < n" "n < 2 ^ 64"
  shows "config_parse_duration (decimal n @ lit ''h'') = Some (Inr (of_nat n * 3600))"
    and "config_parse_duration (decimal n @ lit ''s'') = Some (Inr (of_nat n))"
    and "config_parse_duration (decimal n @ lit ''ms'') = Some (Inl Invalid_number)"
    and "metal_parse_duration (decimal n @ lit ''ms'') = Inr n"
proof -
  have p: "parse_uint 10 64 (decimal n) = Some n" by (rule parse_uint_decimal [OF assms(2)])
  have bad: "parse_uint 10 64 (decimal n @ [109]) = None"
    using last_digit [of "decimal n @ [109]"] by (cases "parse_uint 10 64 (decimal n @ [109])") simp_all
  show "config_parse_duration (decimal n @ lit ''h'') = Some (Inr (of_nat n * 3600))"
    "config_parse_duration (decimal n @ lit ''s'') = Some (Inr (of_nat n))"
    using assms(1) by (simp_all add: config_parse_duration_def trim_number split_last_ascii p Let_def del: One_nat_def)
  show "config_parse_duration (decimal n @ lit ''ms'') = Some (Inl Invalid_number)"
    using split_last_ascii [of 115 "decimal n @ [109]"]
    by (simp add: config_parse_duration_def trim_number bad Let_def del: One_nat_def)
  show "metal_parse_duration (decimal n @ lit ''ms'') = Inr n"
    by (simp add: metal_parse_duration_def trim_number p strip_suffix_def Let_def)
qed

text \<open>A last character outside ASCII is a panic.\<close>

lemma config_duration_panics:
  assumes "trim s = t @ [c]" "1 < length (utf8_enc c)"
  shows "config_parse_duration s = None"
proof -
  have "str_split_at (str_len (t @ [c]) - 1) (t @ [c]) = None"
  proof (rule ccontr)
    assume "str_split_at (str_len (t @ [c]) - 1) (t @ [c]) \<noteq> None"
    then obtain a b where s: "str_split_at (str_len (t @ [c]) - 1) (t @ [c]) = Some (a, b)" by fastforce
    have e: "t @ [c] = a @ b" "str_len a = str_len (t @ [c]) - 1" using str_split_at_Some [OF s] by simp_all
    have "0 < str_len (t @ [c])" using assms(2) unfolding str_len_append str_len_Cons by linarith
    moreover have "str_len (t @ [c]) = str_len a + str_len b" by (simp only: e(1) str_len_append)
    ultimately have l: "str_len b = 1" using e(2) by linarith
    show False
    proof (cases b rule: rev_cases)
      case Nil
      then show ?thesis using l by (simp add: str_len_def)
    next
      case (snoc b' x)
      then have "x = c" using e(1) by simp
      then show ?thesis using l assms(2) snoc by (simp add: str_len_append str_len_Cons)
    qed
  qed
  then show ?thesis by (simp add: config_parse_duration_def assms(1) Let_def)
qed

section \<open>The collection interval\<close>

text \<open>C18. The two parsers of the collection interval agree on seconds and minutes, and only there: an
  interval in hours that the configuration accepts is a format error for the metal scraper, which
  returns it and collects nothing.\<close>

theorem metal_interval_agrees:
  assumes "config_parse_duration s = Some (Inr d)"
  shows "metal_parse_duration s = (if last (trim s) = 104 then Inl Format_error
                                   else Inr (1000 * unat d))"
proof -
  obtain num v c where t: "trim s = num @ [c]" and v: "parse_uint 10 64 num = Some v" "v \<noteq> 0"
    and c: "c = 115 \<and> d = of_nat v \<or> c = 109 \<and> d = of_nat v * 60 \<or> c = 104 \<and> d = of_nat v * 3600"
    using config_duration_split [OF assms] .
  have b: "unat (of_nat v :: u64) = v" using parse_uint_bound [OF v(1)] by (simp add: unat_of_nat)
  show ?thesis using c v last_digit [OF v(1)] b
    by (auto simp: metal_parse_duration_def t strip_suffix_snoc strip_suffix_snoc2 Let_def)
qed

theorem metal_interval_agrees_witness:
  "metal_parse_duration (decimal 2 @ lit ''h'') = Inl Format_error \<and> metal_parse_duration (decimal 10 @ lit ''s'') = Inr 10000"
proof -
  have h: "config_parse_duration (decimal 2 @ lit ''h'') = Some (Inr 7200)"
    using config_duration_decimal(1) [of 2] by simp
  have s: "config_parse_duration (decimal 10 @ lit ''s'') = Some (Inr 10)"
    using config_duration_decimal(2) [of 10] by simp
  show ?thesis using metal_interval_agrees [OF h] metal_interval_agrees [OF s] by (simp add: trim_number)
qed

lemma check_intervals_all:
  "check_intervals is = Some (Inr u) \<longleftrightarrow> list_all (\<lambda>i. \<exists>d. config_parse_duration i = Some (Inr d)) is"
  by (induction "is") (auto split: option.splits sum.splits)

text \<open>What a configuration that was loaded satisfies.\<close>

definition config_ok :: "Config \<Rightarrow> bool" where
  "config_ok config \<longleftrightarrow> trim (ac_cluster_endpoint (cf_agent config)) \<noteq> [] \<and>
     list_all (\<lambda>i. case config_parse_duration i of Some (Inr d) \<Rightarrow> True | _ \<Rightarrow> False)
       (cf_metal_interval config # cf_health_intervals config) \<and>
     (cf_edge_enabled config \<longrightarrow> 0 < cf_edge_max_size_mb config)"

lemma validate_ok: "validate config = Some (Inr u) \<Longrightarrow> config_ok config"
proof -
  have e: "(case config_parse_duration i of Some (Inr d) \<Rightarrow> True | _ \<Rightarrow> False) \<longleftrightarrow> (\<exists>d. config_parse_duration i = Some (Inr d))" for i
    by (auto split: option.splits sum.splits)
  assume "validate config = Some (Inr u)"
  then show ?thesis
    by (auto simp: validate_def config_ok_def e check_intervals_all word_gt_0 split: option.splits sum.splits if_splits)
qed

text \<open>The first value a key has: the environment's, else the file's.\<close>

lemma env_api_key: "ac_api_key (env_overrides env a) = (case env (lit ''PARYTY_API_KEY'') of None \<Rightarrow> ac_api_key a | Some k \<Rightarrow> k)"
  by (simp add: env_overrides_def Let_def split: option.splits)

lemma load_api_key:
  "load_from_str yaml uuid env s = Some (Inr config) \<Longrightarrow> env (lit ''PARYTY_API_KEY'') = Some k \<Longrightarrow> ac_api_key (cf_agent config) = k"
  by (auto simp: load_from_str_def Let_def env_api_key split: option.splits sum.splits if_splits)

end
