(* ===== verification/Grpc_Client.thy ===== *)
theory Grpc_Client
  imports Config_Load Float64
begin

text \<open>
  The connection to the cluster (\<open>communication/grpc_client.rs\<close>) and the reconnection engine
  (\<open>communication/reconnect.rs\<close>): the connection state, the credentials and identity attached to each
  request, the renewal of the API key, and the delay before a new attempt. The channel and the generated
  client are objects of the gRPC library: only whether they exist is modelled. Setting the identity and
  attaching it or the API key to a request try the locks of the fields and skip a field whose lock is
  taken: which locks are free is an argument. So are whether the library takes an address, a TLS
  configuration or a metadata value, and whether it connects.
\<close>

section \<open>State\<close>

datatype ConnectionState = Disconnected | Connecting | Connected | Reconnecting

record GrpcClient =
  gr_endpoint :: rstring
  gr_tls_enabled :: bool
  gr_state :: ConnectionState
  gr_channel :: bool
  gr_client :: bool
  gr_endpoint_config :: bool
  gr_running :: bool
  gr_rpcs_sent :: u64 \<comment> \<open>the calls' part of \<open>messages_sent\<close>\<close>
  gr_messages_received :: u64
  gr_api_key :: "rstring option"
  gr_tenant_id :: "rstring option"
  gr_twin_id :: "rstring option"
  gr_client_id :: "rstring option"
  gr_config_path :: rstring

definition GrpcClient_new :: "Config \<Rightarrow> GrpcClient" where
  "GrpcClient_new config =
     \<lparr>gr_endpoint = ac_cluster_endpoint (cf_agent config), gr_tls_enabled = cf_tls_enabled config, gr_state = Disconnected,
      gr_channel = False, gr_client = False, gr_endpoint_config = False, gr_running = False, gr_rpcs_sent = 0,
      gr_messages_received = 0,
      gr_api_key = (if ac_api_key (cf_agent config) = [] then None else Some (ac_api_key (cf_agent config))),
      gr_tenant_id = ac_tenant_id (cf_agent config), gr_twin_id = None, gr_client_id = None, gr_config_path = []\<rparr>"

definition set_config_path :: "rstring \<Rightarrow> GrpcClient \<Rightarrow> GrpcClient" where
  "set_config_path path g = g\<lparr>gr_config_path := path\<rparr>"

definition is_connected :: "GrpcClient \<Rightarrow> bool" where
  "is_connected g \<longleftrightarrow> gr_state g = Connected"

definition set_state :: "ConnectionState \<Rightarrow> GrpcClient \<Rightarrow> GrpcClient" where
  "set_state s g = g\<lparr>gr_state := s\<rparr>"

section \<open>Connecting\<close>

definition extract_host :: "rstring \<Rightarrow> rstring option" where
  "extract_host url =
     (let without_scheme = (case strip_prefix (lit ''https://'') url of
                              Some r \<Rightarrow> r
                            | None \<Rightarrow> (case strip_prefix (lit ''http://'') url of Some r \<Rightarrow> r | None \<Rightarrow> url));
          host_port = hd (split_char 47 without_scheme);
          host = hd (split_char 58 host_port)
      in if host = [] then None else Some host)"

record connect_env =
  ce_uri_ok :: "rstring \<Rightarrow> bool"
  ce_tls_ok :: "rstring option \<Rightarrow> bool"
  ce_connect_ok :: bool

datatype connect_error = Invalid_uri | Tls_failed | Connect_failed

definition connect :: "connect_env \<Rightarrow> GrpcClient \<Rightarrow> (connect_error + unit) \<times> GrpcClient" where
  "connect env g =
     (let g = set_state Connecting g;
          endpoint_uri = (if str_contains (lit ''://'') (gr_endpoint g) then gr_endpoint g else lit ''http://'' @ gr_endpoint g);
          tls_hostname = (if gr_tls_enabled g then extract_host endpoint_uri else None)
      in if \<not> ce_uri_ok env endpoint_uri then (Inl Invalid_uri, g)
         else if gr_tls_enabled g \<and> \<not> ce_tls_ok env tls_hostname then (Inl Tls_failed, g)
         else if \<not> ce_connect_ok env then (Inl Connect_failed, g)
         else (Inr (), g\<lparr>gr_client := True, gr_channel := True, gr_endpoint_config := True, gr_state := Connected,
                         gr_running := True\<rparr>))"

definition disconnect :: "GrpcClient \<Rightarrow> GrpcClient" where
  "disconnect g = g\<lparr>gr_running := False, gr_client := False, gr_channel := False, gr_endpoint_config := False,
                    gr_state := Disconnected\<rparr>"

section \<open>Identity and credentials\<close>

text \<open>Whether the lock of the twin id and that of the client id can be taken at once. A field whose lock
  cannot keeps its value; the caller is not told.\<close>

type_synonym identity_locks = "bool \<times> bool"

definition update_identity :: "identity_locks \<Rightarrow> rstring option \<Rightarrow> rstring option \<Rightarrow> GrpcClient \<Rightarrow> GrpcClient" where
  "update_identity free twin_id client_id g =
     (let g = (if fst free then g\<lparr>gr_twin_id := twin_id\<rparr> else g)
      in if snd free then g\<lparr>gr_client_id := client_id\<rparr> else g)"

definition update_api_key :: "rstring option \<Rightarrow> GrpcClient \<Rightarrow> GrpcClient" where
  "update_api_key new_key g = g\<lparr>gr_api_key := new_key\<rparr>"

text \<open>None if reading the configuration panics.\<close>

definition refresh_api_key :: "(rstring \<Rightarrow> (config_error + rstring option) option) \<Rightarrow> GrpcClient \<Rightarrow> (bool \<times> GrpcClient) option" where
  "refresh_api_key reread g =
     (case reread (gr_config_path g) of
        None \<Rightarrow> None
      | Some (Inr (Some key)) \<Rightarrow>
          Some (if gr_api_key g = Some key then (False, g) else (True, update_api_key (Some key) g))
      | Some _ \<Rightarrow> Some (False, g))"

type_synonym metadata = "rstring \<rightharpoonup> rstring"

definition attach_value :: "(rstring \<Rightarrow> bool) \<Rightarrow> rstring \<Rightarrow> rstring option \<Rightarrow> metadata \<Rightarrow> metadata" where
  "attach_value valid name v md = (case v of Some x \<Rightarrow> if valid x then md(name \<mapsto> x) else md | None \<Rightarrow> md)"

definition attach_identity_metadata :: "identity_locks \<Rightarrow> (rstring \<Rightarrow> bool) \<Rightarrow> GrpcClient \<Rightarrow> metadata \<Rightarrow> metadata" where
  "attach_identity_metadata free valid g md =
     (let md = (if fst free then attach_value valid (lit ''x-twin-id'') (gr_twin_id g) md else md)
      in if snd free then attach_value valid (lit ''x-client-id'') (gr_client_id g) md else md)"

definition attach_api_key_metadata :: "bool \<Rightarrow> (rstring \<Rightarrow> bool) \<Rightarrow> GrpcClient \<Rightarrow> metadata \<Rightarrow> metadata" where
  "attach_api_key_metadata free valid g md = (if free then attach_value valid (lit ''x-api-key'') (gr_api_key g) md else md)"

text \<open>What every call sends along: \<open>register_agent\<close>, \<open>send_batch\<close>, \<open>heartbeat\<close>, \<open>report_network_events\<close>
  and \<open>stream_metrics\<close> attach the same three in this order.\<close>

definition request_metadata :: "bool \<Rightarrow> identity_locks \<Rightarrow> (rstring \<Rightarrow> bool) \<Rightarrow> GrpcClient \<Rightarrow> metadata" where
  "request_metadata key_free free valid g =
     attach_identity_metadata free valid g
       (attach_value valid (lit ''x-tenant-id'') (gr_tenant_id g) (attach_api_key_metadata key_free valid g Map.empty))"

text \<open>
  A call to the cluster: without a client it fails; otherwise the cluster's answer, or its status, decides,
  and a success is counted. The first argument says whether a success also counts as a received message.
\<close>

datatype 'a rpc_error = Not_connected | Status 'a

definition rpc_call :: "bool \<Rightarrow> ('e + 'r) \<Rightarrow> GrpcClient \<Rightarrow> ('e rpc_error + 'r) \<times> GrpcClient" where
  "rpc_call received answer g =
     (if \<not> gr_client g then (Inl Not_connected, g)
      else (case answer of
              Inl e \<Rightarrow> (Inl (Status e), g)
            | Inr r \<Rightarrow>
                (Inr r, g\<lparr>gr_rpcs_sent := gr_rpcs_sent g + 1,
                          gr_messages_received := (if received then gr_messages_received g + 1 else gr_messages_received g)\<rparr>)))"

section \<open>Reconnecting\<close>

record ReconnectPolicy =
  rp_base_delay :: nat \<comment> \<open>milliseconds\<close>
  rp_max_delay :: nat
  rp_jitter_factor :: double
  rp_max_retries :: u32
  rp_reset_on_success :: bool

definition ReconnectPolicy_default :: ReconnectPolicy where
  "ReconnectPolicy_default =
     \<lparr>rp_base_delay = 100, rp_max_delay = 30000, rp_jitter_factor = Finite (1 / 2), rp_max_retries = 0, rp_reset_on_success = True\<rparr>"

record ReconnectionEngine =
  re_policy :: ReconnectPolicy
  re_attempt :: u32
  re_consecutive_failures :: u32
  re_total_reconnections :: u64

definition ReconnectionEngine_new :: "ReconnectPolicy \<Rightarrow> ReconnectionEngine" where
  "ReconnectionEngine_new policy = \<lparr>re_policy = policy, re_attempt = 0, re_consecutive_failures = 0, re_total_reconnections = 0\<rparr>"

text \<open>\<open>2.0_f64.powi\<close>, exact up to the rounding of the result.\<close>

definition d_pow2 :: "int \<Rightarrow> double" where
  "d_pow2 n = (if 1024 \<le> n then PosInf else to_double (pow2 n))"

text \<open>The delay in milliseconds; the second argument is the random number.\<close>

definition next_delay :: "double \<Rightarrow> ReconnectionEngine \<Rightarrow> u64" where
  "next_delay random re =
     (let base = double_of (rp_base_delay (re_policy re)); max = double_of (rp_max_delay (re_policy re));
          delay_ms = d_mul base (d_pow2 (sint (re_attempt re)));
          delay_ms = d_min delay_ms max;
          jitter_range = d_mul delay_ms (rp_jitter_factor (re_policy re));
          jitter = d_mul (d_sub (d_mul random (Finite 2)) (Finite 1)) jitter_range;
          delay_ms = d_max (d_add delay_ms jitter) (Finite 0)
      in double_as_u64 delay_ms)"

datatype reconnect_outcome = Reconnected | Gave_up | Attempt_failed connect_error

text \<open>One attempt; the wait between the counters and the connection attempt has no effect on the state.\<close>

definition reconnect :: "connect_env \<Rightarrow> ReconnectionEngine \<times> GrpcClient \<Rightarrow> reconnect_outcome \<times> ReconnectionEngine \<times> GrpcClient" where
  "reconnect env = (\<lambda>(re, g).
     let re = re\<lparr>re_consecutive_failures := re_consecutive_failures re + 1\<rparr> in
     if 0 < rp_max_retries (re_policy re) \<and> rp_max_retries (re_policy re) \<le> re_attempt re then (Gave_up, re, g)
     else (let g = set_state Reconnecting g;
               re = re\<lparr>re_attempt := re_attempt re + 1\<rparr>
           in case connect env g of
                (Inr u, g) \<Rightarrow>
                  (Reconnected,
                   re\<lparr>re_attempt := (if rp_reset_on_success (re_policy re) then 0 else re_attempt re),
                      re_consecutive_failures := 0, re_total_reconnections := re_total_reconnections re + 1\<rparr>, g)
              | (Inl e, g) \<Rightarrow> (Attempt_failed e, re, g)))"

definition reconnect_reset :: "ReconnectionEngine \<Rightarrow> ReconnectionEngine" where
  "reconnect_reset re = re\<lparr>re_attempt := 0\<rparr>"

end
