(* ===== verification/Grpc_Facts.thy ===== *)
theory Grpc_Facts
  imports Grpc_Client
begin

text \<open>
  Facts about the connection to the cluster: which operations keep it usable, how long the agent waits
  before it tries again, and what the host check and the renewal of the API key give.
\<close>

section \<open>Connection state\<close>

text \<open>A connected client has its library objects, so no call of a connected client fails for want of them.\<close>

definition grpc_ok :: "GrpcClient \<Rightarrow> bool" where
  "grpc_ok g \<longleftrightarrow> (is_connected g \<longrightarrow> gr_client g \<and> gr_channel g \<and> gr_endpoint_config g \<and> gr_running g)"

lemma grpc_fields [simp]:
  "gr_state (update_api_key k g) = gr_state g" "gr_client (update_api_key k g) = gr_client g"
  "gr_state (update_identity free a b g) = gr_state g" "gr_client (update_identity free a b g) = gr_client g"
  "gr_api_key (update_identity free a b g) = gr_api_key g"
  "gr_twin_id (update_api_key k g) = gr_twin_id g" "gr_client_id (update_api_key k g) = gr_client_id g"
  "gr_twin_id (update_identity free a b g) = (if fst free then a else gr_twin_id g)"
  "gr_client_id (update_identity free a b g) = (if snd free then b else gr_client_id g)"
  by (simp_all add: update_api_key_def update_identity_def Let_def)

lemma grpc_ok_new: "grpc_ok (GrpcClient_new config)"
  by (simp add: grpc_ok_def is_connected_def GrpcClient_new_def)

lemma connect_outcome:
  "connect env g = (r, g') \<Longrightarrow>
     (r = Inr () \<and> gr_state g' = Connected \<and> gr_client g' \<and> gr_channel g' \<and> gr_endpoint_config g' \<and> gr_running g' \<or>
      r \<noteq> Inr () \<and> g' = set_state Connecting g) \<and>
     gr_twin_id g' = gr_twin_id g \<and> gr_client_id g' = gr_client_id g \<and> gr_api_key g' = gr_api_key g"
  by (auto simp: connect_def set_state_def Let_def split: if_splits)

lemma grpc_ok_connect: "grpc_ok (snd (connect env g))"
proof -
  obtain r g' where c: "connect env g = (r, g')" by fastforce
  show ?thesis using connect_outcome [OF c] by (auto simp: c grpc_ok_def is_connected_def set_state_def)
qed

lemma grpc_ok_disconnect: "grpc_ok (disconnect g)"
  by (simp add: grpc_ok_def is_connected_def disconnect_def)

lemma grpc_ok_identity [simp]: "grpc_ok (update_identity free a b g) = grpc_ok g"
  by (simp add: grpc_ok_def is_connected_def update_identity_def Let_def)

lemma grpc_ok_key [simp]: "grpc_ok (update_api_key k g) = grpc_ok g"
  by (simp add: grpc_ok_def is_connected_def update_api_key_def)

lemma refresh_cases:
  "refresh_api_key reread g = Some (changed, g') \<Longrightarrow> g' = g \<and> \<not> changed \<or> (\<exists>k. gr_api_key g \<noteq> Some k \<and> changed \<and> g' = update_api_key (Some k) g)"
  by (auto simp: refresh_api_key_def split: option.splits sum.splits if_splits)

lemma rpc_cases:
  "rpc_call received answer g = (r, g') \<Longrightarrow>
     (if gr_client g then r = (case answer of Inl e \<Rightarrow> Inl (Status e) | Inr x \<Rightarrow> Inr x) else r = Inl Not_connected) \<and>
     gr_state g' = gr_state g \<and> (grpc_ok g' = grpc_ok g) \<and> gr_client g' = gr_client g \<and> gr_api_key g' = gr_api_key g \<and>
     gr_twin_id g' = gr_twin_id g \<and> gr_client_id g' = gr_client_id g"
  by (auto simp: rpc_call_def grpc_ok_def is_connected_def split: sum.splits if_splits)

section \<open>Waiting before a new attempt\<close>

lemma representable_pow2: "\<bar>m\<bar> \<le> 2 ^ 53 \<Longrightarrow> representable (of_int m * 2 ^ n)"
  unfolding representable_def by (rule exI [of _ m], rule exI [of _ "int n"]) (simp add: pow2_nat)

lemma to_double_nat: "n \<le> 2 ^ 53 \<Longrightarrow> to_double (rat_of_nat n) = Finite (of_nat n)"
proof -
  assume n: "n \<le> 2 ^ 53"
  have "rat_of_nat n < 2 ^ 1024"
  proof -
    have "rat_of_nat n \<le> 2 ^ 53" using n by (metis of_nat_le_iff of_nat_numeral of_nat_power)
    also have "(2 :: rat) ^ 53 < 2 ^ 1024" by (rule power_strict_increasing) simp_all
    finally show ?thesis .
  qed
  moreover have "representable (rat_of_nat n)" using representable_int [of "int n"] n by simp
  ultimately show ?thesis by (intro to_double_exact) simp_all
qed

text \<open>The delay before jitter.\<close>

definition backoff :: "nat \<Rightarrow> nat" where
  "backoff n = min 30000 (100 * 2 ^ n)"

lemma backoff_range: "100 \<le> backoff n" "backoff n \<le> 30000" "even (backoff n)"
  by (simp_all add: backoff_def min_def)

lemma small_below_overflow: "rat_of_nat n \<le> 2 ^ 53 \<Longrightarrow> rat_of_nat n < 2 ^ 1024"
  by (rule le_less_trans) (auto intro: power_strict_increasing)

lemma backoff_double: "d_min (d_mul (Finite 100) (d_pow2 (int n))) (Finite 30000) = Finite (rat_of_nat (backoff n))"
proof (cases "n < 1024")
  case False
  then have "(2 :: nat) ^ 9 \<le> 2 ^ n" by (intro power_increasing) simp_all
  then have "backoff n = 30000" by (simp add: backoff_def min_def)
  then show ?thesis using False by (simp add: d_pow2_def)
next
  case True
  have r: "representable (2 ^ n)" "representable (100 * 2 ^ n)"
    using representable_pow2 [of 1 n] representable_pow2 [of 100 n] by simp_all
  have "(2 :: rat) ^ n < 2 ^ 1024" using True by (intro power_strict_increasing) simp_all
  then have p: "d_pow2 (int n) = Finite (2 ^ n)" using True r(1) by (simp add: d_pow2_def pow2_nat to_double_exact)
  have b: "rat_of_nat (backoff n) = min 30000 (100 * 2 ^ n)" by (simp add: backoff_def of_nat_min)
  show ?thesis
  proof (cases "100 * 2 ^ n < (2 :: rat) ^ 1024")
    case True
    then show ?thesis using r(2) by (simp add: p b to_double_exact min_def)
  next
    case False
    then have "30000 < (100 * 2 ^ n :: rat)" by (rule less_le_trans [rotated, OF leI]) simp
    then show ?thesis using False r(2) by (simp add: p b to_double_def round53_exact min_def)
  qed
qed

text \<open>The jitter is at most half the delay, in double arithmetic as well.\<close>

lemma jitter_range:
  assumes "even b" "100 \<le> b" "b \<le> 30000" "0 \<le> r" "r \<le> 1"
  shows "\<exists>t. d_max (d_add (Finite (rat_of_nat b))
           (d_mul (d_sub (d_mul (Finite r) (Finite 2)) (Finite 1)) (d_mul (Finite (rat_of_nat b)) (Finite (1 / 2))))) (Finite 0) =
         Finite t \<and> rat_of_nat (b div 2) \<le> t \<and> t \<le> rat_of_nat (b + b div 2)"
proof -
  obtain h where h: "b = 2 * h" using assms(1) by blast
  have hb: "50 \<le> h" "h \<le> 15000" using assms(2,3) h by simp_all
  have small: "to_double (rat_of_nat h) = Finite (of_nat h)" using hb by (intro to_double_nat) simp
  have rep: "representable (rat_of_nat k)" "\<bar>rat_of_nat k\<bar> < 2 ^ 1024" if "k \<le> 45000" for k
  proof -
    have "rat_of_nat k \<le> 45000" using that by (metis of_nat_le_iff of_nat_numeral)
    then show "\<bar>rat_of_nat k\<bar> < 2 ^ 1024" using small_below_overflow [of k] by simp
    show "representable (rat_of_nat k)" using that representable_int [of "int k"] by simp
  qed
  have neg: "representable (- rat_of_nat k)" "\<bar>- rat_of_nat k\<bar> < 2 ^ 1024" if "k \<le> 45000" for k
    using that rep(2) [OF that] representable_int [of "- int k"] by simp_all
  note b = to_double_between
  obtain a where a: "to_double (r * 2) = Finite a" "0 \<le> a" "a \<le> 2"
    using b [OF rep(1) [of 0] rep(1) [of 2], of "r * 2"] assms(4,5) by auto
  obtain c where c: "to_double (a - 1) = Finite c" "- 1 \<le> c" "c \<le> 1"
    using b [OF neg(1) [of 1] rep(1) [of 1], of "a - 1"] a by auto
  have "c * rat_of_nat h \<le> 1 * rat_of_nat h" "- 1 * rat_of_nat h \<le> c * rat_of_nat h"
    using c by (intro mult_right_mono; simp)+
  then obtain j where j: "to_double (c * rat_of_nat h) = Finite j" "- rat_of_nat h \<le> j" "j \<le> rat_of_nat h"
    using b [OF neg(1) [of h] rep(1) [of h], of "c * rat_of_nat h"] neg(2) [of h] rep(2) [of h] hb by auto
  obtain t where t: "to_double (rat_of_nat b + j) = Finite t" "rat_of_nat h \<le> t" "t \<le> rat_of_nat (3 * h)"
    using b [OF rep(1) [of h] rep(1) [of "3 * h"], of "rat_of_nat b + j"] rep(2) [of h] rep(2) [of "3 * h"] hb j h by auto
  have "0 \<le> t" using t(2) by (rule order_trans [rotated]) simp
  then show ?thesis using t by (simp add: d_sub_def a(1) c(1) j(1) small h)
qed

lemma next_delay_range:
  assumes "re_policy re = ReconnectPolicy_default" "unat (re_attempt re) = n" "n < 2 ^ 31" "0 \<le> r" "r \<le> 1"
  shows "backoff n div 2 \<le> unat (next_delay (Finite r) re)" "unat (next_delay (Finite r) re) \<le> backoff n + backoff n div 2"
proof -
  have s: "sint (re_attempt re) = int n"
  proof -
    have u: "uint (re_attempt re) = int n" using assms(2) by (simp add: uint_nat)
    have "int n < 2 ^ 31" using assms(3) by (metis of_nat_less_iff of_nat_numeral of_nat_power)
    then show ?thesis unfolding sint_uint u by (intro signed_take_bit_int_eq_self) simp_all
  qed
  obtain t where t: "d_max (d_add (Finite (rat_of_nat (backoff n)))
           (d_mul (d_sub (d_mul (Finite r) (Finite 2)) (Finite 1)) (d_mul (Finite (rat_of_nat (backoff n))) (Finite (1 / 2))))) (Finite 0) =
         Finite t" "rat_of_nat (backoff n div 2) \<le> t" "t \<le> rat_of_nat (backoff n + backoff n div 2)"
    using jitter_range [OF backoff_range(3,1,2) assms(4,5)] by blast
  have e: "double_of 100 = Finite 100" "double_of 30000 = Finite 30000"
    using to_double_nat [of 100] to_double_nat [of 30000] by (simp_all add: double_of_def)
  have "next_delay (Finite r) re = double_as_u64 (Finite t)"
    using t(1) by (simp add: next_delay_def assms(1) ReconnectPolicy_default_def s e backoff_double Let_def del: d_mul.simps d_add.simps)
  moreover have tb: "0 \<le> t" "t \<le> 45000"
    using t(2,3) backoff_range(2) [of n] by (auto intro: order_trans [OF _ t(2)] order_trans [OF t(3)] simp del: of_nat_add)
  moreover have f: "int (backoff n div 2) \<le> \<lfloor>t\<rfloor>" "\<lfloor>t\<rfloor> \<le> int (backoff n + backoff n div 2)"
    using t(2,3) by (simp_all add: le_floor_iff floor_le_iff)
  moreover have "0 \<le> \<lfloor>t\<rfloor>" "\<lfloor>t\<rfloor> \<le> 45000" using tb by (simp_all add: floor_le_iff)
  ultimately show "backoff n div 2 \<le> unat (next_delay (Finite r) re)" "unat (next_delay (Finite r) re) \<le> backoff n + backoff n div 2"
    by (auto simp: unat_eq_nat_uint uint_word_of_int)
qed

text \<open>Attempts one after the other.\<close>

fun attempts :: "connect_env list \<Rightarrow> ReconnectionEngine \<times> GrpcClient \<Rightarrow> reconnect_outcome list \<times> ReconnectionEngine \<times> GrpcClient" where
  "attempts [] s = ([], s)"
| "attempts (env # envs) s = (let (r, s) = reconnect env s; (rs, s) = attempts envs s in (r # rs, s))"

definition attempt_fails :: "reconnect_outcome \<Rightarrow> bool" where
  "attempt_fails r \<longleftrightarrow> (case r of Attempt_failed e \<Rightarrow> True | _ \<Rightarrow> False)"

lemma reconnect_fails:
  assumes "re_policy re = ReconnectPolicy_default" "\<not> ce_connect_ok env" "reconnect env (re, g) = (r, re', g')"
  shows "attempt_fails r \<and> re_policy re' = ReconnectPolicy_default \<and> re_attempt re' = re_attempt re + 1 \<and>
    re_consecutive_failures re' = re_consecutive_failures re + 1 \<and> gr_state g' = Connecting"
proof -
  obtain c g2 where c: "connect env (set_state Reconnecting g) = (c, g2)" by fastforce
  then have "c \<noteq> Inr ()" using assms(2) by (auto simp: connect_def Let_def split: if_splits)
  then obtain e where e: "c = Inl e" by (cases c) auto
  have "gr_state g2 = Connecting" using connect_outcome [OF c] e by (auto simp: set_state_def)
  then show ?thesis using assms(1,3) c e
    by (auto simp: reconnect_def attempt_fails_def ReconnectPolicy_default_def Let_def)
qed

lemma attempts_fail:
  "re_policy re = ReconnectPolicy_default \<Longrightarrow> list_all (\<lambda>env. \<not> ce_connect_ok env) envs \<Longrightarrow>
     attempts envs (re, g) = (rs, re', g') \<Longrightarrow>
     list_all attempt_fails rs \<and> re_policy re' = ReconnectPolicy_default \<and> re_attempt re' = re_attempt re + of_nat (length envs) \<and>
     re_consecutive_failures re' = re_consecutive_failures re + of_nat (length envs)"
proof (induction envs arbitrary: re g rs)
  case (Cons env envs)
  obtain r re1 g1 where s: "reconnect env (re, g) = (r, re1, g1)" by (metis prod_cases3)
  obtain rs1 s1 where t: "attempts envs (re1, g1) = (rs1, s1)" by (metis surj_pair)
  note f = reconnect_fails [OF Cons.prems(1) _ s]
  show ?case using Cons.prems(2,3) Cons.IH [of re1 g1 rs1] f s t by auto
qed simp

text \<open>C17. While the cluster cannot be reached, the default policy never gives up: after n failed attempts
  all have been counted, and the next wait is the exponential delay (100 ms doubled n times, at most 30 s)
  up to half of it more or less. So it is never below 50 ms, it grows with every failure until the cap,
  and the jitter can carry it past the policy's maximum of 30 s, to 45 s at most.\<close>

theorem reconnect_backoff:
  assumes "list_all (\<lambda>env. \<not> ce_connect_ok env) envs" "length envs < 2 ^ 31" "0 \<le> r" "r \<le> 1"
    and "attempts envs (ReconnectionEngine_new ReconnectPolicy_default, g) = (rs, re, g')"
  shows "list_all attempt_fails rs \<and> unat (re_consecutive_failures re) = length envs \<and>
    backoff (length envs) div 2 \<le> unat (next_delay (Finite r) re) \<and>
    unat (next_delay (Finite r) re) \<le> backoff (length envs) + backoff (length envs) div 2"
proof -
  have u: "unat (of_nat (length envs) :: u32) = length envs" using assms(2) by (simp add: unat_of_nat)
  have f: "list_all attempt_fails rs" "re_policy re = ReconnectPolicy_default" "re_attempt re = of_nat (length envs)"
    "re_consecutive_failures re = of_nat (length envs)"
    using attempts_fail [OF _ assms(1,5)] by (simp_all add: ReconnectionEngine_new_def)
  then show ?thesis using next_delay_range [OF f(2) _ assms(2-4)] u by simp
qed

definition unreachable :: connect_env where
  "unreachable = \<lparr>ce_uri_ok = (\<lambda>_. True), ce_tls_ok = (\<lambda>_. True), ce_connect_ok = False\<rparr>"

definition small_config :: Config where
  "small_config =
     \<lparr>cf_agent = \<lparr>ac_id = lit ''a1'', ac_cluster_endpoint = lit ''cluster:50051'', ac_api_key = lit ''key'', ac_tenant_id = None,
        ac_twin_id = None, ac_client_id = None, ac_cluster_agent_id = None\<rparr>,
      cf_metal_interval = decimal 10 @ lit ''s'', cf_health_intervals = [], cf_tls_enabled = False, cf_edge_enabled = False,
      cf_edge_max_size_mb = 0\<rparr>"

theorem reconnect_backoff_witness:
  "let re = fst (snd (attempts [unreachable, unreachable] (ReconnectionEngine_new ReconnectPolicy_default, GrpcClient_new small_config)))
   in 200 \<le> unat (next_delay (Finite (1 / 2)) re) \<and> unat (next_delay (Finite (1 / 2)) re) \<le> 600"
proof -
  let ?run = "attempts [unreachable, unreachable] (ReconnectionEngine_new ReconnectPolicy_default, GrpcClient_new small_config)"
  have b: "length [unreachable, unreachable] = 2" "backoff 2 = 400" "(2 :: nat) < 2 ^ 31" by (simp_all add: backoff_def)
  have u: "list_all (\<lambda>env. \<not> ce_connect_ok env) [unreachable, unreachable]" by (simp add: unreachable_def)
  have t: "?run = (fst ?run, fst (snd ?run), snd (snd ?run))" by (simp only: prod.collapse)
  show ?thesis using reconnect_backoff [OF u _ _ _ t, of "1 / 2"] unfolding b(1) b(2) Let_def
    using b(3) by (simp del: attempts.simps)
qed

section \<open>Host names\<close>

lemma split_char_hd: "sep \<notin> set w \<Longrightarrow> hd (split_char sep (w @ sep # s)) = w" "sep \<notin> set w \<Longrightarrow> hd (split_char sep w) = w"
  by (simp_all add: split_char_field split_char_none)

text \<open>The host name checked against the certificate is the host of the address, with or without a
  path, for every host without a colon; of an IPv6 address in brackets only what comes before its first
  colon is left.\<close>

lemma extract_host_finds_host:
  "58 \<notin> set host \<and> 47 \<notin> set host \<and> host \<noteq> [] \<and> 47 \<notin> set rest \<Longrightarrow>
     extract_host (lit ''https://'' @ host @ 58 # rest @ 47 # path) = Some host \<and>
     extract_host (lit ''https://'' @ host @ 58 # rest) = Some host"
proof -
  assume h: "58 \<notin> set host \<and> 47 \<notin> set host \<and> host \<noteq> [] \<and> 47 \<notin> set rest"
  have "hd (split_char 47 ((host @ 58 # rest) @ 47 # path)) = host @ 58 # rest" "hd (split_char 47 (host @ 58 # rest)) = host @ 58 # rest"
    using h split_char_hd [of 47 "host @ 58 # rest"] by simp_all
  then show ?thesis using h split_char_hd(1) [of 58 host rest] strip_prefix_append [of "lit ''https://''"]
    by (simp add: extract_host_def del: map_append list.map)
qed

lemma extract_host_finds_host_example:
  "extract_host (lit ''https://'' @ lit ''cluster'' @ 58 # lit ''443'' @ 47 # lit ''x'') = Some (lit ''cluster'')"
  using extract_host_finds_host [of "lit ''cluster''" "lit ''443''" "lit ''x''"] by simp

lemma extract_host_ipv6: "extract_host (lit ''https://[::1]:443'') = Some (lit ''['')"
  by code_simp

section \<open>Renewing the API key\<close>

lemma reread_environment: "env (lit ''PARYTY_API_KEY'') = Some key \<Longrightarrow> key \<noteq> [] \<Longrightarrow> reread_api_key yaml uuid env f = Some (Inr (Some key))"
  by (cases key) (simp_all add: reread_api_key_def)

text \<open>An agent whose key comes from the environment never renews it: whatever the configuration file
  holds by then, the renewal finds the key of the environment, which is the one in use, and reports that
  nothing changed.\<close>

lemma environment_key_never_renewed:
  assumes "load_from_str yaml uuid env s = Some (Inr config)" "env (lit ''PARYTY_API_KEY'') = Some key" "key \<noteq> []"
  shows "refresh_api_key (\<lambda>path. reread_api_key yaml uuid env (files path)) (set_config_path path (GrpcClient_new config)) =
    Some (False, set_config_path path (GrpcClient_new config))"
  using load_api_key [OF assms(1,2)] assms(3)
  by (simp add: refresh_api_key_def reread_environment [of env, OF assms(2,3)] set_config_path_def GrpcClient_new_def)

definition key_environment :: env_vars where
  "key_environment v = (if v = lit ''PARYTY_API_KEY'' then Some (lit ''key'') else None)"

lemma example_loads: "load_from_str (\<lambda>_. Some small_config) [] key_environment [] = Some (Inr small_config)"
proof -
  have d: "config_parse_duration (decimal 10 @ [115]) = Some (Inr 10)" using config_duration_decimal(2) [of 10] by simp
  have e: "env_overrides key_environment (cf_agent small_config) = cf_agent small_config"
    by (simp add: env_overrides_def key_environment_def small_config_def)
  have v: "validate small_config = Some (Inr ())"
    by (simp add: validate_def small_config_def d key_prefix_panics_def str_len_def utf8_enc_ascii) (simp add: trim_def trim_matches_def is_whitespace_def)
  have i: "ac_id (cf_agent small_config) \<noteq> lit ''auto''" by (simp add: small_config_def)
  show ?thesis using v i by (simp add: load_from_str_def e Let_def)
qed

lemma environment_key_never_renewed_example:
  "refresh_api_key (\<lambda>path. reread_api_key (\<lambda>_. Some small_config) [] key_environment (Content [])) (set_config_path [] (GrpcClient_new small_config)) =
    Some (False, set_config_path [] (GrpcClient_new small_config))"
  by (rule environment_key_never_renewed [OF example_loads, where key = "lit ''key''"]) (simp_all add: key_environment_def)

end
