(* ===== verification/Client_Session.thy ===== *)
theory Client_Session
  imports Client_Backlog Flow_Control Grpc_Client
begin

text \<open>
  The agent's client as a whole (\<open>communication/mod.rs\<close>): identity, registration, metrics, the commands and
  signals of the cluster, the heartbeat, the reconnection loop and the shutdown, over the connection, the
  raw channel, the edge buffer and flow control. A method or one round of a loop is one step; a loop that
  saw the cancellation takes no further step. The answers of the cluster, the compressor, the JSON and
  YAML parsers and the error library are arguments. None: the step does not return, because a raw send
  waits for ever or the configuration panics on being read again.
\<close>

section \<open>State\<close>

record session =
  ss_grpc :: GrpcClient
  ss_reconnect :: ReconnectionEngine
  ss_client :: client
  ss_flow :: FlowControl
  ss_cancelled :: bool
  ss_agent_id :: rstring
  ss_session_id :: rstring
  ss_registered :: bool
  ss_twin_id :: "rstring option"
  ss_client_id :: "rstring option"
  ss_topic_prefix :: "rstring option"
  ss_identity_valid :: bool
  ss_cluster_agent_id :: "rstring option"
  ss_backlog_bytes :: u64
  ss_backlog_since_epoch :: int
  ss_uploads :: nat \<comment> \<open>tasks spawned for \<open>UploadBacklog\<close>\<close>
  ss_blacklist_file :: bool

definition identity_prefix :: "rstring \<Rightarrow> rstring \<Rightarrow> rstring" where
  "identity_prefix twin_id client_id = lit ''twin/'' @ twin_id @ lit ''/client/'' @ client_id"

definition Session_new :: "EdgeBuffer \<Rightarrow> Config \<Rightarrow> session" where
  "Session_new buffer config =
     (let twin_id = ac_twin_id (cf_agent config); client_id = ac_client_id (cf_agent config) in
      \<lparr>ss_grpc = GrpcClient_new config, ss_reconnect = ReconnectionEngine_new ReconnectPolicy_default,
       ss_client = Client_new buffer, ss_flow = FlowControl_new 10000, ss_cancelled = False,
       ss_agent_id = ac_id (cf_agent config), ss_session_id = [], ss_registered = False,
       ss_twin_id = twin_id, ss_client_id = client_id,
       ss_topic_prefix = (case (twin_id, client_id) of (Some t, Some c) \<Rightarrow> Some (identity_prefix t c) | _ \<Rightarrow> None),
       ss_identity_valid = (twin_id \<noteq> None \<and> client_id \<noteq> None),
       ss_cluster_agent_id = ac_cluster_agent_id (cf_agent config),
       ss_backlog_bytes = 0, ss_backlog_since_epoch = 0, ss_uploads = 0, ss_blacklist_file = False\<rparr>)"

text \<open>What the session uses of the error library: an error with a message, a context around an error, and
  the text an error prints.\<close>

record 'e errors =
  er_message :: "rstring \<Rightarrow> 'e"
  er_context :: "rstring \<Rightarrow> 'e \<Rightarrow> 'e"
  er_display :: "'e \<Rightarrow> rstring"

text \<open>Everything else the steps are given.\<close>

record 'e services =
  sv_errors :: "'e errors"
  sv_bincode :: bincode
  sv_compress :: "bytes \<Rightarrow> bytes option"
  sv_json :: "rstring \<Rightarrow> (rstring \<rightharpoonup> rstring) option" \<comment> \<open>the string fields of an object\<close>
  sv_reread :: "rstring \<Rightarrow> (config_error + rstring option) option"

definition connected :: "session \<Rightarrow> bool" where
  "connected ss \<longleftrightarrow> is_connected (ss_grpc ss)"

section \<open>Identity\<close>

text \<open>The first argument says which locks of the connection's own copies of the ids are free.\<close>

definition apply_identity :: "identity_locks \<Rightarrow> rstring option \<Rightarrow> rstring option \<Rightarrow> rstring option \<Rightarrow> session \<Rightarrow> session" where
  "apply_identity free twin_id client_id topic_prefix ss =
     (let assigned = (twin_id \<noteq> None \<and> client_id \<noteq> None);
          ss = ss\<lparr>ss_twin_id := twin_id, ss_client_id := client_id, ss_topic_prefix := topic_prefix, ss_identity_valid := assigned\<rparr>
      in ss\<lparr>ss_grpc := (if assigned then update_identity free twin_id client_id (ss_grpc ss)
                        else update_identity free None None (ss_grpc ss))\<rparr>)"

definition clear_identity :: "identity_locks \<Rightarrow> session \<Rightarrow> session" where
  "clear_identity free ss =
     ss\<lparr>ss_twin_id := None, ss_client_id := None, ss_topic_prefix := None, ss_identity_valid := False,
        ss_grpc := update_identity free None None (ss_grpc ss)\<rparr>"

text \<open>The answer of \<open>ResolveIdentity\<close>: a status, or whether the agent is assigned and to what.\<close>

type_synonym identity_answer = "rstring + bool \<times> rstring \<times> rstring"

definition grpc_resolve_identity :: "'e errors \<Rightarrow> identity_answer \<Rightarrow> GrpcClient \<Rightarrow> 'e + rstring \<times> rstring" where
  "grpc_resolve_identity er answer g =
     (if \<not> gr_channel g then Inl (er_message er (lit ''Cannot resolve identity: not connected''))
      else (case answer of
              Inl status \<Rightarrow> Inl (er_context er (lit ''ResolveIdentity RPC failed'') (er_message er status))
            | Inr (assigned, twin_id, client_id) \<Rightarrow>
                if \<not> assigned then Inl (er_message er (lit ''Agent not yet assigned to a twin'')) else Inr (twin_id, client_id)))"

definition resolve_identity :: "'e errors \<Rightarrow> identity_locks \<Rightarrow> identity_answer \<Rightarrow> session \<Rightarrow> ('e + unit) \<times> session" where
  "resolve_identity er free answer ss =
     (if \<not> connected ss then (Inl (er_message er (lit ''Cannot resolve identity: not connected'')), ss)
      else (case grpc_resolve_identity er answer (ss_grpc ss) of
              Inr (twin_id, client_id) \<Rightarrow>
                (Inr (), apply_identity free (Some twin_id) (Some client_id) (Some (identity_prefix twin_id client_id)) ss)
            | Inl e \<Rightarrow> (if ss_identity_valid ss then Inr () else Inl e, ss)))"

section \<open>Registration\<close>

text \<open>A failed call as the error it becomes.\<close>

definition rpc_failure :: "'e errors \<Rightarrow> rstring \<Rightarrow> rstring rpc_error \<Rightarrow> 'e" where
  "rpc_failure er what f =
     (case f of
        Not_connected \<Rightarrow> er_message er (lit ''Not connected: proto client unavailable'')
      | Status status \<Rightarrow> er_message er (what @ lit '' RPC failed: '' @ status))"

text \<open>The cluster's answer to the registration is a status or the session id.\<close>

record register_answers =
  ra_register :: "rstring + rstring"
  ra_identity :: identity_answer
  ra_identity_locks :: identity_locks

definition register_on_connect :: "'e errors \<Rightarrow> register_answers \<Rightarrow> session \<Rightarrow> ('e + unit) \<times> session" where
  "register_on_connect er ans ss =
     (case rpc_call False (ra_register ans) (ss_grpc ss) of
        (Inl f, g) \<Rightarrow>
          (Inl (er_context er (lit ''Agent registration failed'') (rpc_failure er (lit ''RegisterAgent'') f)), ss\<lparr>ss_grpc := g\<rparr>)
      | (Inr session_id, g) \<Rightarrow>
          (let ss = ss\<lparr>ss_grpc := g, ss_session_id := session_id, ss_registered := True\<rparr> in
           (Inr (), if \<not> ss_identity_valid ss then snd (resolve_identity er (ra_identity_locks ans) (ra_identity ans) ss) else ss)))"

text \<open>The test for an authentication error looks for two ASCII words in the lower case form of the text, so
  lowering the ASCII letters is enough.\<close>

definition auth_error :: "rstring \<Rightarrow> bool" where
  "auth_error s \<longleftrightarrow>
     (let m = map ascii_lower s in str_contains (lit ''unauthenticated'') m \<or> str_contains (lit ''unauthorized'') m)"

definition refresh_key :: "'e services \<Rightarrow> session \<Rightarrow> (bool \<times> session) option" where
  "refresh_key sv ss = map_option (map_prod id (\<lambda>g. ss\<lparr>ss_grpc := g\<rparr>)) (refresh_api_key (sv_reread sv) (ss_grpc ss))"

text \<open>One round of the registration loop: it ends, or waits for a number of seconds. The counter is the
  loop's own.\<close>

datatype registration_round = Round_done | Round_wait nat

definition registration_step :: "'e services \<Rightarrow> register_answers \<Rightarrow> u32 \<Rightarrow> session \<Rightarrow> (registration_round \<times> u32 \<times> session) option" where
  "registration_step sv ans attempt ss =
     (if ss_registered ss then Some (Round_done, attempt, ss)
      else if \<not> connected ss then Some (Round_wait 2, attempt, ss)
      else (case register_on_connect (sv_errors sv) ans ss of
              (Inr u, ss) \<Rightarrow> Some (Round_done, attempt, ss)
            | (Inl e, ss) \<Rightarrow>
                if auth_error (er_display (sv_errors sv) e)
                then (case refresh_key sv ss of
                        None \<Rightarrow> None
                      | Some (refreshed, ss) \<Rightarrow> Some (Round_wait (if refreshed then 0 else 60), attempt, ss))
                else (let attempt = attempt + 1 in
                      Some (Round_wait (min 30 (2 ^ min (unat attempt) 5)), attempt, ss))))"

section \<open>Metrics\<close>

definition update_client :: "(client \<Rightarrow> client) \<Rightarrow> session \<Rightarrow> session" where
  "update_client f ss = ss\<lparr>ss_client := f (ss_client ss)\<rparr>"

definition raw_send :: "bytes \<Rightarrow> session \<Rightarrow> (bool \<times> session) option" where
  "raw_send d ss = map_option (map_prod id (\<lambda>cl. ss\<lparr>ss_client := cl\<rparr>)) (grpc_send (connected ss) d (ss_client ss))"

definition send_live :: "(bytes \<Rightarrow> bytes option) \<Rightarrow> bytes \<Rightarrow> session \<Rightarrow> session option" where
  "send_live compress d ss =
     (if \<not> connected ss then Some ss
      else (case compress d of None \<Rightarrow> Some ss | Some compressed \<Rightarrow> map_option snd (raw_send compressed ss)))"

text \<open>The answer to a batch: a status, or whether the cluster accepted it.\<close>

record metrics_env =
  mv_random :: double
  mv_answer :: "rstring + bool"
  mv_write :: write_env

datatype metrics_result = Not_compressed | Sampled_out | Batch_sent | Batch_buffered

definition buffer_metrics :: "bincode \<Rightarrow> metrics_env \<Rightarrow> bytes \<Rightarrow> session \<Rightarrow> session" where
  "buffer_metrics bc env d = update_client (buffer_data bc (mv_write env) d Metrics)"

text \<open>The call, if there is a connection, and the buffer if the cluster did not accept the batch.\<close>

definition call_or_buffer :: "bincode \<Rightarrow> metrics_env \<Rightarrow> bytes \<Rightarrow> session \<Rightarrow> metrics_result \<times> session" where
  "call_or_buffer bc env compressed ss =
     (if \<not> connected ss then (Batch_buffered, buffer_metrics bc env compressed ss)
      else (case rpc_call False (mv_answer env) (ss_grpc ss) of
              (r, g) \<Rightarrow>
                (let ss = ss\<lparr>ss_grpc := g\<rparr> in
                 if r = Inr True then (Batch_sent, ss) else (Batch_buffered, buffer_metrics bc env compressed ss))))"

definition send_metrics :: "'e services \<Rightarrow> metrics_env \<Rightarrow> bytes \<Rightarrow> session \<Rightarrow> (metrics_result \<times> session) option" where
  "send_metrics sv env d ss =
     (let ss = update_client next_sequence ss in
      case sv_compress sv d of
        None \<Rightarrow> Some (Not_compressed, ss)
      | Some compressed \<Rightarrow>
          if is_backpressured (ss_flow ss) \<and> d_less (sampling_rate (ss_flow ss)) (mv_random env)
          then Some (Sampled_out, buffer_metrics (sv_bincode sv) env compressed ss)
          else map_option (call_or_buffer (sv_bincode sv) env compressed)
                 (if ss_identity_valid ss then send_live (sv_compress sv) d ss else Some ss))"

section \<open>Flushing\<close>

text \<open>The connection state decides whether the sends of a flush are connected.\<close>

definition session_flush :: "bincode \<Rightarrow> flush_env \<Rightarrow> session \<Rightarrow> session option" where
  "session_flush bc env ss =
     map_option (\<lambda>cl. ss\<lparr>ss_client := cl\<rparr>) (flush_buffer bc (env\<lparr>fe_connected := (\<lambda>_. connected ss)\<rparr>) (ss_client ss))"

definition session_upload :: "bincode \<Rightarrow> flush_env \<Rightarrow> session \<Rightarrow> session option" where
  "session_upload bc env ss =
     map_option (\<lambda>cl. ss\<lparr>ss_client := cl, ss_uploads := ss_uploads ss - 1\<rparr>)
       (upload_backlog_stream bc (env\<lparr>fe_connected := (\<lambda>_. connected ss)\<rparr>) (ss_client ss))"

end
