(* ===== verification/Client_Commands.thy ===== *)
theory Client_Commands
  imports Client_Session
begin

text \<open>
  What drives the session (\<open>communication/mod.rs\<close>): the commands and signals of the cluster, the rounds of
  the heartbeat and reconnection loops, the health check and the shutdown; and a run of the session as a
  sequence of such events, in any order.
\<close>

section \<open>Commands\<close>

datatype AgentCommandType =
    Cmd_Unspecified | Cmd_Restart | Cmd_UpdateConfig | Cmd_FlushBuffer | Cmd_ToggleLayer | Cmd_AssignIdentity
  | Cmd_UploadBacklog | Cmd_DeleteBacklog | Cmd_Retire | Cmd_Blacklist | Cmd_Unpair

definition command_numbers :: "(i32 \<times> AgentCommandType) list" where
  "command_numbers =
     [(0, Cmd_Unspecified), (1, Cmd_Restart), (2, Cmd_UpdateConfig), (3, Cmd_FlushBuffer), (4, Cmd_ToggleLayer),
      (5, Cmd_AssignIdentity), (6, Cmd_UploadBacklog), (7, Cmd_DeleteBacklog), (8, Cmd_Retire), (9, Cmd_Blacklist),
      (10, Cmd_Unpair)]"

definition command_of :: "i32 \<Rightarrow> AgentCommandType option" where
  "command_of n = map_of command_numbers n"

text \<open>What the environment decides while a command runs.\<close>

record command_env =
  cv_flush :: flush_env
  cv_lock_free :: bool
  cv_identity_locks :: identity_locks
  cv_delete_ok :: bool
  cv_file_ok :: bool \<comment> \<open>whether the blacklist file can be written\<close>

definition assign_identity :: "'e services \<Rightarrow> identity_locks \<Rightarrow> rstring \<Rightarrow> session \<Rightarrow> session" where
  "assign_identity sv free payload ss =
     (case sv_json sv payload of
        None \<Rightarrow> ss
      | Some json \<Rightarrow> apply_identity free (json (lit ''twin_id'')) (json (lit ''client_id'')) (json (lit ''topic_prefix'')) ss)"

definition handle_agent_command :: "'e services \<Rightarrow> command_env \<Rightarrow> i32 \<Rightarrow> rstring \<Rightarrow> session \<Rightarrow> session option" where
  "handle_agent_command sv env command_type payload ss =
     (case command_of command_type of
        Some Cmd_FlushBuffer \<Rightarrow> session_flush (sv_bincode sv) (cv_flush env) ss
      | Some Cmd_AssignIdentity \<Rightarrow> Some (assign_identity sv (cv_identity_locks env) payload ss)
      | Some Cmd_UploadBacklog \<Rightarrow> Some (ss\<lparr>ss_uploads := ss_uploads ss + 1\<rparr>)
      | Some Cmd_DeleteBacklog \<Rightarrow>
          Some (update_client (\<lambda>cl. cl\<lparr>cl_buffer := delete_all_backlog (cv_lock_free env) (cv_delete_ok env) (cl_buffer cl)\<rparr>) ss)
      | Some Cmd_Retire \<Rightarrow> Some (ss\<lparr>ss_cancelled := True\<rparr>)
      | Some Cmd_Blacklist \<Rightarrow> Some (ss\<lparr>ss_blacklist_file := ss_blacklist_file ss \<or> cv_file_ok env, ss_cancelled := True\<rparr>)
      | Some Cmd_Unpair \<Rightarrow> Some (clear_identity (cv_identity_locks env) ss)
      | _ \<Rightarrow> Some ss)"

text \<open>The k-th command of a list finds the k-th environment.\<close>

fun handle_commands :: "'e services \<Rightarrow> (nat \<Rightarrow> command_env) \<Rightarrow> (i32 \<times> rstring) list \<Rightarrow> session \<Rightarrow> session option" where
  "handle_commands sv env [] ss = Some ss"
| "handle_commands sv env ((n, payload) # cmds) ss =
     Option.bind (handle_agent_command sv (env 0) n payload ss) (handle_commands sv (\<lambda>i. env (i + 1)) cmds)"

section \<open>Messages of the stream\<close>

text \<open>A configuration push and a heartbeat response are only logged.\<close>

datatype cluster_message =
    Empty_message
  | Flow_control_message FlowSignal
  | Config_push_message
  | Command_message i32 rstring
  | Heartbeat_message "(i32 \<times> rstring) list"

fun dispatch_cluster_message :: "'e services \<Rightarrow> command_env \<Rightarrow> cluster_message \<Rightarrow> session \<Rightarrow> session option" where
  "dispatch_cluster_message sv env (Flow_control_message signal) ss =
     Some (ss\<lparr>ss_flow := apply_server_signal signal (ss_flow ss)\<rparr>)"
| "dispatch_cluster_message sv env (Command_message n payload) ss = handle_agent_command sv env n payload ss"
| "dispatch_cluster_message sv env _ ss = Some ss"

section \<open>Heartbeat\<close>

record HeartbeatRequest =
  hb_agent_id :: rstring
  hb_session_id :: rstring
  hb_uptime_seconds :: int
  hb_edge_buffer_bytes :: u64
  hb_edge_buffer_count :: nat
  hb_backlog_bytes :: u64
  hb_backlog_since_epoch :: int

record heartbeat_env =
  he_uptime :: int
  he_db_ok :: bool
  he_answer :: "rstring + (i32 \<times> rstring) list" \<comment> \<open>a status, or the pending commands\<close>
  he_command :: "nat \<Rightarrow> command_env" \<comment> \<open>for each of the commands\<close>

definition refresh_backlog_info :: "bool \<Rightarrow> session \<Rightarrow> session" where
  "refresh_backlog_info db_ok ss =
     (let eb = cl_buffer (ss_client ss) in
      ss\<lparr>ss_backlog_bytes := persistent_size db_ok eb + eb_memory_usage eb,
         ss_backlog_since_epoch := oldest_entry_timestamp db_ok eb\<rparr>)"

definition heartbeat_request :: "int \<Rightarrow> session \<Rightarrow> HeartbeatRequest" where
  "heartbeat_request uptime ss =
     \<lparr>hb_agent_id = ss_agent_id ss, hb_session_id = ss_session_id ss, hb_uptime_seconds = uptime,
      hb_edge_buffer_bytes = eb_memory_usage (cl_buffer (ss_client ss)), hb_edge_buffer_count = buffer_len (cl_buffer (ss_client ss)),
      hb_backlog_bytes = ss_backlog_bytes ss, hb_backlog_since_epoch = ss_backlog_since_epoch ss\<rparr>"

text \<open>One round: the request it sends, if any, and the session after it.\<close>

definition heartbeat_step :: "'e services \<Rightarrow> heartbeat_env \<Rightarrow> session \<Rightarrow> (HeartbeatRequest option \<times> session) option" where
  "heartbeat_step sv env ss =
     (if \<not> connected ss then Some (None, ss)
      else (let ss = refresh_backlog_info (he_db_ok env) ss; request = heartbeat_request (he_uptime env) ss in
            case rpc_call True (he_answer env) (ss_grpc ss) of
              (Inr commands, g) \<Rightarrow> map_option (Pair (Some request)) (handle_commands sv (he_command env) commands (ss\<lparr>ss_grpc := g\<rparr>))
            | (Inl f, g) \<Rightarrow>
                if auth_error (er_display (sv_errors sv) (rpc_failure (sv_errors sv) (lit ''Heartbeat'') f))
                then map_option (\<lambda>(refreshed, ss). (Some request, ss)) (refresh_key sv (ss\<lparr>ss_grpc := g\<rparr>))
                else Some (Some request, ss\<lparr>ss_grpc := g\<rparr>)))"

text \<open>\<open>health_check\<close> sends a heartbeat without the backlog and ignores the commands in the answer.\<close>

definition health_check :: "int \<Rightarrow> (rstring + unit) \<Rightarrow> session \<Rightarrow> bool \<times> HeartbeatRequest option \<times> session" where
  "health_check uptime answer ss =
     (if \<not> connected ss then (False, None, ss)
      else (let request = (heartbeat_request uptime ss)\<lparr>hb_backlog_bytes := 0, hb_backlog_since_epoch := 0\<rparr> in
            case rpc_call True answer (ss_grpc ss) of
              (Inr u, g) \<Rightarrow> (True, Some request, ss\<lparr>ss_grpc := g\<rparr>)
            | (Inl f, g) \<Rightarrow> (False, Some request, ss\<lparr>ss_grpc := g\<rparr>)))"

section \<open>Reconnection loop and shutdown\<close>

record reconnect_env =
  rv_connect :: connect_env
  rv_register :: register_answers
  rv_flush :: flush_env

text \<open>One round; True: the loop ends.\<close>

definition reconnection_step :: "'e services \<Rightarrow> reconnect_env \<Rightarrow> session \<Rightarrow> (bool \<times> session) option" where
  "reconnection_step sv env ss =
     (if connected ss
      then (if ss_registered ss then map_option (Pair False) (session_flush (sv_bincode sv) (rv_flush env) ss) else Some (False, ss))
      else (case reconnect (rv_connect env) (ss_reconnect ss, ss_grpc ss) of
              (outcome, re, g) \<Rightarrow>
                (let ss = ss\<lparr>ss_reconnect := re, ss_grpc := g\<rparr> in
                 case outcome of
                   Gave_up \<Rightarrow> Some (True, ss)
                 | Attempt_failed e \<Rightarrow> Some (False, ss)
                 | Reconnected \<Rightarrow>
                     (case (case register_on_connect (sv_errors sv) (rv_register env) ss of
                              (Inr u, ss) \<Rightarrow> Some ss
                            | (Inl e, ss) \<Rightarrow>
                                if auth_error (er_display (sv_errors sv) e) then map_option snd (refresh_key sv ss) else Some ss) of
                        None \<Rightarrow> None
                      | Some ss \<Rightarrow> map_option (Pair False) (session_flush (sv_bincode sv) (rv_flush env) ss)))))"

definition session_shutdown :: "'e services \<Rightarrow> flush_env \<Rightarrow> session \<Rightarrow> session option" where
  "session_shutdown sv env ss =
     (let ss = ss\<lparr>ss_cancelled := True\<rparr> in
      case (if connected ss then session_flush (sv_bincode sv) env ss else Some ss) of
        None \<Rightarrow> None
      | Some ss \<Rightarrow>
          Some (update_client (\<lambda>cl. cl\<lparr>cl_buffer := shutdown (cl_buffer cl)\<rparr>) (ss\<lparr>ss_grpc := disconnect (ss_grpc ss)\<rparr>)))"

section \<open>Runs\<close>

text \<open>The events after start-up. Each sender finds the connection as the session has it.\<close>

datatype session_event =
    Registration register_answers u32
  | Metrics_ready metrics_env bytes
  | Events_ready write_env bytes
  | Traces_ready write_env bytes
  | Batch_ready "NetworkEventResponse option" "bytes option" write_env
  | Stream_message command_env cluster_message
  | Heartbeat heartbeat_env
  | Health_check "rstring + unit"
  | Reconnection reconnect_env
  | Upload_task flush_env

definition sender_env :: "write_env \<Rightarrow> session \<Rightarrow> send_env" where
  "sender_env w ss = \<lparr>se_write = w, se_connected = connected ss, se_still_connected = connected ss\<rparr>"

definition on_client :: "(client \<Rightarrow> client option) \<Rightarrow> session \<Rightarrow> session option" where
  "on_client f ss = map_option (\<lambda>cl. ss\<lparr>ss_client := cl\<rparr>) (f (ss_client ss))"

fun session_step :: "'e services \<Rightarrow> session_event \<Rightarrow> session \<Rightarrow> session option" where
  "session_step sv (Registration ans attempt) ss = map_option (\<lambda>(r, n, ss). ss) (registration_step sv ans attempt ss)"
| "session_step sv (Metrics_ready env d) ss = map_option snd (send_metrics sv env d ss)"
| "session_step sv (Events_ready w d) ss = on_client (send_events (sv_bincode sv) (sender_env w ss) d) ss"
| "session_step sv (Traces_ready w d) ss =
     on_client (\<lambda>cl. map_option snd (send_traces (sv_compress sv) (sv_bincode sv) (sender_env w ss) d cl)) ss"
| "session_step sv (Batch_ready answer json w) ss =
     (let r = rpc_call False (case answer of Some response \<Rightarrow> Inr response | None \<Rightarrow> Inl ()) (ss_grpc ss);
          response = (case fst r of Inr response \<Rightarrow> Some response | Inl e \<Rightarrow> None) in
      on_client (\<lambda>cl. Some (snd (send_network_events_proto (\<lambda>_ _. response) (\<lambda>_. json) (sv_bincode sv) (sender_env w ss) [] cl)))
        (if connected ss then ss\<lparr>ss_grpc := snd r\<rparr> else ss))"
| "session_step sv (Stream_message env msg) ss = dispatch_cluster_message sv env msg ss"
| "session_step sv (Heartbeat env) ss = map_option snd (heartbeat_step sv env ss)"
| "session_step sv (Health_check answer) ss = Some (snd (snd (health_check 0 answer ss)))"
| "session_step sv (Reconnection env) ss = map_option snd (reconnection_step sv env ss)"
| "session_step sv (Upload_task env) ss = (if ss_uploads ss = 0 then Some ss else session_upload (sv_bincode sv) env ss)"

fun session_run :: "'e services \<Rightarrow> session_event list \<Rightarrow> session \<Rightarrow> session option" where
  "session_run sv [] ss = Some ss"
| "session_run sv (ev # evs) ss = Option.bind (session_step sv ev ss) (session_run sv evs)"

end
