(* ===== verification/Session_Facts.thy ===== *)
theory Session_Facts
  imports Client_Commands Grpc_Facts Client_Reports
begin

text \<open>
  Facts about the client as a whole: its identity and the metadata of its requests agree, a connection once
  made is never given up, what the signals and commands of the cluster change, and what becomes of metrics.
\<close>

section \<open>What a step can change\<close>

definition link :: "session \<Rightarrow> ConnectionState \<times> bool \<times> ReconnectionEngine" where
  "link ss = (gr_state (ss_grpc ss), grpc_ok (ss_grpc ss), ss_reconnect ss)"

record identity =
  id_valid :: bool
  id_twin :: "rstring option"
  id_client :: "rstring option"
  id_sent_twin :: "rstring option" \<comment> \<open>in the metadata of requests\<close>
  id_sent_client :: "rstring option"

definition identity_of :: "session \<Rightarrow> identity" where
  "identity_of ss = \<lparr>id_valid = ss_identity_valid ss, id_twin = ss_twin_id ss, id_client = ss_client_id ss,
                     id_sent_twin = gr_twin_id (ss_grpc ss), id_sent_client = gr_client_id (ss_grpc ss)\<rparr>"

text \<open>
  The metadata carry the identity if it is complete, and nothing otherwise; the flags say for which of the
  two ids this is claimed.
\<close>

definition attached :: "bool \<Rightarrow> bool \<Rightarrow> identity \<Rightarrow> bool" where
  "attached t c i \<longleftrightarrow> id_valid i = (id_twin i \<noteq> None \<and> id_client i \<noteq> None) \<and>
     (t \<longrightarrow> id_sent_twin i = (if id_valid i then id_twin i else None)) \<and>
     (c \<longrightarrow> id_sent_client i = (if id_valid i then id_client i else None))"

definition same :: "session \<Rightarrow> session \<Rightarrow> bool" where
  "same ss ss' \<longleftrightarrow> link ss' = link ss \<and> identity_of ss' = identity_of ss"

lemma same_refl [simp]: "same ss ss"
  by (simp add: same_def)

lemma same_trans: "same a b \<Longrightarrow> same b c \<Longrightarrow> same a c"
  by (simp add: same_def)

lemma same_fields [simp]:
  "same ss (ss\<lparr>ss_client := cl\<rparr>)" "same ss (ss\<lparr>ss_flow := fl\<rparr>)" "same ss (ss\<lparr>ss_cancelled := b\<rparr>)"
  "same ss (ss\<lparr>ss_uploads := n\<rparr>)" "same ss (ss\<lparr>ss_client := cl, ss_uploads := n\<rparr>)"
  "same ss (ss\<lparr>ss_blacklist_file := b', ss_cancelled := b\<rparr>)"
  "same ss (ss\<lparr>ss_session_id := s, ss_registered := b\<rparr>)"
  "same ss (refresh_backlog_info ok ss)" "same ss (update_client f ss)"
  "same ss (ss\<lparr>ss_grpc := update_api_key k (ss_grpc ss)\<rparr>)"
  by (simp_all add: same_def link_def identity_of_def refresh_backlog_info_def update_client_def Let_def)

lemma same_update_client [simp]: "same ss (update_client f ss') = same ss ss'"
  by (simp add: same_def link_def identity_of_def update_client_def)

lemma same_connected: "same ss ss' \<Longrightarrow> connected ss' = connected ss"
  by (simp add: same_def link_def connected_def is_connected_def)

lemma same_flush: "session_flush bc env ss = Some ss' \<Longrightarrow> same ss ss'"
  by (auto simp: session_flush_def)

lemma same_upload: "session_upload bc env ss = Some ss' \<Longrightarrow> same ss ss'"
  by (auto simp: session_upload_def)

lemma same_on_client: "on_client f ss = Some ss' \<Longrightarrow> same ss ss'"
  by (auto simp: on_client_def)

lemma same_refresh: "refresh_key sv ss = Some (b, ss') \<Longrightarrow> same ss ss'"
  unfolding refresh_key_def by (auto dest!: refresh_cases)

lemma same_rpc: "rpc_call received answer (ss_grpc ss) = (r, g) \<Longrightarrow> same ss (ss\<lparr>ss_grpc := g\<rparr>)"
  by (auto simp: same_def link_def identity_of_def dest!: rpc_cases split: if_splits)

section \<open>Steps that may change the identity\<close>

text \<open>Either nothing of the identity changes, or the metadata carry the new one. The flags stand for locks
  found free: for an id whose lock was not, nothing is said of the metadata.\<close>

definition settles :: "bool \<times> bool \<Rightarrow> session \<Rightarrow> session \<Rightarrow> bool" where
  "settles f ss ss' \<longleftrightarrow> link ss' = link ss \<and> (identity_of ss' = identity_of ss \<or> attached (fst f) (snd f) (identity_of ss'))"

lemma settles_same: "same ss ss' \<Longrightarrow> settles f ss ss'"
  by (simp add: settles_def same_def)

lemma settles_trans: "settles f a b \<Longrightarrow> settles f b c \<Longrightarrow> settles f a c"
  by (auto simp: settles_def)

lemma attached_weaken: "attached t c i \<Longrightarrow> (t' \<longrightarrow> t) \<Longrightarrow> (c' \<longrightarrow> c) \<Longrightarrow> attached t' c' i"
  by (simp add: attached_def)

lemma settles_weaken: "settles f a b \<Longrightarrow> (fst f' \<longrightarrow> fst f) \<Longrightarrow> (snd f' \<longrightarrow> snd f) \<Longrightarrow> settles f' a b"
  unfolding settles_def using attached_weaken by blast

lemma settles_apply: "settles f ss (apply_identity f t c p ss)"
  by (simp add: settles_def link_def identity_of_def attached_def apply_identity_def Let_def)

lemma settles_clear: "settles f ss (clear_identity f ss)"
  by (simp add: settles_def link_def identity_of_def attached_def clear_identity_def)

lemma settles_resolve: "settles f ss (snd (resolve_identity er f ans ss))"
  by (auto simp: resolve_identity_def settles_apply settles_same split: sum.splits)

lemma settles_register:
  assumes "register_on_connect er ans ss = (r, ss')"
  shows "settles (ra_identity_locks ans) ss ss'"
proof -
  obtain x g where c: "rpc_call False (ra_register ans) (ss_grpc ss) = (x, g)" by fastforce
  note one = same_rpc [OF c]
  have two: "same ss (ss\<lparr>ss_grpc := g, ss_session_id := s, ss_registered := True\<rparr>)" for s
    using same_trans [OF one same_fields(7)] by simp
  show ?thesis using assms one two settles_trans [OF settles_same [OF two] settles_resolve [of "ra_identity_locks ans"]]
    by (auto simp: register_on_connect_def c Let_def settles_same split: sum.splits)
qed

lemma settles_registration: "registration_step sv ans n ss = Some (r, m, ss') \<Longrightarrow> settles (ra_identity_locks ans) ss ss'"
proof -
  assume a: "registration_step sv ans n ss = Some (r, m, ss')"
  obtain x ss1 where reg: "register_on_connect (sv_errors sv) ans ss = (x, ss1)" by fastforce
  note s = settles_register [OF reg]
  show ?thesis using a s settles_trans [OF s settles_same [OF same_refresh]]
    by (auto simp: registration_step_def reg Let_def settles_same split: if_splits sum.splits option.splits)
qed

lemma settles_command: "handle_agent_command sv env n payload ss = Some ss' \<Longrightarrow> settles (cv_identity_locks env) ss ss'"
  by (auto simp: handle_agent_command_def assign_identity_def settles_apply settles_clear settles_same
      intro: settles_same [OF same_flush] split: option.splits AgentCommandType.splits)

definition all_free :: "(nat \<Rightarrow> command_env) \<Rightarrow> nat \<Rightarrow> (identity_locks \<Rightarrow> bool) \<Rightarrow> bool" where
  "all_free env n p \<longleftrightarrow> list_all (\<lambda>i. p (cv_identity_locks (env i))) [0..<n]"

lemma all_free_Suc: "all_free env (Suc n) p \<longleftrightarrow> p (cv_identity_locks (env 0)) \<and> all_free (\<lambda>i. env (i + 1)) n p"
  by (simp add: all_free_def upt_conv_Cons map_Suc_upt [symmetric] list.pred_map comp_def del: upt_Suc)

lemma settles_commands:
  "handle_commands sv env cmds ss = Some ss' \<Longrightarrow> settles (all_free env (length cmds) fst, all_free env (length cmds) snd) ss ss'"
proof (induction sv env cmds ss rule: handle_commands.induct)
  case (2 sv env n payload cmds ss)
  let ?f = "(all_free env (Suc (length cmds)) fst, all_free env (Suc (length cmds)) snd)"
  obtain ss1 where s: "handle_agent_command sv (env 0) n payload ss = Some ss1" "handle_commands sv (\<lambda>i. env (i + 1)) cmds ss1 = Some ss'"
    using 2 by (auto simp: Option.bind_eq_Some_conv)
  have "settles ?f ss ss1" by (rule settles_weaken [OF settles_command [OF s(1)]]) (simp_all add: all_free_Suc)
  moreover have "settles ?f ss1 ss'" by (rule settles_weaken [OF 2(1) [OF s]]) (simp_all add: all_free_Suc)
  ultimately show ?case using settles_trans by simp
qed (simp add: settles_same)

text \<open>Whether an event finds a lock free each time it sets the identity.\<close>

fun finds_free :: "(identity_locks \<Rightarrow> bool) \<Rightarrow> session_event \<Rightarrow> bool" where
  "finds_free p (Registration ans attempt) = p (ra_identity_locks ans)"
| "finds_free p (Stream_message env msg) = p (cv_identity_locks env)"
| "finds_free p (Heartbeat env) = (case he_answer env of Inl status \<Rightarrow> True | Inr cmds \<Rightarrow> all_free (he_command env) (length cmds) p)"
| "finds_free p (Reconnection env) = p (ra_identity_locks (rv_register env))"
| "finds_free p ev = True"

abbreviation free_in :: "session_event \<Rightarrow> bool \<times> bool" where
  "free_in ev \<equiv> (finds_free fst ev, finds_free snd ev)"

lemma settles_dispatch: "dispatch_cluster_message sv env msg ss = Some ss' \<Longrightarrow> settles (cv_identity_locks env) ss ss'"
  by (cases msg) (auto simp: settles_same intro: settles_command)

lemma settles_heartbeat: "heartbeat_step sv env ss = Some (q, ss') \<Longrightarrow> settles (free_in (Heartbeat env)) ss ss'"
proof -
  assume a: "heartbeat_step sv env ss = Some (q, ss')"
  let ?ss = "refresh_backlog_info (he_db_ok env) ss"
  obtain x g where c: "rpc_call True (he_answer env) (ss_grpc ?ss) = (x, g)" by fastforce
  have s: "settles f ss (?ss\<lparr>ss_grpc := g\<rparr>)" for f using same_trans [OF same_fields(8) same_rpc [OF c]] by (rule settles_same)
  have cmds: "settles (free_in (Heartbeat env)) ss ss'" if "x = Inr cmds" "handle_commands sv (he_command env) cmds (?ss\<lparr>ss_grpc := g\<rparr>) = Some ss'" for cmds
    using settles_trans [OF s settles_commands [OF that(2)]] that(1) rpc_cases [OF c] by (auto split: sum.splits if_splits)
  show ?thesis using a s settles_trans [OF s settles_same [OF same_refresh]] cmds
    by (auto simp: heartbeat_step_def c Let_def settles_same simp del: finds_free.simps split: if_splits sum.splits option.splits)
qed

lemma same_live: "send_live c d ss = Some ss' \<Longrightarrow> same ss ss'"
  by (auto simp: send_live_def raw_send_def split: if_splits option.splits)

text \<open>The cases of a metrics send.\<close>

lemma send_metrics_cases:
  assumes "send_metrics sv env d ss = Some (r, ss')"
  defines "ss1 \<equiv> update_client next_sequence ss"
  obtains (compress) "sv_compress sv d = None" "r = Not_compressed" "ss' = ss1"
  | (sampled) c where "sv_compress sv d = Some c" "r = Sampled_out" "ss' = buffer_metrics (sv_bincode sv) env c ss1"
      "is_backpressured (ss_flow ss)" "d_less (sampling_rate (ss_flow ss)) (mv_random env)"
  | (live) c ss2 where "sv_compress sv d = Some c"
      "(if ss_identity_valid ss then send_live (sv_compress sv) d ss1 else Some ss1) = Some ss2"
      "r = (if connected ss2 \<and> fst (rpc_call False (mv_answer env) (ss_grpc ss2)) = Inr True then Batch_sent else Batch_buffered)"
      "ss' = (let ss3 = (if connected ss2 then ss2\<lparr>ss_grpc := snd (rpc_call False (mv_answer env) (ss_grpc ss2))\<rparr> else ss2)
              in if r = Batch_sent then ss3 else buffer_metrics (sv_bincode sv) env c ss3)"
proof -
  have f: "ss_flow ss1 = ss_flow ss" "ss_identity_valid ss1 = ss_identity_valid ss" by (simp_all add: ss1_def update_client_def)
  note e = assms(1) [unfolded send_metrics_def call_or_buffer_def, folded ss1_def, unfolded Let_def f]
  show ?thesis
  proof (cases "sv_compress sv d")
    case None
    then show ?thesis using e compress by simp
  next
    case (Some c)
    show ?thesis
    proof (cases "is_backpressured (ss_flow ss) \<and> d_less (sampling_rate (ss_flow ss)) (mv_random env)")
      case True
      then show ?thesis using e Some sampled by simp
    next
      case False
      then obtain ss2 where l: "(if ss_identity_valid ss then send_live (sv_compress sv) d ss1 else Some ss1) = Some ss2"
        using e Some by (cases "if ss_identity_valid ss then send_live (sv_compress sv) d ss1 else Some ss1") auto
      have "(r, ss') = (if \<not> connected ss2 then (Batch_buffered, buffer_metrics (sv_bincode sv) env c ss2)
        else let ss3 = ss2\<lparr>ss_grpc := snd (rpc_call False (mv_answer env) (ss_grpc ss2))\<rparr> in
             if fst (rpc_call False (mv_answer env) (ss_grpc ss2)) = Inr True then (Batch_sent, ss3)
             else (Batch_buffered, buffer_metrics (sv_bincode sv) env c ss3))"
        using e False l by (simp only: Some option.case if_False refl) (simp add: case_prod_unfold Let_def split: if_splits)
      then show ?thesis using live [OF Some l] by (auto simp: Let_def split: if_splits)
    qed
  qed
qed

lemma same_metrics:
  assumes "send_metrics sv env d ss = Some (r, ss')"
  shows "same ss ss'"
  using assms
proof (cases rule: send_metrics_cases)
  case (live c ss2)
  have b: "same s (buffer_metrics (sv_bincode sv) env c s)" for s by (simp add: buffer_metrics_def)
  have "same (update_client next_sequence ss) ss2" using live(2) same_live by (auto split: if_splits)
  then have "same ss ss2" using same_trans [OF same_fields(9)] by blast
  moreover have "same ss2 (ss2\<lparr>ss_grpc := snd (rpc_call False (mv_answer env) (ss_grpc ss2))\<rparr>)"
    by (rule same_rpc [OF surjective_pairing])
  ultimately have "same ss (if connected ss2 then ss2\<lparr>ss_grpc := snd (rpc_call False (mv_answer env) (ss_grpc ss2))\<rparr> else ss2)"
    using same_trans by auto
  then show ?thesis using live(4) same_trans [OF _ b] by (auto simp: Let_def)
qed (simp_all add: buffer_metrics_def)

text \<open>A round of the reconnection loop on a connected session leaves the engine alone.\<close>

lemma settles_reconnection:
  assumes "reconnection_step sv env ss = Some (r, ss')" "connected ss"
  shows "settles f ss ss'"
  using assms by (auto simp: reconnection_step_def settles_same same_flush split: if_splits)

section \<open>A connection once made is kept\<close>

lemma connected_step:
  assumes "connected ss" "session_step sv ev ss = Some ss'"
  shows "settles (free_in ev) ss ss'"
proof (cases ev)
  case (Registration ans n)
  then show ?thesis using assms settles_registration by auto
next
  case (Batch_ready answer json w)
  let ?g = "snd (rpc_call False (case answer of Some response \<Rightarrow> Inr response | None \<Rightarrow> Inl ()) (ss_grpc ss))"
  have "same ss (ss\<lparr>ss_grpc := ?g\<rparr>)" by (rule same_rpc [OF surjective_pairing])
  then show ?thesis using assms Batch_ready
    by (auto simp: Let_def intro!: settles_same intro: same_trans [OF _ same_on_client])
next
  case (Stream_message env msg)
  then show ?thesis using assms settles_dispatch by auto
next
  case (Heartbeat env)
  then show ?thesis using assms settles_heartbeat by auto
next
  case (Health_check answer)
  have "same ss (ss\<lparr>ss_grpc := snd (rpc_call True answer (ss_grpc ss))\<rparr>)" by (rule same_rpc [OF surjective_pairing])
  then show ?thesis using assms Health_check
    by (auto simp: health_check_def Let_def settles_same split: prod.splits sum.splits if_splits)
next
  case (Reconnection env)
  then show ?thesis using assms settles_reconnection [where f = "ra_identity_locks (rv_register env)"] by auto
qed (use assms in \<open>auto simp: settles_same intro: settles_same [OF same_metrics] settles_same [OF same_on_client] settles_same [OF same_upload] split: if_splits\<close>)

lemma settles_connected: "settles f ss ss' \<Longrightarrow> connected ss' = connected ss"
  by (simp add: settles_def link_def connected_def is_connected_def)

lemma connected_run: "connected ss \<Longrightarrow> session_run sv evs ss = Some ss' \<Longrightarrow> settles (False, False) ss ss'"
proof (induction evs arbitrary: ss)
  case (Cons ev evs)
  then obtain ss1 where s: "session_step sv ev ss = Some ss1" "session_run sv evs ss1 = Some ss'"
    by (auto simp: Option.bind_eq_Some_conv)
  have one: "settles (False, False) ss ss1" by (rule settles_weaken [OF connected_step [OF Cons.prems(1) s(1)]]) simp_all
  show ?case using settles_trans [OF one Cons.IH [OF _ s(2)]] settles_connected [OF one] Cons.prems(1) by blast
qed (simp add: settles_same)

text \<open>Start-up as \<open>main.rs\<close> does it: the client, the path for the key renewal, and one attempt to connect. In
  the code as it is the process then panics over the gauge that shows the connection (\<open>Agent_Main\<close>): the
  sessions that follow are those of the client alone, with a start whose gauge accepts the value.\<close>

definition session_start :: "connect_env \<Rightarrow> rstring \<Rightarrow> EdgeBuffer \<Rightarrow> Config \<Rightarrow> session" where
  "session_start env path buffer config =
     (let ss = Session_new buffer config in ss\<lparr>ss_grpc := snd (connect env (set_config_path path (ss_grpc ss)))\<rparr>)"

lemma start_reconnect [simp]: "ss_reconnect (session_start env path buffer config) = ReconnectionEngine_new ReconnectPolicy_default"
  by (simp add: session_start_def Session_new_def Let_def)

text \<open>If the first connection succeeds, the agent is connected for good in its own view: whatever
  the cluster answers afterwards, failed calls included, the connection state stays, its calls go on, and
  the reconnection engine makes no attempt, so nothing re-registers the agent. (Only the shutdown
  disconnects.)\<close>

lemma connection_never_renewed:
  assumes "fst (connect env (set_config_path path (GrpcClient_new config))) = Inr ()"
    and "session_run sv evs (session_start env path buffer config) = Some ss"
  shows "connected ss \<and> gr_client (ss_grpc ss) \<and> ss_reconnect ss = ReconnectionEngine_new ReconnectPolicy_default"
proof -
  let ?ss = "session_start env path buffer config"
  obtain g where g: "connect env (set_config_path path (GrpcClient_new config)) = (Inr (), g)"
    using assms(1) by (metis prod.collapse)
  have s: "ss_grpc ?ss = g" by (simp add: session_start_def Session_new_def g Let_def)
  then have c: "connected ?ss" "grpc_ok (ss_grpc ?ss)" using connect_outcome [OF g] by (auto simp: connected_def is_connected_def grpc_ok_def)
  have "settles (False, False) ?ss ss" by (rule connected_run [OF c(1) assms(2)])
  then have "connected ss" "grpc_ok (ss_grpc ss)" "ss_reconnect ss = ss_reconnect ?ss"
    using c by (simp_all add: settles_def link_def connected_def is_connected_def)
  then show ?thesis by (simp add: connected_def grpc_ok_def)
qed

definition reachable :: connect_env where
  "reachable = unreachable\<lparr>ce_connect_ok := True\<rparr>"

lemma reachable_connects: "fst (connect reachable g) = Inr ()"
  by (simp add: connect_def reachable_def unreachable_def Let_def)

text \<open>An error library whose errors are lists of messages, the outermost first.\<close>

definition list_errors :: "rstring list errors" where
  "list_errors = \<lparr>er_message = (\<lambda>m. [m]), er_context = (\<lambda>c e. c # e), er_display = (\<lambda>e. case e of [] \<Rightarrow> [] | m # ms \<Rightarrow> m)\<rparr>"

definition example_services :: "rstring list services" where
  "example_services =
     \<lparr>sv_errors = list_errors, sv_bincode = plain_bincode, sv_compress = Some, sv_json = (\<lambda>_. None), sv_reread = (\<lambda>_. Some (Inr None))\<rparr>"

lemma connection_never_renewed_example:
  "case session_run example_services [Health_check (Inl (lit ''unavailable''))] (session_start reachable [] default_buffer small_config) of
     Some ss \<Rightarrow> connected ss | None \<Rightarrow> False"
proof -
  let ?ss = "session_start reachable [] default_buffer small_config"
  obtain ss where ss: "session_run example_services [Health_check (Inl (lit ''unavailable''))] ?ss = Some ss" by simp
  show ?thesis using connection_never_renewed [OF reachable_connects ss] by (simp only: ss option.case)
qed

section \<open>Identity\<close>

definition moves :: "bool \<times> bool \<Rightarrow> session \<Rightarrow> session \<Rightarrow> bool" where
  "moves f ss ss' \<longleftrightarrow> (grpc_ok (ss_grpc ss) \<longrightarrow> grpc_ok (ss_grpc ss')) \<and>
     (identity_of ss' = identity_of ss \<or> attached (fst f) (snd f) (identity_of ss'))"

lemma moves_settles: "settles f ss ss' \<Longrightarrow> moves f ss ss'"
  by (simp add: settles_def moves_def link_def)

lemma moves_trans: "moves f a b \<Longrightarrow> moves f b c \<Longrightarrow> moves f a c"
  by (auto simp: moves_def)

lemma moves_weaken: "moves f a b \<Longrightarrow> (fst f' \<longrightarrow> fst f) \<Longrightarrow> (snd f' \<longrightarrow> snd f) \<Longrightarrow> moves f' a b"
  unfolding moves_def using attached_weaken by blast

lemma reconnect_keeps:
  assumes "reconnect env (re, g) = (r, re', g')"
  shows "gr_twin_id g' = gr_twin_id g \<and> gr_client_id g' = gr_client_id g \<and> gr_api_key g' = gr_api_key g \<and> (grpc_ok g \<longrightarrow> grpc_ok g')"
proof -
  obtain c g2 where c: "connect env (set_state Reconnecting g) = (c, g2)" by fastforce
  have f: "gr_twin_id (set_state s g) = gr_twin_id g" "gr_client_id (set_state s g) = gr_client_id g" "gr_api_key (set_state s g) = gr_api_key g" for s
    by (simp_all add: set_state_def)
  have "grpc_ok g2" using grpc_ok_connect [of env "set_state Reconnecting g"] by (simp add: c)
  then show ?thesis using assms connect_outcome [OF c]
    by (auto simp: reconnect_def c f Let_def split: if_splits sum.splits)
qed

text \<open>The round of a disconnected session: the engine, then registration and a renewal if it connected.\<close>

lemma reconnection_round:
  assumes "reconnection_step sv env ss = Some (r, ss')" "\<not> connected ss"
  obtains outcome re g where "reconnect (rv_connect env) (ss_reconnect ss, ss_grpc ss) = (outcome, re, g)"
    "ss' = ss\<lparr>ss_reconnect := re, ss_grpc := g\<rparr> \<or>
     (\<exists>x ss1. register_on_connect (sv_errors sv) (rv_register env) (ss\<lparr>ss_reconnect := re, ss_grpc := g\<rparr>) = (x, ss1) \<and> same ss1 ss')"
proof -
  obtain outcome re g where c: "reconnect (rv_connect env) (ss_reconnect ss, ss_grpc ss) = (outcome, re, g)" by (metis prod_cases3)
  obtain x ss1 where reg: "register_on_connect (sv_errors sv) (rv_register env) (ss\<lparr>ss_reconnect := re, ss_grpc := g\<rparr>) = (x, ss1)" by fastforce
  have "ss' = ss\<lparr>ss_reconnect := re, ss_grpc := g\<rparr> \<or> same ss1 ss'"
    using assms
    by (auto simp: reconnection_step_def c reg Let_def dest!: same_refresh same_flush intro: same_trans
        split: reconnect_outcome.splits sum.splits if_splits option.splits)
  then show ?thesis using that [OF c] reg by blast
qed

lemma moves_step:
  assumes "session_step sv ev ss = Some ss'"
  shows "moves (free_in ev) ss ss'"
proof (cases "connected ss")
  case True
  then show ?thesis using assms connected_step moves_settles by blast
next
  case False
  show ?thesis
  proof (cases ev)
    case (Reconnection env)
    then obtain r where "reconnection_step sv env ss = Some (r, ss')" using assms by auto
    then show ?thesis using False
    proof (cases rule: reconnection_round)
      case (1 outcome re g)
      let ?ss = "ss\<lparr>ss_reconnect := re, ss_grpc := g\<rparr>" and ?f = "ra_identity_locks (rv_register env)"
      have m: "moves ?f ss ?ss" using reconnect_keeps [OF 1(1)] by (simp add: moves_def identity_of_def)
      have "moves ?f ?ss ss'" if "register_on_connect (sv_errors sv) (rv_register env) ?ss = (x, ss1)" "same ss1 ss'" for x ss1
        by (rule moves_settles [OF settles_trans [OF settles_register [OF that(1)] settles_same [OF that(2)]]])
      then have "moves ?f ss ss'" using 1(2) m moves_trans by blast
      then show ?thesis by (simp add: Reconnection)
    qed
  qed (use assms False settles_registration settles_dispatch settles_heartbeat in
      \<open>auto simp: settles_same health_check_def intro!: moves_settles intro: settles_same [OF same_metrics]
        settles_same [OF same_on_client] settles_same [OF same_upload] split: if_splits\<close>)
qed

lemma moves_run:
  "session_run sv evs ss = Some ss' \<Longrightarrow> moves (list_all (finds_free fst) evs, list_all (finds_free snd) evs) ss ss'"
proof (induction evs arbitrary: ss)
  case (Cons ev evs)
  let ?f = "(list_all (finds_free fst) (ev # evs), list_all (finds_free snd) (ev # evs))"
  obtain ss1 where s: "session_step sv ev ss = Some ss1" "session_run sv evs ss1 = Some ss'"
    using Cons.prems by (auto simp: Option.bind_eq_Some_conv)
  have "moves ?f ss ss1" by (rule moves_weaken [OF moves_step [OF s(1)]]) simp_all
  moreover have "moves ?f ss1 ss'" by (rule moves_weaken [OF Cons.IH [OF s(2)]]) simp_all
  ultimately show ?case by (rule moves_trans)
qed (simp add: moves_def)

lemma start_identity: "identity_of (session_start env path buffer config) =
  \<lparr>id_valid = (ac_twin_id (cf_agent config) \<noteq> None \<and> ac_client_id (cf_agent config) \<noteq> None),
   id_twin = ac_twin_id (cf_agent config), id_client = ac_client_id (cf_agent config), id_sent_twin = None, id_sent_client = None\<rparr>"
proof -
  obtain r g where c: "connect env (set_config_path path (GrpcClient_new config)) = (r, g)" by fastforce
  then show ?thesis using connect_outcome [OF c]
    by (simp add: session_start_def Session_new_def identity_of_def c Let_def GrpcClient_new_def set_config_path_def)
qed

text \<open>C15. In every state the agent reaches, a connected client has the objects its calls need, and the agent
  counts as identified exactly if it knows both of its ids. For each of the two ids separately: if every
  event so far that set the identity found the lock of the connection's copy of it free, then the copy,
  which the metadata of the requests are made of, is the id of the session while the agent is identified
  and none otherwise. The one exception is an identity taken from the configuration that nothing has
  replaced: it counts, but the connection has none.\<close>

theorem session_identity_consistent:
  assumes "session_run sv evs (session_start env path buffer config) = Some ss"
  shows "grpc_ok (ss_grpc ss) \<and> ss_identity_valid ss = (ss_twin_id ss \<noteq> None \<and> ss_client_id ss \<noteq> None) \<and>
    ((list_all (finds_free fst) evs \<longrightarrow> gr_twin_id (ss_grpc ss) = (if ss_identity_valid ss then ss_twin_id ss else None)) \<and>
     (list_all (finds_free snd) evs \<longrightarrow> gr_client_id (ss_grpc ss) = (if ss_identity_valid ss then ss_client_id ss else None)) \<or>
     ss_twin_id ss = ac_twin_id (cf_agent config) \<and> ss_client_id ss = ac_client_id (cf_agent config) \<and>
     gr_twin_id (ss_grpc ss) = None \<and> gr_client_id (ss_grpc ss) = None)"
proof -
  let ?ss = "session_start env path buffer config"
  let ?t = "list_all (finds_free fst) evs" and ?c = "list_all (finds_free snd) evs"
  have m: "moves (?t, ?c) ?ss ss" by (rule moves_run [OF assms])
  have ok: "grpc_ok (ss_grpc ss)" using m grpc_ok_connect by (simp add: moves_def session_start_def Let_def)
  have "identity_of ss = identity_of ?ss \<or> attached ?t ?c (identity_of ss)" using m by (simp add: moves_def)
  then show ?thesis
  proof
    assume i: "identity_of ss = identity_of ?ss"
    show ?thesis using ok i [unfolded start_identity] by (simp add: identity_of_def)
  next
    assume "attached ?t ?c (identity_of ss)"
    then show ?thesis using ok unfolding attached_def identity_of_def identity.simps by blast
  qed
qed

definition example_command :: command_env where
  "example_command = \<lparr>cv_flush = example_flush, cv_lock_free = True, cv_identity_locks = (True, True), cv_delete_ok = True, cv_file_ok = True\<rparr>"

definition json_services :: "rstring list services" where
  "json_services = example_services\<lparr>sv_json := (\<lambda>payload. Some [lit ''twin_id'' \<mapsto> payload, lit ''client_id'' \<mapsto> lit ''c1''])\<rparr>"

text \<open>Two identities are assigned one after the other; the lock of the client id is taken the second time.\<close>

theorem session_identity_consistent_witness:
  "\<exists>ss. session_run json_services
      [Stream_message example_command (Command_message 5 (lit ''t1'')),
       Stream_message (example_command\<lparr>cv_identity_locks := (True, False)\<rparr>) (Command_message 5 (lit ''t2''))]
      (session_start reachable [] default_buffer small_config) = Some ss \<and>
    ss_identity_valid ss \<and> gr_twin_id (ss_grpc ss) = Some (lit ''t2'')"
proof -
  let ?ss = "session_start reachable [] default_buffer small_config"
  let ?evs = "[Stream_message example_command (Command_message 5 (lit ''t1'')),
    Stream_message (example_command\<lparr>cv_identity_locks := (True, False)\<rparr>) (Command_message 5 (lit ''t2''))]"
  have c: "command_of 5 = Some Cmd_AssignIdentity" by (simp add: command_of_def command_numbers_def)
  obtain ss where ss: "session_run json_services ?evs ?ss = Some ss" "ss_twin_id ss = Some (lit ''t2'')" "ss_client_id ss = Some (lit ''c1'')"
    by (simp add: handle_agent_command_def c assign_identity_def json_services_def apply_identity_def Let_def)
  have free: "list_all (finds_free fst) ?evs" by (simp add: example_command_def)
  have config: "ac_twin_id (cf_agent small_config) = None" by (simp add: small_config_def)
  have "ss_identity_valid ss \<and> gr_twin_id (ss_grpc ss) = Some (lit ''t2'')"
    using session_identity_consistent [OF ss(1)] free ss(2,3) config by simp
  then show ?thesis using ss(1) by blast
qed

text \<open>
  A lock that is taken makes the copies of the connection stale: after an AssignIdentity command the
  requests carry the new id on one side and the old one on the other, and after an Unpair they still
  carry an id although the agent has none. Nothing sets them again until the next such command.
\<close>

lemma skipped_lock_keeps_old_id:
  assumes "cv_identity_locks env = (twin_free, False)" "sv_json sv payload = Some json"
    and "json (lit ''twin_id'') = Some t" "json (lit ''client_id'') = Some c"
  shows "\<exists>ss'. handle_agent_command sv env 5 payload ss = Some ss' \<and> ss_identity_valid ss' \<and> ss_client_id ss' = Some c \<and>
      gr_twin_id (ss_grpc ss') = (if twin_free then Some t else gr_twin_id (ss_grpc ss)) \<and>
      gr_client_id (ss_grpc ss') = gr_client_id (ss_grpc ss)"
    and "\<exists>ss'. handle_agent_command sv env 10 payload ss = Some ss' \<and> \<not> ss_identity_valid ss' \<and> ss_client_id ss' = None \<and>
      gr_client_id (ss_grpc ss') = gr_client_id (ss_grpc ss)"
  using assms
  by (simp_all add: handle_agent_command_def command_of_def command_numbers_def assign_identity_def apply_identity_def
      clear_identity_def Let_def)

section \<open>An identity from the configuration\<close>

text \<open>The commands that set or clear the identity are number 5 and number 10.\<close>

definition command_free :: "i32 \<Rightarrow> bool" where
  "command_free n \<longleftrightarrow> n \<noteq> 5 \<and> n \<noteq> 10"

fun identity_free :: "session_event \<Rightarrow> bool" where
  "identity_free (Stream_message env (Command_message n payload)) = command_free n"
| "identity_free (Heartbeat env) = (case he_answer env of Inl status \<Rightarrow> True | Inr cmds \<Rightarrow> list_all (\<lambda>(n, payload). command_free n) cmds)"
| "identity_free ev = True"

abbreviation keeps_id :: "session \<Rightarrow> session \<Rightarrow> bool" where
  "keeps_id ss ss' \<equiv> identity_of ss' = identity_of ss"

lemma keeps_id_same: "same ss ss' \<Longrightarrow> keeps_id ss ss'"
  by (simp add: same_def)

lemma keeps_id_register:
  assumes "register_on_connect er ans ss = (r, ss')" "ss_identity_valid ss"
  shows "keeps_id ss ss'"
proof -
  obtain x g where c: "rpc_call False (ra_register ans) (ss_grpc ss) = (x, g)" by fastforce
  note one = same_rpc [OF c]
  have two: "same ss (ss\<lparr>ss_grpc := g, ss_session_id := s, ss_registered := True\<rparr>)" for s
    using same_trans [OF one same_fields(7)] by simp
  show ?thesis using assms one two by (auto simp: register_on_connect_def c Let_def same_def split: sum.splits)
qed

lemma keeps_id_registration:
  assumes "registration_step sv ans n ss = Some (r, m, ss')" "ss_identity_valid ss"
  shows "keeps_id ss ss'"
proof -
  obtain x ss1 where reg: "register_on_connect (sv_errors sv) ans ss = (x, ss1)" by fastforce
  show ?thesis using assms keeps_id_register [OF reg assms(2)]
    by (auto simp: registration_step_def reg Let_def dest!: same_refresh keeps_id_same split: if_splits sum.splits option.splits)
qed

lemma command_of_free: "command_free n \<Longrightarrow> command_of n \<noteq> Some Cmd_AssignIdentity \<and> command_of n \<noteq> Some Cmd_Unpair"
  by (auto simp: command_free_def command_of_def command_numbers_def split: if_splits)

lemma keeps_id_command:
  assumes "handle_agent_command sv env n payload ss = Some ss'" "command_free n"
  shows "keeps_id ss ss'"
  using assms(1) command_of_free [OF assms(2)]
  by (auto simp: handle_agent_command_def dest: same_flush intro: keeps_id_same split: option.splits AgentCommandType.splits)

lemma keeps_id_commands:
  "handle_commands sv env cmds ss = Some ss' \<Longrightarrow> list_all (\<lambda>(n, payload). command_free n) cmds \<Longrightarrow> keeps_id ss ss'"
proof (induction sv env cmds ss rule: handle_commands.induct)
  case (2 sv env n payload cmds ss)
  then obtain ss1 where "handle_agent_command sv (env 0) n payload ss = Some ss1" "handle_commands sv (\<lambda>i. env (i + 1)) cmds ss1 = Some ss'"
    by (auto simp: Option.bind_eq_Some_conv)
  then show ?case using 2 keeps_id_command by fastforce
qed simp

lemma keeps_id_heartbeat:
  assumes "heartbeat_step sv env ss = Some (q, ss')" "identity_free (Heartbeat env)"
  shows "keeps_id ss ss'"
proof -
  let ?ss = "refresh_backlog_info (he_db_ok env) ss"
  obtain x g where c: "rpc_call True (he_answer env) (ss_grpc ?ss) = (x, g)" by fastforce
  have s: "keeps_id ss (?ss\<lparr>ss_grpc := g\<rparr>)" using same_trans [OF same_fields(8) same_rpc [OF c]] by (rule keeps_id_same)
  have x: "x = Inr cmds \<Longrightarrow> list_all (\<lambda>(n, payload). command_free n) cmds" for cmds
    using assms(2) rpc_cases [OF c] by (auto split: if_splits sum.splits)
  show ?thesis using assms(1) s x
    by (auto simp: heartbeat_step_def c Let_def dest!: keeps_id_commands same_refresh keeps_id_same split: if_splits sum.splits option.splits)
qed

lemma keeps_id_reconnection:
  assumes "reconnection_step sv env ss = Some (r, ss')" "ss_identity_valid ss"
  shows "keeps_id ss ss'"
proof (cases "connected ss")
  case True
  then show ?thesis using assms(1) by (auto simp: reconnection_step_def dest!: same_flush keeps_id_same split: if_splits)
next
  case False
  with assms(1) show ?thesis
  proof (cases rule: reconnection_round)
    case (1 outcome re g)
    have k: "keeps_id ss (ss\<lparr>ss_reconnect := re, ss_grpc := g\<rparr>)" using reconnect_keeps [OF 1(1)] by (simp add: identity_of_def)
    show ?thesis using 1(2) k assms(2) by (auto dest!: keeps_id_register keeps_id_same)
  qed
qed

lemma keeps_id_step:
  assumes "session_step sv ev ss = Some ss'" "identity_free ev" "ss_identity_valid ss"
  shows "keeps_id ss ss'"
proof (cases ev)
  case (Batch_ready answer json w)
  let ?g = "snd (rpc_call False (case answer of Some response \<Rightarrow> Inr response | None \<Rightarrow> Inl ()) (ss_grpc ss))"
  have "same ss (ss\<lparr>ss_grpc := ?g\<rparr>)" by (rule same_rpc [OF surjective_pairing])
  then show ?thesis using assms Batch_ready
    by (auto simp: Let_def intro!: keeps_id_same intro: same_trans [OF _ same_on_client] same_on_client split: if_splits)
next
  case (Stream_message env msg)
  then show ?thesis using assms by (cases msg) (auto intro: keeps_id_same dest: keeps_id_command)
next
  case (Heartbeat env)
  then show ?thesis using assms keeps_id_heartbeat by auto
next
  case (Health_check answer)
  have "same ss (ss\<lparr>ss_grpc := snd (rpc_call True answer (ss_grpc ss))\<rparr>)" by (rule same_rpc [OF surjective_pairing])
  then show ?thesis using assms Health_check
    by (auto simp: health_check_def Let_def same_def split: prod.splits sum.splits if_splits)
qed (use assms in \<open>auto dest!: keeps_id_registration keeps_id_reconnection same_metrics same_on_client same_upload keeps_id_same split: if_splits\<close>)

lemma keeps_id_run:
  "session_run sv evs ss = Some ss' \<Longrightarrow> list_all identity_free evs \<Longrightarrow> ss_identity_valid ss \<Longrightarrow> keeps_id ss ss'"
proof (induction evs arbitrary: ss)
  case (Cons ev evs)
  then obtain ss1 where s: "session_step sv ev ss = Some ss1" "session_run sv evs ss1 = Some ss'"
    by (auto simp: Option.bind_eq_Some_conv)
  have one: "keeps_id ss ss1" using keeps_id_step [OF s(1)] Cons.prems by simp
  then have "ss_identity_valid ss1" using Cons.prems by (simp add: identity_of_def)
  then show ?case using Cons.IH [OF s(2)] Cons.prems one by simp
qed simp

text \<open>An identity given in the configuration or the environment counts as assigned from the start, so
  the agent never asks the cluster for one; but no request ever carries it: until the cluster sends an
  AssignIdentity or Unpair command, there is no twin id in the metadata of any call, while the live
  pipeline is open.\<close>

lemma configured_identity_never_attached:
  assumes "ac_twin_id (cf_agent config) = Some t" "ac_client_id (cf_agent config) = Some c"
    and "list_all identity_free evs" "session_run sv evs (session_start env path buffer config) = Some ss"
  shows "ss_identity_valid ss \<and> ss_twin_id ss = Some t \<and>
    request_metadata key_free free valid (ss_grpc ss) (lit ''x-twin-id'') = None \<and>
    request_metadata key_free free valid (ss_grpc ss) (lit ''x-client-id'') = None"
proof -
  let ?ss = "session_start env path buffer config"
  have v: "ss_identity_valid ?ss" using assms(1,2) by (simp add: session_start_def Session_new_def Let_def)
  have i: "identity_of ss = identity_of ?ss" by (rule keeps_id_run [OF assms(4,3) v])
  have "gr_twin_id (ss_grpc ss) = None" "gr_client_id (ss_grpc ss) = None" "ss_identity_valid ss" "ss_twin_id ss = Some t"
    using i [unfolded start_identity] assms(1,2) by (simp_all add: identity_of_def)
  then show ?thesis
    by (simp add: request_metadata_def attach_identity_metadata_def attach_api_key_metadata_def attach_value_def Let_def split: option.splits)
qed

definition seeded_config :: Config where
  "seeded_config = small_config\<lparr>cf_agent := (cf_agent small_config)\<lparr>ac_twin_id := Some (lit ''t1''), ac_client_id := Some (lit ''c1'')\<rparr>\<rparr>"

lemma configured_identity_never_attached_example:
  "case session_run example_services [Health_check (Inr ())] (session_start reachable [] default_buffer seeded_config) of
     Some ss \<Rightarrow> request_metadata True (True, True) (\<lambda>_. True) (ss_grpc ss) (lit ''x-twin-id'') = None | None \<Rightarrow> False"
proof -
  let ?ss = "session_start reachable [] default_buffer seeded_config"
  obtain ss where ss: "session_run example_services [Health_check (Inr ())] ?ss = Some ss" by simp
  have ids: "ac_twin_id (cf_agent seeded_config) = Some (lit ''t1'')" "ac_client_id (cf_agent seeded_config) = Some (lit ''c1'')"
    by (simp_all add: seeded_config_def)
  have free: "list_all identity_free [Health_check (Inr ())]" by simp
  show ?thesis using configured_identity_never_attached [OF ids free ss, of True "(True, True)" "\<lambda>_. True"] unfolding ss option.case by blast
qed

end
