(* ===== verification/Session_Signals.thy ===== *)
theory Session_Signals
  imports Session_Facts Client_Reports
begin

text \<open>
  What the session does with what the cluster tells it: authentication errors, pause and sampling signals,
  and the commands to retire or to stop.
\<close>

section \<open>Authentication errors\<close>

text \<open>The registration never takes its own key-renewal branch: an error that carries a context prints
  the context only (as the error library documents), so the text looked at is the fixed message of the
  registration and no status shows in it. Whatever the cluster answers, UNAUTHENTICATED included, a failed
  round leaves the key as it is and waits with exponential backoff, 2 to 30 seconds.\<close>

lemma registration_never_renews_key:
  assumes printed: "\<And>c e. er_display (sv_errors sv) (er_context (sv_errors sv) c e) = c"
    and "connected ss" "\<not> ss_registered ss" "ra_register ans = Inl status"
    and "registration_step sv ans attempt ss = Some (r, attempt', ss')"
  shows "r = Round_wait (min 30 (2 ^ min (unat (attempt + 1)) 5)) \<and> attempt' = attempt + 1 \<and>
    gr_api_key (ss_grpc ss') = gr_api_key (ss_grpc ss) \<and> \<not> ss_registered ss'"
proof -
  have fixed: "\<not> auth_error (lit ''Agent registration failed'')" by code_simp
  obtain x g where c: "rpc_call False (ra_register ans) (ss_grpc ss) = (x, g)" by fastforce
  obtain f where f: "x = Inl f" using rpc_cases [OF c] assms(4) by (auto split: if_splits)
  have k: "gr_api_key g = gr_api_key (ss_grpc ss)" using rpc_cases [OF c] by simp
  have "register_on_connect (sv_errors sv) ans ss =
      (Inl (er_context (sv_errors sv) (lit ''Agent registration failed'') (rpc_failure (sv_errors sv) (lit ''RegisterAgent'') f)), ss\<lparr>ss_grpc := g\<rparr>)"
    by (simp add: register_on_connect_def c f)
  then show ?thesis using assms(2,3,5) fixed k by (auto simp: registration_step_def printed Let_def simp del: list.map)
qed

lemma registration_returns:
  assumes "\<And>p. sv_reread sv p \<noteq> None"
  obtains r n ss' where "registration_step sv ans attempt ss = Some (r, n, ss')"
proof -
  have key: "(refresh_key sv s = None) = False" for s
    using assms [of "gr_config_path (ss_grpc s)"] by (auto simp: refresh_key_def refresh_api_key_def split: option.splits sum.splits)
  have "registration_step sv ans attempt ss \<noteq> None"
    by (auto simp: registration_step_def key Let_def split: prod.splits sum.splits option.splits)
  then show ?thesis using that by (metis option.exhaust prod_cases3)
qed

definition rejected :: register_answers where
  "rejected = \<lparr>ra_register = Inl (lit ''status: Unauthenticated''), ra_identity = Inl [], ra_identity_locks = (True, True)\<rparr>"

lemma registration_never_renews_key_example:
  "case registration_step example_services rejected 0 (session_start reachable [] default_buffer small_config) of
     Some (r, attempt, ss) \<Rightarrow> r = Round_wait 2 | None \<Rightarrow> False"
proof -
  let ?ss = "session_start reachable [] default_buffer small_config"
  have d: "er_display (sv_errors example_services) (er_context (sv_errors example_services) c e) = c" for c e
    by (simp add: example_services_def list_errors_def)
  have s: "connected ?ss" "\<not> ss_registered ?ss"
    by (simp_all add: connected_def is_connected_def session_start_def Session_new_def connect_def reachable_def unreachable_def Let_def)
  have "sv_reread example_services p \<noteq> None" for p by (simp add: example_services_def)
  then obtain r n ss where r: "registration_step example_services rejected 0 ?ss = Some (r, n, ss)"
    by (rule registration_returns)
  have a: "ra_register rejected = Inl (lit ''status: Unauthenticated'')" by (simp add: rejected_def)
  show ?thesis using registration_never_renews_key [OF d s a r] by (simp add: r)
qed

text \<open>The heartbeat looks at an error without a context, so it does find the status.\<close>

lemma heartbeat_renews_key:
  assumes shown: "\<And>m. er_display (sv_errors sv) (er_message (sv_errors sv) m) = m"
    and "connected ss" "grpc_ok (ss_grpc ss)" "he_answer env = Inl (lit ''status: Unauthenticated'' @ s)"
    and "sv_reread sv (gr_config_path (ss_grpc ss)) = Some (Inr (Some key))" "gr_api_key (ss_grpc ss) \<noteq> Some key"
  shows "case heartbeat_step sv env ss of Some (q, ss') \<Rightarrow> gr_api_key (ss_grpc ss') = Some key | None \<Rightarrow> False"
proof -
  have g: "gr_client (ss_grpc ss)" using assms(2,3) by (simp add: grpc_ok_def connected_def)
  have "str_contains (lit ''unauthenticated'')
      (map ascii_lower (lit ''Heartbeat RPC failed: status: '') @ (lit ''unauthenticated'' @ map ascii_lower s))"
    by (intro str_contains_append str_contains_prefix)
  moreover have "map ascii_lower (lit ''Unauthenticated'') = lit ''unauthenticated''" by code_simp
  ultimately have "auth_error (lit ''Heartbeat'' @ lit '' RPC failed: '' @ lit ''status: Unauthenticated'' @ s)"
    by (simp add: auth_error_def)
  then show ?thesis using assms(2,4-6) g
    by (simp add: heartbeat_step_def rpc_call_def rpc_failure_def shown refresh_backlog_info_def refresh_key_def refresh_api_key_def
        update_api_key_def Let_def)
qed

section \<open>Pausing\<close>

definition apply_signals :: "FlowSignal list \<Rightarrow> session \<Rightarrow> session" where
  "apply_signals signals ss = ss\<lparr>ss_flow := fold apply_server_signal signals (ss_flow ss)\<rparr>"

lemma dispatch_signals:
  "session_run sv (map (\<lambda>s. Stream_message env (Flow_control_message s)) signals) ss = Some (apply_signals signals ss)"
  by (induction signals arbitrary: ss) (simp_all add: apply_signals_def)

text \<open>A signal that does not lower the sampling rate: it keeps the rate, or sets one of at least 1.\<close>

definition full_sampling :: "FlowSignal \<Rightarrow> bool" where
  "full_sampling s \<longleftrightarrow> \<not> (d_less (Finite 0) (sg_sampling_rate s) \<and> d_less (sg_sampling_rate s) (Finite 1))"

lemma d_less_one_trans: "d_less rate (Finite r) \<Longrightarrow> r < 1 \<Longrightarrow> d_less rate (Finite 1)"
  by (cases rate) auto

lemma full_rate:
  "list_all full_sampling signals \<Longrightarrow> \<not> d_less (fc_sampling_rate fc) (Finite 1) \<Longrightarrow>
     \<not> d_less (fc_sampling_rate (fold apply_server_signal signals fc)) (Finite 1)"
  by (induction signals arbitrary: fc) (simp_all add: apply_server_signal_def full_sampling_def Let_def)

lemma signal_pauses: "sg_pause s \<Longrightarrow> is_backpressured (apply_server_signal s fc) \<and> \<not> fs_accepting (fc_state (apply_server_signal s fc))"
  by (simp add: is_backpressured_def apply_server_signal_def Let_def)

text \<open>Nothing in a signal lifts a pause.\<close>

lemma pause_stays: "is_backpressured fc \<Longrightarrow> is_backpressured (apply_server_signal s fc)"
  by (simp add: is_backpressured_def apply_server_signal_def Let_def)

text \<open>What a metrics send shows: its result and the client, buffer and connection after it.\<close>

definition sent_view :: "(metrics_result \<times> session) option \<Rightarrow> (metrics_result \<times> client \<times> GrpcClient) option" where
  "sent_view = map_option (\<lambda>(r, ss). (r, ss_client ss, ss_grpc ss))"

lemma raw_send_frame: "raw_send d (ss\<lparr>ss_flow := fl\<rparr>) = map_option (map_prod id (\<lambda>s. s\<lparr>ss_flow := fl\<rparr>)) (raw_send d ss)"
  by (cases "grpc_send (connected ss) d (ss_client ss)") (auto simp: raw_send_def connected_def map_prod_def split: prod.splits)

lemma send_live_frame: "send_live c d (ss\<lparr>ss_flow := fl\<rparr>) = map_option (\<lambda>s. s\<lparr>ss_flow := fl\<rparr>) (send_live c d ss)"
  by (simp add: send_live_def raw_send_frame option.map_comp comp_def map_prod_def case_prod_unfold connected_def split: option.splits)

text \<open>Without sampling, a send does not depend on flow control.\<close>

lemma send_metrics_frame:
  assumes "\<not> (is_backpressured (ss_flow ss) \<and> d_less (sampling_rate (ss_flow ss)) (mv_random env))"
    and "\<not> (is_backpressured fl \<and> d_less (sampling_rate fl) (mv_random env))"
  shows "sent_view (send_metrics sv env d (ss\<lparr>ss_flow := fl\<rparr>)) = sent_view (send_metrics sv env d ss)"
proof -
  have u: "update_client next_sequence (ss\<lparr>ss_flow := fl\<rparr>) = (update_client next_sequence ss)\<lparr>ss_flow := fl\<rparr>"
    "ss_flow (update_client next_sequence ss) = ss_flow ss" "ss_identity_valid (update_client next_sequence ss) = ss_identity_valid ss"
    by (simp_all add: update_client_def)
  have b: "ss_client (buffer_metrics bc env c (s\<lparr>ss_flow := fl\<rparr>)) = ss_client (buffer_metrics bc env c s)"
    "ss_grpc (buffer_metrics bc env c (s\<lparr>ss_flow := fl\<rparr>)) = ss_grpc (buffer_metrics bc env c s)"
    "ss_client (buffer_metrics bc env c (s\<lparr>ss_flow := fl, ss_grpc := g\<rparr>)) = ss_client (buffer_metrics bc env c (s\<lparr>ss_grpc := g\<rparr>))"
    "ss_grpc (buffer_metrics bc env c (s\<lparr>ss_flow := fl, ss_grpc := g\<rparr>)) = ss_grpc (buffer_metrics bc env c (s\<lparr>ss_grpc := g\<rparr>))" for bc c s g
    by (simp_all add: buffer_metrics_def update_client_def)
  show ?thesis
  proof (cases "sv_compress sv d")
    case None
    then show ?thesis by (simp add: send_metrics_def call_or_buffer_def sent_view_def update_client_def Let_def)
  next
    case (Some c)
    show ?thesis
    proof (cases "ss_identity_valid ss")
      case True
      then show ?thesis using assms Some
        by (cases "send_live (sv_compress sv) d (update_client next_sequence ss)")
           (simp_all add: send_metrics_def call_or_buffer_def sent_view_def u send_live_frame connected_def b Let_def case_prod_unfold)
    next
      case False
      then show ?thesis using assms Some
        by (simp add: send_metrics_def call_or_buffer_def sent_view_def u connected_def b Let_def case_prod_unfold)
    qed
  qed
qed

text \<open>A paused agent goes on sending: unless the cluster also lowers the sampling rate below 1, its
  signals, pause included, change nothing about any metrics send. They set the backpressure flag, but with
  the full rate no sample is ever held back, and nothing else asks whether the cluster is accepting.\<close>

lemma pause_does_not_stop_metrics:
  assumes "list_all full_sampling signals" "fc_sampling_rate (ss_flow ss) = Finite 1" "mv_random env = Finite r" "r < 1"
  shows "sent_view (send_metrics sv env d (apply_signals signals ss)) = sent_view (send_metrics sv env d ss)"
proof -
  have n: "\<not> d_less rate (mv_random env)" if "\<not> d_less rate (Finite 1)" for rate
    using that d_less_one_trans assms(3,4) by auto
  have "\<not> d_less (fc_sampling_rate (fold apply_server_signal signals (ss_flow ss))) (Finite 1)"
    by (rule full_rate [OF assms(1)]) (simp add: assms(2))
  then show ?thesis unfolding apply_signals_def
    by (intro send_metrics_frame) (use n assms(2) in \<open>simp_all add: sampling_rate_def\<close>)
qed

definition pause_signal :: FlowSignal where
  "pause_signal = \<lparr>sg_desired_interval_ms = 0, sg_sampling_rate = Finite 0, sg_pause = True\<rparr>"

definition example_metrics :: metrics_env where
  "example_metrics = \<lparr>mv_random = Finite (1 / 2), mv_answer = Inr True, mv_write = example_env\<rparr>"

lemma pause_does_not_stop_metrics_example:
  "let ss = session_start reachable [] default_buffer small_config in
   is_backpressured (ss_flow (apply_signals [pause_signal] ss)) \<and>
   sent_view (send_metrics example_services example_metrics [1] (apply_signals [pause_signal] ss)) =
     sent_view (send_metrics example_services example_metrics [1] ss)"
proof -
  let ?ss = "session_start reachable [] default_buffer small_config"
  have f: "list_all full_sampling [pause_signal]" by (simp add: full_sampling_def pause_signal_def)
  have r: "fc_sampling_rate (ss_flow ?ss) = Finite 1" by (simp add: session_start_def Session_new_def FlowControl_new_def Let_def)
  have m: "mv_random example_metrics = Finite (1 / 2)" by (simp add: example_metrics_def)
  have p: "is_backpressured (ss_flow (apply_signals [pause_signal] ?ss))"
    using signal_pauses [of pause_signal "ss_flow ?ss"] by (simp add: apply_signals_def pause_signal_def)
  show ?thesis using pause_does_not_stop_metrics [OF f r m] p by (simp add: Let_def)
qed

section \<open>Commands\<close>

text \<open>The fields that retiring and blacklisting set.\<close>

definition stop_flags :: "bool \<Rightarrow> bool \<Rightarrow> session \<Rightarrow> session" where
  "stop_flags cancelled blacklisted ss = ss\<lparr>ss_cancelled := cancelled, ss_blacklist_file := blacklisted\<rparr>"

lemma send_live_stop: "send_live c d (stop_flags a b ss) = map_option (stop_flags a b) (send_live c d ss)"
  by (cases "grpc_send (connected ss) (the (c d)) (ss_client ss)")
     (auto simp: send_live_def raw_send_def stop_flags_def connected_def map_prod_def split: option.splits prod.splits)

lemma stop_flags_frame:
  "ss_flow (stop_flags a b ss) = ss_flow ss" "ss_identity_valid (stop_flags a b ss) = ss_identity_valid ss"
  "ss_grpc (stop_flags a b ss) = ss_grpc ss" "connected (stop_flags a b ss) = connected ss"
  "update_client f (stop_flags a b ss) = stop_flags a b (update_client f ss)"
  "(stop_flags a b ss)\<lparr>ss_grpc := g\<rparr> = stop_flags a b (ss\<lparr>ss_grpc := g\<rparr>)"
  "buffer_metrics bc env c (stop_flags a b ss) = stop_flags a b (buffer_metrics bc env c ss)"
  by (simp_all add: stop_flags_def connected_def update_client_def buffer_metrics_def)

lemma send_metrics_stop: "send_metrics sv env d (stop_flags a b ss) = map_option (map_prod id (stop_flags a b)) (send_metrics sv env d ss)"
  by (cases "sv_compress sv d"; cases "send_live (sv_compress sv) d (update_client next_sequence ss)")
     (simp_all add: send_metrics_def call_or_buffer_def stop_flags_frame send_live_stop Let_def case_prod_unfold map_prod_def)

lemma on_client_stop: "on_client f (stop_flags a b ss) = map_option (stop_flags a b) (on_client f ss)"
  by (cases "f (ss_client ss)") (simp_all add: on_client_def stop_flags_def)

text \<open>The senders, which the collection layers call.\<close>

fun sends :: "session_event \<Rightarrow> bool" where
  "sends (Metrics_ready env d) = True"
| "sends (Events_ready w d) = True"
| "sends (Traces_ready w d) = True"
| "sends (Batch_ready answer json w) = True"
| "sends ev = False"

lemma sends_stop: "sends ev \<Longrightarrow> session_step sv ev (stop_flags a b ss) = map_option (stop_flags a b) (session_step sv ev ss)"
proof (cases ev)
  case (Metrics_ready env d)
  then show ?thesis by (simp add: send_metrics_stop option.map_comp comp_def)
next
  case (Batch_ready answer json w)
  have "sender_env w (stop_flags a b ss) = sender_env w ss" by (simp add: sender_env_def stop_flags_frame)
  then show ?thesis using Batch_ready by (simp add: stop_flags_frame on_client_stop Let_def)
qed (simp_all add: sender_env_def stop_flags_frame on_client_stop)

lemma sends_run_stop:
  "list_all sends evs \<Longrightarrow> session_run sv evs (stop_flags a b ss) = map_option (stop_flags a b) (session_run sv evs ss)"
proof (induction evs arbitrary: ss)
  case (Cons ev evs)
  then show ?case by (cases "session_step sv ev ss") (simp_all add: sends_stop)
qed simp

text \<open>C16. A retired or blacklisted agent goes on sending: the command cancels the client's own loops and,
  for the blacklist, writes a file nothing reads; but every metric, event, trace and batch of network
  events the collection layers produce afterwards is sent or buffered exactly as before, with the same
  effect on the connection and the buffer.\<close>

theorem retired_agent_keeps_sending:
  assumes "n = 8 \<or> n = 9" "handle_agent_command sv env n payload ss = Some ss'" "list_all sends evs"
  shows "ss_cancelled ss' \<and>
    map_option (\<lambda>s. (ss_client s, ss_grpc s)) (session_run sv evs ss') = map_option (\<lambda>s. (ss_client s, ss_grpc s)) (session_run sv evs ss)"
proof -
  have v: "map_option (\<lambda>s. (ss_client s, ss_grpc s)) (map_option (stop_flags a b) r) = map_option (\<lambda>s. (ss_client s, ss_grpc s)) r" for a b r
    by (cases r) (simp_all add: stop_flags_def)
  have "ss' = stop_flags True (ss_blacklist_file ss \<or> n = 9 \<and> cv_file_ok env) ss"
    using assms(1,2) by (auto simp: handle_agent_command_def command_of_def command_numbers_def stop_flags_def)
  then show ?thesis by (simp add: sends_run_stop [OF assms(3)] v) (simp add: stop_flags_def)
qed

theorem retired_agent_keeps_sending_witness:
  "let ss = session_start reachable [] default_buffer small_config; evs = [Metrics_ready example_metrics [1]] in
   case handle_agent_command example_services example_command 9 [] ss of
     Some ss' \<Rightarrow> ss_cancelled ss' \<and> map_option (\<lambda>s. (ss_client s, ss_grpc s)) (session_run example_services evs ss') =
                                  map_option (\<lambda>s. (ss_client s, ss_grpc s)) (session_run example_services evs ss)
   | None \<Rightarrow> False"
proof -
  let ?ss = "session_start reachable [] default_buffer small_config"
  obtain ss' where c: "handle_agent_command example_services example_command 9 [] ?ss = Some ss'"
    by (simp add: handle_agent_command_def command_of_def command_numbers_def)
  have s: "list_all sends [Metrics_ready example_metrics [1]]" by simp
  show ?thesis using retired_agent_keeps_sending [OF _ c s] unfolding c Let_def option.case by blast
qed

text \<open>Which commands do anything: a number outside 3 and 5 to 10 changes nothing; an AssignIdentity
  payload that does not hold both ids as strings clears the identity instead of keeping the old one; and
  one that holds both makes every later request carry them, whatever the identity was, if the locks of the
  connection's copies are free.\<close>

lemma commands_have_effect:
  assumes "cv_identity_locks env = (True, True)"
  shows "(n \<notin> {3, 5, 6, 7, 8, 9, 10} \<longrightarrow> handle_agent_command sv env n payload ss = Some ss) \<and>
   (case sv_json sv payload of
      None \<Rightarrow> handle_agent_command sv env 5 payload ss = Some ss
    | Some json \<Rightarrow>
        (case handle_agent_command sv env 5 payload ss of
           None \<Rightarrow> False
         | Some ss' \<Rightarrow>
             (case (json (lit ''twin_id''), json (lit ''client_id'')) of
                (Some t, Some c) \<Rightarrow> ss_identity_valid ss' \<and> gr_twin_id (ss_grpc ss') = Some t \<and> gr_client_id (ss_grpc ss') = Some c
              | _ \<Rightarrow> \<not> ss_identity_valid ss' \<and> gr_twin_id (ss_grpc ss') = None \<and> gr_client_id (ss_grpc ss') = None)))"
proof -
  have "command_of n \<in> {None, Some Cmd_Unspecified, Some Cmd_Restart, Some Cmd_UpdateConfig, Some Cmd_ToggleLayer}"
    if "n \<notin> {3, 5, 6, 7, 8, 9, 10}"
    using that by (simp add: command_of_def command_numbers_def)
  moreover have "command_of 5 = Some Cmd_AssignIdentity" by (simp add: command_of_def command_numbers_def)
  ultimately show ?thesis using assms
    by (auto simp: handle_agent_command_def assign_identity_def apply_identity_def Let_def split: option.splits)
qed

lemma commands_have_effect_example:
  "let ss = session_start reachable [] default_buffer small_config in
   handle_agent_command example_services example_command 1 [] ss = Some ss"
  using commands_have_effect [of example_command 1 example_services "[]" "session_start reachable [] default_buffer small_config"]
  by (simp add: Let_def example_command_def)

end
