(* ===== verification/Session_Metrics.thy ===== *)
theory Session_Metrics
  imports Session_Signals
begin

text \<open>
  What becomes of the metrics: each sample is accepted by the cluster or kept in the edge buffer, and the
  live pipeline of an identified agent stops after a fixed number of samples.
\<close>

section \<open>Samples one after the other\<close>

definition metrics_send :: "'e services \<Rightarrow> metrics_env \<times> bytes \<Rightarrow> session \<Rightarrow> (metrics_result \<times> session) option" where
  "metrics_send sv x = send_metrics sv (fst x) (snd x)"

text \<open>What is written to the edge buffer for a sample that the cluster did not accept.\<close>

definition metrics_entry :: "(bytes \<Rightarrow> bytes) \<Rightarrow> metrics_env \<times> bytes \<Rightarrow> write_env \<times> bytes \<times> DataType" where
  "metrics_entry z x = (mv_write (fst x), z (snd x), Metrics)"

text \<open>Services whose compressor never fails.\<close>

definition compressing :: "(bytes \<Rightarrow> bytes) \<Rightarrow> 'e services \<Rightarrow> 'e services" where
  "compressing z sv = sv\<lparr>sv_compress := (\<lambda>d. Some (z d))\<rparr>"

lemma compressing_eq: "(\<And>d. sv_compress sv d = Some (z d)) \<Longrightarrow> compressing z sv = sv"
  by (cases sv) (simp add: compressing_def fun_eq_iff)

lemma compressing_simps [simp]: "sv_compress (compressing z sv) d = Some (z d)" "sv_bincode (compressing z sv) = sv_bincode sv"
  by (simp_all add: compressing_def)

lemma send_live_buffer: "send_live c d ss = Some ss' \<Longrightarrow> cl_buffer (ss_client ss') = cl_buffer (ss_client ss)"
  by (auto simp: send_live_def raw_send_def grpc_send_def split: if_splits option.splits)

lemma send_metrics_buffer:
  assumes "send_metrics sv env d ss = Some (r, ss')" "sv_compress sv d = Some c"
  shows "cl_buffer (ss_client ss') = (if r = Batch_sent then cl_buffer (ss_client ss)
      else snd (buffer_write (sv_bincode sv) (mv_write env) c Metrics (cl_buffer (ss_client ss)))) \<and>
    (r = Batch_sent \<longrightarrow> mv_answer env = Inr True)"
proof -
  have n: "cl_buffer (ss_client (update_client next_sequence ss)) = cl_buffer (ss_client ss)"
    by (simp add: update_client_def next_sequence_def)
  have b: "cl_buffer (ss_client (buffer_metrics bc env c s)) = snd (buffer_write bc (mv_write env) c Metrics (cl_buffer (ss_client s)))" for bc s
    by (simp add: buffer_metrics_def update_client_def buffer_data_def)
  from assms(1) show ?thesis
  proof (cases rule: send_metrics_cases)
    case (live c' ss2)
    have "cl_buffer (ss_client ss2) = cl_buffer (ss_client ss)"
      using live(2) n by (auto dest: send_live_buffer split: if_splits)
    then show ?thesis using live assms(2) b by (auto simp: rpc_call_def Let_def split: if_splits sum.splits)
  qed (use assms(2) n b in auto)
qed

interpretation metrics_sender: keeping_sender "metrics_send (compressing z sv)" "\<lambda>ss. cl_buffer (ss_client ss)"
    "\<lambda>r. r = Batch_sent" "\<lambda>x. mv_answer (fst x) = Inr True" "metrics_entry z" "sv_bincode sv" for z sv
proof unfold_locales
  fix x :: "metrics_env \<times> bytes" and ss r ss'
  assume s: "metrics_send (compressing z sv) x ss = Some (r, ss')"
  note b = send_metrics_buffer [OF s [unfolded metrics_send_def] compressing_simps(1)]
  show "r = Batch_sent \<Longrightarrow> cl_buffer (ss_client ss') = cl_buffer (ss_client ss) \<and> mv_answer (fst x) = Inr True" using b by simp
  show "r \<noteq> Batch_sent \<Longrightarrow> cl_buffer (ss_client ss') =
      (case metrics_entry z x of (env, d, t) \<Rightarrow> snd (buffer_write (sv_bincode sv) env d t (cl_buffer (ss_client ss))))"
    using b by (simp add: metrics_entry_def)
qed

text \<open>Every sample of the metrics arrives or is kept: sent one after the other from the start with a
  buffer in memory, each is accepted by the cluster in a batch, or its compressed form is in the edge
  buffer, in order and nothing else, whether the agent was disconnected, the cluster refused it, the call
  failed or the sampling held it back; as long as what is kept fits into the budget and does not expire.\<close>

lemma metrics_delivered_or_kept:
  assumes "ec_sqlite_path ec = None" "unat (ec_max_memory_bytes ec) < 2 ^ 62" "\<And>d. sv_compress sv d = Some (z d)"
    and "run_sends (metrics_send sv) samples (session_start env path (EdgeBuffer_new init ec) config) = Some (rs, ss)"
    and "write_total (kept (metrics_entry z) (\<lambda>r. r = Batch_sent) samples rs) \<le> unat (ec_max_memory_bytes ec)"
      "none_expires (ec_entry_ttl ec) [] (kept (metrics_entry z) (\<lambda>r. r = Batch_sent) samples rs)"
  shows "list_all2 (\<lambda>x r. r = Batch_sent \<longrightarrow> mv_answer (fst x) = Inr True) samples rs \<and>
    map (\<lambda>e. (be_data e, be_data_type e)) (eb_buffer (cl_buffer (ss_client ss))) =
      map (\<lambda>(x, r). (z (snd x), Metrics)) (filter (\<lambda>(x, r). r \<noteq> Batch_sent) (zip samples rs))"
proof -
  have start: "cl_buffer (ss_client (session_start env path (EdgeBuffer_new init ec) config)) = EdgeBuffer_new init ec"
    by (simp add: session_start_def Session_new_def Client_new_def Let_def)
  have c: "compressing z sv = sv" by (rule compressing_eq) (rule assms(3))
  show ?thesis
    using metrics_sender.delivered_or_kept [where z = z and sv = sv, unfolded c, OF assms(4) start assms(1,2,5,6)]
    by (simp add: metrics_entry_def)
qed

definition refused_metrics :: metrics_env where
  "refused_metrics = example_metrics\<lparr>mv_answer := Inr False\<rparr>"

lemma metrics_delivered_or_kept_example:
  "case run_sends (metrics_send example_services) [(example_metrics, [1]), (refused_metrics, [2])] (session_start reachable [] default_buffer small_config) of
     Some (rs, ss) \<Rightarrow> rs = [Batch_sent, Batch_buffered] \<and> map (\<lambda>e. (be_data e, be_data_type e)) (eb_buffer (cl_buffer (ss_client ss))) = [([2], Metrics)]
   | None \<Rightarrow> False"
proof -
  let ?ss = "session_start reachable [] default_buffer small_config"
  let ?xs = "[(example_metrics, [1]), (refused_metrics, [2])] :: (metrics_env \<times> bytes) list"
  have start: "ss_identity_valid ?ss = False" "connected ?ss" "gr_client (ss_grpc ?ss)" "is_backpressured (ss_flow ?ss) = False"
    by (simp_all add: session_start_def Session_new_def small_config_def connect_def reachable_def unreachable_def connected_def
        is_connected_def is_backpressured_def FlowControl_new_def Let_def)
  have z: "sv_compress example_services = Some" by (simp add: example_services_def)
  obtain rs ss where r: "run_sends (metrics_send example_services) ?xs ?ss = Some (rs, ss)" and rs: "rs = [Batch_sent, Batch_buffered]"
    using start by (simp add: metrics_send_def send_metrics_def call_or_buffer_def z update_client_def connected_def is_connected_def rpc_call_def example_metrics_def
        refused_metrics_def buffer_metrics_def Let_def)
  have k: "kept (metrics_entry id) (\<lambda>r. r = Batch_sent) ?xs rs = [Write example_env [2] Metrics]"
    by (simp add: rs metrics_entry_def refused_metrics_def example_metrics_def)
  have c: "sv_compress example_services d = Some (id d)" for d by (simp add: z)
  have "write_total (kept (metrics_entry id) (\<lambda>r. r = Batch_sent) ?xs rs) \<le> unat (ec_max_memory_bytes EdgeBufferConfig_default)"
    "none_expires (ec_entry_ttl EdgeBufferConfig_default) [] (kept (metrics_entry id) (\<lambda>r. r = Batch_sent) ?xs rs)"
    by (simp_all add: k EdgeBufferConfig_default_def write_total_def none_expires_def example_env_def)
  from metrics_delivered_or_kept [OF _ _ c r this]
  have "map (\<lambda>e. (be_data e, be_data_type e)) (eb_buffer (cl_buffer (ss_client ss))) = [([2], Metrics)]"
    by (simp add: rs EdgeBufferConfig_default_def)
  then show ?thesis unfolding r by (simp add: rs)
qed

section \<open>The live pipeline\<close>

definition live_ready :: "session \<Rightarrow> bool" where
  "live_ready ss \<longleftrightarrow> connected ss \<and> ss_identity_valid ss \<and> \<not> is_backpressured (ss_flow ss)"

lemma send_live_room:
  assumes "connected ss" "c d = Some z"
  shows "send_live c d ss = (if length (cl_channel (ss_client ss)) < CHANNEL_CAPACITY
    then Some (ss\<lparr>ss_client := (ss_client ss)\<lparr>cl_channel := cl_channel (ss_client ss) @ [z],
                 cl_messages_sent := cl_messages_sent (ss_client ss) + 1\<rparr>\<rparr>) else None)"
  using assms by (simp add: send_live_def raw_send_def grpc_send_def)

lemma live_step:
  assumes "live_ready ss" "sv_compress sv d = Some z"
  shows "if length (cl_channel (ss_client ss)) < CHANNEL_CAPACITY
    then \<exists>r ss'. send_metrics sv env d ss = Some (r, ss') \<and> live_ready ss' \<and> cl_channel (ss_client ss') = cl_channel (ss_client ss) @ [z]
    else send_metrics sv env d ss = None"
proof -
  let ?ss = "update_client next_sequence ss"
  have u: "connected ?ss" "ss_flow ?ss = ss_flow ss" "ss_identity_valid ?ss" "cl_channel (ss_client ?ss) = cl_channel (ss_client ss)"
    using assms(1) by (simp_all add: live_ready_def update_client_def connected_def)
  note live = send_live_room [OF u(1), of "sv_compress sv" d z, OF assms(2), unfolded u(4)]
  have nb: "\<not> is_backpressured (ss_flow ss)" using assms(1) by (simp add: live_ready_def)
  show ?thesis
  proof (cases "length (cl_channel (ss_client ss)) < CHANNEL_CAPACITY")
    case False
    then show ?thesis using nb u by (simp add: send_metrics_def call_or_buffer_def assms(2) live Let_def)
  next
    case True
    then have "send_metrics sv env d ss \<noteq> None"
      using nb u by (simp add: send_metrics_def call_or_buffer_def assms(2) live Let_def case_prod_unfold)
    then obtain r ss' where r: "send_metrics sv env d ss = Some (r, ss')" by (metis option.exhaust surj_pair)
    have keep: "ss_flow (buffer_metrics bc env c s) = ss_flow s" "ss_identity_valid (buffer_metrics bc env c s) = ss_identity_valid s"
      "connected (buffer_metrics bc env c s) = connected s" "cl_channel (ss_client (buffer_metrics bc env c s)) = cl_channel (ss_client s)" for bc c s
      by (simp_all add: buffer_metrics_def update_client_def connected_def)
    have rpc: "connected (s\<lparr>ss_grpc := snd (rpc_call False a (ss_grpc s))\<rparr>) = connected s" for a s
      using rpc_cases [OF surjective_pairing, where received = False and answer = a and g = "ss_grpc s"] by (simp add: connected_def is_connected_def)
    from r have "live_ready ss' \<and> cl_channel (ss_client ss') = cl_channel (ss_client ss) @ [z]"
    proof (cases rule: send_metrics_cases)
      case (live c ss2)
      have ss2: "ss_flow ss2 = ss_flow ss" "ss_identity_valid ss2" "connected ss2"
        "cl_channel (ss_client ss2) = cl_channel (ss_client ss) @ [z]"
        using live(2) True u assms(1) by (auto simp: live_ready_def \<open>send_live (sv_compress sv) d ?ss = _\<close> connected_def split: if_splits)
      show ?thesis unfolding live(4) using ss2 nb by (simp add: live_ready_def keep rpc Let_def)
    qed (use assms(2) nb in simp_all)
    then show ?thesis using True r by simp
  qed
qed

interpretation live_queue: queueing_sender "metrics_send (compressing z sv)" "\<lambda>ss. cl_channel (ss_client ss)" live_ready
    "\<lambda>x. z (snd x)" for z sv
proof unfold_locales
  fix ss and x :: "metrics_env \<times> bytes"
  assume "live_ready ss"
  note l = live_step [OF this, of "compressing z sv", OF compressing_simps(1), where env = "fst x" and d = "snd x", folded metrics_send_def]
  show "length (cl_channel (ss_client ss)) < CHANNEL_CAPACITY \<Longrightarrow> \<exists>r ss'. metrics_send (compressing z sv) x ss = Some (r, ss') \<and>
      live_ready ss' \<and> cl_channel (ss_client ss') = cl_channel (ss_client ss) @ [z (snd x)]" using l by simp
  show "CHANNEL_CAPACITY \<le> length (cl_channel (ss_client ss)) \<Longrightarrow> metrics_send (compressing z sv) x ss = None" using l by simp
qed

text \<open>The metrics of an identified, connected agent stop: every send first puts the sample into the
  raw channel, which nothing empties, so from an empty channel exactly the first 1024 sends return and the
  next one waits for ever, whatever the cluster answers to the batches.\<close>

lemma live_metrics_stall:
  assumes "\<And>d. sv_compress sv d = Some (z d)" "live_ready ss" "cl_channel (ss_client ss) = []"
  shows "(run_sends (metrics_send sv) samples ss = None \<longleftrightarrow> 1024 < length samples) \<and>
    (length samples \<le> 1024 \<longrightarrow> (\<exists>rs ss'. run_sends (metrics_send sv) samples ss = Some (rs, ss') \<and>
       cl_channel (ss_client ss') = map (\<lambda>(env, d). z d) samples))"
proof -
  have c: "compressing z sv = sv" by (rule compressing_eq) (rule assms(1))
  note q = live_queue.stalls [where z = z and sv = sv, unfolded c, OF assms(2), of samples]
    live_queue.queued [where z = z and sv = sv, unfolded c, OF assms(2), of samples]
  show ?thesis using q assms(3) by (auto simp: CHANNEL_CAPACITY_def case_prod_unfold)
qed

lemma live_metrics_stall_example:
  "run_sends (metrics_send example_services) (replicate 1025 (example_metrics, [1])) (session_start reachable [] default_buffer seeded_config) = None \<and>
   run_sends (metrics_send example_services) (replicate 1024 (example_metrics, [1])) (session_start reachable [] default_buffer seeded_config) \<noteq> None"
proof -
  let ?ss = "session_start reachable [] default_buffer seeded_config"
  have ready: "live_ready ?ss" "cl_channel (ss_client ?ss) = []"
    by (simp_all add: live_ready_def session_start_def Session_new_def seeded_config_def connect_def reachable_def unreachable_def
        connected_def is_connected_def is_backpressured_def FlowControl_new_def Client_new_def Let_def)
  have z: "sv_compress example_services d = Some (id d)" for d by (simp add: example_services_def)
  show ?thesis using live_metrics_stall [OF z ready, of "replicate 1025 (example_metrics, [1])"]
      live_metrics_stall [OF z ready, of "replicate 1024 (example_metrics, [1])"] by simp
qed

end
