(* ===== verification/Log_Tailer.thy ===== *)
theory Log_Tailer
  imports Config_Load
begin

text \<open>
  The log tailer of the supervisor (\<open>supervisor/log_tailer.rs\<close>): finding the files of a pattern, and
  reading what was appended to each of them, poll by poll. The directory listing, what a poll finds of a
  file, the compiled filter and the state of the channel the lines go to are arguments; a file name is a
  string. Time stamps are left out.
\<close>

section \<open>Configuration and state\<close>

record LogTailerConfig =
  lt_pattern :: rstring
  lt_filter :: "rstring option"
  lt_tail_from_end :: bool
  lt_poll_interval_ms :: nat
  lt_max_line_size :: nat

definition LogTailerConfig_default :: LogTailerConfig where
  "LogTailerConfig_default =
     \<lparr>lt_pattern = lit ''/var/log/*.log'', lt_filter = None, lt_tail_from_end = True, lt_poll_interval_ms = 1000,
      lt_max_line_size = 64 * 1024\<rparr>"

record LogLine =
  ll_file :: rstring
  ll_content :: rstring
  ll_line_number :: u64

record FileState =
  fl_position :: u64
  fl_line_number :: u64

text \<open>A compiled filter is the set of lines it matches; a filter that does not compile is ignored.\<close>

record LogTailer =
  tl_config :: LogTailerConfig
  tl_filter :: "(rstring \<Rightarrow> bool) option"
  tl_file_states :: "rstring \<rightharpoonup> FileState"

definition LogTailer_new :: "(rstring \<Rightarrow> (rstring \<Rightarrow> bool) option) \<Rightarrow> LogTailerConfig \<Rightarrow> LogTailer" where
  "LogTailer_new regex config =
     \<lparr>tl_config = config, tl_filter = Option.bind (lt_filter config) regex, tl_file_states = Map.empty\<rparr>"

section \<open>Finding files\<close>

definition ends_with :: "rstring \<Rightarrow> rstring \<Rightarrow> bool" where
  "ends_with suf s \<longleftrightarrow> strip_suffix suf s \<noteq> None"

definition matches_glob :: "rstring \<Rightarrow> rstring \<Rightarrow> bool" where
  "matches_glob name pattern =
     (if pattern = lit ''*'' then True
      else if starts_with (lit ''*.'') pattern then ends_with (drop 2 pattern) name
      else name = pattern)"

text \<open>\<open>rfind('/')\<close>: the parts before and after the last slash.\<close>

definition split_dir :: "rstring \<Rightarrow> rstring \<times> rstring" where
  "split_dir pattern =
     (if 47 \<in> set pattern
      then (let name = rev (takeWhile (\<lambda>c. c \<noteq> 47) (rev pattern)) in (take (length pattern - length name - 1) pattern, name))
      else (lit ''.'', pattern))"

text \<open>A directory lists names and whether each is a file; None if it cannot be read.\<close>

definition resolve_glob :: "(rstring \<Rightarrow> (rstring \<times> bool) list option) \<Rightarrow> rstring \<Rightarrow> rstring list" where
  "resolve_glob read_dir pattern =
     (case split_dir pattern of (dir, glob) \<Rightarrow>
        (case read_dir dir of
           None \<Rightarrow> []
         | Some entries \<Rightarrow> map (\<lambda>(name, _). dir @ 47 # name) (filter (\<lambda>(name, is_file). is_file \<and> matches_glob name glob) entries)))"

section \<open>Tailing\<close>

text \<open>What a poll finds; the contents are those at the time of reading, which may have grown since the size
  was taken. \<open>read_ok\<close> says whether the n-th read of the poll succeeds, \<open>open\<close> whether the channel takes the
  n-th line.\<close>

datatype file_view = Cannot_open | No_metadata | File (view_size: u64) (view_contents: bytes) (view_seek: bool)

record poll_env =
  pe_read_ok :: "nat \<Rightarrow> bool"
  pe_open :: "nat \<Rightarrow> bool"

fun next_line :: "bytes \<Rightarrow> bytes" where
  "next_line [] = []"
| "next_line (b # bs) = (if b = 10 then [b] else b # next_line bs)"

definition trim_end :: "rstring \<Rightarrow> rstring" where
  "trim_end s = rev (dropWhile is_whitespace (rev s))"

lemma next_line_shrinks: "bs \<noteq> [] \<Longrightarrow> length (drop (length (next_line bs)) bs) < length bs"
  by (cases bs) auto

definition wanted :: "(rstring \<Rightarrow> bool) option \<Rightarrow> rstring \<Rightarrow> bool" where
  "wanted flt line = (case flt of None \<Rightarrow> True | Some matches \<Rightarrow> matches line)"

function read_lines :: "(rstring \<Rightarrow> bool) option \<Rightarrow> poll_env \<Rightarrow> rstring \<Rightarrow> nat \<Rightarrow> bytes \<Rightarrow> FileState \<Rightarrow> LogLine list \<times> FileState" where
  "read_lines flt env path i rest st =
     (if rest = [] then ([], st)
      else if \<not> pe_read_ok env i then ([], st)
      else (case from_utf8 (next_line rest) of
              None \<Rightarrow> ([], st)
            | Some line \<Rightarrow>
                (let st = \<lparr>fl_position = fl_position st + of_nat (length (next_line rest)), fl_line_number = fl_line_number st + 1\<rparr> in
                 if \<not> wanted flt line then read_lines flt env path (i + 1) (drop (length (next_line rest)) rest) st
                 else if \<not> pe_open env i then ([], st)
                 else apfst (Cons \<lparr>ll_file = path, ll_content = trim_end line, ll_line_number = fl_line_number st\<rparr>)
                        (read_lines flt env path (i + 1) (drop (length (next_line rest)) rest) st))))"
  by pat_completeness auto
termination
  by (relation "measure (\<lambda>(_, _, _, _, rest, _). length rest)") (auto dest: next_line_shrinks simp del: length_drop)

declare read_lines.simps [simp del]

definition tail_state :: "(rstring \<Rightarrow> bool) option \<Rightarrow> poll_env \<Rightarrow> rstring \<Rightarrow> file_view \<Rightarrow> FileState \<Rightarrow> LogLine list \<times> FileState" where
  "tail_state flt env path view st =
     (case view of
        Cannot_open \<Rightarrow> ([], st)
      | No_metadata \<Rightarrow> ([], st)
      | File file_size text_now seek_ok \<Rightarrow>
          (let st = (if file_size < fl_position st then \<lparr>fl_position = 0, fl_line_number = 0\<rparr> else st) in
           if file_size = fl_position st then ([], st)
           else if \<not> seek_ok then ([], st)
           else read_lines flt env path 0 (drop (unat (fl_position st)) text_now) st))"

definition tail_file :: "poll_env \<Rightarrow> file_view \<Rightarrow> rstring \<Rightarrow> LogTailer \<Rightarrow> LogLine list \<times> LogTailer" where
  "tail_file env view path t =
     (case tl_file_states t path of
        None \<Rightarrow> ([], t)
      | Some st \<Rightarrow>
          (case tail_state (tl_filter t) env path view st of
             (ls, st) \<Rightarrow> (ls, t\<lparr>tl_file_states := (tl_file_states t)(path \<mapsto> st)\<rparr>)))"

text \<open>\<open>run\<close>: the files and their first states, then one round over the files for each tick. The size of a
  file whose metadata cannot be read counts as 0.\<close>

definition get_file_size :: "(rstring \<Rightarrow> u64 option) \<Rightarrow> rstring \<Rightarrow> u64" where
  "get_file_size metadata path = (case metadata path of Some len \<Rightarrow> len | None \<Rightarrow> 0)"

fun init_files :: "(rstring \<Rightarrow> u64 option) \<Rightarrow> rstring list \<Rightarrow> LogTailer \<Rightarrow> LogTailer" where
  "init_files metadata [] t = t"
| "init_files metadata (path # paths) t =
     init_files metadata paths
       (if tl_file_states t path \<noteq> None then t
        else t\<lparr>tl_file_states := (tl_file_states t)(path \<mapsto>
               \<lparr>fl_position = (if lt_tail_from_end (tl_config t) then get_file_size metadata path else 0), fl_line_number = 0\<rparr>)\<rparr>)"

fun poll_files :: "(rstring \<Rightarrow> poll_env \<times> file_view) \<Rightarrow> rstring list \<Rightarrow> LogTailer \<Rightarrow> LogLine list \<times> LogTailer" where
  "poll_files view [] t = ([], t)"
| "poll_files view (path # paths) t =
     (let (ls, t) = tail_file (fst (view path)) (snd (view path)) path t; (rest, t) = poll_files view paths t in (ls @ rest, t))"

fun tail_rounds :: "rstring list \<Rightarrow> (rstring \<Rightarrow> poll_env \<times> file_view) list \<Rightarrow> LogTailer \<Rightarrow> LogLine list \<times> LogTailer" where
  "tail_rounds paths [] t = ([], t)"
| "tail_rounds paths (view # views) t =
     (let (ls, t) = poll_files view paths t; (rest, t) = tail_rounds paths views t in (ls @ rest, t))"

definition tailer_run :: "(rstring \<Rightarrow> (rstring \<times> bool) list option) \<Rightarrow> (rstring \<Rightarrow> u64 option) \<Rightarrow>
    (rstring \<Rightarrow> poll_env \<times> file_view) list \<Rightarrow> LogTailer \<Rightarrow> LogLine list \<times> LogTailer" where
  "tailer_run read_dir metadata views t =
     (let files = resolve_glob read_dir (lt_pattern (tl_config t)) in
      if files = [] then ([], t) else tail_rounds files views (init_files metadata files t))"

section \<open>The lines of a file\<close>

function file_lines :: "bytes \<Rightarrow> bytes list" where
  "file_lines bs = (if bs = [] then [] else next_line bs # file_lines (drop (length (next_line bs)) bs))"
  by pat_completeness auto
termination by (relation "measure length") (auto dest: next_line_shrinks simp del: length_drop)

declare file_lines.simps [simp del]

lemma file_lines_Nil [simp]: "file_lines [] = []"
  by (simp add: file_lines.simps)

text \<open>A text that ends with a line break, or is empty.\<close>

definition whole :: "bytes \<Rightarrow> bool" where
  "whole bs \<longleftrightarrow> bs = [] \<or> last bs = 10"

lemma next_line_append: "10 \<in> set bs \<Longrightarrow> next_line (bs @ cs) = next_line bs"
  by (induction bs) auto

lemma next_line_prefix: "take (length (next_line bs)) bs = next_line bs"
  by (induction bs) auto

lemma next_line_split: "next_line bs @ drop (length (next_line bs)) bs = bs"
  by (induction bs) auto

lemma next_line_all: "10 \<notin> set bs \<Longrightarrow> next_line bs = bs"
  by (induction bs) auto

lemma next_line_length: "length (next_line bs) \<le> length bs"
  by (induction bs) auto

lemma next_line_nonempty: "bs \<noteq> [] \<Longrightarrow> next_line bs \<noteq> []"
  by (cases bs) auto

lemma whole_drop: "whole bs \<Longrightarrow> whole (drop n bs)"
  by (cases "n < length bs") (auto simp: whole_def)

lemma file_lines_append: "whole a \<Longrightarrow> file_lines (a @ b) = file_lines a @ file_lines b"
proof (induction a rule: length_induct)
  case (1 a)
  show ?case
  proof (cases "a = []")
    case False
    then have "10 \<in> set a" using 1(2) last_in_set [OF False] by (simp add: whole_def)
    then have n: "next_line (a @ b) = next_line a" by (rule next_line_append)
    have "length (drop (length (next_line a)) a) < length a" by (rule next_line_shrinks [OF False])
    then have "file_lines (drop (length (next_line a)) a @ b) = file_lines (drop (length (next_line a)) a) @ file_lines b"
      using 1 whole_drop by blast
    then show ?thesis using False n next_line_length [of a] by (simp add: file_lines.simps [of "a @ b"] file_lines.simps [of a])
  qed simp
qed

lemma file_lines_part: "bs \<noteq> [] \<Longrightarrow> 10 \<notin> set bs \<Longrightarrow> file_lines bs = [bs]"
  by (simp add: file_lines.simps [of bs] next_line_all)

text \<open>The lines a reader delivers, from a line number on.\<close>

fun numbered_lines :: "rstring \<Rightarrow> u64 \<Rightarrow> bytes list \<Rightarrow> LogLine list" where
  "numbered_lines path n [] = []"
| "numbered_lines path n (l # ls) =
     \<lparr>ll_file = path, ll_content = trim_end (from_utf8_lossy l), ll_line_number = n + 1\<rparr> # numbered_lines path (n + 1) ls"

lemma numbered_append: "numbered_lines path n (a @ b) = numbered_lines path n a @ numbered_lines path (n + of_nat (length a)) b"
  by (induction a arbitrary: n) (simp_all add: algebra_simps)

definition readable :: "bytes \<Rightarrow> bool" where
  "readable bs \<longleftrightarrow> list_all (\<lambda>l. from_utf8 l \<noteq> None) (file_lines bs)"

definition undisturbed :: "poll_env \<Rightarrow> bool" where
  "undisturbed env \<longleftrightarrow> (\<forall>i. pe_read_ok env i \<and> pe_open env i)"

lemma read_lines_all:
  "undisturbed env \<Longrightarrow> readable rest \<Longrightarrow>
     read_lines None env path i rest st =
       (numbered_lines path (fl_line_number st) (file_lines rest),
        \<lparr>fl_position = fl_position st + of_nat (length rest), fl_line_number = fl_line_number st + of_nat (length (file_lines rest))\<rparr>)"
proof (induction rest arbitrary: i st rule: length_induct)
  case (1 rest)
  show ?case
  proof (cases "rest = []")
    case True
    then show ?thesis by (simp add: read_lines.simps)
  next
    case False
    let ?l = "next_line rest" and ?r = "drop (length (next_line rest)) rest"
    obtain s where s: "from_utf8 ?l = Some s"
      using 1(3) False by (auto simp: readable_def file_lines.simps [of rest])
    have r: "readable ?r" using 1(3) False by (simp add: readable_def file_lines.simps [of rest])
    have len: "of_nat (length rest) = of_nat (length ?l) + (of_nat (length ?r) :: u64)"
      using next_line_length [of rest] by (simp flip: of_nat_add)
    have ih: "read_lines None env path j ?r st' = (numbered_lines path (fl_line_number st') (file_lines ?r),
        \<lparr>fl_position = fl_position st' + of_nat (length ?r), fl_line_number = fl_line_number st' + of_nat (length (file_lines ?r))\<rparr>)" for j st'
      using 1(1,2) next_line_shrinks [OF False] r by blast
    have c: "file_lines rest = ?l # file_lines ?r" using False by (simp add: file_lines.simps [of rest])
    show ?thesis using 1(2) s lossy_valid [OF s]
      by (subst read_lines.simps) (simp add: False undisturbed_def wanted_def ih c len Let_def algebra_simps del: length_drop)
  qed
qed

end
