(* ===== verification/Log_Lines.thy ===== *)
theory Log_Lines
  imports Log_Tailer
begin

text \<open>
  What the log tailer delivers: the files do not interfere, the lines of a file that grows by whole lines
  arrive completely and in order, and a line that is not valid text stops its file for good.
\<close>

section \<open>One file\<close>

fun follow :: "(rstring \<Rightarrow> bool) option \<Rightarrow> rstring \<Rightarrow> (poll_env \<times> file_view) list \<Rightarrow> FileState \<Rightarrow> LogLine list \<times> FileState" where
  "follow flt path [] st = ([], st)"
| "follow flt path ((env, view) # views) st =
     (let (ls, st) = tail_state flt env path view st; (rest, st) = follow flt path views st in (ls @ rest, st))"

lemma read_lines_file: "l \<in> set (fst (read_lines flt env path i rest st)) \<Longrightarrow> ll_file l = path"
proof (induction flt env path i rest st rule: read_lines.induct)
  case (1 flt env path i rest st)
  from 1(3) show ?case
    by (subst (asm) read_lines.simps) (auto simp: Let_def dest: 1(1) 1(2) split: if_splits option.splits)
qed

lemma tail_state_file: "l \<in> set (fst (tail_state flt env path view st)) \<Longrightarrow> ll_file l = path"
  by (auto simp: tail_state_def Let_def dest: read_lines_file split: file_view.splits if_splits)

abbreviation of_file :: "rstring \<Rightarrow> LogLine list \<Rightarrow> LogLine list" where
  "of_file path ls \<equiv> filter (\<lambda>l. ll_file l = path) ls"

lemma of_file_tail: "of_file path (fst (tail_state flt env path' view st)) = (if path' = path then fst (tail_state flt env path' view st) else [])"
  using tail_state_file [of _ flt env path' view st] by (auto simp: filter_id_conv filter_empty_conv)

lemma tail_file_other: "path' \<noteq> path \<Longrightarrow> tl_file_states (snd (tail_file env view path' t)) path = tl_file_states t path \<and>
    of_file path (fst (tail_file env view path' t)) = []"
  using of_file_tail [of path "tl_filter t" env path' view]
  by (auto simp: tail_file_def split: option.splits prod.splits) (metis fst_conv)

lemma tail_file_own: "tl_file_states t path = Some st \<Longrightarrow>
    tl_file_states (snd (tail_file env view path t)) path = Some (snd (tail_state (tl_filter t) env path view st)) \<and>
    of_file path (fst (tail_file env view path t)) = fst (tail_state (tl_filter t) env path view st)"
  using of_file_tail [of path "tl_filter t" env path view st] by (auto simp: tail_file_def split: prod.splits)

lemma tail_file_filter [simp]: "tl_filter (snd (tail_file env view path t)) = tl_filter t"
  by (simp add: tail_file_def split: option.splits prod.splits)

lemma poll_files_other: "path \<notin> set paths \<Longrightarrow> tl_file_states (snd (poll_files view paths t)) path = tl_file_states t path \<and>
    of_file path (fst (poll_files view paths t)) = []"
proof (induction paths arbitrary: t)
  case (Cons p paths)
  then have "p \<noteq> path" by auto
  from tail_file_other [OF this] show ?case using Cons by (simp add: case_prod_unfold Let_def)
qed simp

lemma poll_files_filter [simp]: "tl_filter (snd (poll_files view paths t)) = tl_filter t"
  by (induction paths arbitrary: t) (simp_all add: case_prod_unfold Let_def)

lemma poll_files_own:
  "distinct paths \<Longrightarrow> path \<in> set paths \<Longrightarrow> tl_file_states t path = Some st \<Longrightarrow>
     tl_file_states (snd (poll_files view paths t)) path = Some (snd (tail_state (tl_filter t) (fst (view path)) path (snd (view path)) st)) \<and>
     of_file path (fst (poll_files view paths t)) = fst (tail_state (tl_filter t) (fst (view path)) path (snd (view path)) st)"
proof (induction paths arbitrary: t)
  case (Cons p paths)
  show ?case
  proof (cases "p = path")
    case True
    then show ?thesis using Cons.prems tail_file_own [OF Cons.prems(3), of "fst (view path)" "snd (view path)"] poll_files_other [of path paths]
      by (simp add: case_prod_unfold Let_def)
  next
    case False
    then show ?thesis using Cons.prems Cons.IH [of "snd (tail_file (fst (view p)) (snd (view p)) p t)"]
        tail_file_other [OF False, of "fst (view p)" "snd (view p)" t]
      by (simp add: case_prod_unfold Let_def)
  qed
qed simp

lemma tail_rounds_follow:
  "distinct paths \<Longrightarrow> path \<in> set paths \<Longrightarrow> tl_file_states t path = Some st \<Longrightarrow>
     of_file path (fst (tail_rounds paths views t)) = fst (follow (tl_filter t) path (map (\<lambda>v. v path) views) st)"
proof (induction views arbitrary: t st)
  case (Cons view views)
  note p = poll_files_own [OF Cons.prems(1-3), of view]
  show ?case using p Cons.IH [OF Cons.prems(1,2), of "snd (poll_files view paths t)"]
    by (cases "view path") (simp add: case_prod_unfold Let_def)
qed simp

lemma init_files_kept: "tl_file_states t path = Some st \<Longrightarrow> tl_file_states (init_files metadata paths t) path = Some st"
proof (induction paths arbitrary: t)
  case (Cons p paths)
  then show ?case by (cases "p = path") simp_all
qed simp

lemma init_files_new:
  "path \<in> set paths \<Longrightarrow> tl_file_states t path = None \<Longrightarrow>
     tl_file_states (init_files metadata paths t) path =
       Some \<lparr>fl_position = (if lt_tail_from_end (tl_config t) then get_file_size metadata path else 0), fl_line_number = 0\<rparr>"
proof (induction paths arbitrary: t)
  case (Cons p paths)
  then show ?case by (cases "p = path") (auto intro: init_files_kept)
qed simp

lemma init_files_filter [simp]: "tl_filter (init_files metadata paths t) = tl_filter t"
  by (induction paths arbitrary: t) simp_all

section \<open>A file that grows\<close>

text \<open>The contents the polls find, when each poll finds one more piece appended.\<close>

fun snapshots :: "bytes \<Rightarrow> bytes list \<Rightarrow> bytes list" where
  "snapshots old [] = []"
| "snapshots old (p # ps) = (old @ p) # snapshots (old @ p) ps"

definition seen :: "poll_env \<Rightarrow> bytes \<Rightarrow> poll_env \<times> file_view" where
  "seen env c = (env, File (of_nat (length c)) c True)"

lemma tail_grown:
  assumes "undisturbed env" "readable p" "length (old @ p) < 2 ^ 64" "fl_position st = of_nat (length old)"
  shows "tail_state None env path (File (of_nat (length (old @ p))) (old @ p) True) st =
    (numbered_lines path (fl_line_number st) (file_lines p),
     \<lparr>fl_position = of_nat (length (old @ p)), fl_line_number = fl_line_number st + of_nat (length (file_lines p))\<rparr>)"
proof -
  have u: "unat (of_nat (length old) :: u64) = length old" "unat (of_nat (length (old @ p)) :: u64) = length (old @ p)"
    using assms(3) by (simp_all add: unat_of_nat del: of_nat_add)
  have le: "\<not> of_nat (length (old @ p)) < (of_nat (length old) :: u64)" using u by (simp add: word_less_nat_alt del: of_nat_add)
  show ?thesis
  proof (cases "p = []")
    case True
    then show ?thesis using assms(4) by (cases st) (simp add: tail_state_def)
  next
    case False
    then have "of_nat (length (old @ p)) \<noteq> (of_nat (length old) :: u64)" using u by (metis length_append add_cancel_left_right length_0_conv)
    then show ?thesis using assms(4) le u(1) read_lines_all [OF assms(1,2), of path 0 st]
      by (simp add: tail_state_def del: of_nat_add length_append) (simp add: Let_def)
  qed
qed

lemma follow_grown:
  "undisturbed env \<Longrightarrow> list_all readable ps \<Longrightarrow> length (old @ concat ps) < 2 ^ 64 \<Longrightarrow> fl_position st = of_nat (length old) \<Longrightarrow>
     fst (follow None path (map (seen env) (snapshots old ps)) st) = numbered_lines path (fl_line_number st) (concat (map file_lines ps))"
proof (induction ps arbitrary: old st)
  case (Cons p ps)
  have len: "length (old @ p) < 2 ^ 64" using Cons.prems(3) by simp
  note t = tail_grown [OF Cons.prems(1) _ len Cons.prems(4), of path]
  show ?case using t Cons.prems Cons.IH [of "old @ p"]
    by (simp add: seen_def numbered_append Let_def case_prod_unfold del: length_append of_nat_add)
qed simp

lemma whole_pieces: "list_all whole ps \<Longrightarrow> concat (map file_lines ps) = file_lines (concat ps)"
  by (induction ps) (simp_all add: file_lines_append)

text \<open>C26. For a tailer that starts at the beginning, without a filter: of every watched file it delivers,
  numbered from 1 and in order, the lines of each piece that was appended between two polls, each piece
  split by itself. When every piece ends with a line break these are exactly the lines of the file; a line
  that a poll finds half written is delivered as two. Other files make no difference.\<close>

theorem log_lines_delivered:
  assumes "distinct (resolve_glob read_dir (lt_pattern config))" "path \<in> set (resolve_glob read_dir (lt_pattern config))"
    and "\<not> lt_tail_from_end config" "lt_filter config = None"
    and "map (\<lambda>v. v path) views = map (seen env) (snapshots [] ps)"
    and "undisturbed env" "list_all readable ps" "length (concat ps) < 2 ^ 64"
  shows "of_file path (fst (tailer_run read_dir metadata views (LogTailer_new regex config))) =
      numbered_lines path 0 (concat (map file_lines ps)) \<and>
    (list_all whole ps \<longrightarrow> concat (map file_lines ps) = file_lines (concat ps))"
proof -
  let ?t = "LogTailer_new regex config" and ?files = "resolve_glob read_dir (lt_pattern config)"
  let ?st = "\<lparr>fl_position = 0, fl_line_number = 0\<rparr>"
  have t: "tl_filter ?t = None" "tl_config ?t = config" "tl_file_states ?t path = None" by (simp_all add: LogTailer_new_def assms(4))
  have init: "tl_file_states (init_files metadata ?files ?t) path = Some ?st"
    using init_files_new [OF assms(2) t(3)] assms(3) t(2) by simp
  have "?files \<noteq> []" using assms(2) by auto
  then have "fst (tailer_run read_dir metadata views ?t) = fst (tail_rounds ?files views (init_files metadata ?files ?t))"
    by (simp add: tailer_run_def t Let_def)
  then show ?thesis
    using tail_rounds_follow [OF assms(1,2) init, of views] follow_grown [OF assms(6,7), of "[]" ?st path] assms(5,8) whole_pieces [of ps]
    by (simp add: t)
qed

definition calm :: poll_env where
  "calm = \<lparr>pe_read_ok = (\<lambda>_. True), pe_open = (\<lambda>_. True)\<rparr>"

definition app_log :: LogTailerConfig where
  "app_log = LogTailerConfig_default\<lparr>lt_pattern := lit ''/l/*'', lt_tail_from_end := False\<rparr>"

lemma app_log_files: "resolve_glob (\<lambda>_. Some [(lit ''a'', True), (lit ''d'', False)]) (lt_pattern app_log) = [lit ''/l/a'']"
  by (simp add: resolve_glob_def app_log_def split_dir_def matches_glob_def)

text \<open>The second poll finds the rest of a line whose beginning the first one found.\<close>

theorem log_lines_delivered_witness:
  "of_file (lit ''/l/a'') (fst (tailer_run (\<lambda>_. Some [(lit ''a'', True), (lit ''d'', False)]) (\<lambda>_. None)
      [\<lambda>_. seen calm [97, 98], \<lambda>_. seen calm [97, 98, 99, 10]] (LogTailer_new (\<lambda>_. None) app_log))) =
   [\<lparr>ll_file = lit ''/l/a'', ll_content = [97, 98], ll_line_number = 1\<rparr>, \<lparr>ll_file = lit ''/l/a'', ll_content = [99], ll_line_number = 2\<rparr>]"
proof -
  let ?ps = "[[97, 98], [99, 10]] :: bytes list"
  have lines: "file_lines [97, 98] = [[97, 98]]" "file_lines [99, 10] = [[99, 10]]"
    by (simp_all add: file_lines.simps [of "[97, 98]"] file_lines.simps [of "[99, 10]"])
  have u: "from_utf8 [97, 98] = Some [97, 98]" "from_utf8 [99, 10] = Some [99, 10]" by (simp_all add: from_utf8_ascii)
  have "list_all readable ?ps" using u by (simp add: readable_def lines)
  moreover have "undisturbed calm" by (simp add: undisturbed_def calm_def)
  moreover have "lt_filter app_log = None" "\<not> lt_tail_from_end app_log" by (simp_all add: app_log_def LogTailerConfig_default_def)
  ultimately show ?thesis
    using log_lines_delivered [of "\<lambda>_. Some [(lit ''a'', True), (lit ''d'', False)]" app_log "lit ''/l/a''"
        "[\<lambda>_. seen calm [97, 98], \<lambda>_. seen calm [97, 98, 99, 10]]" calm ?ps "\<lambda>_. None" "\<lambda>_. None"]
    unfolding app_log_files
    by (simp add: lines lossy_valid [OF u(1)] lossy_valid [OF u(2)] trim_end_def is_whitespace_def)
qed

section \<open>A line that is not valid text\<close>

lemma next_line_line: "10 \<notin> set (butlast bad) \<Longrightarrow> bad \<noteq> [] \<Longrightarrow> last bad = 10 \<Longrightarrow> next_line (bad @ cs) = bad"
proof (induction bad)
  case (Cons b bad)
  then show ?case by (cases "bad = []") auto
qed simp

lemma tail_stuck:
  assumes "10 \<notin> set (butlast bad)" "bad \<noteq> []" "last bad = 10" "from_utf8 bad = None"
    and "fl_position st = of_nat (length old)" "length (old @ bad @ p) < 2 ^ 64"
  shows "tail_state flt env path (File (of_nat (length (old @ bad @ p))) (old @ bad @ p) True) st = ([], st)"
proof -
  have u: "unat (of_nat (length old) :: u64) = length old" "unat (of_nat (length (old @ bad @ p)) :: u64) = length (old @ bad @ p)"
    using assms(6) by (simp_all add: unat_of_nat del: of_nat_add)
  have "\<not> of_nat (length (old @ bad @ p)) < (of_nat (length old) :: u64)" using u by (simp add: word_less_nat_alt del: of_nat_add)
  moreover have "read_lines flt env path 0 (bad @ p) st = ([], st)"
    by (subst read_lines.simps) (simp add: next_line_line [OF assms(1-3)] assms(4))
  ultimately show ?thesis using assms(5) u(1)
    by (simp add: tail_state_def del: of_nat_add length_append)
qed

text \<open>A complete line that is not valid UTF-8 stops its file: whatever is appended after it, and
  however often the file is polled, nothing of the file is delivered again and the position never moves.\<close>

lemma invalid_line_stops_file:
  assumes "10 \<notin> set (butlast bad)" "bad \<noteq> []" "last bad = 10" "from_utf8 bad = None"
    and "fl_position st = of_nat (length old)" "length (old @ bad @ p @ concat ps) < 2 ^ 64"
  shows "follow flt path (map (seen env) (snapshots old ((bad @ p) # ps))) st = ([], st)"
proof -
  have rest: "length (old @ bad @ q @ concat ps) < 2 ^ 64 \<Longrightarrow> follow flt path (map (seen env) (snapshots (old @ bad @ q) ps)) st = ([], st)" for q
  proof (induction ps arbitrary: q)
    case (Cons p' ps)
    then show ?case using tail_stuck [OF assms(1-5), of "q @ p'" flt env path] Cons.IH [of "q @ p'"] by (simp add: seen_def)
  qed simp
  show ?thesis using tail_stuck [OF assms(1-5), of p flt env path] rest [of p] assms(6) by (simp add: seen_def)
qed

lemma invalid_line_stops_file_example:
  "follow None (lit ''/l/a'') (map (seen calm) (snapshots [] [[0xFF, 10], [97, 10]])) \<lparr>fl_position = 0, fl_line_number = 0\<rparr> =
    ([], \<lparr>fl_position = 0, fl_line_number = 0\<rparr>)"
proof -
  have "from_utf8 [0xFF, 10] = None" by code_simp
  then show ?thesis
    using invalid_line_stops_file [of "[0xFF, 10]" "\<lparr>fl_position = 0, fl_line_number = 0\<rparr>" "[]" "[]" "[[97, 10]]" None "lit ''/l/a''" calm] by simp
qed

end
