(* ===== verification/Health_Checks.thy ===== *)
theory Health_Checks
  imports Text Keyed_Table
begin

text \<open>
  The health checks of the supervisor (\<open>supervisor/health.rs\<close>): the three kinds of check, what each makes
  of the answers of the network, and the table of the latest results. The URL parser and the answers of the
  network are arguments; a time-out is one of the answers. Time stamps are left out, a latency is an
  argument.
\<close>

section \<open>Configuration and results\<close>

record HealthCheckConfig =
  hk_check_interval_ms :: nat
  hk_check_timeout_ms :: nat
  hk_failure_threshold :: u32
  hk_success_threshold :: u32

definition HealthCheckConfig_default :: HealthCheckConfig where
  "HealthCheckConfig_default =
     \<lparr>hk_check_interval_ms = 10000, hk_check_timeout_ms = 5000, hk_failure_threshold = 3, hk_success_threshold = 1\<rparr>"

datatype HttpMethod = Get | Head

datatype HealthCheckType =
    Check_http rstring u16 HttpMethod
  | Check_tcp rstring
  | Check_grpc rstring rstring

datatype HealthStatus = Healthy | Unhealthy | Unknown

record HealthCheckResult =
  hr_service_name :: rstring
  hr_status :: HealthStatus
  hr_latency :: nat
  hr_consecutive_failures :: u32
  hr_error :: "rstring option"

record HealthCheck =
  hc_service_name :: rstring
  hc_check_type :: HealthCheckType
  hc_config :: HealthCheckConfig

record HealthPoller =
  hp_checks :: "HealthCheck list"
  hp_statuses :: "rstring \<rightharpoonup> HealthCheckResult"

definition HealthPoller_new :: HealthPoller where
  "HealthPoller_new = \<lparr>hp_checks = [], hp_statuses = Map.empty\<rparr>"

definition register :: "HealthCheck \<Rightarrow> HealthPoller \<Rightarrow> HealthPoller" where
  "register check p = p\<lparr>hp_checks := hp_checks p @ [check]\<rparr>"

definition get_status :: "rstring \<Rightarrow> HealthPoller \<Rightarrow> HealthCheckResult option" where
  "get_status service_name p = hp_statuses p service_name"

section \<open>One check\<close>

text \<open>The answers of the network: to a connection attempt (a refusal carries its text), to a write (an error
  text, if it fails), and to the one read (None if it fails or takes too long).\<close>

datatype connect_answer = Accepted | Refused rstring | Timed_out

record probe_answers =
  pa_connect :: "rstring \<Rightarrow> connect_answer"
  pa_write :: "rstring \<Rightarrow> rstring option"
  pa_read :: "bytes option"
  pa_elapsed :: nat

text \<open>What the URL parser gives: host, port (or the one known for the scheme) and path.\<close>

record Url =
  url_host :: "rstring option"
  url_port :: "u16 option"
  url_path :: rstring

type_synonym url_parser = "rstring \<Rightarrow> rstring + Url"

definition unhealthy :: "rstring \<Rightarrow> HealthStatus \<times> rstring option" where
  "unhealthy e = (Unhealthy, Some e)"

definition http_request :: "rstring \<Rightarrow> rstring \<Rightarrow> rstring" where
  "http_request path host = lit ''GET '' @ path @ lit '' HTTP/1.0'' @ [13, 10] @ lit ''Host: '' @ host @ [13, 10, 13, 10]"

definition check_http :: "url_parser \<Rightarrow> probe_answers \<Rightarrow> rstring \<Rightarrow> u16 \<Rightarrow> HealthStatus \<times> rstring option" where
  "check_http parse_url a url expected_status =
     (case parse_url url of
        Inl e \<Rightarrow> unhealthy (lit ''Invalid URL: '' @ e)
      | Inr parsed \<Rightarrow>
     (case url_host parsed of
        None \<Rightarrow> unhealthy (lit ''health check URL has no host: '' @ url)
      | Some host \<Rightarrow>
     (case url_port parsed of
        None \<Rightarrow> unhealthy (lit ''health check URL has no port and unknown scheme: '' @ url)
      | Some port \<Rightarrow>
     (case pa_connect a (host @ lit '':'' @ decimal (unat port)) of
        Refused e \<Rightarrow> unhealthy (lit ''Connection failed: '' @ e)
      | Timed_out \<Rightarrow> unhealthy (lit ''Connection timed out'')
      | Accepted \<Rightarrow>
     (case pa_write a (http_request (url_path parsed) host) of
        Some e \<Rightarrow> unhealthy (lit ''Failed to send request: '' @ e)
      | None \<Rightarrow>
     (case pa_read a of
        Some (b # bs) \<Rightarrow>
          if str_contains (lit '' '' @ decimal (unat expected_status) @ lit '' '') (from_utf8_lossy (take 1024 (b # bs)))
          then (Healthy, None) else unhealthy (lit ''Unexpected response'')
      | _ \<Rightarrow> unhealthy (lit ''No response'')))))))"

definition check_tcp :: "probe_answers \<Rightarrow> rstring \<Rightarrow> HealthStatus \<times> rstring option" where
  "check_tcp a address =
     (case pa_connect a address of
        Accepted \<Rightarrow> (Healthy, None)
      | Refused e \<Rightarrow> unhealthy (lit ''TCP connection failed: '' @ e)
      | Timed_out \<Rightarrow> unhealthy (lit ''TCP connection timed out''))"

definition http2_preface :: rstring where
  "http2_preface = lit ''PRI * HTTP/2.0'' @ [13, 10, 13, 10] @ lit ''SM'' @ [13, 10, 13, 10]"

definition check_grpc :: "probe_answers \<Rightarrow> rstring \<Rightarrow> HealthStatus \<times> rstring option" where
  "check_grpc a address =
     (case pa_connect a address of
        Accepted \<Rightarrow>
          (case pa_write a http2_preface of
             Some e \<Rightarrow> unhealthy (lit ''Failed to send HTTP/2 preface: '' @ e)
           | None \<Rightarrow> (Healthy, None))
      | Refused e \<Rightarrow> unhealthy (lit ''gRPC connection failed: '' @ e)
      | Timed_out \<Rightarrow> unhealthy (lit ''gRPC connection timed out''))"

definition execute_check :: "url_parser \<Rightarrow> probe_answers \<Rightarrow> HealthCheck \<Rightarrow> HealthCheckResult" where
  "execute_check parse_url a check =
     (case (case hc_check_type check of
              Check_http url expected_status method \<Rightarrow> check_http parse_url a url expected_status
            | Check_tcp address \<Rightarrow> check_tcp a address
            | Check_grpc address service \<Rightarrow> check_grpc a address) of
        (status, error) \<Rightarrow>
          \<lparr>hr_service_name = hc_service_name check, hr_status = status, hr_latency = pa_elapsed a,
           hr_consecutive_failures = (if status = Unhealthy then 1 else 0), hr_error = error\<rparr>)"

section \<open>Polling\<close>

text \<open>Each registered check runs in a task of its own; a round of one of them replaces the result of its
  service. The rounds of all tasks, in the order in which they end, are the input.\<close>

definition initial_result :: "rstring \<Rightarrow> HealthCheckResult" where
  "initial_result name =
     \<lparr>hr_service_name = name, hr_status = Unknown, hr_latency = 0, hr_consecutive_failures = 0, hr_error = None\<rparr>"

fun init_statuses :: "HealthCheck list \<Rightarrow> (rstring \<rightharpoonup> HealthCheckResult) \<Rightarrow> (rstring \<rightharpoonup> HealthCheckResult)" where
  "init_statuses [] st = st"
| "init_statuses (check # checks) st =
     init_statuses checks (st(hc_service_name check \<mapsto> initial_result (hc_service_name check)))"

type_synonym health_round = "HealthCheck \<times> probe_answers"

definition health_step :: "url_parser \<Rightarrow> health_round \<Rightarrow> (rstring \<rightharpoonup> HealthCheckResult) \<Rightarrow> HealthCheckResult \<times> (rstring \<rightharpoonup> HealthCheckResult)" where
  "health_step parse_url rd st =
     (let result = execute_check parse_url (snd rd) (fst rd) in (result, st(hc_service_name (fst rd) \<mapsto> result)))"

definition poller_run :: "url_parser \<Rightarrow> health_round list \<Rightarrow> HealthPoller \<Rightarrow> HealthPoller" where
  "poller_run parse_url rounds p =
     (if hp_checks p = [] then p
      else p\<lparr>hp_statuses := snd (run_outputs (health_step parse_url) rounds (init_statuses (hp_checks p) (hp_statuses p)))\<rparr>)"

section \<open>The table of results\<close>

definition round_service :: "health_round \<Rightarrow> rstring" where
  "round_service rd = hc_service_name (fst rd)"

interpretation health_table: keyed_table round_service "health_step parse_url" "\<lambda>st. st"
    "\<lambda>rd _. (execute_check parse_url (snd rd) (fst rd), Some (execute_check parse_url (snd rd) (fst rd)))" for parse_url
  by unfold_locales (simp_all add: health_step_def round_service_def Let_def)

lemma last_result:
  "snd (run_outputs (\<lambda>rd _. (f rd, Some (f rd))) rounds st) = (if rounds = [] then st else Some (f (last rounds)))"
  by (induction rounds arbitrary: st) (simp_all add: case_prod_unfold)

lemma init_statuses_at:
  "init_statuses checks st name = (if name \<in> hc_service_name ` set checks then Some (initial_result name) else st name)"
  by (induction checks arbitrary: st) auto

text \<open>The thresholds have no effect.\<close>

lemma thresholds_unused:
  "execute_check parse_url a (check\<lparr>hc_config := config\<rparr>) = execute_check parse_url a check"
  by (simp add: execute_check_def)

lemma failures_at_most_one: "hr_consecutive_failures (execute_check parse_url a check) = (if hr_status (execute_check parse_url a check) = Unhealthy then 1 else 0)"
  by (simp add: execute_check_def split: prod.splits)

text \<open>C25. The status of a service is what the latest round of one of its checks found, and unknown before:
  one failed check makes it unhealthy and one good check healthy, whatever the thresholds of its
  configuration, and the failures counted are never more than one. Rounds of other services make no
  difference.\<close>

theorem health_status_is_last_check:
  assumes "set (map fst rounds) \<subseteq> set (hp_checks p)" "hp_statuses p = Map.empty"
  shows "get_status name (poller_run parse_url rounds p) =
      (case filter (\<lambda>rd. round_service rd = name) rounds of
         [] \<Rightarrow> if name \<in> hc_service_name ` set (hp_checks p) then Some (initial_result name) else None
       | rd # rds \<Rightarrow> Some (execute_check parse_url (snd (last (rd # rds))) ((fst (last (rd # rds)))\<lparr>hc_config := config\<rparr>))) \<and>
    (case get_status name (poller_run parse_url rounds p) of
       Some r \<Rightarrow> hr_consecutive_failures r = (if hr_status r = Unhealthy then 1 else 0)
     | None \<Rightarrow> name \<notin> hc_service_name ` set (hp_checks p))"
proof (cases "hp_checks p = []")
  case True
  then show ?thesis using assms by (simp add: poller_run_def get_status_def)
next
  case False
  let ?mine = "filter (\<lambda>rd. round_service rd = name) rounds"
  have s: "get_status name (poller_run parse_url rounds p) =
      (if ?mine = [] then init_statuses (hp_checks p) (hp_statuses p) name
       else Some (execute_check parse_url (snd (last ?mine)) (fst (last ?mine))))"
    using health_table.slot_run [of parse_url rounds "init_statuses (hp_checks p) (hp_statuses p)" name] False
    by (simp add: get_status_def poller_run_def last_result)
  show ?thesis
  proof (cases ?mine)
    case Nil
    then show ?thesis using s assms(2) by (simp add: init_statuses_at initial_result_def)
  next
    case (Cons rd rds)
    then show ?thesis using s by (simp add: thresholds_unused failures_at_most_one)
  qed
qed

section \<open>HTTP checks\<close>

text \<open>An HTTP check looks for the status code anywhere in what it has read, the body included.\<close>

lemma http_healthy_iff:
  "fst (check_http parse_url a url code) = Healthy \<longleftrightarrow>
     (\<exists>parsed host port reply before after. parse_url url = Inr parsed \<and> url_host parsed = Some host \<and> url_port parsed = Some port \<and>
        pa_connect a (host @ lit '':'' @ decimal (unat port)) = Accepted \<and> pa_write a (http_request (url_path parsed) host) = None \<and>
        pa_read a = Some reply \<and> reply \<noteq> [] \<and>
        from_utf8_lossy (take 1024 reply) = before @ lit '' '' @ decimal (unat code) @ lit '' '' @ after)"
  by (auto simp: check_http_def unhealthy_def str_contains_iff split: sum.splits option.splits connect_answer.splits list.splits)

text \<open>A server error whose text mentions the number is healthy.\<close>

definition error_page :: rstring where
  "error_page = lit ''HTTP/1.0 500 Internal Server Error'' @ [13, 10, 13, 10] @ lit ''failed after 200 attempts''"

definition error_answers :: probe_answers where
  "error_answers = \<lparr>pa_connect = (\<lambda>_. Accepted), pa_write = (\<lambda>_. None), pa_read = Some (map of_nat error_page), pa_elapsed = 3\<rparr>"

lemma from_utf8_lossy_ascii: "list_all (\<lambda>b. unat b < 128) bs \<Longrightarrow> from_utf8_lossy bs = map unat bs"
  by (rule lossy_valid, rule from_utf8_ascii)

definition root_url :: url_parser where
  "root_url _ = Inr \<lparr>url_host = Some (lit ''db''), url_port = Some 80, url_path = lit ''/''\<rparr>"

lemma error_page_healthy: "check_http root_url error_answers url 200 = (Healthy, None)"
proof -
  have t: "take 1024 (map of_nat error_page :: bytes) = map of_nat error_page" by (simp add: error_page_def)
  have l: "from_utf8_lossy (map of_nat error_page) = error_page"
    using from_utf8_lossy_ascii [of "map of_nat error_page"] by (simp add: error_page_def)
  have c: "str_contains (lit '' '' @ decimal 200 @ lit '' '') error_page" by code_simp
  obtain b bs where r: "map of_nat error_page = (b # bs :: bytes)" by (simp add: error_page_def)
  show ?thesis using t l c by (simp add: check_http_def root_url_def error_answers_def r)
qed

definition db_check :: HealthCheck where
  "db_check = \<lparr>hc_service_name = lit ''db'', hc_check_type = Check_tcp (lit ''db:5432''), hc_config = HealthCheckConfig_default\<rparr>"

definition down_answers :: probe_answers where
  "down_answers = \<lparr>pa_connect = (\<lambda>_. Timed_out), pa_write = (\<lambda>_. None), pa_read = None, pa_elapsed = 5000\<rparr>"

theorem health_status_is_last_check_witness:
  "case get_status (lit ''db'') (poller_run root_url [(db_check, error_answers), (db_check, down_answers)] (register db_check HealthPoller_new)) of
     Some r \<Rightarrow> hr_status r = Unhealthy \<and> hr_consecutive_failures r = 1
   | None \<Rightarrow> False"
  using health_status_is_last_check [of "[(db_check, error_answers), (db_check, down_answers)]" "register db_check HealthPoller_new" "lit ''db''"
      root_url HealthCheckConfig_default]
  by (simp add: register_def HealthPoller_new_def round_service_def db_check_def down_answers_def execute_check_def check_tcp_def unhealthy_def)

end
