(* ===== verification/Discovery.thy ===== *)
theory Discovery
  imports Text
begin

text \<open>
  Discovery of services (\<open>supervisor/discovery.rs\<close>): the scan of a range of ports in batches, the
  detection of the protocol on an open port, and the graph. What a peer sends is an argument: the bytes
  that arrive before each read.
\<close>

section \<open>Data\<close>

type_synonym address = "rstring \<times> u16"

record DiscoveryConfig =
  dc_host :: rstring
  dc_port_range :: "u16 \<times> u16"
  dc_timeout_ms :: nat
  dc_max_concurrent :: nat

definition DiscoveryConfig_default :: DiscoveryConfig where
  "DiscoveryConfig_default =
     \<lparr>dc_host = lit ''127.0.0.1'', dc_port_range = (1, 1024), dc_timeout_ms = 100, dc_max_concurrent = 100\<rparr>"

datatype ServiceType =
    Svc_Http | Svc_Grpc | Svc_Postgres | Svc_Mysql | Svc_Redis | Svc_Kafka | Svc_Dragonfly | Svc_QuestDB | Svc_SeaweedFS | Svc_Unknown

record DiscoveredService =
  ds_address :: address
  ds_service_type :: ServiceType
  ds_confidence :: u8
  ds_version :: "rstring option"

record DependencyNode =
  dn_address :: address
  dn_service_type :: ServiceType
  dn_depends_on :: "address set"
  dn_depended_by :: "address set"

record DiscoveryEngine =
  de_config :: DiscoveryConfig
  de_services :: "address \<rightharpoonup> DiscoveredService"
  de_graph :: "address \<rightharpoonup> DependencyNode"

definition DiscoveryEngine_new :: "DiscoveryConfig \<Rightarrow> DiscoveryEngine" where
  "DiscoveryEngine_new config = \<lparr>de_config = config, de_services = Map.empty, de_graph = Map.empty\<rparr>"

section \<open>Talking to an open port\<close>

text \<open>The peer of a connection: the bytes received and not yet read, what arrives before each further
  read, and whether each further write succeeds. A read that ends with an error or takes too long is one
  without bytes.\<close>

record peer =
  pr_pending :: bytes
  pr_arrivals :: "bytes list"
  pr_writes :: "bool list"

definition read_some :: "nat \<Rightarrow> peer \<Rightarrow> bytes \<times> peer" where
  "read_some n p =
     (let available = pr_pending p @ concat (take 1 (pr_arrivals p)) in
      (take n available, p\<lparr>pr_pending := drop n available, pr_arrivals := tl (pr_arrivals p)\<rparr>))"

definition write_all :: "bytes \<Rightarrow> peer \<Rightarrow> bool \<times> peer" where
  "write_all d p = (\<forall>ok \<in> set (take 1 (pr_writes p)). ok, p\<lparr>pr_writes := tl (pr_writes p)\<rparr>)"

definition options_request :: bytes where
  "options_request = map of_nat (lit ''OPTIONS / HTTP/1.0'' @ [13, 10] @ lit ''Host: localhost'' @ [13, 10, 13, 10])"

text \<open>A line is a server header if it begins so in lower case; only ASCII letters have these lower case forms.\<close>

definition try_http :: "peer \<Rightarrow> rstring option \<times> peer" where
  "try_http p =
     (case write_all options_request p of
        (False, p) \<Rightarrow> (None, p)
      | (True, p) \<Rightarrow>
          (case read_some 1024 p of
             (buf, p) \<Rightarrow>
               (let response = from_utf8_lossy buf in
                if buf \<noteq> [] \<and> starts_with (lit ''HTTP/'') response
                then (Some (case List.find (\<lambda>line. starts_with (lit ''server:'') (map ascii_lower line)) (str_lines response) of
                              Some line \<Rightarrow> trim (drop 7 line)
                            | None \<Rightarrow> lit ''unknown''), p)
                else (None, p))))"

definition pg_startup :: bytes where
  "pg_startup = [0, 0, 0, 8, 0, 3, 0, 0]"

definition try_postgres :: "peer \<Rightarrow> bool \<times> peer" where
  "try_postgres p =
     (case write_all pg_startup p of
        (False, p) \<Rightarrow> (False, p)
      | (True, p) \<Rightarrow> (case read_some 256 p of (buf, p) \<Rightarrow> (buf \<noteq> [] \<and> hd buf = 82, p)))"

definition try_redis :: "peer \<Rightarrow> bool \<times> peer" where
  "try_redis p =
     (case write_all (map of_nat (lit ''PING'' @ [13, 10])) p of
        (False, p) \<Rightarrow> (False, p)
      | (True, p) \<Rightarrow>
          (case read_some 256 p of
             (buf, p) \<Rightarrow>
               (let response = from_utf8_lossy buf in
                (buf \<noteq> [] \<and> (str_contains (lit ''PONG'') response \<or> str_contains (lit ''NOAUTH'') response), p))))"

definition try_mysql :: "peer \<Rightarrow> bool \<times> peer" where
  "try_mysql p = (case read_some 256 p of (buf, p) \<Rightarrow> (5 < length buf \<and> (buf ! 4 = 0x0A \<or> buf ! 4 = 0x09), p))"

definition well_known_port :: "u16 \<Rightarrow> ServiceType" where
  "well_known_port port =
     (if port \<in> {80, 443, 8080, 8443} then Svc_Http
      else if port = 5432 then Svc_Postgres
      else if port = 3306 then Svc_Mysql
      else if port = 6379 then Svc_Redis
      else if port \<in> {9092, 9093} then Svc_Kafka
      else Svc_Unknown)"

definition identify_service :: "u16 \<Rightarrow> peer \<Rightarrow> ServiceType \<times> u8 \<times> rstring option" where
  "identify_service port p =
     (case try_http p of
        (Some version, p) \<Rightarrow> (Svc_Http, 90, Some version)
      | (None, p) \<Rightarrow>
     (case try_postgres p of
        (True, p) \<Rightarrow> (Svc_Postgres, 85, None)
      | (False, p) \<Rightarrow>
     (case try_redis p of
        (True, p) \<Rightarrow> (Svc_Redis, 85, None)
      | (False, p) \<Rightarrow>
     (if fst (try_mysql p) then (Svc_Mysql, 85, None) else (well_known_port port, 50, None)))))"

text \<open>The peer is None if the connection is refused or takes too long.\<close>

definition probe_port :: "(address \<Rightarrow> peer option) \<Rightarrow> address \<Rightarrow> DiscoveredService option" where
  "probe_port net addr =
     (case net addr of
        None \<Rightarrow> None
      | Some p \<Rightarrow>
          (case identify_service (snd addr) p of
             (service_type, confidence, version) \<Rightarrow>
               Some \<lparr>ds_address = addr, ds_service_type = service_type, ds_confidence = confidence, ds_version = version\<rparr>))"

section \<open>The scan\<close>

text \<open>Waiting for a batch of probes; the batches of a scan.\<close>

fun await :: "(address \<Rightarrow> peer option) \<Rightarrow> address list \<Rightarrow> (address \<rightharpoonup> DiscoveredService) \<Rightarrow> (address \<rightharpoonup> DiscoveredService)" where
  "await net [] services = services"
| "await net (addr # handles) services =
     await net handles (case probe_port net addr of Some s \<Rightarrow> services(ds_address s \<mapsto> s) | None \<Rightarrow> services)"

fun scan :: "(address \<Rightarrow> peer option) \<Rightarrow> rstring \<Rightarrow> nat \<Rightarrow> u16 list \<Rightarrow> address list \<Rightarrow> (address \<rightharpoonup> DiscoveredService) \<Rightarrow> (address \<rightharpoonup> DiscoveredService)" where
  "scan net host max_concurrent [] handles services = await net handles services"
| "scan net host max_concurrent (port # ports) handles services =
     (let handles = handles @ [(host, port)] in
      if max_concurrent \<le> length handles then scan net host max_concurrent ports [] (await net handles services)
      else scan net host max_concurrent ports handles services)"

definition port_list :: "u16 \<times> u16 \<Rightarrow> u16 list" where
  "port_list r = map of_nat [unat (fst r)..<Suc (unat (snd r))]"

definition discover :: "(address \<Rightarrow> peer option) \<Rightarrow> DiscoveryEngine \<Rightarrow> DiscoveryEngine" where
  "discover net de =
     de\<lparr>de_services := scan net (dc_host (de_config de)) (dc_max_concurrent (de_config de)) (port_list (dc_port_range (de_config de))) []
                         (de_services de)\<rparr>"

definition build_dependency_graph :: "DiscoveryEngine \<Rightarrow> DiscoveryEngine" where
  "build_dependency_graph de =
     de\<lparr>de_graph := (\<lambda>addr. case de_services de addr of
          Some s \<Rightarrow> Some \<lparr>dn_address = addr, dn_service_type = ds_service_type s, dn_depends_on = {}, dn_depended_by = {}\<rparr>
        | None \<Rightarrow> de_graph de addr)\<rparr>"

section \<open>What a scan finds\<close>

definition found :: "(address \<Rightarrow> peer option) \<Rightarrow> address set \<Rightarrow> (address \<rightharpoonup> DiscoveredService) \<Rightarrow> address \<Rightarrow> DiscoveredService option" where
  "found net addrs services addr = (if addr \<in> addrs \<and> probe_port net addr \<noteq> None then probe_port net addr else services addr)"

lemma probe_address: "probe_port net addr = Some s \<Longrightarrow> ds_address s = addr"
  by (auto simp: probe_port_def split: option.splits prod.splits)

lemma await_found: "await net handles services = found net (set handles) services"
proof (induction handles arbitrary: services)
  case Nil
  then show ?case by (simp add: found_def fun_eq_iff)
next
  case (Cons addr handles)
  then show ?case by (cases "probe_port net addr") (auto simp: found_def fun_eq_iff dest: probe_address)
qed

lemma found_found: "found net a (found net b services) = found net (b \<union> a) services"
  by (auto simp: found_def fun_eq_iff)

lemma scan_found: "scan net host n ports handles services = found net (set handles \<union> Pair host ` set ports) services"
proof (induction ports arbitrary: handles services)
  case (Cons port ports)
  have s: "insert (host, port) (set handles) \<union> Pair host ` set ports = set handles \<union> Pair host ` set (port # ports)" by auto
  show ?case using Cons.IH [of "[]"] Cons.IH [of "handles @ [(host, port)]"] s
    by (simp add: await_found found_found Let_def)
qed (simp add: await_found)

lemma port_list_set: "port \<in> set (port_list r) \<longleftrightarrow> fst r \<le> port \<and> port \<le> snd r"
proof
  assume "port \<in> set (port_list r)"
  then obtain k where k: "port = of_nat k" "unat (fst r) \<le> k" "k \<le> unat (snd r)" by (auto simp: port_list_def)
  then have "unat port = k" using k unat_bound [of "snd r"] by (simp add: unat_of_nat)
  then show "fst r \<le> port \<and> port \<le> snd r" using k by (simp add: word_le_nat_alt)
next
  assume "fst r \<le> port \<and> port \<le> snd r"
  then have "unat port \<in> {unat (fst r)..<Suc (unat (snd r))}" by (simp add: word_le_nat_alt)
  then have "of_nat (unat port) \<in> set (port_list r)" unfolding port_list_def set_map set_upt by (rule imageI)
  then show "port \<in> set (port_list r)" by simp
qed

text \<open>However the scan is cut into batches, even with a limit of none, it finds exactly the ports of
  its range that take a connection, each with what its probe made of it; an empty range gives nothing, and
  the last port of all ends the scan. The graph then has these services as nodes and no edge.\<close>

lemma discovery_finds_open_ports:
  "let de = build_dependency_graph (discover net (DiscoveryEngine_new config)) in
   de_services de (host, port) =
     (if host = dc_host config \<and> fst (dc_port_range config) \<le> port \<and> port \<le> snd (dc_port_range config)
      then probe_port net (host, port) else None) \<and>
   (case de_graph de (host, port) of
      None \<Rightarrow> de_services de (host, port) = None
    | Some node \<Rightarrow> de_services de (host, port) \<noteq> None \<and> dn_depends_on node = {} \<and> dn_depended_by node = {})"
proof -
  have "de_services (discover net (DiscoveryEngine_new config)) (host, port) =
     (if host = dc_host config \<and> fst (dc_port_range config) \<le> port \<and> port \<le> snd (dc_port_range config)
      then probe_port net (host, port) else None)"
    by (auto simp: discover_def DiscoveryEngine_new_def scan_found found_def port_list_set)
  then show ?thesis
    by (auto simp: Let_def build_dependency_graph_def discover_def DiscoveryEngine_new_def split: option.splits)
qed

section \<open>A server that speaks first\<close>

text \<open>The first probe reads the greeting of a MySQL server, so the probe that looks for it never sees it.\<close>

lemma mysql_greeting_missed:
  assumes "length greeting \<le> 1024" "\<not> starts_with (lit ''HTTP/'') (from_utf8_lossy greeting)"
  shows "identify_service port \<lparr>pr_pending = [], pr_arrivals = [greeting], pr_writes = []\<rparr> = (well_known_port port, 50, None)"
  using assms
  by (simp add: identify_service_def try_http_def try_postgres_def try_redis_def try_mysql_def write_all_def read_some_def Let_def)

text \<open>It is identified only if nothing arrives before the fourth read.\<close>

lemma mysql_late_greeting:
  assumes "5 < length greeting" "greeting ! 4 = 0x0A"
  shows "identify_service port \<lparr>pr_pending = [], pr_arrivals = [[], [], [], greeting], pr_writes = []\<rparr> = (Svc_Mysql, 85, None)"
  using assms
  by (simp add: identify_service_def try_http_def try_postgres_def try_redis_def try_mysql_def write_all_def read_some_def Let_def)

end
