(* ===== verification/Supervisor.thy ===== *)
theory Supervisor
  imports Health_Checks Discovery Log_Tailer Client_Reports
begin

text \<open>
  The supervisor (\<open>supervisor/mod.rs\<close>): it runs the health checks, the log tailers and the discovery that
  its configuration lists and sends their results as events through the client. The JSON serialiser is an
  argument. The lines of the tailers reach the forwarding task through a channel, one after the other.
\<close>

section \<open>Configuration and start\<close>

record SupervisorConfig =
  sc_health :: "HealthCheck list"
  sc_log_tailers :: "LogTailerConfig list"
  sc_discovery :: "DiscoveryConfig option"

definition SupervisorConfig_default :: SupervisorConfig where
  "SupervisorConfig_default = \<lparr>sc_health = [], sc_log_tailers = [], sc_discovery = None\<rparr>"

record Supervisor =
  su_config :: SupervisorConfig
  su_health_poller :: HealthPoller

definition register_all :: "HealthCheck list \<Rightarrow> HealthPoller" where
  "register_all checks = fold register checks HealthPoller_new"

definition Supervisor_new :: "SupervisorConfig \<Rightarrow> Supervisor" where
  "Supervisor_new config = \<lparr>su_config = config, su_health_poller = register_all (sc_health config)\<rparr>"

definition get_health_status :: "rstring \<Rightarrow> Supervisor \<Rightarrow> HealthCheckResult option" where
  "get_health_status service_name su = get_status service_name (su_health_poller su)"

section \<open>Running\<close>

text \<open>What happens while it runs: a round of a health check, the tick of the report, a line of a tailer, the
  end of the discovery. What is not configured does not happen.\<close>

datatype supervisor_event =
    Check_round health_round
  | Report_tick
  | Line_read nat LogLine
  | Discovered "address \<rightharpoonup> DiscoveredService"

record serialisers =
  js_statuses :: "(rstring \<rightharpoonup> HealthCheckResult) \<Rightarrow> bytes option"
  js_line :: "LogLine \<Rightarrow> bytes option"
  js_services :: "(address \<rightharpoonup> DiscoveredService) \<Rightarrow> bytes option"

definition happens :: "SupervisorConfig \<Rightarrow> supervisor_event \<Rightarrow> bool" where
  "happens config ev =
     (case ev of
        Check_round rd \<Rightarrow> fst rd \<in> set (sc_health config)
      | Report_tick \<Rightarrow> True
      | Line_read i line \<Rightarrow> i < length (sc_log_tailers config)
      | Discovered services \<Rightarrow> sc_discovery config \<noteq> None)"

text \<open>The poller of the run is one of its own, not that of the supervisor. Its state is the table of results,
  which is filled before the first report.\<close>

definition supervisor_start :: "SupervisorConfig \<Rightarrow> (rstring \<rightharpoonup> HealthCheckResult)" where
  "supervisor_start config = init_statuses (sc_health config) (hp_statuses (register_all (sc_health config)))"

definition sent_if :: "bytes option \<Rightarrow> bytes list" where
  "sent_if d = (case d of Some b \<Rightarrow> [b] | None \<Rightarrow> [])"

definition supervisor_step ::
  "url_parser \<Rightarrow> serialisers \<Rightarrow> supervisor_event \<Rightarrow> (rstring \<rightharpoonup> HealthCheckResult) \<Rightarrow> bytes list \<times> (rstring \<rightharpoonup> HealthCheckResult)" where
  "supervisor_step parse_url js ev st =
     (case ev of
        Check_round rd \<Rightarrow> ([], snd (health_step parse_url rd st))
      | Report_tick \<Rightarrow> (if st = Map.empty then [] else sent_if (js_statuses js st), st)
      | Line_read i line \<Rightarrow> (sent_if (js_line js line), st)
      | Discovered services \<Rightarrow> (sent_if (js_services js services), st))"

text \<open>The events a run sends, in order; each goes through \<open>send_events\<close> of the client.\<close>

definition supervisor_events :: "url_parser \<Rightarrow> serialisers \<Rightarrow> SupervisorConfig \<Rightarrow> supervisor_event list \<Rightarrow> bytes list" where
  "supervisor_events parse_url js config evs =
     concat (map snd (fst (run_outputs (supervisor_step parse_url js) (filter (happens config) evs) (supervisor_start config))))"

section \<open>What it sends\<close>

text \<open>The agent starts the supervisor with the default configuration, whatever its own says.\<close>

lemma default_step:
  "happens SupervisorConfig_default ev \<Longrightarrow> supervisor_step parse_url js ev Map.empty = ([], Map.empty)"
  by (cases ev) (simp_all add: happens_def SupervisorConfig_default_def supervisor_step_def)

lemma default_supervisor_silent: "supervisor_events parse_url js SupervisorConfig_default evs = []"
proof -
  have "list_all (happens SupervisorConfig_default) es \<Longrightarrow>
      fst (run_outputs (supervisor_step parse_url js) es Map.empty) = map (\<lambda>ev. (ev, [])) es" for es
    by (induction es) (simp_all add: default_step case_prod_unfold)
  then have "fst (run_outputs (supervisor_step parse_url js) (filter (happens SupervisorConfig_default) evs) Map.empty) =
      map (\<lambda>ev. (ev, [])) (filter (happens SupervisorConfig_default) evs)" by (simp add: list_all_iff)
  moreover have "supervisor_start SupervisorConfig_default = Map.empty"
    by (simp add: supervisor_start_def SupervisorConfig_default_def register_all_def HealthPoller_new_def)
  ultimately show ?thesis by (simp add: supervisor_events_def comp_def)
qed

lemma register_all_statuses: "hp_statuses (register_all checks) = Map.empty"
proof -
  have "hp_statuses (fold register checks p) = hp_statuses p" for p
    by (induction checks arbitrary: p) (simp_all add: register_def)
  then show ?thesis by (simp add: register_all_def HealthPoller_new_def)
qed

text \<open>The poller that the accessors read is never run.\<close>

lemma health_status_never_known: "get_health_status name (Supervisor_new config) = None"
  by (simp add: get_health_status_def Supervisor_new_def get_status_def register_all_statuses)

text \<open>With a connection all that a run sends ends in the raw channel: 1024 events at most, in order; one
  more and the sender waits for ever.\<close>

lemma supervisor_events_queued:
  assumes "cl_channel cl = []"
  shows "run_sends (events_online bc) (map (Pair w) (supervisor_events parse_url js config evs)) cl = None \<longleftrightarrow>
      1024 < length (supervisor_events parse_url js config evs)"
    and "length (supervisor_events parse_url js config evs) \<le> 1024 \<Longrightarrow>
      \<exists>rs cl'. run_sends (events_online bc) (map (Pair w) (supervisor_events parse_url js config evs)) cl = Some (rs, cl') \<and>
        cl_channel cl' = supervisor_events parse_url js config evs"
proof -
  let ?ds = "supervisor_events parse_url js config evs"
  show "run_sends (events_online bc) (map (Pair w) ?ds) cl = None \<longleftrightarrow> 1024 < length ?ds"
    using events_queue.stalls [of cl bc "map (Pair w) ?ds"] assms by (simp add: CHANNEL_CAPACITY_def)
  show "length ?ds \<le> 1024 \<Longrightarrow> \<exists>rs cl'. run_sends (events_online bc) (map (Pair w) ?ds) cl = Some (rs, cl') \<and> cl_channel cl' = ?ds"
    using events_queue.queued [of cl "map (Pair w) ?ds" bc] assms by (simp add: CHANNEL_CAPACITY_def comp_def)
qed

end
