(* ===== verification/Event_Messages.thy ===== *)
theory Event_Messages
  imports Tcp_Consumer Client_Backlog
begin

text \<open>
  The conversion of network events to protocol messages (\<open>convert_network_event\<close> of
  \<open>communication/mod.rs\<close>, the messages of \<open>ebpf.proto\<close>) and the batch they are sent in. Time stamps are
  left out.
\<close>

section \<open>Messages\<close>

datatype TcpState =
    Pb_Unspecified | Pb_Established | Pb_SynSent | Pb_SynReceived | Pb_FinWait1 | Pb_FinWait2 | Pb_TimeWait | Pb_CloseWait
  | Pb_LastAck | Pb_Closing | Pb_Listen

fun tcp_state_number :: "TcpState \<Rightarrow> i32" where
  "tcp_state_number Pb_Unspecified = 0"
| "tcp_state_number Pb_Established = 1"
| "tcp_state_number Pb_SynSent = 2"
| "tcp_state_number Pb_SynReceived = 3"
| "tcp_state_number Pb_FinWait1 = 4"
| "tcp_state_number Pb_FinWait2 = 5"
| "tcp_state_number Pb_TimeWait = 6"
| "tcp_state_number Pb_CloseWait = 7"
| "tcp_state_number Pb_LastAck = 8"
| "tcp_state_number Pb_Closing = 9"
| "tcp_state_number Pb_Listen = 10"

datatype TcpEventType = Type_Unspecified | Type_Connect | Type_Accept | Type_Close | Type_Reset

fun tcp_type_number :: "TcpEventType \<Rightarrow> i32" where
  "tcp_type_number Type_Unspecified = 0"
| "tcp_type_number Type_Connect = 1"
| "tcp_type_number Type_Accept = 2"
| "tcp_type_number Type_Close = 3"
| "tcp_type_number Type_Reset = 4"

record TcpConnectionEvent =
  tm_type :: i32
  tm_source_ip :: rstring
  tm_source_port :: i32
  tm_destination_ip :: rstring
  tm_destination_port :: i32
  tm_state :: i32
  tm_duration_ms :: u64
  tm_bytes_sent :: u64
  tm_bytes_received :: u64
  tm_pid :: i32
  tm_process_name :: rstring

record DnsQueryEvent =
  dm_query_name :: rstring
  dm_query_type :: rstring
  dm_resolved_ips :: "rstring list"
  dm_response_code :: rstring
  dm_ttl_seconds :: i32
  dm_latency_ms :: f64
  dm_pid :: i32
  dm_process_name :: rstring

record HttpRequestEvent =
  hm_method :: rstring
  hm_path :: rstring
  hm_http_version :: rstring
  hm_status_code :: i32
  hm_latency_ms :: f64
  hm_request_bytes :: u64
  hm_response_bytes :: u64
  hm_source_ip :: rstring
  hm_destination_ip :: rstring
  hm_destination_port :: i32
  hm_pid :: i32
  hm_process_name :: rstring
  hm_host :: rstring
  hm_user_agent :: rstring

record DbQueryEvent =
  bm_protocol :: rstring
  bm_query :: rstring
  bm_query_type :: rstring
  bm_database :: rstring
  bm_latency_ms :: f64
  bm_row_count :: u64
  bm_error_message :: rstring
  bm_source_ip :: rstring
  bm_destination_ip :: rstring
  bm_destination_port :: i32
  bm_pid :: i32
  bm_process_name :: rstring

datatype network_message =
    Message_tcp TcpConnectionEvent
  | Message_dns DnsQueryEvent
  | Message_http HttpRequestEvent
  | Message_db DbQueryEvent

section \<open>Conversion\<close>

definition tcp_state_from_str :: "rstring \<Rightarrow> TcpState" where
  "tcp_state_from_str s =
     (if s = lit ''ESTABLISHED'' then Pb_Established
      else if s = lit ''SYN_SENT'' then Pb_SynSent
      else if s = lit ''SYN_RECV'' \<or> s = lit ''SYN_RECEIVED'' then Pb_SynReceived
      else if s = lit ''FIN_WAIT1'' \<or> s = lit ''FIN_WAIT_1'' then Pb_FinWait1
      else if s = lit ''FIN_WAIT2'' \<or> s = lit ''FIN_WAIT_2'' then Pb_FinWait2
      else if s = lit ''TIME_WAIT'' then Pb_TimeWait
      else if s = lit ''CLOSE_WAIT'' then Pb_CloseWait
      else if s = lit ''LAST_ACK'' then Pb_LastAck
      else if s = lit ''CLOSING'' then Pb_Closing
      else if s = lit ''LISTEN'' then Pb_Listen
      else if s = lit ''CLOSED'' then Pb_Unspecified
      else Pb_Unspecified)"

fun convert_network_event :: "NetworkEvent \<Rightarrow> network_message" where
  "convert_network_event (TcpConnection src sport dst dport st pid name) =
     Message_tcp \<lparr>tm_type = tcp_type_number Type_Connect, tm_source_ip = src, tm_source_port = ucast sport,
       tm_destination_ip = dst, tm_destination_port = ucast dport, tm_state = tcp_state_number (tcp_state_from_str st),
       tm_duration_ms = 0, tm_bytes_sent = 0, tm_bytes_received = 0, tm_pid = pid, tm_process_name = name\<rparr>"
| "convert_network_event (DnsQuery name ips latency pid) =
     Message_dns \<lparr>dm_query_name = name, dm_query_type = [], dm_resolved_ips = ips, dm_response_code = [], dm_ttl_seconds = 0,
       dm_latency_ms = latency, dm_pid = pid, dm_process_name = []\<rparr>"
| "convert_network_event (HttpRequest meth path status latency src dst dport pid) =
     Message_http \<lparr>hm_method = meth, hm_path = path, hm_http_version = [], hm_status_code = ucast status, hm_latency_ms = latency,
       hm_request_bytes = 0, hm_response_bytes = 0, hm_source_ip = src, hm_destination_ip = dst, hm_destination_port = ucast dport,
       hm_pid = pid, hm_process_name = [], hm_host = [], hm_user_agent = []\<rparr>"
| "convert_network_event (DbQuery proto q latency dst dport pid) =
     Message_db \<lparr>bm_protocol = proto, bm_query = q, bm_query_type = [], bm_database = [], bm_latency_ms = latency, bm_row_count = 0,
       bm_error_message = [], bm_source_ip = [], bm_destination_ip = dst, bm_destination_port = ucast dport, bm_pid = pid,
       bm_process_name = []\<rparr>"

record NetworkEventBatch =
  nb_agent_id :: rstring
  nb_session_id :: rstring
  nb_sequence_number :: u64
  nb_events :: "network_message list"

definition network_batch :: "rstring \<Rightarrow> rstring \<Rightarrow> u64 \<Rightarrow> NetworkEvent list \<Rightarrow> NetworkEventBatch" where
  "network_batch agent_id session_id seq events =
     \<lparr>nb_agent_id = agent_id, nb_session_id = session_id, nb_sequence_number = seq, nb_events = map convert_network_event events\<rparr>"

section \<open>What arrives\<close>

lemma state_name_number:
  "tcp_state_number (tcp_state_from_str (tcp_state_name st)) = (if 1 \<le> st \<and> st \<le> 10 then st else 0)"
proof (cases "1 \<le> st \<and> st \<le> 10")
  case True
  then have "st \<in> {1, 2, 3, 4, 5, 6, 7, 8, 9, 10}" by (simp, unat_arith)
  then show ?thesis by (elim insertE) (simp_all add: tcp_state_name_def tcp_state_from_str_def)
next
  case False
  then have "tcp_state_name st = lit ''UNKNOWN''" by (auto simp: tcp_state_name_def)
  then show ?thesis using False by (auto simp: tcp_state_from_str_def)
qed

lemma message_of_connection:
  "convert_network_event (connection_event_of (event_key e) (tracked_of first now e)) =
     Message_tcp \<lparr>tm_type = 1, tm_source_ip = format_ip (te_src_ip e), tm_source_port = ucast (te_src_port e),
       tm_destination_ip = format_ip (te_dst_ip e), tm_destination_port = ucast (te_dst_port e),
       tm_state = (if 1 \<le> te_tcp_state e \<and> te_tcp_state e \<le> 10 then te_tcp_state e else 0),
       tm_duration_ms = 0, tm_bytes_sent = 0, tm_bytes_received = 0, tm_pid = te_pid e, tm_process_name = extract_comm (te_comm e)\<rparr>"
  by (simp add: connection_event_of_def event_key_def tracked_of_def state_name_number)

text \<open>Whether a message is about a socket's 4-tuple.\<close>

fun about_socket :: "sock_tuple \<Rightarrow> network_message \<Rightarrow> bool" where
  "about_socket v (Message_tcp m) \<longleftrightarrow>
     tm_source_ip m = format_ip (st_saddr v) \<and> tm_source_port m = ucast (st_num v) \<and>
     tm_destination_ip m = format_ip (st_daddr v) \<and> tm_destination_port m = ucast (st_dport v)"
| "about_socket v _ \<longleftrightarrow> False"

definition socket_key_of :: "sock_tuple \<Rightarrow> ConnectionKey" where
  "socket_key_of v = \<lparr>ck_src_ip = st_saddr v, ck_src_port = st_num v, ck_dst_ip = st_daddr v, ck_dst_port = st_dport v\<rparr>"

lemma format_ip_inject: "format_ip x = format_ip y \<longleftrightarrow> x = y"
  using proc_format_ip_inject [of x y] by (simp add: proc_format_ip_eq)

lemma port_inject: "(ucast p :: i32) = ucast q \<longleftrightarrow> p = q" for p q :: u16
proof -
  have "unat (ucast w :: i32) = unat w" for w :: u16
    using unat_bound [of w] by (simp add: unsigned_ucast_eq take_bit_nat_eq_self)
  then show ?thesis by (metis unsigned_word_eqI)
qed

lemma about_key: "about_socket v (convert_network_event (connection_event_of k t)) \<longleftrightarrow> k = socket_key_of v"
  by (cases k) (auto simp: connection_event_of_def socket_key_of_def format_ip_inject port_inject)

lemma filter_key:
  "distinct (map fst xs) \<Longrightarrow> map_of xs k = Some t \<Longrightarrow> filter (\<lambda>(k', _). k' = k) xs = [(k, t)]"
proof (induction xs)
  case (Cons x xs)
  show ?case
  proof (cases "fst x = k")
    case True
    then have "k \<notin> fst ` set xs" using Cons.prems(1) by auto
    then have "filter (\<lambda>(k', _). k' = k) xs = []" by (auto simp: filter_empty_conv image_iff)
    then show ?thesis using True Cons.prems(2) by (cases x) simp
  next
    case False
    then show ?thesis using Cons by (cases x) simp
  qed
qed simp

lemma drained_messages:
  assumes "distinct (map fst conns)" "map_of conns (socket_key_of v) = Some t" "now - tc_last_seen t \<le> 300000000000"
  shows "filter (about_socket v) (map convert_network_event (fst (drain_connections now conns))) =
    [convert_network_event (connection_event_of (socket_key_of v) t)]"
proof -
  let ?fresh = "\<lambda>(k, c). \<not> stale_threshold < now - tc_last_seen c"
  have "filter (about_socket v) (map convert_network_event (fst (drain_connections now conns))) =
      map (\<lambda>(k, c). convert_network_event (connection_event_of k c)) (filter ?fresh (filter (\<lambda>(k, c). k = socket_key_of v) conns))"
    by (simp add: drain_connections_def Let_def filter_map comp_def case_prod_beta about_key conj_commute)
  also have "\<dots> = [convert_network_event (connection_event_of (socket_key_of v) t)]"
    using assms(3) by (simp add: filter_key [OF assms(1,2)] stale_threshold_def)
  finally show ?thesis .
qed

text \<open>C4. What the cluster is told when the kernel changes the state of a socket to ESTABLISHED, TIME\_WAIT or
  CLOSE, if the ring has room, the agent takes the record from the ring with no port excluded, and drains its
  connections within 300 seconds: of that 4-tuple the batch holds one message, with the addresses, ports and
  process of the socket and the kernel's number of the state, which in the message's own numbering is
  CLOSE\_WAIT for a closed socket; and the type of the event is a new connection, whatever happened.\<close>

theorem tcp_report_as_message:
  assumes obj: "tcp_objects h hinv g rinv samples" and inv: "tinv h hinv rinv s" and ok: "comm_ok ctx"
    and sock: "sock_at ctx T sk img" and v: "v = sock_tuple_of T img" and st: "st \<in> {1, 6, 7}"
    and room: "ringbuf_reserve g (tcp_events s) 68 \<noteq> None"
    and changed: "handle_tcp_set_state g ctx sk st s = (rc, s')"
    and plain: "plain_view fb read_TcpEvent 68" and ports: "st_num v \<notin> set ports" "st_dport v \<notin> set ports"
    and agent: "conns' = snd (handle_tcp_event fb now ports (snd (snd (last (samples (tcp_events s'))))) conns)"
      "distinct (map fst conns)"
    and drained: "now' \<le> now + 300000000000"
  shows "filter (about_socket v) (nb_events (network_batch agent_id session_id seq (fst (drain_connections now' conns')))) =
    [Message_tcp \<lparr>tm_type = 1, tm_source_ip = format_ip (st_saddr v), tm_source_port = ucast (st_num v),
       tm_destination_ip = format_ip (st_daddr v), tm_destination_port = ucast (st_dport v),
       tm_state = st, tm_duration_ms = 0, tm_bytes_sent = 0, tm_bytes_received = 0,
       tm_pid = hi32 (current_pid_tgid ctx), tm_process_name = extract_comm (current_comm ctx 16)\<rparr>]"
proof -
  let ?e = "state_report ctx sk st"
  have e: "te_src_ip ?e = st_saddr v" "te_dst_ip ?e = st_daddr v" "te_src_port ?e = st_num v" "te_dst_port ?e = st_dport v"
      "te_tcp_state ?e = st" "te_pid ?e = hi32 (current_pid_tgid ctx)" "te_comm ?e = current_comm ctx 16"
    by (simp_all add: state_report_def tuple_event_def sock_at_reads [OF sock] v MAX_COMM_LEN_def)
  have rep: "reported_state st" using st by (auto simp: reported_state_def tcp_state_defs)
  have eok: "tcp_event_ok ?e" using ok by simp
  have ring: "rinv (tcp_events s)" using inv by (simp add: tinv_def)
  have "\<exists>p. samples (tcp_events s') = samples (tcp_events s) @ [(p, True, tcp_event_bytes ?e)]"
    using tcp_objects.emit_event_outcome [OF obj ring eok] room changed rep
    by (auto simp: handle_tcp_set_state_eq simp del: not_None_eq split: if_splits)
  then have last: "snd (snd (last (samples (tcp_events s')))) = tcp_event_bytes ?e" by auto
  have fb: "fb (tcp_event_bytes ?e) = Some ?e"
    using plain_view.view_exact [OF plain] tcp_wire.enc_length [OF eok] tcp_wire.dec_enc [OF eok] by simp
  have key: "event_key ?e = socket_key_of v" by (simp add: event_key_def socket_key_of_def e)
  have "\<not> excluded ports ?e" using ports by (simp add: excluded_def e)
  from handle_tcp_event_eq [of fb, OF fb this, of now conns]
  obtain first where first: "map_of conns' (socket_key_of v) = Some (tracked_of first now ?e)"
    unfolding agent(1) last by (auto simp: update_conv key)
  have "distinct (map fst conns')" unfolding agent(1) by (rule handle_tcp_event_distinct [OF agent(2)])
  from drained_messages [OF this first] drained
  have "filter (about_socket v) (map convert_network_event (fst (drain_connections now' conns'))) =
      [convert_network_event (connection_event_of (event_key ?e) (tracked_of first now ?e))]"
    by (simp add: tracked_of_def key)
  moreover have "1 \<le> st \<and> st \<le> 10" using st by auto
  ultimately show ?thesis unfolding message_of_connection e by (simp add: network_batch_def)
qed

text \<open>A socket that the kernel closes.\<close>

theorem tcp_report_as_message_witness:
  "\<exists>m. filter (about_socket (example_tuple 443)) (nb_events (network_batch [] [] 1 (fst (drain_connections 20
       (snd (handle_tcp_event (plain_cast read_TcpEvent 68) 17 [22]
         (snd (snd (last (rr_samples (tcp_events (snd (handle_tcp_set_state refring_ops (example_ctx (example_tuple 443) 7 4) 4096 7
           tcp_maps_init))))))) [])))))) = [Message_tcp m] \<and>
     tm_type m = 1 \<and> tm_state m = 7 \<and> tm_source_port m = 40000 \<and> tm_destination_port m = 443"
proof -
  let ?c = "example_ctx (example_tuple 443) 7 4"
  obtain rc s' where run: "handle_tcp_set_state refring_ops ?c 4096 7 tcp_maps_init = (rc, s')" by fastforce
  have room: "ringbuf_reserve refring_ops (tcp_events tcp_maps_init) 68 \<noteq> None"
    by (simp add: tcp_maps_init_def RING_BUFFER_SIZE_def del: not_None_eq)
  have v: "example_tuple 443 = sock_tuple_of struct_sock (sock_image (example_tuple 443))" by (simp add: example_tuple_def)
  have ports: "st_num (example_tuple 443) \<notin> set [22]" "st_dport (example_tuple 443) \<notin> set [22]"
    by (simp_all add: example_tuple_def)
  note claim = tcp_report_as_message [OF ref_tcp.tcp_objects_axioms tcp_maps_init_inv example_comm_ok example_sock_at v _ room run
      plain_cast.plain_view_axioms ports refl, of "[]" 20 17]
  have s': "snd (handle_tcp_set_state refring_ops ?c 4096 7 tcp_maps_init) = s'" by (simp add: run)
  show ?thesis unfolding s' by (intro exI conjI, rule claim) (simp_all add: example_tuple_def)
qed

text \<open>The kernel's numbering is another one from 7 on: a connection that the kernel closes is told as one
  that waits for the close, and one that waits for the close as one in its last acknowledgement.\<close>

lemma kernel_states_as_messages:
  "map (\<lambda>(nm, v). (nm, tcp_state_number (tcp_state_from_str (tcp_state_name (word_of_int v))))) enum_tcp_states =
     [(''TCP_ESTABLISHED'', 1), (''TCP_SYN_SENT'', 2), (''TCP_SYN_RECV'', 3), (''TCP_FIN_WAIT1'', 4), (''TCP_FIN_WAIT2'', 5),
      (''TCP_TIME_WAIT'', 6), (''TCP_CLOSE'', 7), (''TCP_CLOSE_WAIT'', 8), (''TCP_LAST_ACK'', 9), (''TCP_LISTEN'', 10),
      (''TCP_CLOSING'', 0), (''TCP_NEW_SYN_RECV'', 0), (''TCP_MAX_STATES'', 0)]"
  by (simp add: enum_tcp_states_def state_name_number)

text \<open>A connection the \<open>/proc\<close> observer finds closed is told as a new one in an unspecified state.\<close>

lemma closed_as_message:
  "convert_network_event (TcpConnection src sport dst dport (lit ''CLOSED'') pid name) =
     Message_tcp \<lparr>tm_type = 1, tm_source_ip = src, tm_source_port = ucast sport, tm_destination_ip = dst,
       tm_destination_port = ucast dport, tm_state = 0, tm_duration_ms = 0, tm_bytes_sent = 0, tm_bytes_received = 0,
       tm_pid = pid, tm_process_name = name\<rparr>"
  by (simp add: tcp_state_from_str_def)

end
