(* ===== verification/Config_Persist.thy ===== *)
theory Config_Persist
  imports Config_Load "HOL-Library.AList"
begin

text \<open>
  Writing a new API key into the configuration file (\<open>persist_api_key\<close> of \<open>config/mod.rs\<close>), which the
  agent does when it is started with a key. The parser and the printer of the YAML library are arguments;
  the document between them is its value type, whose mappings keep the order of their entries.
\<close>

section \<open>Documents\<close>

datatype yaml =
    Y_null
  | Y_bool bool
  | Y_number int
  | Y_string rstring
  | Y_sequence "yaml list"
  | Y_mapping "(yaml \<times> yaml) list"

abbreviation agent_key :: yaml where "agent_key \<equiv> Y_string (lit ''agent'')"
abbreviation api_key_key :: yaml where "api_key_key \<equiv> Y_string (lit ''api_key'')"

definition set_api_key :: "rstring \<Rightarrow> yaml \<Rightarrow> yaml" where
  "set_api_key new_key doc =
     (case doc of
        Y_mapping m \<Rightarrow>
          (let agent_entry = (case map_of m agent_key of Some v \<Rightarrow> v | None \<Rightarrow> Y_mapping []);
               agent_entry = (case agent_entry of
                   Y_mapping agent_map \<Rightarrow> Y_mapping (AList.update api_key_key (Y_string new_key) agent_map)
                 | v \<Rightarrow> v)
           in Y_mapping (AList.update agent_key agent_entry m))
      | _ \<Rightarrow> doc)"

section \<open>The file\<close>

record persist_env =
  pv_parse :: "rstring \<Rightarrow> yaml option"
  pv_print :: "yaml \<Rightarrow> rstring option"
  pv_create_dir_ok :: bool
  pv_write_ok :: bool
  pv_after_failure :: config_file \<comment> \<open>what a failed write leaves\<close>
  pv_permissions_ok :: bool

datatype persist_error = Cannot_read | Cannot_parse | Cannot_create | Cannot_serialise | Cannot_write | Cannot_protect

definition persist_document :: "persist_env \<Rightarrow> config_file \<Rightarrow> persist_error + yaml" where
  "persist_document env f =
     (case f of
        Content s \<Rightarrow> (case pv_parse env s of Some doc \<Rightarrow> Inr doc | None \<Rightarrow> Inl Cannot_parse)
      | Unreadable \<Rightarrow> Inl Cannot_read
      | Absent \<Rightarrow> if pv_create_dir_ok env then Inr (Y_mapping []) else Inl Cannot_create)"

definition persist_api_key :: "persist_env \<Rightarrow> rstring \<Rightarrow> config_file \<Rightarrow> (persist_error + unit) \<times> config_file" where
  "persist_api_key env new_key f =
     (case persist_document env f of
        Inl e \<Rightarrow> (Inl e, f)
      | Inr doc \<Rightarrow>
          (case pv_print env (set_api_key new_key doc) of
             None \<Rightarrow> (Inl Cannot_serialise, f)
           | Some yaml_str \<Rightarrow>
               if \<not> pv_write_ok env then (Inl Cannot_write, pv_after_failure env)
               else if \<not> pv_permissions_ok env then (Inl Cannot_protect, Content yaml_str)
               else (Inr (), Content yaml_str)))"

section \<open>What is stored\<close>

text \<open>The entry of a document under a path of names.\<close>

fun lookup :: "rstring list \<Rightarrow> yaml \<Rightarrow> yaml option" where
  "lookup [] doc = Some doc"
| "lookup (name # names) (Y_mapping m) = Option.bind (map_of m (Y_string name)) (lookup names)"
| "lookup (name # names) doc = None"

text \<open>A document that has room for the key: a mapping whose entry for the agent is missing or a mapping.\<close>

fun has_room :: "yaml \<Rightarrow> bool" where
  "has_room (Y_mapping m) = (case map_of m agent_key of None \<Rightarrow> True | Some (Y_mapping a) \<Rightarrow> True | Some _ \<Rightarrow> False)"
| "has_room doc = False"

lemma agent_names [simp]: "lit ''agent'' \<noteq> lit ''api_key''" "lit ''api_key'' \<noteq> lit ''agent''"
  by simp_all

lemma map_of_update: "map_of (AList.update k v m) k' = (if k' = k then Some v else map_of m k')"
  by (simp add: update_conv')

lemma set_api_key_stores:
  assumes "has_room doc"
  shows "lookup [lit ''agent'', lit ''api_key''] (set_api_key key doc) = Some (Y_string key)"
proof -
  obtain m where m: "doc = Y_mapping m" using assms by (cases doc) simp_all
  show ?thesis using assms
    by (auto simp: m set_api_key_def map_of_update Let_def split: option.splits yaml.splits)
qed

lemma set_api_key_other:
  assumes "has_room doc" "names \<noteq> []" "hd names = lit ''agent'' \<longrightarrow> (\<exists>n rest. names = lit ''agent'' # n # rest \<and> n \<noteq> lit ''api_key'')"
  shows "lookup names (set_api_key key doc) = lookup names doc"
proof -
  obtain m where m: "doc = Y_mapping m" using assms(1) by (cases doc) simp_all
  obtain name rest where n: "names = name # rest" using assms(2) by (cases names) simp_all
  show ?thesis
  proof (cases "name = lit ''agent''")
    case False
    then show ?thesis by (simp add: m n set_api_key_def map_of_update Let_def)
  next
    case True
    then obtain n' rest' where r: "rest = n' # rest'" "n' \<noteq> lit ''api_key''" using assms(3) n by auto
    show ?thesis using assms(1) r True
      by (auto simp: m n set_api_key_def map_of_update Let_def split: option.splits yaml.splits)
  qed
qed

lemma set_api_key_no_room: "\<not> has_room doc \<Longrightarrow> lookup names (set_api_key key doc) = lookup names doc"
proof (cases doc)
  case (Y_mapping m)
  assume "\<not> has_room doc"
  then obtain v where v: "map_of m agent_key = Some v" "\<And>a. v \<noteq> Y_mapping a" using Y_mapping by (auto split: option.splits yaml.splits)
  have s: "set_api_key key doc = Y_mapping (AList.update agent_key v m)"
    using v(1) v(2) [of "case v of Y_mapping a \<Rightarrow> a | _ \<Rightarrow> []"] by (cases v) (simp_all add: Y_mapping set_api_key_def Let_def)
  have u: "AList.update agent_key v m = m" using v(1) by (induction m) (auto split: if_splits)
  show ?thesis using s u Y_mapping by simp
qed (simp_all add: set_api_key_def)

text \<open>C19. What a successful call leaves in the file, if the library reads back what it printed: where the
  document has room, the new key under agent and api_key and every other entry as before; where it has not,
  because it is not a mapping (as an empty file) or its agent entry is not, the document is unchanged, so
  the key is not stored although the call reports success.\<close>

theorem api_key_persisted:
  assumes "\<And>doc s. pv_print env doc = Some s \<Longrightarrow> pv_parse env s = Some doc"
    and "persist_document env f = Inr doc" "persist_api_key env key f = (Inr (), f')"
  shows "\<exists>s doc'. f' = Content s \<and> pv_parse env s = Some doc' \<and>
    (if has_room doc
     then lookup [lit ''agent'', lit ''api_key''] doc' = Some (Y_string key) \<and>
       (\<forall>name rest. name \<noteq> lit ''agent'' \<longrightarrow> lookup (name # rest) doc' = lookup (name # rest) doc) \<and>
       (\<forall>name rest. name \<noteq> lit ''api_key'' \<longrightarrow> lookup (lit ''agent'' # name # rest) doc' = lookup (lit ''agent'' # name # rest) doc)
     else \<forall>names. lookup names doc' = lookup names doc)"
proof -
  obtain s where s: "pv_print env (set_api_key key doc) = Some s" "f' = Content s"
    using assms(2,3) by (auto simp: persist_api_key_def split: option.splits if_splits)
  show ?thesis
    using s assms(1) [OF s(1)] set_api_key_stores set_api_key_other set_api_key_no_room by auto
qed

text \<open>The file of a first start has the key and nothing else, which the agent cannot load: the other
  sections are required.\<close>

lemma persist_creates:
  assumes "pv_create_dir_ok env" "pv_print env (Y_mapping [(agent_key, Y_mapping [(api_key_key, Y_string key)])]) = Some s"
    and "pv_write_ok env" "pv_permissions_ok env"
  shows "persist_api_key env key Absent = (Inr (), Content s)"
  using assms by (simp add: persist_api_key_def persist_document_def set_api_key_def)

text \<open>A library of three documents.\<close>

definition empty_doc :: yaml where "empty_doc = Y_null"
definition key_doc :: yaml where "key_doc = Y_mapping [(agent_key, Y_mapping [(api_key_key, Y_string (lit ''k''))])]"

definition tiny_yaml :: persist_env where
  "tiny_yaml =
     \<lparr>pv_parse = (\<lambda>s. if s = [] then Some empty_doc else if s = lit ''key'' then Some key_doc else None),
      pv_print = (\<lambda>doc. if doc = empty_doc then Some [] else if doc = key_doc then Some (lit ''key'') else None),
      pv_create_dir_ok = True, pv_write_ok = True, pv_after_failure = Absent, pv_permissions_ok = True\<rparr>"

theorem api_key_persisted_witness:
  "persist_api_key tiny_yaml (lit ''k'') (Content []) = (Inr (), Content []) \<and>
   (\<exists>s doc'. Content [] = Content s \<and> pv_parse tiny_yaml s = Some doc' \<and> (\<forall>names. lookup names doc' = lookup names empty_doc))"
proof -
  have p: "pv_print tiny_yaml doc = Some s \<Longrightarrow> pv_parse tiny_yaml s = Some doc" for doc s
    by (auto simp: tiny_yaml_def split: if_splits)
  have d: "persist_document tiny_yaml (Content []) = Inr empty_doc" by (simp add: persist_document_def tiny_yaml_def)
  have c: "persist_api_key tiny_yaml (lit ''k'') (Content []) = (Inr (), Content [])"
    by (simp add: persist_api_key_def d set_api_key_def empty_doc_def) (simp add: tiny_yaml_def empty_doc_def)
  have "\<not> has_room empty_doc" by (simp add: empty_doc_def)
  then show ?thesis using api_key_persisted [OF p d c] c by simp
qed

end
