(* ===== verification/Float64_Bounds.thy ===== *)
theory Float64_Bounds
  imports Float64 Text
begin

text \<open>
  More of Rust's \<open>f64\<close>: clamping, the parser of decimal numbers, the seconds of a duration; and what the
  metrics rely on: rounding keeps the order of non-negative values, so a share of a whole stays between
  nothing and all of it.
\<close>

section \<open>Clamping, parsing, durations\<close>

definition d_clamp :: "double \<Rightarrow> double \<Rightarrow> double \<Rightarrow> double" where
  "d_clamp x lo hi = (let x = (if d_less x lo then lo else x) in if d_less hi x then hi else x)"

definition is_ascii_digit :: "nat \<Rightarrow> bool" where
  "is_ascii_digit c \<longleftrightarrow> 48 \<le> c \<and> c \<le> 57"

definition digits_value :: "rstring \<Rightarrow> nat" where
  "digits_value ds = foldl (\<lambda>v c. 10 * v + (c - 48)) 0 ds"

definition pow10 :: "int \<Rightarrow> rat" where
  "pow10 e = (if 0 \<le> e then 10 ^ nat e else 1 / 10 ^ nat (- e))"

text \<open>What may follow the digits: nothing, or an exponent with an optional sign and at least one digit.\<close>

definition parse_exponent :: "rstring \<Rightarrow> int option" where
  "parse_exponent s =
     (case s of
        [] \<Rightarrow> Some 0
      | c # cs \<Rightarrow>
          if ascii_lower c \<noteq> 101 then None
          else (let (neg, ds) = (case cs of d # ds \<Rightarrow> if d = 45 then (True, ds) else if d = 43 then (False, ds) else (False, cs) | [] \<Rightarrow> (False, []))
                in if ds = [] \<or> \<not> list_all is_ascii_digit ds then None
                   else Some (if neg then - int (digits_value ds) else int (digits_value ds))))"

definition parse_special :: "rstring \<Rightarrow> double option" where
  "parse_special s =
     (let s = map ascii_lower s in
      if s = lit ''inf'' \<or> s = lit ''infinity'' then Some PosInf else if s = lit ''nan'' then Some NotNumber else None)"

text \<open>\<open>f64::from_str\<close>: the double nearest to the decimal number.\<close>

definition parse_magnitude :: "rstring \<Rightarrow> double option" where
  "parse_magnitude s =
     (let ip = takeWhile is_ascii_digit s; r = dropWhile is_ascii_digit s;
          (fp, r) = (case r of c # cs \<Rightarrow> if c = 46 then (takeWhile is_ascii_digit cs, dropWhile is_ascii_digit cs) else ([], r) | [] \<Rightarrow> ([], []))
      in if ip = [] \<and> fp = [] then parse_special s
         else map_option (\<lambda>e. to_double (of_nat (digits_value (ip @ fp)) * pow10 (e - int (length fp)))) (parse_exponent r))"

definition parse_f64 :: "rstring \<Rightarrow> double option" where
  "parse_f64 s =
     (case s of
        [] \<Rightarrow> None
      | c # cs \<Rightarrow>
          if c = 45 then map_option d_neg (parse_magnitude cs)
          else if c = 43 then parse_magnitude cs else parse_magnitude s)"

text \<open>\<open>Duration::as_secs_f64\<close> and \<open>as_millis\<close> as a double, of a number of nanoseconds.\<close>

definition secs_f64 :: "nat \<Rightarrow> double" where
  "secs_f64 ns = d_add (double_of (ns div 10 ^ 9)) (d_div (double_of (ns mod 10 ^ 9)) (double_of (10 ^ 9)))"

definition millis_f64 :: "nat \<Rightarrow> double" where
  "millis_f64 ns = double_of (ns div 10 ^ 6)"

section \<open>Rounding keeps the order\<close>

lemma round_half_even_mono: "p \<le> q \<Longrightarrow> round_half_even p \<le> round_half_even q"
proof -
  assume le: "p \<le> q"
  show ?thesis
  proof (cases "\<lfloor>p\<rfloor> = \<lfloor>q\<rfloor>")
    case True
    then show ?thesis using le by (auto simp: round_half_even_def Let_def)
  next
    case False
    then have "\<lfloor>p\<rfloor> + 1 \<le> \<lfloor>q\<rfloor>" using floor_mono [OF le] by simp
    then show ?thesis using round_half_even_floor(2) [of p] round_half_even_floor(1) [of q] by linarith
  qed
qed

lemma pow2_representable: "- 1074 \<le> k \<Longrightarrow> representable (pow2 k)"
  unfolding representable_def by (rule exI [of _ 1], rule exI [of _ k]) simp

lemma round53_mono:
  assumes "0 \<le> x" "x \<le> y"
  shows "round53 x \<le> round53 y"
proof (cases "ulp x = ulp y")
  case True
  have "x / pow2 (ulp y) \<le> y / pow2 (ulp y)" using assms(2) by (simp add: divide_right_mono less_imp_le)
  then show ?thesis by (simp add: round53_def True round_half_even_mono mult_right_mono less_imp_le)
next
  case False
  then have xy: "x < y" "0 < y" using assms by (auto simp: le_less)
  show ?thesis
  proof (cases "x = 0")
    case True
    then show ?thesis using round53_ge [OF representable_int [of 0], of y] xy round53_exact [OF representable_int [of 0]] by simp
  next
    case x: False
    then have pos: "0 < x" using assms(1) by simp
    note bx = ilog2_bounds [OF pos] and yb = ilog2_bounds [OF xy(2)]
    have u: "ulp x = max (ilog2 x - 52) (- 1074)" "ulp y = max (ilog2 y - 52) (- 1074)" using pos xy(2) by (simp_all add: ulp_def)
    have "\<not> ilog2 y < ilog2 x"
    proof
      assume "ilog2 y < ilog2 x"
      then have "pow2 (ilog2 y + 1) \<le> pow2 (ilog2 x)" by (intro pow2_mono) simp
      with bx yb xy(1) show False by linarith
    qed
    with False u have lt: "ilog2 x + 1 \<le> ilog2 y" "- 1074 \<le> ilog2 y" by (auto simp: max_def split: if_splits)
    have z: "representable (pow2 (ilog2 y))" using lt(2) by (rule pow2_representable)
    have "x \<le> pow2 (ilog2 y)" using bx pow2_mono [OF lt(1)] by linarith
    then have "round53 x \<le> pow2 (ilog2 y)" by (rule round53_le [OF z])
    also have "\<dots> \<le> round53 y" using yb by (intro round53_ge [OF z]) simp
    finally show ?thesis .
  qed
qed

section \<open>Counters and shares\<close>

lemma double_of_finite:
  assumes "n \<le> 2 ^ 64"
  shows "double_of n = Finite (round53 (of_nat n))" "0 \<le> round53 (of_nat n)" "round53 (of_nat n) \<le> 2 ^ 64"
    "0 < n \<Longrightarrow> 1 \<le> round53 (of_nat n)"
proof -
  have "rat_of_nat n \<le> rat_of_nat (2 ^ 64)" using assms by (simp only: of_nat_le_iff)
  then have up: "rat_of_nat n \<le> pow2 64" by (simp add: pow2_def)
  show le: "round53 (of_nat n) \<le> 2 ^ 64" using round53_le [OF pow2_representable up] by (simp add: pow2_def)
  show ge: "0 \<le> round53 (rat_of_nat n)" using round53_ge [OF representable_int [of 0], of "rat_of_nat n"] by simp
  show "double_of n = Finite (round53 (of_nat n))" using le ge by (simp add: double_of_def to_double_def Let_def)
  show "0 < n \<Longrightarrow> 1 \<le> round53 (of_nat n)" using round53_ge [OF representable_int [of 1], of "rat_of_nat n"] by simp
qed

text \<open>A share of a whole lies between nothing and everything, and so does its percentage.\<close>

lemma share_finite:
  assumes "a \<le> b" "0 < b" "b \<le> 2 ^ 64"
  shows "\<exists>q. d_div (double_of a) (double_of b) = Finite q \<and> 0 \<le> q \<and> q \<le> 1"
proof -
  let ?a = "round53 (of_nat a)" and ?b = "round53 (of_nat b)"
  have a: "double_of a = Finite ?a" "0 \<le> ?a" using double_of_finite [of a] assms by simp_all
  have b: "double_of b = Finite ?b" "1 \<le> ?b" using double_of_finite [of b] assms by simp_all
  have "?a \<le> ?b" using assms(1) by (intro round53_mono) simp_all
  then have "0 \<le> ?a / ?b" "?a / ?b \<le> 1" using a b by simp_all
  then obtain q where "to_double (?a / ?b) = Finite q \<and> 0 \<le> q \<and> q \<le> 1"
    using to_double_between [OF representable_int [of 0] representable_int [of 1], of "?a / ?b"] by auto
  then show ?thesis using a b by auto
qed

definition percentage :: "double \<Rightarrow> bool" where
  "percentage d \<longleftrightarrow> (\<exists>p. d = Finite p \<and> 0 \<le> p \<and> p \<le> 100)"

lemma hundred: "double_of 100 = Finite 100"
  using to_double_exact [OF representable_int [of 100]] by (simp add: double_of_def)

lemma percentage_share:
  assumes "a \<le> b" "0 < b" "b \<le> 2 ^ 64"
  shows "percentage (d_mul (d_div (double_of a) (double_of b)) (double_of 100))"
proof -
  obtain q where q: "d_div (double_of a) (double_of b) = Finite q" "0 \<le> q" "q \<le> 1" using share_finite [OF assms] by auto
  then show ?thesis
    using to_double_between [OF representable_int [of 0] representable_int [of 100], of "q * 100"] by (simp add: percentage_def hundred)
qed

lemma percentage_zero: "percentage (Finite 0)"
  by (simp add: percentage_def)

lemma percentage_clamp: "d \<noteq> NotNumber \<Longrightarrow> percentage (d_clamp d (Finite 0) (double_of 100))"
  by (cases d) (simp_all add: percentage_def hundred d_clamp_def)

text \<open>Time that passed is more than zero seconds.\<close>

lemma secs_f64_pos:
  assumes "0 < ns" "ns \<le> 2 ^ 64"
  shows "d_less (Finite 0) (secs_f64 ns)"
proof -
  let ?s = "round53 (of_nat (ns div 10 ^ 9))" and ?n = "round53 (of_nat (ns mod 10 ^ 9))"
  have s: "double_of (ns div 10 ^ 9) = Finite ?s" "0 \<le> ?s" "0 < ns div 10 ^ 9 \<Longrightarrow> 1 \<le> ?s" "?s \<le> 2 ^ 64"
    using double_of_finite [of "ns div 10 ^ 9"] assms(2) by simp_all
  have n: "double_of (ns mod 10 ^ 9) = Finite ?n" "0 \<le> ?n" "0 < ns mod 10 ^ 9 \<Longrightarrow> 1 \<le> ?n"
    using double_of_finite [of "ns mod 10 ^ 9"] by (simp_all add: less_imp_le)
  have g: "double_of 1000000000 = Finite 1000000000"
    using to_double_exact [OF representable_int [of "10 ^ 9"]] by (simp add: double_of_def)
  have "ns mod 10 ^ 9 \<le> 10 ^ 9" by (simp add: less_imp_le)
  then obtain q where q: "d_div (double_of (ns mod 10 ^ 9)) (double_of (10 ^ 9)) = Finite q" "0 \<le> q" "q \<le> 1"
    using share_finite [of "ns mod 10 ^ 9" "10 ^ 9"] by auto
  have frac: "pow2 (- 30) \<le> q" if "0 < ns mod 10 ^ 9"
  proof -
    have "pow2 (- 30) \<le> ?n / 10 ^ 9" using n(3) that by (simp add: pow2_def pos_le_divide_eq)
    then have "pow2 (- 30) \<le> round53 (?n / 10 ^ 9)" by (intro round53_ge pow2_representable) simp_all
    then show ?thesis using q(1) using n(1) by (auto simp: g to_double_def Let_def split: if_splits)
  qed
  have "ns div 10 ^ 9 = 0 \<Longrightarrow> 0 < ns mod 10 ^ 9" using assms(1) by (metis div_mult_mod_eq add_0 mult_zero_left)
  then have "pow2 (- 30) \<le> ?s + q"
    using s(2,3) q(2) frac by (cases "ns div 10 ^ 9 = 0") (auto simp: pow2_def)
  then have "pow2 (- 30) \<le> round53 (?s + q)" by (intro round53_ge pow2_representable) simp_all
  then have "0 < round53 (?s + q)" using pow2_pos(1) [of "- 30"] by linarith
  then show ?thesis unfolding secs_f64_def s(1) q(1) by (simp add: to_double_def Let_def)
qed

text \<open>A value that is a number and not below zero.\<close>

fun d_nonneg :: "double \<Rightarrow> bool" where
  "d_nonneg (Finite a) = (0 \<le> a)"
| "d_nonneg PosInf = True"
| "d_nonneg _ = False"

lemma d_nonneg_double_of: "d_nonneg (double_of n)"
proof -
  have "0 \<le> round53 (rat_of_nat n)" using round53_ge [OF representable_int [of 0], of "rat_of_nat n"] by simp
  then show ?thesis by (auto simp: double_of_def to_double_def Let_def)
qed

lemma to_double_nonneg: "0 \<le> q \<Longrightarrow> d_nonneg (to_double q)"
proof -
  assume "0 \<le> q"
  then have "0 \<le> round53 q" using round53_ge [OF representable_int [of 0], of q] by simp
  then show ?thesis by (auto simp: to_double_def Let_def)
qed

lemma d_nonneg_div: "d_nonneg (Finite a) \<Longrightarrow> d_less (Finite 0) b \<Longrightarrow> d_nonneg (d_div (Finite a) b)"
  by (cases b) (auto simp: to_double_nonneg)

end
