(* ===== verification/Metal_Base.thy ===== *)
theory Metal_Base
  imports Float64_Bounds Printed_Text Keyed_Table
begin

text \<open>
  What the collectors of host metrics (\<open>metal/*.rs\<close>) share: the host they read, the small readers of
  text they repeat, and the contract of a sampler, which reports each counter with the one it read before.
  The host does not change while one collector reads it. Time stamps of the metrics are left out.
\<close>

section \<open>Configuration and host\<close>

record MetalConfig =
  mt_enabled :: bool
  mt_interval :: rstring
  mt_cpu_per_core :: bool
  mt_cpu_per_process :: bool
  mt_memory_rss :: bool
  mt_disk_io :: bool
  mt_network_io :: bool
  mt_process_tree :: bool
  mt_container_detection :: bool

text \<open>
  The text of each file (None if it cannot be read or is not valid text), the names in each directory, the
  output of \<open>ls -d /proc/[0-9]*\<close>, which paths exist, the target of each symbolic link, and blocks,
  fragment size, free and available blocks of the file system at each path.
\<close>

record host =
  ho_file :: "rstring \<Rightarrow> rstring option"
  ho_dir :: "rstring \<Rightarrow> rstring list option"
  ho_ls :: rstring
  ho_exists :: "rstring \<Rightarrow> bool"
  ho_link :: "rstring \<Rightarrow> rstring option"
  ho_statvfs :: "rstring \<Rightarrow> (u64 \<times> u64 \<times> u64 \<times> u64) option"

datatype metal_error = Io_error | Empty_stat | Invalid_cpu_value

section \<open>Readers\<close>

definition parse_u64 :: "rstring \<Rightarrow> u64 option" where
  "parse_u64 s = map_option of_nat (parse_uint 10 64 s)"

definition parse_u32 :: "rstring \<Rightarrow> u32 option" where
  "parse_u32 s = map_option of_nat (parse_uint 10 32 s)"

definition counter :: "rstring \<Rightarrow> u64" where
  "counter s = (case parse_u64 s of Some v \<Rightarrow> v | None \<Rightarrow> 0)"

definition nth_opt :: "'a list \<Rightarrow> nat \<Rightarrow> 'a option" where
  "nth_opt xs i = (if i < length xs then Some (xs ! i) else None)"

fun find_map :: "('a \<Rightarrow> 'b option) \<Rightarrow> 'a list \<Rightarrow> 'b option" where
  "find_map f [] = None"
| "find_map f (x # xs) = (case f x of Some y \<Rightarrow> Some y | None \<Rightarrow> find_map f xs)"

text \<open>\<open>line.split(':').nth(1)\<close>, the text between the first two colons.\<close>

definition after_colon :: "rstring \<Rightarrow> rstring option" where
  "after_colon line = nth_opt (split_char 58 line) 1"

text \<open>Lower case letters outside ASCII do not matter to the search for an ASCII word with no k and no final i.\<close>

definition microsoft_kernel :: "host \<Rightarrow> bool" where
  "microsoft_kernel h =
     (case ho_file h (lit ''/proc/version'') of
        Some v \<Rightarrow> str_contains (lit ''microsoft'') (map ascii_lower v)
      | None \<Rightarrow> False)"

text \<open>The processes of the host; on WSL2 the directory is listed by a shell.\<close>

definition list_pids :: "bool \<Rightarrow> host \<Rightarrow> u32 list option" where
  "list_pids wsl2 h =
     (if wsl2 then Some (List.map_filter (\<lambda>line. parse_u32 (last (split_char 47 line))) (str_lines (ho_ls h)))
      else map_option (List.map_filter parse_u32) (ho_dir h (lit ''/proc'')))"

definition proc_path :: "u32 \<Rightarrow> string \<Rightarrow> rstring" where
  "proc_path pid name = lit ''/proc/'' @ decimal (unat pid) @ lit ''/'' @ lit name"

lemma parse_u64_decimal: "n < 2 ^ 64 \<Longrightarrow> parse_u64 (decimal n) = Some (of_nat n)"
  by (simp add: parse_u64_def parse_uint_decimal)

lemma parse_u32_decimal: "n < 2 ^ 32 \<Longrightarrow> parse_u32 (decimal n) = Some (of_nat n)"
  by (simp add: parse_u32_def parse_uint_decimal)

lemma counter_decimal: "n < 2 ^ 64 \<Longrightarrow> counter (decimal n) = of_nat n"
  by (simp add: counter_def parse_u64_decimal)

text \<open>A host with one file of printed lines.\<close>

definition file_host :: "string \<Rightarrow> rstring list list \<Rightarrow> host" where
  "file_host path ls = \<lparr>ho_file = (\<lambda>p. if p = lit path then Some (printed ls) else None),
     ho_dir = (\<lambda>_. None), ho_ls = [], ho_exists = (\<lambda>_. False), ho_link = (\<lambda>_. None), ho_statvfs = (\<lambda>_. None)\<rparr>"

section \<open>Differences of counters\<close>

definition sat_sub :: "u64 \<Rightarrow> u64 \<Rightarrow> u64" where
  "sat_sub a b = (if b \<le> a then a - b else 0)"

definition u64_f64 :: "u64 \<Rightarrow> double" where
  "u64_f64 v = double_of (unat v)"

lemma unat_sat_sub: "unat (sat_sub a b) = unat a - unat b"
  by (auto simp: sat_sub_def unat_sub word_le_nat_alt)

lemma sat_sub_0 [simp]: "sat_sub a 0 = a" "sat_sub a a = 0"
  by (simp_all add: sat_sub_def)

text \<open>A counter over the seconds it took; never below zero.\<close>

definition per_second :: "u64 \<Rightarrow> double \<Rightarrow> double" where
  "per_second n dt = d_div (u64_f64 n) dt"

lemma u64_f64_finite: "u64_f64 v = Finite (round53 (of_nat (unat v)))" "0 \<le> round53 (rat_of_nat (unat v))"
  using double_of_finite [of "unat v"] unat_bound [of v] by (simp_all add: u64_f64_def)

lemma per_second_nonneg: "d_less (Finite 0) dt \<Longrightarrow> d_nonneg (per_second n dt)"
  using d_nonneg_div [of "round53 (of_nat (unat n))" dt] u64_f64_finite [of n] by (simp add: per_second_def)

section \<open>Samplers\<close>

text \<open>
  A sampler keeps a part of the counters of its last reading by name and reports each counter of a new
  reading with what it kept under its name. What it keeps after some readings depends on the last readable
  one only.
\<close>

definition kept_counters :: "('e \<Rightarrow> bool) \<Rightarrow> ('e \<Rightarrow> ('k \<times> 'c) list) \<Rightarrow> 'e list \<Rightarrow> ('k \<rightharpoonup> 'c) \<Rightarrow> 'k \<rightharpoonup> 'c" where
  "kept_counters readable counters es t = foldl (\<lambda>t e. if readable e then map_of (rev (counters e)) else t) t es"

lemma kept_counters_last [simp]:
  "readable e \<Longrightarrow> kept_counters readable counters (es @ [e]) t = map_of (rev (counters e))"
  "\<not> readable e \<Longrightarrow> kept_counters readable counters (es @ [e]) t = kept_counters readable counters es t"
  "kept_counters readable counters [] t = t"
  by (simp_all add: kept_counters_def)

lemma kept_counters_unread:
  "readable e \<Longrightarrow> list_all (\<lambda>e. \<not> readable e) es \<Longrightarrow> kept_counters readable counters (e # es) t = map_of (rev (counters e))"
  by (induction es rule: rev_induct) (simp_all add: kept_counters_def)

lemma run_outputs_state: "snd (run_outputs step (e # es) s) = snd (run_outputs step es (snd (step e s)))"
  by (simp add: Let_def split: prod.splits)

locale sampler =
  fixes collect :: "'e \<Rightarrow> 's \<Rightarrow> ('x + 'o list) \<times> 's" and table :: "'s \<Rightarrow> 'k \<rightharpoonup> 'd" and readable :: "'e \<Rightarrow> bool"
    and counters :: "'e \<Rightarrow> ('k \<times> 'c) list" and keep :: "'e \<Rightarrow> 'c \<Rightarrow> 'd" and report :: "'e \<Rightarrow> 'k \<Rightarrow> 'd option \<Rightarrow> 'c \<Rightarrow> 'o"
  assumes sampled: "readable e \<Longrightarrow> fst (collect e s) = Inr (map (\<lambda>(k, c). report e k (table s k) c) (counters e))"
    and stored: "readable e \<Longrightarrow> table (snd (collect e s)) = map_of (rev (map (\<lambda>(k, c). (k, keep e c)) (counters e)))"
    and unread: "\<not> readable e \<Longrightarrow> (\<exists>x. fst (collect e s) = Inl x) \<and> table (snd (collect e s)) = table s"
begin

definition kept :: "'e \<Rightarrow> ('k \<times> 'd) list" where
  "kept e = map (\<lambda>(k, c). (k, keep e c)) (counters e)"

lemma table_run: "table (snd (run_outputs collect es s)) = kept_counters readable kept es (table s)"
proof (induction es arbitrary: s)
  case (Cons e es)
  then show ?case
    using stored [of e s] unread [of e s] by (simp add: run_outputs_state kept_counters_def kept_def del: run_outputs.simps)
qed (simp add: kept_counters_def)

text \<open>A reading after a readable one, with unreadable ones between them: each counter is reported with what the
  earlier reading kept.\<close>

lemma reading_after:
  assumes "readable d" "list_all (\<lambda>e. \<not> readable e) es" "readable e"
  shows "fst (collect e (snd (run_outputs collect (d # es) s))) =
    Inr (map (\<lambda>(k, c). report e k (map_of (rev (kept d)) k) c) (counters e))"
  by (simp only: sampled [OF assms(3)] table_run kept_counters_unread [OF assms(1,2)])

lemma next_reading:
  assumes "readable d" "readable e"
  shows "fst (collect e (snd (collect d s))) = Inr (map (\<lambda>(k, c). report e k (map_of (rev (kept d)) k) c) (counters e))"
  using stored [OF assms(1)] by (simp add: sampled [OF assms(2)] kept_def)

end

end
