(* ===== verification/Metal_Cpu.thy ===== *)
theory Metal_Cpu
  imports Metal_Base
begin

text \<open>
  The CPU collector (\<open>metal/cpu.rs\<close>, the Linux build): usage in total and per core from the tick counters
  of \<open>/proc/stat\<close>, load, frequency, context switches and topology. Sums and differences of ticks wrap at 64
  bits, as in a release build.
\<close>

section \<open>Data\<close>

record CpuMetrics =
  cm_total_usage_percent :: double
  cm_per_core_percent :: "double list"
  cm_load_average_1m :: "double option"
  cm_load_average_5m :: "double option"
  cm_load_average_15m :: "double option"
  cm_frequency_mhz :: double
  cm_context_switches :: "u64 option"
  cm_physical_cores :: u32
  cm_logical_cores :: u32
  cm_model_name :: rstring
  cm_vendor_id :: "rstring option"

record CpuCollector =
  cc_prev_total :: u64
  cc_prev_idle :: u64
  cc_core_total :: "u64 list"
  cc_core_idle :: "u64 list"

definition CpuCollector_new :: CpuCollector where
  "CpuCollector_new = \<lparr>cc_prev_total = 0, cc_prev_idle = 0, cc_core_total = [], cc_core_idle = []\<rparr>"

section \<open>Lines of the tick counters\<close>

fun parse_values :: "rstring list \<Rightarrow> u64 list option" where
  "parse_values [] = Some []"
| "parse_values (w # ws) = (case parse_u64 w of None \<Rightarrow> None | Some v \<Rightarrow> map_option (Cons v) (parse_values ws))"

definition parse_cpu_line :: "rstring \<Rightarrow> u64 list option" where
  "parse_cpu_line line = parse_values (drop 1 (split_whitespace line))"

definition idle_of :: "u64 list \<Rightarrow> u64" where
  "idle_of vs = (case nth_opt vs 3 of Some v \<Rightarrow> v | None \<Rightarrow> 0)"

definition calculate_usage_percent :: "u64 \<Rightarrow> u64 \<Rightarrow> double" where
  "calculate_usage_percent total_delta idle_delta =
     (if 0 < total_delta
      then d_mul (d_div (u64_f64 (total_delta - idle_delta)) (u64_f64 total_delta)) (double_of 100)
      else Finite 0)"

text \<open>The lines after the first, as long as they begin with \<open>cpu\<close>; the cores are told apart by position.\<close>

fun collect_cores :: "nat \<Rightarrow> rstring list \<Rightarrow> double list \<Rightarrow> u64 list \<times> u64 list \<Rightarrow> double list option \<times> u64 list \<times> u64 list" where
  "collect_cores i [] per_core (tots, idles) = (Some per_core, tots, idles)"
| "collect_cores i (line # lns) per_core (tots, idles) =
     (if \<not> starts_with (lit ''cpu'') line then (Some per_core, tots, idles)
      else (case parse_cpu_line line of
              None \<Rightarrow> (None, tots, idles)
            | Some values \<Rightarrow>
                (let core_total = sum_list values; core_idle = idle_of values in
                 if i < length tots
                 then collect_cores (i + 1) lns
                        (per_core @ [calculate_usage_percent (sat_sub core_total (tots ! i)) (sat_sub core_idle (idles ! i))])
                        (tots[i := core_total], idles[i := core_idle])
                 else collect_cores (i + 1) lns (per_core @ [Finite 0]) (tots @ [core_total], idles @ [core_idle]))))"

section \<open>The other values\<close>

definition parse_ctxt_value :: "rstring \<Rightarrow> u64 option" where
  "parse_ctxt_value line = Option.bind (strip_prefix (lit ''ctxt'') (trim line)) (\<lambda>rest. parse_u64 (trim rest))"

definition get_context_switches :: "rstring \<Rightarrow> u64" where
  "get_context_switches stat = (case find_map parse_ctxt_value (str_lines stat) of Some v \<Rightarrow> v | None \<Rightarrow> 0)"

definition parse_frequency_khz :: "rstring \<Rightarrow> double option" where
  "parse_frequency_khz s = map_option (\<lambda>khz. d_div khz (double_of 1000)) (parse_f64 (trim s))"

definition get_cpu_frequency :: "host \<Rightarrow> double" where
  "get_cpu_frequency h =
     (case Option.bind (ho_file h (lit ''/sys/devices/system/cpu/cpu0/cpufreq/scaling_cur_freq'')) parse_frequency_khz of
        Some mhz \<Rightarrow> mhz
      | None \<Rightarrow>
          (case Option.bind (ho_file h (lit ''/proc/cpuinfo''))
                  (\<lambda>cpuinfo. find_map (\<lambda>line. if starts_with (lit ''cpu MHz'') line
                                         then Option.bind (after_colon line) (\<lambda>v. parse_f64 (trim v)) else None) (str_lines cpuinfo)) of
             Some mhz \<Rightarrow> mhz
           | None \<Rightarrow> Finite 0))"

definition count_logical_cores :: "rstring \<Rightarrow> u32" where
  "count_logical_cores stat =
     of_nat (length (filter (\<lambda>line. starts_with (lit ''cpu'') line \<and> (case nth_opt line 3 of Some c \<Rightarrow> is_ascii_digit c | None \<Rightarrow> False))
       (str_lines stat)))"

definition topology_line :: "rstring \<Rightarrow> u32 \<times> rstring \<Rightarrow> u32 \<times> rstring" where
  "topology_line line acc =
     (case acc of (physical_cores, model_name) \<Rightarrow>
        if starts_with (lit ''model name'') line \<and> model_name = []
        then (physical_cores, case after_colon line of Some v \<Rightarrow> trim v | None \<Rightarrow> model_name)
        else if starts_with (lit ''cpu cores'') line
        then ((case Option.bind (after_colon line) (\<lambda>v. parse_u32 (trim v)) of Some cores \<Rightarrow> cores | None \<Rightarrow> physical_cores), model_name)
        else acc)"

definition get_cpu_topology :: "host \<Rightarrow> rstring \<Rightarrow> u32 \<times> u32 \<times> rstring" where
  "get_cpu_topology h stat =
     (let logical_cores = count_logical_cores stat;
          (physical_cores, model_name) =
            (case ho_file h (lit ''/proc/cpuinfo'') of
               Some cpuinfo \<Rightarrow> fold topology_line (str_lines cpuinfo) (logical_cores, [])
             | None \<Rightarrow> (logical_cores, []))
      in (physical_cores, logical_cores, model_name))"

definition get_vendor_id_from_cpuinfo :: "host \<Rightarrow> rstring option" where
  "get_vendor_id_from_cpuinfo h =
     Option.bind (ho_file h (lit ''/proc/cpuinfo''))
       (\<lambda>cpuinfo. find_map (\<lambda>line. if starts_with (lit ''vendor_id'') line
                              then Option.bind (after_colon line) (\<lambda>v. if trim v \<noteq> [] then Some (trim v) else None) else None)
          (str_lines cpuinfo))"

text \<open>The load average at a position of \<open>/proc/loadavg\<close>.\<close>

definition load_average :: "host \<Rightarrow> nat \<Rightarrow> double" where
  "load_average h i =
     (let load_parts = split_whitespace (case ho_file h (lit ''/proc/loadavg'') of Some s \<Rightarrow> s | None \<Rightarrow> [])
      in case Option.bind (nth_opt load_parts i) parse_f64 of Some v \<Rightarrow> v | None \<Rightarrow> Finite 0)"

section \<open>Collecting\<close>

definition collect_cpu :: "host \<Rightarrow> CpuCollector \<Rightarrow> (metal_error + CpuMetrics) \<times> CpuCollector" where
  "collect_cpu h cc =
     (case ho_file h (lit ''/proc/stat'') of
        None \<Rightarrow> (Inl Io_error, cc)
      | Some stat \<Rightarrow>
          (case str_lines stat of
             [] \<Rightarrow> (Inl Empty_stat, cc)
           | cpu_line # lns \<Rightarrow>
               (case parse_cpu_line cpu_line of
                  None \<Rightarrow> (Inl Invalid_cpu_value, cc)
                | Some values \<Rightarrow>
                    (let total = sum_list values; idle = idle_of values;
                         total_usage = calculate_usage_percent (sat_sub total (cc_prev_total cc)) (sat_sub idle (cc_prev_idle cc));
                         (cores, tots, idles) = collect_cores 0 lns [] (cc_core_total cc, cc_core_idle cc);
                         cc = \<lparr>cc_prev_total = total, cc_prev_idle = idle, cc_core_total = tots, cc_core_idle = idles\<rparr>
                     in case cores of
                          None \<Rightarrow> (Inl Invalid_cpu_value, cc)
                        | Some per_core \<Rightarrow>
                            (let (physical_cores, logical_cores, model_name) = get_cpu_topology h stat in
                             (Inr \<lparr>cm_total_usage_percent = total_usage, cm_per_core_percent = per_core,
                                cm_load_average_1m = Some (load_average h 0), cm_load_average_5m = Some (load_average h 1),
                                cm_load_average_15m = Some (load_average h 2), cm_frequency_mhz = get_cpu_frequency h,
                                cm_context_switches = Some (get_context_switches stat), cm_physical_cores = physical_cores,
                                cm_logical_cores = logical_cores, cm_model_name = model_name,
                                cm_vendor_id = get_vendor_id_from_cpuinfo h\<rparr>, cc))))))"

section \<open>Usage between two readings\<close>

text \<open>The counters of a readable \<open>/proc/stat\<close>: the first line, and the lines of the cores after it.\<close>

fun cores_of :: "rstring list \<Rightarrow> u64 list list option" where
  "cores_of [] = Some []"
| "cores_of (line # lns) =
     (if \<not> starts_with (lit ''cpu'') line then Some []
      else (case parse_cpu_line line of None \<Rightarrow> None | Some v \<Rightarrow> map_option (Cons v) (cores_of lns)))"

definition stat_counters :: "host \<Rightarrow> (u64 list \<times> u64 list list) option" where
  "stat_counters h =
     (case ho_file h (lit ''/proc/stat'') of
        None \<Rightarrow> None
      | Some stat \<Rightarrow>
          (case str_lines stat of
             [] \<Rightarrow> None
           | line # lns \<Rightarrow> Option.bind (parse_cpu_line line) (\<lambda>agg. map_option (Pair agg) (cores_of lns))))"

text \<open>The share of time not idle between two readings of the same counters, as numbers that do not wrap.\<close>

definition ticks :: "u64 list \<Rightarrow> nat" where
  "ticks vs = sum_list (map unat vs)"

definition usage_between :: "u64 list \<Rightarrow> u64 list \<Rightarrow> double" where
  "usage_between a b =
     (let t = ticks b - ticks a; i = unat (idle_of b) - unat (idle_of a)
      in if t = 0 then Finite 0 else d_mul (d_div (double_of (t - i)) (double_of t)) (double_of 100))"

definition counters_grow :: "u64 list \<Rightarrow> u64 list \<Rightarrow> bool" where
  "counters_grow a b \<longleftrightarrow> list_all2 (\<le>) a b \<and> ticks b < 2 ^ 64"

lemma unat_sum_list: "ticks vs < 2 ^ 64 \<Longrightarrow> unat (sum_list vs) = ticks vs"
  by (induction vs) (auto simp: ticks_def unat_word_ariths)

lemma ticks_grow: "list_all2 (\<le>) a b \<Longrightarrow> ticks a \<le> ticks b"
  by (induction rule: list_all2_induct) (auto simp: ticks_def word_le_nat_alt)

lemma ticks_split: "i < length vs \<Longrightarrow> ticks vs = unat (vs ! i) + ticks (take i vs @ drop (Suc i) vs)"
  using arg_cong [OF id_take_nth_drop [of i vs], of ticks] by (simp add: ticks_def)

lemma idle_grows:
  assumes "list_all2 (\<le>) a b"
  shows "unat (idle_of b) - unat (idle_of a) \<le> ticks b - ticks a"
proof (cases "3 < length b")
  case True
  let ?rest = "\<lambda>v::u64 list. take 3 v @ drop 4 v"
  have len: "length a = length b" using assms by (rule list_all2_lengthD)
  have "list_all2 (\<le>) (?rest a) (?rest b)" using assms by (intro list_all2_appendI list_all2_takeI list_all2_dropI)
  then have r: "ticks (?rest a) \<le> ticks (?rest b)" by (rule ticks_grow)
  have "ticks a = unat (a ! 3) + ticks (?rest a)" "ticks b = unat (b ! 3) + ticks (?rest b)"
    using ticks_split [of 3 a] ticks_split [of 3 b] True len by simp_all
  then show ?thesis using r True len by (simp add: idle_of_def nth_opt_def)
qed (simp add: idle_of_def nth_opt_def)

lemma usage_of_growing:
  assumes "counters_grow a b"
  shows "calculate_usage_percent (sat_sub (sum_list b) (sum_list a)) (sat_sub (idle_of b) (idle_of a)) = usage_between a b"
    and "percentage (usage_between a b)"
proof -
  let ?t = "ticks b - ticks a" and ?i = "unat (idle_of b) - unat (idle_of a)"
  have le: "ticks a \<le> ticks b" "ticks b < 2 ^ 64" "?i \<le> ?t"
    using assms by (auto simp: counters_grow_def intro: ticks_grow idle_grows)
  have t: "unat (sat_sub (sum_list b) (sum_list a)) = ?t" using le by (simp add: unat_sat_sub unat_sum_list)
  have i: "unat (sat_sub (idle_of b) (idle_of a)) = ?i" by (simp add: unat_sat_sub)
  have d: "unat (sat_sub (sum_list b) (sum_list a) - sat_sub (idle_of b) (idle_of a)) = ?t - ?i"
    using le(3) t i by (simp add: unat_sub word_le_nat_alt)
  show "calculate_usage_percent (sat_sub (sum_list b) (sum_list a)) (sat_sub (idle_of b) (idle_of a)) = usage_between a b"
    using t by (simp add: calculate_usage_percent_def usage_between_def word_less_nat_alt u64_f64_def d Let_def)
  show "percentage (usage_between a b)"
    using le percentage_share [of "?t - ?i" ?t] by (simp add: usage_between_def Let_def percentage_zero)
qed

definition core_usage :: "u64 list \<Rightarrow> u64 list \<Rightarrow> nat \<Rightarrow> u64 list \<Rightarrow> double" where
  "core_usage tots idles i v =
     (if i < length tots then calculate_usage_percent (sat_sub (sum_list v) (tots ! i)) (sat_sub (idle_of v) (idles ! i)) else Finite 0)"

lemma collect_cores_eq:
  "cores_of lns = Some vs \<Longrightarrow> length idles = length tots \<Longrightarrow> i \<le> length tots \<Longrightarrow>
     collect_cores i lns acc (tots, idles) =
       (Some (acc @ map (\<lambda>(j, v). core_usage tots idles j v) (enumerate i vs)),
        take i tots @ map sum_list vs @ drop (i + length vs) tots, take i idles @ map idle_of vs @ drop (i + length vs) idles)"
proof (induction lns arbitrary: i vs acc tots idles)
  case (Cons line lns)
  show ?case
  proof (cases "starts_with (lit ''cpu'') line")
    case True
    with Cons.prems(1) obtain v ws where v: "parse_cpu_line line = Some v" "cores_of lns = Some ws" "vs = v # ws"
      by (auto split: option.splits)
    define ts where "ts = (if i < length tots then tots[i := sum_list v] else tots @ [sum_list v])"
    define ids where "ids = (if i < length tots then idles[i := idle_of v] else idles @ [idle_of v])"
    have later: "core_usage ts ids j w = core_usage tots idles j w" if "i < j" for j w
      using that Cons.prems(2,3) by (auto simp: core_usage_def nth_append ts_def ids_def)
    have step: "collect_cores i (line # lns) acc (tots, idles) = collect_cores (Suc i) lns (acc @ [core_usage tots idles i v]) (ts, ids)"
      using True v(1) by (simp add: core_usage_def ts_def ids_def Let_def)
    have "map (\<lambda>(j, v). core_usage ts ids j v) (enumerate (Suc i) ws) = map (\<lambda>(j, v). core_usage tots idles j v) (enumerate (Suc i) ws)"
      by (rule map_cong) (auto simp: in_set_enumerate_eq later)
    moreover have "length ids = length ts" "Suc i \<le> length ts" using Cons.prems(2,3) by (auto simp: ts_def ids_def)
    moreover have "take (Suc i) ts = take i tots @ [sum_list v]" "take (Suc i) ids = take i idles @ [idle_of v]"
      using Cons.prems(2,3) by (auto simp: take_Suc_conv_app_nth nth_append ts_def ids_def)
    moreover have "drop (Suc i + n) ts = drop (Suc i + n) tots" "drop (Suc i + n) ids = drop (Suc i + n) idles" for n
      using Cons.prems(2,3) by (auto simp: ts_def ids_def)
    ultimately show ?thesis
      unfolding step using Cons.IH [OF v(2), of ids ts "Suc i" "acc @ [core_usage tots idles i v]"] by (simp add: v(3))
  qed (use Cons.prems(1) in simp)
qed simp

text \<open>Totals and idle times are kept for the same cores, whatever was read.\<close>

definition cpu_ok :: "CpuCollector \<Rightarrow> bool" where
  "cpu_ok cc \<longleftrightarrow> length (cc_core_idle cc) = length (cc_core_total cc)"

lemma collect_cores_ok:
  "length (snd p) = length (fst p) \<Longrightarrow>
     length (snd (snd (collect_cores i lns acc p))) = length (fst (snd (collect_cores i lns acc p)))"
  by (induction i lns acc p rule: collect_cores.induct) (simp_all add: Let_def split: option.splits)

lemma collect_cpu_ok:
  assumes "cpu_ok cc"
  shows "cpu_ok (snd (collect_cpu h cc))"
proof -
  have l: "length ids = length ts" if "collect_cores 0 lns [] (cc_core_total cc, cc_core_idle cc) = (per_core, ts, ids)" for lns per_core ts ids
    using assms collect_cores_ok [of "(cc_core_total cc, cc_core_idle cc)" 0 lns "[]"] that by (simp add: cpu_ok_def)
  show ?thesis
    using assms by (auto simp: collect_cpu_def cpu_ok_def Let_def dest: l split: option.splits list.splits prod.splits)
qed

lemma collect_cpu_readable:
  assumes "stat_counters h = Some (agg, cores)" "cpu_ok cc"
  shows "\<exists>m. collect_cpu h cc = (Inr m, \<lparr>cc_prev_total = sum_list agg, cc_prev_idle = idle_of agg,
      cc_core_total = map sum_list cores @ drop (length cores) (cc_core_total cc),
      cc_core_idle = map idle_of cores @ drop (length cores) (cc_core_idle cc)\<rparr>) \<and>
    cm_total_usage_percent m =
      calculate_usage_percent (sat_sub (sum_list agg) (cc_prev_total cc)) (sat_sub (idle_of agg) (cc_prev_idle cc)) \<and>
    cm_per_core_percent m = map (\<lambda>(i, v). core_usage (cc_core_total cc) (cc_core_idle cc) i v) (enumerate 0 cores)"
proof -
  obtain stat line lns where f: "ho_file h (lit ''/proc/stat'') = Some stat" "str_lines stat = line # lns"
      "parse_cpu_line line = Some agg" "cores_of lns = Some cores"
    using assms(1) by (auto simp: stat_counters_def Option.bind_eq_Some_conv split: option.splits list.splits)
  then show ?thesis
    using collect_cores_eq [OF f(4), of "cc_core_idle cc" "cc_core_total cc" 0 "[]"] assms(2)
    by (simp add: collect_cpu_def cpu_ok_def Let_def split: prod.splits)
qed

text \<open>C21. Two readings of counters that grew, of the same cores, give the usage of the time between them, in
  total and for each core in order: the share of the ticks that are not idle ticks, a percentage; whatever the
  collector read before them.\<close>

theorem cpu_usage_between_readings:
  assumes "stat_counters h1 = Some (agg1, cores1)" "stat_counters h2 = Some (agg2, cores2)"
    and "counters_grow agg1 agg2" "list_all2 counters_grow cores1 cores2" "cpu_ok cc"
  shows "\<exists>m. fst (collect_cpu h2 (snd (collect_cpu h1 cc))) = Inr m \<and>
    cm_total_usage_percent m = usage_between agg1 agg2 \<and> percentage (cm_total_usage_percent m) \<and>
    cm_per_core_percent m = map2 usage_between cores1 cores2 \<and> list_all percentage (cm_per_core_percent m)"
proof -
  let ?cc = "snd (collect_cpu h1 cc)"
  have st: "cc_prev_total ?cc = sum_list agg1" "cc_prev_idle ?cc = idle_of agg1"
      "cc_core_total ?cc = map sum_list cores1 @ drop (length cores1) (cc_core_total cc)"
      "cc_core_idle ?cc = map idle_of cores1 @ drop (length cores1) (cc_core_idle cc)"
    using collect_cpu_readable [OF assms(1,5)] by auto
  obtain m where m: "fst (collect_cpu h2 ?cc) = Inr m"
      "cm_total_usage_percent m = calculate_usage_percent (sat_sub (sum_list agg2) (sum_list agg1)) (sat_sub (idle_of agg2) (idle_of agg1))"
      "cm_per_core_percent m = map (\<lambda>(i, v). core_usage (cc_core_total ?cc) (cc_core_idle ?cc) i v) (enumerate 0 cores2)"
    using collect_cpu_readable [OF assms(2) collect_cpu_ok [OF assms(5)], of h1] by (auto simp: st(1,2))
  have len: "length cores1 = length cores2" using assms(4) by (rule list_all2_lengthD)
  have core: "core_usage (cc_core_total ?cc) (cc_core_idle ?cc) i (cores2 ! i) = usage_between (cores1 ! i) (cores2 ! i) \<and>
      percentage (usage_between (cores1 ! i) (cores2 ! i))" if "i < length cores2" for i
    using that len usage_of_growing [OF list_all2_nthD2 [OF assms(4) that]] by (simp add: core_usage_def st nth_append)
  have cores: "cm_per_core_percent m = map2 usage_between cores1 cores2"
    by (rule nth_equalityI) (use len core in \<open>auto simp: m(3) nth_enumerate_eq\<close>)
  moreover have "list_all percentage (map2 usage_between cores1 cores2)"
    using core len by (auto simp: list_all_length)
  ultimately show ?thesis using m usage_of_growing [OF assms(3)] by simp
qed

section \<open>Printed counters and examples\<close>

text \<open>The tick counters as the kernel prints them: a label and the counters of each line, then other lines.\<close>

definition stat_line :: "string \<times> nat list \<Rightarrow> rstring list" where
  "stat_line l = lit (fst l) # map decimal (snd l)"

definition cpu_label :: "string \<Rightarrow> bool" where
  "cpu_label l \<longleftrightarrow> take 3 l = ''cpu'' \<and> visible (lit l)"

definition stat_host :: "nat list \<Rightarrow> (string \<times> nat list) list \<Rightarrow> host" where
  "stat_host agg cores = file_host ''/proc/stat'' (stat_line (''cpu'', agg) # map stat_line cores @ [[lit ''ctxt'', lit ''7'']])"

lemma visible_stat_line: "visible (lit (fst l)) \<Longrightarrow> list_all visible (stat_line l)"
  by (simp add: stat_line_def list.pred_map list_all_iff visible_decimal)

lemma parse_values_decimal: "list_all (\<lambda>n. n < 2 ^ 64) ns \<Longrightarrow> parse_values (map decimal ns) = Some (map of_nat ns)"
  by (induction ns) (simp_all add: parse_u64_decimal)

lemma parse_stat_line:
  "visible (lit (fst l)) \<Longrightarrow> list_all (\<lambda>n. n < 2 ^ 64) (snd l) \<Longrightarrow> parse_cpu_line (line_of (stat_line l)) = Some (map of_nat (snd l))"
  using visible_stat_line [of l] by (simp add: parse_cpu_line_def) (simp add: stat_line_def parse_values_decimal)

lemma printed_counters:
  assumes "list_all (\<lambda>n. n < 2 ^ 64) agg" "list_all (\<lambda>l. cpu_label (fst l) \<and> list_all (\<lambda>n. n < 2 ^ 64) (snd l)) cores"
  shows "stat_counters (stat_host agg cores) = Some (map of_nat agg, map (\<lambda>l. map of_nat (snd l)) cores)"
proof -
  have cpu: "visible (lit ''cpu'')" "visible (lit ''ctxt'')" "visible (lit ''7'')" by (simp_all add: visible_def)
  have vis: "list_all (list_all visible) (stat_line (''cpu'', agg) # map stat_line cores @ [[lit ''ctxt'', lit ''7'']])"
    using list.pred_mono_strong [OF assms(2), of "\<lambda>l. list_all visible (stat_line l)"] visible_stat_line cpu
    by (simp add: list.pred_map comp_def cpu_label_def)
  have other: "\<not> starts_with (lit ''cpu'') (line_of [lit ''ctxt'', lit ''7''])" by (simp add: starts_with_def line_of_def)
  have lines: "cores_of (map line_of (map stat_line cores @ [[lit ''ctxt'', lit ''7'']])) = Some (map (\<lambda>l. map of_nat (snd l)) cores)"
    using assms(2)
  proof (induction cores)
    case (Cons l cores)
    have "starts_with (lit ''cpu'') (lit (fst l))" using Cons.prems by (simp add: cpu_label_def starts_with_def take_map numeral_3_eq_3)
    then have "starts_with (lit ''cpu'') (line_of (stat_line l))" by (simp add: stat_line_def starts_with_line)
    then show ?case using Cons parse_stat_line [of l] by (simp add: cpu_label_def)
  qed (use other in simp)
  show ?thesis
    using assms(1) lines parse_stat_line [of "(''cpu'', agg)"] cpu lines_of_printed [OF vis]
    by (simp add: stat_counters_def stat_host_def file_host_def)
qed

lemma cpu_label_cpu0: "cpu_label ''cpu0'' \<and> cpu_label ''cpu1'' \<and> cpu_label ''cpu2''"
  by (simp add: cpu_label_def visible_def)

lemma example_counters:
  "stat_counters (stat_host [60, 0, 20, 20] [(''cpu0'', [60, 0, 20, 20])]) = Some ([60, 0, 20, 20], [[60, 0, 20, 20]])"
  "stat_counters (stat_host [160, 0, 20, 120] [(''cpu0'', [160, 0, 20, 120])]) = Some ([160, 0, 20, 120], [[160, 0, 20, 120]])"
  using cpu_label_cpu0 by (simp_all add: printed_counters)

theorem cpu_usage_between_readings_witness:
  "\<exists>m. fst (collect_cpu (stat_host [160, 0, 20, 120] [(''cpu0'', [160, 0, 20, 120])])
      (snd (collect_cpu (stat_host [60, 0, 20, 20] [(''cpu0'', [60, 0, 20, 20])]) CpuCollector_new))) = Inr m \<and>
    cm_total_usage_percent m = Finite 50 \<and> cm_per_core_percent m = [Finite 50]"
proof -
  have half: "to_double 100 = Finite 100" "to_double 200 = Finite 200" "to_double (1 / 2) = Finite (1 / 2)" "to_double 50 = Finite 50"
    using to_double_exact [OF representable_int [of 100]] to_double_exact [OF representable_int [of 200]]
      to_double_exact [OF representable_int [of 50]] to_double_exact [OF representable_half [of 1]] by simp_all
  have u: "usage_between [60, 0, 20, 20] [160, 0, 20, 120] = Finite 50"
    by (simp add: usage_between_def ticks_def idle_of_def nth_opt_def double_of_def half)
  have g: "counters_grow [60, 0, 20, 20] [160, 0, 20, 120]" by (simp add: counters_grow_def ticks_def)
  have "cpu_ok CpuCollector_new" by (simp add: cpu_ok_def CpuCollector_new_def)
  from cpu_usage_between_readings [OF example_counters g _ this] show ?thesis using g u by auto
qed

text \<open>The first reading reports the usage since the start of the host in total, and nothing for the cores.\<close>

lemma first_cpu_reading:
  assumes "stat_counters h = Some (agg, cores)"
  shows "\<exists>m. fst (collect_cpu h CpuCollector_new) = Inr m \<and>
    cm_total_usage_percent m = calculate_usage_percent (sum_list agg) (idle_of agg) \<and>
    cm_per_core_percent m = replicate (length cores) (Finite 0)"
  using collect_cpu_readable [OF assms, of CpuCollector_new]
  by (auto simp: cpu_ok_def CpuCollector_new_def core_usage_def nth_enumerate_eq intro!: nth_equalityI)

text \<open>A counter of waiting time may step back; when the idle time grew by more than the sum, the difference
  wraps, and what is reported is no percentage.\<close>

lemma idle_above_total:
  assumes "0 < t" "t < i" "unat i < 2 ^ 62" "unat t < 2 ^ 62"
  shows "\<not> percentage (calculate_usage_percent t i)"
proof
  assume p: "percentage (calculate_usage_percent t i)"
  let ?n = "unat (t - i)"
  have n: "2 ^ 63 \<le> ?n"
    using assms by (simp add: unat_sub_if' word_less_nat_alt)
  let ?x = "round53 (of_nat ?n)" and ?y = "round53 (of_nat (unat t))"
  have "rat_of_nat (2 ^ 63) \<le> rat_of_nat ?n" using n by (simp only: of_nat_le_iff)
  then have x: "2 ^ 63 \<le> ?x" using round53_ge [OF pow2_representable [of 63], of "rat_of_nat ?n"] by (simp add: pow2_def)
  have "rat_of_nat (unat t) \<le> rat_of_nat (2 ^ 62)" using assms(4) by (simp only: of_nat_le_iff less_imp_le)
  then have y: "?y \<le> 2 ^ 62" "1 \<le> ?y"
    using round53_le [OF pow2_representable [of 62], of "rat_of_nat (unat t)"] assms(1) double_of_finite(4) [of "unat t"] unat_bound [of t]
    by (simp_all add: pow2_def word_less_nat_alt)
  have "2 \<le> ?x / ?y" using x y by (simp add: pos_le_divide_eq)
  then have "2 \<le> round53 (?x / ?y)" by (intro round53_ge [OF representable_int [of 2], simplified]) simp
  then have "d_less (Finite 100) (d_mul (to_double (?x / ?y)) (double_of 100))"
    using round53_ge [OF representable_int [of 200], of "round53 (?x / ?y) * 100"]
    by (auto simp: to_double_def hundred Let_def)
  moreover have "calculate_usage_percent t i = d_mul (to_double (?x / ?y)) (double_of 100)"
    using assms(1) y by (simp add: calculate_usage_percent_def u64_f64_finite)
  ultimately show False using p by (auto simp: percentage_def)
qed

text \<open>When a core goes offline, the cores after it are compared with the counters of their neighbours.\<close>

lemma core_goes_offline:
  "\<exists>m. fst (collect_cpu (stat_host [] [(''cpu0'', [0, 0, 0, 0]), (''cpu2'', [100, 0, 0, 100])])
      (snd (collect_cpu (stat_host [] [(''cpu0'', [0, 0, 0, 0]), (''cpu1'', [0, 0, 0, 0]), (''cpu2'', [100, 0, 0, 100])]) CpuCollector_new))) = Inr m \<and>
    cm_per_core_percent m = [Finite 0, Finite 50]"
proof -
  have half: "to_double 100 = Finite 100" "to_double 200 = Finite 200" "to_double (1 / 2) = Finite (1 / 2)" "to_double 50 = Finite 50"
    using to_double_exact [OF representable_int [of 100]] to_double_exact [OF representable_int [of 200]]
      to_double_exact [OF representable_int [of 50]] to_double_exact [OF representable_half [of 1]] by simp_all
  let ?h1 = "stat_host [] [(''cpu0'', [0, 0, 0, 0]), (''cpu1'', [0, 0, 0, 0]), (''cpu2'', [100, 0, 0, 100])]"
  let ?h2 = "stat_host [] [(''cpu0'', [0, 0, 0, 0]), (''cpu2'', [100, 0, 0, 100])]"
  have c: "stat_counters ?h1 = Some ([], [[0, 0, 0, 0], [0, 0, 0, 0], [100, 0, 0, 100]])"
      "stat_counters ?h2 = Some ([], [[0, 0, 0, 0], [100, 0, 0, 100]])"
    using cpu_label_cpu0 by (simp_all add: printed_counters)
  have ok: "cpu_ok CpuCollector_new" by (simp add: cpu_ok_def CpuCollector_new_def)
  show ?thesis
    using collect_cpu_readable [OF c(1) ok] collect_cpu_readable [OF c(2) collect_cpu_ok [OF ok], of ?h1]
    by (auto simp: CpuCollector_new_def core_usage_def idle_of_def nth_opt_def calculate_usage_percent_def u64_f64_def double_of_def half)
qed

end
