(* ===== verification/Metal_Memory.thy ===== *)
theory Metal_Memory
  imports Metal_Base "HOL-Library.Multiset"
begin

text \<open>
  The memory collector (\<open>metal/memory.rs\<close>, the Linux build): totals from \<open>/proc/meminfo\<close>, pressure, and the
  processes with the largest resident sets. The unstable sort of the standard library is an argument, which
  is given the comparison the code passes to it, since it does not say how it orders equal elements.
\<close>

section \<open>Data\<close>

record MemoryPressure =
  mp_some :: "double \<times> double \<times> double" \<comment> \<open>averages over 10, 60 and 300 seconds\<close>
  mp_full :: "double \<times> double \<times> double"

record ProcessMemory =
  pm_pid :: u32
  pm_name :: rstring
  pm_rss_bytes :: u64
  pm_vsz_bytes :: u64
  pm_swap_bytes :: u64

record MemoryMetrics =
  mm_total_bytes :: u64
  mm_used_bytes :: u64
  mm_free_bytes :: u64
  mm_available_bytes :: u64
  mm_cached_bytes :: "u64 option"
  mm_buffer_bytes :: "u64 option"
  mm_swap_total_bytes :: u64
  mm_swap_used_bytes :: u64
  mm_usage_percent :: double
  mm_pressure :: "MemoryPressure option"
  mm_top_processes :: "ProcessMemory list"

definition MAX_PID_SCAN :: nat where "MAX_PID_SCAN = 1000"
definition DEFAULT_TOP_N :: nat where "DEFAULT_TOP_N = 10"

section \<open>Parsers\<close>

definition meminfo_line :: "rstring \<Rightarrow> (rstring \<rightharpoonup> u64) \<Rightarrow> rstring \<rightharpoonup> u64" where
  "meminfo_line line values =
     (case split_whitespace line of
        key # value_kb # _ \<Rightarrow> values(trim_end_char 58 key \<mapsto> counter value_kb * 1024)
      | _ \<Rightarrow> values)"

definition parse_meminfo :: "rstring \<Rightarrow> rstring \<rightharpoonup> u64" where
  "parse_meminfo content = fold meminfo_line (str_lines content) Map.empty"

definition pressure_token :: "rstring \<Rightarrow> double option \<times> double option \<times> double option \<Rightarrow> double option \<times> double option \<times> double option" where
  "pressure_token token acc =
     (case acc of (avg10, avg60, avg300) \<Rightarrow>
        case strip_prefix (lit ''avg10='') token of
          Some v \<Rightarrow> (parse_f64 v, avg60, avg300)
        | None \<Rightarrow> (case strip_prefix (lit ''avg60='') token of
            Some v \<Rightarrow> (avg10, parse_f64 v, avg300)
          | None \<Rightarrow> (case strip_prefix (lit ''avg300='') token of
              Some v \<Rightarrow> (avg10, avg60, parse_f64 v)
            | None \<Rightarrow> acc)))"

definition parse_pressure_line :: "rstring \<Rightarrow> (double \<times> double \<times> double) option" where
  "parse_pressure_line line =
     (case fold pressure_token (split_whitespace line) (None, None, None) of
        (Some a, Some b, Some c) \<Rightarrow> Some (a, b, c)
      | _ \<Rightarrow> None)"

text \<open>The latest readable line of each kind.\<close>

definition pressure_line ::
  "rstring \<Rightarrow> (double \<times> double \<times> double) option \<times> (double \<times> double \<times> double) option
     \<Rightarrow> (double \<times> double \<times> double) option \<times> (double \<times> double \<times> double) option" where
  "pressure_line line acc =
     (let line = trim line in
      if starts_with (lit ''some'') line
      then (case parse_pressure_line line of Some v \<Rightarrow> (Some v, snd acc) | None \<Rightarrow> acc)
      else if starts_with (lit ''full'') line
      then (case parse_pressure_line line of Some v \<Rightarrow> (fst acc, Some v) | None \<Rightarrow> acc)
      else acc)"

definition parse_pressure :: "rstring \<Rightarrow> MemoryPressure option" where
  "parse_pressure content =
     (case fold pressure_line (str_lines content) (None, None) of
        (Some s, Some f) \<Rightarrow> Some \<lparr>mp_some = s, mp_full = f\<rparr>
      | _ \<Rightarrow> None)"

definition read_memory_pressure :: "host \<Rightarrow> MemoryPressure option" where
  "read_memory_pressure h = Option.bind (ho_file h (lit ''/proc/pressure/memory'')) parse_pressure"

definition parse_status_kb_value :: "rstring \<Rightarrow> u64 option" where
  "parse_status_kb_value line =
     Option.bind (after_colon line) (\<lambda>v. case split_whitespace (trim v) of [] \<Rightarrow> None | w # _ \<Rightarrow> map_option (\<lambda>kb. kb * 1024) (parse_u64 w))"

section \<open>The largest processes\<close>

definition status_line :: "rstring \<Rightarrow> ProcessMemory \<Rightarrow> ProcessMemory" where
  "status_line line p =
     (let kb = (case parse_status_kb_value line of Some v \<Rightarrow> v | None \<Rightarrow> 0) in
      if starts_with (lit ''Name:'') line
      then (case after_colon line of Some v \<Rightarrow> p\<lparr>pm_name := trim v\<rparr> | None \<Rightarrow> p)
      else if starts_with (lit ''VmRSS:'') line then p\<lparr>pm_rss_bytes := kb\<rparr>
      else if starts_with (lit ''VmSize:'') line then p\<lparr>pm_vsz_bytes := kb\<rparr>
      else if starts_with (lit ''VmSwap:'') line then p\<lparr>pm_swap_bytes := kb\<rparr>
      else p)"

definition read_process_memory :: "host \<Rightarrow> u32 \<Rightarrow> ProcessMemory option" where
  "read_process_memory h pid =
     Option.bind (ho_file h (proc_path pid ''status''))
       (\<lambda>status. let p = fold status_line (str_lines status)
                            \<lparr>pm_pid = pid, pm_name = [], pm_rss_bytes = 0, pm_vsz_bytes = 0, pm_swap_bytes = 0\<rparr>
                 in if pm_rss_bytes p = 0 then None else Some p)"

text \<open>What a comparison returns, and the comparison of the resident sets, the larger one first.\<close>

datatype Ordering = Less | Equal | Greater

definition cmp_u64 :: "u64 \<Rightarrow> u64 \<Rightarrow> Ordering" where
  "cmp_u64 a b = (if a < b then Less else if a = b then Equal else Greater)"

definition by_rss :: "ProcessMemory \<Rightarrow> ProcessMemory \<Rightarrow> Ordering" where
  "by_rss a b = cmp_u64 (pm_rss_bytes b) (pm_rss_bytes a)"

type_synonym memory_sort = "(ProcessMemory \<Rightarrow> ProcessMemory \<Rightarrow> Ordering) \<Rightarrow> ProcessMemory list \<Rightarrow> ProcessMemory list"

definition scanned_processes :: "host \<Rightarrow> ProcessMemory list" where
  "scanned_processes h =
     (case list_pids (microsoft_kernel h) h of
        None \<Rightarrow> []
      | Some pids \<Rightarrow> List.map_filter (read_process_memory h) (take MAX_PID_SCAN pids))"

definition read_top_processes :: "memory_sort \<Rightarrow> host \<Rightarrow> nat \<Rightarrow> ProcessMemory list" where
  "read_top_processes sort_unstable_by h n = take n (sort_unstable_by by_rss (scanned_processes h))"

section \<open>Collecting\<close>

definition memory_value :: "(rstring \<rightharpoonup> u64) \<Rightarrow> string \<Rightarrow> u64 \<Rightarrow> u64" where
  "memory_value values key d = (case values (lit key) of Some v \<Rightarrow> v | None \<Rightarrow> d)"

definition collect_memory :: "memory_sort \<Rightarrow> host \<Rightarrow> metal_error + MemoryMetrics" where
  "collect_memory sort_unstable h =
     (case ho_file h (lit ''/proc/meminfo'') of
        None \<Rightarrow> Inl Io_error
      | Some meminfo \<Rightarrow>
          (let values = parse_meminfo meminfo;
               total = memory_value values ''MemTotal'' 0;
               free = memory_value values ''MemFree'' 0;
               available = memory_value values ''MemAvailable'' free;
               swap_total = memory_value values ''SwapTotal'' 0;
               swap_free = memory_value values ''SwapFree'' 0;
               used = sat_sub total available
           in Inr \<lparr>mm_total_bytes = total, mm_used_bytes = used, mm_free_bytes = free, mm_available_bytes = available,
                mm_cached_bytes = Some (memory_value values ''Cached'' 0), mm_buffer_bytes = Some (memory_value values ''Buffers'' 0),
                mm_swap_total_bytes = swap_total, mm_swap_used_bytes = sat_sub swap_total swap_free,
                mm_usage_percent =
                  (if 0 < total then d_clamp (d_mul (d_div (u64_f64 used) (u64_f64 total)) (double_of 100)) (Finite 0) (double_of 100)
                   else Finite 0),
                mm_pressure = read_memory_pressure h,
                mm_top_processes = read_top_processes sort_unstable h DEFAULT_TOP_N\<rparr>))"

section \<open>What is reported\<close>

text \<open>What the library's sort asks of a comparison: it is a total order, up to elements it takes for equal.\<close>

locale total_order =
  fixes cmp :: "'a \<Rightarrow> 'a \<Rightarrow> Ordering"
  assumes dual: "cmp b a = Greater \<longleftrightarrow> cmp a b = Less"
    and less_trans: "cmp a b = Less \<Longrightarrow> cmp b c = Less \<Longrightarrow> cmp a c = Less"
    and equal_trans: "cmp a b = Equal \<Longrightarrow> cmp b c = Equal \<Longrightarrow> cmp a c = Equal"
begin

lemma equal_sym: "cmp a b = Equal \<Longrightarrow> cmp b a = Equal"
  using dual by (metis Ordering.exhaust)

lemma not_greater_trans: "cmp a b \<noteq> Greater \<Longrightarrow> cmp b c \<noteq> Greater \<Longrightarrow> cmp a c \<noteq> Greater"
  using dual less_trans equal_trans equal_sym by (metis Ordering.exhaust)

lemma greater_not_greater: "cmp a b = Greater \<Longrightarrow> cmp b a \<noteq> Greater"
  using dual [of a b] by simp

end

interpretation rss: total_order by_rss
  by unfold_locales (auto simp: by_rss_def cmp_u64_def split: if_splits)

text \<open>And what it promises then: it sorts, and may order equal elements in any way.\<close>

definition sorts :: "(('a \<Rightarrow> 'a \<Rightarrow> Ordering) \<Rightarrow> 'a list \<Rightarrow> 'a list) \<Rightarrow> bool" where
  "sorts f \<longleftrightarrow> (\<forall>cmp xs. total_order cmp \<longrightarrow> mset (f cmp xs) = mset xs \<and> sorted_wrt (\<lambda>a b. cmp a b \<noteq> Greater) (f cmp xs))"

lemma sorts_by_rss:
  assumes "sorts f"
  shows "mset (f by_rss ps) = mset ps" "sorted_wrt (\<lambda>p q. pm_rss_bytes q \<le> pm_rss_bytes p) (f by_rss ps)"
proof -
  have s: "mset (f by_rss ps) = mset ps \<and> sorted_wrt (\<lambda>a b. by_rss a b \<noteq> Greater) (f by_rss ps)"
    using assms rss.total_order_axioms by (simp add: sorts_def)
  then show "mset (f by_rss ps) = mset ps" by simp
  have "sorted_wrt (\<lambda>a b. by_rss a b \<noteq> Greater) (f by_rss ps)" using s by simp
  then show "sorted_wrt (\<lambda>p q. pm_rss_bytes q \<le> pm_rss_bytes p) (f by_rss ps)"
    by (rule sorted_wrt_mono_rel [rotated]) (auto simp: by_rss_def cmp_u64_def split: if_splits)
qed

text \<open>C24. The processes with the largest resident sets are reported: of the processes among the first
  thousand of the directory that have memory of their own, ten or all of them, the largest first, and none
  that is left out is larger than one that is reported. The comparison the code gives to the library's sort
  orders them that way; the sort is only asked to sort by any total order it is given.\<close>

theorem top_processes_largest:
  assumes "sorts sort_unstable_by" "collect_memory sort_unstable_by h = Inr m"
  shows "length (mm_top_processes m) = min 10 (length (scanned_processes h)) \<and>
    mset (mm_top_processes m) \<subseteq># mset (scanned_processes h) \<and>
    sorted_wrt (\<lambda>p q. pm_rss_bytes q \<le> pm_rss_bytes p) (mm_top_processes m) \<and>
    (\<forall>p\<in>set (mm_top_processes m). \<forall>q\<in>#mset (scanned_processes h) - mset (mm_top_processes m). pm_rss_bytes q \<le> pm_rss_bytes p)"
proof -
  let ?ps = "scanned_processes h"
  define qs where "qs = sort_unstable_by by_rss ?ps"
  have qs: "mset qs = mset ?ps" "sorted_wrt (\<lambda>p q. pm_rss_bytes q \<le> pm_rss_bytes p) qs"
    unfolding qs_def by (rule sorts_by_rss [OF assms(1)])+
  have top: "mm_top_processes m = take 10 qs"
    using assms(2) by (auto simp: collect_memory_def read_top_processes_def DEFAULT_TOP_N_def qs_def Let_def split: option.splits)
  have split: "mset ?ps = mset (take 10 qs) + mset (drop 10 qs)" using qs(1) by (simp flip: mset_append)
  have "length qs = length ?ps" using qs(1) by (metis size_mset)
  moreover have "sorted_wrt (\<lambda>p q. pm_rss_bytes q \<le> pm_rss_bytes p) (take 10 qs @ drop 10 qs)" using qs(2) by simp
  ultimately show ?thesis by (auto simp: top split sorted_wrt_append simp del: append_take_drop_id)
qed

text \<open>A sort that keeps the promise.\<close>

fun insert_by :: "('a \<Rightarrow> 'a \<Rightarrow> Ordering) \<Rightarrow> 'a \<Rightarrow> 'a list \<Rightarrow> 'a list" where
  "insert_by cmp x [] = [x]"
| "insert_by cmp x (y # ys) = (if cmp x y = Greater then y # insert_by cmp x ys else x # y # ys)"

definition insertion_sort :: "('a \<Rightarrow> 'a \<Rightarrow> Ordering) \<Rightarrow> 'a list \<Rightarrow> 'a list" where
  "insertion_sort cmp xs = foldr (insert_by cmp) xs []"

lemma mset_insert_by: "mset (insert_by cmp x xs) = add_mset x (mset xs)"
  by (induction xs) simp_all

context total_order
begin

lemma sorted_insert_by:
  "sorted_wrt (\<lambda>a b. cmp a b \<noteq> Greater) xs \<Longrightarrow> sorted_wrt (\<lambda>a b. cmp a b \<noteq> Greater) (insert_by cmp x xs)"
proof (induction xs)
  case (Cons y ys)
  have s: "set (insert_by cmp x ys) = insert x (set ys)" using arg_cong [OF mset_insert_by [of cmp x ys], of set_mset] by simp
  show ?case using Cons greater_not_greater [of x y] not_greater_trans [of x y] by (auto simp: s)
qed simp

end

lemma insertion_sorts: "sorts insertion_sort"
proof -
  have "mset (insertion_sort cmp xs) = mset xs" for cmp :: "'a \<Rightarrow> 'a \<Rightarrow> Ordering" and xs
    by (induction xs) (simp_all add: insertion_sort_def mset_insert_by)
  moreover have "sorted_wrt (\<lambda>a b. cmp a b \<noteq> Greater) (insertion_sort cmp xs)" if "total_order cmp" for cmp :: "'a \<Rightarrow> 'a \<Rightarrow> Ordering" and xs
    using total_order.sorted_insert_by [OF that] by (induction xs) (simp_all add: insertion_sort_def)
  ultimately show ?thesis by (simp add: sorts_def)
qed

text \<open>The percentage of used memory is one, whatever the file says.\<close>

lemma used_percentage:
  assumes "0 < t"
  shows "percentage (d_clamp (d_mul (d_div (u64_f64 (sat_sub t a)) (u64_f64 t)) (double_of 100)) (Finite 0) (double_of 100))"
proof (rule percentage_clamp)
  have "percentage (d_mul (d_div (u64_f64 (sat_sub t a)) (u64_f64 t)) (double_of 100))"
    using percentage_share [of "unat (sat_sub t a)" "unat t"] assms unat_bound [of t]
    by (simp add: u64_f64_def unat_sat_sub word_less_nat_alt)
  then show "d_mul (d_div (u64_f64 (sat_sub t a)) (u64_f64 t)) (double_of 100) \<noteq> NotNumber" by (auto simp: percentage_def)
qed

lemma memory_usage_percentage: "collect_memory s h = Inr m \<Longrightarrow> percentage (mm_usage_percent m)"
  by (auto simp: collect_memory_def Let_def percentage_zero used_percentage split: option.splits)

definition status_host :: host where
  "status_host = \<lparr>ho_file = (\<lambda>p. if p = lit ''/proc/meminfo'' then Some (lit ''MemTotal: 100 kB'')
       else if p = lit ''/proc/1/status'' then Some (lit ''VmRSS: 5 kB'')
       else if p = lit ''/proc/20/status'' then Some (lit ''VmRSS: 9 kB'') else None),
     ho_dir = (\<lambda>p. if p = lit ''/proc'' then Some [lit ''1'', lit ''self'', lit ''20''] else None), ho_ls = [],
     ho_exists = (\<lambda>_. False), ho_link = (\<lambda>_. None), ho_statvfs = (\<lambda>_. None)\<rparr>"

definition process_with :: "u32 \<Rightarrow> u64 \<Rightarrow> ProcessMemory" where
  "process_with pid rss = \<lparr>pm_pid = pid, pm_name = [], pm_rss_bytes = rss, pm_vsz_bytes = 0, pm_swap_bytes = 0\<rparr>"

lemma status_host_processes: "scanned_processes status_host = [process_with 1 5120, process_with 20 9216]"
proof -
  have pids: "list_pids (microsoft_kernel status_host) status_host = Some [1, 20]"
    by (simp add: list_pids_def microsoft_kernel_def status_host_def parse_u32_def parse_uint_def to_digit_def List.map_filter_def)
  have words: "str_lines (lit ''VmRSS: 5 kB'') = [lit ''VmRSS: 5 kB'']" "str_lines (lit ''VmRSS: 9 kB'') = [lit ''VmRSS: 9 kB'']"
    by (simp_all add: str_lines_def)
  have kb: "parse_status_kb_value (lit ''VmRSS: 5 kB'') = Some 5120" "parse_status_kb_value (lit ''VmRSS: 9 kB'') = Some 9216"
    by (simp_all add: parse_status_kb_value_def after_colon_def nth_opt_def split_char_def trim_def trim_matches_def is_whitespace_def
        split_whitespace_def parse_u64_def parse_uint_def to_digit_def)
  have line: "status_line (lit ''VmRSS: 5 kB'') p = p\<lparr>pm_rss_bytes := 5120\<rparr>" "status_line (lit ''VmRSS: 9 kB'') p = p\<lparr>pm_rss_bytes := 9216\<rparr>" for p
    unfolding status_line_def kb by (simp_all add: starts_with_def)
  have digits: "decimal (Suc 0) = lit ''1''" "decimal 20 = lit ''20''" by code_simp+
  have "ho_file status_host (proc_path 1 ''status'') = Some (lit ''VmRSS: 5 kB'')" "ho_file status_host (proc_path 20 ''status'') = Some (lit ''VmRSS: 9 kB'')"
    by (simp_all add: status_host_def proc_path_def digits)
  then have "read_process_memory status_host 1 = Some (process_with 1 5120)" "read_process_memory status_host 20 = Some (process_with 20 9216)"
    unfolding read_process_memory_def by (simp_all only: bind.simps words fold_simps line) (simp_all add: process_with_def)
  then show ?thesis by (simp add: scanned_processes_def pids MAX_PID_SCAN_def List.map_filter_def)
qed

theorem top_processes_largest_witness:
  "\<exists>m. collect_memory insertion_sort status_host = Inr m \<and> mm_top_processes m = [process_with 20 9216, process_with 1 5120]"
proof -
  obtain m where m: "collect_memory insertion_sort status_host = Inr m"
    by (simp add: collect_memory_def status_host_def Let_def)
  let ?a = "process_with 1 5120" and ?b = "process_with 20 9216"
  have rss: "pm_rss_bytes ?a = 5120" "pm_rss_bytes ?b = 9216" by (simp_all add: process_with_def)
  have t: "length (mm_top_processes m) = 2" "mset (mm_top_processes m) \<subseteq># {#?a, ?b#}"
    "sorted_wrt (\<lambda>p q. pm_rss_bytes q \<le> pm_rss_bytes p) (mm_top_processes m)"
    using top_processes_largest [OF insertion_sorts m] by (simp_all add: status_host_processes)
  then have "mset (mm_top_processes m) = {#?a, ?b#}" by (metis mset_subset_size size_mset size_add_mset size_empty subset_mset.le_neq_trans less_irrefl numeral_2_eq_2)
  moreover obtain x y where xy: "mm_top_processes m = [x, y]"
    using t(1) by (metis (no_types, lifting) length_0_conv length_Suc_conv numeral_2_eq_2)
  ultimately have "x = ?a \<and> y = ?b \<or> x = ?b \<and> y = ?a" by (auto simp: add_eq_conv_ex)
  then have "mm_top_processes m = [?b, ?a]" using t(3) by (auto simp: xy rss)
  then show ?thesis using m by blast
qed

end
