(* ===== verification/Metal_Disk.thy ===== *)
theory Metal_Disk
  imports Metal_Base "HOL-Library.AList"
begin

text \<open>
  The disk collector (\<open>metal/disk.rs\<close>, the Linux build): rates from the counters of \<open>/proc/diskstats\<close>, mount
  points and file systems from \<open>/proc/mounts\<close>, usage from \<open>statvfs\<close>, the kind of device from
  \<open>/sys/block\<close>. Products wrap at 64 bits, as in a release build. A reading is a host and the time in
  nanoseconds.
\<close>

section \<open>Data\<close>

record DiskDevice =
  dd_device_name :: rstring
  dd_mount_point :: rstring
  dd_filesystem_type :: rstring
  dd_total_bytes :: u64
  dd_used_bytes :: u64
  dd_free_bytes :: u64
  dd_read_ops_per_sec :: "double option"
  dd_write_ops_per_sec :: "double option"
  dd_read_bytes_per_sec :: "double option"
  dd_write_bytes_per_sec :: "double option"
  dd_io_latency_ms :: "double option"
  dd_queue_depth :: "double option"
  dd_is_ssd :: bool
  dd_utilization_pct :: double

record DiskStatSnapshot =
  ds_read_ops :: u64
  ds_write_ops :: u64
  ds_read_sectors :: u64
  ds_write_sectors :: u64
  ds_io_ticks :: u64
  ds_timestamp :: nat

type_synonym disk_table = "(rstring \<times> DiskStatSnapshot) list"
type_synonym reading = "host \<times> nat"

section \<open>Lines and device files\<close>

definition parse_diskstats_line :: "nat \<Rightarrow> rstring \<Rightarrow> (rstring \<times> DiskStatSnapshot) option" where
  "parse_diskstats_line now line =
     (let parts = split_whitespace line in
      if length parts < 14 then None
      else (let name = parts ! 2 in
            if starts_with (lit ''loop'') name \<or> starts_with (lit ''ram'') name then None
            else Some (name, \<lparr>ds_read_ops = counter (parts ! 3), ds_write_ops = counter (parts ! 7), ds_read_sectors = counter (parts ! 5),
                   ds_write_sectors = counter (parts ! 9), ds_io_ticks = counter (parts ! 12), ds_timestamp = now\<rparr>)))"

definition is_ssd_from_rotational :: "rstring \<Rightarrow> bool" where
  "is_ssd_from_rotational value = (trim value = lit ''0'')"

text \<open>Zero unless the time is above zero; a time that is not a number would pass the test.\<close>

definition calculate_utilization_pct :: "u64 \<Rightarrow> double \<Rightarrow> double" where
  "calculate_utilization_pct io_ticks_delta time_delta_ms =
     (if \<not> d_less (Finite 0) time_delta_ms \<and> time_delta_ms \<noteq> NotNumber then Finite 0
      else d_clamp (d_mul (d_div (u64_f64 io_ticks_delta) time_delta_ms) (double_of 100)) (Finite 0) (double_of 100))"

text \<open>The text before the last occurrence of a character.\<close>

definition before_last :: "nat \<Rightarrow> rstring \<Rightarrow> rstring option" where
  "before_last c s = (if c \<in> set s then Some (rev (drop 1 (dropWhile (\<lambda>x. x \<noteq> c) (rev s)))) else None)"

definition sys_block :: "rstring \<Rightarrow> rstring" where
  "sys_block device = lit ''/sys/block/'' @ device"

definition base_device_name :: "host \<Rightarrow> rstring \<Rightarrow> rstring" where
  "base_device_name h device =
     (if ho_exists h (sys_block device) then device
      else (let stripped = (case before_last (of_char CHR ''p'') device of
                              Some candidate \<Rightarrow>
                                if candidate \<noteq> [] \<and> is_ascii_digit (last candidate) \<and> ho_exists h (sys_block candidate)
                                then Some candidate else None
                            | None \<Rightarrow> None)
            in case stripped of
                 Some candidate \<Rightarrow> candidate
               | None \<Rightarrow>
                   (let base = rev (dropWhile is_ascii_digit (rev device)) in
                    if base \<noteq> [] \<and> ho_exists h (sys_block base) then base else device)))"

definition detect_disk_type :: "host \<Rightarrow> rstring \<Rightarrow> bool" where
  "detect_disk_type h base =
     (case ho_file h (sys_block base @ lit ''/queue/rotational'') of Some content \<Rightarrow> is_ssd_from_rotational content | None \<Rightarrow> False)"

definition read_queue_depth :: "host \<Rightarrow> rstring \<Rightarrow> u32" where
  "read_queue_depth h base =
     (case Option.bind (ho_file h (sys_block base @ lit ''/queue/nr_requests'')) (\<lambda>content. parse_u32 (trim content)) of
        Some v \<Rightarrow> v | None \<Rightarrow> 0)"

definition find_mount_point :: "host \<Rightarrow> rstring \<Rightarrow> rstring" where
  "find_mount_point h device =
     (case Option.bind (ho_file h (lit ''/proc/mounts''))
             (\<lambda>mounts. find_map (\<lambda>line. case split_whitespace line of
                dev # mount # _ \<Rightarrow> if str_contains device dev then Some mount else None
              | _ \<Rightarrow> None) (str_lines mounts)) of
        Some mount \<Rightarrow> mount | None \<Rightarrow> lit ''/'')"

definition find_fs_type :: "host \<Rightarrow> rstring \<Rightarrow> rstring" where
  "find_fs_type h mount_point =
     (case Option.bind (ho_file h (lit ''/proc/mounts''))
             (\<lambda>mounts. find_map (\<lambda>line. case split_whitespace line of
                dev # mount # fs # _ \<Rightarrow> if mount = mount_point then Some fs else None
              | _ \<Rightarrow> None) (str_lines mounts)) of
        Some fs \<Rightarrow> fs | None \<Rightarrow> lit ''unknown'')"

text \<open>A path with a NUL is not a C string and stands for the root.\<close>

definition get_disk_usage :: "host \<Rightarrow> rstring \<Rightarrow> u64 \<times> u64 \<times> u64" where
  "get_disk_usage h mount_point =
     (case ho_statvfs h (if 0 \<in> set mount_point then lit ''/'' else mount_point) of
        Some (blocks, frsize, bfree, bavail) \<Rightarrow>
          (let total = blocks * frsize; free = bfree * frsize; available = bavail * frsize
           in (total, sat_sub total free, available))
      | None \<Rightarrow> (0, 0, 0))"

section \<open>Collecting\<close>

definition current_stats :: "reading \<Rightarrow> disk_table" where
  "current_stats r =
     (let diskstats = (case ho_file (fst r) (lit ''/proc/diskstats'') of Some s \<Rightarrow> s | None \<Rightarrow> [])
      in fold (\<lambda>line m. case parse_diskstats_line (snd r) line of Some (name, snap) \<Rightarrow> AList.update name snap m | None \<Rightarrow> m)
           (str_lines diskstats) [])"

text \<open>Reads and writes each second, bytes read and written each second, latency, utilization.\<close>

definition disk_rates :: "nat \<Rightarrow> DiskStatSnapshot option \<Rightarrow> DiskStatSnapshot \<Rightarrow> double \<times> double \<times> double \<times> double \<times> double \<times> double" where
  "disk_rates now prev snapshot =
     (let zero = (Finite 0, Finite 0, Finite 0, Finite 0, Finite 0, Finite 0) in
      case prev of
        None \<Rightarrow> zero
      | Some prev \<Rightarrow>
          (let dt_secs = secs_f64 (now - ds_timestamp prev); dt_ms = millis_f64 (now - ds_timestamp prev) in
           if d_less (Finite 0) dt_secs
           then (let io_ticks_delta = sat_sub (ds_io_ticks snapshot) (ds_io_ticks prev) in
                 (per_second (sat_sub (ds_read_ops snapshot) (ds_read_ops prev)) dt_secs,
                  per_second (sat_sub (ds_write_ops snapshot) (ds_write_ops prev)) dt_secs,
                  per_second (sat_sub (ds_read_sectors snapshot) (ds_read_sectors prev) * 512) dt_secs,
                  per_second (sat_sub (ds_write_sectors snapshot) (ds_write_sectors prev) * 512) dt_secs,
                  if ds_read_ops prev < ds_read_ops snapshot
                  then d_div (u64_f64 io_ticks_delta) (u64_f64 (sat_sub (ds_read_ops snapshot) (ds_read_ops prev)))
                  else Finite 0,
                  calculate_utilization_pct io_ticks_delta dt_ms))
           else zero))"

definition disk_device :: "reading \<Rightarrow> rstring \<Rightarrow> DiskStatSnapshot option \<Rightarrow> DiskStatSnapshot \<Rightarrow> DiskDevice" where
  "disk_device r name prev snapshot =
     (let h = fst r; mount_point = find_mount_point h name;
          (read_ops, write_ops, read_bytes, write_bytes, latency, utilization) = disk_rates (snd r) prev snapshot;
          (total, used, free) = get_disk_usage h mount_point;
          base = base_device_name h name
      in \<lparr>dd_device_name = name, dd_mount_point = mount_point, dd_filesystem_type = find_fs_type h mount_point,
           dd_total_bytes = total, dd_used_bytes = used, dd_free_bytes = free,
           dd_read_ops_per_sec = Some read_ops, dd_write_ops_per_sec = Some write_ops,
           dd_read_bytes_per_sec = Some read_bytes, dd_write_bytes_per_sec = Some write_bytes, dd_io_latency_ms = Some latency,
           dd_queue_depth = Some (double_of (unat (read_queue_depth h base))), dd_is_ssd = detect_disk_type h base,
           dd_utilization_pct = utilization\<rparr>)"

definition collect_disk :: "reading \<Rightarrow> disk_table \<Rightarrow> (metal_error + DiskDevice list) \<times> disk_table" where
  "collect_disk r prev =
     (let current = current_stats r in (Inr (map (\<lambda>(name, snapshot). disk_device r name (map_of prev name) snapshot) current), current))"

section \<open>Rates between two readings\<close>

lemma current_stats_distinct: "distinct (map fst (current_stats r))"
proof -
  have "distinct (map fst (fold (\<lambda>line m. case parse_diskstats_line (snd r) line of Some (name, snap) \<Rightarrow> AList.update name snap m | None \<Rightarrow> m) ls m))"
    if "distinct (map fst m)" for ls m
    using that by (induction ls arbitrary: m) (auto simp: distinct_update split: option.splits)
  then show ?thesis by (simp add: current_stats_def Let_def)
qed

lemma map_of_rev_distinct: "distinct (map fst xs) \<Longrightarrow> map_of (rev xs) = map_of xs"
  by (simp add: map_of_inject_set rev_map [symmetric])

interpretation disk_sampler: sampler collect_disk map_of "\<lambda>_. True" current_stats "\<lambda>_ snapshot. snapshot" disk_device
  by unfold_locales (simp_all add: collect_disk_def Let_def map_of_rev_distinct current_stats_distinct)

lemma utilization_percentage: "percentage (calculate_utilization_pct n (millis_f64 ns))"
proof (cases "d_less (Finite 0) (millis_f64 ns)")
  case True
  have "d_nonneg (d_div (u64_f64 n) (millis_f64 ns))"
    using per_second_nonneg [OF True, of n] by (simp add: per_second_def)
  then have "d_mul (d_div (u64_f64 n) (millis_f64 ns)) (double_of 100) \<noteq> NotNumber"
    by (cases "d_div (u64_f64 n) (millis_f64 ns)") (auto simp: hundred to_double_def Let_def)
  then show ?thesis using True by (simp add: calculate_utilization_pct_def percentage_clamp)
next
  case False
  moreover have "millis_f64 ns \<noteq> NotNumber" by (auto simp: millis_f64_def double_of_def to_double_def Let_def)
  ultimately show ?thesis by (simp add: calculate_utilization_pct_def percentage_zero)
qed

lemma disk_device_fields:
  "dd_device_name (disk_device r name prev s) = name"
  "dd_read_ops_per_sec (disk_device r name prev s) = Some (fst (disk_rates (snd r) prev s))"
  "dd_write_ops_per_sec (disk_device r name prev s) = Some (fst (snd (disk_rates (snd r) prev s)))"
  "dd_read_bytes_per_sec (disk_device r name prev s) = Some (fst (snd (snd (disk_rates (snd r) prev s))))"
  "dd_write_bytes_per_sec (disk_device r name prev s) = Some (fst (snd (snd (snd (disk_rates (snd r) prev s)))))"
  "dd_io_latency_ms (disk_device r name prev s) = Some (fst (snd (snd (snd (snd (disk_rates (snd r) prev s))))))"
  "dd_utilization_pct (disk_device r name prev s) = snd (snd (snd (snd (snd (disk_rates (snd r) prev s)))))"
  by (simp_all add: disk_device_def Let_def case_prod_beta)

lemma disk_utilization: "percentage (dd_utilization_pct (disk_device r name prev s))"
  unfolding disk_device_fields by (auto simp: disk_rates_def Let_def percentage_zero utilization_percentage split: option.splits)

lemma current_stats_time: "(name, snap) \<in> set (current_stats r) \<Longrightarrow> ds_timestamp snap = snd r"
proof -
  have "(name, snap) \<in> set (fold (\<lambda>line m. case parse_diskstats_line (snd r) line of Some (name, snap) \<Rightarrow> AList.update name snap m | None \<Rightarrow> m) ls m)
      \<Longrightarrow> \<forall>(name, snap)\<in>set m. ds_timestamp snap = snd r \<Longrightarrow> ds_timestamp snap = snd r" for ls m
  proof (induction ls arbitrary: m)
    case (Cons line ls)
    have "\<forall>(name, snap)\<in>set (AList.update n s m). ds_timestamp snap = snd r" if "parse_diskstats_line (snd r) line = Some (n, s)" for n s
    proof -
      have "ds_timestamp s = snd r" using that by (auto simp: parse_diskstats_line_def Let_def split: if_splits)
      moreover have "set (AList.update n s m) \<subseteq> insert (n, s) (set m)" by (induction m) auto
      ultimately show ?thesis using Cons.prems(2) by blast
    qed
    then show ?case using Cons by (auto split: option.splits)
  qed auto
  then show "(name, snap) \<in> set (current_stats r) \<Longrightarrow> ds_timestamp snap = snd r" by (simp add: current_stats_def Let_def)
qed

text \<open>C22. The rates of a device that two readings show are the differences of its counters over the seconds
  between them, whatever was read before: operations and bytes, read and written; no rate is below zero, and
  the utilization is a percentage. A sector counts 512 bytes.\<close>

theorem disk_rates_between_readings:
  assumes "map_of (current_stats r1) name = Some s1" "map_of (current_stats r2) name = Some s2"
    and "snd r1 < snd r2" "snd r2 - snd r1 \<le> 2 ^ 64"
  shows "\<exists>devices d. fst (collect_disk r2 (snd (collect_disk r1 t))) = Inr devices \<and> map dd_device_name devices = map fst (current_stats r2) \<and>
    d \<in> set devices \<and> dd_device_name d = name \<and>
    dd_read_ops_per_sec d = Some (per_second (sat_sub (ds_read_ops s2) (ds_read_ops s1)) (secs_f64 (snd r2 - snd r1))) \<and>
    dd_write_ops_per_sec d = Some (per_second (sat_sub (ds_write_ops s2) (ds_write_ops s1)) (secs_f64 (snd r2 - snd r1))) \<and>
    dd_read_bytes_per_sec d = Some (per_second (sat_sub (ds_read_sectors s2) (ds_read_sectors s1) * 512) (secs_f64 (snd r2 - snd r1))) \<and>
    dd_write_bytes_per_sec d = Some (per_second (sat_sub (ds_write_sectors s2) (ds_write_sectors s1) * 512) (secs_f64 (snd r2 - snd r1))) \<and>
    (\<forall>n. d_nonneg (per_second n (secs_f64 (snd r2 - snd r1)))) \<and> percentage (dd_utilization_pct d)"
proof -
  let ?ds = "map (\<lambda>(k, c). disk_device r2 k (map_of (current_stats r1) k) c) (current_stats r2)"
  have out: "fst (collect_disk r2 (snd (collect_disk r1 t))) = Inr ?ds" by (simp add: collect_disk_def Let_def)
  have names: "map dd_device_name ?ds = map fst (current_stats r2)"
    by (auto simp: disk_device_def Let_def split: prod.splits)
  have mem: "(name, s2) \<in> set (current_stats r2)" "(name, s1) \<in> set (current_stats r1)" using assms by (simp_all add: map_of_SomeD)
  then have d: "disk_device r2 name (Some s1) s2 \<in> set ?ds" using assms(1) by force
  have pos: "d_less (Finite 0) (secs_f64 (snd r2 - snd r1))" using assms(3,4) by (intro secs_f64_pos) simp_all
  have rates: "disk_rates (snd r2) (Some s1) s2 =
     (per_second (sat_sub (ds_read_ops s2) (ds_read_ops s1)) (secs_f64 (snd r2 - snd r1)),
      per_second (sat_sub (ds_write_ops s2) (ds_write_ops s1)) (secs_f64 (snd r2 - snd r1)),
      per_second (sat_sub (ds_read_sectors s2) (ds_read_sectors s1) * 512) (secs_f64 (snd r2 - snd r1)),
      per_second (sat_sub (ds_write_sectors s2) (ds_write_sectors s1) * 512) (secs_f64 (snd r2 - snd r1)),
      snd (snd (snd (snd (disk_rates (snd r2) (Some s1) s2)))))"
    using pos by (simp add: disk_rates_def current_stats_time [OF mem(2)] Let_def)
  show ?thesis
    by (rule exI [of _ ?ds], rule exI [of _ "disk_device r2 name (Some s1) s2"], unfold disk_device_fields(2-5), subst (1 2 3 4) rates)
      (use out names d disk_utilization per_second_nonneg [OF pos] in \<open>simp add: disk_device_fields(1)\<close>)
qed

section \<open>Printed counters and examples\<close>

definition disk_words :: "rstring \<Rightarrow> nat list \<Rightarrow> rstring list" where
  "disk_words name cs = [lit ''8'', lit ''0'', name] @ map decimal cs"

definition snapshot_of :: "nat list \<Rightarrow> nat \<Rightarrow> DiskStatSnapshot" where
  "snapshot_of cs now = \<lparr>ds_read_ops = of_nat (cs ! 0), ds_write_ops = of_nat (cs ! 4), ds_read_sectors = of_nat (cs ! 2),
     ds_write_sectors = of_nat (cs ! 6), ds_io_ticks = of_nat (cs ! 9), ds_timestamp = now\<rparr>"

lemma disk_line_of_printed:
  assumes "visible name" "\<not> starts_with (lit ''loop'') name" "\<not> starts_with (lit ''ram'') name" "11 \<le> length cs" "list_all (\<lambda>n. n < 2 ^ 64) cs"
  shows "parse_diskstats_line now (line_of (disk_words name cs)) = Some (name, snapshot_of cs now)"
proof -
  have vis: "list_all visible (disk_words name cs)"
    using assms(1) by (simp add: disk_words_def list.pred_map comp_def visible_decimal) (simp add: visible_def list_all_iff)
  have field: "disk_words name cs ! (3 + i) = decimal (cs ! i)" "counter (decimal (cs ! i)) = of_nat (cs ! i)" if "i < 11" for i
  proof -
    have i: "i < length cs" using that assms(4) by simp
    then show "disk_words name cs ! (3 + i) = decimal (cs ! i)" by (simp add: disk_words_def nth_append)
    show "counter (decimal (cs ! i)) = of_nat (cs ! i)" using i assms(5) by (simp add: counter_decimal list_all_length)
  qed
  have fields: "counter (disk_words name cs ! 3) = of_nat (cs ! 0)" "counter (disk_words name cs ! 7) = of_nat (cs ! 4)"
      "counter (disk_words name cs ! 5) = of_nat (cs ! 2)" "counter (disk_words name cs ! 9) = of_nat (cs ! 6)"
      "counter (disk_words name cs ! 12) = of_nat (cs ! 9)" "disk_words name cs ! 2 = name" "14 \<le> length (disk_words name cs)"
    using field [of 0] field [of 4] field [of 2] field [of 6] field [of 9] assms(4) by (simp_all add: disk_words_def)
  show ?thesis
    using fields assms(2,3) unfolding parse_diskstats_line_def words_of_line [OF vis] by (simp add: snapshot_of_def Let_def del: map_map)
qed

lemma disk_table_of_printed:
  assumes "visible name" "\<not> starts_with (lit ''loop'') name" "\<not> starts_with (lit ''ram'') name" "11 \<le> length cs" "list_all (\<lambda>n. n < 2 ^ 64) cs"
  shows "current_stats (file_host ''/proc/diskstats'' [disk_words name cs], now) = [(name, snapshot_of cs now)]"
proof -
  have "list_all visible (disk_words name cs)"
    using assms(1) by (simp add: disk_words_def list.pred_map comp_def visible_decimal) (simp add: visible_def list_all_iff)
  then have "list_all (list_all visible) [disk_words name cs]" by simp
  from lines_of_printed [OF this] show ?thesis
    using disk_line_of_printed [OF assms, of now] by (simp add: current_stats_def file_host_def)
qed

theorem disk_rates_between_readings_witness:
  "\<exists>devices d. fst (collect_disk (file_host ''/proc/diskstats'' [disk_words (lit ''sda'') [30, 0, 80, 0, 5, 0, 0, 0, 0, 7, 0]], 2 * 10 ^ 9)
      (snd (collect_disk (file_host ''/proc/diskstats'' [disk_words (lit ''sda'') [10, 0, 40, 0, 5, 0, 0, 0, 0, 2, 0]], 10 ^ 9) []))) = Inr devices \<and>
    d \<in> set devices \<and> dd_device_name d = lit ''sda'' \<and> dd_read_ops_per_sec d = Some (per_second 20 (secs_f64 (10 ^ 9))) \<and>
    dd_read_bytes_per_sec d = Some (per_second 20480 (secs_f64 (10 ^ 9)))"
proof -
  have sda: "visible (lit ''sda'')" "\<not> starts_with (lit ''loop'') (lit ''sda'')" "\<not> starts_with (lit ''ram'') (lit ''sda'')"
    by (simp_all add: visible_def starts_with_def)
  note printed = disk_table_of_printed [OF sda]
  have s: "map_of (current_stats (file_host ''/proc/diskstats'' [disk_words (lit ''sda'') [10, 0, 40, 0, 5, 0, 0, 0, 0, 2, 0]], 10 ^ 9)) (lit ''sda'') =
        Some (snapshot_of [10, 0, 40, 0, 5, 0, 0, 0, 0, 2, 0] (10 ^ 9))"
      "map_of (current_stats (file_host ''/proc/diskstats'' [disk_words (lit ''sda'') [30, 0, 80, 0, 5, 0, 0, 0, 0, 7, 0]], 2 * 10 ^ 9)) (lit ''sda'') =
        Some (snapshot_of [30, 0, 80, 0, 5, 0, 0, 0, 0, 7, 0] (2 * 10 ^ 9))"
    using printed [of "[10, 0, 40, 0, 5, 0, 0, 0, 0, 2, 0]" "10 ^ 9"] printed [of "[30, 0, 80, 0, 5, 0, 0, 0, 0, 7, 0]" "2 * 10 ^ 9"] by simp_all
  show ?thesis using disk_rates_between_readings [OF s, of "[]"] by (auto simp: snapshot_of_def sat_sub_def)
qed

text \<open>A device takes the mount point of the first device whose name contains its own, and the root if there is
  none; so a device that is not mounted is reported with the usage of the root.\<close>

lemma mount_point_by_substring:
  "find_mount_point (file_host ''/proc/mounts'' [[lit ''/dev/sda10'', lit ''/data'', lit ''ext4''], [lit ''/dev/sda1'', lit ''/'', lit ''ext4'']])
     (lit ''sda1'') = lit ''/data''"
proof -
  let ?ls = "[[lit ''/dev/sda10'', lit ''/data'', lit ''ext4''], [lit ''/dev/sda1'', lit ''/'', lit ''ext4'']]"
  have vis: "list_all (list_all visible) ?ls" by (simp add: visible_def)
  then have first: "split_whitespace (line_of (hd ?ls)) = hd ?ls" by (intro words_of_line) simp
  have "str_contains (lit ''sda1'') (lit ''/dev/sda10'')" by (simp add: starts_with_def)
  then show ?thesis using lines_of_printed [OF vis] first by (simp add: find_mount_point_def file_host_def)
qed

lemma unmounted_device_at_root:
  assumes "\<And>mounts line dev mount rest. ho_file h (lit ''/proc/mounts'') = Some mounts \<Longrightarrow> line \<in> set (str_lines mounts) \<Longrightarrow>
      split_whitespace line = dev # mount # rest \<Longrightarrow> \<not> str_contains name dev"
  shows "dd_mount_point (disk_device (h, now) name prev s) = lit ''/''"
proof -
  let ?f = "\<lambda>line. case split_whitespace line of dev # mount # _ \<Rightarrow> if str_contains name dev then Some mount else None | _ \<Rightarrow> None"
  have none: "\<forall>line\<in>set ls. ?f line = None \<Longrightarrow> find_map ?f ls = None" for ls by (induction ls) auto
  have "find_mount_point h name = lit ''/''"
  proof (cases "ho_file h (lit ''/proc/mounts'')")
    case (Some mounts)
    then have "\<forall>line\<in>set (str_lines mounts). ?f line = None" using assms by (auto split: list.splits)
    then have "find_map ?f (str_lines mounts) = None" by (rule none)
    then show ?thesis unfolding find_mount_point_def Some by simp
  qed (simp add: find_mount_point_def)
  then show ?thesis by (simp add: disk_device_def Let_def case_prod_beta)
qed

end
