(* ===== verification/Metal_Network.thy ===== *)
theory Metal_Network
  imports Metal_Base Proc_Polls
begin

text \<open>
  The network collector (\<open>metal/network.rs\<close>, the Linux build): rates of the interfaces from
  \<open>/proc/net/dev\<close>, link state from \<open>/sys/class/net\<close>, and TCP totals from \<open>/proc/net/snmp\<close>, \<open>tcp\<close> and
  \<open>tcp6\<close>. A reading is a host and the time in nanoseconds.
\<close>

section \<open>Data\<close>

record TcpStats =
  ts_retransmits :: u64
  ts_active_connections :: u32
  ts_time_wait :: u32
  ts_listen :: u32

definition TcpStats_default :: TcpStats where
  "TcpStats_default = \<lparr>ts_retransmits = 0, ts_active_connections = 0, ts_time_wait = 0, ts_listen = 0\<rparr>"

record NetworkInterface =
  ni_interface_name :: rstring
  ni_rx_bytes_per_sec :: double
  ni_tx_bytes_per_sec :: double
  ni_rx_packets_per_sec :: double
  ni_tx_packets_per_sec :: double
  ni_rx_errors :: u64
  ni_tx_errors :: u64
  ni_rx_dropped :: "u64 option"
  ni_tx_dropped :: "u64 option"
  ni_total_rx_bytes :: u64
  ni_total_tx_bytes :: u64
  ni_total_rx_packets :: u64
  ni_total_tx_packets :: u64
  ni_tcp_retransmits :: "u64 option"
  ni_estimated_rtt_ms :: "double option"
  ni_speed_mbps :: "u64 option"
  ni_is_up :: bool

record NetworkMetrics =
  nm_interfaces :: "NetworkInterface list"
  nm_tcp_stats :: "TcpStats option"

record NetStatSnapshot =
  ns_rx_bytes :: u64
  ns_tx_bytes :: u64
  ns_rx_packets :: u64
  ns_tx_packets :: u64
  ns_timestamp :: nat

type_synonym net_reading = "host \<times> nat"
type_synonym net_table = "rstring \<rightharpoonup> NetStatSnapshot"

section \<open>Interfaces\<close>

text \<open>The counters of a line that the table does not keep: errors and drops, received and sent.\<close>

type_synonym net_line = "NetStatSnapshot \<times> u64 \<times> u64 \<times> u64 \<times> u64"

definition parse_netdev_line :: "nat \<Rightarrow> rstring \<Rightarrow> (rstring \<times> net_line) option" where
  "parse_netdev_line now line =
     (let parts = split_whitespace line in
      if length parts < 17 then None
      else (let name = trim_end_char 58 (parts ! 0) in
            if name = lit ''lo'' then None
            else Some (name, \<lparr>ns_rx_bytes = counter (parts ! 1), ns_tx_bytes = counter (parts ! 9), ns_rx_packets = counter (parts ! 2),
                   ns_tx_packets = counter (parts ! 10), ns_timestamp = now\<rparr>,
                   counter (parts ! 3), counter (parts ! 11), counter (parts ! 4), counter (parts ! 12))))"

definition get_link_speed :: "host \<Rightarrow> rstring \<Rightarrow> u64 \<times> bool" where
  "get_link_speed h name =
     (let path = (\<lambda>f. lit ''/sys/class/net/'' @ name @ lit f) in
      (case Option.bind (ho_file h (path ''/speed'')) (\<lambda>s. parse_u64 (trim s)) of Some v \<Rightarrow> v | None \<Rightarrow> 0,
       case ho_file h (path ''/carrier'') of Some s \<Rightarrow> trim s = lit ''1'' | None \<Rightarrow> False))"

definition net_rates :: "nat \<Rightarrow> NetStatSnapshot option \<Rightarrow> NetStatSnapshot \<Rightarrow> double \<times> double \<times> double \<times> double" where
  "net_rates now prev s =
     (let zero = (Finite 0, Finite 0, Finite 0, Finite 0) in
      case prev of
        None \<Rightarrow> zero
      | Some p \<Rightarrow>
          (let dt = secs_f64 (now - ns_timestamp p) in
           if d_less (Finite 0) dt
           then (per_second (sat_sub (ns_rx_bytes s) (ns_rx_bytes p)) dt, per_second (sat_sub (ns_tx_bytes s) (ns_tx_bytes p)) dt,
                 per_second (sat_sub (ns_rx_packets s) (ns_rx_packets p)) dt, per_second (sat_sub (ns_tx_packets s) (ns_tx_packets p)) dt)
           else zero))"

definition network_interface :: "net_reading \<Rightarrow> rstring \<Rightarrow> NetStatSnapshot option \<Rightarrow> net_line \<Rightarrow> NetworkInterface" where
  "network_interface r name prev l =
     (case l of (s, rx_errors, tx_errors, rx_dropped, tx_dropped) \<Rightarrow>
        (let (rx_rate, tx_rate, rx_pkt_rate, tx_pkt_rate) = net_rates (snd r) prev s;
             (speed_mbps, is_up) = get_link_speed (fst r) name
         in \<lparr>ni_interface_name = name, ni_rx_bytes_per_sec = rx_rate, ni_tx_bytes_per_sec = tx_rate,
              ni_rx_packets_per_sec = rx_pkt_rate, ni_tx_packets_per_sec = tx_pkt_rate,
              ni_rx_errors = rx_errors, ni_tx_errors = tx_errors, ni_rx_dropped = Some rx_dropped, ni_tx_dropped = Some tx_dropped,
              ni_total_rx_bytes = ns_rx_bytes s, ni_total_tx_bytes = ns_tx_bytes s,
              ni_total_rx_packets = ns_rx_packets s, ni_total_tx_packets = ns_tx_packets s,
              ni_tcp_retransmits = None, ni_estimated_rtt_ms = None, ni_speed_mbps = Some speed_mbps, ni_is_up = is_up\<rparr>))"

definition netdev_lines :: "net_reading \<Rightarrow> (rstring \<times> net_line) list" where
  "netdev_lines r =
     (case ho_file (fst r) (lit ''/proc/net/dev'') of
        None \<Rightarrow> []
      | Some netdev \<Rightarrow> List.map_filter (parse_netdev_line (snd r)) (drop 2 (str_lines netdev)))"

definition collect_interfaces :: "net_reading \<Rightarrow> net_table \<Rightarrow> (metal_error + NetworkInterface list) \<times> net_table" where
  "collect_interfaces r prev =
     (case ho_file (fst r) (lit ''/proc/net/dev'') of
        None \<Rightarrow> (Inl Io_error, prev)
      | Some netdev \<Rightarrow>
          (let ls = netdev_lines r in
           (Inr (map (\<lambda>(name, l). network_interface r name (prev name) l) ls),
            fold (\<lambda>(name, l) m. m(name \<mapsto> fst l)) ls Map.empty)))"

section \<open>TCP totals\<close>

definition parse_tcp_snmp :: "rstring \<Rightarrow> TcpStats option" where
  "parse_tcp_snmp content =
     (case filter (starts_with (lit ''Tcp:'')) (str_lines content) of
        header # data_line # _ \<Rightarrow>
          (let fields = split_whitespace data_line in
           if length fields < 13 then None
           else (case (parse_u32 (fields ! 9), parse_u64 (fields ! 12)) of
                   (Some active_connections, Some retransmits) \<Rightarrow>
                     Some (TcpStats_default\<lparr>ts_retransmits := retransmits, ts_active_connections := active_connections\<rparr>)
                 | _ \<Rightarrow> None))
      | _ \<Rightarrow> None)"

definition tcp_state_line :: "rstring \<Rightarrow> TcpStats \<Rightarrow> TcpStats" where
  "tcp_state_line line stats =
     (let fields = split_whitespace line in
      if length fields < 4 then stats
      else if fields ! 3 = lit ''01'' then stats\<lparr>ts_active_connections := ts_active_connections stats + 1\<rparr>
      else if fields ! 3 = lit ''06'' then stats\<lparr>ts_time_wait := ts_time_wait stats + 1\<rparr>
      else if fields ! 3 = lit ''0A'' then stats\<lparr>ts_listen := ts_listen stats + 1\<rparr>
      else stats)"

definition parse_tcp_states :: "rstring \<Rightarrow> TcpStats" where
  "parse_tcp_states content = fold tcp_state_line (drop 1 (str_lines content)) TcpStats_default"

definition add_tcp_states :: "rstring option \<Rightarrow> TcpStats \<Rightarrow> TcpStats" where
  "add_tcp_states content stats =
     (case content of
        None \<Rightarrow> stats
      | Some tcp \<Rightarrow>
          (let states = parse_tcp_states tcp;
               stats = stats\<lparr>ts_time_wait := ts_time_wait stats + ts_time_wait states, ts_listen := ts_listen stats + ts_listen states\<rparr>
           in if ts_active_connections stats = 0
              then stats\<lparr>ts_active_connections := ts_active_connections stats + ts_active_connections states\<rparr> else stats))"

definition collect_tcp_stats :: "host \<Rightarrow> TcpStats option" where
  "collect_tcp_stats h =
     (let stats = (case Option.bind (ho_file h (lit ''/proc/net/snmp'')) parse_tcp_snmp of
                     Some s \<Rightarrow> TcpStats_default\<lparr>ts_retransmits := ts_retransmits s, ts_active_connections := ts_active_connections s\<rparr>
                   | None \<Rightarrow> TcpStats_default)
      in Some (add_tcp_states (ho_file h (lit ''/proc/net/tcp6'')) (add_tcp_states (ho_file h (lit ''/proc/net/tcp'')) stats)))"

definition collect_network :: "net_reading \<Rightarrow> net_table \<Rightarrow> (metal_error + NetworkMetrics) \<times> net_table" where
  "collect_network r prev =
     (case collect_interfaces r prev of
        (Inl e, t) \<Rightarrow> (Inl e, t)
      | (Inr interfaces, t) \<Rightarrow> (Inr \<lparr>nm_interfaces = interfaces, nm_tcp_stats = collect_tcp_stats (fst r)\<rparr>, t))"

section \<open>Rates since the last reading\<close>

definition net_readable :: "net_reading \<Rightarrow> bool" where
  "net_readable r \<longleftrightarrow> ho_file (fst r) (lit ''/proc/net/dev'') \<noteq> None"

lemma fold_table: "fold (\<lambda>(name, l) m. m(name \<mapsto> f l)) ls m = m ++ map_of (rev (map (\<lambda>(k, c). (k, f c)) ls))"
  by (induction ls arbitrary: m) (auto simp: map_add_def fun_eq_iff split: option.splits)

interpretation net_sampler: sampler collect_interfaces "\<lambda>t. t" net_readable netdev_lines "\<lambda>_ l. fst l" network_interface
  by unfold_locales (auto simp: net_readable_def collect_interfaces_def fold_table Let_def)

lemma netdev_time: "(name, l) \<in> set (netdev_lines r) \<Longrightarrow> ns_timestamp (fst l) = snd r"
  by (auto simp: netdev_lines_def List.map_filter_def parse_netdev_line_def Let_def split: option.splits if_splits)

text \<open>The rates of an interface are the differences of its counters over the seconds since the last reading
  that worked, whatever failed between; interfaces are reported in the order of the file, each line that
  names one other than the loopback, and one that the last reading did not show has rates of zero.\<close>

lemma network_rates_since_last_reading:
  assumes "net_readable r1" "list_all (\<lambda>r. \<not> net_readable r) rs" "net_readable r2"
    and "snd r1 < snd r2" "snd r2 - snd r1 \<le> 2 ^ 64"
  defines "dt \<equiv> secs_f64 (snd r2 - snd r1)" and "before \<equiv> map_of (rev (netdev_lines r1))"
  shows "\<exists>ifs. fst (collect_interfaces r2 (snd (run_outputs collect_interfaces (r1 # rs) t))) = Inr ifs \<and>
    list_all2 (\<lambda>(name, s2, _) i. ni_interface_name i = name \<and> ni_total_rx_bytes i = ns_rx_bytes s2 \<and>
      (case before name of
         None \<Rightarrow> ni_rx_bytes_per_sec i = Finite 0 \<and> ni_tx_bytes_per_sec i = Finite 0
       | Some (s1, _) \<Rightarrow>
           ni_rx_bytes_per_sec i = per_second (sat_sub (ns_rx_bytes s2) (ns_rx_bytes s1)) dt \<and>
           ni_tx_bytes_per_sec i = per_second (sat_sub (ns_tx_bytes s2) (ns_tx_bytes s1)) dt \<and>
           ni_rx_packets_per_sec i = per_second (sat_sub (ns_rx_packets s2) (ns_rx_packets s1)) dt \<and>
           ni_tx_packets_per_sec i = per_second (sat_sub (ns_tx_packets s2) (ns_tx_packets s1)) dt)) (netdev_lines r2) ifs"
proof -
  have kept: "map_of (rev (net_sampler.kept r1)) name = map_option fst (before name)" for name
  proof -
    have "rev (net_sampler.kept r1) = map (\<lambda>(k, c). (k, fst c)) (rev (netdev_lines r1))" by (simp add: net_sampler.kept_def rev_map)
    then show ?thesis by (simp add: before_def map_of_map)
  qed
  have pos: "d_less (Finite 0) dt" unfolding dt_def using assms(4,5) by (intro secs_f64_pos) simp_all
  have time: "ns_timestamp (fst l) = snd r1" if "before name = Some l" for name l
  proof -
    have "(name, l) \<in> set (rev (netdev_lines r1))" using that unfolding before_def by (rule map_of_SomeD)
    then show ?thesis by (simp add: netdev_time)
  qed
  show ?thesis
    using net_sampler.reading_after [OF assms(1-3), of t] pos time
    by (force simp: kept list_all2_map2 list_all2_same network_interface_def net_rates_def case_prod_beta dt_def Let_def
        split: option.splits)
qed

text \<open>An interface as the kernel prints it, after two lines of headings.\<close>

definition net_host :: "rstring \<Rightarrow> nat list \<Rightarrow> host" where
  "net_host name cs = file_host ''/proc/net/dev'' [[lit ''Inter-|''], [lit ''face''], (name @ [58]) # map decimal cs]"

definition net_line_of :: "nat list \<Rightarrow> nat \<Rightarrow> net_line" where
  "net_line_of cs now = (\<lparr>ns_rx_bytes = of_nat (cs ! 0), ns_tx_bytes = of_nat (cs ! 8), ns_rx_packets = of_nat (cs ! 1),
     ns_tx_packets = of_nat (cs ! 9), ns_timestamp = now\<rparr>, of_nat (cs ! 2), of_nat (cs ! 10), of_nat (cs ! 3), of_nat (cs ! 11))"

lemma netdev_of_printed:
  assumes "visible name" "last name \<noteq> 58" "name \<noteq> lit ''lo''" "16 \<le> length cs" "list_all (\<lambda>n. n < 2 ^ 64) cs"
  shows "netdev_lines (net_host name cs, now) = [(name, net_line_of cs now)]" "net_readable (net_host name cs, now)"
proof -
  let ?ws = "(name @ [58]) # map decimal cs"
  have vis: "list_all visible ?ws" using assms(1) by (simp add: list.pred_map comp_def visible_decimal) (simp add: visible_def list_all_iff)
  have name: "trim_end_char 58 (name @ [58]) = name"
    using assms(1,2) by (cases name rule: rev_cases) (simp_all add: trim_end_char_def visible_def)
  have field: "counter (?ws ! (1 + i)) = of_nat (cs ! i)" if "i < 16" for i
    using that assms(4,5) by (simp add: counter_decimal list_all_length)
  have fields: "counter (?ws ! 1) = of_nat (cs ! 0)" "counter (?ws ! 2) = of_nat (cs ! 1)" "counter (?ws ! 3) = of_nat (cs ! 2)"
      "counter (?ws ! 4) = of_nat (cs ! 3)" "counter (?ws ! 9) = of_nat (cs ! 8)" "counter (?ws ! 10) = of_nat (cs ! 9)"
      "counter (?ws ! 11) = of_nat (cs ! 10)" "counter (?ws ! 12) = of_nat (cs ! 11)" "?ws ! 0 = name @ [58]" "17 \<le> length ?ws"
    using field [of 0] field [of 1] field [of 2] field [of 3] field [of 8] field [of 9] field [of 10] field [of 11] assms(4)
    by (simp_all add: numeral_2_eq_2)
  have line: "parse_netdev_line now (line_of ?ws) = Some (name, net_line_of cs now)"
    using fields assms(3) name unfolding parse_netdev_line_def words_of_line [OF vis]
    by (simp add: net_line_of_def Let_def del: nth_Cons_0 nth_Cons_Suc nth_Cons_numeral)
  have "list_all (list_all visible) [[lit ''Inter-|''], [lit ''face''], ?ws]" using vis by (simp add: visible_def)
  from lines_of_printed [OF this] show "netdev_lines (net_host name cs, now) = [(name, net_line_of cs now)]" "net_readable (net_host name cs, now)"
    using line by (simp_all add: netdev_lines_def net_host_def file_host_def net_readable_def List.map_filter_def net_line_of_def)
qed

lemma network_rates_since_last_reading_example:
  "\<exists>i. fst (collect_interfaces (net_host (lit ''eth0'') (3072 # replicate 15 0), 3 * 10 ^ 9)
      (snd (run_outputs collect_interfaces [(net_host (lit ''eth0'') (1024 # replicate 15 0), 10 ^ 9), (file_host ''/'' [], 2 * 10 ^ 9)] Map.empty))) =
      Inr [i] \<and> ni_interface_name i = lit ''eth0'' \<and> ni_rx_bytes_per_sec i = per_second 2048 (secs_f64 (2 * 10 ^ 9))"
proof -
  let ?r1 = "(net_host (lit ''eth0'') (1024 # replicate 15 0), 10 ^ 9)" and ?r2 = "(net_host (lit ''eth0'') (3072 # replicate 15 0), 3 * 10 ^ 9)"
  have eth: "visible (lit ''eth0'')" "last (lit ''eth0'') \<noteq> 58" "lit ''eth0'' \<noteq> lit ''lo''" by (simp_all add: visible_def)
  note n1 = netdev_of_printed [OF eth, of "1024 # replicate 15 0" "10 ^ 9"] and n2 = netdev_of_printed [OF eth, of "3072 # replicate 15 0" "3 * 10 ^ 9"]
  have unread: "list_all (\<lambda>r. \<not> net_readable r) [(file_host ''/'' [], 2 * 10 ^ 9)]" by (simp add: net_readable_def file_host_def)
  have c: "list_all (\<lambda>n. n < 2 ^ 64) (1024 # replicate 15 (0::nat))" "list_all (\<lambda>n. n < 2 ^ 64) (3072 # replicate 15 (0::nat))"
    by (simp_all add: list_all_iff)
  show ?thesis
    using network_rates_since_last_reading [OF n1(2) unread n2(2), of Map.empty] n1(1) n2(1) c
    by (auto simp: list_all2_Cons1 net_line_of_def sat_sub_def)
qed

section \<open>TCP states\<close>

lemma hex_state:
  assumes "s < 256" "n < 256"
  shows "hex_fixed 2 s = hex_fixed 2 n \<longleftrightarrow> s = n"
proof
  assume "hex_fixed 2 s = hex_fixed 2 n"
  then have "parse_uint 16 8 (hex_fixed 2 s) = parse_uint 16 8 (hex_fixed 2 n)" by (rule arg_cong)
  then show "s = n" using parse_uint_hex [of 2 s 8] parse_uint_hex [of 2 n 8] assms by simp
qed simp

lemma state_codes: "hex_fixed 2 1 = lit ''01''" "hex_fixed 2 6 = lit ''06''" "hex_fixed 2 10 = lit ''0A''"
  by (simp_all add: hex_digit_def numeral_2_eq_2)

definition count_state :: "nat \<Rightarrow> TcpStats \<Rightarrow> TcpStats" where
  "count_state s st = st\<lparr>ts_active_connections := ts_active_connections st + of_bool (s = 1),
     ts_time_wait := ts_time_wait st + of_bool (s = 6), ts_listen := ts_listen st + of_bool (s = 10)\<rparr>"

lemma tcp_state_line_printed:
  assumes "prints line e" "se_state e < 256"
  shows "tcp_state_line line st = count_state (se_state e) st"
proof -
  have "4 \<le> length (split_whitespace line) \<and> split_whitespace line ! 3 = hex_fixed 2 (se_state e)"
    using assms(1) by (auto simp: prints_def entry_words_def)
  then show ?thesis
    using hex_state [OF assms(2), of 1] hex_state [OF assms(2), of 6] hex_state [OF assms(2), of 10]
    unfolding tcp_state_line_def count_state_def state_codes by (cases st) (auto simp: Let_def)
qed

text \<open>The states of printed sockets are counted: established, waiting and listening ones.\<close>

lemma tcp_states_of_printed:
  assumes "list_all2 prints (drop 1 (str_lines content)) es" "list_all (\<lambda>e. se_state e < 256) es"
  defines "count \<equiv> \<lambda>s. of_nat (length (filter (\<lambda>e. se_state e = s) es))"
  shows "parse_tcp_states content = \<lparr>ts_retransmits = 0, ts_active_connections = count 1, ts_time_wait = count 6, ts_listen = count 10\<rparr>"
proof -
  have "fold tcp_state_line ls st = st\<lparr>ts_active_connections := ts_active_connections st + of_nat (length (filter (\<lambda>e. se_state e = 1) es)),
      ts_time_wait := ts_time_wait st + of_nat (length (filter (\<lambda>e. se_state e = 6) es)),
      ts_listen := ts_listen st + of_nat (length (filter (\<lambda>e. se_state e = 10) es))\<rparr>"
    if "list_all2 prints ls es" "list_all (\<lambda>e. se_state e < 256) es" for ls es st
    using that
  proof (induction arbitrary: st rule: list_all2_induct)
    case (Cons line ls e es)
    then show ?case by (cases st) (auto simp: tcp_state_line_printed count_state_def)
  qed simp
  from this [OF assms(1,2), of TcpStats_default] show ?thesis
    by (simp add: parse_tcp_states_def TcpStats_default_def count_def)
qed

text \<open>Without the totals of the kernel, established connections over IPv6 count only if there are none over IPv4.\<close>

lemma established_v6_missed:
  assumes "ho_file h (lit ''/proc/net/snmp'') = None" "ho_file h (lit ''/proc/net/tcp'') = Some tcp"
    and "ts_active_connections (parse_tcp_states tcp) \<noteq> 0" "collect_tcp_stats h = Some s"
  shows "ts_active_connections s = ts_active_connections (parse_tcp_states tcp)"
proof -
  have "s = add_tcp_states (ho_file h (lit ''/proc/net/tcp6'')) (add_tcp_states (Some tcp) TcpStats_default)"
    using assms(4) unfolding collect_tcp_stats_def assms(1,2) by simp
  then show ?thesis using assms(3) by (simp add: add_tcp_states_def TcpStats_default_def Let_def split: option.splits)
qed

end
