(* ===== verification/Metal_Container.thy ===== *)
theory Metal_Container
  imports Metal_Base "HOL-Library.AList"
begin

text \<open>
  The container detector (\<open>metal/container.rs\<close>, the Linux build): the container of each process from its
  cgroup file, and the limits of the container from the cgroup file system.
\<close>

section \<open>Data\<close>

record ContainerResourceLimits =
  rl_memory_limit_bytes :: "u64 option"
  rl_cpu_quota :: "double option"
  rl_cpu_shares :: "u64 option"

record ContainerInfo =
  ci_container_id :: rstring
  ci_runtime :: rstring
  ci_name :: rstring
  ci_image :: rstring
  ci_status :: rstring
  ci_cgroup_version :: rstring
  ci_pids :: "u32 list"
  ci_resource_limits :: ContainerResourceLimits

section \<open>Container ids\<close>

definition is_ascii_hexdigit :: "nat \<Rightarrow> bool" where
  "is_ascii_hexdigit c \<longleftrightarrow> (48 \<le> c \<and> c \<le> 57) \<or> (65 \<le> c \<and> c \<le> 70) \<or> (97 \<le> c \<and> c \<le> 102)"

definition extract_docker_id :: "rstring \<Rightarrow> rstring option" where
  "extract_docker_id path =
     find_map (\<lambda>segment. if 64 \<le> length segment \<and> list_all is_ascii_hexdigit segment then Some (take 64 segment) else None)
       (split_char 47 path)"

definition extract_id_from_path :: "rstring \<Rightarrow> rstring option" where
  "extract_id_from_path path =
     (let s = last (split_char 47 path) in if 8 \<le> length s \<and> list_all is_ascii_hexdigit s then Some s else None)"

text \<open>Id, runtime, version and path.\<close>

type_synonym cgroup = "rstring \<times> rstring \<times> rstring \<times> rstring"

definition parse_cgroup_line :: "rstring \<Rightarrow> cgroup option" where
  "parse_cgroup_line line =
     (let parts = splitn 3 58 line in
      if length parts < 3 then None
      else (let path = parts ! 2; version = (if starts_with (lit ''0::'') line then lit ''v2'' else lit ''v1'') in
            case extract_docker_id path of
              Some cid \<Rightarrow> Some (cid, lit ''docker'', version, path)
            | None \<Rightarrow>
                (case (if str_contains (lit ''containerd'') path then extract_id_from_path path else None) of
                   Some cid \<Rightarrow> Some (cid, lit ''containerd'', version, path)
                 | None \<Rightarrow>
                     (case (if str_contains (lit ''libpod'') path then extract_id_from_path path else None) of
                        Some cid \<Rightarrow> Some (cid, lit ''podman'', version, path)
                      | None \<Rightarrow> None))))"

definition parse_cgroup :: "rstring \<Rightarrow> cgroup option" where
  "parse_cgroup content = find_map parse_cgroup_line (str_lines content)"

section \<open>Limits\<close>

definition parse_i64 :: "rstring \<Rightarrow> int option" where
  "parse_i64 s =
     (case s of
        [] \<Rightarrow> None
      | c # cs \<Rightarrow>
          if c = 45 then (if cs = [] then None else map_option (\<lambda>n. - int n) (parse_digits 10 (2 ^ 63 + 1) 0 cs))
          else if c = 43 then (if cs = [] then None else map_option int (parse_digits 10 (2 ^ 63) 0 cs))
          else map_option int (parse_digits 10 (2 ^ 63) 0 s))"

definition positive :: "u64 option \<Rightarrow> u64 option" where
  "positive v = Option.bind v (\<lambda>n. if 0 < n then Some n else None)"

definition parse_cgroup_v2_memory_max :: "rstring \<Rightarrow> u64 option" where
  "parse_cgroup_v2_memory_max content = (if content = lit ''max'' then None else positive (parse_u64 content))"

text \<open>A period that is not a number would pass the test.\<close>

definition parse_cgroup_v2_cpu_max :: "rstring \<Rightarrow> double option" where
  "parse_cgroup_v2_cpu_max content =
     (case split_whitespace content of
        q # p # _ \<Rightarrow>
          if q = lit ''max'' then None
          else (case (parse_f64 q, parse_f64 p) of
                  (Some quota, Some period) \<Rightarrow>
                    if \<not> d_less (Finite 0) period \<and> period \<noteq> NotNumber then None else Some (d_div quota period)
                | _ \<Rightarrow> None)
      | _ \<Rightarrow> None)"

definition parse_cgroup_v1_cpu_quota :: "host \<Rightarrow> rstring \<Rightarrow> double option" where
  "parse_cgroup_v1_cpu_quota h content =
     (case parse_i64 content of
        None \<Rightarrow> None
      | Some quota \<Rightarrow>
          if quota \<le> 0 then None
          else (let period =
                  (case Option.bind (ho_file h (lit ''/sys/fs/cgroup/cpu/cpu.cfs_period_us'')) (\<lambda>s. parse_f64 (trim s)) of
                     Some p \<Rightarrow> if d_less (Finite 0) p then p else double_of 100000
                   | None \<Rightarrow> double_of 100000)
                in Some (d_div (double_of (nat quota)) period)))"

definition read_resource_limits_v2 :: "host \<Rightarrow> rstring \<Rightarrow> ContainerResourceLimits" where
  "read_resource_limits_v2 h cgroup_path =
     (let file = (\<lambda>f. ho_file h (lit ''/sys/fs/cgroup'' @ cgroup_path @ lit f)) in
      \<lparr>rl_memory_limit_bytes = Option.bind (file ''/memory.max'') (\<lambda>s. parse_cgroup_v2_memory_max (trim s)),
       rl_cpu_quota = Option.bind (file ''/cpu.max'') (\<lambda>s. parse_cgroup_v2_cpu_max (trim s)),
       rl_cpu_shares = Option.bind (file ''/cpu.weight'') (\<lambda>s. parse_u64 (trim s))\<rparr>)"

definition read_resource_limits_v1 :: "host \<Rightarrow> rstring \<Rightarrow> ContainerResourceLimits" where
  "read_resource_limits_v1 h cgroup_path =
     (let file = (\<lambda>d f. ho_file h (lit ''/sys/fs/cgroup/'' @ lit d @ cgroup_path @ lit f)) in
      \<lparr>rl_memory_limit_bytes = Option.bind (file ''memory'' ''/memory.limit_in_bytes'') (\<lambda>s. positive (parse_u64 (trim s))),
       rl_cpu_quota = Option.bind (file ''cpu'' ''/cpu.cfs_quota_us'') (\<lambda>s. parse_cgroup_v1_cpu_quota h (trim s)),
       rl_cpu_shares = Option.bind (file ''cpu'' ''/cpu.shares'') (\<lambda>s. positive (parse_u64 (trim s)))\<rparr>)"

definition read_resource_limits :: "host \<Rightarrow> rstring \<Rightarrow> rstring \<Rightarrow> ContainerResourceLimits" where
  "read_resource_limits h cgroup_path cgroup_version =
     (if cgroup_version = lit ''v2'' then read_resource_limits_v2 h cgroup_path
      else if cgroup_version = lit ''v1'' then read_resource_limits_v1 h cgroup_path
      else \<lparr>rl_memory_limit_bytes = None, rl_cpu_quota = None, rl_cpu_shares = None\<rparr>)"

section \<open>Collecting\<close>

definition process_cgroup :: "host \<Rightarrow> u32 \<Rightarrow> cgroup option" where
  "process_cgroup h pid = Option.bind (ho_file h (proc_path pid ''cgroup'')) parse_cgroup"

definition new_container :: "host \<Rightarrow> cgroup \<Rightarrow> ContainerInfo" where
  "new_container h c =
     (case c of (cid, runtime, version, path) \<Rightarrow>
        \<lparr>ci_container_id = cid, ci_runtime = runtime, ci_name = [], ci_image = [], ci_status = lit ''running'',
         ci_cgroup_version = version, ci_pids = [], ci_resource_limits = read_resource_limits h path version\<rparr>)"

type_synonym containers = "(rstring \<times> ContainerInfo) list"

definition add_process :: "host \<Rightarrow> u32 \<Rightarrow> containers \<Rightarrow> containers" where
  "add_process h pid cs =
     (case process_cgroup h pid of
        None \<Rightarrow> cs
      | Some c \<Rightarrow>
          (let entry = (case map_of cs (fst c) of Some info \<Rightarrow> info | None \<Rightarrow> new_container h c)
           in AList.update (fst c) (entry\<lparr>ci_pids := ci_pids entry @ [pid]\<rparr>) cs))"

definition collect_containers :: "host \<Rightarrow> metal_error + ContainerInfo list" where
  "collect_containers h =
     (case list_pids (microsoft_kernel h) h of
        None \<Rightarrow> Inl Io_error
      | Some pids \<Rightarrow> Inr (map snd (fold (add_process h) pids [])))"

section \<open>Processes by container\<close>

definition container_of :: "host \<Rightarrow> u32 \<Rightarrow> rstring option" where
  "container_of h pid = map_option fst (process_cgroup h pid)"

lemma fold_add_process:
  "map_option ci_pids (map_of (fold (add_process h) pids cs) cid) =
     (let old = map_option ci_pids (map_of cs cid); new = filter (\<lambda>p. container_of h p = Some cid) pids
      in if new = [] then old else Some ((case old of Some ps \<Rightarrow> ps | None \<Rightarrow> []) @ new))"
proof (induction pids arbitrary: cs)
  case (Cons pid pids)
  show ?case
    by (simp add: Cons.IH)
      (auto simp: add_process_def container_of_def update_conv' new_container_def Let_def split: option.splits prod.splits)
qed (simp add: Let_def)

lemma fold_add_ids:
  "distinct (map fst cs) \<Longrightarrow> \<forall>(cid, info)\<in>set cs. ci_container_id info = cid \<Longrightarrow>
     distinct (map fst (fold (add_process h) pids cs)) \<and> (\<forall>(cid, info)\<in>set (fold (add_process h) pids cs). ci_container_id info = cid)"
proof (induction pids arbitrary: cs)
  case (Cons pid pids)
  have "distinct (map fst (add_process h pid cs)) \<and> (\<forall>(cid, info)\<in>set (add_process h pid cs). ci_container_id info = cid)"
  proof (cases "process_cgroup h pid")
    case (Some c)
    let ?e = "case map_of cs (fst c) of Some info \<Rightarrow> info | None \<Rightarrow> new_container h c"
    have e: "ci_container_id ?e = fst c"
      using Cons.prems(2) by (auto simp: new_container_def dest!: map_of_SomeD split: option.splits prod.splits)
    have "set (AList.update k v m) \<subseteq> insert (k, v) (set m)" for k :: rstring and v :: ContainerInfo and m by (induction m) auto
    then show ?thesis using Cons.prems e by (fastforce simp: add_process_def Some distinct_update Let_def)
  qed (use Cons.prems in \<open>simp add: add_process_def\<close>)
  then show ?case using Cons.IH [of "add_process h pid cs"] by simp
qed simp

text \<open>Each container is reported once, with exactly the processes whose cgroup names it, in the order of the
  directory, and every container of a process is reported.\<close>

lemma containers_group_processes:
  assumes "collect_containers h = Inr cs" "list_pids (microsoft_kernel h) h = Some pids"
  shows "distinct (map ci_container_id cs) \<and> set (map ci_container_id cs) = {cid. \<exists>pid\<in>set pids. container_of h pid = Some cid} \<and>
    (\<forall>c\<in>set cs. ci_pids c = filter (\<lambda>pid. container_of h pid = Some (ci_container_id c)) pids)"
proof -
  let ?m = "fold (add_process h) pids []"
  have cs: "cs = map snd ?m" using assms by (simp add: collect_containers_def)
  have ok: "distinct (map fst ?m)" "\<forall>(cid, info)\<in>set ?m. ci_container_id info = cid" using fold_add_ids [of "[]"] by simp_all
  have ids: "map ci_container_id cs = map fst ?m" unfolding cs using ok(2) by (auto simp: case_prod_beta)
  have pids: "map_option ci_pids (map_of ?m cid) =
      (let new = filter (\<lambda>p. container_of h p = Some cid) pids in if new = [] then None else Some new)" for cid
    using fold_add_process [of h pids "[]" cid] by (simp add: Let_def)
  have "cid \<in> set (map fst ?m) \<longleftrightarrow> (\<exists>pid\<in>set pids. container_of h pid = Some cid)" for cid
    using pids [of cid] map_of_eq_None_iff [of ?m cid] by (cases "map_of ?m cid") (auto simp: Let_def filter_empty_conv split: if_splits)
  then have "set (map ci_container_id cs) = {cid. \<exists>pid\<in>set pids. container_of h pid = Some cid}" unfolding ids by blast
  moreover have "ci_pids c = filter (\<lambda>pid. container_of h pid = Some (ci_container_id c)) pids" if "c \<in> set cs" for c
  proof -
    have "c \<in> snd ` set ?m" using that cs by simp
    then obtain cid where cid: "(cid, c) \<in> set ?m" by auto
    then have "map_of ?m cid = Some c" "ci_container_id c = cid" using ok by auto
    then show ?thesis using pids [of cid] by (auto simp: Let_def split: if_splits)
  qed
  ultimately show ?thesis using ok(1) ids by simp
qed

text \<open>The ids of Docker, containerd and Podman all have 64 digits, and such an id is taken for one of Docker's.\<close>

lemma long_ids_are_docker:
  assumes "segment \<in> set (split_char 47 path)" "64 \<le> length segment" "list_all is_ascii_hexdigit segment"
    and "splitn 3 58 line = [n, controllers, path]" "parse_cgroup_line line = Some (cid, runtime, version, p)"
  shows "runtime = lit ''docker''"
proof -
  have "find_map f xs \<noteq> None" if "x \<in> set xs" "f x \<noteq> None" for f :: "rstring \<Rightarrow> rstring option" and x xs
    using that by (induction xs) (auto split: option.splits)
  from this [OF assms(1)] have "extract_docker_id path \<noteq> None" using assms(2,3) by (simp add: extract_docker_id_def)
  then show ?thesis using assms(4,5) by (auto simp: parse_cgroup_line_def Let_def)
qed

definition cgroup_host :: host where
  "cgroup_host = \<lparr>ho_file = (\<lambda>p. if p = lit ''/proc/7/cgroup'' \<or> p = lit ''/proc/9/cgroup'' then Some (lit ''0::/containerd/abcdef01'')
       else if p = lit ''/proc/8/cgroup'' then Some (lit ''0::/'') else None),
     ho_dir = (\<lambda>p. if p = lit ''/proc'' then Some [lit ''7'', lit ''8'', lit ''self'', lit ''9''] else None), ho_ls = [],
     ho_exists = (\<lambda>_. False), ho_link = (\<lambda>_. None), ho_statvfs = (\<lambda>_. None)\<rparr>"

lemma cgroup_host_processes:
  "list_pids (microsoft_kernel cgroup_host) cgroup_host = Some [7, 8, 9]"
  "container_of cgroup_host 7 = Some (lit ''abcdef01'')" "container_of cgroup_host 8 = None" "container_of cgroup_host 9 = Some (lit ''abcdef01'')"
proof -
  show "list_pids (microsoft_kernel cgroup_host) cgroup_host = Some [7, 8, 9]"
    by (simp add: list_pids_def microsoft_kernel_def cgroup_host_def parse_u32_def parse_uint_def to_digit_def List.map_filter_def)
  have digits: "decimal 7 = lit ''7''" "decimal 8 = lit ''8''" "decimal 9 = lit ''9''" by code_simp+
  have "parse_cgroup (lit ''0::/containerd/abcdef01'') = Some (lit ''abcdef01'', lit ''containerd'', lit ''v2'', lit ''/containerd/abcdef01'')"
    "parse_cgroup (lit ''0::/'') = None"
    by code_simp+
  moreover have "ho_file cgroup_host (proc_path 7 ''cgroup'') = Some (lit ''0::/containerd/abcdef01'')"
    "ho_file cgroup_host (proc_path 9 ''cgroup'') = Some (lit ''0::/containerd/abcdef01'')"
    "ho_file cgroup_host (proc_path 8 ''cgroup'') = Some (lit ''0::/'')"
    by (simp_all add: cgroup_host_def proc_path_def digits)
  ultimately show "container_of cgroup_host 7 = Some (lit ''abcdef01'')" "container_of cgroup_host 8 = None"
    "container_of cgroup_host 9 = Some (lit ''abcdef01'')"
    by (simp_all only: container_of_def process_cgroup_def bind.simps option.map fst_conv)
qed

lemma containers_group_processes_example:
  "\<exists>c. collect_containers cgroup_host = Inr [c] \<and> ci_container_id c = lit ''abcdef01'' \<and> ci_pids c = [7, 9]"
proof -
  obtain cs where cs: "collect_containers cgroup_host = Inr cs" using cgroup_host_processes(1) by (simp add: collect_containers_def)
  note g = containers_group_processes [OF cs cgroup_host_processes(1)]
  have "{cid. \<exists>pid\<in>set [7, 8, 9]. container_of cgroup_host pid = Some cid} = {lit ''abcdef01''}"
    using cgroup_host_processes(2-4) by auto
  then have ids: "set (map ci_container_id cs) = {lit ''abcdef01''}" "distinct (map ci_container_id cs)" using g by (simp_all only:)
  have single: "xs = [x]" if "set xs = {x}" "distinct xs" for xs and x :: rstring
    using that by (cases xs rule: list.exhaust [case_names Nil Cons]; cases "tl xs") auto
  have "map ci_container_id cs = [lit ''abcdef01'']" using ids by (rule single)
  then obtain c where c: "cs = [c]" "ci_container_id c = lit ''abcdef01''" by auto
  then have "ci_pids c = [7, 9]" using g cgroup_host_processes(2-4) by simp
  then show ?thesis using cs c by simp
qed

text \<open>Under systemd a container's segment has a prefix and a suffix, and is not recognised.\<close>

lemma systemd_scope_missed:
  assumes "list_all is_ascii_hexdigit digits"
  shows "parse_cgroup_line (lit ''0::/system.slice/docker-'' @ digits @ lit ''.scope'') = None"
proof -
  let ?scope = "lit ''docker-'' @ digits @ lit ''.scope''"
  let ?path = "lit ''/system.slice/'' @ ?scope"
  have "47 \<notin> set ?scope" using assms by (auto simp: is_ascii_hexdigit_def list_all_iff)
  then have "split_char 47 ?scope = [?scope]" by (rule split_char_none)
  then have segs: "split_char 47 ?path = [[], lit ''system.slice'', ?scope]"
    using split_char_field [of 47 "[]" "lit ''system.slice/'' @ ?scope"] split_char_field [of 47 "lit ''system.slice''" ?scope] by simp
  have no: "\<not> list_all is_ascii_hexdigit ?scope" by (simp add: is_ascii_hexdigit_def)
  have parts: "splitn 3 58 (lit ''0::'' @ ?path) = [lit ''0'', [], ?path]" by (simp add: numeral_3_eq_3)
  have "extract_docker_id ?path = None" "extract_id_from_path ?path = None"
    unfolding extract_docker_id_def extract_id_from_path_def segs using no by (simp_all add: is_ascii_hexdigit_def)
  then have "parse_cgroup_line (lit ''0::'' @ ?path) = None" unfolding parse_cgroup_line_def parts by (simp add: Let_def)
  then show ?thesis by simp
qed

end
