(* ===== verification/Metal_Process.thy ===== *)
theory Metal_Process
  imports Metal_Container
begin

text \<open>
  The process collector (\<open>metal/process.rs\<close>, the Linux build): the processes from \<open>/proc/[pid]/*\<close>, their CPU
  usage between two readings, and the container id of each from its cgroup file. Sums and products wrap at
  64 bits, as in a release build.
\<close>

section \<open>Data\<close>

record ProcessInfo =
  pi_pid :: u32
  pi_parent_pid :: u32
  pi_name :: rstring
  pi_command_line :: rstring
  pi_exe :: "rstring option"
  pi_cpu_usage_percent :: double
  pi_rss_bytes :: u64
  pi_vsz_bytes :: u64
  pi_disk_read_bytes :: "u64 option"
  pi_disk_written_bytes :: "u64 option"
  pi_status :: rstring
  pi_thread_count :: "u32 option"
  pi_fd_count :: "u32 option"
  pi_container_id :: "rstring option"
  pi_started_at :: "rstring option"
  pi_user_id :: "rstring option"

record ProcessCollector =
  pc_cpu_times :: "u32 \<rightharpoonup> u64 \<times> u64"
  pc_sample_time :: "nat option"

definition ProcessCollector_new :: ProcessCollector where
  "ProcessCollector_new = \<lparr>pc_cpu_times = Map.empty, pc_sample_time = None\<rparr>"

definition CLOCK_TICKS_PER_SEC :: u64 where "CLOCK_TICKS_PER_SEC = 100"
definition MAX_FD_COUNT :: nat where "MAX_FD_COUNT = 65536"

text \<open>
  A reading: the host, the time in nanoseconds, whether it is WSL2, whether the time budget is used up before
  the process at each position, which files the poll finds ready in time, and the printer of times.
\<close>

record process_reading =
  pr_host :: host
  pr_now :: nat
  pr_wsl2 :: bool
  pr_over_budget :: "nat \<Rightarrow> bool"
  pr_ready :: "rstring \<Rightarrow> bool"
  pr_rfc3339 :: "int \<Rightarrow> rstring option"

section \<open>Files of a process\<close>

definition read_proc_file_timeout :: "process_reading \<Rightarrow> u32 \<Rightarrow> string \<Rightarrow> rstring option" where
  "read_proc_file_timeout r pid name =
     (if pr_ready r (proc_path pid name) then ho_file (pr_host r) (proc_path pid name) else None)"

definition read_fd_count :: "process_reading \<Rightarrow> u32 \<Rightarrow> u32 option" where
  "read_fd_count r pid =
     map_option (\<lambda>names. of_nat (length (filter (\<lambda>n. \<not> (n = lit ''.'' \<or> n = lit ''..'')) (take MAX_FD_COUNT names))))
       (ho_dir (pr_host r) (proc_path pid ''fd''))"

definition get_boot_time :: "host \<Rightarrow> u64 option" where
  "get_boot_time h =
     Option.bind (ho_file h (lit ''/proc/stat''))
       (\<lambda>stat. Option.bind (find_map (strip_prefix (lit ''btime '')) (str_lines stat)) (\<lambda>rest. parse_u64 (trim rest)))"

definition parse_start_time :: "(int \<Rightarrow> rstring option) \<Rightarrow> u64 \<Rightarrow> u64 \<Rightarrow> rstring" where
  "parse_start_time rfc3339 starttime_ticks boot_time_secs =
     (case rfc3339 (sint (boot_time_secs + starttime_ticks div CLOCK_TICKS_PER_SEC)) of Some s \<Rightarrow> s | None \<Rightarrow> [])"

text \<open>The container id of a cgroup file, empty if there is none.\<close>

definition container_id_line :: "rstring \<Rightarrow> rstring option" where
  "container_id_line line =
     (let parts = splitn 3 58 line in
      if length parts < 3 then None
      else (let path = parts ! 2 in
            case extract_docker_id path of
              Some cid \<Rightarrow> Some cid
            | None \<Rightarrow>
                (case (if str_contains (lit ''containerd'') path \<or> str_contains (lit ''kubepods'') path \<or> str_contains (lit ''cri-containerd'') path
                       then extract_id_from_path path else None) of
                   Some cid \<Rightarrow> Some cid
                 | None \<Rightarrow> if str_contains (lit ''libpod'') path then extract_id_from_path path else None)))"

definition extract_container_id_from_cgroup :: "rstring \<Rightarrow> rstring" where
  "extract_container_id_from_cgroup content =
     (case find_map container_id_line (str_lines content) of Some cid \<Rightarrow> cid | None \<Rightarrow> [])"

text \<open>The resident set and the user in the status file: the latest of each up to the line where both are known.\<close>

fun status_values :: "rstring list \<Rightarrow> u64 option \<times> rstring option \<Rightarrow> u64 option \<times> rstring option" where
  "status_values [] acc = acc"
| "status_values (line # lns) (rss, uid) =
     (let second = nth_opt (split_whitespace line) 1;
          acc = (if starts_with (lit ''VmRSS:'') line then (map_option (\<lambda>kb. kb * 1024) (Option.bind second parse_u64), uid)
                 else if starts_with (lit ''Uid:'') line then (rss, second) else (rss, uid))
      in if fst acc \<noteq> None \<and> snd acc \<noteq> None then acc else status_values lns acc)"

definition io_line :: "rstring \<Rightarrow> u64 option \<times> u64 option \<Rightarrow> u64 option \<times> u64 option" where
  "io_line line acc =
     (let second = Option.bind (nth_opt (split_whitespace line) 1) parse_u64 in
      if starts_with (lit ''read_bytes:'') line then (second, snd acc)
      else if starts_with (lit ''write_bytes:'') line then (fst acc, second) else acc)"

section \<open>One process\<close>

text \<open>The status line of a process, as far as it can be read: name and fields.\<close>

definition stat_fields :: "process_reading \<Rightarrow> u32 \<Rightarrow> (rstring \<times> rstring list) option" where
  "stat_fields r pid =
     Option.bind (if pr_wsl2 r then ho_file (pr_host r) (proc_path pid ''stat'') else read_proc_file_timeout r pid ''stat'')
       (\<lambda>stat. case splitn 2 41 stat of
          [a, b] \<Rightarrow> Some (case split_once 40 a of Some (_, n) \<Rightarrow> n | None \<Rightarrow> [], split_whitespace b)
        | _ \<Rightarrow> None)"

definition field64 :: "rstring list \<Rightarrow> nat \<Rightarrow> u64" where
  "field64 flds i = (case Option.bind (nth_opt flds i) parse_u64 of Some v \<Rightarrow> v | None \<Rightarrow> 0)"

definition field32 :: "rstring list \<Rightarrow> nat \<Rightarrow> u32" where
  "field32 flds i = (case Option.bind (nth_opt flds i) parse_u32 of Some v \<Rightarrow> v | None \<Rightarrow> 0)"

definition cpu_times :: "rstring list \<Rightarrow> u64 \<times> u64" where
  "cpu_times flds = (field64 flds 11, field64 flds 12)"

text \<open>The usage since the last sample, of a process that sample knew.\<close>

definition cpu_usage :: "nat \<Rightarrow> (nat \<times> u64 \<times> u64) option \<Rightarrow> u64 \<times> u64 \<Rightarrow> double" where
  "cpu_usage now prev now_times =
     (case prev of
        None \<Rightarrow> Finite 0
      | Some (t, prev_utime, prev_stime) \<Rightarrow>
          (let dt = secs_f64 (now - t) in
           if d_less (Finite 0) dt
           then (let total_delta = u64_f64 (sat_sub (fst now_times) prev_utime + sat_sub (snd now_times) prev_stime)
                 in d_mul (d_div total_delta (d_mul dt (u64_f64 CLOCK_TICKS_PER_SEC))) (double_of 100))
           else Finite 0))"

text \<open>What is read of a process beside its status line: container id, resident set, command line, executable,
  bytes read and written, user. On WSL2 only the status line is read. The executable is looked up by the
  contents of \<open>/proc/[pid]/exe\<close>, as a path.\<close>

definition process_files ::
  "process_reading \<Rightarrow> u32 \<Rightarrow> u64 \<Rightarrow> rstring \<times> u64 \<times> rstring \<times> rstring option \<times> u64 option \<times> u64 option \<times> rstring option" where
  "process_files r pid rss =
     (if pr_wsl2 r then ([], rss * 4096, [], None, None, None, None)
      else (let cid = (case read_proc_file_timeout r pid ''cgroup'' of Some c \<Rightarrow> extract_container_id_from_cgroup c | None \<Rightarrow> []);
                (rss_b, uid) = (case read_proc_file_timeout r pid ''status'' of
                                  Some status \<Rightarrow>
                                    (case status_values (str_lines status) (None, None) of
                                       (v, u) \<Rightarrow> (case v of Some b \<Rightarrow> b | None \<Rightarrow> rss * 4096, u))
                                | None \<Rightarrow> (rss * 4096, None));
                cmd = (case read_proc_file_timeout r pid ''cmdline'' of
                         Some s \<Rightarrow> trim (map (\<lambda>c. if c = 0 then 32 else c) s) | None \<Rightarrow> []);
                ex = Option.bind (read_proc_file_timeout r pid ''exe'') (ho_link (pr_host r));
                (dr, dw) = (case read_proc_file_timeout r pid ''io'' of
                              Some io \<Rightarrow> fold io_line (str_lines io) (None, None) | None \<Rightarrow> (None, None))
            in (cid, rss_b, cmd, ex, dr, dw, uid)))"

definition process_info :: "process_reading \<Rightarrow> u32 \<Rightarrow> (nat \<times> u64 \<times> u64) option \<Rightarrow> rstring \<times> rstring list \<Rightarrow> ProcessInfo" where
  "process_info r pid prev nf =
     (let flds = snd nf;
          started_at = (case get_boot_time (pr_host r) of
                          Some boot_time \<Rightarrow> parse_start_time (pr_rfc3339 r) (field64 flds 19) boot_time | None \<Rightarrow> []);
          (container_id, rss_bytes, cmdline, exe, disk_r, disk_w, uid) = process_files r pid (field64 flds 21)
      in \<lparr>pi_pid = pid, pi_parent_pid = field32 flds 1, pi_name = fst nf, pi_command_line = cmdline, pi_exe = exe,
           pi_cpu_usage_percent = cpu_usage (pr_now r) prev (cpu_times flds), pi_rss_bytes = rss_bytes, pi_vsz_bytes = field64 flds 20,
           pi_disk_read_bytes = disk_r, pi_disk_written_bytes = disk_w, pi_status = (case flds of [] \<Rightarrow> [] | s # _ \<Rightarrow> s),
           pi_thread_count = Some (field32 flds 17), pi_fd_count = (if pr_wsl2 r then None else read_fd_count r pid),
           pi_container_id = Some container_id, pi_started_at = Some started_at, pi_user_id = uid\<rparr>)"

section \<open>Collecting\<close>

text \<open>The processes that are read, until the time budget is used up.\<close>

fun read_processes :: "process_reading \<Rightarrow> nat \<Rightarrow> u32 list \<Rightarrow> (u32 \<times> rstring \<times> rstring list) list" where
  "read_processes r i [] = []"
| "read_processes r i (pid # pids) =
     (if pr_over_budget r i then []
      else (case stat_fields r pid of
              None \<Rightarrow> read_processes r (i + 1) pids
            | Some nf \<Rightarrow> (pid, nf) # read_processes r (i + 1) pids))"

definition processes_read :: "process_reading \<Rightarrow> (u32 \<times> rstring \<times> rstring list) list" where
  "processes_read r = (case list_pids (pr_wsl2 r) (pr_host r) of None \<Rightarrow> [] | Some pids \<Rightarrow> read_processes r 0 pids)"

text \<open>The times of the last sample, with its time.\<close>

definition last_times :: "ProcessCollector \<Rightarrow> u32 \<rightharpoonup> nat \<times> u64 \<times> u64" where
  "last_times pc pid =
     (case pc_sample_time pc of None \<Rightarrow> None | Some t \<Rightarrow> map_option (Pair t) (pc_cpu_times pc pid))"

definition collect_processes :: "process_reading \<Rightarrow> ProcessCollector \<Rightarrow> (metal_error + ProcessInfo list) \<times> ProcessCollector" where
  "collect_processes r pc =
     (case list_pids (pr_wsl2 r) (pr_host r) of
        None \<Rightarrow> (Inl Io_error, pc)
      | Some pids \<Rightarrow>
          (let ps = read_processes r 0 pids in
           (Inr (map (\<lambda>(pid, nf). process_info r pid (last_times pc pid) nf) ps),
            \<lparr>pc_cpu_times = fold (\<lambda>(pid, nf) m. m(pid \<mapsto> cpu_times (snd nf))) ps Map.empty, pc_sample_time = Some (pr_now r)\<rparr>)))"

section \<open>Usage between two readings\<close>

definition process_readable :: "process_reading \<Rightarrow> bool" where
  "process_readable r \<longleftrightarrow> list_pids (pr_wsl2 r) (pr_host r) \<noteq> None"

lemma fold_updates: "fold (\<lambda>(k, c) m. m(k \<mapsto> f c)) xs m = m ++ map_of (rev (map (\<lambda>(k, c). (k, f c)) xs))"
  by (induction xs arbitrary: m) (auto simp: map_add_def fun_eq_iff split: option.splits)

interpretation process_sampler: sampler collect_processes last_times process_readable processes_read
    "\<lambda>r nf. (pr_now r, cpu_times (snd nf))" process_info
proof unfold_locales
  fix r pc
  show "process_readable r \<Longrightarrow> fst (collect_processes r pc) = Inr (map (\<lambda>(k, c). process_info r k (last_times pc k) c) (processes_read r))"
    by (auto simp: process_readable_def collect_processes_def processes_read_def Let_def)
  show "\<not> process_readable r \<Longrightarrow> (\<exists>x. fst (collect_processes r pc) = Inl x) \<and> last_times (snd (collect_processes r pc)) = last_times pc"
    by (simp add: process_readable_def collect_processes_def)
  assume "process_readable r"
  then obtain pids where pids: "list_pids (pr_wsl2 r) (pr_host r) = Some pids" by (auto simp: process_readable_def)
  have rv: "rev (map (\<lambda>(k, c). (k, pr_now r, cpu_times (snd c))) ps) = map (\<lambda>(k, c). (k, (Pair (pr_now r)) c)) (rev (map (\<lambda>(k, c). (k, cpu_times (snd c))) ps))" for ps :: "(u32 \<times> rstring \<times> rstring list) list"
    by (simp add: rev_map case_prod_beta comp_def)
  show "last_times (snd (collect_processes r pc)) = map_of (rev (map (\<lambda>(k, c). (k, pr_now r, cpu_times (snd c))) (processes_read r)))"
    unfolding rv map_of_map
    by (simp add: collect_processes_def processes_read_def pids last_times_def fold_updates [where f = "\<lambda>nf. cpu_times (snd nf)"] Let_def fun_eq_iff)
qed

text \<open>C23. The CPU usage of a process is the time it spent, in user and in kernel mode, between two readings that
  both show it, over the time between them; readings that fail in between make no difference. A process
  the earlier reading did not show has no usage, and a reading reports the processes it could read in the order
  of the directory.\<close>

theorem process_usage_between_readings:
  assumes "process_readable r1" "list_all (\<lambda>r. \<not> process_readable r) rs" "process_readable r2"
    and "pr_now r1 < pr_now r2" "pr_now r2 - pr_now r1 \<le> 2 ^ 64"
  defines "before \<equiv> map_of (rev (processes_read r1))"
  shows "\<exists>ps. fst (collect_processes r2 (snd (run_outputs collect_processes (r1 # rs) pc))) = Inr ps \<and>
    list_all2 (\<lambda>(pid, n, f) p. pi_pid p = pid \<and> pi_name p = n \<and>
      pi_cpu_usage_percent p = (case before pid of
         None \<Rightarrow> Finite 0
       | Some (_, f1) \<Rightarrow>
           d_mul (d_div (u64_f64 (sat_sub (field64 f 11) (field64 f1 11) + sat_sub (field64 f 12) (field64 f1 12)))
              (d_mul (secs_f64 (pr_now r2 - pr_now r1)) (double_of 100))) (double_of 100))) (processes_read r2) ps"
proof -
  have kept: "map_of (rev (process_sampler.kept r1)) pid = map_option (\<lambda>nf. (pr_now r1, cpu_times (snd nf))) (before pid)" for pid
  proof -
    have "rev (process_sampler.kept r1) = map (\<lambda>(k, c). (k, (\<lambda>nf. (pr_now r1, cpu_times (snd nf))) c)) (rev (processes_read r1))"
      by (simp add: process_sampler.kept_def rev_map)
    then show ?thesis by (simp add: before_def map_of_map)
  qed
  have pos: "d_less (Finite 0) (secs_f64 (pr_now r2 - pr_now r1))" using assms(4,5) by (intro secs_f64_pos) simp_all
  have flds: "pi_pid (process_info r pid prev nf) = pid \<and> pi_name (process_info r pid prev nf) = fst nf \<and>
      pi_cpu_usage_percent (process_info r pid prev nf) = cpu_usage (pr_now r) prev (cpu_times (snd nf))" for r pid prev nf
    by (simp add: process_info_def Let_def case_prod_beta)
  have clk: "u64_f64 CLOCK_TICKS_PER_SEC = double_of 100" by (simp add: u64_f64_def CLOCK_TICKS_PER_SEC_def)
  have usage: "cpu_usage (pr_now r2) (map_option (\<lambda>nf. (pr_now r1, cpu_times (snd nf))) old) (cpu_times f) =
      (case old of
         None \<Rightarrow> Finite 0
       | Some (_, f1) \<Rightarrow>
           d_mul (d_div (u64_f64 (sat_sub (field64 f 11) (field64 f1 11) + sat_sub (field64 f 12) (field64 f1 12)))
              (d_mul (secs_f64 (pr_now r2 - pr_now r1)) (double_of 100))) (double_of 100))" for old f
    using pos by (simp add: cpu_usage_def cpu_times_def clk Let_def split: option.splits prod.splits)
  show ?thesis
    unfolding process_sampler.reading_after [OF assms(1-3), of pc]
    by (simp add: list_all2_map2 list_all2_same case_prod_beta flds kept usage)
qed

section \<open>Container ids\<close>

lemma find_map_map:
  "(\<And>x. x \<in> set xs \<Longrightarrow> f x = map_option g (h x)) \<Longrightarrow> find_map f xs = map_option g (find_map h xs)"
  by (induction xs) (auto split: option.splits)

lemma splitn_3_suffix: "\<not> length (splitn 3 c s) < 3 \<Longrightarrow> \<exists>p. s = p @ splitn 3 c s ! 2"
proof -
  have once: "split_once c s = Some (a, b) \<Longrightarrow> s = a @ c # b" for a b s
    by (induction s arbitrary: a b) (auto split: if_splits)
  assume "\<not> length (splitn 3 c s) < 3"
  then obtain a b a' b' where "split_once c s = Some (a, b)" "split_once c b = Some (a', b')"
    by (auto simp: numeral_3_eq_3 split: option.splits)
  then show ?thesis by (auto simp: numeral_3_eq_3 dest!: once)
qed

lemma container_lines_agree:
  assumes "\<not> str_contains (lit ''kubepods'') line"
  shows "container_id_line line = map_option fst (parse_cgroup_line line)"
proof (cases "length (splitn 3 58 line) < 3")
  case False
  let ?path = "splitn 3 58 line ! 2"
  obtain p where p: "line = p @ ?path" using splitn_3_suffix [OF False] by blast
  have "\<not> str_contains (lit ''kubepods'') ?path" using assms str_contains_append [of "lit ''kubepods''" ?path p] p by metis
  moreover have "str_contains (lit ''cri-containerd'') s \<Longrightarrow> str_contains (lit ''containerd'') s" for s
  proof -
    assume "str_contains (lit ''cri-containerd'') s"
    then obtain a b where s: "s = a @ lit ''cri-containerd'' @ b" by (auto simp only: str_contains_iff)
    show "str_contains (lit ''containerd'') s" unfolding str_contains_iff by (rule exI [of _ "a @ lit ''cri-''"], rule exI [of _ b]) (simp add: s)
  qed
  ultimately show ?thesis
    using False unfolding container_id_line_def parse_cgroup_line_def by (auto simp: Let_def split: option.splits)
qed (simp add: container_id_line_def parse_cgroup_line_def)

text \<open>The process collector and the container detector agree on the container of a process, unless a path of
  its cgroup file names Kubernetes: the id is the one the detector finds, and empty if it finds none.\<close>

lemma container_ids_agree:
  assumes "\<And>line. line \<in> set (str_lines content) \<Longrightarrow> \<not> str_contains (lit ''kubepods'') line"
  shows "extract_container_id_from_cgroup content = (case parse_cgroup content of Some (cid, _) \<Rightarrow> cid | None \<Rightarrow> [])"
  using find_map_map [of "str_lines content" container_id_line fst parse_cgroup_line] container_lines_agree assms
  by (auto simp: extract_container_id_from_cgroup_def parse_cgroup_def split: option.splits)

lemma container_ids_agree_example:
  "extract_container_id_from_cgroup (lit ''0::/containerd/abcdef01'') = lit ''abcdef01''"
proof -
  have "parse_cgroup (lit ''0::/containerd/abcdef01'') = Some (lit ''abcdef01'', lit ''containerd'', lit ''v2'', lit ''/containerd/abcdef01'')"
    by code_simp
  then show ?thesis by (subst container_ids_agree) (simp_all add: str_lines_def starts_with_def)
qed

section \<open>Printed status lines and examples\<close>

text \<open>A host with one process, whose status line has a name in parentheses, a state and numbers.\<close>

definition stat_text :: "rstring \<Rightarrow> nat list \<Rightarrow> rstring" where
  "stat_text name cs = lit ''7 ('' @ name @ lit '') '' @ line_of (lit ''S'' # map decimal cs)"

definition stat_reading :: "nat \<Rightarrow> rstring \<Rightarrow> nat list \<Rightarrow> process_reading" where
  "stat_reading now name cs =
     \<lparr>pr_host = \<lparr>ho_file = (\<lambda>p. if p = proc_path 7 ''stat'' then Some (stat_text name cs) else None),
        ho_dir = (\<lambda>p. if p = lit ''/proc'' then Some [lit ''7'', lit ''self''] else None), ho_ls = [],
        ho_exists = (\<lambda>_. False), ho_link = (\<lambda>_. None), ho_statvfs = (\<lambda>_. None)\<rparr>,
      pr_now = now, pr_wsl2 = False, pr_over_budget = (\<lambda>_. False), pr_ready = (\<lambda>_. True), pr_rfc3339 = (\<lambda>_. None)\<rparr>"

lemma splitn_2: "splitn 2 c s = (case split_once c s of None \<Rightarrow> [s] | Some (a, b) \<Rightarrow> [a, b])"
  unfolding numeral_2_eq_2 by (simp split: option.splits)

lemma fields_of_printed:
  assumes "40 \<notin> set name" "41 \<notin> set name"
  shows "processes_read (stat_reading now name cs) = [(7, name, lit ''S'' # map decimal cs)]" "process_readable (stat_reading now name cs)"
proof -
  have vis: "list_all visible (lit ''S'' # map decimal cs)"
    by (simp add: list.pred_map comp_def visible_decimal) (simp add: visible_def list_all_iff)
  have pids: "list_pids False (pr_host (stat_reading now name cs)) = Some [7]"
    by (simp add: list_pids_def stat_reading_def parse_u32_def parse_uint_def to_digit_def List.map_filter_def)
  have "split_once 41 ((lit ''7 ('' @ name) @ 41 # b) = Some (lit ''7 ('' @ name, b)" for b
    using assms(2) by (intro split_once_append) simp
  then have cut: "splitn 2 41 (stat_text name cs) = [lit ''7 ('' @ name, 32 # line_of (lit ''S'' # map decimal cs)]"
    by (simp add: stat_text_def splitn_2)
  have nm: "split_once 40 (lit ''7 ('' @ name) = Some (lit ''7 '', name)"
    using split_once_append [of 40 "lit ''7 ''" name] by simp
  have ws: "split_whitespace (32 # line_of (lit ''S'' # map decimal cs)) = lit ''S'' # map decimal cs"
    using words_of_line [OF vis] words_of_blank [of 32] by (simp add: is_whitespace_def)
  have reads: "ho_file (pr_host (stat_reading now name cs)) (proc_path 7 ''stat'') = Some (stat_text name cs)"
    "pr_ready (stat_reading now name cs) p" "\<not> pr_wsl2 (stat_reading now name cs)" "\<not> pr_over_budget (stat_reading now name cs) i" for p i
    by (simp_all add: stat_reading_def)
  have "stat_fields (stat_reading now name cs) 7 = Some (name, lit ''S'' # map decimal cs)"
    unfolding stat_fields_def read_proc_file_timeout_def using reads by (simp only: if_True if_False bind.simps cut list.case nm ws option.case prod.case)
  then show "processes_read (stat_reading now name cs) = [(7, name, lit ''S'' # map decimal cs)]"
    using pids reads by (simp add: processes_read_def)
  show "process_readable (stat_reading now name cs)" using pids reads by (simp add: process_readable_def)
qed

theorem process_usage_between_readings_witness:
  "\<exists>p. fst (collect_processes (stat_reading (3 * 10 ^ 9) (lit ''sh'') (replicate 10 0 @ [25, 8] @ replicate 9 0))
      (snd (run_outputs collect_processes [stat_reading (10 ^ 9) (lit ''sh'') (replicate 10 0 @ [20, 3] @ replicate 9 0)] ProcessCollector_new))) = Inr [p] \<and>
    pi_pid p = 7 \<and> pi_cpu_usage_percent p = d_mul (d_div (u64_f64 10) (d_mul (secs_f64 (2 * 10 ^ 9)) (double_of 100))) (double_of 100)"
proof -
  have sh: "40 \<notin> set (lit ''sh'')" "41 \<notin> set (lit ''sh'')" by simp_all
  note f1 = fields_of_printed [OF sh, of "10 ^ 9" "replicate 10 0 @ [20, 3] @ replicate 9 0"]
    and f2 = fields_of_printed [OF sh, of "3 * 10 ^ 9" "replicate 10 0 @ [25, 8] @ replicate 9 0"]
  have field: "field64 (w # map decimal (replicate 10 0 @ [a, b] @ replicate 9 0)) 11 = of_nat a"
    "field64 (w # map decimal (replicate 10 0 @ [a, b] @ replicate 9 0)) 12 = of_nat b" if "a < 2 ^ 64" "b < 2 ^ 64" for w a b
    using that by (simp_all add: field64_def nth_opt_def nth_append parse_u64_decimal)
  have "pr_now (stat_reading t n cs) = t" for t n cs by (simp add: stat_reading_def)
  then show ?thesis
    using process_usage_between_readings [OF f1(2) _ f2(2), of "[]" ProcessCollector_new] field [of 20 3] field [of 25 8]
    by (auto simp only: f1(1) f2(1) list_all2_Cons1 list_all2_Nil list.pred_inject) (auto simp: sat_sub_def)
qed

text \<open>The path of the executable is known only if the executable itself is text and that text is the path of a
  symbolic link.\<close>

lemma exe_is_link_named_by_contents:
  "pi_exe (process_info r pid prev nf) = Some p \<Longrightarrow>
     \<exists>contents. ho_file (pr_host r) (proc_path pid ''exe'') = Some contents \<and> ho_link (pr_host r) contents = Some p"
  by (auto simp: process_info_def process_files_def read_proc_file_timeout_def case_prod_beta Let_def Option.bind_eq_Some_conv
      split: if_splits)

text \<open>The name of a process ends at its first closing parenthesis, and the fields after it are shifted.\<close>

lemma name_cut_at_parenthesis:
  "splitn 2 41 (lit ''7 (a) b) S 1'') = [lit ''7 (a'', lit '' b) S 1'']" "split_whitespace (lit '' b) S 1'') = [lit ''b)'', lit ''S'', lit ''1'']"
  by (simp_all add: splitn_2 split_whitespace_def is_whitespace_def)

end
