(* ===== verification/Metal_Batch.thy ===== *)
theory Metal_Batch
  imports Metal_Cpu Metal_Memory Metal_Disk Metal_Network Metal_Process Session_Metrics
begin

text \<open>
  The batch of all host metrics (\<open>metal/batch.rs\<close>) and the loop that collects and sends it
  (\<open>metal/mod.rs\<close>): each collector runs by itself, a failure leaves its part of the batch empty, and the batch
  goes through the client. The JSON serialiser is an argument.
\<close>

section \<open>Batches\<close>

record BatchCollector =
  bt_cpu :: CpuCollector
  bt_disk :: disk_table
  bt_network :: net_table
  bt_process :: ProcessCollector
  bt_wsl2_process :: ProcessCollector

definition BatchCollector_new :: BatchCollector where
  "BatchCollector_new = \<lparr>bt_cpu = CpuCollector_new, bt_disk = [], bt_network = Map.empty, bt_process = ProcessCollector_new,
     bt_wsl2_process = ProcessCollector_new\<rparr>"

record MetalBatch =
  mb_timestamp :: rstring
  mb_cpu :: "CpuMetrics option"
  mb_memory :: "MemoryMetrics option"
  mb_disk :: "DiskDevice list option"
  mb_network :: "NetworkMetrics option"
  mb_process :: "ProcessInfo list option"
  mb_container :: "ContainerInfo list option"

text \<open>
  On WSL2 the processes and containers are read in threads of their own. A thread returns in time, or later,
  or the one before it is still running; what a late thread reads is kept for the next one.
\<close>

datatype thread_outcome = In_time | Too_late | Still_running

record batch_env =
  ba_timestamp :: rstring
  ba_wsl2 :: bool
  ba_cpu :: host
  ba_memory :: host
  ba_sort :: memory_sort
  ba_disk :: reading
  ba_network :: net_reading
  ba_process :: process_reading
  ba_process_thread :: thread_outcome
  ba_container :: host
  ba_container_in_time :: bool

definition ok_of :: "'x + 'a \<Rightarrow> 'a option" where
  "ok_of r = (case r of Inl _ \<Rightarrow> None | Inr v \<Rightarrow> Some v)"

definition cpu_enabled :: "MetalConfig \<Rightarrow> bool" where
  "cpu_enabled config \<longleftrightarrow> mt_cpu_per_core config \<or> mt_cpu_per_process config"

text \<open>
  The steps of a batch, each on the whole batch collector: nothing is reported if the collector is disabled,
  which then does not run, or fails.
\<close>

definition batch_cpu :: "MetalConfig \<Rightarrow> host \<Rightarrow> BatchCollector \<Rightarrow> CpuMetrics option \<times> BatchCollector" where
  "batch_cpu config h bc =
     (if \<not> cpu_enabled config then (None, bc)
      else (case collect_cpu h (bt_cpu bc) of (r, c) \<Rightarrow> (ok_of r, bc\<lparr>bt_cpu := c\<rparr>)))"

definition batch_memory :: "MetalConfig \<Rightarrow> memory_sort \<Rightarrow> host \<Rightarrow> BatchCollector \<Rightarrow> MemoryMetrics option \<times> BatchCollector" where
  "batch_memory config sort_unstable_by h bc =
     (if \<not> mt_memory_rss config then (None, bc) else (ok_of (collect_memory sort_unstable_by h), bc))"

definition batch_disk :: "MetalConfig \<Rightarrow> reading \<Rightarrow> BatchCollector \<Rightarrow> DiskDevice list option \<times> BatchCollector" where
  "batch_disk config r bc =
     (if \<not> mt_disk_io config then (None, bc)
      else (case collect_disk r (bt_disk bc) of (ds, d) \<Rightarrow> (ok_of ds, bc\<lparr>bt_disk := d\<rparr>)))"

definition batch_network :: "MetalConfig \<Rightarrow> net_reading \<Rightarrow> BatchCollector \<Rightarrow> NetworkMetrics option \<times> BatchCollector" where
  "batch_network config r bc =
     (if \<not> mt_network_io config then (None, bc)
      else (case collect_network r (bt_network bc) of (m, n) \<Rightarrow> (ok_of m, bc\<lparr>bt_network := n\<rparr>)))"

definition batch_process :: "MetalConfig \<Rightarrow> process_reading \<Rightarrow> BatchCollector \<Rightarrow> ProcessInfo list option \<times> BatchCollector" where
  "batch_process config r bc =
     (if \<not> mt_process_tree config then (None, bc)
      else (case collect_processes r (bt_process bc) of (ps, p) \<Rightarrow> (ok_of ps, bc\<lparr>bt_process := p\<rparr>)))"

definition batch_container :: "MetalConfig \<Rightarrow> host \<Rightarrow> BatchCollector \<Rightarrow> ContainerInfo list option \<times> BatchCollector" where
  "batch_container config h bc =
     (if \<not> mt_container_detection config then (None, bc) else (ok_of (collect_containers h), bc))"

text \<open>The threads on WSL2; the one for containers makes a detector of its own.\<close>

definition wsl2_process :: "thread_outcome \<Rightarrow> process_reading \<Rightarrow> BatchCollector \<Rightarrow> ProcessInfo list option \<times> BatchCollector" where
  "wsl2_process thread r bc =
     (let (ps, w) = collect_processes r (bt_wsl2_process bc) in
      case thread of
        In_time \<Rightarrow> (ok_of ps, bc\<lparr>bt_wsl2_process := w\<rparr>)
      | Too_late \<Rightarrow> (None, bc\<lparr>bt_wsl2_process := w\<rparr>)
      | Still_running \<Rightarrow> (None, bc))"

definition wsl2_container :: "MetalConfig \<Rightarrow> bool \<Rightarrow> host \<Rightarrow> BatchCollector \<Rightarrow> ContainerInfo list option \<times> BatchCollector" where
  "wsl2_container config in_time h bc =
     (let result = (if mt_container_detection config then ok_of (collect_containers h) else None)
      in (if in_time then result else None, bc))"

definition collect_all :: "MetalConfig \<Rightarrow> batch_env \<Rightarrow> BatchCollector \<Rightarrow> MetalBatch \<times> BatchCollector" where
  "collect_all config e bc =
     (let (cpu, bc) = batch_cpu config (ba_cpu e) bc;
          (memory, bc) = batch_memory config (ba_sort e) (ba_memory e) bc;
          (disk, bc) = batch_disk config (ba_disk e) bc;
          (network, bc) = batch_network config (ba_network e) bc;
          (process, bc) = (if ba_wsl2 e then wsl2_process (ba_process_thread e) (ba_process e) bc
                           else batch_process config (ba_process e) bc);
          (container, bc) = (if ba_wsl2 e then wsl2_container config (ba_container_in_time e) (ba_container e) bc
                             else batch_container config (ba_container e) bc)
      in (\<lparr>mb_timestamp = ba_timestamp e, mb_cpu = cpu, mb_memory = memory, mb_disk = disk, mb_network = network,
            mb_process = process, mb_container = container\<rparr>, bc))"

section \<open>Sending\<close>

type_synonym serializer = "MetalBatch \<Rightarrow> bytes option"
type_synonym metal_event = "batch_env \<times> metrics_env"

text \<open>\<open>collect_and_send\<close>; without a serialised batch nothing is sent.\<close>

definition collect_and_send ::
  "'e services \<Rightarrow> serializer \<Rightarrow> MetalConfig \<Rightarrow> metal_event \<Rightarrow> BatchCollector \<times> session
     \<Rightarrow> (metrics_result option \<times> BatchCollector \<times> session) option" where
  "collect_and_send sv to_json config ev st =
     (let (batch, bc) = collect_all config (fst ev) (fst st) in
      case to_json batch of
        None \<Rightarrow> Some (None, bc, snd st)
      | Some data \<Rightarrow> map_option (\<lambda>(r, ss). (Some r, bc, ss)) (send_metrics sv (snd ev) data (snd st)))"

text \<open>The loop, for the events of its iterations: an interval that cannot be parsed ends it, an interval of zero
  panics, and no error of a round ends it.\<close>

definition metal_run ::
  "'e services \<Rightarrow> serializer \<Rightarrow> MetalConfig \<Rightarrow> metal_event list \<Rightarrow> session
     \<Rightarrow> (metal_duration_error + metrics_result option list \<times> BatchCollector \<times> session) option" where
  "metal_run sv to_json config evs ss =
     (case metal_parse_duration (mt_interval config) of
        Inl e \<Rightarrow> Some (Inl e)
      | Inr interval \<Rightarrow>
          if interval = 0 then None
          else map_option Inr (run_sends (collect_and_send sv to_json config) evs (BatchCollector_new, ss)))"

section \<open>Isolation of the collectors\<close>

lemma run_outputs_first: "fst (run_outputs step (e # es) s) = (e, fst (step e s)) # fst (run_outputs step es (snd (step e s)))"
  by (simp add: Let_def case_prod_beta)

lemma run_component:
  assumes "\<And>e s. get (snd (step e s)) = snd (one (f e) (get s))" "\<And>e s. out (fst (step e s)) = fst (one (f e) (get s))"
  shows "map (\<lambda>(e, r). out r) (fst (run_outputs step es s)) = map snd (fst (run_outputs one (map f es) (get s)))"
proof (induction es arbitrary: s)
  case (Cons e es)
  show ?case using Cons.IH [of "snd (step e s)"] assms [of e s] by (simp add: run_outputs_first del: run_outputs.simps(2))
qed simp

lemma run_stateless:
  assumes "\<And>e s. out (fst (step e s)) = g (f e)"
  shows "map (\<lambda>(e, r). out r) (fst (run_outputs step es s)) = map g (map f es)"
  by (induction es arbitrary: s) (simp_all add: run_outputs_first assms del: run_outputs.simps(2))

text \<open>A collector by itself, with its own readings and state only: it reports what it collects, nothing if it is
  disabled or fails.\<close>

definition alone :: "('r \<Rightarrow> 's \<Rightarrow> 'a \<times> 's) \<Rightarrow> 's \<Rightarrow> 'r list \<Rightarrow> 'a list" where
  "alone one s rs = map snd (fst (run_outputs one rs s))"

definition reports :: "bool \<Rightarrow> ('r \<Rightarrow> 's \<Rightarrow> ('x + 'a) \<times> 's) \<Rightarrow> 'r \<Rightarrow> 's \<Rightarrow> 'a option \<times> 's" where
  "reports enabled run r s = (if enabled then apfst ok_of (run r s) else (None, s))"

text \<open>The processes are read by one of two collectors, depending on whether the host is WSL2.\<close>

fun reports_processes ::
  "MetalConfig \<Rightarrow> bool \<times> thread_outcome \<times> process_reading \<Rightarrow> ProcessCollector \<times> ProcessCollector
     \<Rightarrow> ProcessInfo list option \<times> ProcessCollector \<times> ProcessCollector" where
  "reports_processes config (False, thread, r) (p, w) =
     (case reports (mt_process_tree config) collect_processes r p of (ps, p) \<Rightarrow> (ps, p, w))"
| "reports_processes config (True, In_time, r) (p, w) = (case reports True collect_processes r w of (ps, w) \<Rightarrow> (ps, p, w))"
| "reports_processes config (True, Too_late, r) (p, w) = (None, p, snd (collect_processes r w))"
| "reports_processes config (True, Still_running, r) (p, w) = (None, p, w)"

text \<open>On WSL2 the containers are left out if they are not read in time.\<close>

fun reports_containers :: "MetalConfig \<Rightarrow> bool \<times> bool \<times> host \<Rightarrow> ContainerInfo list option" where
  "reports_containers config (wsl2, in_time, h) =
     (if mt_container_detection config \<and> (wsl2 \<longrightarrow> in_time) then ok_of (collect_containers h) else None)"

text \<open>What each step reports and what it leaves of the state of the others.\<close>

lemma batch_cpu_step:
  "fst (batch_cpu config h bc) = fst (reports (cpu_enabled config) collect_cpu h (bt_cpu bc))"
  "bt_cpu (snd (batch_cpu config h bc)) = snd (reports (cpu_enabled config) collect_cpu h (bt_cpu bc))"
  "bt_disk (snd (batch_cpu config h bc)) = bt_disk bc"
  "bt_network (snd (batch_cpu config h bc)) = bt_network bc"
  "bt_process (snd (batch_cpu config h bc)) = bt_process bc"
  "bt_wsl2_process (snd (batch_cpu config h bc)) = bt_wsl2_process bc"
  by (simp_all add: batch_cpu_def reports_def case_prod_beta)

lemma batch_disk_step:
  "fst (batch_disk config r bc) = fst (reports (mt_disk_io config) collect_disk r (bt_disk bc))"
  "bt_cpu (snd (batch_disk config r bc)) = bt_cpu bc"
  "bt_disk (snd (batch_disk config r bc)) = snd (reports (mt_disk_io config) collect_disk r (bt_disk bc))"
  "bt_network (snd (batch_disk config r bc)) = bt_network bc"
  "bt_process (snd (batch_disk config r bc)) = bt_process bc"
  "bt_wsl2_process (snd (batch_disk config r bc)) = bt_wsl2_process bc"
  by (simp_all add: batch_disk_def reports_def case_prod_beta)

lemma batch_network_step:
  "fst (batch_network config r bc) = fst (reports (mt_network_io config) collect_network r (bt_network bc))"
  "bt_cpu (snd (batch_network config r bc)) = bt_cpu bc"
  "bt_disk (snd (batch_network config r bc)) = bt_disk bc"
  "bt_network (snd (batch_network config r bc)) = snd (reports (mt_network_io config) collect_network r (bt_network bc))"
  "bt_process (snd (batch_network config r bc)) = bt_process bc"
  "bt_wsl2_process (snd (batch_network config r bc)) = bt_wsl2_process bc"
  by (simp_all add: batch_network_def reports_def case_prod_beta)

lemma batch_process_step:
  "fst (batch_process config r bc) = fst (reports (mt_process_tree config) collect_processes r (bt_process bc))"
  "bt_cpu (snd (batch_process config r bc)) = bt_cpu bc"
  "bt_disk (snd (batch_process config r bc)) = bt_disk bc"
  "bt_network (snd (batch_process config r bc)) = bt_network bc"
  "bt_process (snd (batch_process config r bc)) = snd (reports (mt_process_tree config) collect_processes r (bt_process bc))"
  "bt_wsl2_process (snd (batch_process config r bc)) = bt_wsl2_process bc"
  by (simp_all add: batch_process_def reports_def case_prod_beta)

lemma batch_memory_step:
  "fst (batch_memory config srt h bc) = (if mt_memory_rss config then ok_of (collect_memory srt h) else None)"
  "bt_cpu (snd (batch_memory config srt h bc)) = bt_cpu bc"
  "bt_disk (snd (batch_memory config srt h bc)) = bt_disk bc"
  "bt_network (snd (batch_memory config srt h bc)) = bt_network bc"
  "bt_process (snd (batch_memory config srt h bc)) = bt_process bc"
  "bt_wsl2_process (snd (batch_memory config srt h bc)) = bt_wsl2_process bc"
  by (simp_all add: batch_memory_def)

lemma batch_container_step:
  "fst (batch_container config h bc) = (if mt_container_detection config then ok_of (collect_containers h) else None)"
  "bt_cpu (snd (batch_container config h bc)) = bt_cpu bc"
  "bt_disk (snd (batch_container config h bc)) = bt_disk bc"
  "bt_network (snd (batch_container config h bc)) = bt_network bc"
  "bt_process (snd (batch_container config h bc)) = bt_process bc"
  "bt_wsl2_process (snd (batch_container config h bc)) = bt_wsl2_process bc"
  by (simp_all add: batch_container_def)

lemma wsl2_container_step:
  "fst (wsl2_container config in_time h bc) = (if mt_container_detection config \<and> in_time then ok_of (collect_containers h) else None)"
  "bt_cpu (snd (wsl2_container config in_time h bc)) = bt_cpu bc"
  "bt_disk (snd (wsl2_container config in_time h bc)) = bt_disk bc"
  "bt_network (snd (wsl2_container config in_time h bc)) = bt_network bc"
  "bt_process (snd (wsl2_container config in_time h bc)) = bt_process bc"
  "bt_wsl2_process (snd (wsl2_container config in_time h bc)) = bt_wsl2_process bc"
  by (simp_all add: wsl2_container_def)

lemma wsl2_process_step:
  "fst (wsl2_process thread r bc) = (if thread = In_time then ok_of (fst (collect_processes r (bt_wsl2_process bc))) else None)"
  "bt_cpu (snd (wsl2_process thread r bc)) = bt_cpu bc"
  "bt_disk (snd (wsl2_process thread r bc)) = bt_disk bc"
  "bt_network (snd (wsl2_process thread r bc)) = bt_network bc"
  "bt_process (snd (wsl2_process thread r bc)) = bt_process bc"
  "bt_wsl2_process (snd (wsl2_process thread r bc)) = (if thread = Still_running then bt_wsl2_process bc else snd (collect_processes r (bt_wsl2_process bc)))"
  by (simp_all add: wsl2_process_def Let_def case_prod_beta split: thread_outcome.split)

lemmas batch_steps = batch_cpu_step batch_memory_step batch_disk_step batch_network_step batch_process_step batch_container_step
  wsl2_process_step wsl2_container_step

text \<open>The parts of a batch and the state after it.\<close>

lemma collect_all_parts:
  "mb_cpu (fst (collect_all config e bc)) = fst (reports (cpu_enabled config) collect_cpu (ba_cpu e) (bt_cpu bc))"
  "mb_memory (fst (collect_all config e bc)) = (if mt_memory_rss config then ok_of (collect_memory (ba_sort e) (ba_memory e)) else None)"
  "mb_disk (fst (collect_all config e bc)) = fst (reports (mt_disk_io config) collect_disk (ba_disk e) (bt_disk bc))"
  "mb_network (fst (collect_all config e bc)) = fst (reports (mt_network_io config) collect_network (ba_network e) (bt_network bc))"
  "mb_process (fst (collect_all config e bc)) =
     fst (reports_processes config (ba_wsl2 e, ba_process_thread e, ba_process e) (bt_process bc, bt_wsl2_process bc))"
  "mb_container (fst (collect_all config e bc)) =
     (if mt_container_detection config \<and> (ba_wsl2 e \<longrightarrow> ba_container_in_time e) then ok_of (collect_containers (ba_container e)) else None)"
  "mb_timestamp (fst (collect_all config e bc)) = ba_timestamp e"
proof -
  note s = collect_all_def Let_def case_prod_beta
  show "mb_cpu (fst (collect_all config e bc)) = fst (reports (cpu_enabled config) collect_cpu (ba_cpu e) (bt_cpu bc))"
    "mb_memory (fst (collect_all config e bc)) = (if mt_memory_rss config then ok_of (collect_memory (ba_sort e) (ba_memory e)) else None)"
    "mb_disk (fst (collect_all config e bc)) = fst (reports (mt_disk_io config) collect_disk (ba_disk e) (bt_disk bc))"
    "mb_network (fst (collect_all config e bc)) = fst (reports (mt_network_io config) collect_network (ba_network e) (bt_network bc))"
    "mb_timestamp (fst (collect_all config e bc)) = ba_timestamp e"
    by (simp_all add: s batch_steps)
  show "mb_container (fst (collect_all config e bc)) =
     (if mt_container_detection config \<and> (ba_wsl2 e \<longrightarrow> ba_container_in_time e) then ok_of (collect_containers (ba_container e)) else None)"
    by (cases "ba_wsl2 e") (simp_all add: s batch_steps)
  show "mb_process (fst (collect_all config e bc)) =
     fst (reports_processes config (ba_wsl2 e, ba_process_thread e, ba_process e) (bt_process bc, bt_wsl2_process bc))"
    by (cases "ba_wsl2 e"; cases "ba_process_thread e") (simp_all add: s batch_steps reports_def case_prod_beta)
qed

lemma collect_all_state:
  "bt_cpu (snd (collect_all config e bc)) = snd (reports (cpu_enabled config) collect_cpu (ba_cpu e) (bt_cpu bc))"
  "bt_disk (snd (collect_all config e bc)) = snd (reports (mt_disk_io config) collect_disk (ba_disk e) (bt_disk bc))"
  "bt_network (snd (collect_all config e bc)) = snd (reports (mt_network_io config) collect_network (ba_network e) (bt_network bc))"
  "(bt_process (snd (collect_all config e bc)), bt_wsl2_process (snd (collect_all config e bc))) =
     snd (reports_processes config (ba_wsl2 e, ba_process_thread e, ba_process e) (bt_process bc, bt_wsl2_process bc))"
proof -
  note s = collect_all_def Let_def case_prod_beta
  show "bt_cpu (snd (collect_all config e bc)) = snd (reports (cpu_enabled config) collect_cpu (ba_cpu e) (bt_cpu bc))"
    "bt_disk (snd (collect_all config e bc)) = snd (reports (mt_disk_io config) collect_disk (ba_disk e) (bt_disk bc))"
    "bt_network (snd (collect_all config e bc)) = snd (reports (mt_network_io config) collect_network (ba_network e) (bt_network bc))"
    by (cases "ba_wsl2 e"; simp add: s batch_steps)+
  show "(bt_process (snd (collect_all config e bc)), bt_wsl2_process (snd (collect_all config e bc))) =
     snd (reports_processes config (ba_wsl2 e, ba_process_thread e, ba_process e) (bt_process bc, bt_wsl2_process bc))"
    by (cases "ba_wsl2 e"; cases "ba_process_thread e") (simp_all add: s batch_steps reports_def case_prod_beta)
qed

text \<open>C20. In every sequence of batches, each of which runs the collectors one after the other on the same
  state, each collector reports what it would report by itself from its own readings and its own earlier
  state: whatever the others read, whatever state they are in, and whether they fail. One that fails or is
  disabled leaves its part of the batch empty, and one that is disabled does not run.\<close>

theorem collectors_isolated:
  "map (\<lambda>(e, b). mb_cpu b) (fst (run_outputs (collect_all config) es bc)) =
     alone (reports (cpu_enabled config) collect_cpu) (bt_cpu bc) (map ba_cpu es) \<and>
   map (\<lambda>(e, b). mb_memory b) (fst (run_outputs (collect_all config) es bc)) =
     map (\<lambda>(srt, h). if mt_memory_rss config then ok_of (collect_memory srt h) else None) (map (\<lambda>e. (ba_sort e, ba_memory e)) es) \<and>
   map (\<lambda>(e, b). mb_disk b) (fst (run_outputs (collect_all config) es bc)) =
     alone (reports (mt_disk_io config) collect_disk) (bt_disk bc) (map ba_disk es) \<and>
   map (\<lambda>(e, b). mb_network b) (fst (run_outputs (collect_all config) es bc)) =
     alone (reports (mt_network_io config) collect_network) (bt_network bc) (map ba_network es) \<and>
   map (\<lambda>(e, b). mb_process b) (fst (run_outputs (collect_all config) es bc)) =
     alone (reports_processes config) (bt_process bc, bt_wsl2_process bc) (map (\<lambda>e. (ba_wsl2 e, ba_process_thread e, ba_process e)) es) \<and>
   map (\<lambda>(e, b). mb_container b) (fst (run_outputs (collect_all config) es bc)) =
     map (reports_containers config) (map (\<lambda>e. (ba_wsl2 e, ba_container_in_time e, ba_container e)) es)"
proof (intro conjI)
  show "map (\<lambda>(e, b). mb_memory b) (fst (run_outputs (collect_all config) es bc)) =
     map (\<lambda>(srt, h). if mt_memory_rss config then ok_of (collect_memory srt h) else None) (map (\<lambda>e. (ba_sort e, ba_memory e)) es)"
    "map (\<lambda>(e, b). mb_container b) (fst (run_outputs (collect_all config) es bc)) =
     map (reports_containers config) (map (\<lambda>e. (ba_wsl2 e, ba_container_in_time e, ba_container e)) es)"
    by (rule run_stateless, simp add: collect_all_parts)+
  show "map (\<lambda>(e, b). mb_process b) (fst (run_outputs (collect_all config) es bc)) =
     alone (reports_processes config) (bt_process bc, bt_wsl2_process bc) (map (\<lambda>e. (ba_wsl2 e, ba_process_thread e, ba_process e)) es)"
    unfolding alone_def
    by (rule run_component [where get = "\<lambda>bc. (bt_process bc, bt_wsl2_process bc)"]) (simp_all only: collect_all_parts collect_all_state)
qed (unfold alone_def, (rule run_component, simp_all add: collect_all_parts collect_all_state)+)

text \<open>On WSL2 the processes are read although the configuration disables it.\<close>

lemma wsl2_ignores_process_setting:
  assumes "ba_wsl2 e" "ba_process_thread e = In_time"
  shows "mb_process (fst (collect_all config e bc)) = ok_of (fst (collect_processes (ba_process e) (bt_wsl2_process bc)))"
  using assms by (simp add: collect_all_parts reports_def case_prod_beta)

section \<open>What becomes of the batches\<close>

definition batches_of :: "MetalConfig \<Rightarrow> metal_event list \<Rightarrow> BatchCollector \<Rightarrow> MetalBatch list" where
  "batches_of config evs bc = map snd (fst (run_outputs (collect_all config) (map fst evs) bc))"

lemma batches_of_Cons:
  "batches_of config (ev # evs) bc = (let (b, bc') = collect_all config (fst ev) bc in b # batches_of config evs bc')"
  by (simp add: batches_of_def Let_def split: prod.splits)

lemma length_batches_of [simp]: "length (batches_of config evs bc) = length evs"
  by (induction evs arbitrary: bc) (simp_all add: batches_of_Cons batches_of_def [of _ "[]"] Let_def split: prod.splits)

text \<open>The samples the loop sends.\<close>

definition samples_of :: "(MetalBatch \<Rightarrow> bytes) \<Rightarrow> MetalConfig \<Rightarrow> metal_event list \<Rightarrow> (metrics_env \<times> bytes) list" where
  "samples_of f config evs = zip (map snd evs) (map f (batches_of config evs BatchCollector_new))"

lemma metal_rounds:
  "run_sends (collect_and_send sv (\<lambda>b. Some (f b)) config) evs (bc, ss) =
     map_option (\<lambda>(rs, ss'). (map Some rs, snd (run_outputs (collect_all config) (map fst evs) bc), ss'))
       (run_sends (metrics_send sv) (zip (map snd evs) (map f (batches_of config evs bc))) ss)"
proof (induction evs arbitrary: bc ss)
  case (Cons ev evs)
  obtain b bc' where b: "collect_all config (fst ev) bc = (b, bc')" by (cases "collect_all config (fst ev) bc")
  have step: "collect_and_send sv (\<lambda>b. Some (f b)) config ev (bc, ss) =
      map_option (\<lambda>(r, ss'). (Some r, bc', ss')) (send_metrics sv (snd ev) (f b) ss)"
    by (simp add: collect_and_send_def b)
  have head: "metrics_send sv (snd ev, f b) ss = send_metrics sv (snd ev) (f b) ss" by (simp add: metrics_send_def)
  show ?case
    by (cases "send_metrics sv (snd ev) (f b) ss")
      (auto simp: step head batches_of_Cons b run_outputs_state Cons.IH option.map_comp comp_def simp del: run_outputs.simps(2)
        intro!: option.map_cong)
qed simp

lemma metal_run_rounds:
  assumes "metal_parse_duration (mt_interval config) = Inr i" "i \<noteq> 0"
  shows "metal_run sv (\<lambda>b. Some (f b)) config evs ss =
     map_option (\<lambda>(rs, ss'). Inr (map Some rs, snd (run_outputs (collect_all config) (map fst evs) BatchCollector_new), ss'))
       (run_sends (metrics_send sv) (samples_of f config evs) ss)"
  using assms by (simp add: metal_run_def metal_rounds samples_of_def option.map_comp comp_def case_prod_unfold)

text \<open>No batch of the loop is lost: each is accepted by the cluster, or its compressed form is in the edge
  buffer, in order and nothing else, whatever collectors fail and whether the agent is connected; as long as
  what is kept fits into the budget and does not expire.\<close>

lemma metal_batches_delivered_or_kept:
  assumes "metal_parse_duration (mt_interval config) = Inr i" "i \<noteq> 0"
    and "ec_sqlite_path ec = None" "unat (ec_max_memory_bytes ec) < 2 ^ 62" "\<And>d. sv_compress sv d = Some (z d)"
    and "metal_run sv (\<lambda>b. Some (f b)) config evs (session_start env path (EdgeBuffer_new init ec) agent_config) =
      Some (Inr (map Some rs, bc, ss))"
    and "write_total (kept (metrics_entry z) (\<lambda>r. r = Batch_sent) (samples_of f config evs) rs) \<le> unat (ec_max_memory_bytes ec)"
      "none_expires (ec_entry_ttl ec) [] (kept (metrics_entry z) (\<lambda>r. r = Batch_sent) (samples_of f config evs) rs)"
  shows "length rs = length evs \<and>
    list_all2 (\<lambda>ev r. r = Batch_sent \<longrightarrow> mv_answer (snd ev) = Inr True) evs rs \<and>
    map (\<lambda>e. (be_data e, be_data_type e)) (eb_buffer (cl_buffer (ss_client ss))) =
      map (\<lambda>(b, r). (z (f b), Metrics)) (filter (\<lambda>(b, r). r \<noteq> Batch_sent) (zip (batches_of config evs BatchCollector_new) rs))"
proof -
  let ?xs = "samples_of f config evs" and ?bs = "batches_of config evs BatchCollector_new"
  have run: "run_sends (metrics_send sv) ?xs (session_start env path (EdgeBuffer_new init ec) agent_config) = Some (rs, ss)"
    using assms(6) unfolding metal_run_rounds [OF assms(1,2)] by (auto simp: inj_map_eq_map)
  have start: "cl_buffer (ss_client (session_start env path (EdgeBuffer_new init ec) agent_config)) = EdgeBuffer_new init ec"
    by (simp add: session_start_def Session_new_def Client_new_def Let_def)
  have c: "compressing z sv = sv" by (rule compressing_eq) (rule assms(5))
  have len: "length rs = length evs" using run_sends_length [OF run] by (simp add: samples_of_def)
  note d = metrics_sender.delivered_or_kept [where z = z and sv = sv, unfolded c, OF run start assms(3,4,7,8)]
  have "list_all2 (\<lambda>ev r. r = Batch_sent \<longrightarrow> mv_answer (snd ev) = Inr True) evs rs"
    using d by (auto simp: list_all2_conv_all_nth samples_of_def len)
  moreover have "map (\<lambda>(x, r). (z (snd x), Metrics)) (filter (\<lambda>(x, r). r \<noteq> Batch_sent) (zip (zip ms (map f bs)) rs)) =
      map (\<lambda>(b, r). (z (f b), Metrics)) (filter (\<lambda>(b, r). r \<noteq> Batch_sent) (zip bs rs))" if "length ms = length bs" for ms bs
    using that by (induction ms bs arbitrary: rs rule: list_induct2) (auto simp: zip_Cons1 split: list.splits)
  from this [of "map snd evs" ?bs] have "map (\<lambda>(x, r). (z (snd x), Metrics)) (filter (\<lambda>(x, r). r \<noteq> Batch_sent) (zip ?xs rs)) =
      map (\<lambda>(b, r). (z (f b), Metrics)) (filter (\<lambda>(b, r). r \<noteq> Batch_sent) (zip ?bs rs))"
    by (simp add: samples_of_def)
  ultimately show ?thesis using d len by (simp add: metrics_entry_def)
qed

text \<open>C11. The loop of an identified, connected agent stops: every batch goes into the raw channel first, which
  nothing empties, so the loop does 1024 rounds and waits for ever in the next one, whatever is collected and
  whatever the cluster answers.\<close>

theorem metal_loop_stalls:
  assumes "metal_parse_duration (mt_interval config) = Inr i" "i \<noteq> 0"
    and "\<And>d. sv_compress sv d = Some (z d)" "live_ready ss" "cl_channel (ss_client ss) = []"
  shows "metal_run sv (\<lambda>b. Some (f b)) config evs ss = None \<longleftrightarrow> 1024 < length evs"
proof -
  have c: "compressing z sv = sv" by (rule compressing_eq) (rule assms(3))
  show ?thesis
    using live_queue.stalls [where z = z and sv = sv, unfolded c, OF assms(4), of "samples_of f config evs"] assms(5)
    unfolding metal_run_rounds [OF assms(1,2)] by (simp add: CHANNEL_CAPACITY_def samples_of_def)
qed

definition quiet_config :: MetalConfig where
  "quiet_config = \<lparr>mt_enabled = True, mt_interval = lit ''10s'', mt_cpu_per_core = False, mt_cpu_per_process = False, mt_memory_rss = False,
     mt_disk_io = False, mt_network_io = False, mt_process_tree = False, mt_container_detection = False\<rparr>"

definition empty_env :: batch_env where
  "empty_env = \<lparr>ba_timestamp = [], ba_wsl2 = False, ba_cpu = file_host [] [], ba_memory = file_host [] [], ba_sort = (\<lambda>_. id), ba_disk = (file_host [] [], 0),
     ba_network = (file_host [] [], 0), ba_process = stat_reading 0 [] [], ba_process_thread = In_time, ba_container = file_host [] [],
     ba_container_in_time = True\<rparr>"

lemma quiet_interval: "metal_parse_duration (mt_interval quiet_config) = Inr 10000"
  by (simp add: metal_parse_duration_def quiet_config_def trim_def trim_matches_def is_whitespace_def strip_suffix_def parse_uint_def
      to_digit_def Let_def)

lemma metal_batches_delivered_or_kept_example:
  "\<exists>bc ss. metal_run example_services (\<lambda>_. Some [1]) quiet_config [(empty_env, example_metrics), (empty_env, refused_metrics)]
      (session_start reachable [] default_buffer small_config) = Some (Inr ([Some Batch_sent, Some Batch_buffered], bc, ss)) \<and>
    map (\<lambda>e. (be_data e, be_data_type e)) (eb_buffer (cl_buffer (ss_client ss))) = [([1], Metrics)]"
proof -
  let ?ss = "session_start reachable [] default_buffer small_config"
  let ?evs = "[(empty_env, example_metrics), (empty_env, refused_metrics)]"
  have start: "ss_identity_valid ?ss = False" "connected ?ss" "gr_client (ss_grpc ?ss)" "is_backpressured (ss_flow ?ss) = False"
    by (simp_all add: session_start_def Session_new_def small_config_def connect_def reachable_def unreachable_def connected_def
        is_connected_def is_backpressured_def FlowControl_new_def Let_def)
  have z: "sv_compress example_services = Some" by (simp add: example_services_def)
  have xs: "samples_of (\<lambda>_. [1]) quiet_config ?evs = [(example_metrics, [1]), (refused_metrics, [1])]"
    by (simp add: samples_of_def batches_of_def Let_def split: prod.splits)
  obtain ss where r: "run_sends (metrics_send example_services) [(example_metrics, [1]), (refused_metrics, [1])] ?ss =
      Some ([Batch_sent, Batch_buffered], ss)"
    using start by (simp add: metrics_send_def send_metrics_def call_or_buffer_def z update_client_def connected_def is_connected_def
        rpc_call_def example_metrics_def refused_metrics_def buffer_metrics_def Let_def)
  define bc where "bc = snd (run_outputs (collect_all quiet_config) (map fst ?evs) BatchCollector_new)"
  have run: "metal_run example_services (\<lambda>b. Some [1]) quiet_config ?evs ?ss = Some (Inr (map Some [Batch_sent, Batch_buffered], bc, ss))"
    using metal_run_rounds [OF quiet_interval, of example_services "\<lambda>_. [1]" ?evs ?ss] unfolding xs r by (simp add: bc_def)
  have k: "kept (metrics_entry id) (\<lambda>r. r = Batch_sent) (samples_of (\<lambda>_. [1]) quiet_config ?evs) [Batch_sent, Batch_buffered] =
      [Write example_env [1] Metrics]"
    unfolding xs by (simp add: metrics_entry_def refused_metrics_def example_metrics_def)
  have fits: "write_total (kept (metrics_entry id) (\<lambda>r. r = Batch_sent) (samples_of (\<lambda>_. [1]) quiet_config ?evs) [Batch_sent, Batch_buffered])
        \<le> unat (ec_max_memory_bytes EdgeBufferConfig_default)"
      "none_expires (ec_entry_ttl EdgeBufferConfig_default) []
        (kept (metrics_entry id) (\<lambda>r. r = Batch_sent) (samples_of (\<lambda>_. [1]) quiet_config ?evs) [Batch_sent, Batch_buffered])"
    unfolding k by (simp_all add: EdgeBufferConfig_default_def write_total_def none_expires_def example_env_def)
  have c: "sv_compress example_services d = Some (id d)" for d by (simp add: z)
  have len: "length (batches_of quiet_config ?evs BatchCollector_new) = 2" by simp
  then obtain b1 b2 where bs: "batches_of quiet_config ?evs BatchCollector_new = [b1, b2]"
    by (metis (no_types, lifting) length_0_conv length_Suc_conv numeral_2_eq_2)
  have "ec_sqlite_path EdgeBufferConfig_default = None" "unat (ec_max_memory_bytes EdgeBufferConfig_default) < 2 ^ 62"
    by (simp_all add: EdgeBufferConfig_default_def)
  from metal_batches_delivered_or_kept [OF quiet_interval _ this c run fits]
  have "map (\<lambda>e. (be_data e, be_data_type e)) (eb_buffer (cl_buffer (ss_client ss))) = [([1], Metrics)]" by (simp add: bs)
  then show ?thesis using run by auto
qed

theorem metal_loop_stalls_witness:
  "metal_run example_services (\<lambda>_. Some [1]) quiet_config (replicate 1025 (empty_env, example_metrics))
      (session_start reachable [] default_buffer seeded_config) = None \<and>
   metal_run example_services (\<lambda>_. Some [1]) quiet_config (replicate 1024 (empty_env, example_metrics))
      (session_start reachable [] default_buffer seeded_config) \<noteq> None"
proof -
  let ?ss = "session_start reachable [] default_buffer seeded_config"
  have ready: "live_ready ?ss" "cl_channel (ss_client ?ss) = []"
    by (simp_all add: live_ready_def session_start_def Session_new_def seeded_config_def connect_def reachable_def unreachable_def
        connected_def is_connected_def is_backpressured_def FlowControl_new_def Client_new_def Let_def)
  have z: "sv_compress example_services d = Some (id d)" for d by (simp add: example_services_def)
  show ?thesis using metal_loop_stalls [OF quiet_interval _ z ready] by simp
qed

end
