(* ===== verification/Metric_Messages.thy ===== *)
theory Metric_Messages
  imports Metal_Batch
begin

text \<open>
  The message in which \<open>send_metrics\<close> of \<open>communication/mod.rs\<close> sends a batch of host metrics (the messages of
  \<open>agent.proto\<close>): the conversion, what a receiver can rebuild of the batch, and the messages of the batches the
  cluster accepts. An unsigned number and the signed one it is cast to are the same word. The parsers of JSON
  and of times are arguments.
\<close>

section \<open>Messages\<close>

type_synonym timestamp = "i64 \<times> i32" \<comment> \<open>seconds and nanoseconds\<close>

record CpuMetric =
  xc_total_usage_percent :: double
  xc_per_core_percent :: "double list"
  xc_load_average_1m :: double
  xc_load_average_5m :: double
  xc_load_average_15m :: double
  xc_frequency_mhz :: double
  xc_context_switches :: i64
  xc_physical_cores :: i32
  xc_logical_cores :: i32
  xc_model_name :: rstring
  xc_vendor_id :: rstring

record MemoryPressure_message =
  xp_some :: "double \<times> double \<times> double" \<comment> \<open>averages over 10, 60 and 300 seconds\<close>
  xp_full :: "double \<times> double \<times> double"

record MemoryTopProcess =
  xt_pid :: i32
  xt_name :: rstring
  xt_rss_bytes :: i64
  xt_vsz_bytes :: i64

record MemoryMetric =
  xm_total_bytes :: i64
  xm_used_bytes :: i64
  xm_free_bytes :: i64
  xm_available_bytes :: i64
  xm_cached_bytes :: i64
  xm_buffer_bytes :: i64
  xm_swap_total_bytes :: i64
  xm_swap_used_bytes :: i64
  xm_usage_percent :: double
  xm_pressure :: "MemoryPressure_message option"
  xm_top_processes :: "MemoryTopProcess list"

record DiskMetric =
  xd_device_name :: rstring
  xd_mount_point :: rstring
  xd_filesystem_type :: rstring
  xd_total_bytes :: i64
  xd_used_bytes :: i64
  xd_free_bytes :: i64
  xd_read_ops_per_sec :: double
  xd_write_ops_per_sec :: double
  xd_read_bytes_per_sec :: double
  xd_write_bytes_per_sec :: double
  xd_io_latency_ms :: double
  xd_queue_depth :: double
  xd_is_ssd :: bool
  xd_utilization_pct :: double

record TcpStats_message =
  xs_established :: i32
  xs_time_wait :: i32
  xs_close_wait :: i32
  xs_listen :: i32
  xs_retransmit_count :: i64

record NetworkMetric =
  xn_interface_name :: rstring
  xn_rx_bytes_per_sec :: double
  xn_tx_bytes_per_sec :: double
  xn_rx_packets_per_sec :: double
  xn_tx_packets_per_sec :: double
  xn_rx_errors :: i64
  xn_tx_errors :: i64
  xn_rx_dropped :: i64
  xn_tx_dropped :: i64
  xn_tcp_retransmits :: i64
  xn_estimated_rtt_ms :: double
  xn_total_rx_bytes :: i64
  xn_total_tx_bytes :: i64
  xn_total_rx_packets :: i64
  xn_total_tx_packets :: i64
  xn_speed_mbps :: i64
  xn_is_up :: bool
  xn_tcp_stats :: "TcpStats_message option"

record ProcessMetric =
  xr_pid :: i32
  xr_parent_pid :: i32
  xr_name :: rstring
  xr_command_line :: rstring
  xr_cpu_usage_percent :: double
  xr_rss_bytes :: i64
  xr_vsz_bytes :: i64
  xr_status :: rstring
  xr_thread_count :: i32
  xr_fd_count :: i32
  xr_container_id :: rstring
  xr_started_at :: "timestamp option"
  xr_exe :: rstring
  xr_disk_read_bytes :: i64
  xr_disk_written_bytes :: i64
  xr_user_id :: rstring

record ContainerMetric =
  xk_container_id :: rstring
  xk_runtime :: rstring
  xk_name :: rstring
  xk_image :: rstring
  xk_status :: rstring
  xk_cgroup_version :: rstring
  xk_pids :: "i32 list"
  xk_memory_limit_bytes :: i64
  xk_cpu_quota :: double
  xk_cpu_shares :: i64

text \<open>The fields for health checks, log entries, network events, labels and self-metrics stay empty.\<close>

record MetricBatch =
  xb_agent_id :: rstring
  xb_session_id :: rstring
  xb_sequence_number :: i64
  xb_timestamp :: timestamp
  xb_cpu :: "CpuMetric option"
  xb_memory :: "MemoryMetric option"
  xb_disks :: "DiskMetric list"
  xb_interfaces :: "NetworkMetric list"
  xb_processes :: "ProcessMetric list"
  xb_containers :: "ContainerMetric list"

section \<open>Conversion\<close>

definition unwrap_or :: "'a \<Rightarrow> 'a option \<Rightarrow> 'a" where
  "unwrap_or d v = (case v of Some x \<Rightarrow> x | None \<Rightarrow> d)"

definition cpu_message :: "CpuMetrics \<Rightarrow> CpuMetric" where
  "cpu_message c =
     \<lparr>xc_total_usage_percent = cm_total_usage_percent c, xc_per_core_percent = cm_per_core_percent c,
      xc_load_average_1m = unwrap_or (Finite 0) (cm_load_average_1m c), xc_load_average_5m = unwrap_or (Finite 0) (cm_load_average_5m c),
      xc_load_average_15m = unwrap_or (Finite 0) (cm_load_average_15m c), xc_frequency_mhz = cm_frequency_mhz c,
      xc_context_switches = unwrap_or 0 (cm_context_switches c), xc_physical_cores = cm_physical_cores c,
      xc_logical_cores = cm_logical_cores c, xc_model_name = cm_model_name c, xc_vendor_id = unwrap_or [] (cm_vendor_id c)\<rparr>"

definition memory_message :: "MemoryMetrics \<Rightarrow> MemoryMetric" where
  "memory_message m =
     \<lparr>xm_total_bytes = mm_total_bytes m, xm_used_bytes = mm_used_bytes m, xm_free_bytes = mm_free_bytes m,
      xm_available_bytes = mm_available_bytes m, xm_cached_bytes = unwrap_or 0 (mm_cached_bytes m),
      xm_buffer_bytes = unwrap_or 0 (mm_buffer_bytes m), xm_swap_total_bytes = mm_swap_total_bytes m,
      xm_swap_used_bytes = mm_swap_used_bytes m, xm_usage_percent = mm_usage_percent m,
      xm_pressure = map_option (\<lambda>p. \<lparr>xp_some = mp_some p, xp_full = mp_full p\<rparr>) (mm_pressure m),
      xm_top_processes = map (\<lambda>p. \<lparr>xt_pid = pm_pid p, xt_name = pm_name p, xt_rss_bytes = pm_rss_bytes p, xt_vsz_bytes = pm_vsz_bytes p\<rparr>)
        (mm_top_processes m)\<rparr>"

definition disk_message :: "DiskDevice \<Rightarrow> DiskMetric" where
  "disk_message d =
     \<lparr>xd_device_name = dd_device_name d, xd_mount_point = dd_mount_point d, xd_filesystem_type = dd_filesystem_type d,
      xd_total_bytes = dd_total_bytes d, xd_used_bytes = dd_used_bytes d, xd_free_bytes = dd_free_bytes d,
      xd_read_ops_per_sec = unwrap_or (Finite 0) (dd_read_ops_per_sec d), xd_write_ops_per_sec = unwrap_or (Finite 0) (dd_write_ops_per_sec d),
      xd_read_bytes_per_sec = unwrap_or (Finite 0) (dd_read_bytes_per_sec d),
      xd_write_bytes_per_sec = unwrap_or (Finite 0) (dd_write_bytes_per_sec d),
      xd_io_latency_ms = unwrap_or (Finite 0) (dd_io_latency_ms d), xd_queue_depth = unwrap_or (Finite 0) (dd_queue_depth d),
      xd_is_ssd = dd_is_ssd d, xd_utilization_pct = dd_utilization_pct d\<rparr>"

definition tcp_stats_message :: "TcpStats \<Rightarrow> TcpStats_message" where
  "tcp_stats_message t =
     \<lparr>xs_established = ts_active_connections t, xs_time_wait = ts_time_wait t, xs_close_wait = 0, xs_listen = ts_listen t,
      xs_retransmit_count = ts_retransmits t\<rparr>"

definition interface_message :: "TcpStats option \<Rightarrow> NetworkInterface \<Rightarrow> NetworkMetric" where
  "interface_message tcp n =
     \<lparr>xn_interface_name = ni_interface_name n, xn_rx_bytes_per_sec = ni_rx_bytes_per_sec n, xn_tx_bytes_per_sec = ni_tx_bytes_per_sec n,
      xn_rx_packets_per_sec = ni_rx_packets_per_sec n, xn_tx_packets_per_sec = ni_tx_packets_per_sec n,
      xn_rx_errors = ni_rx_errors n, xn_tx_errors = ni_tx_errors n,
      xn_rx_dropped = unwrap_or 0 (ni_rx_dropped n), xn_tx_dropped = unwrap_or 0 (ni_tx_dropped n),
      xn_tcp_retransmits = unwrap_or 0 (ni_tcp_retransmits n), xn_estimated_rtt_ms = unwrap_or (Finite 0) (ni_estimated_rtt_ms n),
      xn_total_rx_bytes = ni_total_rx_bytes n, xn_total_tx_bytes = ni_total_tx_bytes n,
      xn_total_rx_packets = ni_total_rx_packets n, xn_total_tx_packets = ni_total_tx_packets n,
      xn_speed_mbps = unwrap_or 0 (ni_speed_mbps n), xn_is_up = ni_is_up n, xn_tcp_stats = map_option tcp_stats_message tcp\<rparr>"

definition process_message :: "(rstring \<Rightarrow> timestamp option) \<Rightarrow> ProcessInfo \<Rightarrow> ProcessMetric" where
  "process_message rfc3339 p =
     \<lparr>xr_pid = pi_pid p, xr_parent_pid = pi_parent_pid p, xr_name = pi_name p, xr_command_line = pi_command_line p,
      xr_cpu_usage_percent = pi_cpu_usage_percent p, xr_rss_bytes = pi_rss_bytes p, xr_vsz_bytes = pi_vsz_bytes p,
      xr_status = pi_status p, xr_thread_count = unwrap_or 0 (pi_thread_count p), xr_fd_count = unwrap_or 0 (pi_fd_count p),
      xr_container_id = unwrap_or [] (pi_container_id p), xr_started_at = Option.bind (pi_started_at p) rfc3339,
      xr_exe = unwrap_or [] (pi_exe p), xr_disk_read_bytes = unwrap_or 0 (pi_disk_read_bytes p),
      xr_disk_written_bytes = unwrap_or 0 (pi_disk_written_bytes p), xr_user_id = unwrap_or [] (pi_user_id p)\<rparr>"

definition container_message :: "ContainerInfo \<Rightarrow> ContainerMetric" where
  "container_message c =
     (let limits = ci_resource_limits c in
      \<lparr>xk_container_id = ci_container_id c, xk_runtime = ci_runtime c, xk_name = ci_name c, xk_image = ci_image c,
       xk_status = ci_status c, xk_cgroup_version = ci_cgroup_version c, xk_pids = ci_pids c,
       xk_memory_limit_bytes = unwrap_or 0 (rl_memory_limit_bytes limits), xk_cpu_quota = unwrap_or (Finite 0) (rl_cpu_quota limits),
       xk_cpu_shares = unwrap_or 0 (rl_cpu_shares limits)\<rparr>)"

definition metric_batch ::
  "(rstring \<Rightarrow> timestamp option) \<Rightarrow> rstring \<Rightarrow> rstring \<Rightarrow> u64 \<Rightarrow> timestamp \<Rightarrow> MetalBatch \<Rightarrow> MetricBatch" where
  "metric_batch rfc3339 agent_id session_id seq now metal =
     \<lparr>xb_agent_id = agent_id, xb_session_id = session_id, xb_sequence_number = seq, xb_timestamp = now,
      xb_cpu = map_option cpu_message (mb_cpu metal), xb_memory = map_option memory_message (mb_memory metal),
      xb_disks = unwrap_or [] (map_option (map disk_message) (mb_disk metal)),
      xb_interfaces = unwrap_or [] (map_option (\<lambda>n. map (interface_message (nm_tcp_stats n)) (nm_interfaces n)) (mb_network metal)),
      xb_processes = unwrap_or [] (map_option (map (process_message rfc3339)) (mb_process metal)),
      xb_containers = unwrap_or [] (map_option (map container_message) (mb_container metal))\<rparr>"

text \<open>A sample that is no batch counts as an empty one.\<close>

definition empty_batch :: MetalBatch where
  "empty_batch = \<lparr>mb_timestamp = [], mb_cpu = None, mb_memory = None, mb_disk = None, mb_network = None, mb_process = None,
     mb_container = None\<rparr>"

text \<open>The message of the call that \<open>send_metrics\<close> makes, if it makes one.\<close>

record message_services =
  ms_json :: "bytes \<Rightarrow> MetalBatch option"
  ms_rfc3339 :: "rstring \<Rightarrow> timestamp option"

definition metrics_request :: "message_services \<Rightarrow> 'e services \<Rightarrow> timestamp \<Rightarrow> metrics_env \<Rightarrow> bytes \<Rightarrow> session \<Rightarrow> MetricBatch option" where
  "metrics_request ms sv now env d ss =
     (let seq = cl_sequence_counter (ss_client ss); ss = update_client next_sequence ss in
      if sv_compress sv d = None then None
      else if is_backpressured (ss_flow ss) \<and> d_less (sampling_rate (ss_flow ss)) (mv_random env) then None
      else (case (if ss_identity_valid ss then send_live (sv_compress sv) d ss else Some ss) of
              None \<Rightarrow> None
            | Some ss \<Rightarrow>
                if connected ss \<and> gr_client (ss_grpc ss)
                then Some (metric_batch (ms_rfc3339 ms) (ss_agent_id ss) (ss_session_id ss) seq now
                       (unwrap_or empty_batch (ms_json ms d)))
                else None))"

section \<open>What a receiver can rebuild\<close>








definition tcp_stats_of_message :: "TcpStats_message \<Rightarrow> TcpStats" where
  "tcp_stats_of_message t =
     \<lparr>ts_retransmits = xs_retransmit_count t, ts_active_connections = xs_established t, ts_time_wait = xs_time_wait t,
      ts_listen = xs_listen t\<rparr>"



















lemma tcp_rebuilt [simp]: "tcp_stats_of_message (tcp_stats_message t) = t"
  by (cases t) (simp add: tcp_stats_of_message_def tcp_stats_message_def)

lemma interface_tcp [simp]: "xn_tcp_stats (interface_message tcp n) = map_option tcp_stats_message tcp"
  by (simp add: interface_message_def)





section \<open>The messages the cluster accepts\<close>

lemma send_live_keeps:
  "send_live c d ss = Some ss' \<Longrightarrow> ss_agent_id ss' = ss_agent_id ss \<and> ss_session_id ss' = ss_session_id ss \<and>
     cl_sequence_counter (ss_client ss') = cl_sequence_counter (ss_client ss)"
  by (auto simp: send_live_def raw_send_def grpc_send_def split: if_splits option.splits)

lemma send_metrics_numbers:
  assumes "send_metrics sv env d ss = Some (r, ss')"
  shows "ss_agent_id ss' = ss_agent_id ss \<and> ss_session_id ss' = ss_session_id ss \<and>
    cl_sequence_counter (ss_client ss') = cl_sequence_counter (ss_client ss) + 1"
  using assms
proof (cases rule: send_metrics_cases)
  case (live c ss2)
  have "ss_agent_id ss2 = ss_agent_id ss" "ss_session_id ss2 = ss_session_id ss"
      "cl_sequence_counter (ss_client ss2) = cl_sequence_counter (ss_client ss) + 1"
    using live(2) by (auto simp: update_client_def next_sequence_def dest: send_live_keeps split: if_splits)
  then show ?thesis by (simp add: live(4) buffer_metrics_def update_client_def buffer_data_def Let_def)
qed (simp_all add: buffer_metrics_def update_client_def buffer_data_def next_sequence_def)

text \<open>A sample that the cluster accepts went out in a message with the next number and the batch it decodes to.\<close>

lemma sent_requested:
  assumes "send_metrics sv env d ss = Some (Batch_sent, ss')"
  shows "metrics_request ms sv now env d ss = Some (metric_batch (ms_rfc3339 ms) (ss_agent_id ss) (ss_session_id ss)
    (cl_sequence_counter (ss_client ss)) now (unwrap_or empty_batch (ms_json ms d)))"
proof -
  let ?ss = "update_client next_sequence ss"
  have c: "sv_compress sv d \<noteq> None" "\<not> (is_backpressured (ss_flow ?ss) \<and> d_less (sampling_rate (ss_flow ?ss)) (mv_random env))"
    using assms by (auto simp: send_metrics_def Let_def split: option.splits if_splits)
  obtain z ss2 where s: "(if ss_identity_valid ?ss then send_live (sv_compress sv) d ?ss else Some ?ss) = Some ss2"
      "call_or_buffer (sv_bincode sv) env z ss2 = (Batch_sent, ss')"
    using assms c by (auto simp: send_metrics_def Let_def split: option.splits if_splits)
  have "ss_agent_id ss2 = ss_agent_id ss" "ss_session_id ss2 = ss_session_id ss"
    using s(1) by (auto simp: update_client_def dest: send_live_keeps split: if_splits)
  moreover have "connected ss2" "gr_client (ss_grpc ss2)"
    using s(2) by (auto simp: call_or_buffer_def rpc_call_def Let_def split: if_splits prod.splits sum.splits)
  ultimately show ?thesis using c s(1) unfolding metrics_request_def Let_def by simp
qed

text \<open>The messages of samples sent one after the other, each with the time it is sent.\<close>

fun requests_of :: "message_services \<Rightarrow> 'e services \<Rightarrow> (timestamp \<times> metrics_env \<times> bytes) list \<Rightarrow> session \<Rightarrow> MetricBatch option list" where
  "requests_of ms sv [] ss = []"
| "requests_of ms sv ((now, env, d) # xs) ss =
     metrics_request ms sv now env d ss #
     (case send_metrics sv env d ss of None \<Rightarrow> [] | Some (r, ss) \<Rightarrow> requests_of ms sv xs ss)"

lemma requests_of_sent:
  "run_sends (metrics_send sv) (map snd xs) ss = Some (rs, ss') \<Longrightarrow> i < length xs \<Longrightarrow> rs ! i = Batch_sent \<Longrightarrow>
     requests_of ms sv xs ss ! i = Some (metric_batch (ms_rfc3339 ms) (ss_agent_id ss) (ss_session_id ss)
       (cl_sequence_counter (ss_client ss) + of_nat i) (fst (xs ! i)) (unwrap_or empty_batch (ms_json ms (snd (snd (xs ! i))))))"
proof (induction xs arbitrary: ss rs i)
  case (Cons x xs)
  obtain now env d where x: "x = (now, env, d)" by (cases x)
  have "run_sends (metrics_send sv) ((env, d) # map snd xs) ss = Some (rs, ss')" using Cons.prems(1) by (simp add: x)
  then obtain r s1 rs' where m: "metrics_send sv (env, d) ss = Some (r, s1)" "run_sends (metrics_send sv) (map snd xs) s1 = Some (rs', ss')"
      "rs = r # rs'"
    by (rule run_sends_Cons)
  have s: "send_metrics sv env d ss = Some (r, s1)" using m(1) by (simp add: metrics_send_def)
  show ?case
  proof (cases i)
    case 0
    then show ?thesis using Cons.prems(3) s m(3) sent_requested [of sv env d ss s1 ms now] by (simp add: x)
  next
    case (Suc j)
    then show ?thesis using Cons.IH [OF m(2), of j] Cons.prems(2,3) s m(3) send_metrics_numbers [OF s] by (simp add: x algebra_simps)
  qed
qed simp

text \<open>C9. No batch of the loop is lost or changed: the batch of each round is accepted by the cluster in a
  message made of exactly what was collected in that round, with the number of the round, or its compressed
  form is in the edge buffer, in order and nothing else; whatever collectors fail and whether the agent is
  connected, as long as what is kept fits into the budget and does not expire, and JSON reads the batches back
  as they were printed.\<close>

theorem metal_batches_reach_cluster:
  assumes "metal_parse_duration (mt_interval config) = Inr i" "i \<noteq> 0"
    and "ec_sqlite_path ec = None" "unat (ec_max_memory_bytes ec) < 2 ^ 62" "\<And>d. sv_compress sv d = Some (z d)"
    and "start = session_start env path (EdgeBuffer_new init ec) agent_config"
    and run: "metal_run sv (\<lambda>b. Some (f b)) config evs start = Some (Inr (map Some rs, bc, ss))"
    and "write_total (kept (metrics_entry z) (\<lambda>r. r = Batch_sent) (samples_of f config evs) rs) \<le> unat (ec_max_memory_bytes ec)"
      "none_expires (ec_entry_ttl ec) [] (kept (metrics_entry z) (\<lambda>r. r = Batch_sent) (samples_of f config evs) rs)"
    and "length clock = length evs" "\<And>b. b \<in> set (batches_of config evs BatchCollector_new) \<Longrightarrow> ms_json ms (f b) = Some b"
  shows "length rs = length evs \<and>
    (\<forall>k < length evs. rs ! k = Batch_sent \<longrightarrow> mv_answer (snd (evs ! k)) = Inr True \<and>
       requests_of ms sv (zip clock (samples_of f config evs)) start ! k =
         Some (metric_batch (ms_rfc3339 ms) (ac_id (cf_agent agent_config)) [] (1 + of_nat k) (clock ! k)
           (batches_of config evs BatchCollector_new ! k))) \<and>
    map (\<lambda>e. (be_data e, be_data_type e)) (eb_buffer (cl_buffer (ss_client ss))) =
      map (\<lambda>(b, r). (z (f b), Metrics)) (filter (\<lambda>(b, r). r \<noteq> Batch_sent) (zip (batches_of config evs BatchCollector_new) rs))"
proof -
  let ?bs = "batches_of config evs BatchCollector_new" and ?xs = "zip clock (samples_of f config evs)"
  note d = metal_batches_delivered_or_kept [OF assms(1-5) run [unfolded assms(6)] assms(8,9)]
  have xs: "map snd ?xs = samples_of f config evs" "length ?xs = length evs" "length (samples_of f config evs) = length evs"
    using assms(10) by (simp_all add: samples_of_def)
  have sends: "run_sends (metrics_send sv) (map snd ?xs) start = Some (rs, ss)"
    using run unfolding metal_run_rounds [OF assms(1,2)] xs by (auto simp: inj_map_eq_map)
  have ids: "ss_agent_id start = ac_id (cf_agent agent_config)" "ss_session_id start = []" "cl_sequence_counter (ss_client start) = 1"
    by (simp_all add: assms(6) session_start_def Session_new_def Client_new_def Let_def)
  have "requests_of ms sv ?xs start ! k = Some (metric_batch (ms_rfc3339 ms) (ac_id (cf_agent agent_config)) [] (1 + of_nat k)
      (clock ! k) (?bs ! k))" if k: "k < length evs" "rs ! k = Batch_sent" for k
  proof -
    have "?xs ! k = (clock ! k, snd (evs ! k), f (?bs ! k))" using k(1) assms(10) by (simp add: samples_of_def)
    moreover have "ms_json ms (f (?bs ! k)) = Some (?bs ! k)" using k(1) by (intro assms(11)) simp
    moreover have "k < length ?xs" using k(1) by (simp only: xs(2))
    ultimately show ?thesis using requests_of_sent [OF sends _ k(2), of ms] by (simp only: ids unwrap_or_def option.case fst_conv snd_conv)
  qed
  note requests = this
  have answers: "mv_answer (snd (evs ! k)) = Inr True" if "k < length evs" "rs ! k = Batch_sent" for k
    using list_all2_nthD [OF d [THEN conjunct2, THEN conjunct1] that(1)] that(2) by simp
  show ?thesis
    by (intro conjI allI impI) (rule d [THEN conjunct1], erule (1) answers, erule (1) requests, rule d [THEN conjunct2, THEN conjunct2])
qed

text \<open>A sample that JSON does not read back, for example because it holds a number that is not finite, goes out
  as an empty batch; if the cluster accepts that, the sample counts as sent and is not kept.\<close>

lemma unreadable_sample_lost:
  assumes "send_metrics sv env d ss = Some (Batch_sent, ss')" "ms_json ms d = None" "sv_compress sv d = Some c"
  shows "cl_buffer (ss_client ss') = cl_buffer (ss_client ss) \<and>
    (\<exists>x. metrics_request ms sv now env d ss = Some x \<and> xb_cpu x = None \<and> xb_memory x = None \<and> xb_disks x = [] \<and>
      xb_interfaces x = [] \<and> xb_processes x = [] \<and> xb_containers x = [])"
  using send_metrics_buffer [OF assms(1,3)] sent_requested [OF assms(1), of ms now] assms(2)
  by (simp add: metric_batch_def empty_batch_def unwrap_or_def)

section \<open>Examples\<close>



definition example_messages :: message_services where
  "example_messages = \<lparr>ms_json = (\<lambda>_. Some (fst (collect_all quiet_config empty_env BatchCollector_new))), ms_rfc3339 = (\<lambda>_. None)\<rparr>"

lemma quiet_batch:
  "fst (collect_all quiet_config empty_env bc) = \<lparr>mb_timestamp = [], mb_cpu = None, mb_memory = None, mb_disk = None,
     mb_network = None, mb_process = None, mb_container = None\<rparr>"
  by (rule MetalBatch.equality) (simp_all add: collect_all_parts reports_def quiet_config_def cpu_enabled_def empty_env_def)

lemma quiet_batches:
  "batches_of quiet_config [(empty_env, m), (empty_env, m')] bc =
     [fst (collect_all quiet_config empty_env bc), fst (collect_all quiet_config empty_env (snd (collect_all quiet_config empty_env bc)))]"
  by (simp add: batches_of_Cons batches_of_def [of _ "[]"] case_prod_beta Let_def)

text \<open>Two rounds, of which the cluster accepts the first.\<close>

theorem metal_batches_reach_cluster_witness:
  "\<exists>bc ss. metal_run example_services (\<lambda>_. Some [1]) quiet_config [(empty_env, example_metrics), (empty_env, refused_metrics)]
      (session_start reachable [] default_buffer small_config) = Some (Inr ([Some Batch_sent, Some Batch_buffered], bc, ss)) \<and>
    (\<exists>x. requests_of example_messages example_services
       (zip [(0, 0), (10, 0)] (samples_of (\<lambda>_. [1]) quiet_config [(empty_env, example_metrics), (empty_env, refused_metrics)]))
       (session_start reachable [] default_buffer small_config) ! 0 = Some x \<and> xb_sequence_number x = 1 \<and>
       xb_agent_id x = ac_id (cf_agent small_config)) \<and>
    map (\<lambda>e. (be_data e, be_data_type e)) (eb_buffer (cl_buffer (ss_client ss))) = [([1], Metrics)]"
proof -
  let ?ss = "session_start reachable [] default_buffer small_config"
  let ?evs = "[(empty_env, example_metrics), (empty_env, refused_metrics)]"
  obtain bc ss where run: "metal_run example_services (\<lambda>_. Some [1]) quiet_config ?evs ?ss = Some (Inr (map Some [Batch_sent, Batch_buffered], bc, ss))"
      and buffer: "map (\<lambda>e. (be_data e, be_data_type e)) (eb_buffer (cl_buffer (ss_client ss))) = [([1], Metrics)]"
    using metal_batches_delivered_or_kept_example by auto
  have xs: "samples_of (\<lambda>_. [1]) quiet_config ?evs = [(example_metrics, [1]), (refused_metrics, [1])]"
    by (simp add: samples_of_def batches_of_def Let_def split: prod.splits)
  have k: "kept (metrics_entry id) (\<lambda>r. r = Batch_sent) (samples_of (\<lambda>_. [1]) quiet_config ?evs) [Batch_sent, Batch_buffered] =
      [Write example_env [1] Metrics]"
    unfolding xs by (simp add: metrics_entry_def refused_metrics_def example_metrics_def)
  have fits: "write_total (kept (metrics_entry id) (\<lambda>r. r = Batch_sent) (samples_of (\<lambda>_. [1]) quiet_config ?evs) [Batch_sent, Batch_buffered])
        \<le> unat (ec_max_memory_bytes EdgeBufferConfig_default)"
      "none_expires (ec_entry_ttl EdgeBufferConfig_default) []
        (kept (metrics_entry id) (\<lambda>r. r = Batch_sent) (samples_of (\<lambda>_. [1]) quiet_config ?evs) [Batch_sent, Batch_buffered])"
    unfolding k by (simp_all add: EdgeBufferConfig_default_def write_total_def none_expires_def example_env_def)
  have c: "sv_compress example_services d = Some (id d)" for d by (simp add: example_services_def)
  have json: "b \<in> set (batches_of quiet_config ?evs BatchCollector_new) \<Longrightarrow> ms_json example_messages [1] = Some b" for b
    unfolding quiet_batches by (simp add: example_messages_def quiet_batch)
  have e: "ec_sqlite_path EdgeBufferConfig_default = None" "unat (ec_max_memory_bytes EdgeBufferConfig_default) < 2 ^ 62"
    by (simp_all add: EdgeBufferConfig_default_def)
  have "length [(0 :: i64, 0 :: i32), (10, 0)] = length ?evs" by simp
  from metal_batches_reach_cluster [OF quiet_interval _ e c refl run fits this json]
  have "\<exists>x. requests_of example_messages example_services (zip [(0, 0), (10, 0)] (samples_of (\<lambda>_. [1]) quiet_config ?evs)) ?ss ! 0 = Some x \<and>
      xb_sequence_number x = 1 \<and> xb_agent_id x = ac_id (cf_agent small_config)"
    by (auto simp: metric_batch_def dest: spec [of _ 0])
  then show ?thesis using run buffer by auto
qed

end
