(* ===== verification/Stream_Listener.thy ===== *)
theory Stream_Listener
  imports Metal_Base Session_Facts
begin

text \<open>
  What the agent tells the cluster when it registers, and the task that listens to the cluster
  (\<open>register_on_connect\<close>, \<open>collect_local_ips\<close> and \<open>start_stream_listener\<close> of \<open>communication/mod.rs\<close>). The
  listener is a state machine; the events of the other tasks of the session come between its own.
\<close>

section \<open>Registration\<close>

text \<open>The gateway of a default route in a line of \<open>/proc/net/route\<close>.\<close>

definition route_gateway :: "rstring \<Rightarrow> rstring option" where
  "route_gateway line =
     (let words = split_whitespace line in
      if 3 \<le> length words \<and> words ! 1 = lit ''00000000'' \<and> words ! 2 \<noteq> lit ''00000000''
      then map_option (\<lambda>gw. format_ip (of_nat gw)) (parse_uint 16 32 (words ! 2)) else None)"

definition add_gateway :: "rstring \<Rightarrow> rstring list \<Rightarrow> rstring list" where
  "add_gateway line ips =
     (case route_gateway line of None \<Rightarrow> ips | Some ip \<Rightarrow> if ip \<in> set ips then ips else ips @ [ip])"

text \<open>The address a socket to the outside has, if there is one, is an argument.\<close>

definition collect_local_ips :: "rstring option \<Rightarrow> host \<Rightarrow> rstring list" where
  "collect_local_ips outgoing h =
     (let ips = (case outgoing of Some ip \<Rightarrow> if starts_with (lit ''127.'') ip then [] else [ip] | None \<Rightarrow> []) in
      case ho_file h (lit ''/proc/net/route'') of
        None \<Rightarrow> ips
      | Some table \<Rightarrow> if microsoft_kernel h then fold add_gateway (drop 1 (str_lines table)) ips else ips)"

definition get_hostname :: "env_vars \<Rightarrow> rstring" where
  "get_hostname env =
     (case env (lit ''COMPUTERNAME'') of
        Some name \<Rightarrow> name
      | None \<Rightarrow> (case env (lit ''HOSTNAME'') of Some name \<Rightarrow> name | None \<Rightarrow> lit ''unknown''))"

record AgentCapabilities =
  ca_has_metal_scraper :: bool
  ca_has_ebpf_observer :: bool
  ca_has_supervisor :: bool
  ca_has_sdk :: bool
  ca_supported_compression :: "rstring list"
  ca_os :: rstring
  ca_arch :: rstring

text \<open>Labels and the start of the agent are left empty.\<close>

record AgentRegistration =
  rg_agent_id :: rstring
  rg_hostname :: rstring
  rg_ip_addresses :: "rstring list"
  rg_version :: rstring
  rg_capabilities :: AgentCapabilities
  rg_twin_id :: rstring
  rg_client_id :: rstring
  rg_cluster_agent_id :: rstring
  rg_os :: rstring
  rg_arch :: rstring

text \<open>On Linux; the version and the architecture are those the agent was built with.\<close>

record build =
  bu_version :: rstring
  bu_arch :: rstring

definition registration_request :: "build \<Rightarrow> env_vars \<Rightarrow> rstring option \<Rightarrow> host \<Rightarrow> session \<Rightarrow> AgentRegistration" where
  "registration_request b env outgoing h ss =
     \<lparr>rg_agent_id = ss_agent_id ss, rg_hostname = get_hostname env, rg_ip_addresses = collect_local_ips outgoing h,
      rg_version = bu_version b,
      rg_capabilities = \<lparr>ca_has_metal_scraper = True, ca_has_ebpf_observer = True, ca_has_supervisor = True, ca_has_sdk = False,
        ca_supported_compression = [lit ''zstd''], ca_os = lit ''linux'', ca_arch = bu_arch b\<rparr>,
      rg_twin_id = [], rg_client_id = [],
      rg_cluster_agent_id = (case ss_cluster_agent_id ss of Some i \<Rightarrow> i | None \<Rightarrow> []), rg_os = lit ''linux'', rg_arch = bu_arch b\<rparr>"

section \<open>The addresses of a printed routing table\<close>

definition gateway_of :: "u32 \<times> u32 \<Rightarrow> rstring option" where
  "gateway_of r = (if fst r = 0 \<and> snd r \<noteq> 0 then Some (format_ip (snd r)) else None)"

text \<open>A line of the table: the interface, destination and gateway in hexadecimal, and what else the kernel prints.\<close>

definition route_words :: "rstring \<times> u32 \<times> u32 \<times> rstring list \<Rightarrow> rstring list" where
  "route_words r = (case r of (name, dest, gw, rest) \<Rightarrow> name # hex_fixed 8 (unat dest) # hex_fixed 8 (unat gw) # rest)"

lemma hex_word: "parse_uint 16 32 (hex_fixed 8 (unat w)) = Some (unat w)" for w :: u32
  using unat_bound [of w] by (simp add: parse_uint_hex)

lemma hex_fixed_0: "hex_fixed 8 0 = [48, 48, 48, 48, 48, 48, 48, 48]"
proof -
  have "(8 :: nat) = Suc (Suc (Suc (Suc (Suc (Suc (Suc (Suc 0)))))))" by simp
  then show ?thesis by (simp only: hex_fixed.simps) (simp add: hex_digit_def)
qed

lemma hex_zero: "hex_fixed 8 (unat w) = [48, 48, 48, 48, 48, 48, 48, 48] \<longleftrightarrow> w = 0" for w :: u32
  using hex_word [of w] hex_word [of 0] hex_fixed_0 by (metis option.inject unsigned_0 unsigned_word_eqI)

lemma route_gateway_printed:
  "list_all visible (name # rest) \<Longrightarrow> route_gateway (line_of (route_words (name, dest, gw, rest))) = gateway_of (dest, gw)"
  by (simp add: route_gateway_def route_words_def visible_hex hex_word hex_zero hex_fixed_0 gateway_of_def Let_def)

lemma fold_gateways:
  "distinct ips \<Longrightarrow> distinct (fold add_gateway ls ips) \<and>
     set (fold add_gateway ls ips) = set ips \<union> {ip. \<exists>line \<in> set ls. route_gateway line = Some ip}"
proof (induction ls arbitrary: ips)
  case (Cons l ls)
  have "distinct (add_gateway l ips)" "set (add_gateway l ips) = set ips \<union> {ip. route_gateway l = Some ip}"
    using Cons.prems by (auto simp: add_gateway_def split: option.splits)
  then show ?case using Cons.IH [of "add_gateway l ips"] by auto
qed simp

text \<open>In WSL2 the agent reports its own address and the gateways of the default routes, each once.\<close>

lemma local_ips_with_gateways:
  assumes "ho_file h (lit ''/proc/net/route'') = Some (printed (header # map route_words rs))" "microsoft_kernel h"
    and "list_all visible header" "\<And>name dest gw rest. (name, dest, gw, rest) \<in> set rs \<Longrightarrow> list_all visible (name # rest)"
    and "\<not> starts_with (lit ''127.'') own"
  shows "distinct (collect_local_ips (Some own) h) \<and>
    set (collect_local_ips (Some own) h) = insert own {format_ip gw | name gw rest. (name, 0, gw, rest) \<in> set rs \<and> gw \<noteq> 0}"
proof -
  have vis: "list_all (list_all visible) (header # map route_words rs)"
    using assms(3,4) by (auto simp: list_all_iff route_words_def visible_hex)
  have ips: "collect_local_ips (Some own) h = fold add_gateway (map (\<lambda>r. line_of (route_words r)) rs) [own]"
    using assms(1,2,5) by (simp add: collect_local_ips_def lines_of_printed [OF vis] comp_def)
  have "route_gateway (line_of (route_words r)) = Some ip \<longleftrightarrow>
      (\<exists>name gw rest. r = (name, 0, gw, rest) \<and> gw \<noteq> 0 \<and> format_ip gw = ip)" if "r \<in> set rs" for r ip
  proof -
    obtain name dest gw rest where r: "r = (name, dest, gw, rest)" by (cases r)
    show ?thesis using route_gateway_printed [OF assms(4) [OF that [unfolded r]], of dest gw] by (simp add: r gateway_of_def)
  qed
  then have "{ip. \<exists>line \<in> set (map (\<lambda>r. line_of (route_words r)) rs). route_gateway line = Some ip} =
      {ip. \<exists>r \<in> set rs. \<exists>name gw rest. r = (name, 0, gw, rest) \<and> gw \<noteq> 0 \<and> format_ip gw = ip}"
    by (simp cong: bex_cong)
  also have "\<dots> = {format_ip gw | name gw rest. (name, 0, gw, rest) \<in> set rs \<and> gw \<noteq> 0}" by blast
  finally have "{ip. \<exists>line \<in> set (map (\<lambda>r. line_of (route_words r)) rs). route_gateway line = Some ip} =
      {format_ip gw | name gw rest. (name, 0, gw, rest) \<in> set rs \<and> gw \<noteq> 0}" .
  then show ?thesis unfolding ips using fold_gateways [of "[own]" "map (\<lambda>r. line_of (route_words r)) rs"] by simp
qed

section \<open>The listener\<close>

text \<open>The numbers a heartbeat outside the stream reports; no task calls this.\<close>

definition set_backlog_info :: "u64 \<Rightarrow> int \<Rightarrow> session \<Rightarrow> session" where
  "set_backlog_info n since ss = ss\<lparr>ss_backlog_bytes := n, ss_backlog_since_epoch := since\<rparr>"

datatype listener = Waiting | Streaming | Stopped

datatype open_answer = Stream_opened | Stream_refused | Open_timed_out

text \<open>
  A poll of the connection, once in a second, with the answer to the call that opens the stream and whether
  the first heartbeat could be sent; the 30-second interval, with the uptime and whether the heartbeat could
  be sent; what the stream yields: an error, its end or a message; the cancel signal; an event of another task.
\<close>

datatype listener_event =
    Connect_poll open_answer int bool
  | Interval_tick int bool
  | Stream_received command_env "rstring + cluster_message option"
  | Cancel_seen
  | Elsewhere session_event

definition stream_heartbeat :: "int \<Rightarrow> session \<Rightarrow> HeartbeatRequest" where
  "stream_heartbeat uptime ss =
     \<lparr>hb_agent_id = ss_agent_id ss, hb_session_id = ss_session_id ss, hb_uptime_seconds = uptime, hb_edge_buffer_bytes = 0,
      hb_edge_buffer_count = 0, hb_backlog_bytes = 0, hb_backlog_since_epoch = 0\<rparr>"

text \<open>The heartbeat sent, if any. Events that do not belong to a phase do not occur in it.\<close>

fun listener_step :: "'e services \<Rightarrow> listener_event \<Rightarrow> listener \<times> session \<Rightarrow>
    (HeartbeatRequest option \<times> listener \<times> session) option" where
  "listener_step sv (Elsewhere ev) (l, ss) = map_option (\<lambda>ss. (None, l, ss)) (session_step sv ev ss)"
| "listener_step sv (Connect_poll answer uptime sent) (Waiting, ss) =
     Some (if ss_cancelled ss then (None, Stopped, ss)
           else if \<not> connected ss then (None, Waiting, ss)
           else if gr_channel (ss_grpc ss) \<and> answer = Stream_opened \<and> sent
           then (Some (stream_heartbeat uptime ss), Streaming, ss)
           else (None, Stopped, ss))"
| "listener_step sv (Interval_tick uptime sent) (Streaming, ss) =
     Some (if sent then (Some (stream_heartbeat uptime ss), Streaming, ss) else (None, Stopped, ss))"
| "listener_step sv (Stream_received env m) (Streaming, ss) =
     (case m of
        Inr (Some msg) \<Rightarrow> map_option (\<lambda>ss. (None, Streaming, ss)) (dispatch_cluster_message sv env msg ss)
      | _ \<Rightarrow> Some (None, Stopped, ss))"
| "listener_step sv Cancel_seen (Streaming, ss) = Some (None, if ss_cancelled ss then Stopped else Streaming, ss)"
| "listener_step sv _ (l, ss) = Some (None, l, ss)"

fun listener_run :: "'e services \<Rightarrow> listener_event list \<Rightarrow> listener \<times> session \<Rightarrow>
    (HeartbeatRequest list \<times> listener \<times> session) option" where
  "listener_run sv [] st = Some ([], st)"
| "listener_run sv (ev # evs) st =
     Option.bind (listener_step sv ev st) (\<lambda>(hb, st').
       map_option (\<lambda>(hbs, st''). (case hb of Some h \<Rightarrow> h # hbs | None \<Rightarrow> hbs, st'')) (listener_run sv evs st'))"

section \<open>What the listener does to the session\<close>

text \<open>The events of the session in a run: those of the other tasks, and a message for each that the stream
  yields before it stops.\<close>

fun session_events :: "listener_event \<Rightarrow> listener \<Rightarrow> session_event list" where
  "session_events (Elsewhere ev) l = [ev]"
| "session_events (Stream_received env (Inr (Some msg))) Streaming = [Stream_message env msg]"
| "session_events _ l = []"

fun elsewhere :: "listener_event list \<Rightarrow> session_event list" where
  "elsewhere [] = []"
| "elsewhere (ev # evs) = (case ev of Elsewhere e \<Rightarrow> e # elsewhere evs | _ \<Rightarrow> elsewhere evs)"

lemma listener_step_session:
  "listener_step sv ev (l, ss) = Some (hb, l', ss') \<Longrightarrow> session_run sv (session_events ev l) ss = Some ss'"
  by (cases "(sv, ev, l, ss)" rule: listener_step.cases)
    (auto simp: Option.bind_eq_Some_conv split: if_splits sum.splits option.splits)

lemma session_run_append:
  "session_run sv (xs @ ys) ss = Option.bind (session_run sv xs ss) (session_run sv ys)"
proof (induction xs arbitrary: ss)
  case (Cons x xs)
  then show ?case by (cases "session_step sv x ss") simp_all
qed simp

text \<open>A run with the listener is a run of the session, so what holds of every run holds of it too.\<close>

lemma listener_run_session:
  "listener_run sv evs (l, ss) = Some (hbs, l', ss') \<Longrightarrow>
     \<exists>es. session_run sv es ss = Some ss' \<and> set (elsewhere evs) \<subseteq> set es \<and>
       set es \<subseteq> set (elsewhere evs) \<union> {Stream_message env msg | env msg. Stream_received env (Inr (Some msg)) \<in> set evs}"
proof (induction evs arbitrary: l ss hbs)
  case (Cons ev evs)
  obtain hb l1 ss1 hbs1 where s: "listener_step sv ev (l, ss) = Some (hb, l1, ss1)" "listener_run sv evs (l1, ss1) = Some (hbs1, l', ss')"
    using Cons.prems by (auto simp: Option.bind_eq_Some_conv)
  obtain es where es: "session_run sv es ss1 = Some ss'" "set (elsewhere evs) \<subseteq> set es"
      "set es \<subseteq> set (elsewhere evs) \<union> {Stream_message env msg | env msg. Stream_received env (Inr (Some msg)) \<in> set evs}"
    using Cons.IH [OF s(2)] by blast
  have "session_run sv (session_events ev l @ es) ss = Some ss'"
    using listener_step_session [OF s(1)] es(1) by (simp add: session_run_append)
  moreover have "set (elsewhere (ev # evs)) \<subseteq> set (session_events ev l @ es)"
    using es(2) by (cases ev) auto
  moreover have "set (session_events ev l @ es) \<subseteq> set (elsewhere (ev # evs)) \<union>
      {Stream_message env msg | env msg. Stream_received env (Inr (Some msg)) \<in> set (ev # evs)}"
    using es(3) by (cases "(ev, l)" rule: session_events.cases) auto
  ultimately show ?case by blast
qed auto

lemma stopped_step:
  "listener_step sv ev (Stopped, ss) = map_option (\<lambda>ss. (None, Stopped, ss)) (session_run sv (elsewhere [ev]) ss)"
proof (cases ev)
  case (Elsewhere e)
  then show ?thesis by (cases "session_step sv e ss") simp_all
qed simp_all

lemma stopped_run:
  "listener_run sv evs (Stopped, ss) = map_option (\<lambda>ss'. ([], Stopped, ss')) (session_run sv (elsewhere evs) ss)"
proof (induction evs arbitrary: ss)
  case (Cons ev evs)
  have "elsewhere (ev # evs) = elsewhere [ev] @ elsewhere evs" by (cases ev) simp_all
  then show ?case using Cons.IH
    by (cases "session_run sv (elsewhere [ev]) ss")
      (simp_all add: stopped_step session_run_append option.map_comp comp_def del: elsewhere.simps)
qed simp

text \<open>The listener is never started again: one refused or late opening, one heartbeat that cannot be sent, one
  error or the end of the stream, and no message of the cluster on a stream has an effect any more.\<close>

lemma listener_stops_for_good:
  assumes "listener_step sv ev (l, ss) = Some (hb, Stopped, ss1)"
  shows "listener_run sv (ev # evs) (l, ss) =
    map_option (\<lambda>ss'. (case hb of Some h \<Rightarrow> [h] | None \<Rightarrow> [], Stopped, ss')) (session_run sv (elsewhere evs) ss1)"
  by (simp add: assms stopped_run option.map_comp comp_def split: option.splits)

text \<open>An agent that is retired (command 8) while the stream is open is cancelled; if the stream has ended before, it
  is not, although the connection still stands.\<close>

lemma retired_only_on_stream:
  assumes "listener_step sv (Stream_received env m) (Streaming, ss) = Some (None, Stopped, ss1)"
  shows "listener_run sv [Stream_received env (Inr (Some (Command_message 8 [])))] (Streaming, ss) =
      Some ([], Streaming, ss\<lparr>ss_cancelled := True\<rparr>) \<and>
    listener_run sv [Stream_received env m, Stream_received env (Inr (Some (Command_message 8 [])))] (Streaming, ss) =
      Some ([], Stopped, ss)"
proof -
  have "ss1 = ss" using assms by (auto split: sum.splits option.splits)
  show ?thesis
    unfolding listener_stops_for_good [OF assms] \<open>ss1 = ss\<close>
    by (simp add: handle_agent_command_def command_of_def command_numbers_def)
qed

text \<open>No heartbeat of the stream tells what is in the edge buffer and the backlog.\<close>

lemma stream_heartbeats_report_no_backlog:
  "listener_run sv evs st = Some (hbs, st') \<Longrightarrow>
     list_all (\<lambda>h. hb_edge_buffer_bytes h = 0 \<and> hb_edge_buffer_count h = 0 \<and> hb_backlog_bytes h = 0) hbs"
proof (induction evs arbitrary: st hbs)
  case (Cons ev evs)
  obtain hb st1 hbs1 where s: "listener_step sv ev st = Some (hb, st1)" "listener_run sv evs st1 = Some (hbs1, st')"
      "hbs = (case hb of Some h \<Rightarrow> h # hbs1 | None \<Rightarrow> hbs1)"
    using Cons.prems by (auto simp: Option.bind_eq_Some_conv)
  have "hb = None \<or> (\<exists>uptime ss. hb = Some (stream_heartbeat uptime ss))"
    using s(1) by (cases "(sv, ev, st)" rule: listener_step.cases)
      (auto split: if_splits sum.splits option.splits)
  then show ?case using Cons.IH [OF s(2)] s(3) by (auto simp: stream_heartbeat_def)
qed simp

end
