(* ===== verification/Agent_Main.thy ===== *)
theory Agent_Main
  imports Session_Facts Config_Persist
begin

text \<open>
  The start of the agent (\<open>main.rs\<close>) and the metrics about itself (\<open>observability.rs\<close>): the command line, the
  atomic counters and gauges, the endpoint that prints them, and the steps of \<open>main\<close> up to the background
  loops. Which orderings an atomic operation accepts is the standard library's; with another one it panics.
  The cache of the tenant id (\<open>communication/tenant.rs\<close>) is here too, since nothing uses it.
\<close>

section \<open>Metrics of the agent\<close>

datatype Ordering = Relaxed | Release | Acquire | AcqRel | SeqCst

abbreviation ACQ_REL :: Ordering where "ACQ_REL \<equiv> AcqRel"
abbreviation RELAXED :: Ordering where "RELAXED \<equiv> Relaxed"

text \<open>A store panics with an ordering that acquires.\<close>

definition atomic_store :: "Ordering \<Rightarrow> 'a \<Rightarrow> 'a option" where
  "atomic_store order v = (if order = Acquire \<or> order = AcqRel then None else Some v)"

record AgentMetrics =
  am_metrics_collected :: u64
  am_errors_total :: u64
  am_grpc_connected :: bool
  am_ebpf_active :: bool
  am_memory_bytes :: u64
  am_edge_buffer_size :: u64

definition AgentMetrics_new :: AgentMetrics where
  "AgentMetrics_new = \<lparr>am_metrics_collected = 0, am_errors_total = 0, am_grpc_connected = False, am_ebpf_active = False,
     am_memory_bytes = 0, am_edge_buffer_size = 0\<rparr>"

definition inc_metrics_collected :: "u64 \<Rightarrow> AgentMetrics \<Rightarrow> AgentMetrics" where
  "inc_metrics_collected count m = m\<lparr>am_metrics_collected := am_metrics_collected m + count\<rparr>"

definition inc_errors :: "AgentMetrics \<Rightarrow> AgentMetrics" where
  "inc_errors m = m\<lparr>am_errors_total := am_errors_total m + 1\<rparr>"

definition set_grpc_connected :: "bool \<Rightarrow> AgentMetrics \<Rightarrow> AgentMetrics option" where
  "set_grpc_connected b m = map_option (\<lambda>v. m\<lparr>am_grpc_connected := v\<rparr>) (atomic_store ACQ_REL b)"

definition set_ebpf_active :: "bool \<Rightarrow> AgentMetrics \<Rightarrow> AgentMetrics option" where
  "set_ebpf_active b m = map_option (\<lambda>v. m\<lparr>am_ebpf_active := v\<rparr>) (atomic_store ACQ_REL b)"

definition set_memory_bytes :: "u64 \<Rightarrow> AgentMetrics \<Rightarrow> AgentMetrics option" where
  "set_memory_bytes n m = map_option (\<lambda>v. m\<lparr>am_memory_bytes := v\<rparr>) (atomic_store RELAXED n)"

definition set_edge_buffer_size :: "u64 \<Rightarrow> AgentMetrics \<Rightarrow> AgentMetrics option" where
  "set_edge_buffer_size n m = map_option (\<lambda>v. m\<lparr>am_edge_buffer_size := v\<rparr>) (atomic_store RELAXED n)"

text \<open>One metric in the exposition format: two comments and the value.\<close>

definition exposition :: "string \<Rightarrow> string \<Rightarrow> string \<Rightarrow> nat \<Rightarrow> rstring" where
  "exposition name help kind v =
     lit ''# HELP '' @ lit name @ lit '' '' @ lit help @ [10] @ lit ''# TYPE '' @ lit name @ lit '' '' @ lit kind @ [10] @
     lit name @ lit '' '' @ decimal v @ [10]"

definition render_prometheus :: "AgentMetrics \<Rightarrow> rstring" where
  "render_prometheus m =
     exposition ''paryty_agent_metrics_collected_total'' ''Total metrics collected across all layers.'' ''counter'' (unat (am_metrics_collected m)) @
     exposition ''paryty_agent_errors_total'' ''Total errors across all collection layers.'' ''counter'' (unat (am_errors_total m)) @
     exposition ''paryty_agent_grpc_connected'' ''1 if gRPC connected, 0 otherwise.'' ''gauge'' (of_bool (am_grpc_connected m)) @
     exposition ''paryty_agent_ebpf_active'' ''1 if eBPF loaded, 0 if fallback active.'' ''gauge'' (of_bool (am_ebpf_active m)) @
     exposition ''paryty_agent_memory_bytes'' ''Current RSS memory usage in bytes.'' ''gauge'' (unat (am_memory_bytes m)) @
     exposition ''paryty_agent_edge_buffer_size'' ''Current edge buffer queue depth.'' ''gauge'' (unat (am_edge_buffer_size m))"

text \<open>One request of the endpoint: what the connection delivers, and the response if there is one. The JSON
  printer is an argument.\<close>

definition answer_request :: "(AgentMetrics \<Rightarrow> rstring) \<Rightarrow> AgentMetrics \<Rightarrow> bytes \<Rightarrow> rstring option" where
  "answer_request render_json m buf =
     (if buf = [] then None
      else (let request = from_utf8_lossy (take 4096 buf);
                first_line = (case str_lines request of [] \<Rightarrow> [] | l # _ \<Rightarrow> l);
                (content_type, body) =
                  (if str_contains (lit ''/metrics'') first_line then (lit ''text/plain; version=0.0.4'', render_prometheus m)
                   else (lit ''application/json'', render_json m))
            in Some (lit ''HTTP/1.1 200 OK'' @ [13, 10] @ lit ''Content-Type: '' @ content_type @ [13, 10] @
                 lit ''Content-Length: '' @ decimal (str_len body) @ [13, 10] @ lit ''Connection: close'' @ [13, 10, 13, 10] @ body)))"

section \<open>Command line\<close>

record CliArgs =
  cli_config_path :: "rstring option"
  cli_set_key :: "rstring option"
  cli_cluster_agent_id :: "rstring option"

datatype cli_outcome = Arguments CliArgs | Exit nat

text \<open>The arguments after the program's name; an option that needs a value is unknown without one.\<close>

fun parse_args :: "rstring list \<Rightarrow> CliArgs \<Rightarrow> cli_outcome" where
  "parse_args [] result = Arguments result"
| "parse_args (a # rest) result =
     (case rest of
        v # rest' \<Rightarrow>
          if a = lit ''-c'' \<or> a = lit ''--config'' then parse_args rest' (result\<lparr>cli_config_path := Some v\<rparr>)
          else if a = lit ''--cluster-agent-id'' then parse_args rest' (result\<lparr>cli_cluster_agent_id := Some v\<rparr>)
          else if a = lit ''--key'' then parse_args rest' (result\<lparr>cli_set_key := Some v\<rparr>)
          else if a = lit ''-h'' \<or> a = lit ''--help'' then Exit 0 else Exit 1
      | [] \<Rightarrow> if a = lit ''-h'' \<or> a = lit ''--help'' then Exit 0 else Exit 1)"

definition parse_cli :: "rstring list \<Rightarrow> cli_outcome" where
  "parse_cli args = parse_args args \<lparr>cli_config_path = None, cli_set_key = None, cli_cluster_agent_id = None\<rparr>"

section \<open>Start\<close>

text \<open>What \<open>main\<close> meets: arguments, environment, files, parser and printer of YAML, a fresh identifier, and
  the attempt to connect.\<close>

record main_env =
  me_args :: "rstring list"
  me_vars :: env_vars
  me_files :: "rstring \<Rightarrow> config_file"
  me_yaml :: "rstring \<Rightarrow> Config option"
  me_uuid :: rstring
  me_persist :: persist_env
  me_connect :: connect_env

datatype main_outcome =
    Exited nat
  | Key_stored config_file
  | Failed
  | Panicked
  | Loops_started session AgentMetrics

definition config_path_of :: "main_env \<Rightarrow> CliArgs \<Rightarrow> rstring" where
  "config_path_of env cli =
     (case cli_config_path cli of
        Some p \<Rightarrow> p
      | None \<Rightarrow> (case me_vars env (lit ''PARYTY_AGENT_CONFIG'') of Some p \<Rightarrow> p | None \<Rightarrow> lit ''configs/agent/agent.yaml''))"

definition agent_main :: "main_env \<Rightarrow> main_outcome" where
  "agent_main env =
     (case parse_cli (me_args env) of
        Exit code \<Rightarrow> Exited code
      | Arguments cli \<Rightarrow>
          (let path = config_path_of env cli in
           case cli_set_key cli of
             Some new_key \<Rightarrow>
               (case persist_api_key (me_persist env) new_key (me_files env path) of
                  (Inl _, _) \<Rightarrow> Failed
                | (Inr _, f) \<Rightarrow> Key_stored f)
           | None \<Rightarrow>
               (case load_from_path (me_yaml env) (me_uuid env) (me_vars env) (me_files env path) of
                  None \<Rightarrow> Panicked
                | Some (Inl _) \<Rightarrow> Failed
                | Some (Inr config) \<Rightarrow>
                    (let ss = session_start (me_connect env) path default_buffer config;
                         success = (fst (connect (me_connect env) (set_config_path path (GrpcClient_new config))) = Inr ())
                     in case set_grpc_connected success AgentMetrics_new of
                       None \<Rightarrow> Panicked
                     | Some m \<Rightarrow> Loops_started ss m))))"

text \<open>C12. The agent never gets as far as its background loops: after its first attempt to connect, whether it
  succeeds or not, it sets a gauge with an ordering that stores do not accept, and panics. With a
  configuration that loads and no key to store the outcome is that panic.\<close>

theorem agent_never_starts:
  "agent_main env \<noteq> Loops_started ss m \<and>
   (parse_cli (me_args env) = Arguments cli \<longrightarrow> cli_set_key cli = None \<longrightarrow>
    load_from_path (me_yaml env) (me_uuid env) (me_vars env) (me_files env (config_path_of env cli)) = Some (Inr config) \<longrightarrow>
    agent_main env = Panicked)"
  by (auto simp: agent_main_def set_grpc_connected_def atomic_store_def Let_def split: cli_outcome.splits option.splits sum.splits prod.splits)

definition example_main :: main_env where
  "example_main =
     \<lparr>me_args = [], me_vars = key_environment, me_files = (\<lambda>_. Content []), me_yaml = (\<lambda>_. Some small_config), me_uuid = [],
      me_persist = tiny_yaml, me_connect = reachable\<rparr>"

theorem agent_never_starts_witness: "agent_main example_main = Panicked"
proof -
  let ?cli = "\<lparr>cli_config_path = None, cli_set_key = None, cli_cluster_agent_id = None\<rparr>"
  have cli: "parse_cli (me_args example_main) = Arguments ?cli" by (simp add: parse_cli_def example_main_def)
  have config: "load_from_path (me_yaml example_main) (me_uuid example_main) (me_vars example_main)
      (me_files example_main (config_path_of example_main ?cli)) = Some (Inr small_config)"
    by (simp add: example_main_def load_from_path_def example_loads)
  show ?thesis using agent_never_starts [of example_main] cli config by (metis CliArgs.select_convs(2))
qed

text \<open>The identifier given on the command line is read and used for nothing.\<close>

lemma cluster_agent_id_option_unused:
  assumes "parse_cli (me_args env) = Arguments (cli\<lparr>cli_cluster_agent_id := x\<rparr>)" "parse_cli args = Arguments cli"
  shows "agent_main (env\<lparr>me_args := args\<rparr>) = agent_main env"
proof -
  have env: "me_args (env\<lparr>me_args := args\<rparr>) = args" "me_vars (env\<lparr>me_args := args\<rparr>) = me_vars env"
    "me_files (env\<lparr>me_args := args\<rparr>) = me_files env" "me_yaml (env\<lparr>me_args := args\<rparr>) = me_yaml env"
    "me_uuid (env\<lparr>me_args := args\<rparr>) = me_uuid env" "me_persist (env\<lparr>me_args := args\<rparr>) = me_persist env"
    "me_connect (env\<lparr>me_args := args\<rparr>) = me_connect env"
    by simp_all
  have cli: "cli_config_path (cli\<lparr>cli_cluster_agent_id := x\<rparr>) = cli_config_path cli"
    "cli_set_key (cli\<lparr>cli_cluster_agent_id := x\<rparr>) = cli_set_key cli" by simp_all
  show ?thesis unfolding agent_main_def config_path_of_def env assms cli_outcome.case cli ..
qed

text \<open>Every request that arrives is answered with success; one that names no metrics gets the health report.\<close>

lemma every_request_succeeds:
  "buf \<noteq> [] \<Longrightarrow> \<exists>rest. answer_request render_json m buf = Some (lit ''HTTP/1.1 200 OK'' @ rest)"
  by (simp add: answer_request_def Let_def case_prod_beta)

section \<open>The cache of the tenant id\<close>

text \<open>The file (None if there is none, or if it cannot be read), and the operations on it.\<close>

definition tenant_read :: "rstring option \<Rightarrow> rstring option" where
  "tenant_read f = (case f of None \<Rightarrow> None | Some content \<Rightarrow> if trim content = [] then None else Some (trim content))"

definition tenant_write :: "bool \<Rightarrow> bool \<Rightarrow> rstring \<Rightarrow> rstring option \<Rightarrow> bool \<times> rstring option" where
  "tenant_write dir_ok write_ok tenant_id f = (if dir_ok \<and> write_ok then (True, Some tenant_id) else (False, f))"

definition tenant_clear :: "bool \<Rightarrow> rstring option \<Rightarrow> bool \<times> rstring option" where
  "tenant_clear remove_ok f = (case f of None \<Rightarrow> (True, None) | Some c \<Rightarrow> if remove_ok then (True, None) else (False, f))"

lemma tenant_read_written:
  "tenant_write d w tid f = (True, f') \<Longrightarrow> tenant_read f' = (if trim tid = [] then None else Some (trim tid))"
  by (auto simp: tenant_write_def tenant_read_def split: if_splits)

lemma tenant_read_cleared: "tenant_clear r f = (True, f') \<Longrightarrow> tenant_read f' = None"
  by (auto simp: tenant_clear_def tenant_read_def split: option.splits if_splits)

end
