(* ===== verification/Spec2Isabelle.thy ===== *)
theory Spec2Isabelle
  imports Layout_Facts Http_Messages Db_Reports Client_Reports Observer_Loop Flow_Spec Grpc_Facts Session_Metrics Log_Lines
    Supervisor Event_Messages Config_Persist Metric_Messages Stream_Listener Agent_Main
begin

text \<open>
  \<^bold>\<open>The kernel observers of the Paryty agent and their consumers\<close>

  Paryty's agent watches the network from inside the kernel. Four BPF programs in C
  (\<open>agent/src/ebpf/bpf/\<close>) attach to kernel functions, read the connection 4-tuple of the socket
  at hand and push packed event structs into ring buffers; the agent's Rust modules
  (\<open>agent/src/ebpf/*.rs\<close>) take the records from the rings and turn them into network events.
  Where kernel programs cannot run, the agent compares snapshots of \<open>/proc/net/tcp\<close> instead. The
  development models the programs, the kernel types they are compiled against, the byte format
  that crosses the rings, the consumers' side of it, the database protocol inspector, the \<open>/proc\<close>
  observer, how the agent chooses, starts and runs an observer, and the client through which the
  observers send: its edge buffer, its connection and session with the cluster, its flow control; with
  the configuration that sets it up, the supervisor with its health checks, log tailers and discovery, the
  collectors of host metrics, and the start of the agent.

  \<^bold>\<open>Parts and theories\<close>

  \<^item> \<open>Prelude\<close>: C integers as words, little-endian images, \<open>bpf_ntohs\<close>, rule collections.
  \<^item> \<open>CTypes\<close>: C types with size, alignment, bit-field placement and member lookup for the
    x86-64 ABI; proved once for all types: members lie inside their object, at aligned offsets,
    and disjoint.
  \<^item> \<open>Vmlinux_Base\<close>, \<open>Vmlinux_Net\<close>, \<open>Vmlinux_Task\<close>, \<open>Vmlinux_Bpf\<close>: declarations of
    \<open>vmlinux.h\<close> transcribed one definition per C declaration, each with its computed layout: the
    socket types, messages and socket buffers, tasks and probe registers, maps and ring buffers.
  \<^item> \<open>Kernel_Types\<close>, \<open>Layout_Facts\<close>: where the members the programs read lie, in
    \<open>struct sock\<close> and in every socket type derived from it; probe argument registers; the pages
    of the ring buffer object; agreement of the C event structs with the Rust structs; round
    trips of the four events.
  \<^item> \<open>Bpf_Helpers\<close>: the BPF runtime as parameters of the programs. \<open>bpf_ctx\<close> holds what the
    helpers return (thread id, time, command, memory, CO-RE relocations); \<open>hash_ops\<close> and
    \<open>ring_ops\<close> are the map operations, with the contracts \<open>bpf_hash\<close>, \<open>bpf_hash_bounded\<close>
    and \<open>bpf_ring\<close> as locales. Element pointers are slots of the map, so a read through a
    pointer after the element was deleted is expressible; that a preallocated map keeps the
    values of deleted elements is the contract \<open>bpf_hash_prealloc\<close>, in \<open>Db_Probe\<close>.
  \<^item> \<open>Bpf_Reference\<close>: an executable preallocated hash map and ring that meet the contracts.
  \<^item> \<open>Sock_Access\<close>: CO-RE reads of the 4-tuple from a socket object of any layout that
    relocation resolves; a concrete kernel memory for runs.
  \<^item> \<open>Probe_Pair\<close>, \<open>Ring_Probe\<close>: the two shapes of program, as locales: an entry probe and a
    return probe correlated by thread id, and a stateless probe with one ring.
  \<^item> \<open>Events\<close>, \<open>Wire\<close>: \<open>common.h\<close> (limits, codes, the four event structs as records, layouts
    and byte images) and the agent's reading of the records.
  \<^item> \<open>Tcp_Tracker\<close>, \<open>Dns_Mapper\<close>, \<open>Http_Inspector\<close>, \<open>Db_Probe\<close>: the four
    \<open>.bpf.c\<close> programs, handler by handler.
  \<^item> \<open>Utf8\<close>, \<open>Text\<close>: the string functions of the Rust standard library the agent uses, with
    the lemmas that say how they act on printed text.
  \<^item> \<open>Agent_Base\<close>, \<open>Agent_Config\<close>: \<open>NetworkEvent\<close> of \<open>mod.rs\<close>, slices, addresses;
    \<open>EbpfConfig\<close> of \<open>config/mod.rs\<close>.
  \<^item> \<open>Tcp_Consumer\<close>, \<open>Dns_Consumer\<close>, \<open>Sni\<close>, \<open>Http_Consumer\<close>, \<open>Http_Messages\<close>: the ring
    buffer callbacks and \<open>drain_events\<close> of \<open>tcp_tracker.rs\<close>, \<open>dns_mapper.rs\<close> and
    \<open>http_inspector.rs\<close>, the TLS server name extractor and the HTTP parsers.
  \<^item> \<open>Db_Inspector\<close> (the classifier), \<open>Db_Parsers\<close> (the parsers of payloads), \<open>Db_Inspect\<close>
    (\<open>DbInspector\<close>: open requests, statistics, \<open>inspect\<close>): \<open>db_inspector.rs\<close>. \<open>Keyed_Table\<close> is
    the contract of a table whose steps touch one slot, as a locale; \<open>Db_Spec\<close> the abstract
    inspector, the refinement and the well-formedness invariant; \<open>Db_Reports\<close> what is reported.
  \<^item> \<open>Proc_Fallback\<close>, \<open>Proc_Polls\<close>: \<open>proc_fallback.rs\<close> and the properties of its polls.
  \<^item> \<open>Observer\<close>, \<open>Observer_Loop\<close>: the checks and loading of \<open>loader.rs\<close>, the mode detection,
    start and event loop of \<open>mod.rs\<close>.
  \<^item> \<open>Edge_Buffer\<close>, \<open>Edge_Spec\<close>: \<open>communication/edge_buffer.rs\<close>, the queue of unsent data in memory
    and in a database table, and what it promises. \<open>Client_Backlog\<close>, \<open>Client_Reports\<close>: the sends and
    flushes of \<open>communication/mod.rs\<close>, \<open>send\<close> of \<open>grpc_client.rs\<close>, the \<open>/proc\<close> loop with its sends.
    \<open>Senders\<close> holds, as locales, the two contracts of a sender: delivered or kept, and queued or stalled;
    the senders of events, batches and metrics are its instances. \<open>Event_Messages\<close>: the conversion of
    network events to the messages of \<open>ebpf.proto\<close>.
  \<^item> \<open>Float64\<close>, \<open>Float64_Bounds\<close>: doubles as rational numbers rounded to 53 bits, with the operations the
    agent uses, the parser of numbers, and why a rounded percentage stays between 0 and 100.
    \<open>Printed_Text\<close>: lines of words as the kernel prints them.
  \<^item> \<open>Flow_Control\<close>, \<open>Flow_Spec\<close>: \<open>communication/flow_control.rs\<close>, the queue by priority, and its
    specification by one list for each priority.
  \<^item> \<open>Config_Load\<close>: \<open>config/mod.rs\<close>, the durations, validation and loading of the configuration.
    \<open>Config_Persist\<close>: \<open>persist_api_key\<close>, which writes a new key into the file.
  \<^item> \<open>Grpc_Client\<close>, \<open>Grpc_Facts\<close>: the connection, credentials and calls of \<open>grpc_client.rs\<close>, the
    reconnection engine of \<open>reconnect.rs\<close>.
  \<^item> \<open>Client_Session\<close>, \<open>Client_Commands\<close>: the \<open>Client\<close> of \<open>communication/mod.rs\<close> as one record:
    identity, registration, metrics; commands, heartbeat, reconnection, shutdown, and the runs of a
    session. \<open>Session_Facts\<close>, \<open>Session_Signals\<close>, \<open>Session_Metrics\<close>: its properties. \<open>Stream_Listener\<close>: the
    message of the registration, and the task that listens to the cluster, as a state machine.
  \<^item> \<open>Log_Tailer\<close>, \<open>Log_Lines\<close>: \<open>supervisor/log_tailer.rs\<close> and the lines it delivers.
    \<open>Health_Checks\<close>: \<open>supervisor/health.rs\<close>, whose table of results is another instance of
    \<open>Keyed_Table\<close>. \<open>Discovery\<close>: \<open>supervisor/discovery.rs\<close>. \<open>Supervisor\<close>: \<open>supervisor/mod.rs\<close>.
  \<^item> \<open>Metal_Base\<close>: the host whose files the collectors of \<open>metal/\<close> read, differences of counters, and
    \<open>sampler\<close>, the contract of a collector that keeps a table of counters from reading to reading.
    \<open>Metal_Cpu\<close>, \<open>Metal_Memory\<close>, \<open>Metal_Disk\<close>, \<open>Metal_Network\<close>, \<open>Metal_Container\<close>, \<open>Metal_Process\<close>: \<open>cpu.rs\<close>,
    \<open>memory.rs\<close>, \<open>disk.rs\<close>, \<open>network.rs\<close>, \<open>container.rs\<close>, \<open>process.rs\<close>; the collectors of disks, interfaces and
    processes are instances of the contract. \<open>Metal_Batch\<close>: \<open>batch.rs\<close> and the loop of \<open>metal/mod.rs\<close>.
    \<open>Metric_Messages\<close>: the messages of \<open>agent.proto\<close> in which \<open>send_metrics\<close> sends the batches.
  \<^item> \<open>Agent_Main\<close>: \<open>main.rs\<close> up to the background loops, \<open>observability.rs\<close>, \<open>communication/tenant.rs\<close>.

  \<^bold>\<open>State and operations\<close>

  A program's maps are a record with one field per BPF map (\<open>tcp_maps\<close>, \<open>db_maps\<close>; the DNS
  and HTTP programs have a single ring). A handler takes the map operations, the calling context
  and the probe arguments and returns the program's return value with the new maps; every early
  return is a branch. Interleaving is explicit: \<open>tcp_probe\<close> and \<open>db_probe\<close> are the events that
  can fire, \<open>tcp_step\<close> and \<open>db_step\<close> run the handler of one event, and \<open>run_steps\<close> a
  sequence of events of any threads. For the one place where finer steps matter, the return probe
  of the database program is split after the deletion of the map element: \<open>part_step\<close> runs an entry
  probe or one half of a return probe, with the element pointers the threads hold. Rust functions that may
  panic return an option, functions that return an error a sum. Hash maps are association lists where
  their entries are listed (the order in which Rust would list them is not specified) and partial
  functions elsewhere; mutexes do not appear, since each object is used by one thread. The clock,
  the contents of \<open>/proc\<close>, process names and the records a poll delivers are arguments; the events
  and batches that are sent are results. The loops of \<open>mod.rs\<close> and \<open>proc_fallback.rs\<close>, which never
  end, are functions of the list of their iterations. A session is a record that holds the connection,
  the reconnection engine, the edge buffer with the raw channel and the flow control; \<open>session_step\<close>
  runs one event of any of its loops or senders, which carries the cluster's answers (for a batch of
  network events its counts of accepted and rejected events) and which locks it finds free, and \<open>session_run\<close> a sequence of them in any order, so
  that the interleavings of the loops are sequences of their rounds. An operation that never returns,
  because it waits for room in the raw channel, and one that panics are the value None. A collector is a
  function of a reading, the host and the time, and of what it kept of the one before; the batch collector
  holds the state of all of them and runs them one after the other, and the loop that sends batches is a
  function of its rounds.

  \<^bold>\<open>What is shown\<close>

  \<^item> TCP and database programs refine abstract probes (\<open>tcp_spec\<close>, \<open>db_spec\<close>) that keep the
    calls under way by thread and the list of reports. The abstract probes are deterministic: given
    whether the map has the thread or room and whether the ring has room, they allow one step, so
    that a call is recorded and reported whenever there is room. Invariants of all runs follow by rule
    induction: which reports exist, that entries carry the ids of their thread, that no entry
    outlives its call.
  \<^item> Under any interleaving a return reports exactly what the entry of the same thread recorded.
    For the database program this holds of the parts of probes as long as no entry is inserted between
    the deletion and the read of the return itself; if one is, the record may be of another socket.
  \<^item> The exact record each program writes for each socket, and that it writes none otherwise.
  \<^item> Layouts: CO-RE reads return the members, socket casts are safe, C and Rust agree on all bytes.
  \<^item> End to end: a connection shows up in the agent's map; DNS and HTTP records never have an
    effect, because the programs do not deliver what the consumers look for; database events are
    never classified and carry no payload; the agent's names of TCP states differ from the kernel's.
  \<^item> What the event loop sends, for any deliveries: the connections of each iteration, nothing else.
  \<^item> The database inspector refines an abstract inspector with one open request per process and
    port; processes and ports are independent; its invariant, its statistics, what it reports for
    PostgreSQL and Redis requests, and replies it misreads.
  \<^item> The \<open>/proc\<close> observer reads printed socket tables completely, its events replay to its table, and
    exactly when its polls fail.
  \<^item> The edge buffer keeps its byte budget, loses nothing while there is room, and returns spilled
    entries until they are acknowledged. Batches of the event loop are answered or kept, and one that the
    cluster answers by rejecting its events is lost. The raw
    channel only fills, stops the \<open>/proc\<close> observer after 1024 events, and swallows what is flushed.
  \<^item> The flow control queue implements its specification and keeps all critical messages; a pause
    of the cluster has no effect on the metrics.
  \<^item> Metrics are accepted or kept, but the live pipeline stops after 1024 samples. The identity of a
    session is consistent, and so are the copies of it that calls carry if their locks were free when it was set;
    when it is attached to calls and when not; what each command does, and that
    retiring the agent does not stop it; that a connection once made is never made again; which errors
    renew the API key and which do not; how long the agent waits before it reconnects. That the
    stream listener stops for good, and its heartbeats report no backlog.
  \<^item> The two parsers of durations agree except for hours. A new API key is written into the file and
    nothing else changes. The log tailer delivers the lines of each file in order as it finds them, and
    none after a line that is not valid text. The table of the health checks holds the last result of each
    check; which ports discovery reports; and that what the supervisor finds waits in the raw channel.
  \<^item> From a state change in the kernel to the message to the cluster: one message with the 4-tuple, the
    process and the number of the state, whose meaning there is another one from 7 on.
  \<^item> CPU usage, disk and network rates and the usage of processes are those of the time between two
    readings, within the bounds of a percentage where they are one; the largest processes are reported,
    by the comparison the code gives to the sort, and the processes of each container; the collectors of a
    batch do not disturb each other. Each
    batch of metrics is accepted in a message made of what was collected, or kept, and the loop stops after
    1024 rounds; what a receiver can rebuild of a batch. Where the collectors misread the host is shown by
    examples.
  \<^item> The agent panics before its background loops start, because the gauge of the connection is stored with
    an ordering that stores do not accept. What is shown of observers, sessions and loops therefore holds
    of a start whose gauge accepts the value.
  \<^item> Exactly how the observer starts or fails, on every host and configuration.
  \<^item> The classifier reads within bounds and agrees with the agent's; the server name extractor
    never panics and finds the name of a ClientHello; the HTTP queue stays bounded.

  \<^bold>\<open>Bounds, fuel, assumptions\<close>

  No definition uses fuel: loops are structural or have a measure. Integers have their C width;
  lengths and offsets are natural numbers, since no sum in the programs can wrap. What is assumed
  is stated in the theorems: the contracts of maps and rings, that \<open>bpf_get_current_comm\<close> fills
  its buffer (\<open>comm_ok\<close>), that a socket object lies at the pointer and its members were relocated
  (\<open>sock_at\<close>), and that the \<open>plain\<close> crate views the bytes of a slice (\<open>plain_view\<close>). Each has
  an instance in the development, used by the witnesses. The f64 value of a latency is a function
  of the elapsed nanoseconds that is left open, and so are what libbpf returns for a program, what
  \<open>bincode\<close> writes (\<open>bincode_ok\<close>: it reads it back) and what the JSON serialiser and the
  compressor write; that JSON reads a batch back as it was printed is assumed where it is used. Whether an SQL statement succeeds, a connection test holds and an RPC is accepted
  is an argument; a statement that succeeds does to the table what SQL says, and rows that \<open>ORDER BY\<close>
  does not separate are taken in the order of insertion.
  Counters of \<open>InspectorStats\<close> wrap at 64 bits, as in a release build. What the cluster answers to a
  call, what the YAML and JSON parsers give, the environment variables, the error library (what an error
  with a context prints) and the random numbers are arguments of the steps. The field \<open>gr_rpcs_sent\<close> is
  the calls' part of the counter \<open>messages_sent\<close>, \<open>cl_messages_sent\<close> the raw channel's part. Each event
  of a session runs to its end before the next; whether the locks of the connection's copies of the ids and
  of the key can be taken at once is an argument. The host does
  not change during one collection, and sums and differences of its counters wrap at 64 bits, as in a
  release build. A reading is at most 2^64 nanoseconds after the one before, some 580 years. The sort of
  the standard library is an argument of which it is assumed that it sorts by every total order (\<open>sorts\<close>),
  equal elements in any order; how times and batches are printed are arguments.

  \<^bold>\<open>Not modelled\<close>

  The verifier, the compilation of the programs (\<open>build.rs\<close>), libbpf's loading and attaching, the
  registration of ring callbacks, the kernel's side of the rings (\<open>bpf_ring\<close> is its contract; its code
  is not in the repository), the asynchronous runtime and its finer interleavings; compression,
  which is a call of a library; logging; the collection of
  host metrics through the \<open>sysinfo\<close> library on systems other than Linux, and the registry and the timed
  collection of \<open>metal/\<close>, which only tests use; in \<open>main.rs\<close> the spawning of the layers and the shutdown; upper
  case forms outside ASCII beyond what comparisons with keywords need; the remaining 155,000 lines of
  \<open>vmlinux.h\<close>, which the programs do not use; and the parts of Paryty outside the observers and their
  client: the Go cluster, the Python intelligence service, the
  web front end, deployment files.
\<close>

end
